(* ===== verification/Flow_Prelude.thy ===== *)
theory Flow_Prelude
  imports Main "HOL-Library.List_Lexorder" "HOL-Library.Char_ord"
begin

text \<open>
  The prelude of the hetuflow development: results (\<open>Result\<close> of the source as a sum),
  Rust integer casts and decimal printing / parsing, first-match search and the row operations
  an SQL statement performs, with the lemmas every component uses.

  Conventions. A Rust \<open>String\<close> is a \<open>string\<close> (ASCII bytes). \<open>i16\<close>, \<open>i32\<close>, \<open>i64\<close> and
  \<open>usize\<close> are \<open>int\<close>/\<open>nat\<close>; every narrowing cast of the source is written out
  (\<open>as_i32\<close>) and so is saturation (\<open>sat_mul_i64\<close>). \<open>Option\<close> is \<open>option\<close>,
  \<open>Result<T, E>\<close> is \<open>E + T\<close>.
\<close>

named_theorems res_simps \<open>rewriting of sequenced checks to their conjunction\<close>
named_theorems row_simps \<open>effect of an UPDATE ... WHERE on a table\<close>

section \<open>Results\<close>

definition bindR :: "'e + 'a \<Rightarrow> ('a \<Rightarrow> 'e + 'b) \<Rightarrow> 'e + 'b" where
  "bindR r f = (case r of Inl e \<Rightarrow> Inl e | Inr x \<Rightarrow> f x)"

definition thenR :: "'e + unit \<Rightarrow> 'e + 'b \<Rightarrow> 'e + 'b" where
  "thenR r s = (case r of Inl e \<Rightarrow> Inl e | Inr _ \<Rightarrow> s)"

definition ensureR :: "bool \<Rightarrow> 'e \<Rightarrow> 'e + unit" where
  "ensureR b e = (if b then Inr () else Inl e)"

definition okR :: "'e + unit" where
  "okR = Inr ()"

text \<open>A \<open>for\<close> loop of checks that returns at the first failing one.\<close>

fun check_all :: "('a \<Rightarrow> 'e + unit) \<Rightarrow> 'a list \<Rightarrow> 'e + unit" where
  "check_all f [] = Inr ()"
| "check_all f (x # xs) = thenR (f x) (check_all f xs)"

definition map_errR :: "('e \<Rightarrow> 'f) \<Rightarrow> 'e + 'a \<Rightarrow> 'f + 'a" where
  "map_errR f r = (case r of Inl e \<Rightarrow> Inl (f e) | Inr x \<Rightarrow> Inr x)"

definition okorR :: "'e \<Rightarrow> 'a option \<Rightarrow> 'e + 'a" where
  "okorR e x = (case x of None \<Rightarrow> Inl e | Some v \<Rightarrow> Inr v)"

definition is_ok :: "'e + 'a \<Rightarrow> bool" where
  "is_ok r = (case r of Inl _ \<Rightarrow> False | Inr _ \<Rightarrow> True)"

lemma bindR_simps [simp]: "bindR (Inl e) f = Inl e" "bindR (Inr x) f = f x"
  by (simp_all add: bindR_def)

lemma bindR_eq_Inr [res_simps]: "bindR r f = Inr y \<longleftrightarrow> (\<exists>x. r = Inr x \<and> f x = Inr y)"
  by (cases r) simp_all

lemma thenR_simps [simp]: "thenR (Inl e) s = Inl e" "thenR (Inr u) s = s"
  by (simp_all add: thenR_def)

lemma thenR_eq_Inr [res_simps]: "thenR r s = Inr y \<longleftrightarrow> r = Inr () \<and> s = Inr y"
  by (cases r) simp_all

lemma ensureR_eq_Inr [res_simps]: "ensureR b e = Inr u \<longleftrightarrow> b"
  by (simp add: ensureR_def)

lemma okR_eq_Inr [res_simps, simp]: "okR = Inr u"
  by (simp add: okR_def)

lemma check_all_eq_Inr [res_simps]: "check_all f xs = Inr u \<longleftrightarrow> (\<forall>x\<in>set xs. f x = Inr ())"
  by (induction xs) (auto simp: thenR_eq_Inr)

text \<open>A failing loop fails with the error of one of its elements.\<close>

lemma check_all_eq_InlD: "check_all f xs = Inl e \<Longrightarrow> \<exists>x\<in>set xs. f x = Inl e"
proof (induction xs)
  case (Cons a xs)
  then show ?case by (cases "f a") auto
qed simp

lemma map_errR_eq_Inr [res_simps]: "map_errR f r = Inr x \<longleftrightarrow> r = Inr x"
  by (cases r) (simp_all add: map_errR_def)

lemma okorR_eq_Inr [res_simps]: "okorR e x = Inr v \<longleftrightarrow> x = Some v"
  by (cases x) (simp_all add: okorR_def)

lemma is_ok_simps [simp]: "\<not> is_ok (Inl e)" "is_ok (Inr x)"
  by (simp_all add: is_ok_def)

section \<open>Lists\<close>

text \<open>The first element that a \<open>HashSet::insert\<close> loop refuses: the first repeated one.\<close>

fun first_dup :: "'a list \<Rightarrow> 'a list \<Rightarrow> 'a option" where
  "first_dup seen [] = None"
| "first_dup seen (x # xs) = (if x \<in> set seen then Some x else first_dup (x # seen) xs)"

lemma first_dup_None_gen: "first_dup seen xs = None \<longleftrightarrow> distinct xs \<and> set xs \<inter> set seen = {}"
  by (induction xs arbitrary: seen) auto

lemma first_dup_None [res_simps]: "first_dup [] xs = None \<longleftrightarrow> distinct xs"
  by (simp add: first_dup_None_gen)

lemma first_dup_Some_in: "first_dup seen xs = Some x \<Longrightarrow> x \<in> set xs"
  by (induction xs arbitrary: seen) (auto split: if_splits)

lemma find_SomeD: "List.find P xs = Some x \<Longrightarrow> x \<in> set xs \<and> P x"
  by (auto simp: find_Some_iff in_set_conv_nth)

lemma find_None_set: "List.find P xs = None \<longleftrightarrow> (\<forall>x\<in>set xs. \<not> P x)"
  by (auto simp: find_None_iff)

lemma find_key_distinct:
  assumes "distinct (map k xs)" "x \<in> set xs"
  shows "List.find (\<lambda>y. k y = k x) xs = Some x"
  using assms by (induction xs) auto

lemma find_append: "List.find P (xs @ ys) = (case List.find P xs of None \<Rightarrow> List.find P ys | Some x \<Rightarrow> Some x)"
  by (induction xs) auto

lemma find_map_upd:
  assumes "\<And>x. k (f x) = k x"
  shows "List.find (\<lambda>r. k r = i) (map (\<lambda>r. if P r then f r else r) xs) =
    map_option (\<lambda>r. if P r then f r else r) (List.find (\<lambda>r. k r = i) xs)"
  using assms by (induction xs) auto

lemma insort_key_snoc_le:
  fixes f :: "'a \<Rightarrow> 'k::linorder"
  assumes "f a \<le> f x"
  shows "insort_key f a (ys @ [x]) = insort_key f a ys @ [x]"
  using assms by (induction ys) auto

lemma sort_key_snoc:
  fixes f :: "'a \<Rightarrow> 'k::linorder"
  assumes "\<forall>y\<in>set xs. f y \<le> f x"
  shows "sort_key f (xs @ [x]) = sort_key f xs @ [x]"
  using assms
proof (induction xs)
  case (Cons a xs)
  then show ?case by (simp add: insort_key_snoc_le)
qed simp

section \<open>Rust integers\<close>

text \<open>\<open>n as i32\<close> keeps the low 32 bits and reads them as two's complement.\<close>

definition as_i32 :: "int \<Rightarrow> int" where
  "as_i32 n = (n + 2 ^ 31) mod 2 ^ 32 - 2 ^ 31"

definition i64_max :: int where "i64_max = 2 ^ 63 - 1"
definition i64_min :: int where "i64_min = - (2 ^ 63)"

text \<open>\<open>i64::saturating_mul\<close>.\<close>

definition sat_mul_i64 :: "int \<Rightarrow> int \<Rightarrow> int" where
  "sat_mul_i64 a b = max i64_min (min i64_max (a * b))"

definition in_i32 :: "int \<Rightarrow> bool" where
  "in_i32 n \<longleftrightarrow> - (2 ^ 31) \<le> n \<and> n < 2 ^ 31"

definition in_i64 :: "int \<Rightarrow> bool" where
  "in_i64 n \<longleftrightarrow> i64_min \<le> n \<and> n \<le> i64_max"

lemma as_i32_id: "in_i32 n \<Longrightarrow> as_i32 n = n"
  by (simp add: as_i32_def in_i32_def)

lemma as_i32_range: "in_i32 (as_i32 n)"
  by (simp add: as_i32_def in_i32_def)

section \<open>Decimal text\<close>

text \<open>\<open>to_string\<close> of an integer and \<open>str::parse::<i64>\<close>: an optional sign, at least one ASCII
  digit, and the value in the range of the type.\<close>

definition digit_char :: "nat \<Rightarrow> char" where
  "digit_char d = char_of (48 + d)"

fun show_nat_rev :: "nat \<Rightarrow> string" where
  "show_nat_rev n = (if n < 10 then [digit_char n] else digit_char (n mod 10) # show_nat_rev (n div 10))"

declare show_nat_rev.simps [simp del]

definition show_nat :: "nat \<Rightarrow> string" where
  "show_nat n = rev (show_nat_rev n)"

definition show_int :: "int \<Rightarrow> string" where
  "show_int i = (if i < 0 then CHR ''-'' # show_nat (nat (- i)) else show_nat (nat i))"

definition is_digit_char :: "char \<Rightarrow> bool" where
  "is_digit_char c \<longleftrightarrow> 48 \<le> (of_char c :: nat) \<and> (of_char c :: nat) \<le> 57"

fun read_digits :: "nat \<Rightarrow> string \<Rightarrow> nat option" where
  "read_digits acc [] = Some acc"
| "read_digits acc (c # cs) =
     (if is_digit_char c then read_digits (10 * acc + (of_char c - 48)) cs else None)"

definition read_nat :: "string \<Rightarrow> nat option" where
  "read_nat s = (if s = [] then None else read_digits 0 s)"

definition parse_int :: "string \<Rightarrow> int option" where
  "parse_int s =
     (case s of
        [] \<Rightarrow> None
      | c # cs \<Rightarrow>
          if c = CHR ''-'' then map_option (\<lambda>n. - int n) (read_nat cs)
          else if c = CHR ''+'' then map_option int (read_nat cs)
          else map_option int (read_nat s))"

definition parse_i64 :: "string \<Rightarrow> int option" where
  "parse_i64 s = (case parse_int s of None \<Rightarrow> None | Some n \<Rightarrow> if in_i64 n then Some n else None)"

lemma of_char_digit: "d < 10 \<Longrightarrow> of_char (digit_char d) = (48 + d :: nat)"
  by (simp add: digit_char_def of_char_of)

lemma is_digit_digit_char: "d < 10 \<Longrightarrow> is_digit_char (digit_char d)"
  by (simp add: is_digit_char_def of_char_digit)

lemma read_digits_append:
  "read_digits acc (xs @ ys) = (case read_digits acc xs of None \<Rightarrow> None | Some m \<Rightarrow> read_digits m ys)"
  by (induction xs arbitrary: acc) auto

lemma read_digits_show: "read_digits 0 (rev (show_nat_rev n)) = Some n"
proof (induction n rule: show_nat_rev.induct)
  case (1 n)
  show ?case
  proof (cases "n < 10")
    case True
    then show ?thesis
      by (subst show_nat_rev.simps) (simp add: is_digit_digit_char of_char_digit)
  next
    case False
    have d: "n mod 10 < 10" by simp
    from False "1" have "read_digits 0 (rev (show_nat_rev (n div 10))) = Some (n div 10)" by simp
    with False d show ?thesis
      by (subst show_nat_rev.simps)
        (simp add: read_digits_append is_digit_digit_char of_char_digit)
  qed
qed

lemma show_nat_rev_nonempty: "show_nat_rev n \<noteq> []"
  by (subst show_nat_rev.simps) simp

lemma show_nat_rev_digits: "c \<in> set (show_nat_rev n) \<Longrightarrow> is_digit_char c"
proof (induction n rule: show_nat_rev.induct)
  case (1 n)
  have d: "n mod 10 < 10" by simp
  from "1.prems" have "c = digit_char (n mod 10) \<or> (\<not> n < 10 \<and> c \<in> set (show_nat_rev (n div 10)))"
    by (subst (asm) show_nat_rev.simps) (auto split: if_splits)
  with "1.IH" d show ?case by (auto simp: is_digit_digit_char)
qed

lemma read_nat_show: "read_nat (show_nat n) = Some n"
  by (simp add: read_nat_def show_nat_def show_nat_rev_nonempty read_digits_show)

lemma show_nat_hd:
  "\<exists>c cs. show_nat n = c # cs \<and> c \<noteq> CHR ''-'' \<and> c \<noteq> CHR ''+''"
proof -
  obtain c cs where s: "show_nat n = c # cs"
    by (cases "show_nat n") (auto simp: show_nat_def show_nat_rev_nonempty)
  then have "c \<in> set (show_nat_rev n)"
    by (metis list.set_intros(1) set_rev show_nat_def)
  then have "is_digit_char c" by (rule show_nat_rev_digits)
  then have "c \<noteq> CHR ''-''" "c \<noteq> CHR ''+''" by (auto simp: is_digit_char_def)
  with s show ?thesis by blast
qed

text \<open>Printing then parsing an integer gives it back.\<close>

lemma parse_int_show: "parse_int (show_int i) = Some i"
proof (cases "i < 0")
  case True
  then show ?thesis by (simp add: show_int_def parse_int_def read_nat_show)
next
  case False
  obtain c cs where s: "show_nat (nat i) = c # cs" "c \<noteq> CHR ''-''" "c \<noteq> CHR ''+''"
    using show_nat_hd by blast
  moreover have "read_nat (c # cs) = Some (nat i)" using read_nat_show [of "nat i"] s by simp
  ultimately show ?thesis using False by (simp add: show_int_def parse_int_def)
qed

lemma parse_i64_show: "in_i64 i \<Longrightarrow> parse_i64 (show_int i) = Some i"
  by (simp add: parse_i64_def parse_int_show)

lemma show_int_inject [simp]: "show_int i = show_int j \<longleftrightarrow> i = j"
  by (metis option.inject parse_int_show)

section \<open>Text helpers\<close>

text \<open>\<open>'..'\<close> around a token of a message, and \<open>trim().is_empty()\<close> for ASCII white space.\<close>

definition quoted :: "string \<Rightarrow> string" where
  "quoted s = CHR 0x27 # s @ [CHR 0x27]"

definition is_space_char :: "char \<Rightarrow> bool" where
  "is_space_char c \<longleftrightarrow> c \<in> {CHR '' '', CHR 0x09, CHR 0x0A, CHR 0x0B, CHR 0x0C, CHR 0x0D}"

definition trim_is_empty :: "string \<Rightarrow> bool" where
  "trim_is_empty s \<longleftrightarrow> list_all is_space_char s"

text \<open>\<open>join\<close> of a slice of strings.\<close>

fun join_with :: "string \<Rightarrow> string list \<Rightarrow> string" where
  "join_with sep [] = []"
| "join_with sep [x] = x"
| "join_with sep (x # y # ys) = x @ sep @ join_with sep (y # ys)"

text \<open>\<open>{:?}\<close> of a string and of a list of strings (printable ASCII and the escapes of quote and
  backslash).\<close>

definition debug_str :: "string \<Rightarrow> string" where
  "debug_str s = CHR 0x22 #
     concat (map (\<lambda>c. if c = CHR 0x22 \<or> c = CHR 0x5C then [CHR 0x5C, c] else [c]) s) @ [CHR 0x22]"

definition debug_strs :: "string list \<Rightarrow> string" where
  "debug_strs xs = ''['' @ join_with '', '' (map debug_str xs) @ '']''"

definition non_empty :: "string \<Rightarrow> bool" where
  "non_empty s \<longleftrightarrow> s \<noteq> []"

definition option_filter :: "('a \<Rightarrow> bool) \<Rightarrow> 'a option \<Rightarrow> 'a option" where
  "option_filter P x = (case x of None \<Rightarrow> None | Some v \<Rightarrow> if P v then Some v else None)"

lemma option_filter_eq_Some [simp]: "option_filter P x = Some v \<longleftrightarrow> x = Some v \<and> P v"
  by (auto simp: option_filter_def split: option.splits if_splits)

definition unwrap_or :: "'a \<Rightarrow> 'a option \<Rightarrow> 'a" where
  "unwrap_or d x = (case x of None \<Rightarrow> d | Some v \<Rightarrow> v)"

lemma unwrap_or_simps [simp]: "unwrap_or d None = d" "unwrap_or d (Some v) = v"
  by (simp_all add: unwrap_or_def)

section \<open>Codecs\<close>

text \<open>
  The interface every enum of the source shares with the database: an encoder into a wire value
  and a decoder that gives it back. A total decoder falls back to a fixed value on unknown input.
\<close>

locale codec =
  fixes enc :: "'a \<Rightarrow> 'b" and dec :: "'b \<Rightarrow> 'a"
  assumes dec_enc: "dec (enc x) = x"
begin

lemma enc_inj: "enc x = enc y \<longleftrightarrow> x = y"
  by (metis dec_enc)

lemma enc_iff: "dec w = x \<Longrightarrow> w \<in> range enc \<Longrightarrow> w = enc x"
  by (auto simp: dec_enc)

end

locale partial_codec =
  fixes enc :: "'a \<Rightarrow> 'b" and dec :: "'b \<Rightarrow> 'a option"
  assumes dec_enc: "dec (enc x) = Some x"
    and dec_only: "dec w = Some x \<Longrightarrow> w = enc x"
begin

lemma enc_inj: "enc x = enc y \<longleftrightarrow> x = y"
  by (metis dec_enc option.inject)

lemma dec_Some_iff: "dec w = Some x \<longleftrightarrow> w = enc x"
  using dec_enc dec_only by auto

lemma dec_None_iff: "dec w = None \<longleftrightarrow> w \<notin> range enc"
  by (metis dec_enc dec_only not_None_eq rangeE rangeI)

end

section \<open>Tables\<close>

text \<open>
  A table is the list of its rows in insertion order. \<open>UPDATE .. SET f WHERE P\<close> maps the rows that
  satisfy \<open>P\<close>; its row count is \<open>count_where P\<close>.
\<close>

definition update_where :: "('r \<Rightarrow> bool) \<Rightarrow> ('r \<Rightarrow> 'r) \<Rightarrow> 'r list \<Rightarrow> 'r list" where
  "update_where P f rs = map (\<lambda>r. if P r then f r else r) rs"

definition count_where :: "('r \<Rightarrow> bool) \<Rightarrow> 'r list \<Rightarrow> nat" where
  "count_where P rs = length (filter P rs)"

lemma update_where_Nil [simp]: "update_where P f [] = []"
  and update_where_Cons [simp]:
    "update_where P f (r # rs) = (if P r then f r else r) # update_where P f rs"
  and update_where_append [simp]:
    "update_where P f (rs @ rs') = update_where P f rs @ update_where P f rs'"
  and length_update_where [simp]: "length (update_where P f rs) = length rs"
  by (simp_all add: update_where_def)

lemma count_where_pos: "0 < count_where P rs \<longleftrightarrow> (\<exists>r\<in>set rs. P r)"
  by (auto simp: count_where_def filter_empty_conv)

lemma count_where_0: "count_where P rs = 0 \<longleftrightarrow> (\<forall>r\<in>set rs. \<not> P r)"
  by (auto simp: count_where_def filter_empty_conv)

lemma update_where_cong_none: "\<forall>r\<in>set rs. \<not> P r \<Longrightarrow> update_where P f rs = rs"
  by (induction rs) auto

lemma update_where_none: "count_where P rs = 0 \<Longrightarrow> update_where P f rs = rs"
  by (simp add: count_where_0 update_where_cong_none)

lemma map_key_update_where [row_simps]:
  "(\<And>r. k (f r) = k r) \<Longrightarrow> map k (update_where P f rs) = map k rs"
  by (induction rs) auto

lemma find_update_where [row_simps]:
  "(\<And>r. k (f r) = k r) \<Longrightarrow>
    List.find (\<lambda>r. k r = i) (update_where P f rs) =
    map_option (\<lambda>r. if P r then f r else r) (List.find (\<lambda>r. k r = i) rs)"
  by (induction rs) auto

lemma filter_update_where [row_simps]:
  "(\<And>r. k (f r) = k r) \<Longrightarrow>
    filter (\<lambda>r. k r = i) (update_where P f rs) = update_where P f (filter (\<lambda>r. k r = i) rs)"
  by (induction rs) auto

lemma in_update_whereE:
  "r \<in> set (update_where P f rs) \<Longrightarrow> \<exists>r0\<in>set rs. r = (if P r0 then f r0 else r0)"
  by (auto simp: update_where_def)

text \<open>\<open>iter_mut().find(P)\<close> followed by a mutation: the first matching row only.\<close>

fun update_first :: "('r \<Rightarrow> bool) \<Rightarrow> ('r \<Rightarrow> 'r) \<Rightarrow> 'r list \<Rightarrow> 'r list" where
  "update_first P f [] = []"
| "update_first P f (r # rs) = (if P r then f r # rs else r # update_first P f rs)"

lemma update_first_none: "\<forall>r\<in>set rs. \<not> P r \<Longrightarrow> update_first P f rs = rs"
  by (induction rs) auto

text \<open>On a table whose key is unique the first match is the only one.\<close>

lemma update_first_unique:
  "distinct (map k rs) \<Longrightarrow> update_first (\<lambda>r. k r = i) f rs = update_where (\<lambda>r. k r = i) f rs"
proof (induction rs)
  case (Cons r rs)
  show ?case
  proof (cases "k r = i")
    case True
    with Cons.prems have "\<forall>x\<in>set rs. \<not> k x = i" by (simp add: image_iff) metis
    with True show ?thesis by (simp add: update_where_cong_none)
  qed (use Cons in auto)
qed simp

lemma map_update_first:
  assumes "\<And>r. P' (g r) = P r" "\<And>r. g (f r) = f' (g r)"
  shows "map g (update_first P f rs) = update_first P' f' (map g rs)"
  using assms by (induction rs) auto

lemma map_update_where:
  assumes "\<And>r. P' (g r) = P r" "\<And>r. g (f r) = f' (g r)"
  shows "map g (update_where P f rs) = update_where P' f' (map g rs)"
  using assms by (induction rs) auto

end
