(* ===== verification/Flow_Json.thy ===== *)
theory Flow_Json
  imports Flow_Prelude
begin

text \<open>
  JSON values as the source uses them: the constructors of a JSON document, with an object as the
  list of its members sorted by key (\<open>serde_json::Map\<close> without \<open>preserve_order\<close> is a
  \<open>BTreeMap\<close>), the accessors \<open>get\<close>, \<open>as_str\<close>, \<open>as_i64\<close>, \<open>as_object\<close>, and the
  canonical text behind \<open>definition_hash\<close>. A non-integer number carries its text. Rendering a
  scalar or a key as JSON text and SHA-256 are functions of crates outside the repository:
  they are parameters.
\<close>

datatype json =
    JNull
  | JBool bool
  | JInt int
  | JFloat string
  | JStr string
  | JArr "json list"
  | JObj "(string \<times> json) list"

type_synonym json_map = "(string \<times> json) list"

fun map_insert :: "string \<Rightarrow> json \<Rightarrow> json_map \<Rightarrow> json_map" where
  "map_insert k v [] = [(k, v)]"
| "map_insert k v ((k', v') # m) =
     (if k = k' then (k, v) # m else if k < k' then (k, v) # (k', v') # m else (k', v') # map_insert k v m)"

text \<open>The object a \<open>json!({..})\<close> literal or a loop of \<open>insert\<close> builds.\<close>

definition obj :: "(string \<times> json) list \<Rightarrow> json" where
  "obj kvs = JObj (fold (\<lambda>(k, v). map_insert k v) kvs [])"

fun json_get :: "string \<Rightarrow> json \<Rightarrow> json option" where
  "json_get k (JObj m) = map_of m k"
| "json_get k _ = None"

fun as_str :: "json \<Rightarrow> string option" where
  "as_str (JStr s) = Some s"
| "as_str _ = None"

fun as_i64 :: "json \<Rightarrow> int option" where
  "as_i64 (JInt n) = (if in_i64 n then Some n else None)"
| "as_i64 _ = None"

fun as_object :: "json \<Rightarrow> json_map option" where
  "as_object (JObj m) = Some m"
| "as_object _ = None"

fun as_array :: "json \<Rightarrow> json list option" where
  "as_array (JArr xs) = Some xs"
| "as_array _ = None"

definition opt_str :: "string option \<Rightarrow> json" where
  "opt_str x = (case x of None \<Rightarrow> JNull | Some s \<Rightarrow> JStr s)"

text \<open>\<open>jsonb || jsonb\<close> on two objects: the right operand wins.\<close>

definition map_merge :: "json_map \<Rightarrow> json_map \<Rightarrow> json_map" where
  "map_merge m p = fold (\<lambda>(k, v). map_insert k v) p m"

lemma map_of_insert: "map_of (map_insert k v m) = (map_of m)(k \<mapsto> v)"
  by (induction k v m rule: map_insert.induct) (auto simp: fun_eq_iff)

lemma map_of_insert_lookup [simp]:
  "map_of (map_insert k v m) k' = (if k' = k then Some v else map_of m k')"
  by (simp add: map_of_insert)

lemma map_of_fold_insert:
  "map_of (fold (\<lambda>(k, v). map_insert k v) kvs m) k =
     (case map_of (rev kvs) k of Some v \<Rightarrow> Some v | None \<Rightarrow> map_of m k)"
  by (induction kvs arbitrary: m) (auto simp: map_add_def split: option.splits)

lemma json_get_obj: "json_get k (obj kvs) = map_of (rev kvs) k"
  by (simp add: obj_def map_of_fold_insert split: option.split)

lemma map_of_rev_keys: "distinct (map fst kvs) \<Longrightarrow> map_of (rev kvs) k = map_of kvs k"
proof (induction kvs)
  case (Cons a kvs)
  then have "fst a \<notin> fst ` set kvs" and IH: "map_of (rev kvs) k = map_of kvs k" by auto
  then have "map_of kvs (fst a) = None" by (simp add: map_of_eq_None_iff)
  with IH show ?case by (cases a) (auto simp: map_add_def split: option.splits)
qed simp

text \<open>On a literal whose keys are pairwise different the accessor reads the literal itself.\<close>

lemma json_get_obj_distinct: "distinct (map fst kvs) \<Longrightarrow> json_get k (obj kvs) = map_of kvs k"
  by (simp add: json_get_obj map_of_rev_keys)

lemma as_str_opt_str [simp]: "as_str (opt_str x) = x"
  by (cases x) (simp_all add: opt_str_def)

lemma map_of_merge: "map_of (map_merge m p) k = (case map_of (rev p) k of Some v \<Rightarrow> Some v | None \<Rightarrow> map_of m k)"
  by (simp add: map_merge_def map_of_fold_insert)

section \<open>Canonical text\<close>

text \<open>
  \<open>canonical_json\<close> of hetuflow-core: members sorted by key at every level. \<open>render\<close> is
  \<open>Value::to_string\<close> of a scalar or of a key.
\<close>

fun canonical_json :: "(json \<Rightarrow> string) \<Rightarrow> json \<Rightarrow> string" where
  "canonical_json render (JObj m) =
     ''{'' @ join_with '','' (map (\<lambda>k. render (JStr k) @ '':'' @
        (case map_of (map (\<lambda>(k', v). (k', canonical_json render v)) m) k of Some t \<Rightarrow> t | None \<Rightarrow> []))
        (sort (map fst m))) @ ''}''"
| "canonical_json render (JArr xs) = ''['' @ join_with '','' (map (canonical_json render) xs) @ '']''"
| "canonical_json render v = render v"

text \<open>\<open>{b:02x}\<close> of one byte.\<close>

definition hex_digit :: "nat \<Rightarrow> char" where
  "hex_digit d = (if d < 10 then char_of (48 + d) else char_of (87 + d))"

definition hex_byte :: "nat \<Rightarrow> string" where
  "hex_byte b = [hex_digit (b div 16), hex_digit (b mod 16)]"

definition definition_hash :: "(json \<Rightarrow> string) \<Rightarrow> (string \<Rightarrow> nat list) \<Rightarrow> json \<Rightarrow> string" where
  "definition_hash render sha256 v = concat (map hex_byte (sha256 (canonical_json render v)))"

text \<open>Two objects with the same members in a different order at some level.\<close>

inductive same_members :: "json \<Rightarrow> json \<Rightarrow> bool" where
  scalar: "same_members v v"
| arr: "list_all2 same_members xs ys \<Longrightarrow> same_members (JArr xs) (JArr ys)"
| obj: "distinct (map fst m) \<Longrightarrow> distinct (map fst m') \<Longrightarrow> set (map fst m) = set (map fst m') \<Longrightarrow>
        (\<And>k v v'. map_of m k = Some v \<Longrightarrow> map_of m' k = Some v' \<Longrightarrow> same_members v v') \<Longrightarrow>
        same_members (JObj m) (JObj m')"
monos list.rel_mono_strong

lemma map_of_map_snd: "map_of (map (\<lambda>(k, v). (k, f v)) m) k = map_option f (map_of m k)"
  by (induction m) auto

lemma sort_keys_eq:
  assumes "distinct xs" "distinct ys" "set xs = set (ys :: string list)"
  shows "sort xs = sort ys"
  using assms by (intro sorted_distinct_set_unique) auto

lemma canonical_json_order: "same_members v w \<Longrightarrow> canonical_json render v = canonical_json render w"
proof (induction rule: same_members.induct)
  case (arr xs ys)
  then have "map (canonical_json render) xs = map (canonical_json render) ys"
    by (induction rule: list_all2_induct) auto
  then show ?case by simp
next
  case (obj m m')
  have s: "sort (map fst m) = sort (map fst m')" by (rule sort_keys_eq) (use obj in auto)
  have e: "map_option (canonical_json render) (map_of m k) = map_option (canonical_json render) (map_of m' k)"
    for k
  proof (cases "map_of m k")
    case None
    then have "map_of m' k = None" using obj(3) by (simp add: map_of_eq_None_iff)
    with None show ?thesis by simp
  next
    case (Some v)
    then have "map_of m' k \<noteq> None" using obj(3) by (metis map_of_eq_None_iff list.set_map option.distinct(1))
    then obtain v' where v': "map_of m' k = Some v'" by blast
    from obj.IH [OF Some v'] Some v' show ?thesis by simp
  qed
  show ?case unfolding canonical_json.simps map_of_map_snd s e ..
qed simp

lemma definition_hash_order:
  "same_members v w \<Longrightarrow> definition_hash render sha v = definition_hash render sha w"
  by (simp add: definition_hash_def canonical_json_order)

end
