(* ===== verification/Flow_Core.thy ===== *)
theory Flow_Core
  imports Flow_Json
begin

text \<open>
  The domain model of crates/hetuflow-core/src/lib.rs: errors, enums with their database codes and
  names, the graph model (nodes, transitions, typed node configuration), the projection rows, and
  the pure helpers (join strategies, the retry back-off). Record fields carry a prefix per struct
  because HOL record selectors are global: \<open>node_\<close>, \<open>tr_\<close>, \<open>ds_\<close>, \<open>wi_\<close> (WorkflowInstance),
  \<open>ai_\<close> (ActivityInstance), \<open>or_\<close> (OutboxRecord), \<open>tm_\<close> (TimerRecord), \<open>ev_\<close> (EventRecord).
  Uuids in domain structs are strings, as in the source; \<open>DateTime<Utc>\<close> is an \<open>int\<close>.
\<close>

section \<open>Errors\<close>

datatype flow_error =
    Validation string
  | NotFound string
  | Conflict string
  | Storage string
  | Serialization string
  | InvalidState string

type_synonym 'a res = "flow_error + 'a"

text \<open>The \<open>Display\<close> text of an error (thiserror attributes).\<close>

fun flow_error_display :: "flow_error \<Rightarrow> string" where
  "flow_error_display (Validation m) = ''validation: '' @ m"
| "flow_error_display (NotFound m) = ''not found: '' @ m"
| "flow_error_display (Conflict m) = ''conflict: '' @ m"
| "flow_error_display (Storage m) = ''storage: '' @ m"
| "flow_error_display (Serialization m) = ''serialization: '' @ m"
| "flow_error_display (InvalidState m) = ''invalid state: '' @ m"

section \<open>Workflow status\<close>

datatype workflow_status =
    WsPending
  | WsActive
  | WsCompleted
  | WsErrored
  | WsCancelled
  | WsReturnedWaiting

fun ws_debug :: "workflow_status \<Rightarrow> string" where
  "ws_debug WsPending = ''Pending''"
| "ws_debug WsActive = ''Active''"
| "ws_debug WsCompleted = ''Completed''"
| "ws_debug WsErrored = ''Errored''"
| "ws_debug WsCancelled = ''Cancelled''"
| "ws_debug WsReturnedWaiting = ''ReturnedWaiting''"

fun ws_is_terminal :: "workflow_status \<Rightarrow> bool" where
  "ws_is_terminal WsCompleted = True"
| "ws_is_terminal WsErrored = True"
| "ws_is_terminal WsCancelled = True"
| "ws_is_terminal _ = False"

fun try_transition :: "workflow_status \<Rightarrow> workflow_status \<Rightarrow> workflow_status res" where
  "try_transition WsPending WsActive = Inr WsActive"
| "try_transition WsActive WsCompleted = Inr WsCompleted"
| "try_transition WsActive WsErrored = Inr WsErrored"
| "try_transition WsActive WsCancelled = Inr WsCancelled"
| "try_transition WsCompleted WsActive = Inr WsActive"
| "try_transition WsActive WsReturnedWaiting = Inr WsReturnedWaiting"
| "try_transition WsReturnedWaiting WsActive = Inr WsActive"
| "try_transition WsReturnedWaiting WsCompleted = Inr WsCompleted"
| "try_transition s t = Inl (InvalidState (ws_debug s @ '' cannot transition to '' @ ws_debug t))"

fun ws_as_str :: "workflow_status \<Rightarrow> string" where
  "ws_as_str WsPending = ''pending''"
| "ws_as_str WsActive = ''active''"
| "ws_as_str WsCompleted = ''completed''"
| "ws_as_str WsErrored = ''errored''"
| "ws_as_str WsCancelled = ''cancelled''"
| "ws_as_str WsReturnedWaiting = ''returned_waiting''"

definition ws_from_db :: "string \<Rightarrow> workflow_status" where
  "ws_from_db s =
     (if s = ''pending'' then WsPending
      else if s = ''active'' then WsActive
      else if s = ''completed'' then WsCompleted
      else if s = ''cancelled'' then WsCancelled
      else if s = ''returned_waiting'' then WsReturnedWaiting
      else WsErrored)"

fun ws_as_i16 :: "workflow_status \<Rightarrow> int" where
  "ws_as_i16 WsPending = 1"
| "ws_as_i16 WsActive = 2"
| "ws_as_i16 WsCompleted = 3"
| "ws_as_i16 WsErrored = 4"
| "ws_as_i16 WsCancelled = 5"
| "ws_as_i16 WsReturnedWaiting = 6"

definition ws_from_i16 :: "int \<Rightarrow> workflow_status" where
  "ws_from_i16 n =
     (if n = 1 then WsPending
      else if n = 2 then WsActive
      else if n = 3 then WsCompleted
      else if n = 4 then WsErrored
      else if n = 5 then WsCancelled
      else if n = 6 then WsReturnedWaiting
      else WsErrored)"

section \<open>Activity type and status\<close>

datatype activity_type =
    AtStart | AtApproval | AtNotification | AtEnd | AtCondition | AtParallel | AtTimer
  | AtEventWait | AtParallelSplit | AtParallelJoin | AtAssignment | AtMerge | AtForEach | AtSubWorkflow

fun at_as_str :: "activity_type \<Rightarrow> string" where
  "at_as_str AtStart = ''start''"
| "at_as_str AtApproval = ''approval''"
| "at_as_str AtNotification = ''notification''"
| "at_as_str AtEnd = ''end''"
| "at_as_str AtCondition = ''condition''"
| "at_as_str AtParallel = ''parallel''"
| "at_as_str AtTimer = ''timer''"
| "at_as_str AtEventWait = ''event_wait''"
| "at_as_str AtParallelSplit = ''parallel_split''"
| "at_as_str AtParallelJoin = ''parallel_join''"
| "at_as_str AtAssignment = ''assignment''"
| "at_as_str AtMerge = ''merge''"
| "at_as_str AtForEach = ''for_each''"
| "at_as_str AtSubWorkflow = ''sub_workflow''"

definition at_from_db :: "string \<Rightarrow> activity_type" where
  "at_from_db s =
     (if s = ''start'' then AtStart
      else if s = ''approval'' then AtApproval
      else if s = ''notification'' then AtNotification
      else if s = ''condition'' then AtCondition
      else if s = ''parallel'' then AtParallel
      else if s = ''timer'' then AtTimer
      else if s = ''event_wait'' then AtEventWait
      else if s = ''parallel_split'' then AtParallelSplit
      else if s = ''parallel_join'' then AtParallelJoin
      else if s = ''assignment'' then AtAssignment
      else if s = ''merge'' then AtMerge
      else if s = ''for_each'' then AtForEach
      else if s = ''sub_workflow'' then AtSubWorkflow
      else AtEnd)"

fun at_as_i16 :: "activity_type \<Rightarrow> int" where
  "at_as_i16 AtStart = 1"
| "at_as_i16 AtApproval = 2"
| "at_as_i16 AtNotification = 3"
| "at_as_i16 AtEnd = 4"
| "at_as_i16 AtCondition = 5"
| "at_as_i16 AtParallel = 6"
| "at_as_i16 AtTimer = 7"
| "at_as_i16 AtEventWait = 8"
| "at_as_i16 AtParallelSplit = 9"
| "at_as_i16 AtParallelJoin = 10"
| "at_as_i16 AtAssignment = 11"
| "at_as_i16 AtMerge = 12"
| "at_as_i16 AtForEach = 13"
| "at_as_i16 AtSubWorkflow = 14"

definition at_from_i16 :: "int \<Rightarrow> activity_type" where
  "at_from_i16 n =
     (if n = 1 then AtStart
      else if n = 2 then AtApproval
      else if n = 3 then AtNotification
      else if n = 4 then AtEnd
      else if n = 5 then AtCondition
      else if n = 6 then AtParallel
      else if n = 7 then AtTimer
      else if n = 8 then AtEventWait
      else if n = 9 then AtParallelSplit
      else if n = 10 then AtParallelJoin
      else if n = 11 then AtAssignment
      else if n = 12 then AtMerge
      else if n = 13 then AtForEach
      else if n = 14 then AtSubWorkflow
      else AtEnd)"

datatype activity_status = AsPending | AsActive | AsCompleted | AsSkipped | AsErrored

fun as_debug :: "activity_status \<Rightarrow> string" where
  "as_debug AsPending = ''Pending''"
| "as_debug AsActive = ''Active''"
| "as_debug AsCompleted = ''Completed''"
| "as_debug AsSkipped = ''Skipped''"
| "as_debug AsErrored = ''Errored''"

fun as_as_str :: "activity_status \<Rightarrow> string" where
  "as_as_str AsPending = ''pending''"
| "as_as_str AsActive = ''active''"
| "as_as_str AsCompleted = ''completed''"
| "as_as_str AsSkipped = ''skipped''"
| "as_as_str AsErrored = ''errored''"

definition as_from_db :: "string \<Rightarrow> activity_status" where
  "as_from_db s =
     (if s = ''pending'' then AsPending
      else if s = ''active'' then AsActive
      else if s = ''completed'' then AsCompleted
      else if s = ''skipped'' then AsSkipped
      else AsErrored)"

fun as_as_i16 :: "activity_status \<Rightarrow> int" where
  "as_as_i16 AsPending = 1"
| "as_as_i16 AsActive = 2"
| "as_as_i16 AsCompleted = 3"
| "as_as_i16 AsSkipped = 4"
| "as_as_i16 AsErrored = 5"

definition as_from_i16 :: "int \<Rightarrow> activity_status" where
  "as_from_i16 n =
     (if n = 1 then AsPending
      else if n = 2 then AsActive
      else if n = 3 then AsCompleted
      else if n = 4 then AsSkipped
      else AsErrored)"

section \<open>Signals, results, join strategies\<close>

datatype signal_type =
    SigApproved | SigReturned | SigRejected | SigResubmitted | SigEventReceived
  | SigClaimed | SigReassigned | SigCompleted

fun sig_debug :: "signal_type \<Rightarrow> string" where
  "sig_debug SigApproved = ''Approved''"
| "sig_debug SigReturned = ''Returned''"
| "sig_debug SigRejected = ''Rejected''"
| "sig_debug SigResubmitted = ''Resubmitted''"
| "sig_debug SigEventReceived = ''EventReceived''"
| "sig_debug SigClaimed = ''Claimed''"
| "sig_debug SigReassigned = ''Reassigned''"
| "sig_debug SigCompleted = ''Completed''"

datatype workflow_result = WrApproved | WrRejected | WrReturned

fun wr_debug :: "workflow_result \<Rightarrow> string" where
  "wr_debug WrApproved = ''Approved''"
| "wr_debug WrRejected = ''Rejected''"
| "wr_debug WrReturned = ''Returned''"

fun wr_as_str :: "workflow_result \<Rightarrow> string" where
  "wr_as_str WrApproved = ''approved''"
| "wr_as_str WrRejected = ''rejected''"
| "wr_as_str WrReturned = ''returned''"

definition wr_from_db :: "string \<Rightarrow> workflow_result option" where
  "wr_from_db s =
     (if s = ''approved'' then Some WrApproved
      else if s = ''rejected'' then Some WrRejected
      else if s = ''returned'' then Some WrReturned
      else None)"

fun wr_as_i16 :: "workflow_result \<Rightarrow> int" where
  "wr_as_i16 WrApproved = 1"
| "wr_as_i16 WrRejected = 2"
| "wr_as_i16 WrReturned = 3"

definition wr_from_i16 :: "int \<Rightarrow> workflow_result option" where
  "wr_from_i16 n =
     (if n = 1 then Some WrApproved
      else if n = 2 then Some WrRejected
      else if n = 3 then Some WrReturned
      else None)"

datatype join_strategy = WaitAll | WaitAny | NOfM int

fun is_satisfied :: "join_strategy \<Rightarrow> int \<Rightarrow> int \<Rightarrow> bool" where
  "is_satisfied WaitAll arrived expected \<longleftrightarrow> arrived \<ge> expected"
| "is_satisfied WaitAny arrived expected \<longleftrightarrow> arrived \<ge> 1"
| "is_satisfied (NOfM n) arrived expected \<longleftrightarrow> arrived \<ge> n"

fun skips_remaining_on_satisfaction :: "join_strategy \<Rightarrow> bool" where
  "skips_remaining_on_satisfaction WaitAll = False"
| "skips_remaining_on_satisfaction _ = True"

section \<open>Graph model\<close>

datatype recipient_selector =
    RsRole string "string option"
  | RsUserIds "string list"
  | RsBusinessOwner string string "string option"
  | RsCustomResolver string "(string \<times> string) list"

fun rs_role_code :: "recipient_selector \<Rightarrow> string option" where
  "rs_role_code (RsRole role_code facility_id) = Some role_code"
| "rs_role_code _ = None"

record notification_config =
  nc_template_code :: "string option"
  nc_recipient_selector :: "recipient_selector option"
  nc_channel_policy :: "string list"
  nc_template_args :: "(string \<times> string) list"
  nc_reference_type :: "string option"
  nc_purpose :: "string option"
  nc_visibility :: "string option"

record event_source_metadata =
  es_source_system :: "string option"
  es_tenant_id :: "string option"
  es_facility_id :: "string option"
  es_reference_type :: "string option"
  es_reference_id :: "string option"

record assignment_config =
  ac_assignee_selector :: "recipient_selector option"
  ac_queue_code :: "string option"
  ac_sla_seconds :: "int option"

record condition_branch =
  cb_guard_expression :: string
  cb_target :: string

datatype node_config =
    NcStart
  | NcApproval "string option" "int option" "int option" "string option"
      \<comment> \<open>assignee_role, sla_seconds, escalation_seconds, escalation_target_role\<close>
  | NcNotification notification_config
  | NcEnd "string option"
  | NcCondition string "condition_branch list"
  | NcParallel
  | NcTimer
  | NcEventWait string "int option" "string option" "string option" "event_source_metadata option"
      \<comment> \<open>event_type, timeout_seconds, timeout_target, correlation_key, source\<close>
  | NcParallelSplit "string list"
  | NcParallelJoin join_strategy
  | NcAssignment assignment_config
  | NcMerge
  | NcForEach string string string "int option"
      \<comment> \<open>items_path, branch_template, join_target, max_fanout\<close>
  | NcSubWorkflow string "string option" "string option"
      \<comment> \<open>child_flow_type, context_path, on_child_failed_target\<close>

datatype node_kind =
    KStart | KApproval | KNotification | KEnd | KCondition | KParallel | KTimer | KEventWait
  | KParallelSplit | KParallelJoin | KAssignment | KMerge | KForEach | KSubWorkflow

fun kind_debug :: "node_kind \<Rightarrow> string" where
  "kind_debug KStart = ''Start''"
| "kind_debug KApproval = ''Approval''"
| "kind_debug KNotification = ''Notification''"
| "kind_debug KEnd = ''End''"
| "kind_debug KCondition = ''Condition''"
| "kind_debug KParallel = ''Parallel''"
| "kind_debug KTimer = ''Timer''"
| "kind_debug KEventWait = ''EventWait''"
| "kind_debug KParallelSplit = ''ParallelSplit''"
| "kind_debug KParallelJoin = ''ParallelJoin''"
| "kind_debug KAssignment = ''Assignment''"
| "kind_debug KMerge = ''Merge''"
| "kind_debug KForEach = ''ForEach''"
| "kind_debug KSubWorkflow = ''SubWorkflow''"

record workflow_node =
  node_id :: string
  node_name :: string
  node_context_writes :: "string list"
  node_config :: node_config

fun config_kind :: "node_config \<Rightarrow> node_kind" where
  "config_kind NcStart = KStart"
| "config_kind (NcApproval _ _ _ _) = KApproval"
| "config_kind (NcNotification _) = KNotification"
| "config_kind (NcEnd _) = KEnd"
| "config_kind (NcCondition _ _) = KCondition"
| "config_kind NcParallel = KParallel"
| "config_kind NcTimer = KTimer"
| "config_kind (NcEventWait _ _ _ _ _) = KEventWait"
| "config_kind (NcParallelSplit _) = KParallelSplit"
| "config_kind (NcParallelJoin _) = KParallelJoin"
| "config_kind (NcAssignment _) = KAssignment"
| "config_kind NcMerge = KMerge"
| "config_kind (NcForEach _ _ _ _) = KForEach"
| "config_kind (NcSubWorkflow _ _ _) = KSubWorkflow"

definition kind :: "workflow_node \<Rightarrow> node_kind" where
  "kind n = config_kind (node_config n)"

section \<open>Node accessors\<close>

definition assignee_role :: "workflow_node \<Rightarrow> string option" where
  "assignee_role n = (case node_config n of NcApproval role _ _ _ \<Rightarrow> role | _ \<Rightarrow> None)"

definition sla_seconds :: "workflow_node \<Rightarrow> int option" where
  "sla_seconds n = (case node_config n of NcApproval _ sla _ _ \<Rightarrow> option_filter (\<lambda>s. s > 0) sla | _ \<Rightarrow> None)"

definition escalation_config :: "workflow_node \<Rightarrow> (int \<times> string) option" where
  "escalation_config n =
     (case node_config n of
        NcApproval _ _ secs role \<Rightarrow>
          (case option_filter (\<lambda>s. s > 0) secs of
             None \<Rightarrow> None
           | Some s \<Rightarrow> (case option_filter non_empty role of None \<Rightarrow> None | Some r \<Rightarrow> Some (s, r)))
      | _ \<Rightarrow> None)"

definition escalation_raw :: "workflow_node \<Rightarrow> (int option \<times> string option) option" where
  "escalation_raw n = (case node_config n of NcApproval _ _ secs role \<Rightarrow> Some (secs, role) | _ \<Rightarrow> None)"

definition end_result_code :: "workflow_node \<Rightarrow> string option" where
  "end_result_code n = (case node_config n of NcEnd rc \<Rightarrow> rc | _ \<Rightarrow> None)"

definition condition :: "workflow_node \<Rightarrow> (string \<times> condition_branch list) option" where
  "condition n = (case node_config n of NcCondition d bs \<Rightarrow> Some (d, bs) | _ \<Rightarrow> None)"

definition event_wait :: "workflow_node \<Rightarrow> (string \<times> int option \<times> string option) option" where
  "event_wait n =
     (case node_config n of
        NcEventWait et ts tt _ _ \<Rightarrow> Some (et, option_filter (\<lambda>s. s > 0) ts, option_filter non_empty tt)
      | _ \<Rightarrow> None)"

definition event_wait_correlation :: "workflow_node \<Rightarrow> (string option \<times> event_source_metadata option) option" where
  "event_wait_correlation n =
     (case node_config n of NcEventWait _ _ _ ck src \<Rightarrow> Some (option_filter non_empty ck, src) | _ \<Rightarrow> None)"

definition notification :: "workflow_node \<Rightarrow> notification_config option" where
  "notification n = (case node_config n of NcNotification c \<Rightarrow> Some c | _ \<Rightarrow> None)"

definition assignment :: "workflow_node \<Rightarrow> assignment_config option" where
  "assignment n = (case node_config n of NcAssignment c \<Rightarrow> Some c | _ \<Rightarrow> None)"

definition sub_workflow :: "workflow_node \<Rightarrow> (string \<times> string option \<times> string option) option" where
  "sub_workflow n = (case node_config n of NcSubWorkflow cft cp ft \<Rightarrow> Some (cft, cp, ft) | _ \<Rightarrow> None)"

definition parallel_split :: "workflow_node \<Rightarrow> string list option" where
  "parallel_split n = (case node_config n of NcParallelSplit bts \<Rightarrow> Some bts | _ \<Rightarrow> None)"

definition is_parallel_join :: "workflow_node \<Rightarrow> bool" where
  "is_parallel_join n = (case node_config n of NcParallelJoin _ \<Rightarrow> True | _ \<Rightarrow> False)"

definition node_join_strategy :: "workflow_node \<Rightarrow> join_strategy option" where
  "node_join_strategy n = (case node_config n of NcParallelJoin s \<Rightarrow> Some s | _ \<Rightarrow> None)"

definition for_each :: "workflow_node \<Rightarrow> (string \<times> string \<times> string \<times> int option) option" where
  "for_each n =
     (case node_config n of
        NcForEach ip bt jt mf \<Rightarrow> Some (ip, bt, jt, option_filter (\<lambda>m. m > 0) mf)
      | _ \<Rightarrow> None)"

record workflow_transition =
  tr_from :: string
  tr_to :: string
  tr_on_signal :: signal_type

record definition_snapshot =
  ds_flow_type :: string
  ds_version :: int
  ds_nodes :: "workflow_node list"
  ds_transitions :: "workflow_transition list"
  ds_max_round :: int
end
