(* ===== verification/Flow_Model.thy ===== *)
theory Flow_Model
  imports Flow_Core
begin

text \<open>
  Second half of crates/hetuflow-core/src/lib.rs: projection rows, outbox / timer / event records,
  callback errors and policies, scope filters, decision results, the event-type and outbox
  vocabularies and the retry back-off; then the facts about the enums of \<open>Flow_Core\<close> (codes and
  names round trip, the status machine).
\<close>

type_synonym timestamp = int

section \<open>Projection rows\<close>

record workflow_instance =
  wi_id :: string
  wi_tenant_id :: string
  wi_facility_id :: string
  wi_reference_no :: string
  wi_workflow_definition_id :: string
  wi_business_key :: string
  wi_business_type :: string
  wi_status :: workflow_status
  wi_current_activity_id :: "string option"
  wi_result :: "workflow_result option"
  wi_side_effects_executed :: bool
  wi_context :: "json option"
  wi_started_at :: "timestamp option"
  wi_completed_at :: "timestamp option"
  wi_created_at :: timestamp
  wi_updated_at :: timestamp

record activity_instance =
  ai_id :: string
  ai_tenant_id :: string
  ai_workflow_instance_id :: string
  ai_activity_definition_id :: string
  ai_activity_type :: activity_type
  ai_status :: activity_status
  ai_assignee_role :: "string option"
  ai_assignee_id :: "string option"
  ai_result :: "string option"
  ai_review_notes :: "string option"
  ai_reviewed_by :: "string option"
  ai_reviewed_at :: "timestamp option"
  ai_round :: int

record outbox_record =
  or_id :: string
  or_tenant_id :: string
  or_facility_id :: string
  or_workflow_instance_id :: string
  or_activity_instance_id :: string
  or_activity_type :: string
  or_payload :: json
  or_status :: string
  or_attempt_count :: int
  or_max_attempts :: int
  or_next_attempt_at :: timestamp
  or_last_error :: "string option"
  or_created_at :: timestamp
  or_updated_at :: timestamp

record timer_record =
  tm_id :: string
  tm_tenant_id :: string
  tm_facility_id :: string
  tm_workflow_instance_id :: string
  tm_activity_instance_id :: string
  tm_timer_kind :: string

record event_record =
  ev_seq :: int
  ev_event_type :: string
  ev_payload :: json
  ev_created_at :: timestamp

record notification_payload =
  np_tenant_id :: string
  np_facility_id :: "string option"
  np_template_code :: string
  np_recipient_selector :: recipient_selector
  np_channel_policy :: "string list"
  np_template_args :: "(string \<times> string) list"
  np_reference_type :: string
  np_purpose :: string
  np_visibility :: string
  np_business_type :: string
  np_business_key :: string

section \<open>Callbacks\<close>

datatype callback_error_kind = Deterministic | Transient

record callback_error =
  ce_kind :: callback_error_kind
  ce_message :: string

definition ce_deterministic :: "string \<Rightarrow> callback_error" where
  "ce_deterministic m = \<lparr>ce_kind = Deterministic, ce_message = m\<rparr>"

definition ce_transient :: "string \<Rightarrow> callback_error" where
  "ce_transient m = \<lparr>ce_kind = Transient, ce_message = m\<rparr>"

datatype idempotency_key_strategy = PayloadField string | BusinessKey | OutboxRecordId

record business_callback_payload =
  bp_tenant_id :: string
  bp_facility_id :: string
  bp_workflow_instance_id :: string
  bp_activity_instance_id :: string
  bp_handler_type :: string
  bp_idempotency_key :: string
  bp_business_type :: string
  bp_business_key :: string
  bp_payload :: json

text \<open>
  A \<open>BusinessCallbackHandler\<close> is the adapter's object: its type name, its idempotency strategy and
  its \<open>execute\<close> are the part of it the framework observes.
\<close>

record callback_handler =
  ch_handler_type :: string
  ch_idempotency_key_strategy :: idempotency_key_strategy
  ch_execute :: "business_callback_payload \<Rightarrow> callback_error + unit"

section \<open>Scope filters\<close>

datatype facility_visibility = AllInTenant | OnlyFacilities "string list"

record scope_filter =
  sf_tenant_id :: string
  sf_facilities :: facility_visibility

section \<open>Decision results\<close>

record parallel_target =
  pt_node_id :: string
  pt_activity_type :: activity_type
  pt_assignee_role :: "string option"
  pt_item_index :: "int option"
  pt_item_payload :: "json option"

datatype advance_outcome =
    Advance string "string option"
  | AdvanceMulti "parallel_target list"
  | Complete workflow_result
  | Rework string "string option"
  | OutcomeError

datatype branch_expectation = BeStatic nat | BeDynamic nat

fun be_count :: "branch_expectation \<Rightarrow> nat" where
  "be_count (BeStatic n) = n"
| "be_count (BeDynamic n) = n"

section \<open>Vocabularies\<close>

definition ev_STARTED :: string where "ev_STARTED = ''workflow.started.v1''"
definition ev_ACTIVITY_SCHEDULED :: string where "ev_ACTIVITY_SCHEDULED = ''activity.scheduled.v1''"
definition ev_SIGNAL_RECEIVED :: string where "ev_SIGNAL_RECEIVED = ''workflow.signal_received.v1''"
definition ev_ACTIVITY_COMPLETED :: string where "ev_ACTIVITY_COMPLETED = ''activity.completed.v1''"
definition ev_ACTIVITY_FAILED :: string where "ev_ACTIVITY_FAILED = ''activity.failed.v1''"
definition ev_COMPLETED :: string where "ev_COMPLETED = ''workflow.completed.v1''"
definition ev_ERRORED :: string where "ev_ERRORED = ''workflow.errored.v1''"
definition ev_REACTIVATED :: string where "ev_REACTIVATED = ''workflow.reactivated.v1''"
definition ev_TIMER_FIRED :: string where "ev_TIMER_FIRED = ''workflow.timer_fired.v1''"
definition ev_ACTIVITY_SKIPPED :: string where "ev_ACTIVITY_SKIPPED = ''activity.skipped.v1''"
definition ev_PARALLEL_SPLIT_SCHEDULED :: string where
  "ev_PARALLEL_SPLIT_SCHEDULED = ''workflow.parallel_split_scheduled.v1''"
definition ev_BRANCH_REACHED_JOIN :: string where "ev_BRANCH_REACHED_JOIN = ''workflow.branch_reached_join.v1''"
definition ev_PARALLEL_JOIN_SATISFIED :: string where
  "ev_PARALLEL_JOIN_SATISFIED = ''workflow.parallel_join_satisfied.v1''"
definition ev_APPROVAL_ESCALATED :: string where "ev_APPROVAL_ESCALATED = ''workflow.approval_escalated.v1''"
definition ev_MERGE_PASSED :: string where "ev_MERGE_PASSED = ''workflow.merge_passed.v1''"
definition ev_RETURNED_TO_REWORK :: string where "ev_RETURNED_TO_REWORK = ''workflow.returned_to_rework.v1''"
definition ev_REWORK_RESUMED :: string where "ev_REWORK_RESUMED = ''workflow.rework_resumed.v1''"
definition ev_FOR_EACH_FANNED_OUT :: string where "ev_FOR_EACH_FANNED_OUT = ''workflow.for_each_fanned_out.v1''"
definition ev_CONTEXT_UPDATED :: string where "ev_CONTEXT_UPDATED = ''workflow.context_updated.v1''"

lemmas event_type_defs =
  ev_STARTED_def ev_ACTIVITY_SCHEDULED_def ev_SIGNAL_RECEIVED_def ev_ACTIVITY_COMPLETED_def
  ev_ACTIVITY_FAILED_def ev_COMPLETED_def ev_ERRORED_def ev_REACTIVATED_def ev_TIMER_FIRED_def
  ev_ACTIVITY_SKIPPED_def ev_PARALLEL_SPLIT_SCHEDULED_def ev_BRANCH_REACHED_JOIN_def
  ev_PARALLEL_JOIN_SATISFIED_def ev_APPROVAL_ESCALATED_def ev_MERGE_PASSED_def
  ev_RETURNED_TO_REWORK_def ev_REWORK_RESUMED_def ev_FOR_EACH_FANNED_OUT_def ev_CONTEXT_UPDATED_def

definition ob_NOTIFICATION :: string where "ob_NOTIFICATION = ''notification''"
definition ob_NOTIFICATION_REMINDER :: string where "ob_NOTIFICATION_REMINDER = ''notification_reminder''"
definition ob_NOTIFICATION_ESCALATION :: string where "ob_NOTIFICATION_ESCALATION = ''notification_escalation''"
definition ob_BUSINESS_CALLBACK :: string where "ob_BUSINESS_CALLBACK = ''business_callback''"

lemmas outbox_type_defs =
  ob_NOTIFICATION_def ob_NOTIFICATION_REMINDER_def ob_NOTIFICATION_ESCALATION_def ob_BUSINESS_CALLBACK_def

section \<open>Retry back-off\<close>

text \<open>
  \<open>base * 2^attempt\<close> saturating at the 64-bit range, capped. The shift is at most 20, so
  \<open>checked_shl\<close> never gives \<open>None\<close>.
\<close>

definition retry_backoff_secs :: "int \<Rightarrow> int \<Rightarrow> int \<Rightarrow> int" where
  "retry_backoff_secs attempt base cap =
     (if attempt < 0 then base
      else let shift = nat (min attempt 20);
               scaled = sat_mul_i64 base (2 ^ shift)
           in min scaled cap)"

section \<open>The codecs of the enums\<close>

interpretation ws_str: codec ws_as_str ws_from_db
  by unfold_locales (case_tac x; simp add: ws_from_db_def)

interpretation ws_i16: codec ws_as_i16 ws_from_i16
  by unfold_locales (case_tac x; simp add: ws_from_i16_def)

interpretation at_str: codec at_as_str at_from_db
  by unfold_locales (case_tac x; simp add: at_from_db_def)

interpretation at_i16: codec at_as_i16 at_from_i16
  by unfold_locales (case_tac x; simp add: at_from_i16_def)

interpretation as_str: codec as_as_str as_from_db
  by unfold_locales (case_tac x; simp add: as_from_db_def)

interpretation as_i16: codec as_as_i16 as_from_i16
  by unfold_locales (case_tac x; simp add: as_from_i16_def)

interpretation wr_str: partial_codec wr_as_str wr_from_db
proof
  show "wr_from_db (wr_as_str x) = Some x" for x by (cases x) (simp_all add: wr_from_db_def)
  show "wr_from_db w = Some x \<Longrightarrow> w = wr_as_str x" for w x by (auto simp: wr_from_db_def split: if_splits)
qed

interpretation wr_i16: partial_codec wr_as_i16 wr_from_i16
proof
  show "wr_from_i16 (wr_as_i16 x) = Some x" for x by (cases x) (simp_all add: wr_from_i16_def)
  show "wr_from_i16 w = Some x \<Longrightarrow> w = wr_as_i16 x" for w x by (auto simp: wr_from_i16_def split: if_splits)
qed

lemmas codec_simps [simp] =
  ws_str.dec_enc ws_i16.dec_enc at_str.dec_enc at_i16.dec_enc as_str.dec_enc as_i16.dec_enc
  wr_str.dec_enc wr_i16.dec_enc

section \<open>The status machine\<close>

lemma try_transition_Inr: "try_transition s t = Inr u \<Longrightarrow> u = t"
  by (cases s; cases t) auto

text \<open>The legal steps of an instance, as a relation.\<close>

inductive status_step :: "workflow_status \<Rightarrow> workflow_status \<Rightarrow> bool" where
  status_step: "try_transition s t = Inr t \<Longrightarrow> status_step s t"

inductive_cases status_stepE: "status_step s t"

inductive_simps status_step_iff: "status_step s t"

lemma status_step_from_errored: "\<not> status_step WsErrored t" "\<not> status_step WsCancelled t"
  by (cases t; simp add: status_step_iff)+

lemma status_step_to_pending: "\<not> status_step s WsPending"
  by (cases s; simp add: status_step_iff)

lemma status_steps_errored:
  "status_step\<^sup>*\<^sup>* s t \<Longrightarrow> s = WsErrored \<or> s = WsCancelled \<Longrightarrow> t = s"
  by (induction rule: converse_rtranclp_induct) (auto simp: status_step_from_errored)

lemma status_steps_pending:
  "status_step\<^sup>*\<^sup>* s t \<Longrightarrow> t = WsPending \<Longrightarrow> s = WsPending"
  by (induction rule: rtranclp_induct) (auto simp: status_step_to_pending)

section \<open>Back-off bounds\<close>

lemma sat_mul_bounds: "i64_min \<le> sat_mul_i64 a b" "sat_mul_i64 a b \<le> i64_max"
  by (auto simp: sat_mul_i64_def i64_min_def i64_max_def)

lemma sat_mul_mono: "0 \<le> a \<Longrightarrow> b \<le> c \<Longrightarrow> sat_mul_i64 a b \<le> sat_mul_i64 a c"
  unfolding sat_mul_i64_def by (intro max.mono min.mono mult_left_mono order_refl)

lemma sat_mul_ge: "0 \<le> a \<Longrightarrow> a \<le> i64_max \<Longrightarrow> 1 \<le> b \<Longrightarrow> a \<le> sat_mul_i64 a b"
proof -
  assume a: "0 \<le> a" "a \<le> i64_max" "1 \<le> b"
  then have "a * 1 \<le> a * b" by (intro mult_left_mono) auto
  with a show ?thesis by (simp add: sat_mul_i64_def)
qed

end
