(* ===== verification/Flow_Core_Props.thy ===== *)
theory Flow_Core_Props
  imports Flow_Model
begin

text \<open>Properties of the data model: the status machine, the database codecs, the definition hash and
  the retry back-off.\<close>

text \<open>Along any sequence of legal status transitions an instance that is Errored or Cancelled stays what
  it is, Pending is never re-entered, and a Completed instance can only be left by going back to
  Active.\<close>
theorem status_machine_terminal:
  "(status_step\<^sup>*\<^sup>* WsErrored t \<longleftrightarrow> t = WsErrored) \<and> (status_step\<^sup>*\<^sup>* WsCancelled t \<longleftrightarrow> t = WsCancelled) \<and>
   (status_step\<^sup>*\<^sup>* s WsPending \<longleftrightarrow> s = WsPending) \<and> (status_step WsCompleted u \<longleftrightarrow> u = WsActive)"
proof (intro conjI)
  show "status_step WsCompleted u \<longleftrightarrow> u = WsActive" by (cases u) (simp_all add: status_step_iff)
qed (auto dest: status_steps_errored status_steps_pending)

text \<open>Every enum stored in the database is read back as written, from its text and from its SMALLINT code;
  the optional result decoders accept exactly the encodings.\<close>
theorem enum_codecs_roundtrip:
  "ws_from_db (ws_as_str s) = s \<and> ws_from_i16 (ws_as_i16 s) = s \<and>
   at_from_db (at_as_str a) = a \<and> at_from_i16 (at_as_i16 a) = a \<and>
   as_from_db (as_as_str st) = st \<and> as_from_i16 (as_as_i16 st) = st \<and>
   (wr_from_db w = Some r \<longleftrightarrow> w = wr_as_str r) \<and> (wr_from_i16 n = Some r \<longleftrightarrow> n = wr_as_i16 r)"
  by (simp add: wr_str.dec_Some_iff wr_i16.dec_Some_iff)

text \<open>The hash of a definition does not depend on the order in which the members of its objects are
  written, at any depth, whatever the hash function and the text of scalars.\<close>
theorem definition_hash_order_independent:
  assumes "same_members v w"
  shows "definition_hash render sha256 v = definition_hash render sha256 w"
  using assms by (rule definition_hash_order)

lemma definition_hash_order_independent_witness:
  "definition_hash (\<lambda>_. ''x'') (\<lambda>s. [length s]) (JObj [(''a'', JObj [(''x'', JInt 1), (''y'', JInt 2)]), (''b'', JNull)]) =
   definition_hash (\<lambda>_. ''x'') (\<lambda>s. [length s]) (JObj [(''b'', JNull), (''a'', JObj [(''y'', JInt 2), (''x'', JInt 1)])])"
proof (rule definition_hash_order_independent)
  have "same_members (JObj [(''x'', JInt 1), (''y'', JInt 2)]) (JObj [(''y'', JInt 2), (''x'', JInt 1)])"
    by (rule same_members.obj) (auto intro: same_members.scalar split: if_splits)
  then show "same_members (JObj [(''a'', JObj [(''x'', JInt 1), (''y'', JInt 2)]), (''b'', JNull)])
     (JObj [(''b'', JNull), (''a'', JObj [(''y'', JInt 2), (''x'', JInt 1)])])"
    by (intro same_members.obj) (auto intro: same_members.scalar split: if_splits)
qed

text \<open>For a base delay between 0 and the 64-bit maximum and a cap at least as large, the back-off of
  attempt n is between base and cap, never decreases with n, never leaves the 64-bit range, and from
  attempt 20 on is constant.\<close>
theorem retry_backoff_bounded:
  assumes "0 \<le> base" and "base \<le> cap" and "cap \<le> i64_max" and "0 \<le> n" and "n \<le> m"
  shows "base \<le> retry_backoff_secs n base cap \<and> retry_backoff_secs n base cap \<le> cap \<and>
    retry_backoff_secs n base cap \<le> retry_backoff_secs m base cap \<and>
    (20 \<le> n \<longrightarrow> retry_backoff_secs n base cap = retry_backoff_secs m base cap)"
proof -
  have p: "(2::int) ^ nat (min n 20) \<le> 2 ^ nat (min m 20)" using assms by (intro power_increasing) auto
  have "sat_mul_i64 base (2 ^ nat (min n 20)) \<le> sat_mul_i64 base (2 ^ nat (min m 20))"
    using assms p by (intro sat_mul_mono)
  moreover have "base \<le> sat_mul_i64 base (2 ^ nat (min n 20))"
    using assms by (intro sat_mul_ge) auto
  ultimately show ?thesis using assms by (auto simp: retry_backoff_secs_def Let_def min_le_iff_disj)
qed

lemma retry_backoff_bounded_witness:
  "30 \<le> retry_backoff_secs 20 30 3600 \<and> retry_backoff_secs 20 30 3600 \<le> 3600 \<and>
    retry_backoff_secs 20 30 3600 = retry_backoff_secs 25 30 3600"
  using retry_backoff_bounded [of 30 3600 20 25] by (simp add: i64_max_def)

end
