(* ===== verification/Flow_Runtime.thy ===== *)
theory Flow_Runtime
  imports Flow_Model
begin

text \<open>
  crates/hetuflow-runtime: CEL guard evaluation (guard_eval.rs) and the advance decision of
  lib.rs (find_next_transition, decide_start, resolve_target, decide_advance,
  decide_event_wait_timeout).

  The \<open>cel\<close> crate is not part of the repository. The record \<open>cel_api\<close> holds the functions of it
  the source calls; every definition that evaluates an expression takes one.
\<close>

section \<open>Guard evaluation\<close>

record parse_error =
  pe_line :: int
  pe_col :: int
  pe_msg :: string

record ('p, 'c, 'v) cel_api =
  cel_compile :: "string \<Rightarrow> parse_error list + 'p"
  cel_bind :: "string \<Rightarrow> json \<Rightarrow> string + 'c"
  cel_execute :: "'p \<Rightarrow> 'c \<Rightarrow> string + 'v"
  cel_as_bool :: "'v \<Rightarrow> bool option"
  cel_debug :: "'v \<Rightarrow> string"
  cel_json :: "'v \<Rightarrow> string + json"
  json_display :: "json \<Rightarrow> string"

definition format_parse_errors :: "parse_error list \<Rightarrow> string" where
  "format_parse_errors es =
     join_with ''; '' (map (\<lambda>e. ''line '' @ show_int (pe_line e) @ '':'' @ show_int (pe_col e) @ '' '' @ pe_msg e) es)"

definition context_or_empty :: "json option \<Rightarrow> json" where
  "context_or_empty c = unwrap_or (JObj []) c"

definition eval_guard :: "('p, 'c, 'v) cel_api \<Rightarrow> string \<Rightarrow> json option \<Rightarrow> string + bool" where
  "eval_guard cel expression context_value =
     bindR (map_errR (\<lambda>e. ''CEL parse error: '' @ format_parse_errors e) (cel_compile cel expression)) (\<lambda>program.
     bindR (map_errR (\<lambda>e. ''CEL bind error: '' @ e) (cel_bind cel ''context'' (context_or_empty context_value))) (\<lambda>ctx.
     bindR (map_errR (\<lambda>e. ''CEL eval error: '' @ e) (cel_execute cel program ctx)) (\<lambda>result.
     case cel_as_bool cel result of
       Some b \<Rightarrow> Inr b
     | None \<Rightarrow> Inl (''guard expression must return bool, got: '' @ cel_debug cel result))))"

definition validate_expression :: "('p, 'c, 'v) cel_api \<Rightarrow> string \<Rightarrow> string + unit" where
  "validate_expression cel expression =
     (case cel_compile cel expression of
        Inl e \<Rightarrow> Inl (''CEL parse error: '' @ format_parse_errors e)
      | Inr _ \<Rightarrow> Inr ())"

definition eval_array :: "('p, 'c, 'v) cel_api \<Rightarrow> string \<Rightarrow> json option \<Rightarrow> string + json list" where
  "eval_array cel expression context_value =
     bindR (map_errR (\<lambda>e. ''CEL parse error: '' @ format_parse_errors e) (cel_compile cel expression)) (\<lambda>program.
     bindR (map_errR (\<lambda>e. ''CEL bind error: '' @ e) (cel_bind cel ''context'' (context_or_empty context_value))) (\<lambda>ctx.
     bindR (map_errR (\<lambda>e. ''CEL eval error: '' @ e) (cel_execute cel program ctx)) (\<lambda>result.
     bindR (map_errR (\<lambda>e. ''CEL result to json error: '' @ e) (cel_json cel result)) (\<lambda>v.
     case v of
       JArr items \<Rightarrow> Inr items
     | other \<Rightarrow> Inl (''items_path expression must return an array, got: '' @ json_display cel other)))))"

section \<open>Transitions and the start decision\<close>

definition MAX_RESOLVE_DEPTH :: nat where "MAX_RESOLVE_DEPTH = 8"

fun is_join_incoming_signal :: "signal_type \<Rightarrow> bool" where
  "is_join_incoming_signal SigApproved = True"
| "is_join_incoming_signal SigCompleted = True"
| "is_join_incoming_signal SigEventReceived = True"
| "is_join_incoming_signal _ = False"

record for_each_fan_out =
  ff_for_each_node :: string
  ff_join_target :: string

record resolve_trace =
  merges_passed :: "string list"
  loops_passed :: "string list"
  for_each_fan_out :: "for_each_fan_out option"

definition empty_trace :: resolve_trace where
  "empty_trace = \<lparr>merges_passed = [], loops_passed = [], for_each_fan_out = None\<rparr>"

definition find_next_transition ::
  "workflow_transition list \<Rightarrow> string \<Rightarrow> signal_type \<Rightarrow> workflow_transition option" where
  "find_next_transition transitions from_node signal =
     List.find (\<lambda>t. tr_from t = from_node \<and> tr_on_signal t = signal) transitions"

definition find_node :: "workflow_node list \<Rightarrow> string \<Rightarrow> workflow_node option" where
  "find_node nodes i = List.find (\<lambda>n. node_id n = i) nodes"

definition decide_start :: "workflow_node list \<Rightarrow> (string \<times> string option) option" where
  "decide_start nodes =
     map_option (\<lambda>n. (node_id n, assignee_role n)) (List.find (\<lambda>n. kind n = KApproval) nodes)"

section \<open>Resolving a target\<close>

text \<open>
  The Condition loop: the target of the first branch whose guard is true, the default when none
  is; a failing evaluation stops the loop with an error.
\<close>

fun select_branch ::
  "('p, 'c, 'v) cel_api \<Rightarrow> json option \<Rightarrow> string \<Rightarrow> condition_branch list \<Rightarrow> string + string" where
  "select_branch cel ctx default_target [] = Inr default_target"
| "select_branch cel ctx default_target (b # bs) =
     (case eval_guard cel (cb_guard_expression b) ctx of
        Inr True \<Rightarrow> Inr (cb_target b)
      | Inr False \<Rightarrow> select_branch cel ctx default_target bs
      | Inl e \<Rightarrow> Inl e)"

fun split_activity_type :: "node_kind \<Rightarrow> activity_type option" where
  "split_activity_type KApproval = Some AtApproval"
| "split_activity_type KAssignment = Some AtAssignment"
| "split_activity_type KEventWait = Some AtEventWait"
| "split_activity_type KNotification = Some AtNotification"
| "split_activity_type _ = None"

fun split_targets :: "workflow_node list \<Rightarrow> string list \<Rightarrow> parallel_target list option" where
  "split_targets nodes [] = Some []"
| "split_targets nodes (bt # bts) =
     (case find_node nodes bt of
        None \<Rightarrow> None
      | Some bn \<Rightarrow>
          (case split_activity_type (kind bn) of
             None \<Rightarrow> None
           | Some ty \<Rightarrow>
               map_option (\<lambda>ts. \<lparr>pt_node_id = bt, pt_activity_type = ty, pt_assignee_role = assignee_role bn,
                                 pt_item_index = None, pt_item_payload = None\<rparr> # ts)
                 (split_targets nodes bts)))"

definition resolve_split :: "workflow_node list \<Rightarrow> workflow_node \<Rightarrow> advance_outcome" where
  "resolve_split nodes node =
     (case parallel_split node of
        None \<Rightarrow> OutcomeError
      | Some bts \<Rightarrow> (case split_targets nodes bts of None \<Rightarrow> OutcomeError | Some ts \<Rightarrow> AdvanceMulti ts))"

fun for_each_activity_type :: "node_kind \<Rightarrow> activity_type option" where
  "for_each_activity_type KApproval = Some AtApproval"
| "for_each_activity_type KAssignment = Some AtAssignment"
| "for_each_activity_type KEventWait = Some AtEventWait"
| "for_each_activity_type _ = None"

definition for_each_target :: "string \<Rightarrow> activity_type \<Rightarrow> string option \<Rightarrow> nat \<times> json \<Rightarrow> parallel_target" where
  "for_each_target template ty role ip =
     \<lparr>pt_node_id = template, pt_activity_type = ty, pt_assignee_role = role,
      pt_item_index = Some (as_i32 (int (fst ip))), pt_item_payload = Some (snd ip)\<rparr>"

text \<open>The ForEach arm. The fan-out source is recorded before the collection is evaluated.\<close>

definition resolve_for_each ::
  "('p, 'c, 'v) cel_api \<Rightarrow> workflow_node list \<Rightarrow> json option \<Rightarrow> string \<Rightarrow> workflow_node \<Rightarrow>
   resolve_trace \<Rightarrow> advance_outcome \<times> resolve_trace" where
  "resolve_for_each cel nodes ctx target_id node trace =
     (case for_each node of
        None \<Rightarrow> (OutcomeError, trace)
      | Some (items_path, branch_template, join_target, max_fanout) \<Rightarrow>
          let trace' = trace\<lparr>for_each_fan_out :=
                Some \<lparr>ff_for_each_node = target_id, ff_join_target = join_target\<rparr>\<rparr>
          in (case eval_array cel items_path ctx of
                Inl _ \<Rightarrow> (OutcomeError, trace')
              | Inr items \<Rightarrow>
                  if (case max_fanout of None \<Rightarrow> False | Some cap \<Rightarrow> int (length items) > cap)
                  then (OutcomeError, trace')
                  else (case find_node nodes branch_template of
                          None \<Rightarrow> (OutcomeError, trace')
                        | Some template_node \<Rightarrow>
                            (case for_each_activity_type (kind template_node) of
                               None \<Rightarrow> (OutcomeError, trace')
                             | Some ty \<Rightarrow>
                                 (AdvanceMulti (map (for_each_target branch_template ty (assignee_role template_node))
                                    (enumerate 0 items)), trace')))))"

function resolve_target ::
  "('p, 'c, 'v) cel_api \<Rightarrow> workflow_node list \<Rightarrow> workflow_transition list \<Rightarrow> string \<Rightarrow> json option \<Rightarrow>
   string list \<Rightarrow> resolve_trace \<Rightarrow> nat \<Rightarrow> advance_outcome \<times> resolve_trace" where
  "resolve_target cel nodes transitions target_id ctx visited trace depth =
     (if depth > MAX_RESOLVE_DEPTH then (OutcomeError, trace)
      else if target_id \<in> set visited then (OutcomeError, trace)
      else
        case find_node nodes target_id of
          None \<Rightarrow> (OutcomeError, trace)
        | Some node \<Rightarrow>
            (case kind node of
               KApproval \<Rightarrow> (Advance target_id (assignee_role node), trace)
             | KEventWait \<Rightarrow> (Advance target_id None, trace)
             | KNotification \<Rightarrow> (Advance target_id None, trace)
             | KAssignment \<Rightarrow> (Advance target_id None, trace)
             | KSubWorkflow \<Rightarrow> (Advance target_id None, trace)
             | KParallelJoin \<Rightarrow> (Advance target_id None, trace)
             | KMerge \<Rightarrow>
                 let trace' = trace\<lparr>merges_passed := merges_passed trace @ [target_id]\<rparr>
                 in (case find_next_transition transitions target_id SigApproved of
                       None \<Rightarrow> (OutcomeError, trace')
                     | Some next \<Rightarrow>
                         resolve_target cel nodes transitions (tr_to next) ctx (target_id # visited) trace' (depth + 1))
             | KParallelSplit \<Rightarrow> (resolve_split nodes node, trace)
             | KForEach \<Rightarrow> resolve_for_each cel nodes ctx target_id node trace
             | KEnd \<Rightarrow>
                 (Complete (unwrap_or WrApproved (Option.bind (end_result_code node) wr_from_db)), trace)
             | KCondition \<Rightarrow>
                 (case condition node of
                    None \<Rightarrow> (OutcomeError, trace)
                  | Some (default_target, branches) \<Rightarrow>
                      (case select_branch cel ctx default_target branches of
                         Inl _ \<Rightarrow> (OutcomeError, trace)
                       | Inr chosen \<Rightarrow>
                           resolve_target cel nodes transitions chosen ctx (target_id # visited) trace (depth + 1)))
             | KStart \<Rightarrow> (OutcomeError, trace)
             | KParallel \<Rightarrow> (OutcomeError, trace)
             | KTimer \<Rightarrow> (OutcomeError, trace)))"
  by pat_completeness auto
termination
  by (relation "measure (\<lambda>(cel, nodes, transitions, target_id, ctx, visited, trace, depth). MAX_RESOLVE_DEPTH + 1 - depth)")
    auto

declare resolve_target.simps [simp del]

section \<open>Deciding\<close>

definition decide_advance ::
  "('p, 'c, 'v) cel_api \<Rightarrow> workflow_node list \<Rightarrow> workflow_transition list \<Rightarrow> string \<Rightarrow> signal_type \<Rightarrow>
   json option \<Rightarrow> advance_outcome \<times> resolve_trace" where
  "decide_advance cel nodes transitions current_node signal ctx =
     (let resolve = (\<lambda>t. resolve_target cel nodes transitions (tr_to t) ctx [] empty_trace 0)
      in case signal of
           SigRejected \<Rightarrow> (Complete WrRejected, empty_trace)
         | SigReturned \<Rightarrow>
             (case find_next_transition transitions current_node SigReturned of
                Some t \<Rightarrow>
                  (case resolve t of
                     (Advance target_node role, trace) \<Rightarrow> (Rework target_node role, trace)
                   | (_, trace) \<Rightarrow> (OutcomeError, trace))
              | None \<Rightarrow> (Complete WrReturned, empty_trace))
         | SigResubmitted \<Rightarrow> (OutcomeError, empty_trace)
         | SigClaimed \<Rightarrow> (OutcomeError, empty_trace)
         | SigReassigned \<Rightarrow> (OutcomeError, empty_trace)
         | _ \<Rightarrow>
             (case find_next_transition transitions current_node signal of
                Some t \<Rightarrow> resolve t
              | None \<Rightarrow> (OutcomeError, empty_trace)))"

definition decide_event_wait_timeout ::
  "('p, 'c, 'v) cel_api \<Rightarrow> workflow_node list \<Rightarrow> workflow_transition list \<Rightarrow> string \<Rightarrow> json option \<Rightarrow>
   advance_outcome \<times> resolve_trace" where
  "decide_event_wait_timeout cel nodes transitions current_node ctx =
     (case find_node nodes current_node of
        None \<Rightarrow> (OutcomeError, empty_trace)
      | Some node \<Rightarrow>
          (case event_wait node of
             None \<Rightarrow> (OutcomeError, empty_trace)
           | Some (_, _, None) \<Rightarrow> (OutcomeError, empty_trace)
           | Some (_, _, Some target) \<Rightarrow>
               resolve_target cel nodes transitions target ctx [] empty_trace 0))"

end
