(* ===== verification/Flow_Runtime_Facts.thy ===== *)
theory Flow_Runtime_Facts
  imports Flow_Runtime
begin

text \<open>
  Facts about the advance decision of \<open>Flow_Runtime\<close>: what a resolved target looks like, what the
  trace records, and a refinement of the depth-bounded, cycle-checked \<open>resolve_target\<close> to the
  route through Condition and Merge nodes that the graph itself describes (\<open>routes_to\<close>).
\<close>

section \<open>One unfolding\<close>

lemma find_nodeD: "find_node nodes i = Some n \<Longrightarrow> n \<in> set nodes \<and> node_id n = i"
  by (auto simp: find_node_def dest: find_SomeD)

lemma find_node_None: "find_node nodes i = None \<longleftrightarrow> i \<notin> node_id ` set nodes"
  by (auto simp: find_node_def find_None_set)

lemma find_next_transitionD:
  "find_next_transition ts i sig = Some t \<Longrightarrow> t \<in> set ts \<and> tr_from t = i \<and> tr_on_signal t = sig"
  by (auto simp: find_next_transition_def dest: find_SomeD)

lemma find_next_transition_None:
  "find_next_transition ts i sig = None \<longleftrightarrow> (\<forall>t\<in>set ts. \<not> (tr_from t = i \<and> tr_on_signal t = sig))"
  by (simp add: find_next_transition_def find_None_set)

text \<open>The node a routing node (Merge, Condition) hands over to.\<close>

definition route_next ::
  "('p, 'c, 'v) cel_api \<Rightarrow> workflow_node list \<Rightarrow> workflow_transition list \<Rightarrow> json option \<Rightarrow> string \<Rightarrow>
   string option" where
  "route_next cel nodes transitions ctx i =
     (case find_node nodes i of
        None \<Rightarrow> None
      | Some n \<Rightarrow>
          if kind n = KMerge then map_option tr_to (find_next_transition transitions i SigApproved)
          else if kind n = KCondition then
            (case condition n of
               None \<Rightarrow> None
             | Some (d, bs) \<Rightarrow> (case select_branch cel ctx d bs of Inl _ \<Rightarrow> None | Inr j \<Rightarrow> Some j))
          else None)"

text \<open>The outcome at a node where routing stops.\<close>

definition landing ::
  "('p, 'c, 'v) cel_api \<Rightarrow> workflow_node list \<Rightarrow> json option \<Rightarrow> string \<Rightarrow> advance_outcome" where
  "landing cel nodes ctx i =
     (case find_node nodes i of
        None \<Rightarrow> OutcomeError
      | Some n \<Rightarrow>
          if kind n = KApproval then Advance i (assignee_role n)
          else if kind n \<in> {KEventWait, KNotification, KAssignment, KSubWorkflow, KParallelJoin} then Advance i None
          else if kind n = KEnd then Complete (unwrap_or WrApproved (Option.bind (end_result_code n) wr_from_db))
          else if kind n = KParallelSplit then resolve_split nodes n
          else if kind n = KForEach then fst (resolve_for_each cel nodes ctx i n empty_trace)
          else OutcomeError)"

definition is_merge :: "workflow_node list \<Rightarrow> string \<Rightarrow> bool" where
  "is_merge nodes i \<longleftrightarrow> (\<exists>n. find_node nodes i = Some n \<and> kind n = KMerge)"

definition is_routing :: "workflow_node list \<Rightarrow> string \<Rightarrow> bool" where
  "is_routing nodes i \<longleftrightarrow> (\<exists>n. find_node nodes i = Some n \<and> kind n \<in> {KMerge, KCondition})"

lemma resolve_for_each_fst:
  "fst (resolve_for_each cel nodes ctx i n trace) = fst (resolve_for_each cel nodes ctx i n empty_trace)"
  by (simp add: resolve_for_each_def Let_def split: option.splits sum.splits)

lemma resolve_for_each_merges:
  "merges_passed (snd (resolve_for_each cel nodes ctx i n trace)) = merges_passed trace"
  by (simp add: resolve_for_each_def Let_def split: option.splits sum.splits)

lemma route_next_routing: "route_next cel nodes ts ctx i = Some j \<Longrightarrow> is_routing nodes i"
  by (auto simp: route_next_def is_routing_def split: option.splits if_splits)

lemma landing_routing: "is_routing nodes i \<Longrightarrow> landing cel nodes ctx i = OutcomeError"
  by (auto simp: landing_def is_routing_def)

text \<open>One step of \<open>resolve_target\<close> in these terms.\<close>

lemma resolve_target_step:
  assumes "depth \<le> MAX_RESOLVE_DEPTH" "i \<notin> set visited" "route_next cel nodes ts ctx i = Some j"
  shows "resolve_target cel nodes ts i ctx visited trace depth =
    resolve_target cel nodes ts j ctx (i # visited)
      (if is_merge nodes i then trace\<lparr>merges_passed := merges_passed trace @ [i]\<rparr> else trace) (depth + 1)"
  using assms
  by (subst resolve_target.simps)
    (auto simp: route_next_def is_merge_def Let_def split: option.splits if_splits sum.splits node_kind.splits)

lemma resolve_target_land:
  assumes "depth \<le> MAX_RESOLVE_DEPTH" "i \<notin> set visited" "route_next cel nodes ts ctx i = None"
  shows "fst (resolve_target cel nodes ts i ctx visited trace depth) = landing cel nodes ctx i"
  using assms
  by (subst resolve_target.simps)
    (auto simp: route_next_def landing_def Let_def resolve_for_each_fst [of cel nodes ctx i _ trace]
      split: option.splits if_splits sum.splits node_kind.splits)

lemma resolve_target_land_merges:
  assumes "route_next cel nodes ts ctx i = None"
  shows "merges_passed (snd (resolve_target cel nodes ts i ctx visited trace depth)) \<in>
    {merges_passed trace, merges_passed trace @ [i]}"
  using assms
  by (subst resolve_target.simps)
    (auto simp: route_next_def Let_def resolve_for_each_merges
      split: option.splits if_splits sum.splits node_kind.splits)

lemma resolve_target_stop:
  assumes "depth > MAX_RESOLVE_DEPTH \<or> i \<in> set visited"
  shows "resolve_target cel nodes ts i ctx visited trace depth = (OutcomeError, trace)"
  using assms by (subst resolve_target.simps) auto

text \<open>An induction rule with only these three cases.\<close>

lemma resolve_induct [case_names stop land step]:
  assumes "\<And>i visited trace depth. depth > MAX_RESOLVE_DEPTH \<or> i \<in> set visited \<Longrightarrow> P i visited trace depth"
    and "\<And>i visited trace depth. depth \<le> MAX_RESOLVE_DEPTH \<Longrightarrow> i \<notin> set visited \<Longrightarrow>
      route_next cel nodes ts ctx i = None \<Longrightarrow> P i visited trace depth"
    and "\<And>i j visited trace depth. depth \<le> MAX_RESOLVE_DEPTH \<Longrightarrow> i \<notin> set visited \<Longrightarrow>
      route_next cel nodes ts ctx i = Some j \<Longrightarrow>
      P j (i # visited) (if is_merge nodes i then trace\<lparr>merges_passed := merges_passed trace @ [i]\<rparr> else trace)
        (depth + 1) \<Longrightarrow> P i visited trace depth"
  shows "P i visited trace depth"
proof (induction "MAX_RESOLVE_DEPTH + 1 - depth" arbitrary: i visited trace depth rule: less_induct)
  case less
  show ?case
  proof (cases "depth > MAX_RESOLVE_DEPTH \<or> i \<in> set visited")
    case True
    then show ?thesis by (rule assms(1))
  next
    case False
    show ?thesis
    proof (cases "route_next cel nodes ts ctx i")
      case None
      from assms(2) [OF _ _ None] False show ?thesis by auto
    next
      case (Some j)
      have "P j (i # visited) (if is_merge nodes i then trace\<lparr>merges_passed := merges_passed trace @ [i]\<rparr> else trace)
          (depth + 1)"
        by (rule less) (use False in auto)
      from assms(3) [OF _ _ Some this] False show ?thesis by auto
    qed
  qed
qed

section \<open>Where a decision lands\<close>

lemma landing_not_rework: "landing cel nodes ctx i \<noteq> Rework t r"
  by (auto simp: landing_def resolve_split_def resolve_for_each_def Let_def split: option.splits sum.splits)

lemma resolve_target_landing:
  "fst (resolve_target cel nodes ts i ctx visited trace depth) = OutcomeError \<or>
   (\<exists>m. \<not> is_routing nodes m \<and> fst (resolve_target cel nodes ts i ctx visited trace depth) = landing cel nodes ctx m)"
proof (induction i visited trace depth rule: resolve_induct [where cel = cel and nodes = nodes and ts = ts and ctx = ctx])
  case (stop i visited trace depth)
  then show ?case by (simp add: resolve_target_stop)
next
  case (land i visited trace depth)
  then show ?case by (cases "is_routing nodes i") (auto simp: resolve_target_land landing_routing)
next
  case (step i j visited trace depth)
  then show ?case by (simp add: resolve_target_step)
qed

lemma resolve_target_not_rework:
  "fst (resolve_target cel nodes ts i ctx visited trace depth) \<noteq> Rework t r"
  using resolve_target_landing [of cel nodes ts i ctx visited trace depth]
  by (elim disjE exE conjE) (simp_all add: landing_not_rework)

definition waiting_kinds :: "node_kind set" where
  "waiting_kinds = {KApproval, KEventWait, KNotification, KAssignment, KSubWorkflow, KParallelJoin}"

lemma assignee_role_non_approval: "kind n \<noteq> KApproval \<Longrightarrow> assignee_role n = None"
  by (auto simp: kind_def assignee_role_def split: node_config.splits)

lemma landing_Advance:
  assumes "landing cel nodes ctx m = Advance t r"
  shows "\<exists>n. find_node nodes t = Some n \<and> kind n \<in> waiting_kinds \<and> r = assignee_role n"
  using assms
  by (auto simp: landing_def waiting_kinds_def resolve_split_def resolve_for_each_def Let_def assignee_role_non_approval
      split: option.splits if_splits sum.splits)

lemma resolve_Advance:
  assumes "resolve_target cel nodes ts i ctx visited trace depth = (Advance t r, tr)"
  shows "\<exists>n. find_node nodes t = Some n \<and> kind n \<in> waiting_kinds \<and> r = assignee_role n"
proof -
  have "fst (resolve_target cel nodes ts i ctx visited trace depth) = Advance t r" using assms by simp
  with resolve_target_landing [of cel nodes ts i ctx visited trace depth]
  have "\<exists>m. landing cel nodes ctx m = Advance t r" by auto
  then show ?thesis by (auto intro: landing_Advance)
qed

section \<open>Fan-out targets\<close>

definition split_target_ok :: "workflow_node list \<Rightarrow> parallel_target \<Rightarrow> bool" where
  "split_target_ok nodes pt \<longleftrightarrow>
     (\<exists>n. find_node nodes (pt_node_id pt) = Some n \<and> split_activity_type (kind n) = Some (pt_activity_type pt) \<and>
          pt_assignee_role pt = assignee_role n)"

lemma split_targets_ids: "split_targets nodes bts = Some ts \<Longrightarrow> map pt_node_id ts = bts"
  by (induction bts arbitrary: ts) (auto split: option.splits)

lemma split_targets_ok:
  "split_targets nodes bts = Some ts \<Longrightarrow> \<forall>pt\<in>set ts. split_target_ok nodes pt \<and> pt_item_index pt = None"
  by (induction bts arbitrary: ts) (auto simp: split_target_ok_def split: option.splits)

lemma for_each_type_split: "for_each_activity_type k = Some ty \<Longrightarrow> split_activity_type k = Some ty"
  by (cases k) auto

lemma resolve_for_each_multi:
  assumes "resolve_for_each cel nodes ctx i n trace = (AdvanceMulti pts, tr)"
  obtains ip bt jt mf items tn ty where
    "for_each n = Some (ip, bt, jt, mf)" "eval_array cel ip ctx = Inr items"
    "case mf of None \<Rightarrow> True | Some cap \<Rightarrow> int (length items) \<le> cap"
    "find_node nodes bt = Some tn" "for_each_activity_type (kind tn) = Some ty"
    "pts = map (for_each_target bt ty (assignee_role tn)) (enumerate 0 items)"
  using assms by (auto simp: resolve_for_each_def Let_def split: option.splits sum.splits if_splits)

lemma landing_multi_ok:
  assumes "landing cel nodes ctx m = AdvanceMulti pts"
  shows "\<forall>pt\<in>set pts. split_target_ok nodes pt"
proof -
  from assms obtain n where n: "find_node nodes m = Some n"
    and c: "(kind n = KParallelSplit \<and> resolve_split nodes n = AdvanceMulti pts) \<or>
            (kind n = KForEach \<and> fst (resolve_for_each cel nodes ctx m n empty_trace) = AdvanceMulti pts)"
    by (auto simp: landing_def split: option.splits if_splits)
  from c show ?thesis
  proof
    assume "kind n = KParallelSplit \<and> resolve_split nodes n = AdvanceMulti pts"
    then show ?thesis by (auto simp: resolve_split_def split: option.splits dest: split_targets_ok)
  next
    assume f: "kind n = KForEach \<and> fst (resolve_for_each cel nodes ctx m n empty_trace) = AdvanceMulti pts"
    obtain tr where "resolve_for_each cel nodes ctx m n empty_trace = (AdvanceMulti pts, tr)"
      using f by (cases "resolve_for_each cel nodes ctx m n empty_trace") auto
    then show ?thesis
      by (elim resolve_for_each_multi) (auto simp: for_each_target_def split_target_ok_def dest: for_each_type_split)
  qed
qed

section \<open>The trace\<close>

text \<open>
  The Merge nodes a resolution records are Merge nodes of the graph, pairwise different, none of
  them visited before, and at most nine (one per depth).
\<close>

lemma resolve_target_merges:
  "\<exists>ms. merges_passed (snd (resolve_target cel nodes ts i ctx visited trace depth)) = merges_passed trace @ ms \<and>
        distinct ms \<and> set ms \<inter> set visited = {} \<and> (\<forall>m\<in>set ms. is_merge nodes m) \<and>
        length ms \<le> MAX_RESOLVE_DEPTH + 1 - depth"
proof (induction i visited trace depth rule: resolve_induct [where cel = cel and nodes = nodes and ts = ts and ctx = ctx])
  case (stop i visited trace depth)
  then show ?case by (simp add: resolve_target_stop)
next
  case (land i visited trace depth)
  show ?case
  proof (cases "find_node nodes i")
    case None
    then show ?thesis using land by (subst resolve_target.simps) auto
  next
    case (Some n)
    show ?thesis
    proof (cases "kind n = KMerge")
      case True
      with Some land show ?thesis
        by (subst resolve_target.simps) (auto simp: is_merge_def route_next_def Let_def intro!: exI [of _ "[i]"])
    next
      case False
      with Some land show ?thesis
        by (subst resolve_target.simps)
          (auto simp: route_next_def resolve_for_each_merges split: node_kind.splits option.splits sum.splits)
    qed
  qed
next
  case (step i j visited trace depth)
  then obtain ms where ms:
    "merges_passed (snd (resolve_target cel nodes ts i ctx visited trace depth)) =
       merges_passed (if is_merge nodes i then trace\<lparr>merges_passed := merges_passed trace @ [i]\<rparr> else trace) @ ms"
    "distinct ms" "set ms \<inter> set (i # visited) = {}" "\<forall>m\<in>set ms. is_merge nodes m"
    "length ms \<le> MAX_RESOLVE_DEPTH + 1 - (depth + 1)"
    by (auto simp: resolve_target_step)
  show ?case
  proof (cases "is_merge nodes i")
    case True
    with ms step show ?thesis by (intro exI [of _ "i # ms"]) auto
  next
    case False
    with ms step show ?thesis by (intro exI [of _ ms]) auto
  qed
qed

section \<open>Refinement: the route the graph describes\<close>

text \<open>
  \<open>routes_to i k m\<close>: following Merge and Condition nodes from \<open>i\<close> reaches the non-routing node \<open>m\<close>
  in exactly \<open>k\<close> steps. No bound and no visited set: this is what the graph says.
\<close>

inductive routes_to ::
  "('p, 'c, 'v) cel_api \<Rightarrow> workflow_node list \<Rightarrow> workflow_transition list \<Rightarrow> json option \<Rightarrow>
   string \<Rightarrow> nat \<Rightarrow> string \<Rightarrow> bool" for cel nodes ts ctx where
  land: "find_node nodes i = Some n \<Longrightarrow> kind n \<notin> {KMerge, KCondition} \<Longrightarrow> routes_to cel nodes ts ctx i 0 i"
| step: "route_next cel nodes ts ctx i = Some j \<Longrightarrow> routes_to cel nodes ts ctx j k m \<Longrightarrow>
    routes_to cel nodes ts ctx i (Suc k) m"

inductive_cases routes_to_0E: "routes_to cel nodes ts ctx i 0 m"
inductive_cases routes_to_SucE: "routes_to cel nodes ts ctx i (Suc k) m"

lemma routes_to_det:
  "routes_to cel nodes ts ctx i k m \<Longrightarrow> routes_to cel nodes ts ctx i k' m' \<Longrightarrow> k = k' \<and> m = m'"
proof (induction arbitrary: k' m' rule: routes_to.induct)
  case (land i n)
  have "route_next cel nodes ts ctx i = None" using land by (simp add: route_next_def)
  with land.prems show ?case by (auto elim: routes_to.cases)
next
  case (step i j k m)
  from step.hyps(1) have r: "is_routing nodes i" by (rule route_next_routing)
  from step.prems obtain k'' where "k' = Suc k''" "routes_to cel nodes ts ctx j k'' m'"
    using step.hyps(1) r by (auto simp: is_routing_def elim: routes_to.cases)
  with step.IH show ?case by simp
qed

lemma routes_to_shorter:
  "routes_to cel nodes ts ctx i k m \<Longrightarrow> routes_to cel nodes ts ctx i k' m' \<Longrightarrow> k' < k \<Longrightarrow> False"
  using routes_to_det by (metis less_irrefl)

text \<open>
  Soundness of the two guards: when the graph routes from \<open>i\<close>, the visited set never stops the
  resolution, because the visited nodes all route in strictly more steps.
\<close>

lemma resolve_of_routes:
  assumes "routes_to cel nodes ts ctx i k m" "depth + k \<le> MAX_RESOLVE_DEPTH"
    and "\<forall>v\<in>set visited. \<exists>k'>k. routes_to cel nodes ts ctx v k' m"
  shows "fst (resolve_target cel nodes ts i ctx visited trace depth) = landing cel nodes ctx m"
  using assms
proof (induction arbitrary: visited trace depth rule: routes_to.induct)
  case (land i n)
  have "i \<notin> set visited" using land.prems(2) routes_to.land [OF land.hyps] by (meson routes_to_shorter)
  moreover have "route_next cel nodes ts ctx i = None" using land by (simp add: route_next_def)
  ultimately show ?case using land.prems by (simp add: resolve_target_land)
next
  case (step i j k m)
  have R: "routes_to cel nodes ts ctx i (Suc k) m" using step.hyps by (rule routes_to.step)
  have nv: "i \<notin> set visited" using step.prems(2) R by (meson routes_to_shorter)
  have "\<forall>v\<in>set (i # visited). \<exists>k'>k. routes_to cel nodes ts ctx v k' m"
    using step.prems(2) R by (auto intro: Suc_lessD)
  with step.IH step.prems nv step.hyps(1) show ?case by (simp add: resolve_target_step)
qed

lemma routes_of_resolve:
  "fst (resolve_target cel nodes ts i ctx visited trace depth) = out \<Longrightarrow> out \<noteq> OutcomeError \<Longrightarrow>
   \<exists>k m. depth + k \<le> MAX_RESOLVE_DEPTH \<and> routes_to cel nodes ts ctx i k m \<and> landing cel nodes ctx m = out"
proof (induction i visited trace depth rule: resolve_induct [where cel = cel and nodes = nodes and ts = ts and ctx = ctx])
  case (stop i visited trace depth)
  then show ?case by (simp add: resolve_target_stop)
next
  case (land i visited trace depth)
  then have l: "landing cel nodes ctx i = out" by (simp add: resolve_target_land)
  with land.prems have "\<not> is_routing nodes i" by (auto simp: landing_routing)
  moreover have "find_node nodes i \<noteq> None" using l land.prems by (cases "find_node nodes i") (auto simp: landing_def)
  ultimately have "routes_to cel nodes ts ctx i 0 i" by (auto simp: is_routing_def intro: routes_to.land)
  with l land show ?case by (intro exI [of _ 0] exI [of _ i]) auto
next
  case (step i j visited trace depth)
  then obtain k m where "depth + 1 + k \<le> MAX_RESOLVE_DEPTH" "routes_to cel nodes ts ctx j k m"
    "landing cel nodes ctx m = out"
    by (auto simp: resolve_target_step)
  with step.hyps show ?case by (intro exI [of _ "Suc k"] exI [of _ m]) (auto intro: routes_to.step)
qed

lemma resolve_refines_routes:
  "(fst (resolve_target cel nodes ts i ctx [] trace 0) = out \<and> out \<noteq> OutcomeError) \<longleftrightarrow>
   (\<exists>k m. k \<le> MAX_RESOLVE_DEPTH \<and> routes_to cel nodes ts ctx i k m \<and> landing cel nodes ctx m = out \<and>
      out \<noteq> OutcomeError)"
proof
  assume "fst (resolve_target cel nodes ts i ctx [] trace 0) = out \<and> out \<noteq> OutcomeError"
  then show "\<exists>k m. k \<le> MAX_RESOLVE_DEPTH \<and> routes_to cel nodes ts ctx i k m \<and> landing cel nodes ctx m = out \<and>
      out \<noteq> OutcomeError"
    using routes_of_resolve [of cel nodes ts i ctx "[]" trace 0 out] by auto
next
  assume "\<exists>k m. k \<le> MAX_RESOLVE_DEPTH \<and> routes_to cel nodes ts ctx i k m \<and> landing cel nodes ctx m = out \<and>
      out \<noteq> OutcomeError"
  then show "fst (resolve_target cel nodes ts i ctx [] trace 0) = out \<and> out \<noteq> OutcomeError"
    using resolve_of_routes [where visited = "[]" and depth = 0] by auto
qed

end
