(* ===== verification/Flow_Validate.thy ===== *)
theory Flow_Validate
  imports Flow_Runtime
begin

text \<open>
  \<open>validate_definition\<close> and \<open>validate_domain_driven\<close> of crates/hetuflow-runtime/src/lib.rs, one
  definition per node kind in the order of the source, with its messages. A check that fails
  returns at once; the first error wins.
\<close>

definition reject :: "string \<Rightarrow> unit res" where
  "reject m = Inl (Validation m)"

definition require :: "bool \<Rightarrow> string \<Rightarrow> unit res" where
  "require b m = (if b then Inr () else reject m)"

lemma reject_not_Inr [simp]: "reject m \<noteq> Inr u"
  by (simp add: reject_def)

lemma require_eq_Inr [res_simps]: "require b m = Inr u \<longleftrightarrow> b"
  by (simp add: require_def)

definition has_out :: "workflow_transition list \<Rightarrow> string \<Rightarrow> signal_type \<Rightarrow> bool" where
  "has_out transitions i sig \<longleftrightarrow> list_ex (\<lambda>t. tr_from t = i \<and> tr_on_signal t = sig) transitions"

lemma has_out_iff: "has_out ts i sig \<longleftrightarrow> (\<exists>t\<in>set ts. tr_from t = i \<and> tr_on_signal t = sig)"
  by (simp add: has_out_def list_ex_iff)

definition node_ids :: "workflow_node list \<Rightarrow> string list" where
  "node_ids nodes = map node_id nodes"

section \<open>Context writes\<close>

fun check_context_keys :: "string \<Rightarrow> string list \<Rightarrow> string list \<Rightarrow> unit res" where
  "check_context_keys nid seen [] = Inr ()"
| "check_context_keys nid seen (key # keys) =
     (if key = [] then reject (''node '' @ quoted nid @ '' context_writes must not contain empty keys'')
      else if key \<in> set seen then
        reject (''node '' @ quoted nid @ '' context_writes contains duplicate key '' @ quoted key)
      else check_context_keys nid (key # seen) keys)"

definition validate_context_writes :: "workflow_node \<Rightarrow> unit res" where
  "validate_context_writes node =
     (if node_context_writes node = [] then Inr ()
      else thenR (require (kind node \<in> {KApproval, KEventWait, KNotification, KAssignment})
             (''node '' @ quoted (node_id node) @ '' context_writes may only be configured on activity nodes''))
        (check_context_keys (node_id node) [] (node_context_writes node)))"

section \<open>One check per node kind\<close>

definition validate_notification :: "workflow_transition list \<Rightarrow> workflow_node \<Rightarrow> unit res" where
  "validate_notification transitions node =
     (case notification node of
        None \<Rightarrow> reject (''notification node '' @ quoted (node_id node) @ '' config missing'')
      | Some config \<Rightarrow>
          thenR (require (unwrap_or [] (nc_template_code config) \<noteq> [])
            (''notification node '' @ quoted (node_id node) @ '' template_code must not be empty''))
          (thenR (require (nc_recipient_selector config \<noteq> None)
            (''notification node '' @ quoted (node_id node) @ '' recipient_selector must not be empty''))
          (require (has_out transitions (node_id node) SigCompleted)
            (''notification node '' @ quoted (node_id node) @ '' must have a COMPLETED outgoing transition''))))"

definition validate_assignment :: "workflow_transition list \<Rightarrow> workflow_node \<Rightarrow> unit res" where
  "validate_assignment transitions node =
     (case assignment node of
        None \<Rightarrow> reject (''assignment node '' @ quoted (node_id node) @ '' config missing'')
      | Some config \<Rightarrow>
          thenR (require (\<not> (ac_assignee_selector config = None \<and> unwrap_or [] (ac_queue_code config) = []))
            (''assignment node '' @ quoted (node_id node) @ '' requires assignee_selector or queue_code''))
          (require (has_out transitions (node_id node) SigCompleted)
            (''assignment node '' @ quoted (node_id node) @ '' must have a COMPLETED outgoing transition'')))"

definition validate_escalation :: "workflow_node \<Rightarrow> unit res" where
  "validate_escalation node =
     (case escalation_raw node of
        None \<Rightarrow> Inr ()
      | Some (esc_secs_opt, esc_role_opt) \<Rightarrow>
          (case (option_filter (\<lambda>s. s > 0) esc_secs_opt, option_filter non_empty esc_role_opt) of
             (None, None) \<Rightarrow> Inr ()
           | (Some secs, Some _) \<Rightarrow>
               (case sla_seconds node of
                  Some sla \<Rightarrow>
                    require (\<not> secs \<le> sla)
                      (''approval node '' @ quoted (node_id node) @ '' escalation_seconds ('' @ show_int secs @
                       '') must be > sla_seconds ('' @ show_int sla @ '')'')
                | None \<Rightarrow> Inr ())
           | (Some _, None) \<Rightarrow>
               reject (''approval node '' @ quoted (node_id node) @
                 '' escalation_seconds set but escalation_target_role missing'')
           | (None, Some _) \<Rightarrow>
               reject (''approval node '' @ quoted (node_id node) @
                 '' escalation_target_role set but escalation_seconds missing'')))"

definition validate_approval :: "workflow_transition list \<Rightarrow> workflow_node \<Rightarrow> unit res" where
  "validate_approval transitions node =
     thenR (require (unwrap_or [] (assignee_role node) \<noteq> [])
       (''approval node '' @ quoted (node_id node) @ '' assignee_role must not be empty''))
     (thenR (require (has_out transitions (node_id node) SigApproved)
       (''approval node '' @ quoted (node_id node) @ '' must have at least one APPROVED outgoing transition''))
     (validate_escalation node))"

definition validate_condition ::
  "('p, 'c, 'v) cel_api \<Rightarrow> workflow_node list \<Rightarrow> workflow_node \<Rightarrow> unit res" where
  "validate_condition cel nodes node =
     (case condition node of
        None \<Rightarrow> Inr ()
      | Some (default_target, branches) \<Rightarrow>
          thenR (require (default_target \<noteq> [])
            (''condition node '' @ quoted (node_id node) @
             '' must have non-empty default_target (X3 #10 mandatory default)''))
          (thenR (require (default_target \<in> set (node_ids nodes))
            (''condition node '' @ quoted (node_id node) @ '' default_target '' @ quoted default_target @
             '' references unknown node''))
          (check_all (\<lambda>b.
             thenR (require (cb_target b \<in> set (node_ids nodes))
               (''condition node '' @ quoted (node_id node) @ '' branch target '' @ quoted (cb_target b) @
                '' references unknown node''))
             (map_errR (\<lambda>e. Validation (''condition node '' @ quoted (node_id node) @
                '' branch guard invalid: '' @ e)) (validate_expression cel (cb_guard_expression b))))
           branches)))"

definition validate_event_wait ::
  "workflow_node list \<Rightarrow> workflow_transition list \<Rightarrow> workflow_node \<Rightarrow> unit res" where
  "validate_event_wait nodes transitions node =
     (case event_wait node of
        None \<Rightarrow> Inr ()
      | Some (event_type, _, timeout_target) \<Rightarrow>
          thenR (require (event_type \<noteq> [])
            (''event_wait node '' @ quoted (node_id node) @ '' event_type must not be empty''))
          (thenR (case timeout_target of
               None \<Rightarrow> Inr ()
             | Some target \<Rightarrow>
                 require (target \<in> set (node_ids nodes))
                   (''event_wait node '' @ quoted (node_id node) @ '' timeout_target '' @ quoted target @
                    '' references unknown node''))
          (require (has_out transitions (node_id node) SigEventReceived \<or> timeout_target \<noteq> None)
            (''event_wait node '' @ quoted (node_id node) @
             '' must have at least one EVENT_RECEIVED outgoing transition or a timeout_target''))))"

text \<open>The signal that completes a parallel branch, by the kind of its node.\<close>

fun completion_signal :: "node_kind \<Rightarrow> signal_type option" where
  "completion_signal KApproval = Some SigApproved"
| "completion_signal KAssignment = Some SigCompleted"
| "completion_signal KNotification = Some SigCompleted"
| "completion_signal KEventWait = Some SigEventReceived"
| "completion_signal _ = None"

definition is_join_node :: "workflow_node list \<Rightarrow> string \<Rightarrow> bool" where
  "is_join_node nodes i = (case find_node nodes i of None \<Rightarrow> False | Some n \<Rightarrow> kind n = KParallelJoin)"

text \<open>One branch of a split: its checks, then the join it converges to.\<close>

definition split_branch_join ::
  "workflow_node list \<Rightarrow> workflow_transition list \<Rightarrow> string \<Rightarrow> string \<Rightarrow> string res" where
  "split_branch_join nodes transitions sid bt =
     (if bt \<notin> set (node_ids nodes) then
        Inl (Validation (''parallel_split node '' @ quoted sid @ '' branch_target '' @ quoted bt @
          '' references unknown node''))
      else case find_node nodes bt of
        None \<Rightarrow> Inl (Validation (''parallel_split node '' @ quoted sid @ '' branch_target '' @ quoted bt @
          '' references unknown node''))
      | Some branch_node \<Rightarrow>
          (case completion_signal (kind branch_node) of
             None \<Rightarrow> Inl (Validation (''parallel_split node '' @ quoted sid @ '' branch_target '' @ quoted bt @
               '' must be one of {APPROVAL, ASSIGNMENT, EVENT_WAIT, NOTIFICATION} kind; got '' @
               kind_debug (kind branch_node)))
           | Some sig \<Rightarrow>
               if node_context_writes branch_node \<noteq> [] then
                 Inl (Validation (''parallel_split node '' @ quoted sid @ '' branch_target '' @ quoted bt @
                   '' must not declare context_writes''))
               else case find_next_transition transitions bt sig of
                 None \<Rightarrow> Inl (Validation (''parallel_split node '' @ quoted sid @ '' branch '' @ quoted bt @
                   '' must have a '' @ sig_debug sig @ '' outgoing transition (to ParallelJoin)''))
               | Some t \<Rightarrow>
                   if \<not> is_join_node nodes (tr_to t) then
                     Inl (Validation (''parallel_split node '' @ quoted sid @ '' branch '' @ quoted bt @
                       '' APPROVED transition must target a ParallelJoin (got '' @ quoted (tr_to t) @ '')''))
                   else Inr (tr_to t)))"

fun check_split_branches ::
  "workflow_node list \<Rightarrow> workflow_transition list \<Rightarrow> string \<Rightarrow> string option \<Rightarrow> string list \<Rightarrow> unit res" where
  "check_split_branches nodes transitions sid join_id [] = Inr ()"
| "check_split_branches nodes transitions sid join_id (bt # bts) =
     bindR (split_branch_join nodes transitions sid bt) (\<lambda>target_to.
       case join_id of
         None \<Rightarrow> check_split_branches nodes transitions sid (Some target_to) bts
       | Some existing \<Rightarrow>
           if existing \<noteq> target_to then
             reject (''parallel_split node '' @ quoted sid @ '' branches must converge to the SAME ParallelJoin (got '' @
               quoted existing @ '' and '' @ quoted target_to @ '')'')
           else check_split_branches nodes transitions sid join_id bts)"

definition validate_split ::
  "workflow_node list \<Rightarrow> workflow_transition list \<Rightarrow> workflow_node \<Rightarrow> unit res" where
  "validate_split nodes transitions node =
     (case parallel_split node of
        None \<Rightarrow> Inr ()
      | Some branch_targets \<Rightarrow>
          thenR (require (length branch_targets \<ge> 2)
            (''parallel_split node '' @ quoted (node_id node) @ '' must have >= 2 branch_targets (got '' @
             show_int (int (length branch_targets)) @ '')''))
          (check_split_branches nodes transitions (node_id node) None branch_targets))"

definition incoming_count :: "workflow_transition list \<Rightarrow> string \<Rightarrow> nat" where
  "incoming_count transitions i =
     length (filter (\<lambda>t. tr_to t = i \<and> is_join_incoming_signal (tr_on_signal t)) transitions)"

definition is_for_each_join :: "workflow_node list \<Rightarrow> string \<Rightarrow> bool" where
  "is_for_each_join nodes i \<longleftrightarrow>
     list_ex (\<lambda>n. case for_each n of None \<Rightarrow> False | Some (_, _, jt, _) \<Rightarrow> jt = i) nodes"

definition validate_join ::
  "workflow_node list \<Rightarrow> workflow_transition list \<Rightarrow> workflow_node \<Rightarrow> unit res" where
  "validate_join nodes transitions node =
     (let incoming = incoming_count transitions (node_id node);
          fe = is_for_each_join nodes (node_id node)
      in thenR (require (\<not> (\<not> fe \<and> incoming < 2))
           (''parallel_join node '' @ quoted (node_id node) @
            '' must have >= 2 incoming branch transitions (APPROVED/COMPLETED/EVENT_RECEIVED) (got '' @
            show_int (int incoming) @ '')''))
         (thenR (require (has_out transitions (node_id node) SigApproved)
           (''parallel_join node '' @ quoted (node_id node) @
            '' must have an APPROVED outgoing transition (to advance after join)''))
         (case node_join_strategy node of
            Some (NOfM n) \<Rightarrow>
              thenR (require (\<not> n < 1)
                (''parallel_join node '' @ quoted (node_id node) @
                 '' N_OF_M strategy requires min_completions >= 1 (got '' @ show_int n @ '')''))
              (require (\<not> (\<not> fe \<and> nat n > incoming))
                (''parallel_join node '' @ quoted (node_id node) @ '' N_OF_M min_completions ('' @ show_int n @
                 '') exceeds incoming branches ('' @ show_int (int incoming) @ '')''))
          | _ \<Rightarrow> Inr ())))"

definition branch_into_merge :: "workflow_transition list \<Rightarrow> string \<Rightarrow> workflow_node \<Rightarrow> string option" where
  "branch_into_merge transitions mid split =
     (case parallel_split split of
        None \<Rightarrow> None
      | Some bts \<Rightarrow>
          List.find (\<lambda>bt. list_ex (\<lambda>t. tr_from t = bt \<and> tr_on_signal t = SigApproved \<and> tr_to t = mid) transitions) bts)"

definition validate_merge ::
  "workflow_node list \<Rightarrow> workflow_transition list \<Rightarrow> workflow_node \<Rightarrow> unit res" where
  "validate_merge nodes transitions node =
     (let outgoing = filter (\<lambda>t. tr_from t = node_id node \<and> tr_on_signal t = SigApproved) transitions
      in case outgoing of
           [t] \<Rightarrow>
             thenR (case find_node nodes (tr_to t) of
                 None \<Rightarrow> Inr ()
               | Some to_node \<Rightarrow>
                   require (kind to_node \<noteq> KParallelSplit)
                     (''merge node '' @ quoted (node_id node) @
                      '' APPROVED outgoing must not target a ParallelSplit (no implicit fan-out after merge)''))
             (check_all (\<lambda>split. case branch_into_merge transitions (node_id node) split of
                 None \<Rightarrow> Inr ()
               | Some bt \<Rightarrow>
                   reject (''merge node '' @ quoted (node_id node) @
                     '' must not be the convergence of parallel branches (use ParallelJoin); branch '' @
                     quoted bt @ '' targets it''))
               (filter (\<lambda>n. kind n = KParallelSplit) nodes))
         | _ \<Rightarrow>
             reject (''merge node '' @ quoted (node_id node) @
               '' must have exactly one APPROVED outgoing transition (got '' @ show_int (int (length outgoing)) @ '')''))"

definition validate_for_each ::
  "('p, 'c, 'v) cel_api \<Rightarrow> workflow_node list \<Rightarrow> workflow_transition list \<Rightarrow> workflow_node \<Rightarrow> unit res" where
  "validate_for_each cel nodes transitions node =
     (case for_each node of
        None \<Rightarrow> Inr ()
      | Some (items_path, branch_template, join_target, _) \<Rightarrow>
          thenR (require (items_path \<noteq> [])
            (''for_each node '' @ quoted (node_id node) @ '' items_path must not be empty''))
          (thenR (map_errR (\<lambda>e. Validation (''for_each node '' @ quoted (node_id node) @ '' items_path invalid: '' @ e))
             (validate_expression cel items_path))
          (bindR (okorR (Validation (''for_each node '' @ quoted (node_id node) @ '' branch_template '' @
                quoted branch_template @ '' references unknown node'')) (find_node nodes branch_template))
             (\<lambda>template_node.
          thenR (require (kind template_node \<in> {KApproval, KAssignment, KEventWait})
            (''for_each node '' @ quoted (node_id node) @ '' branch_template '' @ quoted branch_template @
             '' must be APPROVAL/ASSIGNMENT/EVENT_WAIT kind (no nested fan-out); got '' @
             kind_debug (kind template_node)))
          (thenR (require (node_context_writes template_node = [])
            (''for_each node '' @ quoted (node_id node) @ '' branch_template '' @ quoted branch_template @
             '' must not declare context_writes''))
          (bindR (okorR (Validation (''for_each node '' @ quoted (node_id node) @ '' join_target '' @
                quoted join_target @ '' references unknown node'')) (find_node nodes join_target))
             (\<lambda>join_node.
          thenR (require (kind join_node = KParallelJoin)
            (''for_each node '' @ quoted (node_id node) @ '' join_target '' @ quoted join_target @
             '' must be a ParallelJoin (got '' @ kind_debug (kind join_node) @ '')''))
          (require (list_ex (\<lambda>t. tr_from t = branch_template \<and> tr_to t = join_target \<and>
                                is_join_incoming_signal (tr_on_signal t)) transitions)
            (''for_each node '' @ quoted (node_id node) @ '' branch_template '' @ quoted branch_template @
             '' must have an outgoing transition (APPROVED/COMPLETED/EVENT_RECEIVED) into join_target '' @
             quoted join_target)))))))))"

definition validate_sub_workflow ::
  "workflow_node list \<Rightarrow> workflow_transition list \<Rightarrow> workflow_node \<Rightarrow> unit res" where
  "validate_sub_workflow nodes transitions node =
     (case sub_workflow node of
        None \<Rightarrow> Inr ()
      | Some (child_flow_type, _, on_child_failed_target) \<Rightarrow>
          thenR (require (child_flow_type \<noteq> [])
            (''sub_workflow node '' @ quoted (node_id node) @ '' child_flow_type must not be empty''))
          (thenR (require (has_out transitions (node_id node) SigEventReceived)
            (''sub_workflow node '' @ quoted (node_id node) @
             '' must have an EVENT_RECEIVED outgoing transition (to advance after child completes)''))
          (case on_child_failed_target of
             None \<Rightarrow> Inr ()
           | Some target \<Rightarrow>
               require (target \<in> set (node_ids nodes))
                 (''sub_workflow node '' @ quoted (node_id node) @ '' on_child_failed_target '' @ quoted target @
                  '' references unknown node''))))"

section \<open>The whole definition\<close>

definition validate_kind ::
  "('p, 'c, 'v) cel_api \<Rightarrow> workflow_node list \<Rightarrow> workflow_transition list \<Rightarrow> workflow_node \<Rightarrow> unit res" where
  "validate_kind cel nodes transitions node =
     (case kind node of
        KParallel \<Rightarrow> reject (''v1.0 does not support node kind '' @ kind_debug (kind node))
      | KTimer \<Rightarrow> reject (''v1.0 does not support node kind '' @ kind_debug (kind node))
      | KNotification \<Rightarrow> validate_notification transitions node
      | KAssignment \<Rightarrow> validate_assignment transitions node
      | KApproval \<Rightarrow> validate_approval transitions node
      | KCondition \<Rightarrow> validate_condition cel nodes node
      | KEventWait \<Rightarrow> validate_event_wait nodes transitions node
      | KParallelSplit \<Rightarrow> validate_split nodes transitions node
      | KParallelJoin \<Rightarrow> validate_join nodes transitions node
      | KMerge \<Rightarrow> validate_merge nodes transitions node
      | KForEach \<Rightarrow> validate_for_each cel nodes transitions node
      | KSubWorkflow \<Rightarrow> validate_sub_workflow nodes transitions node
      | _ \<Rightarrow> Inr ())"

definition validate_transition :: "workflow_node list \<Rightarrow> workflow_transition \<Rightarrow> unit res" where
  "validate_transition nodes t =
     thenR (require (tr_from t \<in> set (node_ids nodes))
       (''transition.from '' @ quoted (tr_from t) @ '' references unknown node''))
     (require (tr_to t \<in> set (node_ids nodes))
       (''transition.to '' @ quoted (tr_to t) @ '' references unknown node''))"

definition count_kind :: "node_kind \<Rightarrow> workflow_node list \<Rightarrow> nat" where
  "count_kind k nodes = length (filter (\<lambda>n. kind n = k) nodes)"

definition validate_definition ::
  "('p, 'c, 'v) cel_api \<Rightarrow> workflow_node list \<Rightarrow> workflow_transition list \<Rightarrow> unit res" where
  "validate_definition cel nodes transitions =
     thenR (case first_dup [] (node_ids nodes) of
         None \<Rightarrow> Inr ()
       | Some i \<Rightarrow> reject (''duplicate node id '' @ quoted i))
     (thenR (require (count_kind KStart nodes = 1)
       (''nodes must contain exactly one start node (found '' @ show_int (int (count_kind KStart nodes)) @ '')''))
     (thenR (require (count_kind KEnd nodes \<noteq> 0) ''nodes must contain at least one end node'')
     (thenR (check_all (\<lambda>node. thenR (validate_context_writes node) (validate_kind cel nodes transitions node)) nodes)
     (check_all (validate_transition nodes) transitions))))"

definition validate_domain_driven :: "workflow_node list \<Rightarrow> unit res" where
  "validate_domain_driven nodes =
     check_all (\<lambda>node.
       require (kind node \<in> {KStart, KApproval, KCondition, KEnd, KMerge})
         (''domain-driven definition must not contain node '' @ quoted (node_id node) @ '' of kind '' @
          kind_debug (kind node) @
          '': only start / approval / condition / end / merge advance solely on a caller signal'')) nodes"

end
