(* ===== verification/Flow_Lint.thy ===== *)
theory Flow_Lint
  imports Flow_Validate
begin

text \<open>
  The static topology lint of crates/hetuflow-runtime/src/lib.rs: \<open>LintFinding\<close>,
  \<open>static_out_targets\<close>, the two worklist traversals and \<open>lint_definition\<close>, followed by their
  correctness: the traversal computes exactly the nodes reachable in the static graph.
\<close>

section \<open>Findings\<close>

record lint_finding =
  lf_severity :: string
  lf_code :: string
  lf_node_id :: "string option"
  lf_message :: string

definition lint_error :: "string \<Rightarrow> string option \<Rightarrow> string \<Rightarrow> lint_finding" where
  "lint_error code nid message =
     \<lparr>lf_severity = ''error'', lf_code = code, lf_node_id = nid, lf_message = message\<rparr>"

definition lint_warning :: "string \<Rightarrow> string option \<Rightarrow> string \<Rightarrow> lint_finding" where
  "lint_warning code nid message =
     \<lparr>lf_severity = ''warning'', lf_code = code, lf_node_id = nid, lf_message = message\<rparr>"

text \<open>The text between the first two single quotes, if there is any.\<close>

definition quote_char :: char where "quote_char = CHR 0x27"

definition extract_first_quoted :: "string \<Rightarrow> string option" where
  "extract_first_quoted s =
     (case dropWhile (\<lambda>c. c \<noteq> quote_char) s of
        [] \<Rightarrow> None
      | _ # rest \<Rightarrow>
          if quote_char \<in> set rest
          then (let token = takeWhile (\<lambda>c. c \<noteq> quote_char) rest in if token = [] then None else Some token)
          else None)"

definition validation_error :: "string \<Rightarrow> lint_finding" where
  "validation_error message =
     \<lparr>lf_severity = ''error'', lf_code = ''validation_error'', lf_node_id = extract_first_quoted message,
      lf_message = message\<rparr>"

section \<open>The static graph\<close>

definition static_out_targets :: "workflow_node \<Rightarrow> workflow_transition list \<Rightarrow> string list" where
  "static_out_targets node transitions =
     map tr_to (filter (\<lambda>t. tr_from t = node_id node) transitions) @
     (case kind node of
        KParallelSplit \<Rightarrow> (case parallel_split node of Some bts \<Rightarrow> bts | None \<Rightarrow> [])
      | KCondition \<Rightarrow> (case condition node of Some (d, bs) \<Rightarrow> d # map cb_target bs | None \<Rightarrow> [])
      | KEventWait \<Rightarrow> (case event_wait node of Some (_, _, Some tt) \<Rightarrow> [tt] | _ \<Rightarrow> [])
      | _ \<Rightarrow> [])"

text \<open>
  The worklist loop both traversals share: pop a node, skip it when visited, stop when it is a
  goal, else push those of its targets that exist and are not visited. The head of the list is the
  top of the stack.
\<close>

definition push_targets ::
  "workflow_node list \<Rightarrow> string list \<Rightarrow> string list \<Rightarrow> string list \<Rightarrow> string list" where
  "push_targets nodes visited targets stack =
     fold (\<lambda>t st. if t \<in> set (node_ids nodes) \<and> t \<notin> set visited then t # st else st) targets stack"

lemma set_push_targets:
  "set (push_targets nodes visited targets stack) =
     {t \<in> set targets. t \<in> set (node_ids nodes) \<and> t \<notin> set visited} \<union> set stack"
  unfolding push_targets_def by (induction targets arbitrary: stack) auto

function search ::
  "workflow_node list \<Rightarrow> workflow_transition list \<Rightarrow> (workflow_node \<Rightarrow> bool) \<Rightarrow> string list \<Rightarrow> string list \<Rightarrow>
   bool \<times> string list" where
  "search nodes transitions goal visited [] = (False, visited)"
| "search nodes transitions goal visited (cur # stack) =
     (if cur \<in> set visited then search nodes transitions goal visited stack
      else case find_node nodes cur of
             None \<Rightarrow> search nodes transitions goal (cur # visited) stack
           | Some node \<Rightarrow>
               if goal node then (True, cur # visited)
               else search nodes transitions goal (cur # visited)
                      (push_targets nodes (cur # visited) (static_out_targets node transitions) stack))"
  by pat_completeness auto
termination
proof (relation "measures [\<lambda>(nodes, ts, goal, visited, stack). card ((set (node_ids nodes) \<union> set stack) - set visited),
      \<lambda>(nodes, ts, goal, visited, stack). length stack]", goal_cases)
  case 1
  show ?case by simp
next
  case (2 nodes ts goal visited cur stack)
  then have "(set (node_ids nodes) \<union> set (cur # stack)) - set visited = (set (node_ids nodes) \<union> set stack) - set visited"
    by auto
  then show ?case by simp
next
  case (3 nodes ts goal visited cur stack)
  then have "(set (node_ids nodes) \<union> set stack) - set (cur # visited) \<subset>
      (set (node_ids nodes) \<union> set (cur # stack)) - set visited" by auto
  then show ?case by (simp add: psubset_card_mono)
next
  case (4 nodes ts goal visited cur stack node)
  then have "(set (node_ids nodes) \<union> set (push_targets nodes (cur # visited) (static_out_targets node ts) stack)) -
      set (cur # visited) \<subset> (set (node_ids nodes) \<union> set (cur # stack)) - set visited"
    by (auto simp: set_push_targets)
  then show ?case by (simp add: psubset_card_mono)
qed

definition lint_reachable :: "workflow_node list \<Rightarrow> workflow_transition list \<Rightarrow> string \<Rightarrow> string list" where
  "lint_reachable nodes transitions start = snd (search nodes transitions (\<lambda>_. False) [] [start])"

definition branch_reaches_join :: "string \<Rightarrow> workflow_node list \<Rightarrow> workflow_transition list \<Rightarrow> bool" where
  "branch_reaches_join start nodes transitions =
     fst (search nodes transitions (\<lambda>n. kind n = KParallelJoin) [] [start])"

section \<open>The lint\<close>

definition lint_dangling :: "workflow_node list \<Rightarrow> workflow_transition list \<Rightarrow> lint_finding list" where
  "lint_dangling nodes transitions =
     concat (map (\<lambda>t.
       (if tr_from t \<notin> set (node_ids nodes)
        then [lint_error ''dangling_edge'' (Some (tr_from t))
                (''transition.from '' @ quoted (tr_from t) @ '' references a non-existent node'')]
        else []) @
       (if tr_to t \<notin> set (node_ids nodes)
        then [lint_error ''dangling_edge'' (Some (tr_to t))
                (''transition.to '' @ quoted (tr_to t) @ '' references a non-existent node'')]
        else [])) transitions)"

definition lint_unreachable :: "workflow_node list \<Rightarrow> workflow_transition list \<Rightarrow> lint_finding list" where
  "lint_unreachable nodes transitions =
     (case filter (\<lambda>n. kind n = KStart) nodes of
        [s] \<Rightarrow>
          (let reachable = lint_reachable nodes transitions (node_id s)
           in map (\<lambda>n. lint_error ''unreachable_node'' (Some (node_id n))
                    (''node '' @ quoted (node_id n) @ '' is not reachable from the start node''))
                (filter (\<lambda>n. kind n \<noteq> KStart \<and> node_id n \<notin> set reachable) nodes))
      | _ \<Rightarrow> [])"

fun deadlock_detail :: "node_kind \<Rightarrow> string" where
  "deadlock_detail KEventWait = '' (no EVENT_RECEIVED outgoing transition and no timeout_target)''"
| "deadlock_detail KApproval = '' (no APPROVED outgoing transition)''"
| "deadlock_detail _ = []"

definition lint_deadlock :: "workflow_node list \<Rightarrow> workflow_transition list \<Rightarrow> lint_finding list" where
  "lint_deadlock nodes transitions =
     map (\<lambda>n. lint_error ''deadlock_node'' (Some (node_id n))
            (''node '' @ quoted (node_id n) @ '' has no outgoing advance path and is not an end node'' @
             deadlock_detail (kind n)))
       (filter (\<lambda>n. kind n \<noteq> KEnd \<and> kind n \<noteq> KStart \<and> static_out_targets n transitions = []) nodes)"

definition lint_unclosed :: "workflow_node list \<Rightarrow> workflow_transition list \<Rightarrow> lint_finding list" where
  "lint_unclosed nodes transitions =
     concat (map (\<lambda>n.
       case parallel_split n of
         None \<Rightarrow> []
       | Some bts \<Rightarrow>
           map (\<lambda>b. lint_warning ''parallel_unclosed'' (Some b)
                  (''parallel branch '' @ quoted b @ '' (from split '' @ quoted (node_id n) @
                   '') does not reach any ParallelJoin''))
             (filter (\<lambda>b. b \<in> set (node_ids nodes) \<and> \<not> branch_reaches_join b nodes transitions) bts))
       (filter (\<lambda>n. kind n = KParallelSplit) nodes))"

definition lint_definition :: "workflow_node list \<Rightarrow> workflow_transition list \<Rightarrow> lint_finding list" where
  "lint_definition nodes transitions =
     lint_dangling nodes transitions @ lint_unreachable nodes transitions @
     lint_deadlock nodes transitions @ lint_unclosed nodes transitions"

section \<open>Correctness of the traversal\<close>

definition static_edges :: "workflow_node list \<Rightarrow> workflow_transition list \<Rightarrow> (string \<times> string) set" where
  "static_edges nodes transitions =
     {(a, b). \<exists>n. find_node nodes a = Some n \<and> b \<in> set (static_out_targets n transitions) \<and> b \<in> set (node_ids nodes)}"

abbreviation static_reach :: "workflow_node list \<Rightarrow> workflow_transition list \<Rightarrow> string \<Rightarrow> string \<Rightarrow> bool" where
  "static_reach nodes transitions a b \<equiv> (a, b) \<in> (static_edges nodes transitions)\<^sup>*"

text \<open>
  The contract of a worklist traversal, stated once: everything visited or waiting comes from the
  roots, and every edge out of a visited node leads to a visited or a waiting one. With an empty
  worklist the visited set is the set of reachable nodes.
\<close>

locale traversal =
  fixes edges :: "('a \<times> 'a) set" and roots visited stack :: "'a set"
  assumes from_roots: "x \<in> visited \<union> stack \<Longrightarrow> \<exists>r\<in>roots. (r, x) \<in> edges\<^sup>*"
    and closed: "x \<in> visited \<Longrightarrow> (x, y) \<in> edges \<Longrightarrow> y \<in> visited \<union> stack"
    and roots_in: "roots \<subseteq> visited \<union> stack"
begin

lemma visited_reachable: "x \<in> visited \<Longrightarrow> \<exists>r\<in>roots. (r, x) \<in> edges\<^sup>*"
  using from_roots by blast

lemma done_closed:
  assumes "stack = {}" "r \<in> roots" "(r, x) \<in> edges\<^sup>*"
  shows "x \<in> visited"
  using assms(3,2)
proof (induction rule: rtrancl_induct)
  case base
  then show ?case using roots_in assms(1) by blast
next
  case (step y z)
  then show ?case using closed assms(1) by blast
qed

lemma done_iff: "stack = {} \<Longrightarrow> x \<in> visited \<longleftrightarrow> (\<exists>r\<in>roots. (r, x) \<in> edges\<^sup>*)"
  using visited_reachable done_closed by blast

end

text \<open>The state of the source's loop satisfies the contract, and every iteration keeps it.\<close>

lemma traversal_init: "traversal E {s} {} {s}"
  by unfold_locales auto

lemma traversal_pop: "traversal E R V (insert c S) \<Longrightarrow> c \<in> V \<Longrightarrow> traversal E R V S"
  unfolding traversal_def by blast

lemma traversal_visit:
  assumes T: "traversal E R V (insert c S)" and out: "\<And>y. (c, y) \<in> E \<Longrightarrow> y \<in> insert c V \<union> T"
    and sub: "S \<subseteq> T" and new: "\<And>y. y \<in> T \<Longrightarrow> y \<in> S \<or> (c, y) \<in> E"
  shows "traversal E R (insert c V) T"
  unfolding traversal_def
proof (intro conjI allI impI)
  fix x
  assume x: "x \<in> insert c V \<union> T"
  show "\<exists>r\<in>R. (r, x) \<in> E\<^sup>*"
  proof (cases "x \<in> insert c V \<union> S")
    case True
    then show ?thesis using traversal.from_roots [OF T] by blast
  next
    case False
    with x new have "(c, x) \<in> E" by blast
    moreover obtain r where "r \<in> R" "(r, c) \<in> E\<^sup>*" using traversal.from_roots [OF T] by blast
    ultimately show ?thesis by (meson rtrancl.rtrancl_into_rtrancl)
  qed
next
  fix x y
  assume "x \<in> insert c V" "(x, y) \<in> E"
  then show "y \<in> insert c V \<union> T" using traversal.closed [OF T] out sub by blast
next
  show "R \<subseteq> insert c V \<union> T" using traversal.roots_in [OF T] sub by blast
qed

text \<open>No visited node is a goal.\<close>

definition no_goal :: "workflow_node list \<Rightarrow> (workflow_node \<Rightarrow> bool) \<Rightarrow> string set \<Rightarrow> bool" where
  "no_goal nodes goal V \<longleftrightarrow> (\<forall>x\<in>V. \<forall>n. find_node nodes x = Some n \<longrightarrow> \<not> goal n)"

lemma no_goal_simps [simp]:
  "no_goal nodes goal {}"
  "no_goal nodes goal (insert x V) \<longleftrightarrow> (\<forall>n. find_node nodes x = Some n \<longrightarrow> \<not> goal n) \<and> no_goal nodes goal V"
  by (auto simp: no_goal_def)

lemma traversal_expand:
  assumes "traversal (static_edges nodes ts) R (set visited) (insert cur (set stack))"
    "find_node nodes cur = Some node"
  shows "traversal (static_edges nodes ts) R (insert cur (set visited))
    (set (push_targets nodes (cur # visited) (static_out_targets node ts) stack))"
  by (rule traversal_visit [OF assms(1)]) (use assms(2) in \<open>auto simp: set_push_targets static_edges_def\<close>)

lemma traversal_missing:
  assumes "traversal (static_edges nodes ts) R (set visited) (insert cur (set stack))" "find_node nodes cur = None"
  shows "traversal (static_edges nodes ts) R (insert cur (set visited)) (set stack)"
  by (rule traversal_visit [OF assms(1)]) (use assms(2) in \<open>auto simp: static_edges_def\<close>)

lemma search_correct:
  assumes "traversal (static_edges nodes ts) R (set visited) (set stack)" "no_goal nodes goal (set visited)"
  shows "case search nodes ts goal visited stack of
      (True, v) \<Rightarrow> \<exists>r\<in>R. \<exists>x n. static_reach nodes ts r x \<and> find_node nodes x = Some n \<and> goal n
    | (False, v) \<Rightarrow> traversal (static_edges nodes ts) R (set v) {} \<and> no_goal nodes goal (set v)"
  using assms
proof (induction nodes ts goal visited stack rule: search.induct)
  case (1 nodes ts goal visited)
  then show ?case by simp
next
  case (2 nodes ts goal visited cur stack)
  show ?case
  proof (cases "cur \<in> set visited")
    case True
    have "traversal (static_edges nodes ts) R (set visited) (set stack)"
      by (rule traversal_pop [OF _ True]) (use "2.prems" in simp)
    from "2.IH"(1) [OF True this "2.prems"(2)] True show ?thesis by (simp only: search.simps if_True)
  next
    case False
    show ?thesis
    proof (cases "find_node nodes cur")
      case None
      with 2 False show ?thesis by (simp add: traversal_missing)
    next
      case (Some node)
      obtain r where "r \<in> R" "static_reach nodes ts r cur"
        using traversal.from_roots [OF "2.prems"(1), of cur] by auto
      with 2 False Some show ?thesis by (auto simp: traversal_expand)
    qed
  qed
qed

lemma search_never: "\<not> fst (search nodes ts (\<lambda>_. False) visited stack)"
  by (induction nodes ts "\<lambda>_ :: workflow_node. False" visited stack rule: search.induct)
    (auto split: option.splits)

interpretation lint: traversal "static_edges nodes ts" "{s}" "set (lint_reachable nodes ts s)" "{}" for nodes ts s
proof -
  obtain v where v: "search nodes ts (\<lambda>_. False) [] [s] = (False, v)"
    using search_never [of nodes ts "[]" "[s]"] by (cases "search nodes ts (\<lambda>_. False) [] [s]") auto
  have "traversal (static_edges nodes ts) {s} (set v) {}"
    using search_correct [of nodes ts "{s}" "[]" "[s]" "\<lambda>_. False"] v by (simp add: traversal_init)
  then show "traversal (static_edges nodes ts) {s} (set (lint_reachable nodes ts s)) {}"
    using v by (simp add: lint_reachable_def)
qed

lemma lint_reachable_iff: "x \<in> set (lint_reachable nodes ts s) \<longleftrightarrow> static_reach nodes ts s x"
  using lint.done_iff [of x nodes ts s] by simp

lemma branch_reaches_join_iff:
  "branch_reaches_join b nodes ts \<longleftrightarrow> (\<exists>j n. static_reach nodes ts b j \<and> find_node nodes j = Some n \<and> kind n = KParallelJoin)"
proof -
  have c: "case search nodes ts (\<lambda>n. kind n = KParallelJoin) [] [b] of
      (True, v) \<Rightarrow> \<exists>r\<in>{b}. \<exists>x n. static_reach nodes ts r x \<and> find_node nodes x = Some n \<and> kind n = KParallelJoin
    | (False, v) \<Rightarrow> traversal (static_edges nodes ts) {b} (set v) {} \<and> no_goal nodes (\<lambda>n. kind n = KParallelJoin) (set v)"
    by (rule search_correct) (simp_all add: traversal_init)
  obtain f v where s: "search nodes ts (\<lambda>n. kind n = KParallelJoin) [] [b] = (f, v)" by fastforce
  show ?thesis
  proof (cases f)
    case True
    with s c show ?thesis by (auto simp: branch_reaches_join_def)
  next
    case False
    with s c have t: "traversal (static_edges nodes ts) {b} (set v) {}"
      and g: "no_goal nodes (\<lambda>n. kind n = KParallelJoin) (set v)" by auto
    from traversal.done_iff [OF t] g False s show ?thesis
      by (auto simp: branch_reaches_join_def no_goal_def)
  qed
qed

end
