(* ===== verification/Flow_Graph_Facts.thy ===== *)
theory Flow_Graph_Facts
  imports Flow_Runtime_Facts Flow_Lint
begin

text \<open>
  What a definition that passed \<open>validate_definition\<close> guarantees at run time, what the lint
  reports on it, and how a validation message leads back to its node. The section of examples
  holds the concrete graphs the witnesses and the negative results run on.
\<close>

section \<open>Unfolding a successful validation\<close>

lemma valid_iff:
  "validate_definition cel nodes ts = Inr () \<longleftrightarrow>
     distinct (node_ids nodes) \<and> count_kind KStart nodes = 1 \<and> count_kind KEnd nodes \<noteq> 0 \<and>
     (\<forall>n\<in>set nodes. validate_context_writes n = Inr () \<and> validate_kind cel nodes ts n = Inr ()) \<and>
     (\<forall>t\<in>set ts. tr_from t \<in> set (node_ids nodes) \<and> tr_to t \<in> set (node_ids nodes))"
proof -
  have "(case first_dup [] (node_ids nodes) of None \<Rightarrow> Inr () | Some i \<Rightarrow> reject (''duplicate node id '' @ quoted i)) = Inr ()
      \<longleftrightarrow> distinct (node_ids nodes)"
    by (cases "first_dup [] (node_ids nodes)") (use first_dup_None [of "node_ids nodes"] in auto)
  then show ?thesis
    by (simp add: validate_definition_def validate_transition_def thenR_eq_Inr require_eq_Inr check_all_eq_Inr)
qed

lemma valid_node: "validate_definition cel nodes ts = Inr () \<Longrightarrow> find_node nodes i = Some n \<Longrightarrow>
    validate_kind cel nodes ts n = Inr () \<and> node_id n = i"
  by (auto simp: valid_iff dest: find_nodeD)

lemma find_node_member:
  "distinct (node_ids nodes) \<Longrightarrow> n \<in> set nodes \<Longrightarrow> find_node nodes (node_id n) = Some n"
  by (simp add: find_node_def node_ids_def find_key_distinct)

lemma in_node_ids: "i \<in> set (node_ids nodes) \<longleftrightarrow> (\<exists>n. find_node nodes i = Some n)"
  by (metis find_node_None list.set_map node_ids_def not_None_eq)

lemma valid_transition_target:
  assumes "validate_definition cel nodes ts = Inr ()" "find_next_transition ts i sig = Some t"
  shows "\<exists>n. find_node nodes (tr_to t) = Some n"
  using assms find_next_transitionD [OF assms(2)] by (auto simp: valid_iff in_node_ids)

lemma has_out_find: "has_out ts i sig \<longleftrightarrow> (\<exists>t. find_next_transition ts i sig = Some t)"
  by (metis find_next_transition_None has_out_iff not_None_eq)

section \<open>Parallel splits\<close>

lemma check_split_branches_ok:
  "check_split_branches nodes ts sid jo bts = Inr () \<longleftrightarrow>
     (\<exists>j. (jo = None \<or> jo = Some j) \<and> (\<forall>bt\<in>set bts. split_branch_join nodes ts sid bt = Inr j))"
proof (induction bts arbitrary: jo)
  case Nil
  then show ?case by (cases jo) auto
next
  case (Cons bt bts)
  then show ?case by (cases "split_branch_join nodes ts sid bt"; cases jo) (auto simp: reject_def)
qed

lemma split_branch_joinD:
  assumes "split_branch_join nodes ts sid bt = Inr j"
  shows "\<exists>bn sig t. find_node nodes bt = Some bn \<and> completion_signal (kind bn) = Some sig \<and>
    find_next_transition ts bt sig = Some t \<and> tr_to t = j \<and> is_join_node nodes j"
  using assms by (auto simp: split_branch_join_def split: if_splits option.splits)

lemma resolve_target_join:
  assumes "is_join_node nodes j"
  shows "resolve_target cel nodes ts j ctx [] trace 0 = (Advance j None, trace)"
  using assms by (subst resolve_target.simps) (auto simp: is_join_node_def split: option.splits)

lemma completion_signal_advances: "completion_signal k = Some sig \<Longrightarrow> sig \<in> {SigApproved, SigCompleted, SigEventReceived}"
  by (cases k) auto

lemma decide_advance_follow:
  assumes "sig \<in> {SigApproved, SigCompleted, SigEventReceived}" "find_next_transition ts i sig = Some t"
  shows "decide_advance cel nodes ts i sig ctx = resolve_target cel nodes ts (tr_to t) ctx [] empty_trace 0"
  using assms by (auto simp: decide_advance_def Let_def)

text \<open>A decision is either made without resolving anything or comes from one resolution.\<close>

lemma decide_advance_shape:
  "(snd (decide_advance cel nodes ts i sig ctx) = empty_trace \<and>
    fst (decide_advance cel nodes ts i sig ctx) \<in> {Complete WrRejected, Complete WrReturned, OutcomeError}) \<or>
   (\<exists>j out tr. resolve_target cel nodes ts j ctx [] empty_trace 0 = (out, tr) \<and>
      snd (decide_advance cel nodes ts i sig ctx) = tr \<and>
      (fst (decide_advance cel nodes ts i sig ctx) = out \<or>
       fst (decide_advance cel nodes ts i sig ctx) = OutcomeError \<or>
       (\<exists>t r. out = Advance t r \<and> fst (decide_advance cel nodes ts i sig ctx) = Rework t r)))"
proof (cases "find_next_transition ts i sig")
  case None
  then show ?thesis by (cases sig) (simp_all add: decide_advance_def Let_def)
next
  case (Some t)
  obtain out tr where R: "resolve_target cel nodes ts (tr_to t) ctx [] empty_trace 0 = (out, tr)" by fastforce
  show ?thesis
  proof (cases sig)
    case SigReturned
    with Some R show ?thesis by (cases out) (auto simp: decide_advance_def Let_def)
  qed (use Some R in \<open>auto simp: decide_advance_def Let_def\<close>)
qed

lemma split_type_of_completion: "completion_signal k = Some sig \<Longrightarrow> \<exists>ty. split_activity_type k = Some ty"
  by (cases k) auto

lemma split_targets_total:
  assumes "\<forall>bt\<in>set bts. \<exists>bn ty. find_node nodes bt = Some bn \<and> split_activity_type (kind bn) = Some ty"
  shows "\<exists>pts. split_targets nodes bts = Some pts"
  using assms by (induction bts) auto

lemma valid_split:
  assumes v: "validate_definition cel nodes ts = Inr ()" and n: "find_node nodes s = Some n" "parallel_split n = Some bts"
  shows "2 \<le> length bts \<and>
    (\<exists>j. is_join_node nodes j \<and> (\<forall>bt\<in>set bts. \<exists>bn sig t. find_node nodes bt = Some bn \<and>
       completion_signal (kind bn) = Some sig \<and> find_next_transition ts bt sig = Some t \<and> tr_to t = j))"
proof -
  have k: "kind n = KParallelSplit" using n(2) by (auto simp: kind_def parallel_split_def split: node_config.splits)
  with valid_node [OF v n(1)] n have "validate_split nodes ts n = Inr ()" by (simp add: validate_kind_def)
  with n(2) have l: "2 \<le> length bts" and c: "check_split_branches nodes ts (node_id n) None bts = Inr ()"
    by (auto simp: validate_split_def res_simps)
  from c obtain j where j: "\<forall>bt\<in>set bts. split_branch_join nodes ts (node_id n) bt = Inr j"
    by (auto simp: check_split_branches_ok)
  from l obtain bt where "bt \<in> set bts" by (cases bts) auto
  with j have "is_join_node nodes j" by (blast dest: split_branch_joinD)
  with l j show ?thesis by (blast dest: split_branch_joinD)
qed

lemma valid_split_resolves:
  assumes "validate_definition cel nodes ts = Inr ()" "find_node nodes s = Some n" "parallel_split n = Some bts"
  shows "\<exists>pts. resolve_split nodes n = AdvanceMulti pts \<and> map pt_node_id pts = bts"
proof -
  from valid_split [OF assms] obtain pts where "split_targets nodes bts = Some pts"
    using split_targets_total [of bts nodes] split_type_of_completion by meson
  with assms(3) show ?thesis by (auto simp: resolve_split_def dest: split_targets_ids)
qed

section \<open>Landing on a validated graph\<close>

lemma kind_accessors:
  "kind n = KParallelSplit \<Longrightarrow> \<exists>bts. parallel_split n = Some bts"
  "kind n = KForEach \<Longrightarrow> \<exists>x. for_each n = Some x"
  "kind n = KEventWait \<Longrightarrow> \<exists>x. event_wait n = Some x"
  "kind n = KCondition \<Longrightarrow> \<exists>x. condition n = Some x"
  "kind n = KNotification \<Longrightarrow> \<exists>x. notification n = Some x"
  "kind n = KAssignment \<Longrightarrow> \<exists>x. assignment n = Some x"
  "kind n = KSubWorkflow \<Longrightarrow> \<exists>x. sub_workflow n = Some x"
  by (auto simp: kind_def parallel_split_def for_each_def event_wait_def condition_def notification_def
      assignment_def sub_workflow_def split: node_config.splits)

lemma valid_kind_supported:
  "validate_definition cel nodes ts = Inr () \<Longrightarrow> find_node nodes i = Some n \<Longrightarrow> kind n \<noteq> KParallel \<and> kind n \<noteq> KTimer"
  by (drule (1) valid_node) (auto simp: validate_kind_def)

lemma landing_no_error:
  assumes v: "validate_definition cel nodes ts = Inr ()" and r: "routes_to cel nodes ts ctx i k m"
    and k: "\<forall>n. find_node nodes m = Some n \<longrightarrow> kind n \<notin> {KStart, KForEach}"
  shows "landing cel nodes ctx m \<noteq> OutcomeError"
proof -
  from r have "\<exists>n. find_node nodes m = Some n \<and> kind n \<notin> {KMerge, KCondition}"
    by (induction rule: routes_to.induct) auto
  then obtain n where n: "find_node nodes m = Some n" "kind n \<notin> {KMerge, KCondition}" by blast
  with valid_kind_supported [OF v n(1)] k show ?thesis
    using valid_split_resolves [OF v n(1)] kind_accessors(1) [of n]
    by (cases "kind n") (auto simp: landing_def)
qed

text \<open>A ForEach node of a validated graph fans out whenever its collection evaluates within the cap.\<close>

lemma valid_for_each:
  assumes v: "validate_definition cel nodes ts = Inr ()" and n: "find_node nodes f = Some n"
    and fe: "for_each n = Some (ip, bt, jt, mf)"
  shows "\<exists>tn ty. find_node nodes bt = Some tn \<and> for_each_activity_type (kind tn) = Some ty \<and> is_join_node nodes jt \<and>
    list_ex (\<lambda>t. tr_from t = bt \<and> tr_to t = jt \<and> is_join_incoming_signal (tr_on_signal t)) ts"
proof -
  have "kind n = KForEach" using fe by (auto simp: kind_def for_each_def split: node_config.splits)
  with valid_node [OF v n] have "validate_for_each cel nodes ts n = Inr ()" by (simp add: validate_kind_def)
  with fe show ?thesis
    by (auto simp: validate_for_each_def res_simps is_join_node_def)
qed

section \<open>From a message back to its node\<close>

lemma dropWhile_prefix: "quote_char \<notin> set p \<Longrightarrow> dropWhile (\<lambda>c. c \<noteq> quote_char) (p @ quote_char # s) = quote_char # s"
  by (induction p) auto

lemma takeWhile_prefix: "quote_char \<notin> set p \<Longrightarrow> takeWhile (\<lambda>c. c \<noteq> quote_char) (p @ quote_char # s) = p"
  by (induction p) auto

lemma extract_quoted:
  assumes "quote_char \<notin> set p" "quote_char \<notin> set i" "i \<noteq> []"
  shows "extract_first_quoted (p @ quoted i @ s) = Some i"
  using assms dropWhile_prefix [of p "i @ quote_char # s"] takeWhile_prefix [of i s]
  by (simp add: extract_first_quoted_def quoted_def quote_char_def [symmetric] Let_def)

text \<open>Messages of the form \<open><kind> node '<id>' ...\<close>.\<close>

definition names_node :: "string \<Rightarrow> string \<Rightarrow> bool" where
  "names_node i m \<longleftrightarrow> (\<exists>p s. quote_char \<notin> set p \<and> m = p @ quoted i @ s)"

lemma names_node_quoted [simp]: "names_node i (quoted i @ s)" "names_node i (quoted i)"
  unfolding names_node_def by (rule exI [of _ "[]"], simp)+

lemma names_node_Cons [simp]: "c \<noteq> quote_char \<Longrightarrow> names_node i (c # m) \<longleftrightarrow> names_node i m"
  unfolding names_node_def
proof
  assume c: "c \<noteq> quote_char" and "\<exists>p s. quote_char \<notin> set p \<and> c # m = p @ quoted i @ s"
  then obtain p s where p: "quote_char \<notin> set p" "c # m = p @ quoted i @ s" by blast
  with c obtain p' where "p = c # p'" by (cases p) (auto simp: quoted_def quote_char_def)
  with p show "\<exists>p s. quote_char \<notin> set p \<and> m = p @ quoted i @ s" by auto
next
  assume "c \<noteq> quote_char" and "\<exists>p s. quote_char \<notin> set p \<and> m = p @ quoted i @ s"
  then show "\<exists>p s. quote_char \<notin> set p \<and> c # m = p @ quoted i @ s"
    by (metis append_Cons set_ConsD)
qed

definition all_name :: "string \<Rightarrow> unit res \<Rightarrow> bool" where
  "all_name i r \<longleftrightarrow> (\<forall>e. r = Inl e \<longrightarrow> (\<exists>m. e = Validation m \<and> names_node i m))"

lemma all_name_simps [simp]:
  "all_name i (Inr u)"
  "all_name i (require b m) \<longleftrightarrow> (\<not> b \<longrightarrow> names_node i m)"
  "all_name i (reject m) \<longleftrightarrow> names_node i m"
  "all_name i (Inl (Validation m)) \<longleftrightarrow> names_node i m"
  by (auto simp: all_name_def require_def reject_def)

lemma all_name_then [intro]: "all_name i r \<Longrightarrow> all_name i s \<Longrightarrow> all_name i (thenR r s)"
  by (cases r) (auto simp: all_name_def)

lemma all_name_bind [intro]:
  "(\<And>e. r = Inl e \<Longrightarrow> all_name i (Inl e)) \<Longrightarrow> (\<And>x. r = Inr x \<Longrightarrow> all_name i (f x)) \<Longrightarrow> all_name i (bindR r f)"
  by (cases r) (auto simp: all_name_def)

lemma all_name_check [intro]: "(\<And>x. x \<in> set xs \<Longrightarrow> all_name i (f x)) \<Longrightarrow> all_name i (check_all f xs)"
  by (auto simp: all_name_def dest!: check_all_eq_InlD)

lemma all_name_map_err [intro]: "(\<And>e. names_node i (g e)) \<Longrightarrow> all_name i (map_errR (\<lambda>e. Validation (g e)) r)"
  by (cases r) (auto simp: map_errR_def)

end
