(* ===== verification/Flow_Demo.thy ===== *)
theory Flow_Demo
  imports Flow_Graph_Facts
begin

text \<open>
  Concrete data for the witnesses and the negative results: an expression language small enough to
  evaluate (the constants \<open>true\<close> and \<open>false\<close>, or the name of a field of the context object) that
  instantiates the \<open>cel\<close> parameter, and one graph that uses every supported routing node.
\<close>

definition demo_execute :: "string \<Rightarrow> json \<Rightarrow> string + json" where
  "demo_execute p c =
     (if p = ''true'' then Inr (JBool True)
      else if p = ''false'' then Inr (JBool False)
      else case json_get p c of None \<Rightarrow> Inl ''no such key'' | Some v \<Rightarrow> Inr v)"

definition demo_cel :: "(string, json, json) cel_api" where
  "demo_cel =
     \<lparr>cel_compile = (\<lambda>s. if s = [] then Inl [\<lparr>pe_line = 1, pe_col = 1, pe_msg = ''empty''\<rparr>] else Inr s),
      cel_bind = (\<lambda>_ j. Inr j), cel_execute = demo_execute,
      cel_as_bool = (\<lambda>v. case v of JBool b \<Rightarrow> Some b | _ \<Rightarrow> None), cel_debug = (\<lambda>_. ''value''),
      cel_json = Inr, json_display = (\<lambda>_. ''value'')\<rparr>"

definition demo_node :: "string \<Rightarrow> node_config \<Rightarrow> workflow_node" where
  "demo_node i c = \<lparr>node_id = i, node_name = i, node_context_writes = [], node_config = c\<rparr>"

definition demo_edge :: "string \<Rightarrow> signal_type \<Rightarrow> string \<Rightarrow> workflow_transition" where
  "demo_edge a sig b = \<lparr>tr_from = a, tr_to = b, tr_on_signal = sig\<rparr>"

text \<open>An approval, then two parallel branches that join, then either a fan-out over rows or the end.\<close>

definition demo_nodes :: "workflow_node list" where
  "demo_nodes =
     [demo_node ''start'' NcStart,
      demo_node ''a0'' (NcApproval (Some ''clerk'') (Some 60) None None),
      demo_node ''split'' (NcParallelSplit [''a1'', ''w1'']),
      demo_node ''a1'' (NcApproval (Some ''lead'') None None None),
      demo_node ''w1'' (NcEventWait ''paid'' (Some 30) (Some ''end'') None None),
      demo_node ''join'' (NcParallelJoin WaitAll),
      demo_node ''merge'' NcMerge,
      demo_node ''cond'' (NcCondition ''end'' [\<lparr>cb_guard_expression = ''more'', cb_target = ''each''\<rparr>]),
      demo_node ''each'' (NcForEach ''rows'' ''item'' ''join2'' (Some 3)),
      demo_node ''item'' (NcAssignment \<lparr>ac_assignee_selector = None, ac_queue_code = Some ''q'', ac_sla_seconds = None\<rparr>),
      demo_node ''join2'' (NcParallelJoin WaitAll),
      demo_node ''end'' (NcEnd (Some ''approved''))]"

definition demo_edges :: "workflow_transition list" where
  "demo_edges =
     [demo_edge ''start'' SigApproved ''a0'', demo_edge ''a0'' SigApproved ''split'',
      demo_edge ''a1'' SigApproved ''join'', demo_edge ''w1'' SigEventReceived ''join'',
      demo_edge ''join'' SigApproved ''merge'', demo_edge ''merge'' SigApproved ''cond'',
      demo_edge ''item'' SigCompleted ''join2'', demo_edge ''join2'' SigApproved ''end'']"

definition demo_ctx :: json where
  "demo_ctx = JObj [(''more'', JBool True), (''rows'', JArr [JInt 1, JInt 2])]"

lemmas demo_graph = demo_nodes_def demo_edges_def demo_node_def demo_edge_def

lemma demo_find [simp]: "find_node demo_nodes ''split'' = Some (demo_node ''split'' (NcParallelSplit [''a1'', ''w1'']))"
  "find_node demo_nodes ''each'' = Some (demo_node ''each'' (NcForEach ''rows'' ''item'' ''join2'' (Some 3)))"
  by (simp_all add: find_node_def demo_nodes_def demo_node_def)

lemma demo_valid: "validate_definition demo_cel demo_nodes demo_edges = Inr ()"
  by code_simp

end
