(* ===== verification/Flow_Graph_Props.thy ===== *)
theory Flow_Graph_Props
  imports Flow_Demo
begin

text \<open>
  The properties of the decision core: what validation guarantees about parallel fan-out and about
  every advance, how the bounded resolution relates to the graph, and what the lint computes.
\<close>

section \<open>Parallel branches converge\<close>

text \<open>C5: In a validated definition every ParallelSplit has at least two branches and one join:
  whichever branch completes, with the signal its kind is completed by and under any context, the
  engine decides to advance to that same ParallelJoin, with no role and an empty trace.\<close>
theorem split_branches_converge:
  assumes "validate_definition cel nodes ts = Inr ()"
    and "find_node nodes s = Some n" and "parallel_split n = Some bts"
  shows "2 \<le> length bts \<and>
    (\<exists>j. is_join_node nodes j \<and> (\<forall>bt\<in>set bts. \<exists>bn sig. find_node nodes bt = Some bn \<and>
       completion_signal (kind bn) = Some sig \<and>
       (\<forall>ctx. decide_advance cel nodes ts bt sig ctx = (Advance j None, empty_trace))))"
proof -
  from valid_split [OF assms] obtain j where l: "2 \<le> length bts" and j: "is_join_node nodes j"
    and b: "\<forall>bt\<in>set bts. \<exists>bn sig t. find_node nodes bt = Some bn \<and> completion_signal (kind bn) = Some sig \<and>
      find_next_transition ts bt sig = Some t \<and> tr_to t = j" by blast
  have "\<exists>bn sig. find_node nodes bt = Some bn \<and> completion_signal (kind bn) = Some sig \<and>
      (\<forall>ctx. decide_advance cel nodes ts bt sig ctx = (Advance j None, empty_trace))" if "bt \<in> set bts" for bt
    using b that by (metis completion_signal_advances decide_advance_follow j resolve_target_join)
  with l j show ?thesis by blast
qed

lemma split_branches_converge_witness:
  "2 \<le> length [''a1'', ''w1''] \<and>
    (\<exists>j. is_join_node demo_nodes j \<and> (\<forall>bt\<in>set [''a1'', ''w1'']. \<exists>bn sig. find_node demo_nodes bt = Some bn \<and>
       completion_signal (kind bn) = Some sig \<and>
       (\<forall>ctx. decide_advance demo_cel demo_nodes demo_edges bt sig ctx = (Advance j None, empty_trace))))"
  by (rule split_branches_converge [OF demo_valid, of "''split''" "demo_node ''split'' (NcParallelSplit [''a1'', ''w1''])"])
    (simp_all add: demo_node_def parallel_split_def)

section \<open>Progress\<close>

text \<open>C6: An advance never fails on a validated definition, whatever the context, when the graph routes
  from the target of the matching transition in at most eight steps (guards included) to a node
  that is neither Start nor ForEach.\<close>
theorem valid_advance_progress:
  assumes "validate_definition cel nodes ts = Inr ()"
    and "find_next_transition ts i sig = Some t"
    and "sig \<in> {SigApproved, SigCompleted, SigEventReceived}"
    and "routes_to cel nodes ts ctx (tr_to t) k m" and "k \<le> MAX_RESOLVE_DEPTH"
    and "\<forall>n. find_node nodes m = Some n \<longrightarrow> kind n \<notin> {KStart, KForEach}"
  shows "fst (decide_advance cel nodes ts i sig ctx) = landing cel nodes ctx m \<and>
    landing cel nodes ctx m \<noteq> OutcomeError"
  using landing_no_error [OF assms(1,4,6)] resolve_of_routes [OF assms(4), of 0 "[]" empty_trace] assms(5)
  by (simp add: decide_advance_follow [OF assms(3,2), of cel nodes ctx])

lemma demo_route:
  "routes_to demo_cel demo_nodes demo_edges (Some (JObj [(''more'', JBool False)])) ''merge'' 2 ''end''"
proof -
  let ?c = "Some (JObj [(''more'', JBool False)])"
  have "routes_to demo_cel demo_nodes demo_edges ?c ''end'' 0 ''end''"
    by (rule routes_to.land [where n = "demo_node ''end'' (NcEnd (Some ''approved''))"])
      (simp_all add: find_node_def demo_graph kind_def)
  then have "routes_to demo_cel demo_nodes demo_edges ?c ''cond'' (Suc 0) ''end''"
    by (rule routes_to.step [rotated]) code_simp
  then have "routes_to demo_cel demo_nodes demo_edges ?c ''merge'' (Suc (Suc 0)) ''end''"
    by (rule routes_to.step [rotated]) code_simp
  then show ?thesis by (simp add: numeral_2_eq_2)
qed

lemma valid_advance_progress_witness:
  "fst (decide_advance demo_cel demo_nodes demo_edges ''join'' SigApproved (Some (JObj [(''more'', JBool False)]))) =
     landing demo_cel demo_nodes (Some (JObj [(''more'', JBool False)])) ''end'' \<and>
   landing demo_cel demo_nodes (Some (JObj [(''more'', JBool False)])) ''end'' \<noteq> OutcomeError"
proof (rule valid_advance_progress [OF demo_valid])
  show "find_next_transition demo_edges ''join'' SigApproved = Some (demo_edge ''join'' SigApproved ''merge'')"
    by (simp add: find_next_transition_def demo_graph)
  show "routes_to demo_cel demo_nodes demo_edges (Some (JObj [(''more'', JBool False)]))
      (tr_to (demo_edge ''join'' SigApproved ''merge'')) 2 ''end''"
    using demo_route by (simp add: demo_edge_def)
qed (simp_all add: MAX_RESOLVE_DEPTH_def find_node_def demo_graph kind_def)

section \<open>Refinement of the graph\<close>

text \<open>C16: The depth-bounded, cycle-checked resolution is exactly the route the graph describes: it returns
  a non-error outcome from a node iff following Merge and Condition nodes leads in at most eight
  steps to a node whose own outcome this is. Neither the visited set nor the trace ever changes it.\<close>
theorem resolve_target_refines_routes:
  "(fst (resolve_target cel nodes ts i ctx [] trace 0) = out \<and> out \<noteq> OutcomeError) =
   (\<exists>k m. k \<le> MAX_RESOLVE_DEPTH \<and> routes_to cel nodes ts ctx i k m \<and> landing cel nodes ctx m = out \<and>
      out \<noteq> OutcomeError)"
  by (rule resolve_refines_routes)

text \<open>Whenever the engine decides to advance or to rework, the target is a node of the graph at which an
  instance can wait, and the role handed over is that node's own assignee role.\<close>
theorem advance_target_waits:
  assumes "fst (decide_advance cel nodes ts i sig ctx) \<in> {Advance t r, Rework t r}"
  shows "\<exists>n. find_node nodes t = Some n \<and> r = assignee_role n \<and>
    kind n \<in> {KApproval, KEventWait, KNotification, KAssignment, KSubWorkflow, KParallelJoin}"
proof -
  have "\<exists>j tr. resolve_target cel nodes ts j ctx [] empty_trace 0 = (Advance t r, tr)"
    using decide_advance_shape [of cel nodes ts i sig ctx] assms resolve_target_not_rework [of cel nodes ts _ ctx "[]" empty_trace 0 t r]
    by (auto, (metis fst_conv)+)
  then show ?thesis using resolve_Advance unfolding waiting_kinds_def by blast
qed

lemma advance_target_waits_witness:
  "\<exists>n. find_node demo_nodes ''join'' = Some n \<and> None = assignee_role n \<and>
    kind n \<in> {KApproval, KEventWait, KNotification, KAssignment, KSubWorkflow, KParallelJoin}"
proof -
  have "fst (decide_advance demo_cel demo_nodes demo_edges ''a1'' SigApproved (Some demo_ctx)) = Advance ''join'' None"
    by code_simp
  then show ?thesis using advance_target_waits [of demo_cel demo_nodes demo_edges "''a1''" SigApproved "Some demo_ctx" "''join''" None]
    by blast
qed

text \<open>The Merge nodes an advance records in its trace are Merge nodes of the graph, pairwise different
  and at most nine.\<close>
theorem trace_merges_bounded:
  "distinct (merges_passed (snd (decide_advance cel nodes ts i sig ctx))) \<and>
   length (merges_passed (snd (decide_advance cel nodes ts i sig ctx))) \<le> MAX_RESOLVE_DEPTH + 1 \<and>
   (\<forall>m\<in>set (merges_passed (snd (decide_advance cel nodes ts i sig ctx))). is_merge nodes m)"
proof -
  let ?ok = "\<lambda>tr. distinct (merges_passed tr) \<and> length (merges_passed tr) \<le> MAX_RESOLVE_DEPTH + 1 \<and>
    (\<forall>m\<in>set (merges_passed tr). is_merge nodes m)"
  have r: "?ok (snd (resolve_target cel nodes ts j ctx [] empty_trace 0))" for j
    using resolve_target_merges [of cel nodes ts j ctx "[]" empty_trace 0] by (auto simp: empty_trace_def)
  have "snd (decide_advance cel nodes ts i sig ctx) = empty_trace \<or>
    (\<exists>j. snd (decide_advance cel nodes ts i sig ctx) = snd (resolve_target cel nodes ts j ctx [] empty_trace 0))"
    using decide_advance_shape [of cel nodes ts i sig ctx] by (metis snd_conv)
  with r show ?thesis by (auto simp: empty_trace_def)
qed

lemma trace_merges_bounded_witness:
  "is_merge demo_nodes ''merge''"
proof -
  have "merges_passed (snd (decide_advance demo_cel demo_nodes demo_edges ''join'' SigApproved (Some demo_ctx))) = [''merge'']"
    by code_simp
  then show ?thesis
    using trace_merges_bounded [of demo_cel demo_nodes demo_edges "''join''" SigApproved "Some demo_ctx"] by simp
qed

section \<open>Fan-out over a collection\<close>

text \<open>On a validated graph a ForEach node whose collection evaluates to a list within the configured cap
  always fans out: one target per element, in order, each on the template node, carrying its index
  and its element; the trace names the ForEach node and the ParallelJoin the branches converge to.\<close>
theorem for_each_fans_out:
  assumes "validate_definition cel nodes ts = Inr ()" and "find_node nodes f = Some n"
    and "for_each n = Some (ip, bt, jt, mf)" and "eval_array cel ip ctx = Inr items"
    and "length items \<le> 2 ^ 31" and "case mf of None \<Rightarrow> True | Some cap \<Rightarrow> int (length items) \<le> cap"
  shows "\<exists>pts. resolve_target cel nodes ts f ctx [] empty_trace 0 =
      (AdvanceMulti pts, empty_trace\<lparr>for_each_fan_out := Some \<lparr>ff_for_each_node = f, ff_join_target = jt\<rparr>\<rparr>) \<and>
    is_join_node nodes jt \<and> map pt_item_payload pts = map Some items \<and>
    map pt_item_index pts = map (\<lambda>k. Some (int k)) [0..<length items] \<and> (\<forall>pt\<in>set pts. pt_node_id pt = bt)"
proof -
  from valid_for_each [OF assms(1-3)] obtain tn ty where t: "find_node nodes bt = Some tn"
    "for_each_activity_type (kind tn) = Some ty" "is_join_node nodes jt" by blast
  have k: "kind n = KForEach" using assms(3) by (auto simp: kind_def for_each_def split: node_config.splits)
  have i: "map (\<lambda>ip. as_i32 (int (fst ip))) (enumerate 0 items) = map int [0..<length items]"
  proof (rule nth_equalityI)
    fix k assume "k < length (map (\<lambda>ip. as_i32 (int (fst ip))) (enumerate 0 items))"
    with assms(5) show "map (\<lambda>ip. as_i32 (int (fst ip))) (enumerate 0 items) ! k = map int [0..<length items] ! k"
      by (simp add: nth_enumerate_eq as_i32_id in_i32_def)
  qed simp
  have "map Some (map (\<lambda>ip. as_i32 (int (fst ip))) (enumerate 0 items)) = map Some (map int [0..<length items])"
    by (simp only: i)
  moreover have "map (\<lambda>x. Some (snd x)) (enumerate 0 items) = map Some items"
    using map_map [of Some snd "enumerate 0 items"] by (simp add: comp_def)
  ultimately show ?thesis using assms t k
    by (subst resolve_target.simps)
      (auto simp: resolve_for_each_def Let_def for_each_target_def comp_def split: option.splits)
qed

lemma for_each_fans_out_witness:
  "\<exists>pts. resolve_target demo_cel demo_nodes demo_edges ''each'' (Some demo_ctx) [] empty_trace 0 =
      (AdvanceMulti pts, empty_trace\<lparr>for_each_fan_out := Some \<lparr>ff_for_each_node = ''each'', ff_join_target = ''join2''\<rparr>\<rparr>) \<and>
    is_join_node demo_nodes ''join2'' \<and> map pt_item_payload pts = map Some [JInt 1, JInt 2] \<and>
    map pt_item_index pts = map (\<lambda>k. Some (int k)) [0..<length [JInt 1, JInt 2]] \<and> (\<forall>pt\<in>set pts. pt_node_id pt = ''item'')"
  by (rule for_each_fans_out [OF demo_valid demo_find(2), where ip = "''rows''" and mf = "Some 3"])
    (simp_all add: demo_node_def for_each_def eval_array_def demo_cel_def demo_execute_def context_or_empty_def demo_ctx_def
      option_filter_def map_errR_def)

section \<open>Domain-driven definitions\<close>

text \<open>On a domain-driven definition every advance is decided by the caller's signal alone: a decision is to
  wait at an Approval node (advance or rework), to complete, or an error; it never fans out and
  never waits for an event, a timer, a delivery or a join.\<close>
theorem domain_driven_waits_for_approval:
  assumes "validate_domain_driven nodes = Inr ()"
  shows "case fst (decide_advance cel nodes ts i sig ctx) of
      Advance t r \<Rightarrow> \<exists>n. find_node nodes t = Some n \<and> kind n = KApproval
    | Rework t r \<Rightarrow> \<exists>n. find_node nodes t = Some n \<and> kind n = KApproval
    | AdvanceMulti pts \<Rightarrow> False
    | Complete res \<Rightarrow> True
    | OutcomeError \<Rightarrow> True"
proof -
  have dd: "find_node nodes m = Some n \<Longrightarrow> kind n \<in> {KStart, KApproval, KCondition, KEnd, KMerge}" for m n
    using assms by (auto simp: validate_domain_driven_def res_simps dest!: find_nodeD)
  have land: "landing cel nodes ctx m \<noteq> AdvanceMulti pts" for m pts
    by (auto simp: landing_def split: option.splits dest: dd)
  have H: "(\<forall>pts. out \<noteq> AdvanceMulti pts) \<and> (\<forall>t r. out = Advance t r \<longrightarrow> (\<exists>n. find_node nodes t = Some n \<and> kind n = KApproval)) \<and>
      (\<forall>t r. out \<noteq> Rework t r)"
    if "resolve_target cel nodes ts j ctx [] empty_trace 0 = (out, tr)" for j out tr
    using that land resolve_target_landing [of cel nodes ts j ctx "[]" empty_trace 0]
      resolve_target_not_rework [of cel nodes ts j ctx "[]" empty_trace 0]
      resolve_Advance [of cel nodes ts j ctx "[]" empty_trace 0]
    by (auto simp: waiting_kinds_def) (use dd in fastforce)+
  let ?d = "fst (decide_advance cel nodes ts i sig ctx)"
  from decide_advance_shape [of cel nodes ts i sig ctx] show ?thesis
  proof
    assume "snd (decide_advance cel nodes ts i sig ctx) = empty_trace \<and>
      ?d \<in> {Complete WrRejected, Complete WrReturned, OutcomeError}"
    then show ?thesis by auto
  next
    assume "\<exists>j out tr. resolve_target cel nodes ts j ctx [] empty_trace 0 = (out, tr) \<and>
      snd (decide_advance cel nodes ts i sig ctx) = tr \<and>
      (?d = out \<or> ?d = OutcomeError \<or> (\<exists>t r. out = Advance t r \<and> ?d = Rework t r))"
    then obtain j out tr where R: "resolve_target cel nodes ts j ctx [] empty_trace 0 = (out, tr)"
      and c: "?d = out \<or> ?d = OutcomeError \<or> (\<exists>t r. out = Advance t r \<and> ?d = Rework t r)" by blast
    from H [OF R] c show ?thesis by (cases out) auto
  qed
qed

lemma domain_driven_waits_for_approval_witness:
  "\<exists>n. find_node [demo_node ''s'' NcStart, demo_node ''a'' (NcApproval (Some ''r'') None None None)] ''a'' = Some n \<and>
     kind n = KApproval"
proof -
  let ?ns = "[demo_node ''s'' NcStart, demo_node ''a'' (NcApproval (Some ''r'') None None None)]"
  have v: "validate_domain_driven ?ns = Inr ()" by code_simp
  have d: "fst (decide_advance demo_cel ?ns [demo_edge ''s'' SigApproved ''a''] ''s'' SigApproved None) = Advance ''a'' (Some ''r'')"
    by code_simp
  from domain_driven_waits_for_approval [OF v, of demo_cel "[demo_edge ''s'' SigApproved ''a'']" "''s''" SigApproved None]
  show ?thesis unfolding d by simp
qed

end
