(* ===== verification/Flow_Lint_Props.thy ===== *)
theory Flow_Lint_Props
  imports Flow_Demo
begin

text \<open>
  Properties of validation messages, of the lint, and of the fan-out over a collection.
\<close>

section \<open>Messages name their node\<close>

named_theorems names_rules \<open>every failing check of a node names that node first\<close>

lemma split_branch_names [names_rules]: "split_branch_join nodes ts i bt = Inl e \<Longrightarrow> \<exists>m. e = Validation m \<and> names_node i m"
  by (auto simp: split_branch_join_def quote_char_def  split: if_splits option.splits)

lemma split_branches_name [names_rules]: "all_name i (check_split_branches nodes ts i jo bts)"
proof (induction bts arbitrary: jo)
  case (Cons bt bts)
  then show ?case
    by (cases "split_branch_join nodes ts i bt")
      (auto simp: all_name_def reject_def quote_char_def dest: split_branch_names  split: option.splits)
qed simp

lemma notification_names [names_rules]: "all_name (node_id n) (validate_notification ts n)"
  and assignment_names [names_rules]: "all_name (node_id n) (validate_assignment ts n)"
  by (auto simp: validate_notification_def validate_assignment_def quote_char_def intro!: all_name_then
      split: option.splits)

lemma escalation_names [names_rules]: "all_name (node_id n) (validate_escalation n)"
  by (auto simp: validate_escalation_def quote_char_def  split: option.splits prod.splits)

lemma approval_names [names_rules]: "all_name (node_id n) (validate_approval ts n)"
  by (auto simp: validate_approval_def quote_char_def intro!: all_name_then escalation_names)

lemma condition_names [names_rules]: "all_name (node_id n) (validate_condition cel nodes n)"
  by (auto simp: validate_condition_def quote_char_def intro!: all_name_then all_name_check all_name_map_err
      split: option.splits)

lemma event_wait_names [names_rules]: "all_name (node_id n) (validate_event_wait nodes ts n)"
  by (auto simp: validate_event_wait_def quote_char_def intro!: all_name_then split: option.splits)

lemma split_names [names_rules]: "all_name (node_id n) (validate_split nodes ts n)"
  by (auto simp: validate_split_def quote_char_def intro!: all_name_then split_branches_name split: option.splits)

lemma join_names [names_rules]: "all_name (node_id n) (validate_join nodes ts n)"
  by (auto simp: validate_join_def Let_def quote_char_def intro!: all_name_then
      split: option.splits join_strategy.splits)

lemma merge_names [names_rules]: "all_name (node_id n) (validate_merge nodes ts n)"
  by (auto simp: validate_merge_def Let_def quote_char_def intro!: all_name_then all_name_check
      split: option.splits list.splits)

lemma for_each_names [names_rules]: "all_name (node_id n) (validate_for_each cel nodes ts n)"
  by (auto simp: validate_for_each_def quote_char_def okorR_def
      intro!: all_name_then all_name_bind all_name_map_err split: option.splits)

lemma sub_workflow_names [names_rules]: "all_name (node_id n) (validate_sub_workflow nodes ts n)"
  by (auto simp: validate_sub_workflow_def quote_char_def intro!: all_name_then split: option.splits)

lemma kind_names: "kind n \<notin> {KParallel, KTimer} \<Longrightarrow> all_name (node_id n) (validate_kind cel nodes ts n)"
  by (cases "kind n") (auto simp: validate_kind_def names_rules)

lemma names_node_extract: "names_node i m \<Longrightarrow> quote_char \<notin> set i \<Longrightarrow> i \<noteq> [] \<Longrightarrow> extract_first_quoted m = Some i"
  by (auto simp: names_node_def extract_quoted)

text \<open>When a node of a supported kind is rejected, the lint finding made from the error message
  points back at that node: the token extracted from the message is its id (ids are non-empty and
  hold no quote), whichever of the checks failed and whatever its text quotes afterwards.\<close>
theorem rejection_points_at_node:
  assumes "validate_kind cel nodes ts n = Inl e" and "kind n \<notin> {KParallel, KTimer}"
    and "node_id n \<noteq> []" and "quote_char \<notin> set (node_id n)"
  shows "\<exists>m. e = Validation m \<and> lf_node_id (validation_error m) = Some (node_id n)"
  using kind_names [OF assms(2), of cel nodes ts] assms
  by (auto simp: all_name_def validation_error_def names_node_extract)

lemma rejection_points_at_node_witness:
  "lf_node_id (validation_error (''approval node '' @ quoted ''n1'' @ '' assignee_role must not be empty'')) = Some ''n1''"
proof -
  let ?n = "demo_node ''n1'' (NcApproval None None None None)"
  have "validate_kind demo_cel [] [] ?n =
      Inl (Validation (''approval node '' @ quoted ''n1'' @ '' assignee_role must not be empty''))"
    by code_simp
  from rejection_points_at_node [OF this] show ?thesis
    by (simp add: demo_node_def kind_def quote_char_def)
qed

section \<open>The lint\<close>

text \<open>C17: With exactly one start node, the unreachable_node findings of the lint are exactly the nodes, other
  than Start nodes, that no path of the static graph (transitions, split branches, condition
  targets, timeout targets) reaches from it.\<close>
theorem lint_unreachable_exact:
  assumes "filter (\<lambda>n. kind n = KStart) nodes = [s]"
  shows "Some i \<in> lf_node_id ` set (lint_unreachable nodes ts) \<longleftrightarrow>
    (\<exists>n\<in>set nodes. node_id n = i \<and> kind n \<noteq> KStart \<and> (node_id s, i) \<notin> (static_edges nodes ts)\<^sup>*)"
  using assms by (auto simp: lint_unreachable_def lint_error_def lint_reachable_iff image_iff Bex_def)

lemma lint_unreachable_exact_witness:
  "Some ''lost'' \<in> lf_node_id ` set (lint_unreachable [demo_node ''s'' NcStart, demo_node ''lost'' NcMerge] [])"
proof -
  let ?ns = "[demo_node ''s'' NcStart, demo_node ''lost'' NcMerge]"
  have f: "filter (\<lambda>n. kind n = KStart) ?ns = [demo_node ''s'' NcStart]"
    by (simp add: demo_node_def kind_def)
  have "static_edges ?ns [] = {}"
    by (auto simp: static_edges_def find_node_def static_out_targets_def demo_node_def kind_def split: if_splits)
  then show ?thesis
    using lint_unreachable_exact [OF f, of "''lost''" "[]"] by (simp add: demo_node_def kind_def)
qed

text \<open>The parallel_unclosed warnings of the lint are exactly the existing split branches from which no path
  of the static graph leads to a ParallelJoin.\<close>
theorem lint_unclosed_exact:
  "Some b \<in> lf_node_id ` set (lint_unclosed nodes ts) \<longleftrightarrow>
    (\<exists>n\<in>set nodes. \<exists>bts. parallel_split n = Some bts \<and> b \<in> set bts \<and> b \<in> set (node_ids nodes) \<and>
       \<not> (\<exists>j m. (b, j) \<in> (static_edges nodes ts)\<^sup>* \<and> find_node nodes j = Some m \<and> kind m = KParallelJoin))"
proof -
  have k: "parallel_split n = Some bts \<Longrightarrow> kind n = KParallelSplit" for n bts
    by (auto simp: parallel_split_def kind_def split: node_config.splits)
  have "lf_node_id ` set (lint_unclosed nodes ts) =
      (\<Union>n\<in>{n \<in> set nodes. kind n = KParallelSplit}. case parallel_split n of None \<Rightarrow> {}
         | Some bts \<Rightarrow> Some ` {b \<in> set bts. b \<in> set (node_ids nodes) \<and> \<not> branch_reaches_join b nodes ts})"
    unfolding lint_unclosed_def set_concat image_UN set_map image_image lint_warning_def
    by (intro SUP_cong) (auto simp: image_image split: option.splits)
  then have "Some b \<in> lf_node_id ` set (lint_unclosed nodes ts) \<longleftrightarrow>
      (\<exists>n\<in>set nodes. \<exists>bts. parallel_split n = Some bts \<and> b \<in> set bts \<and> b \<in> set (node_ids nodes) \<and>
         \<not> branch_reaches_join b nodes ts)"
  proof -
    let ?S = "\<lambda>n. case parallel_split n of None \<Rightarrow> {}
         | Some bts \<Rightarrow> Some ` {b \<in> set bts. b \<in> set (node_ids nodes) \<and> \<not> branch_reaches_join b nodes ts}"
    have "Some b \<in> ?S n \<longleftrightarrow> (\<exists>bts. parallel_split n = Some bts \<and> b \<in> set bts \<and> b \<in> set (node_ids nodes) \<and>
         \<not> branch_reaches_join b nodes ts)" for n
      by (cases "parallel_split n") auto
    with k show ?thesis unfolding \<open>lf_node_id ` set (lint_unclosed nodes ts) = _\<close> by blast
  qed
  then show ?thesis by (simp only: branch_reaches_join_iff)
qed

lemma filter_singleD: "filter P xs = [x] \<Longrightarrow> x \<in> set xs \<and> P x"
  by (auto simp: filter_eq_Cons_iff)

lemma valid_has_target:
  assumes v: "validate_definition cel nodes ts = Inr ()" and n: "n \<in> set nodes"
    and k: "kind n \<notin> {KStart, KEnd, KForEach}"
  shows "static_out_targets n ts \<noteq> []"
proof -
  have vk: "validate_kind cel nodes ts n = Inr ()" using v n by (auto simp: valid_iff)
  have t: "static_out_targets n ts \<noteq> []" if "has_out ts (node_id n) sig" for sig
    using that by (auto simp: static_out_targets_def has_out_iff filter_empty_conv)
  show ?thesis
  proof (cases "kind n")
    case KApproval
    with vk t show ?thesis by (auto simp: validate_kind_def validate_approval_def res_simps)
  next
    case KNotification
    with vk t kind_accessors(5) [of n] show ?thesis
      by (auto simp: validate_kind_def validate_notification_def res_simps)
  next
    case KAssignment
    with vk t kind_accessors(6) [of n] show ?thesis
      by (auto simp: validate_kind_def validate_assignment_def res_simps)
  next
    case KCondition
    with kind_accessors(4) [of n] show ?thesis by (auto simp: static_out_targets_def)
  next
    case KEventWait
    with vk t kind_accessors(3) [of n] show ?thesis
      by (auto simp: validate_kind_def validate_event_wait_def res_simps static_out_targets_def split: option.splits)
  next
    case KParallelSplit
    with vk kind_accessors(1) [of n] show ?thesis
      by (auto simp: validate_kind_def validate_split_def res_simps static_out_targets_def)
  next
    case KParallelJoin
    with vk t show ?thesis by (auto simp: validate_kind_def validate_join_def Let_def res_simps)
  next
    case KMerge
    with vk show ?thesis
      by (auto simp: validate_kind_def validate_merge_def static_out_targets_def filter_empty_conv
          Let_def split: list.splits dest!: filter_singleD)
  next
    case KSubWorkflow
    with vk t kind_accessors(7) [of n] show ?thesis
      by (auto simp: validate_kind_def validate_sub_workflow_def res_simps)
  qed (use k vk in \<open>auto simp: validate_kind_def\<close>)
qed

text \<open>A definition without ForEach nodes that validation accepts has no dangling_edge and no
  deadlock_node finding.\<close>
theorem valid_lints_clean:
  assumes "validate_definition cel nodes ts = Inr ()" and "\<forall>n\<in>set nodes. kind n \<noteq> KForEach"
  shows "lint_dangling nodes ts = [] \<and> lint_deadlock nodes ts = []"
  using assms valid_has_target [OF assms(1)]
  by (auto simp: lint_dangling_def lint_deadlock_def filter_empty_conv valid_iff)

lemma valid_lints_clean_witness:
  "lint_dangling [demo_node ''s'' NcStart, demo_node ''a'' (NcApproval (Some ''r'') None None None), demo_node ''e'' (NcEnd None)]
     [demo_edge ''a'' SigApproved ''e''] = [] \<and>
   lint_deadlock [demo_node ''s'' NcStart, demo_node ''a'' (NcApproval (Some ''r'') None None None), demo_node ''e'' (NcEnd None)]
     [demo_edge ''a'' SigApproved ''e''] = []"
proof (rule valid_lints_clean)
  show "validate_definition demo_cel [demo_node ''s'' NcStart, demo_node ''a'' (NcApproval (Some ''r'') None None None),
      demo_node ''e'' (NcEnd None)] [demo_edge ''a'' SigApproved ''e''] = Inr ()"
    by code_simp
qed (simp add: demo_node_def kind_def)

text \<open>The lint does not know the edges of a ForEach node: on a definition that validation accepts and that
  the engine runs (the fan-out resolves to one target per row) it reports the ForEach node as a
  deadlock and its template and join as unreachable, all with severity error.\<close>
theorem lint_rejects_valid_for_each:
  "validate_definition demo_cel demo_nodes demo_edges = Inr () \<and>
   map (\<lambda>f. (lf_severity f, lf_code f, lf_node_id f)) (lint_definition demo_nodes demo_edges) =
     [(''error'', ''unreachable_node'', Some ''item''), (''error'', ''unreachable_node'', Some ''join2''),
      (''error'', ''deadlock_node'', Some ''each'')] \<and>
   fst (decide_advance demo_cel demo_nodes demo_edges ''join'' SigApproved (Some demo_ctx)) =
     AdvanceMulti (map (for_each_target ''item'' AtAssignment None) [(0, JInt 1), (1, JInt 2)])"
proof (intro conjI)
  show "map (\<lambda>f. (lf_severity f, lf_code f, lf_node_id f)) (lint_definition demo_nodes demo_edges) =
     [(''error'', ''unreachable_node'', Some ''item''), (''error'', ''unreachable_node'', Some ''join2''),
      (''error'', ''deadlock_node'', Some ''each'')]"
    by code_simp
  show "fst (decide_advance demo_cel demo_nodes demo_edges ''join'' SigApproved (Some demo_ctx)) =
     AdvanceMulti (map (for_each_target ''item'' AtAssignment None) [(0, JInt 1), (1, JInt 2)])"
    by code_simp
qed (rule demo_valid)

end
