(* ===== verification/Flow_Db.thy ===== *)
theory Flow_Db
  imports Flow_Runtime
begin

text \<open>
  The data of crates/hetuflow-sqlx/src/lib.rs: the five tables with their row types, the numeric
  codes of the columns that have no enum, the conversions of rows into domain structs
  (\<open>into_model\<close>) and the scope filter.

  A database is the record \<open>db\<close>: the tables as lists of rows in insertion order, the time of the
  running transaction (\<open>now()\<close> is constant in a transaction) and the supply of primary keys
  (\<open>gen_random_uuid\<close>: never the nil uuid, never twice the same). \<open>ORDER BY created_at\<close> leaves
  the order of equal keys open; the model takes insertion order. The uuid and serde code the source
  calls is outside the repository: it is the record \<open>env\<close>.
\<close>

type_synonym uuid = nat

abbreviation nil_uuid :: uuid where "nil_uuid \<equiv> 0"

record terminal_callback =
  tc_handler_type :: string
  tc_payload :: json

record ('p, 'c, 'v) env =
  env_cel :: "('p, 'c, 'v) cel_api"
  uuid_str :: "uuid \<Rightarrow> string"
  uuid_parse :: "string \<Rightarrow> uuid option"
  json_text :: "json \<Rightarrow> string"
  sha256 :: "string \<Rightarrow> nat list"
  snapshot_ser :: "definition_snapshot \<Rightarrow> string + json"
  snapshot_de :: "json \<Rightarrow> string + definition_snapshot"
  notification_ser :: "notification_payload \<Rightarrow> string + json"
  notification_de :: "json \<Rightarrow> string + notification_payload"
  callback_ser :: "business_callback_payload \<Rightarrow> string + json"
  callback_de :: "json \<Rightarrow> string + business_callback_payload"
  terminal_ser :: "terminal_callback \<Rightarrow> string + json"
  terminal_de :: "json \<Rightarrow> string + terminal_callback"

text \<open>What is relied on of the uuid crate: parsing the text of an id gives the id back.\<close>

definition uuid_text_ok :: "('p, 'c, 'v) env \<Rightarrow> bool" where
  "uuid_text_ok env \<longleftrightarrow> (\<forall>u. uuid_parse env (uuid_str env u) = Some u)"

lemma uuid_text_okD [simp]: "uuid_text_ok env \<Longrightarrow> uuid_parse env (uuid_str env u) = Some u"
  by (simp add: uuid_text_ok_def)

lemma uuid_str_inject: "uuid_text_ok env \<Longrightarrow> uuid_str env u = uuid_str env w \<longleftrightarrow> u = w"
  by (metis option.inject uuid_text_okD)

section \<open>Column codes\<close>

definition activity_result_to_str :: "int \<Rightarrow> string" where
  "activity_result_to_str n =
     (if n = 1 then ''approved'' else if n = 2 then ''rejected'' else if n = 3 then ''returned''
      else if n = 4 then ''completed'' else ''unknown:'' @ show_int n)"

definition activity_result_from_str :: "string \<Rightarrow> int option" where
  "activity_result_from_str s =
     (if s = ''approved'' then Some 1 else if s = ''rejected'' then Some 2
      else if s = ''returned'' then Some 3 else if s = ''completed'' then Some 4 else None)"

definition outbox_status_str :: "int \<Rightarrow> string" where
  "outbox_status_str n =
     (if n = 1 then ''pending'' else if n = 2 then ''leased'' else if n = 3 then ''succeeded''
      else if n = 4 then ''dead_letter'' else ''unknown:'' @ show_int n)"

definition timer_kind_str :: "int \<Rightarrow> string" where
  "timer_kind_str n =
     (if n = 1 then ''reminder'' else if n = 2 then ''escalation'' else if n = 3 then ''timeout''
      else ''unknown:'' @ show_int n)"

definition timer_kind_i16 :: "string \<Rightarrow> int" where
  "timer_kind_i16 s = (if s = ''escalation'' then 2 else if s = ''timeout'' then 3 else 1)"

lemma activity_result_roundtrip: "activity_result_from_str s = Some n \<Longrightarrow> activity_result_to_str n = s"
  by (auto simp: activity_result_from_str_def activity_result_to_str_def split: if_splits)

section \<open>Rows\<close>

record instance_row =
  ir_id :: uuid
  ir_tenant_id :: int
  ir_facility_id :: uuid
  ir_reference_no :: string
  ir_workflow_definition_id :: uuid
  ir_business_key :: string
  ir_business_type :: string
  ir_status :: int
  ir_current_activity_id :: "uuid option"
  ir_result :: "int option"
  ir_side_effects_executed :: bool
  ir_context :: "json option"
  ir_definition_snapshot :: json
  ir_definition_hash :: string
  ir_started_at :: "timestamp option"
  ir_completed_at :: "timestamp option"
  ir_created_at :: timestamp
  ir_updated_at :: timestamp

record activity_row =
  ar_id :: uuid
  ar_tenant_id :: int
  ar_workflow_instance_id :: uuid
  ar_activity_definition_id :: string
  ar_activity_type :: int
  ar_status :: int
  ar_assignee_role :: "string option"
  ar_assignee_id :: "int option"
  ar_result :: "int option"
  ar_review_notes :: "string option"
  ar_reviewed_by :: "int option"
  ar_reviewed_at :: "timestamp option"
  ar_round :: int
  ar_created_at :: timestamp
  ar_updated_at :: timestamp

record outbox_row =
  xr_id :: uuid
  xr_tenant_id :: int
  xr_facility_id :: uuid
  xr_workflow_instance_id :: uuid
  xr_activity_instance_id :: uuid
  xr_activity_type :: string
  xr_payload :: json
  xr_status :: int
  xr_attempt_count :: int
  xr_max_attempts :: int
  xr_next_attempt_at :: timestamp
  xr_lease_owner :: "string option"
  xr_lease_expires_at :: "timestamp option"
  xr_last_error :: "string option"
  xr_created_at :: timestamp
  xr_updated_at :: timestamp

record timer_row =
  mr_id :: uuid
  mr_tenant_id :: int
  mr_facility_id :: uuid
  mr_workflow_instance_id :: uuid
  mr_activity_instance_id :: uuid
  mr_timer_kind :: int
  mr_status :: int
  mr_fire_at :: timestamp
  mr_fired_at :: "timestamp option"

record event_row =
  er_tenant_id :: int
  er_facility_id :: uuid
  er_workflow_instance_id :: uuid
  er_seq :: int
  er_event_type :: string
  er_event_payload :: json
  er_idempotency_key :: "string option"
  er_created_at :: timestamp

record db =
  db_instances :: "instance_row list"
  db_activities :: "activity_row list"
  db_timers :: "timer_row list"
  db_outbox :: "outbox_row list"
  db_events :: "event_row list"
  db_now :: timestamp
  db_next_uuid :: uuid
  db_default_max_attempts :: int

definition instance_model :: "('p, 'c, 'v) env \<Rightarrow> instance_row \<Rightarrow> workflow_instance" where
  "instance_model env r =
     \<lparr>wi_id = uuid_str env (ir_id r), wi_tenant_id = show_int (ir_tenant_id r),
      wi_facility_id = uuid_str env (ir_facility_id r), wi_reference_no = ir_reference_no r,
      wi_workflow_definition_id = uuid_str env (ir_workflow_definition_id r),
      wi_business_key = ir_business_key r, wi_business_type = ir_business_type r,
      wi_status = ws_from_i16 (ir_status r),
      wi_current_activity_id = map_option (uuid_str env) (ir_current_activity_id r),
      wi_result = Option.bind (ir_result r) wr_from_i16,
      wi_side_effects_executed = ir_side_effects_executed r, wi_context = ir_context r,
      wi_started_at = ir_started_at r, wi_completed_at = ir_completed_at r,
      wi_created_at = ir_created_at r, wi_updated_at = ir_updated_at r\<rparr>"

definition activity_model :: "('p, 'c, 'v) env \<Rightarrow> activity_row \<Rightarrow> activity_instance" where
  "activity_model env r =
     \<lparr>ai_id = uuid_str env (ar_id r), ai_tenant_id = show_int (ar_tenant_id r),
      ai_workflow_instance_id = uuid_str env (ar_workflow_instance_id r),
      ai_activity_definition_id = ar_activity_definition_id r,
      ai_activity_type = at_from_i16 (ar_activity_type r), ai_status = as_from_i16 (ar_status r),
      ai_assignee_role = ar_assignee_role r, ai_assignee_id = map_option show_int (ar_assignee_id r),
      ai_result = map_option activity_result_to_str (ar_result r), ai_review_notes = ar_review_notes r,
      ai_reviewed_by = map_option show_int (ar_reviewed_by r), ai_reviewed_at = ar_reviewed_at r,
      ai_round = ar_round r\<rparr>"

definition outbox_model :: "('p, 'c, 'v) env \<Rightarrow> outbox_row \<Rightarrow> outbox_record" where
  "outbox_model env r =
     \<lparr>or_id = uuid_str env (xr_id r), or_tenant_id = show_int (xr_tenant_id r),
      or_facility_id = uuid_str env (xr_facility_id r),
      or_workflow_instance_id = uuid_str env (xr_workflow_instance_id r),
      or_activity_instance_id = uuid_str env (xr_activity_instance_id r),
      or_activity_type = xr_activity_type r, or_payload = xr_payload r,
      or_status = outbox_status_str (xr_status r), or_attempt_count = xr_attempt_count r,
      or_max_attempts = xr_max_attempts r, or_next_attempt_at = xr_next_attempt_at r,
      or_last_error = xr_last_error r, or_created_at = xr_created_at r, or_updated_at = xr_updated_at r\<rparr>"

definition timer_model :: "('p, 'c, 'v) env \<Rightarrow> timer_row \<Rightarrow> timer_record" where
  "timer_model env r =
     \<lparr>tm_id = uuid_str env (mr_id r), tm_tenant_id = show_int (mr_tenant_id r),
      tm_facility_id = uuid_str env (mr_facility_id r),
      tm_workflow_instance_id = uuid_str env (mr_workflow_instance_id r),
      tm_activity_instance_id = uuid_str env (mr_activity_instance_id r),
      tm_timer_kind = timer_kind_str (mr_timer_kind r)\<rparr>"

definition event_model :: "event_row \<Rightarrow> event_record" where
  "event_model r =
     \<lparr>ev_seq = er_seq r, ev_event_type = er_event_type r, ev_payload = er_event_payload r,
      ev_created_at = er_created_at r\<rparr>"

section \<open>Scope\<close>

definition parse_uuid_field :: "('p, 'c, 'v) env \<Rightarrow> string \<Rightarrow> string \<Rightarrow> uuid res" where
  "parse_uuid_field env s field =
     okorR (Validation (''invalid uuid for '' @ field @ '': '' @ s)) (uuid_parse env s)"

fun parse_facilities :: "('p, 'c, 'v) env \<Rightarrow> string list \<Rightarrow> uuid list res" where
  "parse_facilities env [] = Inr []"
| "parse_facilities env (s # ss) =
     bindR (parse_uuid_field env s ''facility_id'') (\<lambda>u.
     bindR (parse_facilities env ss) (\<lambda>us. Inr (u # us)))"

text \<open>The tenant and facility predicate the filter adds to a query, or the error it stops with.\<close>

definition push_scope :: "('p, 'c, 'v) env \<Rightarrow> scope_filter \<Rightarrow> (int \<Rightarrow> uuid \<Rightarrow> bool) res" where
  "push_scope env scope =
     bindR (okorR (Validation (''invalid tenant_id: '' @ sf_tenant_id scope)) (parse_i64 (sf_tenant_id scope)))
       (\<lambda>tenant.
          case sf_facilities scope of
            AllInTenant \<Rightarrow> Inr (\<lambda>t f. t = tenant)
          | OnlyFacilities ids \<Rightarrow>
              bindR (parse_facilities env ids) (\<lambda>us. Inr (\<lambda>t f. t = tenant \<and> f \<in> set us)))"

end
