(* ===== verification/Flow_Store.thy ===== *)
theory Flow_Store
  imports Flow_Db
begin

text \<open>
  The operations of \<open>PgWorkflowStore\<close> (crates/hetuflow-sqlx/src/lib.rs), one definition per
  method with the predicate and the assignments of its SQL statement. A method that writes takes the
  database to its result and the new database; a method that reads is a function of the database.
  Status codes are the numbers the statements use (instance: 1 pending, 2 active, 3 completed,
  4 errored, 5 cancelled, 6 returned_waiting; activity: 2 active, 3 completed, 4 skipped; outbox:
  1 pending, 2 leased, 3 succeeded, 4 dead letter; timer: 1 pending, 2 fired, 3 cancelled).
  Connection failures are not modelled.
\<close>

definition secs :: "int \<Rightarrow> timestamp" where
  "secs n = n * 1000000"

section \<open>UPDATE on each table\<close>

definition set_instances :: "(instance_row \<Rightarrow> bool) \<Rightarrow> (instance_row \<Rightarrow> instance_row) \<Rightarrow> db \<Rightarrow> bool \<times> db" where
  "set_instances P f db =
     (0 < count_where P (db_instances db),
      db\<lparr>db_instances := update_where P (\<lambda>r. (f r)\<lparr>ir_updated_at := db_now db\<rparr>) (db_instances db)\<rparr>)"

definition set_activities :: "(activity_row \<Rightarrow> bool) \<Rightarrow> (activity_row \<Rightarrow> activity_row) \<Rightarrow> db \<Rightarrow> nat \<times> db" where
  "set_activities P f db =
     (count_where P (db_activities db),
      db\<lparr>db_activities := update_where P (\<lambda>r. (f r)\<lparr>ar_updated_at := db_now db\<rparr>) (db_activities db)\<rparr>)"

definition set_outbox :: "(outbox_row \<Rightarrow> bool) \<Rightarrow> (outbox_row \<Rightarrow> outbox_row) \<Rightarrow> db \<Rightarrow> bool \<times> db" where
  "set_outbox P f db =
     (0 < count_where P (db_outbox db),
      db\<lparr>db_outbox := update_where P (\<lambda>r. (f r)\<lparr>xr_updated_at := db_now db\<rparr>) (db_outbox db)\<rparr>)"

definition set_timers :: "(timer_row \<Rightarrow> bool) \<Rightarrow> (timer_row \<Rightarrow> timer_row) \<Rightarrow> db \<Rightarrow> bool \<times> db" where
  "set_timers P f db =
     (0 < count_where P (db_timers db), db\<lparr>db_timers := update_where P f (db_timers db)\<rparr>)"

text \<open>A fresh primary key.\<close>

definition fresh :: "db \<Rightarrow> uuid \<times> db" where
  "fresh db = (db_next_uuid db, db\<lparr>db_next_uuid := Suc (db_next_uuid db)\<rparr>)"

section \<open>Instances\<close>

definition active_for_key :: "string \<Rightarrow> string \<Rightarrow> instance_row \<Rightarrow> bool" where
  "active_for_key key ty r \<longleftrightarrow> ir_business_key r = key \<and> ir_business_type r = ty \<and> ir_status r \<in> {1, 2}"

definition insert_instance_on_conflict ::
  "int \<Rightarrow> uuid \<Rightarrow> uuid \<Rightarrow> string \<Rightarrow> string \<Rightarrow> string \<Rightarrow> json option \<Rightarrow> json \<Rightarrow> string \<Rightarrow> db \<Rightarrow>
   instance_row option \<times> db" where
  "insert_instance_on_conflict tenant facility def_id reference_no key ty ctx snapshot hash db =
     (if list_ex (active_for_key key ty) (db_instances db) then (None, db)
      else
        let (i, db1) = fresh db;
            r = \<lparr>ir_id = i, ir_tenant_id = tenant, ir_facility_id = facility, ir_reference_no = reference_no,
                 ir_workflow_definition_id = def_id, ir_business_key = key, ir_business_type = ty,
                 ir_status = 2, ir_current_activity_id = None, ir_result = None,
                 ir_side_effects_executed = False, ir_context = ctx, ir_definition_snapshot = snapshot,
                 ir_definition_hash = hash, ir_started_at = Some (db_now db), ir_completed_at = None,
                 ir_created_at = db_now db, ir_updated_at = db_now db\<rparr>
        in (Some r, db1\<lparr>db_instances := db_instances db1 @ [r]\<rparr>))"

definition active_instance_by_business_key :: "string \<Rightarrow> string \<Rightarrow> db \<Rightarrow> instance_row option" where
  "active_instance_by_business_key key ty db = List.find (active_for_key key ty) (db_instances db)"

definition find_instance :: "db \<Rightarrow> uuid \<Rightarrow> instance_row option" where
  "find_instance db i = List.find (\<lambda>r. ir_id r = i) (db_instances db)"

definition get_instance_scoped ::
  "('p, 'c, 'v) env \<Rightarrow> scope_filter \<Rightarrow> uuid \<Rightarrow> db \<Rightarrow> workflow_instance option res" where
  "get_instance_scoped env scope i db =
     bindR (push_scope env scope) (\<lambda>ok.
       Inr (map_option (instance_model env)
         (List.find (\<lambda>r. ir_id r = i \<and> ok (ir_tenant_id r) (ir_facility_id r)) (db_instances db))))"

text \<open>The same read; its row lock serialises the transactions of one instance.\<close>

definition load_instance_for_update_scoped ::
  "('p, 'c, 'v) env \<Rightarrow> scope_filter \<Rightarrow> uuid \<Rightarrow> db \<Rightarrow> workflow_instance option res" where
  "load_instance_for_update_scoped env scope i db = get_instance_scoped env scope i db"

definition load_instance :: "('p, 'c, 'v) env \<Rightarrow> uuid \<Rightarrow> db \<Rightarrow> workflow_instance option" where
  "load_instance env i db = map_option (instance_model env) (find_instance db i)"

definition no_row_error :: flow_error where
  "no_row_error = Storage ''no rows returned by a query that expected to return at least one row''"

definition load_snapshot :: "('p, 'c, 'v) env \<Rightarrow> uuid \<Rightarrow> db \<Rightarrow> definition_snapshot res" where
  "load_snapshot env i db =
     (case find_instance db i of
        None \<Rightarrow> Inl no_row_error
      | Some r \<Rightarrow> map_errR (\<lambda>e. Serialization (''definition_snapshot invalid: '' @ e))
                  (snapshot_de env (ir_definition_snapshot r)))"

definition complete_workflow_cas :: "uuid \<Rightarrow> int \<Rightarrow> db \<Rightarrow> bool \<times> db" where
  "complete_workflow_cas i result db =
     set_instances (\<lambda>r. ir_id r = i \<and> ir_status r = 2)
       (\<lambda>r. r\<lparr>ir_status := 3, ir_result := Some result, ir_completed_at := Some (db_now db),
              ir_current_activity_id := None\<rparr>) db"

text \<open>
  The insertion names the partial unique index \<open>uq_workflow_instances_active\<close> on (business_key,
  business_type) of the rows in status 1 or 2. An UPDATE that would make a second row active for
  the same key fails on it and changes nothing.
\<close>

definition active_key_taken :: "uuid \<Rightarrow> db \<Rightarrow> bool" where
  "active_key_taken i db \<longleftrightarrow>
     list_ex (\<lambda>r. ir_id r = i \<and>
       list_ex (\<lambda>q. ir_id q \<noteq> i \<and> active_for_key (ir_business_key r) (ir_business_type r) q) (db_instances db)) (db_instances db)"

definition unique_violation :: flow_error where
  "unique_violation = Storage (''error returned from database: duplicate key value violates unique constraint '' @
     [CHR 0x22] @ ''uq_workflow_instances_active'' @ [CHR 0x22])"

definition activate_instances :: "uuid \<Rightarrow> (instance_row \<Rightarrow> bool) \<Rightarrow> (instance_row \<Rightarrow> instance_row) \<Rightarrow> db \<Rightarrow> bool res \<times> db" where
  "activate_instances i C f db =
     (if list_ex (\<lambda>r. ir_id r = i \<and> C r) (db_instances db) \<and> active_key_taken i db then (Inl unique_violation, db)
      else case set_instances (\<lambda>r. ir_id r = i \<and> C r) f db of (ok, db') \<Rightarrow> (Inr ok, db'))"

definition reactivate_workflow :: "uuid \<Rightarrow> db \<Rightarrow> bool res \<times> db" where
  "reactivate_workflow i db =
     activate_instances i (\<lambda>r. ir_status r = 3 \<and> ir_result r = Some 3)
       (\<lambda>r. r\<lparr>ir_status := 2, ir_result := None, ir_completed_at := None\<rparr>) db"

definition error_workflow :: "uuid \<Rightarrow> db \<Rightarrow> bool \<times> db" where
  "error_workflow i db =
     set_instances (\<lambda>r. ir_id r = i \<and> ir_status r = 2) (\<lambda>r. r\<lparr>ir_status := 4\<rparr>) db"

definition clear_current_activity :: "uuid \<Rightarrow> db \<Rightarrow> unit \<times> db" where
  "clear_current_activity i db =
     ((), snd (set_instances (\<lambda>r. ir_id r = i) (\<lambda>r. r\<lparr>ir_current_activity_id := None\<rparr>) db))"

definition update_current_activity :: "uuid \<Rightarrow> uuid \<Rightarrow> db \<Rightarrow> bool \<times> db" where
  "update_current_activity i a db =
     set_instances (\<lambda>r. ir_id r = i \<and> ir_status r = 2) (\<lambda>r. r\<lparr>ir_current_activity_id := Some a\<rparr>) db"

definition enter_returned_waiting :: "uuid \<Rightarrow> uuid \<Rightarrow> db \<Rightarrow> bool \<times> db" where
  "enter_returned_waiting i a db =
     set_instances (\<lambda>r. ir_id r = i \<and> ir_status r = 2)
       (\<lambda>r. r\<lparr>ir_status := 6, ir_current_activity_id := Some a\<rparr>) db"

definition resume_from_returned_waiting :: "uuid \<Rightarrow> db \<Rightarrow> bool res \<times> db" where
  "resume_from_returned_waiting i db = activate_instances i (\<lambda>r. ir_status r = 6) (\<lambda>r. r\<lparr>ir_status := 2\<rparr>) db"

definition mark_side_effects_executed :: "uuid \<Rightarrow> db \<Rightarrow> bool \<times> db" where
  "mark_side_effects_executed i db =
     set_instances (\<lambda>r. ir_id r = i \<and> \<not> ir_side_effects_executed r) (\<lambda>r. r\<lparr>ir_side_effects_executed := True\<rparr>) db"

text \<open>\<open>jsonb || jsonb\<close>: two objects merge, otherwise both sides are read as arrays and appended.\<close>

fun jsonb_concat :: "json \<Rightarrow> json \<Rightarrow> json" where
  "jsonb_concat (JObj m) (JObj p) = JObj (map_merge m p)"
| "jsonb_concat (JArr xs) (JArr ys) = JArr (xs @ ys)"
| "jsonb_concat (JArr xs) v = JArr (xs @ [v])"
| "jsonb_concat v (JArr ys) = JArr (v # ys)"
| "jsonb_concat v w = JArr [v, w]"

definition merge_instance_context :: "uuid \<Rightarrow> json \<Rightarrow> db \<Rightarrow> json res \<times> db" where
  "merge_instance_context i patch db =
     (let merged = (\<lambda>r. jsonb_concat (unwrap_or (JObj []) (ir_context r)) patch);
          db' = snd (set_instances (\<lambda>r. ir_id r = i) (\<lambda>r. r\<lparr>ir_context := Some (merged r)\<rparr>) db)
      in (case find_instance db i of
            None \<Rightarrow> (Inl no_row_error, db')
          | Some r \<Rightarrow> (Inr (merged r), db')))"

definition list_instance_ids_scoped ::
  "('p, 'c, 'v) env \<Rightarrow> scope_filter \<Rightarrow> bool \<Rightarrow> int \<Rightarrow> db \<Rightarrow> uuid list res" where
  "list_instance_ids_scoped env scope terminal_only limit db =
     bindR (push_scope env scope) (\<lambda>ok.
       Inr (take (nat limit) (map ir_id (rev (sort_key ir_created_at
         (filter (\<lambda>r. ok (ir_tenant_id r) (ir_facility_id r) \<and> (terminal_only \<longrightarrow> ir_status r \<in> {3, 4, 5}))
           (db_instances db)))))))"

section \<open>Activities\<close>

definition insert_activity ::
  "int \<Rightarrow> uuid \<Rightarrow> string \<Rightarrow> activity_type \<Rightarrow> string option \<Rightarrow> int \<Rightarrow> db \<Rightarrow> activity_row \<times> db" where
  "insert_activity tenant i node ty role r db =
     (let (a, db1) = fresh db;
          row = \<lparr>ar_id = a, ar_tenant_id = tenant, ar_workflow_instance_id = i, ar_activity_definition_id = node,
                 ar_activity_type = at_as_i16 ty, ar_status = 2, ar_assignee_role = role, ar_assignee_id = None,
                 ar_result = None, ar_review_notes = None, ar_reviewed_by = None, ar_reviewed_at = None,
                 ar_round = r, ar_created_at = db_now db, ar_updated_at = db_now db\<rparr>
      in (row, db1\<lparr>db_activities := db_activities db1 @ [row]\<rparr>))"

definition activities_of :: "uuid \<Rightarrow> db \<Rightarrow> activity_row list" where
  "activities_of i db = filter (\<lambda>r. ar_workflow_instance_id r = i) (db_activities db)"

definition active_activities :: "('p, 'c, 'v) env \<Rightarrow> uuid \<Rightarrow> db \<Rightarrow> activity_instance list" where
  "active_activities env i db =
     map (activity_model env) (sort_key ar_created_at (filter (\<lambda>r. ar_status r = 2) (activities_of i db)))"

definition active_activity :: "('p, 'c, 'v) env \<Rightarrow> uuid \<Rightarrow> db \<Rightarrow> activity_instance option" where
  "active_activity env i db =
     (case rev (sort_key ar_created_at (filter (\<lambda>r. ar_status r = 2) (activities_of i db))) of
        [] \<Rightarrow> None
      | r # _ \<Rightarrow> Some (activity_model env r))"

definition list_activities :: "('p, 'c, 'v) env \<Rightarrow> uuid \<Rightarrow> db \<Rightarrow> activity_instance list" where
  "list_activities env i db = map (activity_model env) (sort_key ar_created_at (activities_of i db))"

definition find_activity :: "db \<Rightarrow> uuid \<Rightarrow> activity_row option" where
  "find_activity db a = List.find (\<lambda>r. ar_id r = a) (db_activities db)"

definition load_activity :: "('p, 'c, 'v) env \<Rightarrow> uuid \<Rightarrow> db \<Rightarrow> activity_instance option" where
  "load_activity env a db = map_option (activity_model env) (find_activity db a)"

definition count_completed_branches :: "uuid \<Rightarrow> string list \<Rightarrow> int \<Rightarrow> db \<Rightarrow> int" where
  "count_completed_branches i branch_ids r db =
     (if branch_ids = [] then 0
      else int (count_where (\<lambda>a. ar_workflow_instance_id a = i \<and> ar_status a = 3 \<and>
               (case ar_result a of None \<Rightarrow> True | Some n \<Rightarrow> n \<notin> {2, 3}) \<and>
               ar_round a = r \<and> ar_activity_definition_id a \<in> set branch_ids) (db_activities db)))"

definition complete_activity_cas :: "uuid \<Rightarrow> int option \<Rightarrow> int \<Rightarrow> string option \<Rightarrow> db \<Rightarrow> bool \<times> db" where
  "complete_activity_cas a result reviewed_by review_notes db =
     (let (n, db') = set_activities (\<lambda>r. ar_id r = a \<and> ar_status r = 2)
            (\<lambda>r. r\<lparr>ar_status := 3, ar_result := result, ar_reviewed_by := Some reviewed_by,
                   ar_reviewed_at := Some (db_now db), ar_review_notes := review_notes\<rparr>) db
      in (0 < n, db'))"

definition skip_activity_for_timeout :: "uuid \<Rightarrow> db \<Rightarrow> bool \<times> db" where
  "skip_activity_for_timeout a db =
     (let (n, db') = set_activities (\<lambda>r. ar_id r = a \<and> ar_status r = 2) (\<lambda>r. r\<lparr>ar_status := 4\<rparr>) db
      in (0 < n, db'))"

definition skip_other_active_activities :: "uuid \<Rightarrow> uuid \<Rightarrow> db \<Rightarrow> nat \<times> db" where
  "skip_other_active_activities i exclude db =
     (let others = map ar_id (filter (\<lambda>r. ar_workflow_instance_id r = i \<and> ar_status r = 2 \<and> ar_id r \<noteq> exclude)
                     (db_activities db));
          db1 = snd (set_timers (\<lambda>t. mr_workflow_instance_id t = i \<and> mr_activity_instance_id t \<in> set others \<and> mr_status t = 1)
                  (\<lambda>t. t\<lparr>mr_status := 3\<rparr>) db)
      in set_activities (\<lambda>r. ar_workflow_instance_id r = i \<and> ar_id r \<noteq> exclude \<and> ar_status r = 2)
           (\<lambda>r. r\<lparr>ar_status := 4\<rparr>) db1)"

definition max_round :: "uuid \<Rightarrow> db \<Rightarrow> int" where
  "max_round i db = (if activities_of i db = [] then 0 else Max (set (map ar_round (activities_of i db))))"

definition update_activity_assignee_role :: "uuid \<Rightarrow> string \<Rightarrow> db \<Rightarrow> bool \<times> db" where
  "update_activity_assignee_role a role db =
     (let (n, db') = set_activities (\<lambda>r. ar_id r = a \<and> ar_status r = 2) (\<lambda>r. r\<lparr>ar_assignee_role := Some role\<rparr>) db
      in (0 < n, db'))"

definition update_activity_assignee :: "uuid \<Rightarrow> int option \<Rightarrow> db \<Rightarrow> bool \<times> db" where
  "update_activity_assignee a assignee db =
     (let (n, db') = set_activities (\<lambda>r. ar_id r = a \<and> ar_status r = 2) (\<lambda>r. r\<lparr>ar_assignee_id := assignee\<rparr>) db
      in (0 < n, db'))"

section \<open>The event log\<close>

definition events_of :: "uuid \<Rightarrow> db \<Rightarrow> event_row list" where
  "events_of i db = filter (\<lambda>e. er_workflow_instance_id e = i) (db_events db)"

definition next_seq :: "uuid \<Rightarrow> db \<Rightarrow> int" where
  "next_seq i db = (if events_of i db = [] then 0 else Max (set (map er_seq (events_of i db)))) + 1"

definition load_events :: "uuid \<Rightarrow> db \<Rightarrow> event_record list" where
  "load_events i db = map event_model (sort_key er_seq (events_of i db))"

definition idempotency_seen :: "uuid \<Rightarrow> string \<Rightarrow> db \<Rightarrow> bool" where
  "idempotency_seen i key db = list_ex (\<lambda>e. er_workflow_instance_id e = i \<and> er_idempotency_key e = Some key) (db_events db)"

definition append_event ::
  "int \<Rightarrow> uuid \<Rightarrow> uuid \<Rightarrow> int \<Rightarrow> string \<Rightarrow> json \<Rightarrow> string option \<Rightarrow> db \<Rightarrow> unit \<times> db" where
  "append_event tenant facility i seq ty payload key db =
     ((), db\<lparr>db_events := db_events db @
       [\<lparr>er_tenant_id = tenant, er_facility_id = facility, er_workflow_instance_id = i, er_seq = seq,
         er_event_type = ty, er_event_payload = payload, er_idempotency_key = key, er_created_at = db_now db\<rparr>]\<rparr>)"

text \<open>\<open>payload->>'k'\<close>, and its cast to a number. The events read this way carry JSON integers;
  PostgreSQL raises an error on text that is no number, which the model does not reach.\<close>

definition pg_text :: "('p, 'c, 'v) env \<Rightarrow> json \<Rightarrow> string \<Rightarrow> string option" where
  "pg_text env p k =
     (case json_get k p of
        None \<Rightarrow> None
      | Some v \<Rightarrow> (case v of JNull \<Rightarrow> None | JStr s \<Rightarrow> Some s | JInt n \<Rightarrow> Some (show_int n) | _ \<Rightarrow> Some (json_text env v)))"

definition pg_int :: "('p, 'c, 'v) env \<Rightarrow> json \<Rightarrow> string \<Rightarrow> int option" where
  "pg_int env p k = Option.bind (pg_text env p k) parse_i64"

definition for_each_branch_count :: "('p, 'c, 'v) env \<Rightarrow> uuid \<Rightarrow> string \<Rightarrow> int \<Rightarrow> db \<Rightarrow> int option" where
  "for_each_branch_count env i join_node r db =
     (case rev (sort_key er_seq (filter (\<lambda>e. er_event_type e = ev_FOR_EACH_FANNED_OUT \<and>
               pg_text env (er_event_payload e) ''join_node'' = Some join_node \<and>
               pg_int env (er_event_payload e) ''round'' = Some r) (events_of i db))) of
        [] \<Rightarrow> None
      | e # _ \<Rightarrow> pg_int env (er_event_payload e) ''branch_count'')"

section \<open>The outbox\<close>

text \<open>The unique index is on (instance, activity, activity type).\<close>

definition enqueue_outbox ::
  "int \<Rightarrow> uuid \<Rightarrow> uuid \<Rightarrow> uuid \<Rightarrow> string \<Rightarrow> json \<Rightarrow> db \<Rightarrow> unit \<times> db" where
  "enqueue_outbox tenant facility i a ty payload db =
     (if list_ex (\<lambda>x. xr_workflow_instance_id x = i \<and> xr_activity_instance_id x = a \<and> xr_activity_type x = ty)
           (db_outbox db) then ((), db)
      else
        let (u, db1) = fresh db
        in ((), db1\<lparr>db_outbox := db_outbox db1 @
             [\<lparr>xr_id = u, xr_tenant_id = tenant, xr_facility_id = facility, xr_workflow_instance_id = i,
               xr_activity_instance_id = a, xr_activity_type = ty, xr_payload = payload, xr_status = 1,
               xr_attempt_count = 0, xr_max_attempts = db_default_max_attempts db, xr_next_attempt_at = db_now db,
               xr_lease_owner = None, xr_lease_expires_at = None, xr_last_error = None,
               xr_created_at = db_now db, xr_updated_at = db_now db\<rparr>]\<rparr>))"

definition outbox_due :: "timestamp \<Rightarrow> outbox_row \<Rightarrow> bool" where
  "outbox_due now x \<longleftrightarrow> xr_next_attempt_at x \<le> now \<and>
     (xr_status x = 1 \<or>
      (xr_status x = 2 \<and> (case xr_lease_expires_at x of None \<Rightarrow> False | Some t \<Rightarrow> t < now)))"

definition poll_due_outbox ::
  "('p, 'c, 'v) env \<Rightarrow> string \<Rightarrow> int \<Rightarrow> int \<Rightarrow> db \<Rightarrow> outbox_record list \<times> db" where
  "poll_due_outbox env worker lease_ttl limit db =
     (let ids = map xr_id (take (nat limit) (sort_key xr_next_attempt_at (filter (outbox_due (db_now db)) (db_outbox db))));
          db' = snd (set_outbox (\<lambda>x. xr_id x \<in> set ids)
                  (\<lambda>x. x\<lparr>xr_status := 2, xr_lease_owner := Some worker,
                         xr_lease_expires_at := Some (db_now db + secs lease_ttl)\<rparr>) db)
      in (map (outbox_model env) (filter (\<lambda>x. xr_id x \<in> set ids) (db_outbox db')), db'))"

definition leased_by :: "uuid \<Rightarrow> string \<Rightarrow> outbox_row \<Rightarrow> bool" where
  "leased_by i worker x \<longleftrightarrow> xr_id x = i \<and> xr_lease_owner x = Some worker \<and> xr_status x = 2"

definition mark_outbox_succeeded :: "uuid \<Rightarrow> string \<Rightarrow> db \<Rightarrow> bool \<times> db" where
  "mark_outbox_succeeded i worker db =
     set_outbox (leased_by i worker)
       (\<lambda>x. x\<lparr>xr_status := 3, xr_lease_owner := None, xr_lease_expires_at := None, xr_last_error := None\<rparr>) db"

definition mark_outbox_retry :: "uuid \<Rightarrow> string \<Rightarrow> int \<Rightarrow> string \<Rightarrow> db \<Rightarrow> bool \<times> db" where
  "mark_outbox_retry i worker backoff err db =
     set_outbox (leased_by i worker)
       (\<lambda>x. x\<lparr>xr_status := 1, xr_attempt_count := xr_attempt_count x + 1, xr_lease_owner := None,
              xr_lease_expires_at := None, xr_next_attempt_at := db_now db + secs backoff,
              xr_last_error := Some err\<rparr>) db"

definition mark_outbox_dead_letter :: "uuid \<Rightarrow> string \<Rightarrow> string \<Rightarrow> db \<Rightarrow> bool \<times> db" where
  "mark_outbox_dead_letter i worker err db =
     set_outbox (leased_by i worker)
       (\<lambda>x. x\<lparr>xr_status := 4, xr_attempt_count := xr_attempt_count x + 1, xr_lease_owner := None,
              xr_lease_expires_at := None, xr_last_error := Some err\<rparr>) db"

definition list_outbox_scoped ::
  "('p, 'c, 'v) env \<Rightarrow> scope_filter \<Rightarrow> uuid \<Rightarrow> db \<Rightarrow> outbox_record list res" where
  "list_outbox_scoped env scope i db =
     bindR (push_scope env scope) (\<lambda>ok.
       Inr (map (outbox_model env) (sort_key xr_created_at
         (filter (\<lambda>x. xr_workflow_instance_id x = i \<and> ok (xr_tenant_id x) (xr_facility_id x)) (db_outbox db)))))"

section \<open>Timers\<close>

definition schedule_timer :: "int \<Rightarrow> uuid \<Rightarrow> uuid \<Rightarrow> uuid \<Rightarrow> string \<Rightarrow> int \<Rightarrow> db \<Rightarrow> unit \<times> db" where
  "schedule_timer tenant facility i a timer_kind fire_in db =
     (let k = timer_kind_i16 timer_kind
      in if list_ex (\<lambda>t. mr_workflow_instance_id t = i \<and> mr_activity_instance_id t = a \<and> mr_timer_kind t = k \<and>
                          mr_status t = 1) (db_timers db) then ((), db)
         else
           let (u, db1) = fresh db
           in ((), db1\<lparr>db_timers := db_timers db1 @
                [\<lparr>mr_id = u, mr_tenant_id = tenant, mr_facility_id = facility, mr_workflow_instance_id = i,
                  mr_activity_instance_id = a, mr_timer_kind = k, mr_status = 1,
                  mr_fire_at = db_now db + secs fire_in, mr_fired_at = None\<rparr>]\<rparr>))"

definition cancel_timers_for_activity :: "uuid \<Rightarrow> db \<Rightarrow> unit \<times> db" where
  "cancel_timers_for_activity a db =
     ((), snd (set_timers (\<lambda>t. mr_activity_instance_id t = a \<and> mr_status t = 1) (\<lambda>t. t\<lparr>mr_status := 3\<rparr>) db))"

definition poll_due_timers :: "('p, 'c, 'v) env \<Rightarrow> int \<Rightarrow> db \<Rightarrow> timer_record list" where
  "poll_due_timers env limit db =
     map (timer_model env) (take (nat limit) (sort_key mr_fire_at
       (filter (\<lambda>t. mr_status t = 1 \<and> mr_fire_at t \<le> db_now db) (db_timers db))))"

definition mark_timer_fired :: "uuid \<Rightarrow> db \<Rightarrow> bool \<times> db" where
  "mark_timer_fired i db =
     set_timers (\<lambda>t. mr_id t = i \<and> mr_status t = 1) (\<lambda>t. t\<lparr>mr_status := 2, mr_fired_at := Some (db_now db)\<rparr>) db"

end
