(* ===== verification/Flow_Replay.thy ===== *)
theory Flow_Replay
  imports Flow_Model
begin

text \<open>
  crates/hetuflow-runtime/src/replay.rs: the pure reducer that rebuilds the instance and activity
  projection from the event log (\<open>fold_events\<close>), one definition per event type, and the drift check
  \<open>diff_projection\<close>.
\<close>

section \<open>The projection\<close>

definition NIL_ACTOR :: string where "NIL_ACTOR = ''0''"

record replayed_instance =
  ri_status :: workflow_status
  ri_current_activity_id :: "string option"
  ri_result :: "workflow_result option"
  ri_started_at :: "timestamp option"
  ri_completed_at :: "timestamp option"

record replayed_activity =
  ra_id :: string
  ra_activity_definition_id :: string
  ra_activity_type :: activity_type
  ra_status :: activity_status
  ra_assignee_role :: "string option"
  ra_assignee_id :: "string option"
  ra_result :: "string option"
  ra_review_notes :: "string option"
  ra_reviewed_by :: "string option"
  ra_reviewed_at :: "timestamp option"
  ra_round :: int

record replayed_projection =
  rp_instance :: replayed_instance
  rp_activities :: "replayed_activity list"

fun instantiated_activity_type :: "node_kind \<Rightarrow> activity_type" where
  "instantiated_activity_type KEventWait = AtEventWait"
| "instantiated_activity_type KNotification = AtNotification"
| "instantiated_activity_type KAssignment = AtAssignment"
| "instantiated_activity_type _ = AtApproval"

fun replay_is_terminal :: "workflow_status \<Rightarrow> bool" where
  "replay_is_terminal WsCompleted = True"
| "replay_is_terminal WsErrored = True"
| "replay_is_terminal WsCancelled = True"
| "replay_is_terminal _ = False"

definition pstr :: "json \<Rightarrow> string \<Rightarrow> string option" where
  "pstr p k = Option.bind (json_get k p) as_str"

definition pi32 :: "json \<Rightarrow> string \<Rightarrow> int option" where
  "pi32 p k = map_option as_i32 (Option.bind (json_get k p) as_i64)"

definition activity_type_for :: "definition_snapshot \<Rightarrow> string \<Rightarrow> activity_type" where
  "activity_type_for snapshot def_id =
     (case List.find (\<lambda>n. node_id n = def_id) (ds_nodes snapshot) of
        None \<Rightarrow> AtApproval
      | Some n \<Rightarrow> instantiated_activity_type (kind n))"

section \<open>One event\<close>

text \<open>An activity as it is pushed: active, unassigned and without a result.\<close>

definition fresh_activity ::
  "definition_snapshot \<Rightarrow> string \<Rightarrow> string \<Rightarrow> string option \<Rightarrow> int \<Rightarrow> replayed_activity" where
  "fresh_activity snapshot i def_id role r =
     \<lparr>ra_id = i, ra_activity_definition_id = def_id, ra_activity_type = activity_type_for snapshot def_id,
      ra_status = AsActive, ra_assignee_role = role, ra_assignee_id = None, ra_result = None,
      ra_review_notes = None, ra_reviewed_by = None, ra_reviewed_at = None, ra_round = r\<rparr>"

definition replay_started :: "timestamp \<Rightarrow> replayed_projection \<Rightarrow> replayed_projection" where
  "replay_started t pr =
     pr\<lparr>rp_instance := (rp_instance pr)\<lparr>ri_status := WsActive, ri_started_at := Some t\<rparr>\<rparr>"

definition replay_scheduled :: "definition_snapshot \<Rightarrow> json \<Rightarrow> replayed_projection \<Rightarrow> replayed_projection" where
  "replay_scheduled snapshot p pr =
     (case pstr p ''activity_id'' of
        None \<Rightarrow> pr
      | Some i \<Rightarrow>
          (let def_id = unwrap_or [] (pstr p ''activity_definition_id'');
               r = unwrap_or 1 (pi32 p ''round'');
               via = pstr p ''via'';
               inst = rp_instance pr;
               inst1 = inst\<lparr>ri_current_activity_id :=
                 (if via = Some ''for_each'' \<or> via = Some ''parallel_split'' then None else Some i)\<rparr>;
               inst2 = (if replay_is_terminal (ri_status inst1) then inst1 else inst1\<lparr>ri_status := WsActive\<rparr>)
           in \<lparr>rp_instance = inst2,
               rp_activities = rp_activities pr @ [fresh_activity snapshot i def_id (pstr p ''assignee_role'') r]\<rparr>))"

definition replay_signal :: "timestamp \<Rightarrow> json \<Rightarrow> replayed_projection \<Rightarrow> replayed_projection" where
  "replay_signal t p pr =
     (let signal = unwrap_or [] (pstr p ''signal_type'')
      in case pstr p ''target_activity_id'' of
           None \<Rightarrow> pr
         | Some tid \<Rightarrow>
             pr\<lparr>rp_activities := update_first (\<lambda>a. ra_id a = tid)
               (\<lambda>a. if signal = ''claimed'' \<or> signal = ''reassigned''
                    then a\<lparr>ra_assignee_id := pstr p ''assignee_id''\<rparr>
                    else a\<lparr>ra_reviewed_by := pstr p ''reviewer_id'', ra_review_notes := pstr p ''review_notes'',
                           ra_reviewed_at := Some t\<rparr>)
               (rp_activities pr)\<rparr>)"

definition replay_completed_activity :: "timestamp \<Rightarrow> json \<Rightarrow> replayed_projection \<Rightarrow> replayed_projection" where
  "replay_completed_activity t p pr =
     (let i = unwrap_or [] (pstr p ''activity_id'');
          from_notification = (pstr p ''source'' = Some ''notification_outbox'')
      in pr\<lparr>rp_activities := update_first (\<lambda>a. ra_id a = i)
           (\<lambda>a. let a1 = a\<lparr>ra_status := AsCompleted, ra_result := pstr p ''result''\<rparr>
                in if from_notification then a1\<lparr>ra_reviewed_by := Some NIL_ACTOR, ra_reviewed_at := Some t\<rparr> else a1)
           (rp_activities pr)\<rparr>)"

definition replay_skipped :: "json \<Rightarrow> replayed_projection \<Rightarrow> replayed_projection" where
  "replay_skipped p pr =
     (case pstr p ''activity_id'' of
        Some i \<Rightarrow>
          pr\<lparr>rp_activities := update_first (\<lambda>a. ra_id a = i) (\<lambda>a. a\<lparr>ra_status := AsSkipped\<rparr>) (rp_activities pr)\<rparr>
      | None \<Rightarrow>
          pr\<lparr>rp_activities := update_where (\<lambda>a. ra_status a = AsActive) (\<lambda>a. a\<lparr>ra_status := AsSkipped\<rparr>)
             (rp_activities pr)\<rparr>)"

definition replay_completed :: "timestamp \<Rightarrow> json \<Rightarrow> replayed_projection \<Rightarrow> replayed_projection" where
  "replay_completed t p pr =
     pr\<lparr>rp_instance := (rp_instance pr)\<lparr>ri_status := WsCompleted,
        ri_result := Option.bind (pstr p ''result'') wr_from_db,
        ri_completed_at := Some t, ri_current_activity_id := None\<rparr>\<rparr>"

definition replay_errored :: "replayed_projection \<Rightarrow> replayed_projection" where
  "replay_errored pr = pr\<lparr>rp_instance := (rp_instance pr)\<lparr>ri_status := WsErrored\<rparr>\<rparr>"

definition replay_returned :: "definition_snapshot \<Rightarrow> json \<Rightarrow> replayed_projection \<Rightarrow> replayed_projection" where
  "replay_returned snapshot p pr =
     (let def_id = unwrap_or [] (pstr p ''rework_target'');
          r = unwrap_or 1 (pi32 p ''round'');
          i = unwrap_or (''<rework:'' @ def_id @ '':'' @ show_int r @ ''>'') (pstr p ''activity_id'')
      in \<lparr>rp_instance = (rp_instance pr)\<lparr>ri_status := WsReturnedWaiting, ri_current_activity_id := Some i\<rparr>,
          rp_activities = rp_activities pr @ [fresh_activity snapshot i def_id (pstr p ''assignee_role'') r]\<rparr>)"

definition replay_resumed :: "replayed_projection \<Rightarrow> replayed_projection" where
  "replay_resumed pr = pr\<lparr>rp_instance := (rp_instance pr)\<lparr>ri_status := WsActive\<rparr>\<rparr>"

definition replay_reactivated :: "replayed_projection \<Rightarrow> replayed_projection" where
  "replay_reactivated pr =
     pr\<lparr>rp_instance := (rp_instance pr)\<lparr>ri_status := WsActive, ri_result := None, ri_completed_at := None\<rparr>\<rparr>"

definition replay_escalated :: "json \<Rightarrow> replayed_projection \<Rightarrow> replayed_projection" where
  "replay_escalated p pr =
     (case (pstr p ''activity_id'', pstr p ''to_role'') of
        (Some i, Some to_role) \<Rightarrow>
          pr\<lparr>rp_activities := update_first (\<lambda>a. ra_id a = i) (\<lambda>a. a\<lparr>ra_assignee_role := Some to_role\<rparr>)
             (rp_activities pr)\<rparr>
      | _ \<Rightarrow> pr)"

definition replay_fanned_out :: "replayed_projection \<Rightarrow> replayed_projection" where
  "replay_fanned_out pr = pr\<lparr>rp_instance := (rp_instance pr)\<lparr>ri_current_activity_id := None\<rparr>\<rparr>"

definition replay_event :: "definition_snapshot \<Rightarrow> replayed_projection \<Rightarrow> event_record \<Rightarrow> replayed_projection" where
  "replay_event snapshot pr ev =
     (let p = ev_payload ev; t = ev_created_at ev; ty = ev_event_type ev
      in if ty = ev_STARTED then replay_started t pr
         else if ty = ev_ACTIVITY_SCHEDULED then replay_scheduled snapshot p pr
         else if ty = ev_SIGNAL_RECEIVED then replay_signal t p pr
         else if ty = ev_ACTIVITY_COMPLETED then replay_completed_activity t p pr
         else if ty = ev_ACTIVITY_SKIPPED then replay_skipped p pr
         else if ty = ev_COMPLETED then replay_completed t p pr
         else if ty = ev_ERRORED then replay_errored pr
         else if ty = ev_RETURNED_TO_REWORK then replay_returned snapshot p pr
         else if ty = ev_REWORK_RESUMED then replay_resumed pr
         else if ty = ev_REACTIVATED then replay_reactivated pr
         else if ty = ev_APPROVAL_ESCALATED then replay_escalated p pr
         else if ty = ev_PARALLEL_SPLIT_SCHEDULED \<or> ty = ev_FOR_EACH_FANNED_OUT then replay_fanned_out pr
         else pr)"

definition initial_projection :: replayed_projection where
  "initial_projection =
     \<lparr>rp_instance = \<lparr>ri_status = WsPending, ri_current_activity_id = None, ri_result = None,
        ri_started_at = None, ri_completed_at = None\<rparr>, rp_activities = []\<rparr>"

definition fold_events :: "definition_snapshot \<Rightarrow> event_record list \<Rightarrow> replayed_projection" where
  "fold_events snapshot events = foldl (replay_event snapshot) initial_projection events"

definition replay_completed_activities :: "replayed_projection \<Rightarrow> replayed_activity list" where
  "replay_completed_activities proj = filter (\<lambda>a. ra_status a = AsCompleted) (rp_activities proj)"

lemma fold_events_append:
  "fold_events snapshot (es @ es') = foldl (replay_event snapshot) (fold_events snapshot es) es'"
  by (simp add: fold_events_def)

text \<open>The event types are pairwise different.\<close>

abbreviation event_types :: "string list" where
  "event_types \<equiv>
     [ev_STARTED, ev_ACTIVITY_SCHEDULED, ev_SIGNAL_RECEIVED, ev_ACTIVITY_COMPLETED, ev_ACTIVITY_FAILED, ev_COMPLETED,
      ev_ERRORED, ev_REACTIVATED, ev_TIMER_FIRED, ev_ACTIVITY_SKIPPED, ev_PARALLEL_SPLIT_SCHEDULED,
      ev_BRANCH_REACHED_JOIN, ev_PARALLEL_JOIN_SATISFIED, ev_APPROVAL_ESCALATED, ev_MERGE_PASSED,
      ev_RETURNED_TO_REWORK, ev_REWORK_RESUMED, ev_FOR_EACH_FANNED_OUT, ev_CONTEXT_UPDATED]"

lemma event_types_distinct: "distinct event_types"
  by code_simp

lemma event_types_distinct_rev: "distinct (rev event_types)"
  using event_types_distinct by (simp only: distinct_rev)

lemmas event_neq = event_types_distinct [simplified] event_types_distinct_rev [simplified]

text \<open>One rewrite rule per event type of the vocabulary.\<close>

lemma replay_event_simps [simp]:
  "replay_event sn pr \<lparr>ev_seq = n, ev_event_type = ev_STARTED, ev_payload = p, ev_created_at = t\<rparr> = replay_started t pr"
  "replay_event sn pr \<lparr>ev_seq = n, ev_event_type = ev_ACTIVITY_SCHEDULED, ev_payload = p, ev_created_at = t\<rparr> =
     replay_scheduled sn p pr"
  "replay_event sn pr \<lparr>ev_seq = n, ev_event_type = ev_SIGNAL_RECEIVED, ev_payload = p, ev_created_at = t\<rparr> =
     replay_signal t p pr"
  "replay_event sn pr \<lparr>ev_seq = n, ev_event_type = ev_ACTIVITY_COMPLETED, ev_payload = p, ev_created_at = t\<rparr> =
     replay_completed_activity t p pr"
  "replay_event sn pr \<lparr>ev_seq = n, ev_event_type = ev_ACTIVITY_SKIPPED, ev_payload = p, ev_created_at = t\<rparr> =
     replay_skipped p pr"
  "replay_event sn pr \<lparr>ev_seq = n, ev_event_type = ev_COMPLETED, ev_payload = p, ev_created_at = t\<rparr> =
     replay_completed t p pr"
  "replay_event sn pr \<lparr>ev_seq = n, ev_event_type = ev_ERRORED, ev_payload = p, ev_created_at = t\<rparr> = replay_errored pr"
  "replay_event sn pr \<lparr>ev_seq = n, ev_event_type = ev_RETURNED_TO_REWORK, ev_payload = p, ev_created_at = t\<rparr> =
     replay_returned sn p pr"
  "replay_event sn pr \<lparr>ev_seq = n, ev_event_type = ev_REWORK_RESUMED, ev_payload = p, ev_created_at = t\<rparr> =
     replay_resumed pr"
  "replay_event sn pr \<lparr>ev_seq = n, ev_event_type = ev_REACTIVATED, ev_payload = p, ev_created_at = t\<rparr> =
     replay_reactivated pr"
  "replay_event sn pr \<lparr>ev_seq = n, ev_event_type = ev_APPROVAL_ESCALATED, ev_payload = p, ev_created_at = t\<rparr> =
     replay_escalated p pr"
  "replay_event sn pr \<lparr>ev_seq = n, ev_event_type = ev_PARALLEL_SPLIT_SCHEDULED, ev_payload = p, ev_created_at = t\<rparr> =
     replay_fanned_out pr"
  "replay_event sn pr \<lparr>ev_seq = n, ev_event_type = ev_FOR_EACH_FANNED_OUT, ev_payload = p, ev_created_at = t\<rparr> =
     replay_fanned_out pr"
  by (simp_all add: replay_event_def event_neq)

text \<open>The markers, which the projection ignores.\<close>

lemma replay_event_markers [simp]:
  "ty \<in> {ev_MERGE_PASSED, ev_BRANCH_REACHED_JOIN, ev_PARALLEL_JOIN_SATISFIED, ev_ACTIVITY_FAILED, ev_TIMER_FIRED,
     ev_CONTEXT_UPDATED} \<Longrightarrow>
   replay_event sn pr \<lparr>ev_seq = n, ev_event_type = ty, ev_payload = p, ev_created_at = t\<rparr> = pr"
  by (auto simp: replay_event_def event_neq)

section \<open>Drift\<close>

text \<open>\<open>{:?}\<close> of the compared fields.\<close>

definition debug_opt :: "('a \<Rightarrow> string) \<Rightarrow> 'a option \<Rightarrow> string" where
  "debug_opt f x = (case x of None \<Rightarrow> ''None'' | Some v \<Rightarrow> ''Some('' @ f v @ '')'')"

text \<open>The two messages for a missing row, in UTF-8.\<close>

definition zh_has_but :: string where
  "zh_has_but = [CHR 0xE6, CHR 0x9C, CHR 0x89, CHR 0xE4, CHR 0xBD, CHR 0x86]"

definition zh_lacks :: string where
  "zh_lacks = [CHR 0xE7, CHR 0xBC, CHR 0xBA]"

definition diff_line :: "string \<Rightarrow> string \<Rightarrow> string \<Rightarrow> string" where
  "diff_line what r l = what @ '': replay='' @ r @ '' live='' @ l"

definition diff_activity :: "replayed_activity \<Rightarrow> activity_instance \<Rightarrow> string list" where
  "diff_activity ra la =
     (let pre = ''activity['' @ ra_id ra @ '']''
      in (if ra_status ra \<noteq> ai_status la
          then [diff_line (pre @ ''.status'') (as_debug (ra_status ra)) (as_debug (ai_status la))] else []) @
         (if ra_result ra \<noteq> ai_result la
          then [diff_line (pre @ ''.result'') (debug_opt debug_str (ra_result ra)) (debug_opt debug_str (ai_result la))]
          else []) @
         (if ra_round ra \<noteq> ai_round la
          then [diff_line (pre @ ''.round'') (show_int (ra_round ra)) (show_int (ai_round la))] else []) @
         (if ra_assignee_role ra \<noteq> ai_assignee_role la
          then [diff_line (pre @ ''.assignee_role'') (debug_opt debug_str (ra_assignee_role ra))
                 (debug_opt debug_str (ai_assignee_role la))] else []) @
         (if ra_assignee_id ra \<noteq> ai_assignee_id la
          then [diff_line (pre @ ''.assignee_id'') (debug_opt debug_str (ra_assignee_id ra))
                 (debug_opt debug_str (ai_assignee_id la))] else []) @
         (if ra_review_notes ra \<noteq> ai_review_notes la
          then [diff_line (pre @ ''.review_notes'') (debug_opt debug_str (ra_review_notes ra))
                 (debug_opt debug_str (ai_review_notes la))] else []) @
         (if ra_reviewed_by ra \<noteq> ai_reviewed_by la
          then [diff_line (pre @ ''.reviewed_by'') (debug_opt debug_str (ra_reviewed_by ra))
                 (debug_opt debug_str (ai_reviewed_by la))] else []))"

definition diff_instance :: "replayed_instance \<Rightarrow> workflow_instance \<Rightarrow> string list" where
  "diff_instance ri li =
     (if ri_status ri \<noteq> wi_status li
      then [diff_line ''instance.status'' (ws_debug (ri_status ri)) (ws_debug (wi_status li))] else []) @
     (if ri_current_activity_id ri \<noteq> wi_current_activity_id li
      then [diff_line ''instance.current_activity_id'' (debug_opt debug_str (ri_current_activity_id ri))
             (debug_opt debug_str (wi_current_activity_id li))] else []) @
     (if ri_result ri \<noteq> wi_result li
      then [diff_line ''instance.result'' (debug_opt wr_debug (ri_result ri)) (debug_opt wr_debug (wi_result li))]
      else [])"

text \<open>\<open>live_by_id\<close> is a map collected from the rows in order: the last row with an id wins.\<close>

definition live_by_id :: "activity_instance list \<Rightarrow> string \<Rightarrow> activity_instance option" where
  "live_by_id las i = map_of (rev (map (\<lambda>a. (ai_id a, a)) las)) i"

definition diff_projection ::
  "replayed_projection \<Rightarrow> workflow_instance \<Rightarrow> activity_instance list \<Rightarrow> string list" where
  "diff_projection replayed live_instance live_activities =
     diff_instance (rp_instance replayed) live_instance @
     concat (map (\<lambda>ra. case live_by_id live_activities (ra_id ra) of
         None \<Rightarrow> [''activity['' @ ra_id ra @ '']: replay '' @ zh_has_but @ '' live '' @ zh_lacks]
       | Some la \<Rightarrow> diff_activity ra la) (rp_activities replayed)) @
     map (\<lambda>la. ''activity['' @ ai_id la @ '']: live '' @ zh_has_but @ '' replay '' @ zh_lacks)
       (filter (\<lambda>la. ai_id la \<notin> set (map ra_id (rp_activities replayed))) live_activities)"

section \<open>What an empty difference means\<close>

definition activity_agrees :: "replayed_activity \<Rightarrow> activity_instance \<Rightarrow> bool" where
  "activity_agrees ra la \<longleftrightarrow>
     ra_id ra = ai_id la \<and> ra_status ra = ai_status la \<and> ra_result ra = ai_result la \<and> ra_round ra = ai_round la \<and>
     ra_assignee_role ra = ai_assignee_role la \<and> ra_assignee_id ra = ai_assignee_id la \<and>
     ra_review_notes ra = ai_review_notes la \<and> ra_reviewed_by ra = ai_reviewed_by la"

definition instance_agrees :: "replayed_instance \<Rightarrow> workflow_instance \<Rightarrow> bool" where
  "instance_agrees ri li \<longleftrightarrow> ri_status ri = wi_status li \<and>
     ri_current_activity_id ri = wi_current_activity_id li \<and> ri_result ri = wi_result li"

lemma diff_instance_Nil: "diff_instance ri li = [] \<longleftrightarrow> instance_agrees ri li"
  by (auto simp: diff_instance_def instance_agrees_def)

lemma diff_activity_Nil: "ra_id ra = ai_id la \<Longrightarrow> diff_activity ra la = [] \<longleftrightarrow> activity_agrees ra la"
  by (simp add: diff_activity_def activity_agrees_def Let_def)

lemma live_by_id_SomeD: "live_by_id las i = Some la \<Longrightarrow> la \<in> set las \<and> ai_id la = i"
  by (auto simp: live_by_id_def dest!: map_of_SomeD)

lemma live_by_id_distinct:
  "distinct (map ai_id las) \<Longrightarrow> la \<in> set las \<Longrightarrow> live_by_id las (ai_id la) = Some la"
  unfolding live_by_id_def by (rule map_of_is_SomeI) (auto simp: comp_def rev_map [symmetric] distinct_map)

lemma live_by_id_None: "live_by_id las i = None \<longleftrightarrow> i \<notin> ai_id ` set las"
  by (auto simp: live_by_id_def map_of_eq_None_iff image_iff)

lemma diff_projection_Nil:
  assumes "distinct (map ai_id las)"
  shows "diff_projection pr li las = [] \<longleftrightarrow> instance_agrees (rp_instance pr) li \<and>
    (\<forall>ra\<in>set (rp_activities pr). \<exists>la\<in>set las. activity_agrees ra la) \<and>
    ai_id ` set las = ra_id ` set (rp_activities pr)"
proof -
  have one: "(case live_by_id las (ra_id ra) of
         None \<Rightarrow> [''activity['' @ ra_id ra @ '']: replay '' @ zh_has_but @ '' live '' @ zh_lacks]
       | Some la \<Rightarrow> diff_activity ra la) = [] \<longleftrightarrow> (\<exists>la\<in>set las. activity_agrees ra la)" for ra
  proof (cases "live_by_id las (ra_id ra)")
    case None
    then have "ra_id ra \<notin> ai_id ` set las" by (simp add: live_by_id_None)
    then have "\<not> (\<exists>la\<in>set las. activity_agrees ra la)" by (auto simp: activity_agrees_def)
    with None show ?thesis by simp
  next
    case (Some la)
    from live_by_id_SomeD [OF Some] have la: "la \<in> set las" "ai_id la = ra_id ra" by auto
    have "la' = la" if "la' \<in> set las" "activity_agrees ra la'" for la'
      using live_by_id_distinct [OF assms that(1)] that(2) Some by (simp add: activity_agrees_def)
    with Some la show ?thesis by (auto simp: diff_activity_Nil)
  qed
  have ids: "(\<forall>ra\<in>set (rp_activities pr). \<exists>la\<in>set las. activity_agrees ra la) \<Longrightarrow>
      ra_id ` set (rp_activities pr) \<subseteq> ai_id ` set las"
    by (auto simp: activity_agrees_def)
  show ?thesis
    unfolding diff_projection_def append_is_Nil_conv diff_instance_Nil concat_eq_Nil_conv set_map ball_simps one
    using ids by (auto simp: filter_empty_conv)
qed

end
