(* ===== verification/Flow_Ports.thy ===== *)
theory Flow_Ports
  imports Flow_Store Flow_Replay
begin

text \<open>
  crates/hetuflow-service/src/ports.rs and command.rs: the callback registry, the commands and
  outcomes, the adapter's configuration; and the transaction monad the orchestration is written in.

  A transaction body \<open>'a tx\<close> takes the database to its result (an error or a value) and the new
  database; \<open>None\<close> means that the fuel of the outcome recursion ran out. \<open>in_txn\<close> is what the
  caller's transaction does with it: it keeps the writes of a body that returns \<open>Ok\<close> and drops those
  of a body that returns \<open>Err\<close>.
\<close>

section \<open>Transactions\<close>

type_synonym 'a tx = "db \<Rightarrow> ((flow_error + 'a) \<times> db) option"

definition tx_return :: "'a \<Rightarrow> 'a tx" where
  "tx_return x = (\<lambda>db. Some (Inr x, db))"

definition tx_fail :: "flow_error \<Rightarrow> 'a tx" where
  "tx_fail e = (\<lambda>db. Some (Inl e, db))"

definition tx_bind :: "'a tx \<Rightarrow> ('a \<Rightarrow> 'b tx) \<Rightarrow> 'b tx" where
  "tx_bind m f = (\<lambda>db.
     case m db of
       None \<Rightarrow> None
     | Some (Inl e, db') \<Rightarrow> Some (Inl e, db')
     | Some (Inr x, db') \<Rightarrow> f x db')"

definition tx_then :: "'a tx \<Rightarrow> 'b tx \<Rightarrow> 'b tx" where
  "tx_then m n = tx_bind m (\<lambda>_. n)"

definition tx_lift :: "'a res \<Rightarrow> 'a tx" where
  "tx_lift r = (\<lambda>db. Some (r, db))"

definition tx_op :: "(db \<Rightarrow> 'a \<times> db) \<Rightarrow> 'a tx" where
  "tx_op f = (\<lambda>db. case f db of (x, db') \<Rightarrow> Some (Inr x, db'))"

definition tx_op_res :: "(db \<Rightarrow> 'a res \<times> db) \<Rightarrow> 'a tx" where
  "tx_op_res f = (\<lambda>db. Some (f db))"

definition tx_read :: "(db \<Rightarrow> 'a) \<Rightarrow> 'a tx" where
  "tx_read f = (\<lambda>db. Some (Inr (f db), db))"

definition tx_read_res :: "(db \<Rightarrow> 'a res) \<Rightarrow> 'a tx" where
  "tx_read_res f = (\<lambda>db. Some (f db, db))"

definition tx_when :: "bool \<Rightarrow> unit tx \<Rightarrow> unit tx" where
  "tx_when b m = (if b then m else tx_return ())"

fun tx_for :: "('a \<Rightarrow> unit tx) \<Rightarrow> 'a list \<Rightarrow> unit tx" where
  "tx_for f [] = tx_return ()"
| "tx_for f (x # xs) = tx_then (f x) (tx_for f xs)"

definition tx_out_of_fuel :: "'a tx" where
  "tx_out_of_fuel = (\<lambda>db. None)"

definition in_txn :: "'a tx \<Rightarrow> 'a tx" where
  "in_txn m = (\<lambda>db.
     case m db of
       None \<Rightarrow> None
     | Some (Inl e, _) \<Rightarrow> Some (Inl e, db)
     | Some (Inr x, db') \<Rightarrow> Some (Inr x, db'))"

section \<open>The callback registry\<close>

type_synonym callback_registry = "(string \<times> callback_handler) list"

text \<open>\<open>BTreeMap::insert\<close>: the members stay sorted by key.\<close>

fun bt_insert :: "string \<Rightarrow> 'a \<Rightarrow> (string \<times> 'a) list \<Rightarrow> (string \<times> 'a) list" where
  "bt_insert k v [] = [(k, v)]"
| "bt_insert k v ((k', v') # m) =
     (if k = k' then (k, v) # m else if k < k' then (k, v) # (k', v') # m else (k', v') # bt_insert k v m)"

definition registry_new :: callback_registry where "registry_new = []"

definition registry_contains :: "callback_registry \<Rightarrow> string \<Rightarrow> bool" where
  "registry_contains reg k \<longleftrightarrow> k \<in> set (map fst reg)"

definition registry_get :: "callback_registry \<Rightarrow> string \<Rightarrow> callback_handler option" where
  "registry_get reg k = map_of reg k"

definition registry_handler_types :: "callback_registry \<Rightarrow> string list" where
  "registry_handler_types reg = map fst reg"

definition registry_is_empty :: "callback_registry \<Rightarrow> bool" where
  "registry_is_empty reg \<longleftrightarrow> reg = []"

definition registry_register :: "callback_handler \<Rightarrow> callback_registry \<Rightarrow> callback_registry res" where
  "registry_register h reg =
     (let key = ch_handler_type h
      in if key = [] then Inl (Validation ''business callback handler_type must not be empty'')
         else if registry_contains reg key then
           Inl (Conflict (''business callback handler '' @ quoted key @ '' already registered''))
         else Inr (bt_insert key h reg))"

section \<open>Configuration, commands and outcomes\<close>

definition MAX_ROUND_HARD_LIMIT :: int where "MAX_ROUND_HARD_LIMIT = 20"

record workflow_config =
  wc_reminder_template_code :: string
  wc_escalation_template_code :: string
  wc_notification_types :: "string list"
  wc_notification_reference_type :: string
  wc_notification_purpose :: string
  wc_notification_visibility :: string
  wc_max_round_hard_limit :: int

definition default_workflow_config :: workflow_config where
  "default_workflow_config =
     \<lparr>wc_reminder_template_code = ''workflow_approval_reminder'',
      wc_escalation_template_code = ''workflow_approval_escalation'',
      wc_notification_types = [''NOTIFICATION_TYPE_IN_APP''],
      wc_notification_reference_type = ''workflow_instance'',
      wc_notification_purpose = ''workflow_notification'',
      wc_notification_visibility = ''VISIBILITY_ACTION'',
      wc_max_round_hard_limit = MAX_ROUND_HARD_LIMIT\<rparr>"

record workflow_service =
  svc_config :: workflow_config
  svc_registry :: callback_registry

definition service_new :: "workflow_config \<Rightarrow> callback_registry \<Rightarrow> workflow_service" where
  "service_new config registry =
     \<lparr>svc_config = config\<lparr>wc_max_round_hard_limit := max 1 (min MAX_ROUND_HARD_LIMIT (wc_max_round_hard_limit config))\<rparr>,
      svc_registry = registry\<rparr>"

record start_command =
  sc_tenant_id :: int
  sc_facility_id :: uuid
  sc_definition_id :: uuid
  sc_snapshot :: definition_snapshot
  sc_reference_no :: string
  sc_business_type :: string
  sc_business_key :: string
  sc_context :: "json option"
  sc_terminal_callback :: "terminal_callback option"

record start_outcome =
  so_instance :: workflow_instance
  so_created :: bool
  so_active_activities :: "activity_instance list"

record signal_command =
  sg_scope :: scope_filter
  sg_instance_id :: uuid
  sg_signal :: signal_type
  sg_activity_id :: "uuid option"
  sg_idempotency_key :: string
  sg_actor_user_id :: int
  sg_review_notes :: "string option"
  sg_event_type :: "string option"
  sg_assignee_id :: "int option"
  sg_context_patch :: "json option"

record signal_outcome =
  go_instance :: workflow_instance
  go_active_activities :: "activity_instance list"
  go_replayed :: bool

record projection_verification =
  pv_instance_id :: uuid
  pv_event_count :: int
  pv_consistent :: bool
  pv_differences :: "string list"

lemma set_bt_insert: "set (map fst (bt_insert k v m)) = insert k (set (map fst m))"
  by (induction k v m rule: bt_insert.induct) auto

lemma map_of_bt_insert [simp]: "map_of (bt_insert k v m) k' = (if k' = k then Some v else map_of m k')"
  by (induction k v m rule: bt_insert.induct) auto

lemma sorted_bt_insert:
  "sorted_wrt (<) (map fst m) \<Longrightarrow> sorted_wrt (<) (map fst (bt_insert k v m))"
proof (induction k v m rule: bt_insert.induct)
  case (2 k v k' v' m)
  then show ?case
    using set_bt_insert [of k v m] by (auto simp: less_le_not_le)
qed simp

end
