(* ===== verification/Flow_Service.thy ===== *)
theory Flow_Service
  imports Flow_Ports
begin

text \<open>
  crates/hetuflow-service/src/service.rs: the orchestration. The recursion of the source
  (\<open>apply_outcome\<close> to \<open>branch_reached_join\<close> / \<open>fan_out\<close> to \<open>try_satisfy_join\<close> to
  \<open>apply_outcome\<close>) is open: each of these takes the continuation \<open>rec\<close>, and \<open>apply_outcome\<close>
  ties the knot with fuel, one unit per activation.
\<close>

section \<open>Helpers\<close>

text \<open>The dash of three messages, in UTF-8.\<close>

definition em_dash :: string where
  "em_dash = [CHR 0xE2, CHR 0x80, CHR 0x94]"

definition parse_uuid :: "('p, 'c, 'v) env \<Rightarrow> string \<Rightarrow> uuid res" where
  "parse_uuid env s = okorR (Validation (''invalid uuid: '' @ s)) (uuid_parse env s)"

definition parse_i64_field :: "string \<Rightarrow> string \<Rightarrow> int res" where
  "parse_i64_field s field = okorR (Validation (''invalid '' @ field @ '': '' @ s)) (parse_i64 s)"

record fanout_mark =
  fm_via :: string
  fm_item_index :: "int option"
  fm_item_payload :: "json option"

record instance_ctx =
  cx_instance_id :: uuid
  cx_tenant_id :: int
  cx_facility_id :: uuid
  cx_snapshot :: definition_snapshot
  cx_context :: "json option"
  cx_business_type :: string
  cx_business_key :: string
  cx_reference_no :: string

definition ctx_node :: "instance_ctx \<Rightarrow> string \<Rightarrow> workflow_node res" where
  "ctx_node ctx i =
     okorR (InvalidState (''node '' @ quoted i @ '' is not in the instance's bound snapshot''))
       (List.find (\<lambda>n. node_id n = i) (ds_nodes (cx_snapshot ctx)))"

definition check_signal_against_node :: "workflow_node \<Rightarrow> signal_type \<Rightarrow> string option \<Rightarrow> unit res" where
  "check_signal_against_node node signal event_type =
     (if signal = SigClaimed \<or> signal = SigReassigned then
        if kind node = KApproval \<or> kind node = KAssignment then Inr ()
        else Inl (Validation (sig_debug signal @ '' targets an approval/assignment node, got '' @ kind_debug (kind node)))
      else if signal = SigApproved \<or> signal = SigRejected \<or> signal = SigReturned then
        if kind node = KApproval then Inr ()
        else Inl (Validation (sig_debug signal @ '' targets an approval node, got '' @ kind_debug (kind node)))
      else if signal = SigCompleted then
        if kind node = KNotification \<or> kind node = KAssignment then Inr ()
        else Inl (Validation (''COMPLETED targets a notification/assignment node, got '' @ kind_debug (kind node)))
      else if signal = SigEventReceived then
        (case event_wait node of
           None \<Rightarrow> Inl (Validation (''EVENT_RECEIVED targets an event_wait node, got '' @ kind_debug (kind node)))
         | Some (declared, _, _) \<Rightarrow>
             (case event_type of
                Some given \<Rightarrow>
                  if given = declared then Inr ()
                  else Inl (Validation (''event_type '' @ quoted given @ '' does not match node '' @
                    quoted (node_id node) @ '' declared '' @ quoted declared))
              | None \<Rightarrow> Inl (Validation ''EVENT_RECEIVED requires event_type'')))
      else Inl (Validation (''RESUBMITTED is not a signal '' @ em_dash @ '' use WorkflowService::resubmit'')))"

fun signal_result :: "signal_type \<Rightarrow> string option" where
  "signal_result SigApproved = Some ''approved''"
| "signal_result SigRejected = Some ''rejected''"
| "signal_result SigReturned = Some ''returned''"
| "signal_result SigCompleted = Some ''completed''"
| "signal_result _ = None"

fun signal_str :: "signal_type \<Rightarrow> string" where
  "signal_str SigApproved = ''approved''"
| "signal_str SigReturned = ''returned''"
| "signal_str SigRejected = ''rejected''"
| "signal_str SigResubmitted = ''resubmitted''"
| "signal_str SigEventReceived = ''event_received''"
| "signal_str SigClaimed = ''claimed''"
| "signal_str SigReassigned = ''reassigned''"
| "signal_str SigCompleted = ''completed''"

definition check_round :: "workflow_service \<Rightarrow> instance_ctx \<Rightarrow> int \<Rightarrow> unit res" where
  "check_round svc ctx r =
     (let hard = wc_max_round_hard_limit (svc_config svc);
          declared = (if ds_max_round (cx_snapshot ctx) > 0 then ds_max_round (cx_snapshot ctx) else hard);
          effective = min declared hard
      in if r > effective then
           Inl (Conflict (''rework round '' @ show_int r @ '' exceeds the effective limit '' @ show_int effective))
         else Inr ())"

definition append_ev :: "instance_ctx \<Rightarrow> string \<Rightarrow> json \<Rightarrow> string option \<Rightarrow> unit tx" where
  "append_ev ctx event payload key =
     tx_bind (tx_read (next_seq (cx_instance_id ctx))) (\<lambda>seq.
     tx_op (append_event (cx_tenant_id ctx) (cx_facility_id ctx) (cx_instance_id ctx) seq event payload key))"

definition reload :: "('p, 'c, 'v) env \<Rightarrow> uuid \<Rightarrow> workflow_instance tx" where
  "reload env i =
     tx_read_res (\<lambda>db. okorR (NotFound (''workflow instance '' @ uuid_str env i @ '' vanished mid-transaction''))
       (load_instance env i db))"

text \<open>The context every handler builds from the locked instance and its snapshot.\<close>

definition make_ctx :: "('p, 'c, 'v) env \<Rightarrow> uuid \<Rightarrow> workflow_instance \<Rightarrow> definition_snapshot \<Rightarrow> instance_ctx tx" where
  "make_ctx env i instance snapshot =
     tx_bind (tx_lift (parse_i64_field (wi_tenant_id instance) ''tenant_id'')) (\<lambda>tenant.
     tx_bind (tx_lift (parse_uuid env (wi_facility_id instance))) (\<lambda>facility.
     tx_return \<lparr>cx_instance_id = i, cx_tenant_id = tenant, cx_facility_id = facility, cx_snapshot = snapshot,
       cx_context = wi_context instance, cx_business_type = wi_business_type instance,
       cx_business_key = wi_business_key instance, cx_reference_no = wi_reference_no instance\<rparr>))"

definition resolve_target_activity :: "('p, 'c, 'v) env \<Rightarrow> signal_command \<Rightarrow> activity_instance tx" where
  "resolve_target_activity env cmd =
     (case sg_activity_id cmd of
        Some i \<Rightarrow>
          tx_bind (tx_read_res (\<lambda>db. okorR (NotFound (''activity '' @ uuid_str env i @ '' not found''))
            (load_activity env i db))) (\<lambda>activity.
          if ai_workflow_instance_id activity \<noteq> uuid_str env (sg_instance_id cmd) then
            tx_fail (Validation (''activity '' @ uuid_str env i @ '' does not belong to instance '' @
              uuid_str env (sg_instance_id cmd)))
          else if ai_status activity \<noteq> AsActive then
            tx_fail (Conflict (''activity '' @ uuid_str env i @ '' is '' @ as_as_str (ai_status activity) @ '', not active''))
          else tx_return activity)
      | None \<Rightarrow>
          tx_bind (tx_read (active_activities env (sg_instance_id cmd))) (\<lambda>active.
          case active of
            [] \<Rightarrow> tx_fail (Conflict (''workflow instance '' @ uuid_str env (sg_instance_id cmd) @ '' has no active activity''))
          | [a] \<Rightarrow> tx_return a
          | _ \<Rightarrow> tx_fail (Validation (''workflow instance '' @ uuid_str env (sg_instance_id cmd) @ '' has '' @
              show_int (int (length active)) @ '' active activities '' @ em_dash @ '' activity_id is required''))))"

section \<open>Notifications\<close>

definition notification_from_config ::
  "('p, 'c, 'v) env \<Rightarrow> workflow_service \<Rightarrow> instance_ctx \<Rightarrow> notification_config \<Rightarrow> notification_payload" where
  "notification_from_config env svc ctx config =
     \<lparr>np_tenant_id = show_int (cx_tenant_id ctx), np_facility_id = Some (uuid_str env (cx_facility_id ctx)),
      np_template_code = unwrap_or [] (nc_template_code config),
      np_recipient_selector = unwrap_or (RsUserIds []) (nc_recipient_selector config),
      np_channel_policy = nc_channel_policy config, np_template_args = nc_template_args config,
      np_reference_type = unwrap_or (wc_notification_reference_type (svc_config svc)) (nc_reference_type config),
      np_purpose = unwrap_or (wc_notification_purpose (svc_config svc)) (nc_purpose config),
      np_visibility = unwrap_or (wc_notification_visibility (svc_config svc)) (nc_visibility config),
      np_business_type = cx_business_type ctx, np_business_key = cx_business_key ctx\<rparr>"

definition framework_notification ::
  "('p, 'c, 'v) env \<Rightarrow> workflow_service \<Rightarrow> instance_ctx \<Rightarrow> string \<Rightarrow> string option \<Rightarrow> workflow_node \<Rightarrow>
   notification_payload" where
  "framework_notification env svc ctx template_code role_code node =
     \<lparr>np_tenant_id = show_int (cx_tenant_id ctx), np_facility_id = Some (uuid_str env (cx_facility_id ctx)),
      np_template_code = template_code,
      np_recipient_selector =
        (case role_code of
           Some role \<Rightarrow> RsRole role (Some (uuid_str env (cx_facility_id ctx)))
         | None \<Rightarrow> RsUserIds []),
      np_channel_policy = wc_notification_types (svc_config svc),
      np_template_args = fold (\<lambda>(k, v). bt_insert k v)
        [(''reference_no'', cx_reference_no ctx), (''node_id'', node_id node), (''node_name'', node_name node)] [],
      np_reference_type = wc_notification_reference_type (svc_config svc),
      np_purpose = wc_notification_purpose (svc_config svc),
      np_visibility = wc_notification_visibility (svc_config svc),
      np_business_type = cx_business_type ctx, np_business_key = cx_business_key ctx\<rparr>"

definition enqueue_notification ::
  "('p, 'c, 'v) env \<Rightarrow> instance_ctx \<Rightarrow> activity_instance \<Rightarrow> string \<Rightarrow> notification_payload \<Rightarrow> unit tx" where
  "enqueue_notification env ctx activity outbox_type payload =
     tx_bind (tx_lift (map_errR (\<lambda>e. Serialization (''notification payload not serializable: '' @ e))
       (notification_ser env payload))) (\<lambda>v.
     tx_bind (tx_lift (parse_uuid env (ai_id activity))) (\<lambda>a.
     tx_op (enqueue_outbox (cx_tenant_id ctx) (cx_facility_id ctx) (cx_instance_id ctx) a outbox_type v)))"

section \<open>Activities\<close>

definition scheduled_payload ::
  "string \<Rightarrow> string \<Rightarrow> activity_type \<Rightarrow> int \<Rightarrow> string option \<Rightarrow> fanout_mark option \<Rightarrow> json" where
  "scheduled_payload aid nid ty r role fanout =
     obj ([(''activity_id'', JStr aid), (''activity_definition_id'', JStr nid),
           (''activity_type'', JStr (at_as_str ty)), (''round'', JInt r), (''assignee_role'', opt_str role)] @
          (case fanout of
             None \<Rightarrow> []
           | Some mark \<Rightarrow>
               [(''via'', JStr (fm_via mark))] @
               (case fm_item_index mark of None \<Rightarrow> [] | Some k \<Rightarrow> [(''item_index'', JInt k)]) @
               (case fm_item_payload mark of None \<Rightarrow> [] | Some v \<Rightarrow> [(''item_payload'', v)])))"

definition schedule_timers :: "instance_ctx \<Rightarrow> workflow_node \<Rightarrow> uuid \<Rightarrow> unit tx" where
  "schedule_timers ctx node a =
     (let timer = (\<lambda>k s. tx_op (schedule_timer (cx_tenant_id ctx) (cx_facility_id ctx) (cx_instance_id ctx) a k s))
      in tx_then (case sla_seconds node of None \<Rightarrow> tx_return () | Some sla \<Rightarrow> timer ''reminder'' sla)
         (tx_then (case escalation_config node of None \<Rightarrow> tx_return () | Some (s, _) \<Rightarrow> timer ''escalation'' s)
         (case event_wait node of Some (_, Some s, _) \<Rightarrow> timer ''timeout'' s | _ \<Rightarrow> tx_return ())))"

definition schedule_activity ::
  "('p, 'c, 'v) env \<Rightarrow> workflow_service \<Rightarrow> instance_ctx \<Rightarrow> workflow_node \<Rightarrow> string option \<Rightarrow> int \<Rightarrow>
   fanout_mark option \<Rightarrow> activity_instance tx" where
  "schedule_activity env svc ctx node role r fanout =
     (if kind node = KSubWorkflow then
        tx_fail (Validation (''node '' @ quoted (node_id node) @
          '' is a sub_workflow node '' @ em_dash @ '' child-instance orchestration is not wired in this build''))
      else
        let ty = instantiated_activity_type (kind node) in
        tx_bind (tx_op (insert_activity (cx_tenant_id ctx) (cx_instance_id ctx) (node_id node) ty role r)) (\<lambda>row.
        let activity = activity_model env row in
        tx_bind (tx_lift (parse_uuid env (ai_id activity))) (\<lambda>a.
        tx_then (append_ev ctx ev_ACTIVITY_SCHEDULED (scheduled_payload (ai_id activity) (node_id node) ty r role fanout) None)
        (tx_then (schedule_timers ctx node a)
        (tx_then (case notification node of
            None \<Rightarrow> tx_return ()
          | Some config \<Rightarrow>
              enqueue_notification env ctx activity ob_NOTIFICATION (notification_from_config env svc ctx config))
        (tx_return activity))))))"

definition complete_activity ::
  "('p, 'c, 'v) env \<Rightarrow> instance_ctx \<Rightarrow> activity_instance \<Rightarrow> string option \<Rightarrow> int \<Rightarrow> string option \<Rightarrow> unit tx" where
  "complete_activity env ctx activity result actor notes =
     tx_bind (tx_lift (parse_uuid env (ai_id activity))) (\<lambda>a.
     tx_bind (tx_op (complete_activity_cas a (Option.bind result activity_result_from_str) actor notes)) (\<lambda>ok.
     if \<not> ok then tx_fail (Conflict (''activity '' @ ai_id activity @ '' is no longer active''))
     else
       tx_then (tx_op (cancel_timers_for_activity a))
       (append_ev ctx ev_ACTIVITY_COMPLETED
         (obj [(''activity_id'', JStr (ai_id activity)), (''result'', opt_str result)]) None)))"

text \<open>The declared keys of the patch, or the error of the first one that is missing.\<close>

fun filter_patch :: "string \<Rightarrow> json_map \<Rightarrow> string list \<Rightarrow> (string \<times> json) list res" where
  "filter_patch nid m [] = Inr []"
| "filter_patch nid m (k # ks) =
     (case map_of m k of
        None \<Rightarrow> Inl (Validation (''node '' @ quoted nid @ '' context_writes key '' @ quoted k @
                  '' missing from the context patch''))
      | Some v \<Rightarrow> bindR (filter_patch nid m ks) (\<lambda>rest. Inr ((k, v) # rest)))"

definition apply_context_writes ::
  "instance_ctx \<Rightarrow> workflow_node \<Rightarrow> int \<Rightarrow> json option \<Rightarrow> instance_ctx tx" where
  "apply_context_writes ctx node r patch =
     (let declared = node_context_writes node
      in if declared = [] then tx_return ctx
         else
           tx_bind (tx_lift (okorR (Validation (''node '' @ quoted (node_id node) @ '' declares context_writes '' @
             debug_strs declared @ '' but the signal carried no context patch object'')) (Option.bind patch as_object)))
             (\<lambda>m.
           tx_bind (tx_lift (filter_patch (node_id node) m declared)) (\<lambda>filtered.
           tx_bind (tx_op_res (merge_instance_context (cx_instance_id ctx) (obj filtered))) (\<lambda>merged.
           let ctx' = ctx\<lparr>cx_context := Some merged\<rparr> in
           tx_then (append_ev ctx' ev_CONTEXT_UPDATED
               (obj [(''node'', JStr (node_id node)), (''keys'', JArr (map JStr declared)), (''round'', JInt r)]) None)
             (tx_return ctx')))))"

end
