(* ===== verification/Flow_Engine.thy ===== *)
theory Flow_Engine
  imports Flow_Service
begin

text \<open>
  Second half of service.rs: completing and failing an instance, the application of an advance
  outcome with its fan-out and join handling, and the handlers \<open>start\<close>, \<open>signal\<close>, \<open>resubmit\<close>,
  \<open>fire_timer\<close>, the delivery callbacks and \<open>verify_projection\<close>.
\<close>

section \<open>Ending an instance\<close>

definition fail_instance :: "instance_ctx \<Rightarrow> string \<Rightarrow> unit tx" where
  "fail_instance ctx reason =
     tx_bind (tx_op (error_workflow (cx_instance_id ctx))) (\<lambda>_.
     append_ev ctx ev_ERRORED (obj [(''reason'', JStr reason)]) None)"

definition find_terminal_callback :: "('p, 'c, 'v) env \<Rightarrow> instance_ctx \<Rightarrow> terminal_callback option tx" where
  "find_terminal_callback env ctx =
     tx_bind (tx_read (load_events (cx_instance_id ctx))) (\<lambda>events.
     case List.find (\<lambda>e. ev_event_type e = ev_STARTED) events of
       None \<Rightarrow> tx_return None
     | Some started \<Rightarrow>
         (case json_get ''terminal_callback'' (ev_payload started) of
            None \<Rightarrow> tx_return None
          | Some JNull \<Rightarrow> tx_return None
          | Some v \<Rightarrow>
              tx_lift (map_errR (\<lambda>e. Serialization (''terminal_callback payload invalid: '' @ e))
                (case terminal_de env v of Inl e \<Rightarrow> Inl e | Inr tc \<Rightarrow> Inr (Some tc)))))"

definition callback_idempotency_key ::
  "('p, 'c, 'v) env \<Rightarrow> instance_ctx \<Rightarrow> callback_handler \<Rightarrow> terminal_callback \<Rightarrow> string" where
  "callback_idempotency_key env ctx handler tc =
     (let key = cx_business_type ctx @ '':'' @ cx_business_key ctx
      in case ch_idempotency_key_strategy handler of
           BusinessKey \<Rightarrow> key
         | OutboxRecordId \<Rightarrow> uuid_str env (cx_instance_id ctx)
         | PayloadField field \<Rightarrow> unwrap_or key (Option.bind (json_get field (tc_payload tc)) as_str))"

definition enqueue_terminal_callback ::
  "('p, 'c, 'v) env \<Rightarrow> workflow_service \<Rightarrow> instance_ctx \<Rightarrow> terminal_callback \<Rightarrow> unit tx" where
  "enqueue_terminal_callback env svc ctx tc =
     tx_bind (tx_read (\<lambda>db. case active_activity env (cx_instance_id ctx) db of
         Some a \<Rightarrow> Some a
       | None \<Rightarrow> (case rev (list_activities env (cx_instance_id ctx) db) of [] \<Rightarrow> None | a # _ \<Rightarrow> Some a)))
     (\<lambda>activity.
     case activity of
       None \<Rightarrow> tx_fail (InvalidState ''terminal callback needs an activity anchor but none exists'')
     | Some anchor \<Rightarrow>
         tx_bind (tx_lift (okorR (Validation (''terminal callback handler '' @ quoted (tc_handler_type tc) @
           '' is not registered'')) (registry_get (svc_registry svc) (tc_handler_type tc)))) (\<lambda>handler.
         tx_bind (tx_lift (map_errR (\<lambda>e. Serialization (''business callback payload not serializable: '' @ e))
           (callback_ser env
             \<lparr>bp_tenant_id = show_int (cx_tenant_id ctx), bp_facility_id = uuid_str env (cx_facility_id ctx),
              bp_workflow_instance_id = uuid_str env (cx_instance_id ctx), bp_activity_instance_id = ai_id anchor,
              bp_handler_type = tc_handler_type tc,
              bp_idempotency_key = callback_idempotency_key env ctx handler tc,
              bp_business_type = cx_business_type ctx, bp_business_key = cx_business_key ctx,
              bp_payload = tc_payload tc\<rparr>))) (\<lambda>v.
         tx_bind (tx_lift (parse_uuid env (ai_id anchor))) (\<lambda>a.
         tx_op (enqueue_outbox (cx_tenant_id ctx) (cx_facility_id ctx) (cx_instance_id ctx) a ob_BUSINESS_CALLBACK v)))))"

definition complete_instance ::
  "('p, 'c, 'v) env \<Rightarrow> workflow_service \<Rightarrow> instance_ctx \<Rightarrow> workflow_result \<Rightarrow> unit tx" where
  "complete_instance env svc ctx result =
     tx_bind (tx_op (complete_workflow_cas (cx_instance_id ctx) (wr_as_i16 result))) (\<lambda>ok.
     if \<not> ok then tx_fail (Conflict ''instance left 'active' before completion'')
     else
       tx_then (append_ev ctx ev_COMPLETED (obj [(''result'', JStr (wr_as_str result))]) None)
       (if result = WrApproved then
          tx_bind (find_terminal_callback env ctx) (\<lambda>tc.
          case tc of None \<Rightarrow> tx_return () | Some c \<Rightarrow> enqueue_terminal_callback env svc ctx c)
        else tx_return ()))"

section \<open>Applying an outcome\<close>

type_synonym continuation =
  "instance_ctx \<Rightarrow> advance_outcome \<Rightarrow> resolve_trace \<Rightarrow> activity_instance \<Rightarrow> int \<Rightarrow> unit tx"

text \<open>The branches a join expects: the recorded fan-out of a ForEach, else the static edges.\<close>

definition join_expectation ::
  "instance_ctx \<Rightarrow> workflow_node \<Rightarrow> int option \<Rightarrow> (int \<times> string list) res" where
  "join_expectation ctx join_node dynamic =
     (case dynamic of
        Some n \<Rightarrow>
          (case List.find (\<lambda>m. case for_each m of None \<Rightarrow> False | Some (_, _, jt, _) \<Rightarrow> jt = node_id join_node)
                  (ds_nodes (cx_snapshot ctx)) of
             Some m \<Rightarrow>
               (case for_each m of
                  Some (_, tpl, _, _) \<Rightarrow> Inr (n, [tpl])
                | None \<Rightarrow> Inl (InvalidState (''join '' @ quoted (node_id join_node) @
                            '' has a fan-out event but no ForEach source'')))
           | None \<Rightarrow> Inl (InvalidState (''join '' @ quoted (node_id join_node) @
                       '' has a fan-out event but no ForEach source'')))
      | None \<Rightarrow>
          (let ids = map tr_from (filter (\<lambda>t. tr_to t = node_id join_node \<and> is_join_incoming_signal (tr_on_signal t))
                       (ds_transitions (cx_snapshot ctx)))
           in Inr (int (length ids), ids)))"

definition try_satisfy_join ::
  "('p, 'c, 'v) env \<Rightarrow> continuation \<Rightarrow> instance_ctx \<Rightarrow> workflow_node \<Rightarrow> activity_instance \<Rightarrow> int \<Rightarrow>
   uuid option \<Rightarrow> unit tx" where
  "try_satisfy_join env rec ctx join_node src r exclude =
     (let strategy = unwrap_or WaitAll (node_join_strategy join_node); i = cx_instance_id ctx in
      tx_bind (tx_read (for_each_branch_count env i (node_id join_node) r)) (\<lambda>dynamic.
      tx_bind (tx_lift (join_expectation ctx join_node dynamic)) (\<lambda>(expected, branch_ids).
      tx_bind (tx_read (count_completed_branches i branch_ids r)) (\<lambda>arrived.
      if \<not> is_satisfied strategy arrived expected then tx_op (clear_current_activity i)
      else
        tx_then (append_ev ctx ev_PARALLEL_JOIN_SATISFIED
          (obj [(''join_node'', JStr (node_id join_node)), (''arrived'', JInt arrived), (''expected'', JInt expected),
                (''round'', JInt r)]) None)
        (tx_then (tx_when (skips_remaining_on_satisfaction strategy)
          (tx_bind (tx_op (skip_other_active_activities i (unwrap_or nil_uuid exclude))) (\<lambda>skipped.
           tx_when (skipped > 0)
             (append_ev ctx ev_ACTIVITY_SKIPPED
               (obj [(''join_node'', JStr (node_id join_node)), (''count'', JInt (int skipped))]) None))))
        (case decide_advance (env_cel env) (ds_nodes (cx_snapshot ctx)) (ds_transitions (cx_snapshot ctx))
                (node_id join_node) SigApproved (cx_context ctx) of
           (outcome, trace) \<Rightarrow> rec ctx outcome trace src r))))))"

definition branch_reached_join ::
  "('p, 'c, 'v) env \<Rightarrow> continuation \<Rightarrow> instance_ctx \<Rightarrow> workflow_node \<Rightarrow> activity_instance \<Rightarrow> int \<Rightarrow> unit tx" where
  "branch_reached_join env rec ctx join_node src r =
     tx_then (append_ev ctx ev_BRANCH_REACHED_JOIN
       (obj [(''branch_node'', JStr (ai_activity_definition_id src)), (''join_node'', JStr (node_id join_node)),
             (''round'', JInt r)]) None)
     (tx_bind (tx_lift (parse_uuid env (ai_id src))) (\<lambda>exclude.
      try_satisfy_join env rec ctx join_node src r (Some exclude)))"

definition schedule_branch ::
  "('p, 'c, 'v) env \<Rightarrow> workflow_service \<Rightarrow> instance_ctx \<Rightarrow> string \<Rightarrow> int \<Rightarrow> parallel_target \<Rightarrow> unit tx" where
  "schedule_branch env svc ctx via r target =
     tx_bind (tx_lift (ctx_node ctx (pt_node_id target))) (\<lambda>node.
     tx_bind (schedule_activity env svc ctx node (pt_assignee_role target) r
       (Some \<lparr>fm_via = via, fm_item_index = pt_item_index target, fm_item_payload = pt_item_payload target\<rparr>)) (\<lambda>_.
     tx_return ()))"

definition fan_out ::
  "('p, 'c, 'v) env \<Rightarrow> workflow_service \<Rightarrow> continuation \<Rightarrow> instance_ctx \<Rightarrow> parallel_target list \<Rightarrow>
   resolve_trace \<Rightarrow> activity_instance \<Rightarrow> int \<Rightarrow> unit tx" where
  "fan_out env svc rec ctx targets trace src r =
     tx_then (tx_op (clear_current_activity (cx_instance_id ctx)))
     (case for_each_fan_out trace of
        Some fan \<Rightarrow>
          tx_then (append_ev ctx ev_FOR_EACH_FANNED_OUT
            (obj [(''for_each_node'', JStr (ff_for_each_node fan)), (''join_node'', JStr (ff_join_target fan)),
                  (''branch_count'', JInt (int (length targets))), (''round'', JInt r)]) None)
          (tx_then (tx_for (schedule_branch env svc ctx ''for_each'' r) targets)
          (if targets = [] then
             tx_bind (tx_lift (ctx_node ctx (ff_join_target fan))) (\<lambda>join_node.
             try_satisfy_join env rec ctx join_node src r None)
           else tx_return ()))
      | None \<Rightarrow>
          tx_then (append_ev ctx ev_PARALLEL_SPLIT_SCHEDULED
            (obj [(''from'', JStr (ai_activity_definition_id src)),
                  (''branch_targets'', JArr (map (\<lambda>t. JStr (pt_node_id t)) targets)), (''round'', JInt r)]) None)
          (tx_for (schedule_branch env svc ctx ''parallel_split'' r) targets))"

definition apply_rework ::
  "('p, 'c, 'v) env \<Rightarrow> workflow_service \<Rightarrow> instance_ctx \<Rightarrow> string \<Rightarrow> string option \<Rightarrow> activity_instance \<Rightarrow> unit tx" where
  "apply_rework env svc ctx target_node role src =
     tx_bind (tx_read (max_round (cx_instance_id ctx))) (\<lambda>m.
     let next_round = m + 1 in
     case check_round svc ctx next_round of
       Inl e \<Rightarrow> tx_then (fail_instance ctx (flow_error_display e)) (tx_fail e)
     | Inr _ \<Rightarrow>
         tx_bind (tx_lift (ctx_node ctx target_node)) (\<lambda>node.
         tx_bind (schedule_activity env svc ctx node role next_round None) (\<lambda>activity.
         tx_bind (tx_lift (parse_uuid env (ai_id activity))) (\<lambda>a.
         tx_bind (tx_op (enter_returned_waiting (cx_instance_id ctx) a)) (\<lambda>ok.
         if \<not> ok then tx_fail (Conflict ''instance left 'active' before the rework hand-back'')
         else
           append_ev ctx ev_RETURNED_TO_REWORK
             (obj [(''from_node'', JStr (ai_activity_definition_id src)), (''rework_target'', JStr (node_id node)),
                   (''round'', JInt next_round), (''activity_id'', JStr (ai_id activity)),
                   (''assignee_role'', opt_str role)]) None)))))"

text \<open>Three places schedule one activity and point the instance at it: a linear advance, \<open>start\<close> and
  \<open>resubmit\<close>.\<close>

definition schedule_current ::
  "('p, 'c, 'v) env \<Rightarrow> workflow_service \<Rightarrow> instance_ctx \<Rightarrow> workflow_node \<Rightarrow> string option \<Rightarrow> int \<Rightarrow> unit tx" where
  "schedule_current env svc ctx node role r =
     tx_bind (schedule_activity env svc ctx node role r None) (\<lambda>activity.
     tx_bind (tx_lift (parse_uuid env (ai_id activity))) (\<lambda>a.
     tx_bind (tx_op (update_current_activity (cx_instance_id ctx) a)) (\<lambda>_. tx_return ())))"

definition apply_advance ::
  "('p, 'c, 'v) env \<Rightarrow> workflow_service \<Rightarrow> continuation \<Rightarrow> instance_ctx \<Rightarrow> string \<Rightarrow> string option \<Rightarrow>
   activity_instance \<Rightarrow> int \<Rightarrow> unit tx" where
  "apply_advance env svc rec ctx target_node role src r =
     tx_bind (tx_lift (ctx_node ctx target_node)) (\<lambda>node.
     if kind node = KParallelJoin then branch_reached_join env rec ctx node src r
     else schedule_current env svc ctx node role r)"

definition append_merges :: "instance_ctx \<Rightarrow> resolve_trace \<Rightarrow> activity_instance \<Rightarrow> int \<Rightarrow> unit tx" where
  "append_merges ctx trace src r =
     tx_for (\<lambda>merge_node.
       append_ev ctx ev_MERGE_PASSED
         (obj [(''from'', JStr (ai_activity_definition_id src)), (''merge_node'', JStr merge_node), (''round'', JInt r)])
         None) (merges_passed trace)"

definition apply_outcome_step :: "('p, 'c, 'v) env \<Rightarrow> workflow_service \<Rightarrow> continuation \<Rightarrow> continuation" where
  "apply_outcome_step env svc rec ctx outcome trace src r =
     tx_then (append_merges ctx trace src r)
     (case outcome of
        Advance target_node role \<Rightarrow> apply_advance env svc rec ctx target_node role src r
      | AdvanceMulti targets \<Rightarrow> fan_out env svc rec ctx targets trace src r
      | Complete result \<Rightarrow> complete_instance env svc ctx result
      | Rework target_node role \<Rightarrow> apply_rework env svc ctx target_node role src
      | OutcomeError \<Rightarrow>
          fail_instance ctx (''no legal transition from '' @ quoted (ai_activity_definition_id src) @ '' (round '' @
            show_int r @ '')''))"

fun apply_outcome :: "('p, 'c, 'v) env \<Rightarrow> workflow_service \<Rightarrow> nat \<Rightarrow> continuation" where
  "apply_outcome env svc 0 ctx outcome trace src r = tx_out_of_fuel"
| "apply_outcome env svc (Suc fuel) ctx outcome trace src r =
     apply_outcome_step env svc (apply_outcome env svc fuel) ctx outcome trace src r"

end
