(* ===== verification/Flow_Handlers.thy ===== *)
theory Flow_Handlers
  imports Flow_Engine Flow_Validate
begin

text \<open>
  The handlers of service.rs, each the body of one transaction. \<open>fuel\<close> bounds the recursion of
  \<open>apply_outcome\<close> only.
\<close>

section \<open>start\<close>

definition check_terminal_callback :: "workflow_service \<Rightarrow> terminal_callback option \<Rightarrow> unit res" where
  "check_terminal_callback svc tco =
     (case tco of
        None \<Rightarrow> Inr ()
      | Some tc \<Rightarrow>
          if tc_handler_type tc = [] then Inl (Validation ''terminal_callback.handler_type must not be empty'')
          else if \<not> registry_contains (svc_registry svc) (tc_handler_type tc) then
            Inl (Validation (''terminal callback handler '' @ quoted (tc_handler_type tc) @ '' is not registered (known: '' @
              debug_strs (registry_handler_types (svc_registry svc)) @ '')''))
          else Inr ())"

definition started_payload :: "('p, 'c, 'v) env \<Rightarrow> instance_ctx \<Rightarrow> string \<Rightarrow> terminal_callback option \<Rightarrow> json" where
  "started_payload env ctx hash tco =
     obj [(''flow_type'', JStr (ds_flow_type (cx_snapshot ctx))), (''version'', JInt (ds_version (cx_snapshot ctx))),
          (''definition_hash'', JStr hash), (''business_type'', JStr (cx_business_type ctx)),
          (''business_key'', JStr (cx_business_key ctx)), (''context'', unwrap_or JNull (cx_context ctx)),
          (''terminal_callback'', case tco of
             None \<Rightarrow> JNull
           | Some tc \<Rightarrow> (case terminal_ser env tc of Inl _ \<Rightarrow> JNull | Inr v \<Rightarrow> v))]"

definition start_existing :: "('p, 'c, 'v) env \<Rightarrow> start_command \<Rightarrow> start_outcome tx" where
  "start_existing env cmd =
     tx_bind (tx_read_res (\<lambda>db. okorR (Conflict (''start conflicted on ('' @ sc_business_type cmd @ '', '' @
         sc_business_key cmd @ '') but no active instance is readable''))
         (map_option (instance_model env)
           (active_instance_by_business_key (sc_business_key cmd) (sc_business_type cmd) db)))) (\<lambda>existing.
     tx_bind (tx_lift (parse_uuid env (wi_id existing))) (\<lambda>i.
     tx_bind (tx_read (active_activities env i)) (\<lambda>active.
     tx_return \<lparr>so_instance = existing, so_created = False, so_active_activities = active\<rparr>)))"

definition start_created ::
  "('p, 'c, 'v) env \<Rightarrow> workflow_service \<Rightarrow> start_command \<Rightarrow> string \<Rightarrow> string option \<Rightarrow> string \<Rightarrow>
   workflow_instance \<Rightarrow> start_outcome tx" where
  "start_created env svc cmd entry_node_id entry_role hash instance =
     tx_bind (tx_lift (parse_uuid env (wi_id instance))) (\<lambda>i.
     let ctx = \<lparr>cx_instance_id = i, cx_tenant_id = sc_tenant_id cmd, cx_facility_id = sc_facility_id cmd,
                cx_snapshot = sc_snapshot cmd, cx_context = sc_context cmd, cx_business_type = sc_business_type cmd,
                cx_business_key = sc_business_key cmd, cx_reference_no = sc_reference_no cmd\<rparr> in
     tx_then (append_ev ctx ev_STARTED (started_payload env ctx hash (sc_terminal_callback cmd)) None)
     (tx_bind (tx_lift (ctx_node ctx entry_node_id)) (\<lambda>entry_node.
      tx_then (schedule_current env svc ctx entry_node entry_role 1)
      (tx_bind (reload env i) (\<lambda>inst.
       tx_bind (tx_read (active_activities env i)) (\<lambda>active.
       tx_return \<lparr>so_instance = inst, so_created = True, so_active_activities = active\<rparr>))))))"

definition start :: "('p, 'c, 'v) env \<Rightarrow> workflow_service \<Rightarrow> start_command \<Rightarrow> start_outcome tx" where
  "start env svc cmd =
     tx_then (tx_lift (validate_definition (env_cel env) (ds_nodes (sc_snapshot cmd)) (ds_transitions (sc_snapshot cmd))))
     (tx_bind (tx_lift (okorR (Validation
         ''definition has no approval node to enter (decide_start found no entry activity)'')
         (decide_start (ds_nodes (sc_snapshot cmd))))) (\<lambda>(entry_node_id, entry_role).
      tx_then (tx_lift (check_terminal_callback svc (sc_terminal_callback cmd)))
      (tx_bind (tx_lift (map_errR (\<lambda>e. Serialization (''definition snapshot not serializable: '' @ e))
          (snapshot_ser env (sc_snapshot cmd)))) (\<lambda>snapshot_json.
       let hash = definition_hash (json_text env) (sha256 env) snapshot_json in
       tx_bind (tx_op (insert_instance_on_conflict (sc_tenant_id cmd) (sc_facility_id cmd) (sc_definition_id cmd)
           (sc_reference_no cmd) (sc_business_key cmd) (sc_business_type cmd) (sc_context cmd) snapshot_json hash))
         (\<lambda>inserted.
       case inserted of
         None \<Rightarrow> start_existing env cmd
       | Some row \<Rightarrow> start_created env svc cmd entry_node_id entry_role hash (instance_model env row))))))"

section \<open>signal\<close>

definition signal_outcome_of :: "('p, 'c, 'v) env \<Rightarrow> uuid \<Rightarrow> signal_outcome tx" where
  "signal_outcome_of env i =
     tx_bind (reload env i) (\<lambda>instance.
     tx_bind (tx_read (active_activities env i)) (\<lambda>active.
     tx_return \<lparr>go_instance = instance, go_active_activities = active, go_replayed = False\<rparr>))"

definition replayed_outcome :: "('p, 'c, 'v) env \<Rightarrow> uuid \<Rightarrow> workflow_instance \<Rightarrow> signal_outcome tx" where
  "replayed_outcome env i instance =
     tx_bind (tx_read (active_activities env i)) (\<lambda>active.
     tx_return \<lparr>go_instance = instance, go_active_activities = active, go_replayed = True\<rparr>)"

definition locked_instance :: "('p, 'c, 'v) env \<Rightarrow> scope_filter \<Rightarrow> uuid \<Rightarrow> workflow_instance tx" where
  "locked_instance env scope i =
     tx_read_res (\<lambda>db. bindR (load_instance_for_update_scoped env scope i db)
       (okorR (NotFound (''workflow instance '' @ uuid_str env i @ '' not visible''))))"

definition signal_claim ::
  "('p, 'c, 'v) env \<Rightarrow> instance_ctx \<Rightarrow> signal_command \<Rightarrow> activity_instance \<Rightarrow> uuid \<Rightarrow> signal_outcome tx" where
  "signal_claim env ctx cmd activity a =
     tx_bind (tx_op (update_activity_assignee a (sg_assignee_id cmd))) (\<lambda>_.
     tx_then (append_ev ctx ev_SIGNAL_RECEIVED
       (obj [(''signal_type'', JStr (signal_str (sg_signal cmd))), (''target_activity_id'', JStr (ai_id activity)),
             (''assignee_id'', opt_str (map_option show_int (sg_assignee_id cmd)))]) (Some (sg_idempotency_key cmd)))
     (signal_outcome_of env (sg_instance_id cmd)))"

definition signal_complete ::
  "('p, 'c, 'v) env \<Rightarrow> instance_ctx \<Rightarrow> signal_command \<Rightarrow> activity_instance \<Rightarrow> unit tx" where
  "signal_complete env ctx cmd activity =
     tx_then (append_ev ctx ev_SIGNAL_RECEIVED
       (obj [(''signal_type'', JStr (signal_str (sg_signal cmd))), (''target_activity_id'', JStr (ai_id activity)),
             (''reviewer_id'', JStr (show_int (sg_actor_user_id cmd))), (''review_notes'', opt_str (sg_review_notes cmd))])
       (Some (sg_idempotency_key cmd)))
     (complete_activity env ctx activity (signal_result (sg_signal cmd)) (sg_actor_user_id cmd) (sg_review_notes cmd))"

definition signal_resume :: "instance_ctx \<Rightarrow> workflow_instance \<Rightarrow> activity_instance \<Rightarrow> unit tx" where
  "signal_resume ctx instance activity =
     (if wi_status instance = WsReturnedWaiting then
        tx_bind (tx_op_res (resume_from_returned_waiting (cx_instance_id ctx))) (\<lambda>ok.
        tx_when ok (append_ev ctx ev_REWORK_RESUMED
          (obj [(''rework_target'', JStr (ai_activity_definition_id activity)), (''round'', JInt (ai_round activity))])
          None))
      else tx_return ())"

definition signal_advance ::
  "('p, 'c, 'v) env \<Rightarrow> workflow_service \<Rightarrow> nat \<Rightarrow> instance_ctx \<Rightarrow> workflow_instance \<Rightarrow> workflow_node \<Rightarrow>
   signal_command \<Rightarrow> activity_instance \<Rightarrow> signal_outcome tx" where
  "signal_advance env svc fuel ctx0 instance node cmd activity =
     tx_bind (apply_context_writes ctx0 node (ai_round activity) (sg_context_patch cmd)) (\<lambda>ctx.
     tx_then (signal_complete env ctx cmd activity)
     (tx_then (signal_resume ctx instance activity)
     (case decide_advance (env_cel env) (ds_nodes (cx_snapshot ctx)) (ds_transitions (cx_snapshot ctx))
             (ai_activity_definition_id activity) (sg_signal cmd) (cx_context ctx) of
        (outcome, trace) \<Rightarrow>
          tx_then (apply_outcome env svc fuel ctx outcome trace activity (ai_round activity))
          (signal_outcome_of env (sg_instance_id cmd)))))"

text \<open>From the snapshot on: the instance is locked, not terminal, and the key is new.\<close>

definition signal_active ::
  "('p, 'c, 'v) env \<Rightarrow> workflow_service \<Rightarrow> nat \<Rightarrow> workflow_instance \<Rightarrow> signal_command \<Rightarrow> signal_outcome tx" where
  "signal_active env svc fuel instance cmd =
     tx_bind (tx_read_res (load_snapshot env (sg_instance_id cmd))) (\<lambda>snapshot.
     tx_bind (make_ctx env (sg_instance_id cmd) instance snapshot) (\<lambda>ctx.
     tx_bind (resolve_target_activity env cmd) (\<lambda>activity.
     tx_bind (tx_lift (parse_uuid env (ai_id activity))) (\<lambda>a.
     tx_bind (tx_lift (ctx_node ctx (ai_activity_definition_id activity))) (\<lambda>node.
     tx_then (tx_lift (check_signal_against_node node (sg_signal cmd) (sg_event_type cmd)))
     (if sg_signal cmd = SigClaimed \<or> sg_signal cmd = SigReassigned then signal_claim env ctx cmd activity a
      else signal_advance env svc fuel ctx instance node cmd activity))))))"

definition signal ::
  "('p, 'c, 'v) env \<Rightarrow> workflow_service \<Rightarrow> nat \<Rightarrow> signal_command \<Rightarrow> signal_outcome tx" where
  "signal env svc fuel cmd =
     (if trim_is_empty (sg_idempotency_key cmd) then tx_fail (Validation ''idempotency_key is required'')
      else
        let i = sg_instance_id cmd in
        tx_bind (locked_instance env (sg_scope cmd) i) (\<lambda>instance.
        tx_bind (tx_read (idempotency_seen i (sg_idempotency_key cmd))) (\<lambda>seen.
        if seen then replayed_outcome env i instance
        else if ws_is_terminal (wi_status instance) then
          tx_fail (Conflict (''workflow instance '' @ uuid_str env i @ '' is already terminal ('' @
            ws_as_str (wi_status instance) @ '')''))
        else signal_active env svc fuel instance cmd)))"

section \<open>resubmit\<close>

definition resubmit_enter ::
  "('p, 'c, 'v) env \<Rightarrow> workflow_service \<Rightarrow> instance_ctx \<Rightarrow> int \<Rightarrow> string \<Rightarrow> signal_outcome tx" where
  "resubmit_enter env svc ctx r key =
     tx_bind (tx_op_res (reactivate_workflow (cx_instance_id ctx))) (\<lambda>ok.
     if \<not> ok then
       tx_fail (Conflict ''reactivate lost the race (instance no longer completed/returned)'')
     else
       tx_then (append_ev ctx ev_REACTIVATED (obj [(''round'', JInt r)]) (Some key))
       (tx_bind (tx_lift (okorR (Validation ''definition has no approval node to re-enter'')
           (decide_start (ds_nodes (cx_snapshot ctx))))) (\<lambda>(entry_node_id, entry_role).
        tx_bind (tx_lift (ctx_node ctx entry_node_id)) (\<lambda>entry_node.
        tx_then (schedule_current env svc ctx entry_node entry_role r)
        (signal_outcome_of env (cx_instance_id ctx))))))"

definition resubmit ::
  "('p, 'c, 'v) env \<Rightarrow> workflow_service \<Rightarrow> scope_filter \<Rightarrow> uuid \<Rightarrow> string \<Rightarrow> signal_outcome tx" where
  "resubmit env svc scope i key =
     (if trim_is_empty key then tx_fail (Validation ''idempotency_key is required'')
      else
        tx_bind (locked_instance env scope i) (\<lambda>instance.
        tx_bind (tx_read (idempotency_seen i key)) (\<lambda>seen.
        if seen then replayed_outcome env i instance
        else if \<not> (wi_status instance = WsCompleted \<and> wi_result instance = Some WrReturned) then
          tx_fail (InvalidState (''resubmit requires a completed(returned) instance, got '' @
            ws_as_str (wi_status instance) @ '' ('' @ debug_opt wr_debug (wi_result instance) @ '')''))
        else
          tx_bind (tx_read_res (load_snapshot env i)) (\<lambda>snapshot.
          tx_bind (make_ctx env i instance snapshot) (\<lambda>ctx.
          tx_bind (tx_read (max_round i)) (\<lambda>m.
          let r = m + 1 in
          tx_then (tx_lift (check_round svc ctx r))
          (resubmit_enter env svc ctx r key)))))))"

section \<open>Timers\<close>

definition fire_reminder ::
  "('p, 'c, 'v) env \<Rightarrow> workflow_service \<Rightarrow> instance_ctx \<Rightarrow> workflow_node \<Rightarrow> activity_instance \<Rightarrow> bool tx" where
  "fire_reminder env svc ctx node activity =
     tx_then (enqueue_notification env ctx activity ob_NOTIFICATION_REMINDER
       (framework_notification env svc ctx (wc_reminder_template_code (svc_config svc))
         (case assignee_role node of Some role \<Rightarrow> Some role | None \<Rightarrow> ai_assignee_role activity) node))
     (tx_return True)"

definition fire_escalation ::
  "('p, 'c, 'v) env \<Rightarrow> workflow_service \<Rightarrow> instance_ctx \<Rightarrow> workflow_node \<Rightarrow> activity_instance \<Rightarrow> uuid \<Rightarrow> bool tx" where
  "fire_escalation env svc ctx node activity a =
     (case escalation_config node of
        None \<Rightarrow> tx_return False
      | Some (_, to_role) \<Rightarrow>
          tx_bind (tx_op (update_activity_assignee_role a to_role)) (\<lambda>ok.
          tx_then (tx_when ok
            (tx_then (append_ev ctx ev_APPROVAL_ESCALATED
               (obj [(''activity_id'', JStr (ai_id activity)), (''from_role'', opt_str (ai_assignee_role activity)),
                     (''to_role'', JStr to_role)]) None)
             (enqueue_notification env ctx activity ob_NOTIFICATION_ESCALATION
               (framework_notification env svc ctx (wc_escalation_template_code (svc_config svc)) (Some to_role) node))))
          (tx_return True)))"

definition fire_timeout ::
  "('p, 'c, 'v) env \<Rightarrow> workflow_service \<Rightarrow> nat \<Rightarrow> instance_ctx \<Rightarrow> activity_instance \<Rightarrow> uuid \<Rightarrow> bool tx" where
  "fire_timeout env svc fuel ctx activity a =
     tx_bind (tx_op (skip_activity_for_timeout a)) (\<lambda>_.
     tx_then (tx_op (cancel_timers_for_activity a))
     (tx_then (append_ev ctx ev_ACTIVITY_SKIPPED (obj [(''activity_id'', JStr (ai_id activity))]) None)
     (case decide_event_wait_timeout (env_cel env) (ds_nodes (cx_snapshot ctx)) (ds_transitions (cx_snapshot ctx))
             (ai_activity_definition_id activity) (cx_context ctx) of
        (outcome, trace) \<Rightarrow>
          tx_then (apply_outcome env svc fuel ctx outcome trace activity (ai_round activity)) (tx_return True))))"

definition fire_active_timer ::
  "('p, 'c, 'v) env \<Rightarrow> workflow_service \<Rightarrow> nat \<Rightarrow> string \<Rightarrow> uuid \<Rightarrow> workflow_instance \<Rightarrow> activity_instance \<Rightarrow>
   uuid \<Rightarrow> bool tx" where
  "fire_active_timer env svc fuel timer_kind i instance activity a =
     tx_bind (tx_read_res (load_snapshot env i)) (\<lambda>snapshot.
     tx_bind (make_ctx env i instance snapshot) (\<lambda>ctx.
     tx_bind (tx_lift (ctx_node ctx (ai_activity_definition_id activity))) (\<lambda>node.
     tx_then (append_ev ctx ev_TIMER_FIRED
       (obj [(''timer_kind'', JStr timer_kind), (''activity_id'', JStr (ai_id activity)),
             (''activity_definition_id'', JStr (node_id node))]) None)
     (if timer_kind = ''reminder'' then fire_reminder env svc ctx node activity
      else if timer_kind = ''escalation'' then fire_escalation env svc ctx node activity a
      else if timer_kind = ''timeout'' then fire_timeout env svc fuel ctx activity a
      else tx_fail (InvalidState (''unknown timer_kind '' @ quoted timer_kind))))))"

definition fire_timer :: "('p, 'c, 'v) env \<Rightarrow> workflow_service \<Rightarrow> nat \<Rightarrow> timer_record \<Rightarrow> bool tx" where
  "fire_timer env svc fuel timer =
     tx_bind (tx_lift (parse_uuid env (tm_id timer))) (\<lambda>timer_id.
     tx_bind (tx_op (mark_timer_fired timer_id)) (\<lambda>ok.
     if \<not> ok then tx_return False
     else
       tx_bind (tx_lift (parse_uuid env (tm_workflow_instance_id timer))) (\<lambda>i.
       tx_bind (tx_lift (parse_uuid env (tm_activity_instance_id timer))) (\<lambda>a.
       tx_bind (tx_read (load_instance env i)) (\<lambda>found.
       case found of
         None \<Rightarrow> tx_return False
       | Some instance \<Rightarrow>
           if ws_is_terminal (wi_status instance) then tx_return False
           else
             tx_bind (tx_read (load_activity env a)) (\<lambda>found_activity.
             case found_activity of
               None \<Rightarrow> tx_return False
             | Some activity \<Rightarrow>
                 if ai_status activity \<noteq> AsActive then tx_return False
                 else fire_active_timer env svc fuel (tm_timer_kind timer) i instance activity a))))))"

section \<open>Deliveries\<close>

definition complete_delivered ::
  "('p, 'c, 'v) env \<Rightarrow> workflow_service \<Rightarrow> nat \<Rightarrow> uuid \<Rightarrow> uuid \<Rightarrow> workflow_instance \<Rightarrow> activity_instance \<Rightarrow> unit tx" where
  "complete_delivered env svc fuel i a instance activity =
     tx_bind (tx_read_res (load_snapshot env i)) (\<lambda>snapshot.
     tx_bind (make_ctx env i instance snapshot) (\<lambda>ctx.
     tx_bind (tx_op (complete_activity_cas a None 0 None)) (\<lambda>_.
     tx_then (tx_op (cancel_timers_for_activity a))
     (tx_then (append_ev ctx ev_ACTIVITY_COMPLETED
       (obj [(''activity_id'', JStr (ai_id activity)), (''result'', JNull), (''source'', JStr ''notification_outbox'')])
       None)
     (case decide_advance (env_cel env) (ds_nodes (cx_snapshot ctx)) (ds_transitions (cx_snapshot ctx))
             (ai_activity_definition_id activity) SigCompleted (cx_context ctx) of
        (outcome, trace) \<Rightarrow> apply_outcome env svc fuel ctx outcome trace activity (ai_round activity))))))"

definition on_notification_delivered ::
  "('p, 'c, 'v) env \<Rightarrow> workflow_service \<Rightarrow> nat \<Rightarrow> uuid \<Rightarrow> uuid \<Rightarrow> unit tx" where
  "on_notification_delivered env svc fuel i a =
     tx_bind (tx_read (load_instance env i)) (\<lambda>found.
     case found of
       None \<Rightarrow> tx_return ()
     | Some instance \<Rightarrow>
         if ws_is_terminal (wi_status instance) then tx_return ()
         else
           tx_bind (tx_read (load_activity env a)) (\<lambda>found_activity.
           case found_activity of
             None \<Rightarrow> tx_return ()
           | Some activity \<Rightarrow>
               if ai_status activity \<noteq> AsActive then tx_return ()
               else if ai_activity_type activity \<noteq> AtNotification then tx_return ()
               else complete_delivered env svc fuel i a instance activity))"

definition on_business_callback_delivered :: "uuid \<Rightarrow> unit tx" where
  "on_business_callback_delivered i = tx_bind (tx_op (mark_side_effects_executed i)) (\<lambda>_. tx_return ())"

definition on_outbox_dead_letter ::
  "('p, 'c, 'v) env \<Rightarrow> uuid \<Rightarrow> uuid \<Rightarrow> string \<Rightarrow> string \<Rightarrow> unit tx" where
  "on_outbox_dead_letter env i a activity_type last_error =
     tx_bind (tx_read (load_instance env i)) (\<lambda>found.
     case found of
       None \<Rightarrow> tx_return ()
     | Some instance \<Rightarrow>
         tx_bind (make_ctx env i instance
           \<lparr>ds_flow_type = [], ds_version = 0, ds_nodes = [], ds_transitions = [], ds_max_round = 0\<rparr>) (\<lambda>ctx0.
         let ctx = ctx0\<lparr>cx_context := None\<rparr> in
         append_ev ctx ev_ACTIVITY_FAILED
           (obj [(''activity_id'', JStr (uuid_str env a)), (''outbox_activity_type'', JStr activity_type),
                 (''error'', JStr last_error)]) None))"

section \<open>Verification of the projection\<close>

definition verify_projection ::
  "('p, 'c, 'v) env \<Rightarrow> scope_filter \<Rightarrow> uuid \<Rightarrow> projection_verification tx" where
  "verify_projection env scope i =
     tx_bind (tx_read_res (\<lambda>db. bindR (get_instance_scoped env scope i db)
       (okorR (NotFound (''workflow instance '' @ uuid_str env i @ '' not visible''))))) (\<lambda>instance.
     tx_bind (tx_read_res (load_snapshot env i)) (\<lambda>snapshot.
     tx_bind (tx_read (load_events i)) (\<lambda>events.
     tx_bind (tx_read (list_activities env i)) (\<lambda>activities.
     let replayed = fold_events snapshot events;
         differences = diff_projection replayed instance activities
     in tx_return \<lparr>pv_instance_id = i, pv_event_count = int (length events), pv_consistent = (differences = []),
                  pv_differences = differences\<rparr>))))"

end
