(* ===== verification/Flow_Worker.thy ===== *)
theory Flow_Worker
  imports Flow_Handlers
begin

text \<open>
  crates/hetuflow-service/src/worker.rs: one pass of the outbox dispatcher and of the timer poller.
  The adapter's ports are parameters: \<open>dispatch\<close> is \<open>NotificationDispatcher::deliver\<close>, the business
  handlers are in the registry, and \<open>in_txn\<close> is the contract of \<open>TxnRunner\<close> (commit on \<open>Ok\<close>, roll
  back on \<open>Err\<close>, the error unchanged). A delivery runs outside any transaction. The endless loops
  with their sleeping are not modelled, nor is the time that passes inside one pass.
\<close>

record worker_config =
  wk_worker_id :: string
  wk_lease_ttl_secs :: int
  wk_batch_size :: int
  wk_retry_base_secs :: int
  wk_retry_cap_secs :: int

definition default_worker_config :: worker_config where
  "default_worker_config =
     \<lparr>wk_worker_id = ''hetuflow-worker'', wk_lease_ttl_secs = 60, wk_batch_size = 32,
      wk_retry_base_secs = 10, wk_retry_cap_secs = 300\<rparr>"

section \<open>The outbox dispatcher\<close>

definition deliver ::
  "('p, 'c, 'v) env \<Rightarrow> callback_registry \<Rightarrow> (notification_payload \<Rightarrow> callback_error + unit) \<Rightarrow> outbox_record \<Rightarrow>
   callback_error + unit" where
  "deliver env registry dispatch record =
     (if or_activity_type record \<in> {ob_NOTIFICATION, ob_NOTIFICATION_REMINDER, ob_NOTIFICATION_ESCALATION} then
        bindR (map_errR (\<lambda>e. ce_deterministic (''notification payload invalid: '' @ e))
          (notification_de env (or_payload record))) dispatch
      else if or_activity_type record = ob_BUSINESS_CALLBACK then
        bindR (map_errR (\<lambda>e. ce_deterministic (''business callback payload invalid: '' @ e))
          (callback_de env (or_payload record))) (\<lambda>payload.
        case registry_get registry (bp_handler_type payload) of
          None \<Rightarrow> Inl (ce_deterministic (''no business callback handler registered for '' @ quoted (bp_handler_type payload)))
        | Some handler \<Rightarrow> ch_execute handler payload)
      else Inl (ce_deterministic (''unknown outbox activity_type '' @ quoted (or_activity_type record))))"

text \<open>The ids of a record, parsed before its transaction is opened.\<close>

definition record_ids :: "('p, 'c, 'v) env \<Rightarrow> outbox_record \<Rightarrow> (uuid \<times> uuid \<times> uuid) res" where
  "record_ids env record =
     bindR (parse_i64_field (or_tenant_id record) ''tenant_id'') (\<lambda>_.
     bindR (parse_uuid env (or_id record)) (\<lambda>i.
     bindR (parse_uuid env (or_workflow_instance_id record)) (\<lambda>w.
     bindR (parse_uuid env (or_activity_instance_id record)) (\<lambda>a. Inr (i, w, a)))))"

definition settle_success_body ::
  "('p, 'c, 'v) env \<Rightarrow> workflow_service \<Rightarrow> nat \<Rightarrow> worker_config \<Rightarrow> string \<Rightarrow> uuid \<Rightarrow> uuid \<Rightarrow> uuid \<Rightarrow> unit tx" where
  "settle_success_body env svc fuel cfg ty i w a =
     tx_bind (tx_op (mark_outbox_succeeded i (wk_worker_id cfg))) (\<lambda>ok.
     if \<not> ok then tx_return ()
     else if ty = ob_NOTIFICATION then on_notification_delivered env svc fuel w a
     else if ty = ob_BUSINESS_CALLBACK then on_business_callback_delivered w
     else tx_return ())"

definition settle_success ::
  "('p, 'c, 'v) env \<Rightarrow> workflow_service \<Rightarrow> nat \<Rightarrow> worker_config \<Rightarrow> outbox_record \<Rightarrow> unit tx" where
  "settle_success env svc fuel cfg record =
     tx_bind (tx_lift (record_ids env record)) (\<lambda>(i, w, a).
     in_txn (settle_success_body env svc fuel cfg (or_activity_type record) i w a))"

definition is_dead :: "outbox_record \<Rightarrow> callback_error \<Rightarrow> bool" where
  "is_dead record error \<longleftrightarrow>
     ce_kind error = Deterministic \<or> or_attempt_count record + 1 \<ge> or_max_attempts record"

definition settle_failure_body ::
  "('p, 'c, 'v) env \<Rightarrow> worker_config \<Rightarrow> outbox_record \<Rightarrow> callback_error \<Rightarrow> uuid \<Rightarrow> uuid \<Rightarrow> uuid \<Rightarrow> unit tx" where
  "settle_failure_body env cfg record error i w a =
     (if is_dead record error then
        tx_bind (tx_op (mark_outbox_dead_letter i (wk_worker_id cfg) (ce_message error))) (\<lambda>ok.
        tx_when ok (on_outbox_dead_letter env w a (or_activity_type record) (ce_message error)))
      else
        tx_bind (tx_op (mark_outbox_retry i (wk_worker_id cfg)
          (as_i32 (retry_backoff_secs (or_attempt_count record) (wk_retry_base_secs cfg) (wk_retry_cap_secs cfg)))
          (ce_message error))) (\<lambda>_. tx_return ()))"

definition settle_failure ::
  "('p, 'c, 'v) env \<Rightarrow> worker_config \<Rightarrow> outbox_record \<Rightarrow> callback_error \<Rightarrow> unit tx" where
  "settle_failure env cfg record error =
     tx_bind (tx_lift (record_ids env record)) (\<lambda>(i, w, a).
     in_txn (settle_failure_body env cfg record error i w a))"

definition settle_one ::
  "('p, 'c, 'v) env \<Rightarrow> workflow_service \<Rightarrow> callback_registry \<Rightarrow> nat \<Rightarrow> worker_config \<Rightarrow>
   (notification_payload \<Rightarrow> callback_error + unit) \<Rightarrow> outbox_record \<Rightarrow> unit tx" where
  "settle_one env svc registry fuel cfg dispatch record =
     (case deliver env registry dispatch record of
        Inr _ \<Rightarrow> settle_success env svc fuel cfg record
      | Inl error \<Rightarrow> settle_failure env cfg record error)"

definition outbox_run_once ::
  "('p, 'c, 'v) env \<Rightarrow> workflow_service \<Rightarrow> callback_registry \<Rightarrow> nat \<Rightarrow> worker_config \<Rightarrow>
   (notification_payload \<Rightarrow> callback_error + unit) \<Rightarrow> nat tx" where
  "outbox_run_once env svc registry fuel cfg dispatch =
     tx_bind (in_txn (tx_op (poll_due_outbox env (wk_worker_id cfg) (wk_lease_ttl_secs cfg) (wk_batch_size cfg)))) (\<lambda>records.
     tx_then (tx_for (settle_one env svc registry fuel cfg dispatch) records) (tx_return (length records)))"

section \<open>The timer poller\<close>

text \<open>A timer whose transaction fails is logged and counts as not fired.\<close>

definition fire_one :: "('p, 'c, 'v) env \<Rightarrow> workflow_service \<Rightarrow> nat \<Rightarrow> timer_record \<Rightarrow> nat tx" where
  "fire_one env svc fuel timer =
     tx_bind (tx_lift (parse_i64_field (tm_tenant_id timer) ''tenant_id'')) (\<lambda>_. \<lambda>db.
       case in_txn (fire_timer env svc fuel timer) db of
         None \<Rightarrow> None
       | Some (Inr True, db') \<Rightarrow> Some (Inr 1, db')
       | Some (_, db') \<Rightarrow> Some (Inr 0, db'))"

fun fire_all :: "('p, 'c, 'v) env \<Rightarrow> workflow_service \<Rightarrow> nat \<Rightarrow> timer_record list \<Rightarrow> nat tx" where
  "fire_all env svc fuel [] = tx_return 0"
| "fire_all env svc fuel (t # ts) =
     tx_bind (fire_one env svc fuel t) (\<lambda>n. tx_bind (fire_all env svc fuel ts) (\<lambda>m. tx_return (n + m)))"

definition timer_run_once :: "('p, 'c, 'v) env \<Rightarrow> workflow_service \<Rightarrow> nat \<Rightarrow> worker_config \<Rightarrow> nat tx" where
  "timer_run_once env svc fuel cfg =
     tx_bind (in_txn (tx_read (poll_due_timers env (wk_batch_size cfg)))) (\<lambda>due. fire_all env svc fuel due)"

end
