(* ===== verification/Flow_Sync.thy ===== *)
theory Flow_Sync
  imports Flow_Worker
begin

text \<open>
  The proof layer of the event-sourcing refinement. A partial-correctness triple for transaction
  bodies, the live projection of an instance (what its rows say), the state predicate \<open>St\<close> that
  pairs it with the folded projection (what its event log says), and one lemma per store operation
  that gives its effect on the pair.
\<close>

section \<open>Triples\<close>

text \<open>Only successful results count: the writes of a failing body are rolled back (\<open>in_txn\<close>).\<close>

definition hoare :: "(db \<Rightarrow> bool) \<Rightarrow> 'a tx \<Rightarrow> ('a \<Rightarrow> db \<Rightarrow> bool) \<Rightarrow> bool" where
  "hoare P m Q \<longleftrightarrow> (\<forall>db x db'. P db \<longrightarrow> m db = Some (Inr x, db') \<longrightarrow> Q x db')"

lemma hoareD: "hoare P m Q \<Longrightarrow> P db \<Longrightarrow> m db = Some (Inr x, db') \<Longrightarrow> Q x db'"
  by (auto simp: hoare_def)

lemma hoare_return [simp]: "hoare P (tx_return x) Q \<longleftrightarrow> (\<forall>db. P db \<longrightarrow> Q x db)"
  by (auto simp: hoare_def tx_return_def)

lemma hoare_fail [simp]: "hoare P (tx_fail e) Q"
  by (simp add: hoare_def tx_fail_def)

lemma hoare_out_of_fuel [simp]: "hoare P tx_out_of_fuel Q"
  by (simp add: hoare_def tx_out_of_fuel_def)

lemma hoare_bind: "hoare P m R \<Longrightarrow> (\<And>x. hoare (R x) (f x) Q) \<Longrightarrow> hoare P (tx_bind m f) Q"
  by (fastforce simp: hoare_def tx_bind_def split: option.splits sum.splits prod.splits)

lemma hoare_then: "hoare P m (\<lambda>_. R) \<Longrightarrow> hoare R n Q \<Longrightarrow> hoare P (tx_then m n) Q"
  unfolding tx_then_def by (rule hoare_bind)

lemma hoare_lift: "(\<And>x. r = Inr x \<Longrightarrow> hoare P (f x) Q) \<Longrightarrow> hoare P (tx_bind (tx_lift r) f) Q"
  by (cases r) (auto simp: hoare_def tx_bind_def tx_lift_def)

lemma hoare_lift_then: "(r = Inr () \<Longrightarrow> hoare P n Q) \<Longrightarrow> hoare P (tx_then (tx_lift r) n) Q"
  unfolding tx_then_def by (rule hoare_lift) simp

lemma hoare_read: "(\<And>x. hoare (\<lambda>db. P db \<and> f db = x) (g x) Q) \<Longrightarrow> hoare P (tx_bind (tx_read f) g) Q"
  by (auto simp: hoare_def tx_bind_def tx_read_def)

lemma hoare_read_res:
  "(\<And>x. hoare (\<lambda>db. P db \<and> f db = Inr x) (g x) Q) \<Longrightarrow> hoare P (tx_bind (tx_read_res f) g) Q"
  by (auto simp: hoare_def tx_bind_def tx_read_res_def split: sum.splits)

lemma hoare_op: "(\<And>db x db'. P db \<Longrightarrow> f db = (x, db') \<Longrightarrow> Q x db') \<Longrightarrow> hoare P (tx_op f) Q"
  by (auto simp: hoare_def tx_op_def split: prod.splits)

lemma hoare_pre: "hoare P m Q \<Longrightarrow> (\<And>db. P' db \<Longrightarrow> P db) \<Longrightarrow> hoare P' m Q"
  by (auto simp: hoare_def)

lemma hoare_post: "hoare P m Q \<Longrightarrow> (\<And>x db. Q x db \<Longrightarrow> Q' x db) \<Longrightarrow> hoare P m Q'"
  by (fastforce simp: hoare_def)

lemma hoare_when: "(b \<Longrightarrow> hoare P m (\<lambda>_. Q)) \<Longrightarrow> (\<not> b \<Longrightarrow> (\<And>db. P db \<Longrightarrow> Q db)) \<Longrightarrow> hoare P (tx_when b m) (\<lambda>_. Q)"
  by (cases b) (auto simp: tx_when_def)

lemma hoare_if: "(b \<Longrightarrow> hoare P m Q) \<Longrightarrow> (\<not> b \<Longrightarrow> hoare P n Q) \<Longrightarrow> hoare P (if b then m else n) Q"
  by simp

lemma tx_lift_Inr: "tx_bind (tx_lift (Inr x)) f = f x"
  by (simp add: fun_eq_iff tx_bind_def tx_lift_def)

lemma hoare_for: "(\<And>x. x \<in> set xs \<Longrightarrow> hoare I (f x) (\<lambda>_. I)) \<Longrightarrow> hoare I (tx_for f xs) (\<lambda>_. I)"
  by (induction xs) (auto intro: hoare_then)

lemma hoare_ex: "(\<And>x. hoare (P x) m Q) \<Longrightarrow> hoare (\<lambda>db. \<exists>x. P x db) m Q"
  by (auto simp: hoare_def)

lemma hoare_gen: "(\<And>db0. P db0 \<Longrightarrow> hoare (\<lambda>db. db = db0) m Q) \<Longrightarrow> hoare P m Q"
  by (fastforce simp: hoare_def)

section \<open>The live projection\<close>

definition live_activity :: "('p, 'c, 'v) env \<Rightarrow> activity_row \<Rightarrow> replayed_activity" where
  "live_activity env r =
     \<lparr>ra_id = uuid_str env (ar_id r), ra_activity_definition_id = ar_activity_definition_id r,
      ra_activity_type = at_from_i16 (ar_activity_type r), ra_status = as_from_i16 (ar_status r),
      ra_assignee_role = ar_assignee_role r, ra_assignee_id = map_option show_int (ar_assignee_id r),
      ra_result = map_option activity_result_to_str (ar_result r), ra_review_notes = ar_review_notes r,
      ra_reviewed_by = map_option show_int (ar_reviewed_by r), ra_reviewed_at = ar_reviewed_at r,
      ra_round = ar_round r\<rparr>"

definition live_instance :: "('p, 'c, 'v) env \<Rightarrow> instance_row \<Rightarrow> replayed_instance" where
  "live_instance env r =
     \<lparr>ri_status = ws_from_i16 (ir_status r),
      ri_current_activity_id = map_option (uuid_str env) (ir_current_activity_id r),
      ri_result = Option.bind (ir_result r) wr_from_i16,
      ri_started_at = ir_started_at r, ri_completed_at = ir_completed_at r\<rparr>"

definition live_projection :: "('p, 'c, 'v) env \<Rightarrow> uuid \<Rightarrow> db \<Rightarrow> replayed_projection" where
  "live_projection env i db =
     (case find_instance db i of
        None \<Rightarrow> initial_projection
      | Some r \<Rightarrow> \<lparr>rp_instance = live_instance env r, rp_activities = map (live_activity env) (activities_of i db)\<rparr>)"

definition folded_projection :: "definition_snapshot \<Rightarrow> uuid \<Rightarrow> db \<Rightarrow> replayed_projection" where
  "folded_projection sn i db = fold_events sn (load_events i db)"

text \<open>
  What every reachable database satisfies: keys are unique and come from the supply, the log of the
  instance is numbered upwards, its activities are stored in creation order, rounds fit their
  column, an active activity has not been reviewed, and the bound snapshot reads back as \<open>sn\<close>.
\<close>

definition wf_db :: "('p, 'c, 'v) env \<Rightarrow> definition_snapshot \<Rightarrow> uuid \<Rightarrow> timestamp \<Rightarrow> db \<Rightarrow> bool" where
  "wf_db env sn i t db \<longleftrightarrow>
     db_now db = t \<and> 0 < db_next_uuid db \<and>
     distinct (map ir_id (db_instances db)) \<and> distinct (map ar_id (db_activities db)) \<and>
     (\<forall>r\<in>set (db_activities db). 0 < ar_id r \<and> ar_id r < db_next_uuid db) \<and>
     sorted_wrt (<) (map er_seq (events_of i db)) \<and>
     sorted (map ar_created_at (activities_of i db)) \<and>
     (\<forall>r\<in>set (activities_of i db). ar_created_at r \<le> t \<and> in_i32 (ar_round r) \<and>
        (ar_status r = 2 \<longrightarrow> ar_review_notes r = None)) \<and>
     (\<exists>r. find_instance db i = Some r \<and> snapshot_de env (ir_definition_snapshot r) = Inr sn)"

definition St ::
  "('p, 'c, 'v) env \<Rightarrow> definition_snapshot \<Rightarrow> uuid \<Rightarrow> timestamp \<Rightarrow> replayed_projection \<Rightarrow> replayed_projection \<Rightarrow>
   db \<Rightarrow> bool" where
  "St env sn i t L R db \<longleftrightarrow> wf_db env sn i t db \<and> live_projection env i db = L \<and> folded_projection sn i db = R"

section \<open>Frames\<close>

text \<open>Timers, the outbox and the key supply are not part of the projection.\<close>

definition same_projection :: "db \<Rightarrow> db \<Rightarrow> bool" where
  "same_projection db db' \<longleftrightarrow>
     db_instances db' = db_instances db \<and> db_activities db' = db_activities db \<and> db_events db' = db_events db \<and>
     db_now db' = db_now db \<and> db_next_uuid db \<le> db_next_uuid db'"

lemma St_same: "same_projection db db' \<Longrightarrow> St env sn i t L R db \<Longrightarrow> St env sn i t L R db'"
  by (fastforce simp: same_projection_def St_def wf_db_def live_projection_def folded_projection_def load_events_def
      find_instance_def activities_of_def events_of_def)

lemma same_projection_ops:
  "same_projection db (snd (schedule_timer tn f i a k s db))"
  "same_projection db (snd (cancel_timers_for_activity a db))"
  "same_projection db (snd (enqueue_outbox tn f i a ty p db))"
  "same_projection db (snd (mark_timer_fired u db))"
  "same_projection db (snd (set_outbox P g db))"
  by (auto simp: same_projection_def schedule_timer_def cancel_timers_for_activity_def enqueue_outbox_def mark_timer_fired_def
      set_timers_def set_outbox_def fresh_def Let_def)

lemma hoare_frame_op:
  assumes "\<And>db. same_projection db (snd (f db))"
  shows "hoare (St env sn i t L R) (tx_op f) (\<lambda>_. St env sn i t L R)"
  by (rule hoare_op) (metis St_same assms snd_conv)

lemma hoare_timer [intro]: "hoare (St env sn i t L R) (tx_op (schedule_timer tn f j a k s)) (\<lambda>_. St env sn i t L R)"
  and hoare_cancel [intro]: "hoare (St env sn i t L R) (tx_op (cancel_timers_for_activity a)) (\<lambda>_. St env sn i t L R)"
  and hoare_enqueue [intro]: "hoare (St env sn i t L R) (tx_op (enqueue_outbox tn f j a ty p)) (\<lambda>_. St env sn i t L R)"
  and hoare_timer_fired [intro]: "hoare (St env sn i t L R) (tx_op (mark_timer_fired u)) (\<lambda>_. St env sn i t L R)"
  by (rule hoare_frame_op; rule same_projection_ops)+

section \<open>The event log\<close>

definition log_step :: "definition_snapshot \<Rightarrow> timestamp \<Rightarrow> string \<Rightarrow> json \<Rightarrow> replayed_projection \<Rightarrow> replayed_projection" where
  "log_step sn t ty p R = replay_event sn R \<lparr>ev_seq = 0, ev_event_type = ty, ev_payload = p, ev_created_at = t\<rparr>"

lemma replay_event_seq: "replay_event sn R \<lparr>ev_seq = n, ev_event_type = ty, ev_payload = p, ev_created_at = t\<rparr> = log_step sn t ty p R"
  by (simp add: log_step_def replay_event_def Let_def)

lemma next_seq_greater:
  assumes "e \<in> set (events_of i db)"
  shows "er_seq e < next_seq i db"
proof -
  have "er_seq e \<le> Max (set (map er_seq (events_of i db)))" by (rule Max_ge) (use assms in auto)
  with assms show ?thesis by (auto simp: next_seq_def)
qed

lemma load_events_sorted:
  "sorted_wrt (<) (map er_seq (events_of i db)) \<Longrightarrow> load_events i db = map event_model (events_of i db)"
  unfolding load_events_def by (simp add: sort_key_id_if_sorted strict_sorted_imp_sorted)

lemma events_of_append_event:
  "events_of i (snd (append_event tn f j s ty p k db)) =
     events_of i db @ (if j = i then [\<lparr>er_tenant_id = tn, er_facility_id = f, er_workflow_instance_id = j, er_seq = s,
       er_event_type = ty, er_event_payload = p, er_idempotency_key = k, er_created_at = db_now db\<rparr>] else [])"
  by (simp add: events_of_def append_event_def)

lemma wf_append_event:
  assumes "wf_db env sn i t db"
  shows "wf_db env sn i t (snd (append_event tn f i (next_seq i db) ty p k db))"
proof -
  have "sorted_wrt (<) (map er_seq (events_of i (snd (append_event tn f i (next_seq i db) ty p k db))))"
    using assms next_seq_greater [of _ i db] by (auto simp: events_of_append_event wf_db_def sorted_wrt_append)
  then show ?thesis using assms
    by (simp add: wf_db_def append_event_def find_instance_def activities_of_def)
qed

lemma live_append_event: "live_projection env i (snd (append_event tn f j s ty p k db)) = live_projection env i db"
  by (simp add: live_projection_def append_event_def find_instance_def activities_of_def split: option.split)

lemma folded_append_event:
  assumes "wf_db env sn i t db"
  shows "folded_projection sn i (snd (append_event tn f i (next_seq i db) ty p k db)) =
    log_step sn t ty p (folded_projection sn i db)"
proof -
  have w: "sorted_wrt (<) (map er_seq (events_of i db))" and n: "db_now db = t" using assms by (auto simp: wf_db_def)
  have "sorted_wrt (<) (map er_seq (events_of i (snd (append_event tn f i (next_seq i db) ty p k db))))"
    using wf_append_event [OF assms] by (simp add: wf_db_def)
  with w n show ?thesis
    by (simp add: folded_projection_def load_events_sorted events_of_append_event fold_events_append event_model_def
        replay_event_seq)
qed

lemma hoare_append:
  assumes "cx_instance_id ctx = i"
  shows "hoare (St env sn i t L R) (append_ev ctx ty p k) (\<lambda>_. St env sn i t L (log_step sn t ty p R))"
proof -
  have "hoare (St env sn i t L R) (append_ev ctx ty p k)
     (\<lambda>_ db. wf_db env sn i t db \<and> live_projection env i db = L \<and> folded_projection sn i db = log_step sn t ty p R)"
    unfolding append_ev_def assms
    by (rule hoare_read, rule hoare_op)
      (auto simp: St_def wf_append_event live_append_event folded_append_event dest!: arg_cong [where f = snd])
  then show ?thesis by (simp add: St_def [abs_def])
qed

text \<open>
  The effect of every row operation on the live projection: an UPDATE of the instance row, an UPDATE
  of activity rows, an INSERT of an activity.
\<close>

definition upd_inst :: "(replayed_instance \<Rightarrow> replayed_instance) \<Rightarrow> replayed_projection \<Rightarrow> replayed_projection" where
  "upd_inst g L = L\<lparr>rp_instance := g (rp_instance L)\<rparr>"

definition upd_acts ::
  "(replayed_activity list \<Rightarrow> replayed_activity list) \<Rightarrow> replayed_projection \<Rightarrow> replayed_projection" where
  "upd_acts g L = L\<lparr>rp_activities := g (rp_activities L)\<rparr>"

lemma upd_simps [simp]:
  "rp_instance (upd_inst g L) = g (rp_instance L)" "rp_activities (upd_inst g L) = rp_activities L"
  "rp_activities (upd_acts h L) = h (rp_activities L)" "rp_instance (upd_acts h L) = rp_instance L"
  by (simp_all add: upd_inst_def upd_acts_def)

section \<open>Codes\<close>

lemma ws_active_iff [simp]: "ws_from_i16 n = WsActive \<longleftrightarrow> n = 2"
  and ws_completed_iff [simp]: "ws_from_i16 n = WsCompleted \<longleftrightarrow> n = 3"
  and ws_returned_iff [simp]: "ws_from_i16 n = WsReturnedWaiting \<longleftrightarrow> n = 6"
  and as_active_iff [simp]: "as_from_i16 n = AsActive \<longleftrightarrow> n = 2"
  by (simp_all add: ws_from_i16_def as_from_i16_def)

lemma wr_returned_iff [simp]: "wr_from_i16 n = Some WrReturned \<longleftrightarrow> n = 3"
  by (simp add: wr_from_i16_def)

section \<open>The instance row\<close>

lemma find_instance_set:
  assumes "\<And>r. ir_id (f r) = ir_id r"
  shows "find_instance (snd (set_instances P f db)) i =
    map_option (\<lambda>r. if P r then (f r)\<lparr>ir_updated_at := db_now db\<rparr> else r) (find_instance db i)"
  by (simp add: find_instance_def set_instances_def find_update_where [where k = ir_id] assms)

lemma wf_set_instances:
  assumes "wf_db env sn i t db" "\<And>r. ir_id (f r) = ir_id r"
    "\<And>r. ir_definition_snapshot (f r) = ir_definition_snapshot r"
  shows "wf_db env sn i t (snd (set_instances P f db))"
proof -
  have "map ir_id (db_instances (snd (set_instances P f db))) = map ir_id (db_instances db)"
    by (simp add: set_instances_def map_key_update_where assms(2))
  moreover obtain r where "find_instance db i = Some r" "snapshot_de env (ir_definition_snapshot r) = Inr sn"
    using assms(1) by (auto simp: wf_db_def)
  then have "\<exists>r. find_instance (snd (set_instances P f db)) i = Some r \<and> snapshot_de env (ir_definition_snapshot r) = Inr sn"
    by (auto simp: find_instance_set assms)
  ultimately show ?thesis using assms(1)
    by (simp add: wf_db_def) (simp add: set_instances_def activities_of_def events_of_def)
qed

lemma folded_set_instances: "folded_projection sn i (snd (set_instances P f db)) = folded_projection sn i db"
  by (simp add: folded_projection_def load_events_def events_of_def set_instances_def)

lemma live_set_instances:
  assumes "wf_db env sn i t db" "\<And>r. ir_id (f r) = ir_id r"
    "\<And>r. C r \<longleftrightarrow> C' (live_instance env r)" "\<And>r. live_instance env (f r) = g (live_instance env r)"
  shows "live_projection env i (snd (set_instances (\<lambda>r. ir_id r = i \<and> C r) f db)) =
    (if C' (rp_instance (live_projection env i db)) then upd_inst g (live_projection env i db) else live_projection env i db)"
proof -
  obtain r where r: "find_instance db i = Some r" using assms(1) by (auto simp: wf_db_def)
  have i: "ir_id r = i" using r by (auto simp: find_instance_def dest: find_SomeD)
  have u: "live_instance env (q\<lparr>ir_updated_at := u\<rparr>) = live_instance env q" for q u
    by (simp add: live_instance_def)
  have a: "activities_of i (snd (set_instances P f db)) = activities_of i db" for P
    by (simp add: activities_of_def set_instances_def)
  show ?thesis
    by (simp add: live_projection_def find_instance_set assms r i a u upd_inst_def)
qed

lemma set_instances_result:
  assumes "wf_db env sn i t db" "\<And>r. C r \<longleftrightarrow> C' (live_instance env r)"
  shows "fst (set_instances (\<lambda>r. ir_id r = i \<and> C r) f db) \<longleftrightarrow> C' (rp_instance (live_projection env i db))"
proof -
  obtain r where r: "find_instance db i = Some r" using assms(1) by (auto simp: wf_db_def)
  from find_SomeD [OF r [unfolded find_instance_def]] have m: "r \<in> set (db_instances db)" "ir_id r = i" by auto
  have u: "x = r" if "x \<in> set (db_instances db)" "ir_id x = i" for x
    using find_key_distinct [of ir_id "db_instances db" x] assms(1) that r by (simp add: wf_db_def find_instance_def)
  have "(\<exists>x\<in>set (db_instances db). ir_id x = i \<and> C x) \<longleftrightarrow> C r" using m u by blast
  with r assms(2) [of r] show ?thesis by (simp add: set_instances_def count_where_pos live_projection_def)
qed

lemma hoare_set_instances:
  assumes "\<And>db. op db = set_instances (\<lambda>r. ir_id r = i \<and> C r) (f (db_now db)) db"
    and "\<And>r. ir_id (f t r) = ir_id r" "\<And>r. ir_definition_snapshot (f t r) = ir_definition_snapshot r"
    and "\<And>r. C r \<longleftrightarrow> C' (live_instance env r)" "\<And>r. live_instance env (f t r) = g (live_instance env r)"
  shows "hoare (St env sn i t L R) (tx_op op)
    (\<lambda>b db. b = C' (rp_instance L) \<and> St env sn i t (if C' (rp_instance L) then upd_inst g L else L) R db)"
proof (rule hoare_op)
  fix db x db'
  assume s: "St env sn i t L R db" and "op db = (x, db')"
  then have o: "set_instances (\<lambda>r. ir_id r = i \<and> C r) (f t) db = (x, db')" and w: "wf_db env sn i t db"
    by (auto simp: assms(1) St_def wf_db_def)
  from o have e: "x = fst (set_instances (\<lambda>r. ir_id r = i \<and> C r) (f t) db)"
      "db' = snd (set_instances (\<lambda>r. ir_id r = i \<and> C r) (f t) db)" by simp_all
  show "x = C' (rp_instance L) \<and> St env sn i t (if C' (rp_instance L) then upd_inst g L else L) R db'"
    using s set_instances_result [OF w, where C = C and C' = C' and f = "f t", OF assms(4)]
      live_set_instances [OF w, where C = C and C' = C' and f = "f t" and g = g, OF assms(2,4,5)]
      wf_set_instances [OF w assms(2,3)]
    unfolding e by (simp add: St_def folded_set_instances)
qed

lemma hoare_update_current:
  assumes "ri_status (rp_instance L) = WsActive"
  shows "hoare (St env sn i t L R) (tx_op (update_current_activity i a))
    (\<lambda>_. St env sn i t (upd_inst (\<lambda>x. x\<lparr>ri_current_activity_id := Some (uuid_str env a)\<rparr>) L) R)"
  by (rule hoare_post [OF hoare_set_instances [where C = "\<lambda>r. ir_status r = 2" and
        C' = "\<lambda>x. ri_status x = WsActive" and f = "\<lambda>_ r. r\<lparr>ir_current_activity_id := Some a\<rparr>" and
        g = "\<lambda>x. x\<lparr>ri_current_activity_id := Some (uuid_str env a)\<rparr>"]])
    (use assms in \<open>auto simp: update_current_activity_def live_instance_def\<close>)

lemma hoare_clear_current:
  "hoare (St env sn i t L R) (tx_op (clear_current_activity i))
    (\<lambda>_. St env sn i t (upd_inst (\<lambda>x. x\<lparr>ri_current_activity_id := None\<rparr>) L) R)"
proof (rule hoare_op)
  fix db x db'
  assume "St env sn i t L R db" "clear_current_activity i db = (x, db')"
  then have w: "wf_db env sn i t db" and s: "St env sn i t L R db"
    and e: "db' = snd (set_instances (\<lambda>r. ir_id r = i \<and> True) (\<lambda>r. r\<lparr>ir_current_activity_id := None\<rparr>) db)"
    by (auto simp: St_def clear_current_activity_def)
  have "live_projection env i db' = upd_inst (\<lambda>x. x\<lparr>ri_current_activity_id := None\<rparr>) L"
    unfolding e using live_set_instances [OF w, where C = "\<lambda>r. True" and C' = "\<lambda>x. True" and
        f = "\<lambda>r. r\<lparr>ir_current_activity_id := None\<rparr>" and g = "\<lambda>x. x\<lparr>ri_current_activity_id := None\<rparr>"] s
    by (simp add: live_instance_def St_def)
  moreover have "wf_db env sn i t db'" unfolding e by (rule wf_set_instances [OF w]) simp_all
  ultimately show "St env sn i t (upd_inst (\<lambda>x. x\<lparr>ri_current_activity_id := None\<rparr>) L) R db'"
    using s e by (simp add: St_def folded_set_instances)
qed

lemma hoare_complete_workflow:
  "hoare (St env sn i t L R) (tx_op (complete_workflow_cas i (wr_as_i16 res)))
    (\<lambda>b db. b \<longrightarrow> ri_status (rp_instance L) = WsActive \<and>
       St env sn i t (upd_inst (\<lambda>x. x\<lparr>ri_status := WsCompleted, ri_result := Some res, ri_completed_at := Some t,
         ri_current_activity_id := None\<rparr>) L) R db)"
  by (rule hoare_post [OF hoare_set_instances [where C = "\<lambda>r. ir_status r = 2" and
        C' = "\<lambda>x. ri_status x = WsActive" and
        f = "\<lambda>t r. r\<lparr>ir_status := 3, ir_result := Some (wr_as_i16 res), ir_completed_at := Some t, ir_current_activity_id := None\<rparr>" and
        g = "\<lambda>x. x\<lparr>ri_status := WsCompleted, ri_result := Some res, ri_completed_at := Some t, ri_current_activity_id := None\<rparr>"]])
    (auto simp: complete_workflow_cas_def live_instance_def)

lemma hoare_error_workflow:
  assumes "ri_status (rp_instance L) = WsActive"
  shows "hoare (St env sn i t L R) (tx_op (error_workflow i))
    (\<lambda>_. St env sn i t (upd_inst (\<lambda>x. x\<lparr>ri_status := WsErrored\<rparr>) L) R)"
  by (rule hoare_post [OF hoare_set_instances [where C = "\<lambda>r. ir_status r = 2" and
        C' = "\<lambda>x. ri_status x = WsActive" and f = "\<lambda>_ r. r\<lparr>ir_status := 4\<rparr>" and g = "\<lambda>x. x\<lparr>ri_status := WsErrored\<rparr>"]])
    (use assms in \<open>auto simp: error_workflow_def live_instance_def ws_from_i16_def\<close>)

lemma hoare_op_res: "(\<And>db x db'. P db \<Longrightarrow> f db = (Inr x, db') \<Longrightarrow> Q x db') \<Longrightarrow> hoare P (tx_op_res f) Q"
  by (simp add: hoare_def tx_op_res_def)

lemma hoare_activate:
  assumes "hoare P (tx_op (set_instances (\<lambda>r. ir_id r = i \<and> C r) f)) Q"
  shows "hoare P (tx_op_res (activate_instances i C f)) Q"
proof (rule hoare_op_res)
  fix db x db'
  assume "P db" "activate_instances i C f db = (Inr x, db')"
  then have "tx_op (set_instances (\<lambda>r. ir_id r = i \<and> C r) f) db = Some (Inr x, db')"
    by (auto simp: activate_instances_def tx_op_def split: if_splits prod.splits)
  with \<open>P db\<close> show "Q x db'" by (rule hoareD [OF assms])
qed

lemma hoare_reactivate:
  "hoare (St env sn i t L R) (tx_op_res (reactivate_workflow i))
    (\<lambda>b db. b \<longrightarrow> St env sn i t (upd_inst (\<lambda>x. x\<lparr>ri_status := WsActive, ri_result := None, ri_completed_at := None\<rparr>) L) R db)"
  unfolding reactivate_workflow_def [abs_def]
  by (rule hoare_activate, rule hoare_post [OF hoare_set_instances [where C = "\<lambda>r. ir_status r = 3 \<and> ir_result r = Some 3" and
        C' = "\<lambda>x. ri_status x = WsCompleted \<and> ri_result x = Some WrReturned" and
        f = "\<lambda>_ r. r\<lparr>ir_status := 2, ir_result := None, ir_completed_at := None\<rparr>" and
        g = "\<lambda>x. x\<lparr>ri_status := WsActive, ri_result := None, ri_completed_at := None\<rparr>"]])
    (auto simp: live_instance_def bind_eq_Some_conv)

text \<open>Writing the context or the side-effect flag leaves the projection alone.\<close>

lemma live_set_instances_frame:
  assumes "\<And>r. ir_id (f r) = ir_id r" "\<And>r. live_instance env (f r) = live_instance env r"
  shows "live_projection env i (snd (set_instances P f db)) = live_projection env i db"
proof -
  have u: "live_instance env (q\<lparr>ir_updated_at := u\<rparr>) = live_instance env q" for q u by (simp add: live_instance_def)
  have a: "activities_of i (snd (set_instances P f db)) = activities_of i db"
    by (simp add: activities_of_def set_instances_def)
  show ?thesis by (simp add: live_projection_def find_instance_set assms a u split: option.split)
qed

lemma St_set_instances_frame:
  assumes "St env sn i t L R db" "\<And>r. ir_id (f r) = ir_id r" "\<And>r. live_instance env (f r) = live_instance env r"
    "\<And>r. ir_definition_snapshot (f r) = ir_definition_snapshot r"
  shows "St env sn i t L R (snd (set_instances P f db))"
  using assms by (simp add: St_def live_set_instances_frame folded_set_instances wf_set_instances)

lemma hoare_merge_context: "hoare (St env sn i t L R) (tx_op_res (merge_instance_context j p)) (\<lambda>_. St env sn i t L R)"
proof -
  have "St env sn i t L R (snd (set_instances P (\<lambda>r. r\<lparr>ir_context := c r\<rparr>) db))" if "St env sn i t L R db" for P c db
    by (rule St_set_instances_frame [OF that]) (simp_all add: live_instance_def)
  then show ?thesis
    by (auto simp: hoare_def tx_op_res_def merge_instance_context_def Let_def split: option.splits)
qed

lemma hoare_side_effects: "hoare (St env sn i t L R) (tx_op (mark_side_effects_executed j)) (\<lambda>_. St env sn i t L R)"
proof (rule hoare_op)
  fix db x db'
  assume s: "St env sn i t L R db" and "mark_side_effects_executed j db = (x, db')"
  then have "db' = snd (set_instances (\<lambda>r. ir_id r = j \<and> \<not> ir_side_effects_executed r) (\<lambda>r. r\<lparr>ir_side_effects_executed := True\<rparr>) db)"
    by (simp add: mark_side_effects_executed_def)
  then show "St env sn i t L R db'"
    using St_set_instances_frame [OF s, of "\<lambda>r. r\<lparr>ir_side_effects_executed := True\<rparr>"] by (simp add: live_instance_def)
qed

section \<open>Activity rows\<close>

lemma map_update_where_on:
  assumes "\<And>r. r \<in> set rs \<Longrightarrow> P' (g r) = P r" "\<And>r. r \<in> set rs \<Longrightarrow> P r \<Longrightarrow> g (f r) = f' (g r)"
  shows "map g (update_where P f rs) = update_where P' f' (map g rs)"
  using assms by (induction rs) auto

lemma activities_of_set:
  assumes "\<And>r. ar_workflow_instance_id (f r) = ar_workflow_instance_id r"
  shows "activities_of i (snd (set_activities P f db)) =
    update_where P (\<lambda>r. (f r)\<lparr>ar_updated_at := db_now db\<rparr>) (activities_of i db)"
  by (simp add: activities_of_def set_activities_def filter_update_where [where k = ar_workflow_instance_id] assms)

text \<open>An assignment to activity rows that keeps keys, and whose rows are not active unless they were.\<close>

definition act_update :: "(activity_row \<Rightarrow> activity_row) \<Rightarrow> bool" where
  "act_update f \<longleftrightarrow> (\<forall>r. ar_id (f r) = ar_id r \<and> ar_workflow_instance_id (f r) = ar_workflow_instance_id r \<and>
     ar_created_at (f r) = ar_created_at r \<and> ar_round (f r) = ar_round r \<and>
     (ar_status (f r) = 2 \<longrightarrow> ar_status r = 2 \<and> ar_review_notes (f r) = ar_review_notes r))"

lemma wf_set_activities:
  assumes w: "wf_db env sn i t db" and f: "act_update f"
  shows "wf_db env sn i t (snd (set_activities P f db))"
proof -
  let ?f = "\<lambda>r. (f r)\<lparr>ar_updated_at := db_now db\<rparr>" and ?db = "snd (set_activities P f db)"
  have a: "activities_of i ?db = update_where P ?f (activities_of i db)"
    by (rule activities_of_set) (use f in \<open>simp add: act_update_def\<close>)
  have ids: "map ar_id (db_activities ?db) = map ar_id (db_activities db)"
    by (simp add: set_activities_def map_key_update_where f [unfolded act_update_def])
  have c: "map ar_created_at (activities_of i ?db) = map ar_created_at (activities_of i db)"
    unfolding a by (rule map_key_update_where) (simp add: f [unfolded act_update_def])
  have "\<forall>r\<in>set (activities_of i ?db). ar_created_at r \<le> t \<and> in_i32 (ar_round r) \<and>
      (ar_status r = 2 \<longrightarrow> ar_review_notes r = None)"
    unfolding a using w f by (auto simp: wf_db_def act_update_def dest!: in_update_whereE split: if_splits)
  moreover have "\<forall>r\<in>set (db_activities ?db). 0 < ar_id r \<and> ar_id r < db_next_uuid ?db"
    using w f by (auto simp: wf_db_def act_update_def set_activities_def dest!: in_update_whereE split: if_splits)
  ultimately show ?thesis using w
    by (simp add: wf_db_def ids c) (simp add: set_activities_def events_of_def find_instance_def)
qed

lemma hoare_set_activities:
  assumes op: "\<And>db. op db = set_activities P (f (db_now db)) db" and f: "act_update (f t)"
    and P: "\<And>r. ar_workflow_instance_id r = i \<Longrightarrow> P' (live_activity env r) = P r"
    and g: "\<And>r. P r \<Longrightarrow> live_activity env (f t r) = g (live_activity env r)"
  shows "hoare (St env sn i t L R) (tx_op op)
    (\<lambda>n db. St env sn i t (upd_acts (update_where P' g) L) R db \<and>
       (n = 0 \<longrightarrow> upd_acts (update_where P' g) L = L))"
proof (rule hoare_op)
  fix db x db'
  assume s: "St env sn i t L R db" and "op db = (x, db')"
  then have o: "set_activities P (f t) db = (x, db')" and w: "wf_db env sn i t db"
    by (auto simp: op St_def wf_db_def)
  have u: "live_activity env (q\<lparr>ar_updated_at := u\<rparr>) = live_activity env q" for q u
    by (simp add: live_activity_def)
  have m: "map (live_activity env) (activities_of i db') = update_where P' g (map (live_activity env) (activities_of i db))"
    using o activities_of_set [of "f t" i P db] f
    by (simp add: act_update_def) (rule map_update_where_on, auto simp: P g u activities_of_def)
  have fi: "find_instance db' i = find_instance db i" using o by (auto simp: set_activities_def find_instance_def)
  have l: "live_projection env i db' = upd_acts (update_where P' g) L"
    using s m fi by (auto simp: St_def live_projection_def upd_acts_def wf_db_def)
  have "upd_acts (update_where P' g) L = L" if "x = 0"
  proof -
    have "\<forall>r\<in>set (db_activities db). \<not> P r" using o that by (auto simp: set_activities_def count_where_0)
    then have "\<forall>a\<in>set (map (live_activity env) (activities_of i db)). \<not> P' a"
      by (auto simp: activities_of_def P)
    with s show ?thesis
      by (auto simp: St_def live_projection_def upd_acts_def wf_db_def update_where_cong_none)
  qed
  moreover have "wf_db env sn i t db'" using wf_set_activities [OF w f, of P] o by simp
  moreover have "folded_projection sn i db' = R"
    using s o by (auto simp: St_def folded_projection_def load_events_def events_of_def set_activities_def)
  ultimately show "St env sn i t (upd_acts (update_where P' g) L) R db' \<and> (x = 0 \<longrightarrow> upd_acts (update_where P' g) L = L)"
    using l by (simp add: St_def)
qed

text \<open>The compare-and-set on one active activity: when it succeeds, whatever activity of the instance
  carries the id was active.\<close>

abbreviation active_at :: "string \<Rightarrow> replayed_activity \<Rightarrow> bool" where
  "active_at u a \<equiv> ra_id a = u \<and> ra_status a = AsActive"

definition active_if_present :: "string \<Rightarrow> replayed_projection \<Rightarrow> bool" where
  "active_if_present u L \<longleftrightarrow> (\<forall>a\<in>set (rp_activities L). ra_id a = u \<longrightarrow> ra_status a = AsActive)"

lemma cas_active:
  assumes "St env sn i t L R db" "uuid_text_ok env" "0 < count_where (\<lambda>r. ar_id r = a \<and> ar_status r = 2) (db_activities db)"
  shows "active_if_present (uuid_str env a) L"
proof -
  from assms(3) obtain r where r: "r \<in> set (db_activities db)" "ar_id r = a" "ar_status r = 2"
    by (auto simp: count_where_pos)
  have x: "x = r" if "x \<in> set (db_activities db)" "ar_id x = a" for x
    using find_key_distinct [of ar_id "db_activities db" x] find_key_distinct [of ar_id "db_activities db" r] assms(1) that r
    by (simp add: St_def wf_db_def)
  show ?thesis
    unfolding active_if_present_def
  proof (intro ballI impI)
    fix y
    assume "y \<in> set (rp_activities L)" "ra_id y = uuid_str env a"
    then obtain q where q: "q \<in> set (db_activities db)" "y = live_activity env q"
      using assms(1) by (auto simp: St_def live_projection_def initial_projection_def activities_of_def split: option.splits)
    with \<open>ra_id y = uuid_str env a\<close> have "ar_id q = a" by (simp add: live_activity_def uuid_str_inject assms(2))
    then have "q = r" using x q by blast
    with q r show "ra_status y = AsActive" by (simp add: live_activity_def)
  qed
qed

lemma hoare_activity_cas:
  assumes op: "\<And>db. op db = (case set_activities (\<lambda>r. ar_id r = a \<and> ar_status r = 2) (f (db_now db)) db of (n, db') \<Rightarrow> (0 < n, db'))"
    and f: "act_update (f t)" and u: "uuid_text_ok env"
    and g: "\<And>r. ar_status r = 2 \<Longrightarrow> live_activity env (f t r) = g (live_activity env r)"
  shows "hoare (St env sn i t L R) (tx_op op)
    (\<lambda>b db. St env sn i t (upd_acts (update_where (active_at (uuid_str env a)) g) L) R db \<and>
       (b \<longrightarrow> active_if_present (uuid_str env a) L) \<and>
       (\<not> b \<longrightarrow> upd_acts (update_where (active_at (uuid_str env a)) g) L = L))"
proof (rule hoare_op)
  fix db x db'
  assume s: "St env sn i t L R db" and o: "op db = (x, db')"
  obtain n where n: "set_activities (\<lambda>r. ar_id r = a \<and> ar_status r = 2) (f (db_now db)) db = (n, db')" "x \<longleftrightarrow> 0 < n"
    using o by (auto simp: op split: prod.splits)
  have h: "hoare (St env sn i t L R) (tx_op (\<lambda>db. set_activities (\<lambda>r. ar_id r = a \<and> ar_status r = 2) (f (db_now db)) db))
    (\<lambda>n db. St env sn i t (upd_acts (update_where (active_at (uuid_str env a)) g) L) R db \<and>
       (n = 0 \<longrightarrow> upd_acts (update_where (active_at (uuid_str env a)) g) L = L))"
    by (rule hoare_set_activities [where f = f, OF refl f]) (use u g in \<open>auto simp: live_activity_def uuid_str_inject\<close>)
  have "St env sn i t (upd_acts (update_where (active_at (uuid_str env a)) g) L) R db' \<and>
       (n = 0 \<longrightarrow> upd_acts (update_where (active_at (uuid_str env a)) g) L = L)"
    using hoareD [OF h s, of n db'] n(1) by (simp add: tx_op_def)
  moreover have "x \<longrightarrow> active_if_present (uuid_str env a) L"
    using cas_active [OF s u, of a] n by (auto simp: set_activities_def)
  ultimately show "St env sn i t (upd_acts (update_where (active_at (uuid_str env a)) g) L) R db' \<and>
      (x \<longrightarrow> active_if_present (uuid_str env a) L) \<and>
      (\<not> x \<longrightarrow> upd_acts (update_where (active_at (uuid_str env a)) g) L = L)"
    using n(2) by simp
qed

lemma hoare_complete_activity_cas:
  assumes "uuid_text_ok env"
  shows "hoare (St env sn i t L R) (tx_op (complete_activity_cas a res by notes))
    (\<lambda>b db. St env sn i t (upd_acts (update_where (active_at (uuid_str env a)) (\<lambda>x. x\<lparr>ra_status := AsCompleted,
         ra_result := map_option activity_result_to_str res, ra_review_notes := notes,
         ra_reviewed_by := Some (show_int by), ra_reviewed_at := Some t\<rparr>)) L) R db \<and>
       (b \<longrightarrow> active_if_present (uuid_str env a) L) \<and>
       (\<not> b \<longrightarrow> upd_acts (update_where (active_at (uuid_str env a)) (\<lambda>x. x\<lparr>ra_status := AsCompleted,
         ra_result := map_option activity_result_to_str res, ra_review_notes := notes,
         ra_reviewed_by := Some (show_int by), ra_reviewed_at := Some t\<rparr>)) L = L))"
  by (rule hoare_activity_cas [where f = "\<lambda>t r. r\<lparr>ar_status := 3, ar_result := res, ar_reviewed_by := Some by,
        ar_reviewed_at := Some t, ar_review_notes := notes\<rparr>"])
    (use assms in \<open>auto simp: complete_activity_cas_def act_update_def live_activity_def as_from_i16_def\<close>)

lemma hoare_skip_activity:
  assumes "uuid_text_ok env"
  shows "hoare (St env sn i t L R) (tx_op (skip_activity_for_timeout a))
    (\<lambda>b db. St env sn i t (upd_acts (update_where (active_at (uuid_str env a)) (\<lambda>x. x\<lparr>ra_status := AsSkipped\<rparr>)) L) R db)"
  by (rule hoare_post [OF hoare_activity_cas [where f = "\<lambda>t r. r\<lparr>ar_status := 4\<rparr>" and g = "\<lambda>x. x\<lparr>ra_status := AsSkipped\<rparr>"]])
    (use assms in \<open>auto simp: skip_activity_for_timeout_def act_update_def live_activity_def as_from_i16_def\<close>)

lemma hoare_assignee_role:
  assumes "uuid_text_ok env"
  shows "hoare (St env sn i t L R) (tx_op (update_activity_assignee_role a role))
    (\<lambda>b db. St env sn i t (upd_acts (update_where (active_at (uuid_str env a)) (\<lambda>x. x\<lparr>ra_assignee_role := Some role\<rparr>)) L) R db \<and>
       (b \<longrightarrow> active_if_present (uuid_str env a) L) \<and>
       (\<not> b \<longrightarrow> upd_acts (update_where (active_at (uuid_str env a)) (\<lambda>x. x\<lparr>ra_assignee_role := Some role\<rparr>)) L = L))"
  by (rule hoare_activity_cas [where f = "\<lambda>t r. r\<lparr>ar_assignee_role := Some role\<rparr>"])
    (use assms in \<open>auto simp: update_activity_assignee_role_def act_update_def live_activity_def\<close>)

lemma hoare_assignee:
  assumes "uuid_text_ok env"
  shows "hoare (St env sn i t L R) (tx_op (update_activity_assignee a who))
    (\<lambda>b db. St env sn i t (upd_acts (update_where (active_at (uuid_str env a))
       (\<lambda>x. x\<lparr>ra_assignee_id := map_option show_int who\<rparr>)) L) R db)"
  by (rule hoare_post [OF hoare_activity_cas [where f = "\<lambda>t r. r\<lparr>ar_assignee_id := who\<rparr>" and
        g = "\<lambda>x. x\<lparr>ra_assignee_id := map_option show_int who\<rparr>"]])
    (use assms in \<open>auto simp: update_activity_assignee_def act_update_def live_activity_def\<close>)

lemma hoare_skip_others:
  assumes u: "uuid_text_ok env"
  shows "hoare (St env sn i t L R) (tx_op (skip_other_active_activities i ex))
    (\<lambda>n db. St env sn i t (upd_acts (update_where (\<lambda>a. ra_id a \<noteq> uuid_str env ex \<and> ra_status a = AsActive)
         (\<lambda>a. a\<lparr>ra_status := AsSkipped\<rparr>)) L) R db \<and>
       (n = 0 \<longrightarrow> upd_acts (update_where (\<lambda>a. ra_id a \<noteq> uuid_str env ex \<and> ra_status a = AsActive)
         (\<lambda>a. a\<lparr>ra_status := AsSkipped\<rparr>)) L = L))"
proof (rule hoare_op)
  let ?op = "\<lambda>db. set_activities (\<lambda>r. ar_workflow_instance_id r = i \<and> ar_id r \<noteq> ex \<and> ar_status r = 2) (\<lambda>r. r\<lparr>ar_status := 4\<rparr>) db"
  let ?Q = "\<lambda>n db. St env sn i t (upd_acts (update_where (\<lambda>a. ra_id a \<noteq> uuid_str env ex \<and> ra_status a = AsActive)
         (\<lambda>a. a\<lparr>ra_status := AsSkipped\<rparr>)) L) R db \<and>
       (n = 0 \<longrightarrow> upd_acts (update_where (\<lambda>a. ra_id a \<noteq> uuid_str env ex \<and> ra_status a = AsActive)
         (\<lambda>a. a\<lparr>ra_status := AsSkipped\<rparr>)) L = L)"
  fix db x db'
  assume s: "St env sn i t L R db" and o: "skip_other_active_activities i ex db = (x, db')"
  obtain db1 where d: "same_projection db db1" "?op db1 = (x, db')"
    using o unfolding skip_other_active_activities_def Let_def
    by (rule that [rotated]) (simp add: same_projection_def set_timers_def)
  have h: "hoare (St env sn i t L R) (tx_op ?op) ?Q"
    by (rule hoare_set_activities [where f = "\<lambda>_ r. r\<lparr>ar_status := 4\<rparr>" and
          P = "\<lambda>r. ar_workflow_instance_id r = i \<and> ar_id r \<noteq> ex \<and> ar_status r = 2"])
      (use u in \<open>auto simp: live_activity_def uuid_str_inject act_update_def as_from_i16_def\<close>)
  show "?Q x db'"
    using hoareD [OF h St_same [OF d(1) s], of x db'] d(2) by (simp add: tx_op_def)
qed

section \<open>A new activity\<close>

lemma live_ids_fresh:
  assumes "St env sn i t L R db" "uuid_text_ok env"
  shows "uuid_str env (db_next_uuid db) \<notin> ra_id ` set (rp_activities L)"
proof -
  have n: "\<forall>r\<in>set (db_activities db). db_next_uuid db \<noteq> ar_id r" using assms(1) by (auto simp: St_def wf_db_def)
  obtain r where "find_instance db i = Some r" using assms(1) by (auto simp: St_def wf_db_def)
  then have "ra_id ` set (rp_activities L) = (\<lambda>r. uuid_str env (ar_id r)) ` set (activities_of i db)"
    using assms(1) by (auto simp: St_def live_projection_def live_activity_def image_image)
  with n show ?thesis by (auto simp: uuid_str_inject assms(2) activities_of_def)
qed

lemma wf_insert_activity:
  assumes "wf_db env sn i t db" "in_i32 r"
  shows "wf_db env sn i t (snd (insert_activity tn i node ty role r db))"
  using assms
  by (auto simp: wf_db_def insert_activity_def fresh_def Let_def activities_of_def events_of_def find_instance_def
      sorted_wrt_append less_Suc_eq)

lemma hoare_insert_activity:
  assumes "uuid_text_ok env" "in_i32 r"
  shows "hoare (St env sn i t L R) (tx_op (insert_activity tn i node ty role r))
    (\<lambda>row db. St env sn i t (upd_acts (\<lambda>xs. xs @ [live_activity env row]) L) R db \<and>
       uuid_str env (ar_id row) \<notin> ra_id ` set (rp_activities L) \<and>
       live_activity env row = \<lparr>ra_id = uuid_str env (ar_id row), ra_activity_definition_id = node, ra_activity_type = ty,
         ra_status = AsActive, ra_assignee_role = role, ra_assignee_id = None, ra_result = None,
         ra_review_notes = None, ra_reviewed_by = None, ra_reviewed_at = None, ra_round = r\<rparr>)"
proof (rule hoare_op)
  fix db row db'
  assume s: "St env sn i t L R db" and o: "insert_activity tn i node ty role r db = (row, db')"
  have row: "row = \<lparr>ar_id = db_next_uuid db, ar_tenant_id = tn, ar_workflow_instance_id = i, ar_activity_definition_id = node,
      ar_activity_type = at_as_i16 ty, ar_status = 2, ar_assignee_role = role, ar_assignee_id = None,
      ar_result = None, ar_review_notes = None, ar_reviewed_by = None, ar_reviewed_at = None,
      ar_round = r, ar_created_at = db_now db, ar_updated_at = db_now db\<rparr>"
    and db': "db' = db\<lparr>db_next_uuid := Suc (db_next_uuid db), db_activities := db_activities db @ [row]\<rparr>"
    using o by (auto simp: insert_activity_def fresh_def Let_def)
  have "wf_db env sn i t db'" using wf_insert_activity [of env sn i t db r tn node ty role] s o assms by (simp add: St_def)
  moreover have "live_projection env i db' = upd_acts (\<lambda>xs. xs @ [live_activity env row]) L"
    using s by (auto simp: St_def wf_db_def live_projection_def db' row find_instance_def activities_of_def upd_acts_def)
  moreover have "folded_projection sn i db' = R"
    using s by (simp add: St_def folded_projection_def load_events_def events_of_def db')
  moreover have "live_activity env row = \<lparr>ra_id = uuid_str env (ar_id row), ra_activity_definition_id = node, ra_activity_type = ty,
         ra_status = AsActive, ra_assignee_role = role, ra_assignee_id = None, ra_result = None,
         ra_review_notes = None, ra_reviewed_by = None, ra_reviewed_at = None, ra_round = r\<rparr>"
    by (simp add: row live_activity_def)
  ultimately show "St env sn i t (upd_acts (\<lambda>xs. xs @ [live_activity env row]) L) R db' \<and>
       uuid_str env (ar_id row) \<notin> ra_id ` set (rp_activities L) \<and>
       live_activity env row = \<lparr>ra_id = uuid_str env (ar_id row), ra_activity_definition_id = node, ra_activity_type = ty,
         ra_status = AsActive, ra_assignee_role = role, ra_assignee_id = None, ra_result = None,
         ra_review_notes = None, ra_reviewed_by = None, ra_reviewed_at = None, ra_round = r\<rparr>"
    using live_ids_fresh [OF s assms(1)] by (simp add: St_def row)
qed

end
