(* ===== verification/Flow_Sync_Engine.thy ===== *)
theory Flow_Sync_Engine
  imports Flow_Sync Flow_Runtime_Facts
begin

text \<open>
  The refinement of the engine internals: every pairing of row writes with log entries that
  \<open>apply_outcome\<close> performs keeps the live projection in agreement with the folded one.
\<close>

section \<open>Agreement\<close>

text \<open>
  Two projections agree when they are equal, except that on a definition with a ParallelJoin the
  pointer to the current activity may differ: the engine clears it on a join that still waits
  without writing a fact.
\<close>

definition agrees :: "bool \<Rightarrow> replayed_projection \<Rightarrow> replayed_projection \<Rightarrow> bool" where
  "agrees exact L R \<longleftrightarrow> rp_activities L = rp_activities R \<and>
     (rp_instance L)\<lparr>ri_current_activity_id := None\<rparr> = (rp_instance R)\<lparr>ri_current_activity_id := None\<rparr> \<and>
     (exact \<longrightarrow> ri_current_activity_id (rp_instance L) = ri_current_activity_id (rp_instance R))"

definition join_free :: "definition_snapshot \<Rightarrow> bool" where
  "join_free sn \<longleftrightarrow> (\<forall>n\<in>set (ds_nodes sn). kind n \<noteq> KParallelJoin)"

lemma agrees_refl [simp]: "agrees e L L"
  by (simp add: agrees_def)

lemma replayed_instance_split:
  "(x :: replayed_instance)\<lparr>ri_current_activity_id := None\<rparr> = y\<lparr>ri_current_activity_id := None\<rparr> \<longleftrightarrow>
     ri_status x = ri_status y \<and> ri_result x = ri_result y \<and> ri_started_at x = ri_started_at y \<and>
     ri_completed_at x = ri_completed_at y"
  by (cases x; cases y) auto

lemma agrees_exact: "agrees True L R \<longleftrightarrow> L = R"
proof
  assume "agrees True L R"
  then show "L = R"
    unfolding agrees_def replayed_instance_split
    by (cases "rp_instance L"; cases "rp_instance R"; cases L; cases R) simp
qed simp

lemmas agrees_iff = agrees_def replayed_instance_split

text \<open>The reducer respects agreement.\<close>

lemma agrees_replay:
  assumes "agrees e L R"
  shows "agrees e (replay_started t L) (replay_started t R)"
    and "agrees e (replay_scheduled sn p L) (replay_scheduled sn p R)"
    and "agrees e (replay_signal t p L) (replay_signal t p R)"
    and "agrees e (replay_completed_activity t p L) (replay_completed_activity t p R)"
    and "agrees e (replay_skipped p L) (replay_skipped p R)"
    and "agrees e (replay_completed t p L) (replay_completed t p R)"
    and "agrees e (replay_errored L) (replay_errored R)"
    and "agrees e (replay_returned sn p L) (replay_returned sn p R)"
    and "agrees e (replay_resumed L) (replay_resumed R)"
    and "agrees e (replay_reactivated L) (replay_reactivated R)"
    and "agrees e (replay_escalated p L) (replay_escalated p R)"
    and "agrees e (replay_fanned_out L) (replay_fanned_out R)"
  using assms unfolding agrees_iff
  by (simp_all add: replay_started_def replay_scheduled_def replay_signal_def replay_completed_activity_def
      replay_skipped_def replay_completed_def replay_errored_def replay_returned_def replay_resumed_def
      replay_reactivated_def replay_escalated_def replay_fanned_out_def Let_def split: option.split)

lemma agrees_log_step: "agrees e L R \<Longrightarrow> agrees e (log_step sn t ty p L) (log_step sn t ty p R)"
  unfolding log_step_def replay_event_def Let_def by (simp add: agrees_replay)

section \<open>The invariant of a handler\<close>

definition Syn ::
  "('p, 'c, 'v) env \<Rightarrow> definition_snapshot \<Rightarrow> uuid \<Rightarrow> timestamp \<Rightarrow> (replayed_projection \<Rightarrow> bool) \<Rightarrow> db \<Rightarrow> bool" where
  "Syn env sn i t q db \<longleftrightarrow> (\<exists>L R. St env sn i t L R db \<and> agrees (join_free sn) L R \<and> q L)"

lemma SynI: "St env sn i t L R db \<Longrightarrow> agrees (join_free sn) L R \<Longrightarrow> q L \<Longrightarrow> Syn env sn i t q db"
  by (auto simp: Syn_def)

lemma Syn_mono: "Syn env sn i t q db \<Longrightarrow> (\<And>L. q L \<Longrightarrow> q' L) \<Longrightarrow> Syn env sn i t q' db"
  by (auto simp: Syn_def)

lemma hoare_Syn:
  assumes "\<And>L R. agrees (join_free sn) L R \<Longrightarrow> q L \<Longrightarrow> hoare (St env sn i t L R) m Q"
  shows "hoare (Syn env sn i t q) m Q"
  using assms by (auto simp: hoare_def Syn_def)

text \<open>A body whose effect on the live projection is what the reducer does with what it logs.\<close>

lemma hoare_Syn_step:
  assumes "\<And>L R. q L \<Longrightarrow> hoare (St env sn i t L R) m
      (\<lambda>_ db. \<exists>ty p L'. St env sn i t L' (log_step sn t ty p R) db \<and> agrees (join_free sn) L' (log_step sn t ty p L) \<and> q' L')"
  shows "hoare (Syn env sn i t q) m (\<lambda>_. Syn env sn i t q')"
proof (rule hoare_Syn)
  fix L R
  assume a: "agrees (join_free sn) L R" and q: "q L"
  have tr: "agrees e L' R'" if "agrees e L' M" "agrees e M R'" for e L' M R'
    using that by (auto simp: agrees_iff)
  show "hoare (St env sn i t L R) m (\<lambda>_. Syn env sn i t q')"
    by (rule hoare_post [OF assms [OF q]]) (use a in \<open>auto intro!: SynI dest: tr [OF _ agrees_log_step]\<close>)
qed

lemma hoare_step_done:
  assumes "hoare P m (\<lambda>_. St env sn i t L' (log_step sn t ty p R))" "agrees (join_free sn) L' (log_step sn t ty p L)" "q' L'"
  shows "hoare P m (\<lambda>_ db. \<exists>ty p L'. St env sn i t L' (log_step sn t ty p R) db \<and> agrees (join_free sn) L' (log_step sn t ty p L) \<and> q' L')"
  by (rule hoare_post [OF assms(1)]) (use assms(2,3) in blast)

section \<open>Payloads\<close>

lemma pstr_obj: "distinct (map fst kvs) \<Longrightarrow> pstr (obj kvs) k = Option.bind (map_of kvs k) as_str"
  by (simp add: pstr_def json_get_obj_distinct)

lemma pi32_obj: "distinct (map fst kvs) \<Longrightarrow> pi32 (obj kvs) k = map_option as_i32 (Option.bind (map_of kvs k) as_i64)"
  by (simp add: pi32_def json_get_obj_distinct)

lemma as_i64_i32: "in_i32 r \<Longrightarrow> as_i64 (JInt r) = Some r"
  by (simp add: in_i32_def in_i64_def i64_min_def i64_max_def)

lemmas payload_simps = pstr_obj pi32_obj as_i64_i32 as_i32_id

lemma log_step_simps [simp]:
  "log_step sn t ev_STARTED p = replay_started t"
  "log_step sn t ev_ACTIVITY_SCHEDULED p = replay_scheduled sn p"
  "log_step sn t ev_SIGNAL_RECEIVED p = replay_signal t p"
  "log_step sn t ev_ACTIVITY_COMPLETED p = replay_completed_activity t p"
  "log_step sn t ev_ACTIVITY_SKIPPED p = replay_skipped p"
  "log_step sn t ev_COMPLETED p = replay_completed t p"
  "log_step sn t ev_ERRORED p = replay_errored"
  "log_step sn t ev_REWORK_RESUMED p = replay_resumed"
  "log_step sn t ev_REACTIVATED p = replay_reactivated"
  "log_step sn t ev_APPROVAL_ESCALATED p = replay_escalated p"
  "log_step sn t ev_PARALLEL_SPLIT_SCHEDULED p = replay_fanned_out"
  "log_step sn t ev_FOR_EACH_FANNED_OUT p = replay_fanned_out"
  by (simp_all add: log_step_def fun_eq_iff)

definition is_marker :: "string \<Rightarrow> bool" where
  "is_marker ty \<longleftrightarrow> ty \<in> {ev_MERGE_PASSED, ev_BRANCH_REACHED_JOIN, ev_PARALLEL_JOIN_SATISFIED, ev_ACTIVITY_FAILED,
     ev_TIMER_FIRED, ev_CONTEXT_UPDATED}"

lemma log_step_marker [simp]: "is_marker ty \<Longrightarrow> log_step sn t ty p R = R"
  unfolding is_marker_def log_step_def by (rule replay_event_markers)

lemma markers [simp]: "is_marker ev_MERGE_PASSED" "is_marker ev_BRANCH_REACHED_JOIN" "is_marker ev_PARALLEL_JOIN_SATISFIED"
  "is_marker ev_ACTIVITY_FAILED" "is_marker ev_TIMER_FIRED" "is_marker ev_CONTEXT_UPDATED"
  by (simp_all add: is_marker_def)

lemma hoare_marker:
  assumes "cx_instance_id ctx = i" "is_marker ty"
  shows "hoare (Syn env sn i t q) (append_ev ctx ty p k) (\<lambda>_. Syn env sn i t q)"
  by (rule hoare_Syn, rule hoare_post [OF hoare_append [OF assms(1)]]) (use assms in \<open>auto intro: SynI\<close>)

text \<open>Scheduling, as the reducer sees it.\<close>

definition fan_via :: "fanout_mark option \<Rightarrow> bool" where
  "fan_via fm \<longleftrightarrow> (case fm of None \<Rightarrow> False | Some m \<Rightarrow> fm_via m \<in> {''for_each'', ''parallel_split''})"

lemma scheduled_keys: "distinct (map fst ([(''activity_id'', JStr aid), (''activity_definition_id'', JStr nid),
           (''activity_type'', JStr x), (''round'', JInt r), (''assignee_role'', opt_str role)] @
          (case fm of
             None \<Rightarrow> []
           | Some mark \<Rightarrow>
               [(''via'', JStr (fm_via mark))] @
               (case fm_item_index mark of None \<Rightarrow> [] | Some k \<Rightarrow> [(''item_index'', JInt k)]) @
               (case fm_item_payload mark of None \<Rightarrow> [] | Some v \<Rightarrow> [(''item_payload'', v)]))))"
  by (auto split: option.splits)

lemma scheduled_fields:
  "pstr (scheduled_payload aid nid ty r role fm) ''activity_id'' = Some aid"
  "pstr (scheduled_payload aid nid ty r role fm) ''activity_definition_id'' = Some nid"
  "pstr (scheduled_payload aid nid ty r role fm) ''assignee_role'' = role"
  "in_i32 r \<Longrightarrow> pi32 (scheduled_payload aid nid ty r role fm) ''round'' = Some r"
  "pstr (scheduled_payload aid nid ty r role fm) ''via'' = map_option fm_via fm"
  unfolding scheduled_payload_def pstr_obj [OF scheduled_keys] pi32_obj [OF scheduled_keys]
  by (auto simp: as_i64_i32 as_i32_id simp del: as_i64.simps split: option.splits)

lemma replay_scheduled_payload:
  assumes "in_i32 r"
  shows "replay_scheduled sn (scheduled_payload aid nid ty r role fm) L =
    \<lparr>rp_instance =
       (let inst1 = (rp_instance L)\<lparr>ri_current_activity_id := (if fan_via fm then None else Some aid)\<rparr>
        in if replay_is_terminal (ri_status inst1) then inst1 else inst1\<lparr>ri_status := WsActive\<rparr>),
     rp_activities = rp_activities L @ [fresh_activity sn aid nid role r]\<rparr>"
  using assms by (auto simp: replay_scheduled_def scheduled_fields fan_via_def Let_def split: option.splits)

section \<open>Scheduling\<close>

lemma hoare_pure: "(C \<Longrightarrow> hoare P m Q) \<Longrightarrow> hoare (\<lambda>db. P db \<and> C) m Q"
  by (auto simp: hoare_def)

lemma hoare_read_any: "(\<And>x. hoare P (g x) Q) \<Longrightarrow> hoare P (tx_bind (tx_read f) g) Q"
  by (auto simp: hoare_def tx_bind_def tx_read_def)

lemma hoare_read_res_any: "(\<And>x. hoare P (g x) Q) \<Longrightarrow> hoare P (tx_bind (tx_read_res f) g) Q"
  by (auto simp: hoare_def tx_bind_def tx_read_res_def split: sum.splits)

lemma hoare_skip: "hoare I m (\<lambda>_. I) \<Longrightarrow> hoare I n Q \<Longrightarrow> hoare I (tx_then m n) Q"
  by (rule hoare_then)

lemma parse_uuid_str: "uuid_text_ok env \<Longrightarrow> parse_uuid env (uuid_str env u) = Inr x \<longleftrightarrow> x = u"
  by (auto simp: parse_uuid_def okorR_def)

lemma hoare_schedule_timers: "hoare (St env sn i t L R) (schedule_timers ctx node a) (\<lambda>_. St env sn i t L R)"
  unfolding schedule_timers_def Let_def by (intro hoare_skip) (auto split: option.splits prod.splits)

lemma hoare_enqueue_notification:
  "hoare (St env sn i t L R) (enqueue_notification env ctx act ty p) (\<lambda>_. St env sn i t L R)"
  unfolding enqueue_notification_def by (intro hoare_lift hoare_enqueue)

definition in_snapshot :: "definition_snapshot \<Rightarrow> workflow_node \<Rightarrow> bool" where
  "in_snapshot sn n \<longleftrightarrow> List.find (\<lambda>m. node_id m = node_id n) (ds_nodes sn) = Some n"

lemma ctx_node_in_snapshot: "ctx_node ctx j = Inr n \<Longrightarrow> cx_snapshot ctx = sn \<Longrightarrow> in_snapshot sn n \<and> node_id n = j"
  by (auto simp: ctx_node_def in_snapshot_def res_simps dest: find_SomeD)

lemma activity_type_for_snapshot: "in_snapshot sn n \<Longrightarrow> activity_type_for sn (node_id n) = instantiated_activity_type (kind n)"
  by (simp add: in_snapshot_def activity_type_for_def)

definition scheduled :: "definition_snapshot \<Rightarrow> workflow_node \<Rightarrow> string option \<Rightarrow> int \<Rightarrow> string \<Rightarrow> replayed_projection \<Rightarrow> replayed_projection" where
  "scheduled sn node role r aid = upd_acts (\<lambda>xs. xs @ [fresh_activity sn aid (node_id node) role r])"

lemma hoare_schedule_activity:
  assumes u: "uuid_text_ok env" and i: "cx_instance_id ctx = i" and n: "in_snapshot sn node" and r: "in_i32 r"
  shows "hoare (St env sn i t L R) (schedule_activity env svc ctx node role r fm)
    (\<lambda>act db. St env sn i t (scheduled sn node role r (ai_id act) L)
        (log_step sn t ev_ACTIVITY_SCHEDULED
           (scheduled_payload (ai_id act) (node_id node) (instantiated_activity_type (kind node)) r role fm) R) db \<and>
       (ai_id act \<notin> ra_id ` set (rp_activities L) \<and> (\<exists>a. ai_id act = uuid_str env a)))"
proof (cases "kind node = KSubWorkflow")
  case True
  then show ?thesis by (simp add: schedule_activity_def)
next
  case False
  show ?thesis
    unfolding schedule_activity_def Let_def if_not_P [OF False] i
  proof (rule hoare_bind [OF hoare_insert_activity [OF u r]], rule hoare_pure, rule hoare_lift)
    fix row a
    assume row: "uuid_str env (ar_id row) \<notin> ra_id ` set (rp_activities L) \<and>
       live_activity env row = \<lparr>ra_id = uuid_str env (ar_id row), ra_activity_definition_id = node_id node,
         ra_activity_type = instantiated_activity_type (kind node),
         ra_status = AsActive, ra_assignee_role = role, ra_assignee_id = None, ra_result = None,
         ra_review_notes = None, ra_reviewed_by = None, ra_reviewed_at = None, ra_round = r\<rparr>"
    have id: "ai_id (activity_model env row) = uuid_str env (ar_id row)" by (simp add: activity_model_def)
    have f: "live_activity env row = fresh_activity sn (uuid_str env (ar_id row)) (node_id node) role r"
      using row by (simp add: fresh_activity_def activity_type_for_snapshot [OF n])
    show "hoare (St env sn i t (upd_acts (\<lambda>xs. xs @ [live_activity env row]) L) R)
       (tx_then (append_ev ctx ev_ACTIVITY_SCHEDULED (scheduled_payload (ai_id (activity_model env row)) (node_id node)
            (instantiated_activity_type (kind node)) r role fm) None)
         (tx_then (schedule_timers ctx node a)
           (tx_then (case notification node of None \<Rightarrow> tx_return ()
               | Some config \<Rightarrow> enqueue_notification env ctx (activity_model env row) ob_NOTIFICATION
                   (notification_from_config env svc ctx config))
             (tx_return (activity_model env row)))))
       (\<lambda>act db. St env sn i t (scheduled sn node role r (ai_id act) L)
        (log_step sn t ev_ACTIVITY_SCHEDULED
           (scheduled_payload (ai_id act) (node_id node) (instantiated_activity_type (kind node)) r role fm) R) db \<and>
       (ai_id act \<notin> ra_id ` set (rp_activities L) \<and> (\<exists>a. ai_id act = uuid_str env a)))"
      unfolding scheduled_def
      by (rule hoare_then [OF hoare_append [OF i]], rule hoare_then [OF hoare_schedule_timers])
        (use row in \<open>auto simp: id f split: option.split intro!: hoare_skip [OF hoare_enqueue_notification] hoare_skip [where m = "tx_return ()"]\<close>)
  qed
qed

text \<open>Properties of the live projection that scheduling keeps.\<close>

definition src_done :: "string \<Rightarrow> replayed_projection \<Rightarrow> bool" where
  "src_done s L \<longleftrightarrow> s \<in> ra_id ` set (rp_activities L) \<and>
     (\<forall>a\<in>set (rp_activities L). ra_id a = s \<longrightarrow> ra_status a \<noteq> AsActive)"

abbreviation running :: "replayed_projection \<Rightarrow> bool" where
  "running L \<equiv> ri_status (rp_instance L) = WsActive"

lemma fresh_activity_simps [simp]:
  "ra_id (fresh_activity sn aid nid role r) = aid" "ra_status (fresh_activity sn aid nid role r) = AsActive"
  by (simp_all add: fresh_activity_def)

lemma src_done_scheduled: "src_done s L \<Longrightarrow> aid \<notin> ra_id ` set (rp_activities L) \<Longrightarrow> src_done s (scheduled sn node role r aid L)"
  by (auto simp: src_done_def scheduled_def)

lemma src_done_inst [simp]: "src_done s (upd_inst g L) = src_done s L"
  by (simp add: src_done_def)

lemma hoare_schedule_current:
  assumes u: "uuid_text_ok env" and i: "cx_instance_id ctx = i" and n: "in_snapshot sn node" and r: "in_i32 r"
  shows "hoare (Syn env sn i t running) (schedule_current env svc ctx node role r) (\<lambda>_. Syn env sn i t running)"
  unfolding schedule_current_def
proof (rule hoare_Syn_step, rule hoare_bind [OF hoare_schedule_activity [OF u i n r]], rule hoare_pure, rule hoare_lift)
  fix L R act x
  assume run: "running L" and act: "ai_id act \<notin> ra_id ` set (rp_activities L) \<and> (\<exists>a. ai_id act = uuid_str env a)"
    and x: "parse_uuid env (ai_id act) = Inr x"
  let ?p = "scheduled_payload (ai_id act) (node_id node) (instantiated_activity_type (kind node)) r role None"
  let ?L = "upd_inst (\<lambda>y. y\<lparr>ri_current_activity_id := Some (uuid_str env x)\<rparr>) (scheduled sn node role r (ai_id act) L)"
  have e: "uuid_str env x = ai_id act" using act x u by (auto simp: parse_uuid_str)
  have L: "?L = log_step sn t ev_ACTIVITY_SCHEDULED ?p L"
    using run by (simp add: replay_scheduled_payload [OF r] scheduled_def upd_inst_def upd_acts_def fan_via_def Let_def e)
  show "hoare (St env sn i t (scheduled sn node role r (ai_id act) L) (log_step sn t ev_ACTIVITY_SCHEDULED ?p R))
     (tx_bind (tx_op (update_current_activity (cx_instance_id ctx) x)) (\<lambda>_. tx_return ()))
     (\<lambda>_ db. \<exists>ty p L'. St env sn i t L' (log_step sn t ty p R) db \<and>
        agrees (join_free sn) L' (log_step sn t ty p L) \<and> running L')"
    unfolding i
  proof (rule hoare_step_done [where L' = ?L])
    show "hoare (St env sn i t (scheduled sn node role r (ai_id act) L) (log_step sn t ev_ACTIVITY_SCHEDULED ?p R))
       (tx_bind (tx_op (update_current_activity i x)) (\<lambda>_. tx_return ()))
       (\<lambda>_. St env sn i t ?L (log_step sn t ev_ACTIVITY_SCHEDULED ?p R))"
      by (rule hoare_bind [OF hoare_update_current]) (use run in \<open>simp_all add: scheduled_def\<close>)
    show "agrees (join_free sn) ?L (log_step sn t ev_ACTIVITY_SCHEDULED ?p L)" unfolding L by (rule agrees_refl)
    show "running ?L" using run by (simp add: scheduled_def)
  qed
qed

end
