(* ===== verification/Flow_Sync_Outcome.thy ===== *)
theory Flow_Sync_Outcome
  imports Flow_Sync_Engine
begin

text \<open>
  The outcome recursion keeps the projections in agreement: failing, completing, fanning out,
  joining, and \<open>apply_outcome\<close> itself by induction on the fuel, for every outcome but a rework.
\<close>

text \<open>Without a rework an instance is never pending or waiting for its rework.\<close>

definition settled :: "replayed_projection \<Rightarrow> bool" where
  "settled L \<longleftrightarrow> ri_status (rp_instance L) \<notin> {WsPending, WsReturnedWaiting}"

lemma settled_running [simp]: "running L \<Longrightarrow> settled L"
  by (simp add: settled_def)

section \<open>Ending an instance\<close>

lemma hoare_fail_instance:
  assumes i: "cx_instance_id ctx = i"
  shows "hoare (Syn env sn i t running) (fail_instance ctx reason) (\<lambda>_. Syn env sn i t settled)"
  unfolding fail_instance_def
proof (rule hoare_Syn_step)
  fix L R
  assume run: "running L"
  let ?L = "upd_inst (\<lambda>x. x\<lparr>ri_status := WsErrored\<rparr>) L" and ?p = "obj [(''reason'', JStr reason)]"
  show "hoare (St env sn i t L R) (tx_bind (tx_op (error_workflow (cx_instance_id ctx)))
       (\<lambda>_. append_ev ctx ev_ERRORED ?p None))
     (\<lambda>_ db. \<exists>ty p L'. St env sn i t L' (log_step sn t ty p R) db \<and> agrees (join_free sn) L' (log_step sn t ty p L) \<and> settled L')"
  proof (rule hoare_step_done [where L' = ?L])
    show "hoare (St env sn i t L R) (tx_bind (tx_op (error_workflow (cx_instance_id ctx))) (\<lambda>_. append_ev ctx ev_ERRORED ?p None))
       (\<lambda>_. St env sn i t ?L (log_step sn t ev_ERRORED ?p R))"
      unfolding i by (rule hoare_bind [OF hoare_error_workflow [OF run]], rule hoare_append [OF i])
    show "agrees (join_free sn) ?L (log_step sn t ev_ERRORED ?p L)"
      by (simp add: replay_errored_def upd_inst_def)
  qed (simp add: settled_def)
qed

lemma hoare_find_terminal_callback: "hoare (St env sn i t L R) (find_terminal_callback env ctx) (\<lambda>_. St env sn i t L R)"
  by (auto simp: find_terminal_callback_def hoare_def tx_bind_def tx_read_def tx_return_def tx_lift_def
      split: option.splits json.splits sum.splits)

lemma hoare_enqueue_terminal_callback:
  "hoare (St env sn i t L R) (enqueue_terminal_callback env svc ctx tc) (\<lambda>_. St env sn i t L R)"
  unfolding enqueue_terminal_callback_def
  by (rule hoare_read_any) (auto split: option.split intro!: hoare_lift)

lemma hoare_complete_instance:
  assumes i: "cx_instance_id ctx = i"
  shows "hoare (Syn env sn i t q) (complete_instance env svc ctx res) (\<lambda>_. Syn env sn i t settled)"
  unfolding complete_instance_def i
proof (rule hoare_Syn_step, rule hoare_bind [OF hoare_complete_workflow])
  fix L R b
  let ?L = "upd_inst (\<lambda>x. x\<lparr>ri_status := WsCompleted, ri_result := Some res, ri_completed_at := Some t,
         ri_current_activity_id := None\<rparr>) L" and ?p = "obj [(''result'', JStr (wr_as_str res))]"
  have cb: "hoare (St env sn i t ?L R') (if res = WrApproved then tx_bind (find_terminal_callback env ctx)
          (\<lambda>tc. case tc of None \<Rightarrow> tx_return () | Some c \<Rightarrow> enqueue_terminal_callback env svc ctx c) else tx_return ())
        (\<lambda>_. St env sn i t ?L R')" for R'
    by (auto intro!: hoare_bind [OF hoare_find_terminal_callback] hoare_enqueue_terminal_callback split: option.split)
  have b': "settled ?L" by (simp add: settled_def)
  have a: "agrees (join_free sn) ?L (log_step sn t ev_COMPLETED ?p L)"
    by (simp add: replay_completed_def upd_inst_def pstr_obj)
  show "hoare (\<lambda>db. b \<longrightarrow> running L \<and> St env sn i t ?L R db)
     (if \<not> b then tx_fail (Conflict ''instance left 'active' before completion'')
      else tx_then (append_ev ctx ev_COMPLETED ?p None)
        (if res = WrApproved then tx_bind (find_terminal_callback env ctx)
          (\<lambda>tc. case tc of None \<Rightarrow> tx_return () | Some c \<Rightarrow> enqueue_terminal_callback env svc ctx c) else tx_return ()))
     (\<lambda>_ db. \<exists>ty p L'. St env sn i t L' (log_step sn t ty p R) db \<and> agrees (join_free sn) L' (log_step sn t ty p L) \<and> settled L')"
  proof (cases b)
    case True
    have "hoare (St env sn i t ?L R) (tx_then (append_ev ctx ev_COMPLETED ?p None)
        (if res = WrApproved then tx_bind (find_terminal_callback env ctx)
          (\<lambda>tc. case tc of None \<Rightarrow> tx_return () | Some c \<Rightarrow> enqueue_terminal_callback env svc ctx c) else tx_return ()))
      (\<lambda>_. St env sn i t ?L (log_step sn t ev_COMPLETED ?p R))"
      by (rule hoare_then [OF hoare_append [OF i]], rule cb)
    from hoare_pre [OF hoare_step_done [OF this a, where q' = settled, OF b'], where P' = "\<lambda>db. running L \<and> St env sn i t ?L R db"] True
    show ?thesis by (simp only: simp_thms if_True if_False)
  qed simp
qed

section \<open>Fanning out and joining\<close>

definition run_from :: "string \<Rightarrow> replayed_projection \<Rightarrow> bool" where
  "run_from s L \<longleftrightarrow> running L \<and> src_done s L"

lemma run_from_settled: "run_from s L \<Longrightarrow> settled L"
  by (simp add: run_from_def)

definition no_current :: "replayed_projection \<Rightarrow> bool" where
  "no_current L \<longleftrightarrow> ri_current_activity_id (rp_instance L) = None"

lemma hoare_append_merges:
  assumes "cx_instance_id ctx = i"
  shows "hoare (Syn env sn i t q) (append_merges ctx trace src r) (\<lambda>_. Syn env sn i t q)"
  unfolding append_merges_def by (rule hoare_for, rule hoare_marker [OF assms]) simp

text \<open>Clearing the pointer and logging a fan-out.\<close>

lemma hoare_clear_append:
  assumes i: "cx_instance_id ctx = i" and ty: "ty \<in> {ev_PARALLEL_SPLIT_SCHEDULED, ev_FOR_EACH_FANNED_OUT}"
    and m: "hoare (Syn env sn i t (\<lambda>L. run_from s L \<and> no_current L)) m Q"
  shows "hoare (Syn env sn i t (run_from s)) (tx_then (tx_op (clear_current_activity i)) (tx_then (append_ev ctx ty p k) m)) Q"
proof (rule hoare_Syn)
  fix L R
  assume a: "agrees (join_free sn) L R" and q: "run_from s L"
  let ?L = "upd_inst (\<lambda>x. x\<lparr>ri_current_activity_id := None\<rparr>) L"
  have "log_step sn t ty p L = ?L" using ty by (auto simp: replay_fanned_out_def upd_inst_def)
  with agrees_log_step [OF a, of sn t ty p] have "agrees (join_free sn) ?L (log_step sn t ty p R)" by simp
  then have "Syn env sn i t (\<lambda>L. run_from s L \<and> no_current L) db" if "St env sn i t ?L (log_step sn t ty p R) db" for db
    by (rule SynI [OF that]) (use q in \<open>simp add: run_from_def no_current_def\<close>)
  then show "hoare (St env sn i t L R) (tx_then (tx_op (clear_current_activity i)) (tx_then (append_ev ctx ty p k) m)) Q"
    by (auto intro!: hoare_then [OF hoare_clear_current] hoare_then [OF hoare_append [OF i]] hoare_pre [OF m])
qed

lemma hoare_schedule_branch:
  assumes u: "uuid_text_ok env" and i: "cx_instance_id ctx = i" "cx_snapshot ctx = sn" and r: "in_i32 r"
    and via: "via \<in> {''for_each'', ''parallel_split''}"
  shows "hoare (Syn env sn i t (\<lambda>L. run_from s L \<and> no_current L)) (schedule_branch env svc ctx via r target)
    (\<lambda>_. Syn env sn i t (\<lambda>L. run_from s L \<and> no_current L))"
  unfolding schedule_branch_def
proof (rule hoare_Syn_step, rule hoare_lift)
  fix L R node
  let ?fm = "Some \<lparr>fm_via = via, fm_item_index = pt_item_index target, fm_item_payload = pt_item_payload target\<rparr>"
  assume q: "run_from s L \<and> no_current L" and n: "ctx_node ctx (pt_node_id target) = Inr node"
  from ctx_node_in_snapshot [OF n i(2)] have n': "in_snapshot sn node" by simp
  have v: "fan_via ?fm" using via by (simp add: fan_via_def)
  show "hoare (St env sn i t L R) (tx_bind (schedule_activity env svc ctx node (pt_assignee_role target) r ?fm) (\<lambda>_. tx_return ()))
     (\<lambda>_ db. \<exists>ty p L'. St env sn i t L' (log_step sn t ty p R) db \<and> agrees (join_free sn) L' (log_step sn t ty p L) \<and>
        (run_from s L' \<and> no_current L'))"
  proof (rule hoare_bind [OF hoare_schedule_activity [OF u i(1) n' r]], rule hoare_pure)
    fix act
    let ?p = "scheduled_payload (ai_id act) (node_id node) (instantiated_activity_type (kind node)) r (pt_assignee_role target) ?fm"
    let ?L = "scheduled sn node (pt_assignee_role target) r (ai_id act) L"
    assume act: "ai_id act \<notin> ra_id ` set (rp_activities L) \<and> (\<exists>a. ai_id act = uuid_str env a)"
    have L: "log_step sn t ev_ACTIVITY_SCHEDULED ?p L = ?L"
      using q v by (cases L, cases "rp_instance L")
        (simp add: replay_scheduled_payload [OF r] scheduled_def upd_acts_def Let_def run_from_def no_current_def)
    show "hoare (St env sn i t ?L (log_step sn t ev_ACTIVITY_SCHEDULED ?p R)) (tx_return ())
       (\<lambda>_ db. \<exists>ty p L'. St env sn i t L' (log_step sn t ty p R) db \<and> agrees (join_free sn) L' (log_step sn t ty p L) \<and>
          (run_from s L' \<and> no_current L'))"
    proof (rule hoare_step_done [where L' = ?L])
      show "agrees (join_free sn) ?L (log_step sn t ev_ACTIVITY_SCHEDULED ?p L)" unfolding L by (rule agrees_refl)
      show "run_from s ?L \<and> no_current ?L"
        using q act by (simp add: run_from_def no_current_def src_done_scheduled) (simp add: scheduled_def)
    qed simp
  qed
qed

lemma St_nil_absent:
  assumes "St env sn i t L R db" "uuid_text_ok env"
  shows "\<forall>a\<in>set (rp_activities L). ra_id a \<noteq> uuid_str env nil_uuid"
proof -
  have n: "\<forall>r\<in>set (activities_of i db). ar_id r \<noteq> 0" using assms(1) by (auto simp: St_def wf_db_def activities_of_def)
  obtain r where "find_instance db i = Some r" using assms(1) by (auto simp: St_def wf_db_def)
  then have "rp_activities L = map (live_activity env) (activities_of i db)"
    using assms(1) by (auto simp: St_def live_projection_def)
  with n show ?thesis by (auto simp: live_activity_def uuid_str_inject assms(2))
qed

text \<open>Skipping the siblings.\<close>

lemma hoare_skip_siblings:
  assumes u: "uuid_text_ok env" and i: "cx_instance_id ctx = i"
    and ex: "exclude = None \<or> (\<exists>x. exclude = Some x \<and> uuid_str env x = s)"
  shows "hoare (Syn env sn i t (\<lambda>L. run_from s L \<and> (c \<longrightarrow> no_current L)))
    (tx_bind (tx_op (skip_other_active_activities i (unwrap_or nil_uuid exclude))) (\<lambda>skipped.
       tx_when (skipped > 0) (append_ev ctx ev_ACTIVITY_SKIPPED
         (obj [(''join_node'', JStr jn), (''count'', JInt (int skipped))]) None)))
    (\<lambda>_. Syn env sn i t (\<lambda>L. run_from s L \<and> (c \<longrightarrow> no_current L)))"
proof (rule hoare_Syn, rule hoare_gen)
  fix L R db0
  let ?x = "unwrap_or nil_uuid exclude"
  let ?S = "\<lambda>a. ra_id a \<noteq> uuid_str env ?x \<and> ra_status a = AsActive" and ?f = "\<lambda>a. a\<lparr>ra_status := AsSkipped\<rparr>"
  let ?L = "upd_acts (update_where ?S ?f) L"
  let ?q = "\<lambda>L. run_from s L \<and> (c \<longrightarrow> no_current L)"
  assume a: "agrees (join_free sn) L R" and q: "?q L" and s: "St env sn i t L R db0"
  have "ra_id y \<noteq> uuid_str env ?x" if "y \<in> set (rp_activities L)" "ra_status y = AsActive" for y
    using that ex q St_nil_absent [OF s u] by (auto simp: run_from_def src_done_def)
  then have S: "update_where ?S ?f (rp_activities L) = update_where (\<lambda>a. ra_status a = AsActive) ?f (rp_activities L)"
    by (auto simp: update_where_def)
  have q': "?q ?L"
    using q by (auto simp: run_from_def src_done_def no_current_def update_where_def image_iff)
  have b: "hoare (\<lambda>db. db = db0) (tx_op (skip_other_active_activities i ?x))
     (\<lambda>n db. St env sn i t ?L R db \<and> (n = 0 \<longrightarrow> ?L = L))"
    by (rule hoare_pre [OF hoare_skip_others [OF u]]) (use s in simp)
  show "hoare (\<lambda>db. db = db0) (tx_bind (tx_op (skip_other_active_activities i ?x)) (\<lambda>skipped.
       tx_when (skipped > 0) (append_ev ctx ev_ACTIVITY_SKIPPED
         (obj [(''join_node'', JStr jn), (''count'', JInt (int skipped))]) None))) (\<lambda>_. Syn env sn i t ?q)"
  proof (rule hoare_bind [OF b], rule hoare_pure, rule hoare_when)
    fix n :: nat
    assume "n > 0"
    let ?p = "obj [(''join_node'', JStr jn), (''count'', JInt (int n))]"
    have "log_step sn t ev_ACTIVITY_SKIPPED ?p L = ?L"
      by (simp add: replay_skipped_def pstr_obj upd_acts_def S)
    with agrees_log_step [OF a, of sn t ev_ACTIVITY_SKIPPED ?p] q'
    show "hoare (St env sn i t ?L R) (append_ev ctx ev_ACTIVITY_SKIPPED ?p None) (\<lambda>_. Syn env sn i t ?q)"
      by (auto intro!: hoare_post [OF hoare_append [OF i]] elim: SynI)
  next
    fix n :: nat and db
    assume "n = 0 \<longrightarrow> ?L = L" "\<not> 0 < n" and s': "St env sn i t ?L R db"
    then have e: "?L = L" by simp
    show "Syn env sn i t ?q db" by (rule SynI [where q = ?q, OF s' [unfolded e] a q])
  qed
qed

section \<open>No rework\<close>

definition no_rework :: "advance_outcome \<Rightarrow> bool" where
  "no_rework out \<longleftrightarrow> (\<forall>target role. out \<noteq> Rework target role)"

lemma no_rework_simps [simp]:
  "no_rework (Advance target role)" "no_rework (AdvanceMulti ts)" "no_rework (Complete res)" "no_rework OutcomeError"
  "\<not> no_rework (Rework target role)"
  by (simp_all add: no_rework_def)

lemma no_rework_resolve: "no_rework (fst (resolve_target cel nodes trs tid c vis trace depth))"
proof (induction cel nodes trs tid c vis trace depth rule: resolve_target.induct)
  case (1 cel nodes trs tid c vis trace depth)
  show ?case
    by (subst resolve_target.simps)
      (use 1 in \<open>auto simp: resolve_split_def resolve_for_each_def Let_def split: option.split node_kind.split sum.split\<close>)
qed

lemma no_rework_decide:
  assumes "sig \<noteq> SigReturned \<or> find_next_transition trs n SigReturned = None"
  shows "no_rework (fst (decide_advance cel nodes trs n sig c))"
  using assms no_rework_resolve
  by (cases sig) (auto simp: decide_advance_def split: option.split)

lemma no_rework_timeout: "no_rework (fst (decide_event_wait_timeout cel nodes trs n c))"
  using no_rework_resolve by (auto simp: decide_event_wait_timeout_def split: option.split prod.split)

section \<open>The outcome\<close>

lemma hoare_clear_waiting:
  assumes c: "join_free sn \<Longrightarrow> c" and q: "\<And>L. q L \<Longrightarrow> settled L"
  shows "hoare (Syn env sn i t (\<lambda>L. q L \<and> (c \<longrightarrow> no_current L))) (tx_op (clear_current_activity i)) (\<lambda>_. Syn env sn i t settled)"
proof (rule hoare_Syn, rule hoare_post [OF hoare_clear_current])
  fix L R db
  let ?L = "upd_inst (\<lambda>x. x\<lparr>ri_current_activity_id := None\<rparr>) L"
  assume a: "agrees (join_free sn) L R" and qL: "q L \<and> (c \<longrightarrow> no_current L)" and s: "St env sn i t ?L R db"
  have "agrees (join_free sn) ?L R" using a qL c by (auto simp: agrees_iff no_current_def)
  with s show "Syn env sn i t settled db" by (rule SynI) (use q qL in \<open>simp add: settled_def\<close>)
qed

text \<open>What the recursion needs of its continuation, and of the context it runs in.\<close>

definition continues ::
  "('p, 'c, 'v) env \<Rightarrow> definition_snapshot \<Rightarrow> uuid \<Rightarrow> timestamp \<Rightarrow> continuation \<Rightarrow> instance_ctx \<Rightarrow> activity_instance \<Rightarrow>
   int \<Rightarrow> bool" where
  "continues env sn i t cont ctx src r \<longleftrightarrow>
     (\<forall>out trace. no_rework out \<longrightarrow>
        hoare (Syn env sn i t (run_from (ai_id src))) (cont ctx out trace src r) (\<lambda>_. Syn env sn i t settled))"

definition ctx_of :: "definition_snapshot \<Rightarrow> uuid \<Rightarrow> instance_ctx \<Rightarrow> bool" where
  "ctx_of sn i ctx \<longleftrightarrow> cx_instance_id ctx = i \<and> cx_snapshot ctx = sn"

lemma hoare_try_satisfy_join:
  assumes u: "uuid_text_ok env" and ctx: "ctx_of sn i ctx" and cont: "continues env sn i t cont ctx src r"
    and c: "join_free sn \<Longrightarrow> c" and ex: "exclude = None \<or> (\<exists>x. exclude = Some x \<and> uuid_str env x = ai_id src)"
  shows "hoare (Syn env sn i t (\<lambda>L. run_from (ai_id src) L \<and> (c \<longrightarrow> no_current L)))
    (try_satisfy_join env cont ctx join_node src r exclude) (\<lambda>_. Syn env sn i t settled)"
    (is "hoare ?P _ ?Q")
proof -
  let ?d = "decide_advance (env_cel env) (ds_nodes (cx_snapshot ctx)) (ds_transitions (cx_snapshot ctx))
                (node_id join_node) SigApproved (cx_context ctx)"
  have ctx_id: "cx_instance_id ctx = i" using ctx by (simp add: ctx_of_def)
  have nr: "no_rework (fst ?d)" by (rule no_rework_decide) simp
  obtain out trace where d: "?d = (out, trace)" by (cases ?d)
  have "hoare (Syn env sn i t (run_from (ai_id src))) (cont ctx out trace src r) ?Q"
    using nr cont unfolding d by (simp add: continues_def)
  then have last: "hoare ?P (case ?d of (outcome, trace) \<Rightarrow> cont ctx outcome trace src r) ?Q"
    unfolding d by (auto elim!: hoare_pre Syn_mono)
  show ?thesis
    unfolding try_satisfy_join_def Let_def ctx_id
    by (intro hoare_read_any hoare_lift, clarsimp, rule hoare_read_any, rule if_split [THEN iffD2], intro conjI impI)
      (auto intro!: hoare_clear_waiting [OF c run_from_settled] hoare_skip [OF hoare_marker [OF ctx_id]] hoare_skip [OF hoare_when] last
        hoare_skip_siblings [OF u ctx_id ex])
qed

lemma hoare_branch_reached_join:
  assumes u: "uuid_text_ok env" and ctx: "ctx_of sn i ctx" and cont: "continues env sn i t cont ctx src r"
    and j: "\<not> join_free sn" and src: "\<exists>a. ai_id src = uuid_str env a"
  shows "hoare (Syn env sn i t (run_from (ai_id src))) (branch_reached_join env cont ctx join_node src r)
    (\<lambda>_. Syn env sn i t settled)"
proof -
  have ctx_id: "cx_instance_id ctx = i" using ctx by (simp add: ctx_of_def)
  have "hoare (Syn env sn i t (run_from (ai_id src))) (try_satisfy_join env cont ctx join_node src r (Some x)) (\<lambda>_. Syn env sn i t settled)"
    if "parse_uuid env (ai_id src) = Inr x" for x
    using hoare_try_satisfy_join [OF u ctx cont, of False "Some x" join_node] j src that u by (auto simp: parse_uuid_str)
  then show ?thesis
    unfolding branch_reached_join_def by (intro hoare_skip [OF hoare_marker [OF ctx_id]] hoare_lift) simp_all
qed

lemma hoare_fan_out:
  assumes u: "uuid_text_ok env" and ctx: "ctx_of sn i ctx" and cont: "continues env sn i t cont ctx src r" and r: "in_i32 r"
  shows "hoare (Syn env sn i t (run_from (ai_id src))) (fan_out env svc cont ctx targets trace src r) (\<lambda>_. Syn env sn i t settled)"
proof -
  let ?q = "\<lambda>L. run_from (ai_id src) L \<and> no_current L" and ?Q = "\<lambda>_. Syn env sn i t settled"
  have i: "cx_instance_id ctx = i" and sn: "cx_snapshot ctx = sn" using ctx by (simp_all add: ctx_of_def)
  have branches: "hoare (Syn env sn i t ?q) (tx_for (schedule_branch env svc ctx via r) targets) (\<lambda>_. Syn env sn i t ?q)"
    if "via \<in> {''for_each'', ''parallel_split''}" for via
    by (rule hoare_for, rule hoare_schedule_branch [OF u i sn r that])
  have join: "hoare (Syn env sn i t ?q) (try_satisfy_join env cont ctx jn src r None) ?Q" for jn
    using hoare_try_satisfy_join [OF u ctx cont, where c = True and exclude = None and join_node = jn] by simp
  have fe: "hoare (Syn env sn i t ?q) (if targets = [] then tx_bind (tx_lift (ctx_node ctx j))
      (\<lambda>join_node. try_satisfy_join env cont ctx join_node src r None) else tx_return ()) ?Q" for j
    by (auto intro!: hoare_lift join elim!: Syn_mono dest: run_from_settled)
  show ?thesis
    unfolding fan_out_def i
    by (cases "for_each_fan_out trace")
      (auto intro!: hoare_clear_append [OF i] hoare_skip [OF branches] fe hoare_post [OF branches]
        hoare_skip [where m = "tx_return ()"] hoare_lift join elim!: Syn_mono dest: run_from_settled)
qed

lemma hoare_apply_advance:
  assumes u: "uuid_text_ok env" and ctx: "ctx_of sn i ctx" and cont: "continues env sn i t cont ctx src r" and r: "in_i32 r"
    and src: "\<exists>a. ai_id src = uuid_str env a"
  shows "hoare (Syn env sn i t (run_from (ai_id src))) (apply_advance env svc cont ctx target role src r) (\<lambda>_. Syn env sn i t settled)"
  unfolding apply_advance_def
proof (rule hoare_lift)
  fix node
  have i: "cx_instance_id ctx = i" and sn: "cx_snapshot ctx = sn" using ctx by (simp_all add: ctx_of_def)
  assume "ctx_node ctx target = Inr node"
  from ctx_node_in_snapshot [OF this sn] have n: "in_snapshot sn node" ..
  then have "node \<in> set (ds_nodes sn)" by (auto simp: in_snapshot_def dest: find_SomeD)
  then have j: "\<not> join_free sn" if "kind node = KParallelJoin" using that by (auto simp: join_free_def)
  have s: "hoare (Syn env sn i t (run_from (ai_id src))) (schedule_current env svc ctx node role r) (\<lambda>_. Syn env sn i t settled)"
    by (rule hoare_pre [OF hoare_post [OF hoare_schedule_current [OF u i n r]]]) (auto elim!: Syn_mono simp: run_from_def)
  show "hoare (Syn env sn i t (run_from (ai_id src)))
     (if kind node = KParallelJoin then branch_reached_join env cont ctx node src r
      else schedule_current env svc ctx node role r) (\<lambda>_. Syn env sn i t settled)"
    using s hoare_branch_reached_join [OF u ctx cont j src] by simp
qed

lemma hoare_apply_outcome:
  assumes u: "uuid_text_ok env" and ctx: "ctx_of sn i ctx" and r: "in_i32 r" and src: "\<exists>a. ai_id src = uuid_str env a"
    and out: "no_rework out"
  shows "hoare (Syn env sn i t (run_from (ai_id src))) (apply_outcome env svc fuel ctx out trace src r) (\<lambda>_. Syn env sn i t settled)"
  using out
proof (induction fuel arbitrary: out trace)
  case (Suc fuel)
  have i: "cx_instance_id ctx = i" using ctx by (simp add: ctx_of_def)
  have c: "continues env sn i t (apply_outcome env svc fuel) ctx src r" by (simp add: continues_def Suc.IH)
  have fail: "hoare (Syn env sn i t (run_from (ai_id src))) (fail_instance ctx e) (\<lambda>_. Syn env sn i t settled)" for e
    by (rule hoare_pre [OF hoare_fail_instance [OF i]]) (auto elim!: Syn_mono simp: run_from_def)
  show ?case
    unfolding apply_outcome.simps apply_outcome_step_def
    by (rule hoare_skip [OF hoare_append_merges [OF i]])
      (use Suc.prems in \<open>auto split: advance_outcome.split intro: hoare_apply_advance [OF u ctx c r src]
        hoare_fan_out [OF u ctx c r] hoare_complete_instance [OF i] fail\<close>)
qed simp

end
