(* ===== verification/Flow_Sync_Handlers.thy ===== *)
theory Flow_Sync_Handlers
  imports Flow_Sync_Outcome
begin

text \<open>
  The handlers keep the projections in agreement on definitions without a rework edge.
\<close>

section \<open>What the handlers read\<close>

lemma St_instance:
  assumes "St env sn i t L R db" "ir_id r = i" "r \<in> set (db_instances db)"
  shows "rp_instance L = live_instance env r" "snapshot_de env (ir_definition_snapshot r) = Inr sn"
    "find_instance db i = Some r"
proof -
  show f: "find_instance db i = Some r"
    using assms find_key_distinct [of ir_id "db_instances db" r] by (simp add: St_def wf_db_def find_instance_def)
  show "rp_instance L = live_instance env r" "snapshot_de env (ir_definition_snapshot r) = Inr sn"
    using assms(1) f by (auto simp: St_def wf_db_def live_projection_def)
qed

lemma scoped_instance:
  assumes s: "St env sn i t L R db" and l: "get_instance_scoped env scope i db = Inr (Some inst)"
  shows "wi_status inst = ri_status (rp_instance L) \<and> wi_result inst = ri_result (rp_instance L)"
proof -
  obtain r where "r \<in> set (db_instances db)" "ir_id r = i" "inst = instance_model env r"
    using l by (auto simp: get_instance_scoped_def res_simps split: sum.splits dest!: find_SomeD)
  with St_instance [OF s, of r] show ?thesis by (simp add: instance_model_def live_instance_def)
qed

lemma loaded_instance:
  assumes s: "St env sn i t L R db" and l: "load_instance env i db = Some inst"
  shows "wi_status inst = ri_status (rp_instance L)"
proof -
  obtain r where "r \<in> set (db_instances db)" "ir_id r = i" "inst = instance_model env r"
    using l by (auto simp: load_instance_def find_instance_def dest!: find_SomeD)
  with St_instance [OF s, of r] show ?thesis by (simp add: instance_model_def live_instance_def)
qed

lemma loaded_snapshot: "St env sn i t L R db \<Longrightarrow> load_snapshot env i db = Inr sn' \<Longrightarrow> sn' = sn"
  by (auto simp: St_def wf_db_def load_snapshot_def res_simps)

lemma hoare_locked_instance:
  "hoare (St env sn i t L R) (locked_instance env scope i)
    (\<lambda>inst db. St env sn i t L R db \<and> wi_status inst = ri_status (rp_instance L) \<and> wi_result inst = ri_result (rp_instance L))"
  by (auto simp: locked_instance_def hoare_def tx_read_res_def load_instance_for_update_scoped_def res_simps
      split: option.splits sum.splits dest: scoped_instance)

lemma hoare_snapshot:
  "hoare (St env sn i t L R) (tx_read_res (load_snapshot env i)) (\<lambda>sn' db. St env sn i t L R db \<and> sn' = sn)"
  by (auto simp: hoare_def tx_read_res_def dest: loaded_snapshot)

lemma hoare_make_ctx: "hoare P (make_ctx env i inst sn) (\<lambda>ctx db. P db \<and> ctx_of sn i ctx)"
  unfolding make_ctx_def by (intro hoare_lift) (simp add: ctx_of_def)

lemma hoare_outcome_of: "hoare P (signal_outcome_of env i) (\<lambda>_. P)"
  by (auto simp: signal_outcome_of_def reload_def intro!: hoare_read_res_any hoare_read_any)

lemma hoare_replayed_outcome: "hoare P (replayed_outcome env i inst) (\<lambda>_. P)"
  by (auto simp: replayed_outcome_def intro!: hoare_read_any)

lemma activity_model_sel [simp]:
  "ai_id (activity_model env r) = uuid_str env (ar_id r)"
  "ai_workflow_instance_id (activity_model env r) = uuid_str env (ar_workflow_instance_id r)"
  "ai_status (activity_model env r) = as_from_i16 (ar_status r)"
  "ai_round (activity_model env r) = ar_round r"
  by (simp_all add: activity_model_def)

text \<open>An activity a handler works on: an active row of the instance.\<close>

definition target_in :: "('p, 'c, 'v) env \<Rightarrow> replayed_projection \<Rightarrow> activity_instance \<Rightarrow> bool" where
  "target_in env L act \<longleftrightarrow> (\<exists>a. ai_id act = uuid_str env a) \<and> in_i32 (ai_round act) \<and> distinct (map ra_id (rp_activities L)) \<and>
     (\<exists>x\<in>set (rp_activities L). ra_id x = ai_id act \<and> ra_status x = AsActive \<and> ra_review_notes x = None)"

lemma St_distinct:
  assumes "St env sn i t L R db" "uuid_text_ok env"
  shows "distinct (map ra_id (rp_activities L))"
proof -
  have d: "distinct (map ar_id (activities_of i db))"
    using assms(1) by (simp add: St_def wf_db_def activities_of_def distinct_map_filter)
  obtain r where "find_instance db i = Some r" using assms(1) by (auto simp: St_def wf_db_def)
  then have "rp_activities L = map (live_activity env) (activities_of i db)"
    using assms(1) by (auto simp: St_def live_projection_def)
  moreover have "distinct (map (uuid_str env) (map ar_id (activities_of i db)))"
    using d unfolding distinct_map [of "uuid_str env"] by (auto intro!: inj_onI simp: uuid_str_inject assms(2))
  moreover have "map ra_id (map (live_activity env) xs) = map (uuid_str env) (map ar_id xs)" for xs
    by (simp add: live_activity_def)
  ultimately show ?thesis by metis
qed

lemma target_row:
  assumes s: "St env sn i t L R db" and u: "uuid_text_ok env" and r: "r \<in> set (activities_of i db)" "ar_status r = 2"
  shows "target_in env L (activity_model env r)"
proof -
  obtain q where "find_instance db i = Some q" using s by (auto simp: St_def wf_db_def)
  then have "rp_activities L = map (live_activity env) (activities_of i db)" using s by (auto simp: St_def live_projection_def)
  moreover have "in_i32 (ar_round r)" "ar_review_notes r = None" using s r by (auto simp: St_def wf_db_def)
  moreover have "live_activity env r \<in> live_activity env ` set (activities_of i db)" using r by blast
  ultimately show ?thesis
    using r St_distinct [OF s u]
    by (auto simp: target_in_def live_activity_def intro!: rev_bexI [where x = "live_activity env r"])
qed

lemma hoare_target:
  assumes u: "uuid_text_ok env"
  shows "hoare (St env sn i t L R) (resolve_target_activity env cmd)
    (\<lambda>act db. St env sn i t L R db \<and> (sg_instance_id cmd = i \<longrightarrow> target_in env L act))"
proof -
  have "target_in env L act" if s: "St env sn i t L R db" "active_activities env i db = [act]" for db act
  proof -
    have "act \<in> set (active_activities env i db)" using s by simp
    with target_row [OF s(1) u] show ?thesis by (auto simp: active_activities_def)
  qed
  moreover have "target_in env L act"
    if s: "St env sn i t L R db" "load_activity env a db = Some act" "ai_workflow_instance_id act = uuid_str env i"
      "ai_status act = AsActive" for db act a
  proof -
    obtain r where "r \<in> set (db_activities db)" "act = activity_model env r"
      using s by (auto simp: load_activity_def find_activity_def dest!: find_SomeD)
    moreover from this s u have "r \<in> set (activities_of i db)" "ar_status r = 2"
      by (simp_all add: activities_of_def uuid_str_inject)
    ultimately show ?thesis using target_row [OF s(1) u] by simp
  qed
  ultimately show ?thesis
    unfolding resolve_target_activity_def
    by (auto split: option.split list.split intro!: hoare_read hoare_read_res simp: res_simps okorR_def)
qed

section \<open>Context writes\<close>

lemma hoare_log_marker:
  assumes "cx_instance_id ctx = i" "is_marker ty"
  shows "hoare (St env sn i t L R) (append_ev ctx ty p k) (\<lambda>_. St env sn i t L R)"
  using hoare_append [OF assms(1), of env sn t L R ty p k] assms(2) by simp

lemma hoare_context_writes:
  assumes "ctx_of sn i ctx"
  shows "hoare (St env sn i t L R) (apply_context_writes ctx node r patch) (\<lambda>ctx' db. St env sn i t L R db \<and> ctx_of sn i ctx')"
proof -
  have i: "cx_instance_id ctx = i" "\<And>c. ctx_of sn i (ctx\<lparr>cx_context := c\<rparr>)" using assms by (simp_all add: ctx_of_def)
  show ?thesis
  proof (cases "node_context_writes node = []")
    case False
    then show ?thesis
      unfolding apply_context_writes_def Let_def if_not_P [OF False]
      by (intro hoare_lift) (rule hoare_bind [OF hoare_merge_context], rule hoare_then, rule hoare_log_marker, use i in auto)
  qed (simp add: apply_context_writes_def assms)
qed

section \<open>Completing an activity\<close>

text \<open>What SIGNAL_RECEIVED followed by ACTIVITY_COMPLETED does to the projection is what the CAS did to the row.\<close>

lemma update_first_active:
  assumes "distinct (map ra_id xs)" "\<forall>x\<in>set xs. ra_id x = u \<longrightarrow> ra_status x = AsActive"
  shows "update_first (\<lambda>x. ra_id x = u) g xs = update_where (active_at u) g xs"
proof -
  have "update_where (\<lambda>x. ra_id x = u) g xs = update_where (active_at u) g xs"
    using assms(2) by (induction xs) auto
  with update_first_unique [OF assms(1)] show ?thesis by simp
qed

lemma target_active:
  assumes "target_in env L act"
  shows "\<forall>x\<in>set (rp_activities L). ra_id x = ai_id act \<longrightarrow> ra_status x = AsActive"
proof -
  obtain y where y: "y \<in> set (rp_activities L)" "ra_id y = ai_id act" "ra_status y = AsActive" and d: "distinct (map ra_id (rp_activities L))"
    using assms by (auto simp: target_in_def)
  show ?thesis
  proof (intro ballI impI)
    fix x
    assume "x \<in> set (rp_activities L)" "ra_id x = ai_id act"
    with y d have "x = y" by (metis distinct_map inj_onD)
    with y show "ra_status x = AsActive" by simp
  qed
qed

lemma update_first_first:
  assumes "\<And>x. P (f x) = P x"
  shows "update_first P g (update_first P f xs) = update_first P (\<lambda>x. g (f x)) xs"
  by (induction xs) (simp_all add: assms)

lemma signal_result_code:
  "map_option activity_result_to_str (Option.bind (signal_result sig) activity_result_from_str) = signal_result sig"
  by (cases sig) (simp_all add: activity_result_from_str_def activity_result_to_str_def)

lemma as_str_opt [simp]: "as_str (opt_str x) = x"
  by (cases x) simp_all

lemma not_claimed: "signal_str sig = ''claimed'' \<longleftrightarrow> sig = SigClaimed" "signal_str sig = ''reassigned'' \<longleftrightarrow> sig = SigReassigned"
  by (cases sig; simp)+

definition completed_by :: "signal_type \<Rightarrow> int \<Rightarrow> string option \<Rightarrow> timestamp \<Rightarrow> replayed_activity \<Rightarrow> replayed_activity" where
  "completed_by sig by notes t x = x\<lparr>ra_status := AsCompleted, ra_result := signal_result sig, ra_review_notes := notes,
     ra_reviewed_by := Some (show_int by), ra_reviewed_at := Some t\<rparr>"

lemma completed_by_alt: "completed_by sig by notes t = (\<lambda>x. x\<lparr>ra_reviewed_by := Some (show_int by), ra_review_notes := notes,
     ra_reviewed_at := Some t, ra_status := AsCompleted, ra_result := signal_result sig\<rparr>)"
  by (rule ext, simp add: completed_by_def)

lemma replay_signal_complete:
  assumes "target_in env L act" "sig \<noteq> SigClaimed" "sig \<noteq> SigReassigned"
  shows "replay_completed_activity t (obj [(''activity_id'', JStr (ai_id act)), (''result'', opt_str (signal_result sig))])
     (replay_signal t (obj [(''signal_type'', JStr (signal_str sig)), (''target_activity_id'', JStr (ai_id act)),
             (''reviewer_id'', JStr (show_int by)), (''review_notes'', opt_str notes)]) L) =
    upd_acts (update_where (active_at (ai_id act)) (completed_by sig by notes t)) L" (is "?lhs = _")
proof -
  have d: "distinct (map ra_id (rp_activities L))" using assms(1) by (simp add: target_in_def)
  have "?lhs = upd_acts (update_first (\<lambda>x. ra_id x = ai_id act) (completed_by sig by notes t)) L"
    using assms(2,3)
    by (simp add: replay_completed_activity_def replay_signal_def pstr_obj Let_def not_claimed update_first_first upd_acts_def
        completed_by_alt)
  then show ?thesis by (simp add: upd_acts_def update_first_active [OF d target_active [OF assms(1)]])
qed

lemma src_done_completed:
  assumes "target_in env L act"
  shows "src_done (ai_id act) (upd_acts (update_where (active_at (ai_id act)) (completed_by sig by notes t)) L)"
proof -
  have m: "map ra_id (update_where (active_at (ai_id act)) (completed_by sig by notes t) (rp_activities L)) = map ra_id (rp_activities L)"
    by (rule map_key_update_where) (simp add: completed_by_def)
  have "ai_id act \<in> set (map ra_id (update_where (active_at (ai_id act)) (completed_by sig by notes t) (rp_activities L)))"
    unfolding m using assms by (auto simp: target_in_def intro: rev_image_eqI)
  moreover have "ra_status x \<noteq> AsActive"
    if x: "x \<in> set (update_where (active_at (ai_id act)) (completed_by sig by notes t) (rp_activities L))" "ra_id x = ai_id act" for x
    using in_update_whereE [OF x(1)] x(2) by (elim bexE) (simp add: completed_by_def split: if_splits)
  ultimately show ?thesis by (simp add: src_done_def)
qed

lemma hoare_signal_complete:
  assumes u: "uuid_text_ok env" and i: "cx_instance_id ctx = i" and tg: "target_in env L act"
    and sig: "sg_signal cmd \<noteq> SigClaimed" "sg_signal cmd \<noteq> SigReassigned" and run: "running L"
    and a: "agrees (join_free sn) L R"
  shows "hoare (St env sn i t L R) (signal_complete env ctx cmd act) (\<lambda>_. Syn env sn i t (run_from (ai_id act)))"
proof -
  let ?p = "obj [(''signal_type'', JStr (signal_str (sg_signal cmd))), (''target_activity_id'', JStr (ai_id act)),
             (''reviewer_id'', JStr (show_int (sg_actor_user_id cmd))), (''review_notes'', opt_str (sg_review_notes cmd))]"
    and ?p' = "obj [(''activity_id'', JStr (ai_id act)), (''result'', opt_str (signal_result (sg_signal cmd)))]"
  let ?L = "upd_acts (update_where (active_at (ai_id act)) (completed_by (sg_signal cmd) (sg_actor_user_id cmd) (sg_review_notes cmd) t)) L"
  let ?R = "log_step sn t ev_ACTIVITY_COMPLETED ?p' (log_step sn t ev_SIGNAL_RECEIVED ?p R)"
  have cas: "hoare (St env sn i t L R') (tx_op (complete_activity_cas x
        (Option.bind (signal_result (sg_signal cmd)) activity_result_from_str) (sg_actor_user_id cmd) (sg_review_notes cmd)))
      (\<lambda>_. St env sn i t ?L R')" if "uuid_str env x = ai_id act" for x R'
    using hoare_complete_activity_cas [OF u, of sn i t L R' x "Option.bind (signal_result (sg_signal cmd)) activity_result_from_str"]
    unfolding signal_result_code that completed_by_def by (rule hoare_post) simp
  have px: "uuid_str env x = ai_id act" if "parse_uuid env (ai_id act) = Inr x" for x
    using that tg u by (auto simp: target_in_def parse_uuid_str)
  have "?L = log_step sn t ev_ACTIVITY_COMPLETED ?p' (log_step sn t ev_SIGNAL_RECEIVED ?p L)"
    by (simp add: replay_signal_complete [OF tg sig])
  then have "agrees (join_free sn) ?L ?R" by (simp only: agrees_log_step a)
  moreover have "run_from (ai_id act) ?L" using run by (simp add: run_from_def src_done_completed [OF tg])
  ultimately have fin: "Syn env sn i t (run_from (ai_id act)) db" if "St env sn i t ?L ?R db" for db
    using that by (auto intro: SynI)
  show ?thesis
    unfolding signal_complete_def complete_activity_def
    by (rule hoare_then [OF hoare_append [OF i]], rule hoare_lift, rule hoare_bind [OF cas], erule px)
      (auto intro!: hoare_skip [OF hoare_cancel] hoare_post [OF hoare_append [OF i]] fin simp del: log_step_simps)
qed

section \<open>Claiming\<close>

lemma hoare_signal_claim:
  assumes u: "uuid_text_ok env" and i: "cx_instance_id ctx = i" and tg: "target_in env L act" and b: "ai_id act = uuid_str env b"
    and sig: "sg_signal cmd = SigClaimed \<or> sg_signal cmd = SigReassigned" and s: "settled L" and a: "agrees (join_free sn) L R"
  shows "hoare (St env sn i t L R) (signal_claim env ctx cmd act b) (\<lambda>_. Syn env sn i t settled)"
proof -
  let ?p = "obj [(''signal_type'', JStr (signal_str (sg_signal cmd))), (''target_activity_id'', JStr (ai_id act)),
             (''assignee_id'', opt_str (map_option show_int (sg_assignee_id cmd)))]"
  let ?L = "upd_acts (update_where (active_at (ai_id act)) (\<lambda>x. x\<lparr>ra_assignee_id := map_option show_int (sg_assignee_id cmd)\<rparr>)) L"
  have d: "distinct (map ra_id (rp_activities L))" using tg by (simp add: target_in_def)
  have "log_step sn t ev_SIGNAL_RECEIVED ?p L = ?L"
    using sig update_first_active [OF d target_active [OF tg]]
    by (simp add: replay_signal_def pstr_obj not_claimed upd_acts_def)
  then have "agrees (join_free sn) ?L (log_step sn t ev_SIGNAL_RECEIVED ?p R)"
    using agrees_log_step [OF a, of sn t ev_SIGNAL_RECEIVED ?p] by simp
  then have fin: "Syn env sn i t settled db" if "St env sn i t ?L (log_step sn t ev_SIGNAL_RECEIVED ?p R) db" for db
    by (rule SynI [OF that]) (use s in \<open>simp add: settled_def\<close>)
  show ?thesis
    unfolding signal_claim_def
    by (rule hoare_bind [OF hoare_assignee [OF u]], rule hoare_then [OF hoare_append [OF i]], rule hoare_pre [OF hoare_outcome_of])
      (use fin b in simp)
qed

section \<open>signal\<close>

text \<open>The definitions the result is about: no edge sends an instance back for rework.\<close>

definition rework_free :: "definition_snapshot \<Rightarrow> bool" where
  "rework_free sn \<longleftrightarrow> (\<forall>tr\<in>set (ds_transitions sn). tr_on_signal tr \<noteq> SigReturned)"

lemma rework_free_decide:
  "rework_free sn \<Longrightarrow> no_rework (fst (decide_advance cel nodes (ds_transitions sn) n sig c))"
  by (rule no_rework_decide) (auto simp: rework_free_def find_next_transition_def find_None_set)

lemma settled_not_terminal: "settled L \<Longrightarrow> \<not> ws_is_terminal (ri_status (rp_instance L)) \<Longrightarrow> running L"
  by (cases "ri_status (rp_instance L)") (auto simp: settled_def)

lemma hoare_decided_outcome:
  assumes u: "uuid_text_ok env" and ctx: "ctx_of sn i ctx" and r: "in_i32 r" and src: "\<exists>a. ai_id src = uuid_str env a"
    and d: "no_rework (fst d)" and m: "\<And>P. hoare P m (\<lambda>_. P)"
  shows "hoare (Syn env sn i t (run_from (ai_id src))) (case d of (out, trace) \<Rightarrow>
      tx_then (apply_outcome env svc fuel ctx out trace src r) m) (\<lambda>_. Syn env sn i t settled)"
  by (cases d) (use d in \<open>auto intro!: hoare_then [OF hoare_apply_outcome [OF u ctx r src]] m\<close>)

lemma hoare_signal_advance:
  assumes u: "uuid_text_ok env" and ctx: "ctx_of sn i ctx" and tg: "target_in env L act"
    and sig: "sg_signal cmd \<noteq> SigClaimed" "sg_signal cmd \<noteq> SigReassigned" and run: "running L"
    and a: "agrees (join_free sn) L R" and st: "wi_status inst = WsActive" and rf: "rework_free sn"
  shows "hoare (St env sn i t L R) (signal_advance env svc fuel ctx inst node cmd act) (\<lambda>_. Syn env sn i t settled)"
  unfolding signal_advance_def
proof (rule hoare_bind [OF hoare_context_writes [OF ctx]], rule hoare_pure)
  fix ctx'
  assume ctx': "ctx_of sn i ctx'"
  then have i: "cx_instance_id ctx' = i" and sn: "cx_snapshot ctx' = sn" by (simp_all add: ctx_of_def)
  have r: "in_i32 (ai_round act)" and src: "\<exists>a. ai_id act = uuid_str env a" using tg by (auto simp: target_in_def)
  show "hoare (St env sn i t L R) (tx_then (signal_complete env ctx' cmd act)
      (tx_then (signal_resume ctx' inst act)
      (case decide_advance (env_cel env) (ds_nodes (cx_snapshot ctx')) (ds_transitions (cx_snapshot ctx'))
             (ai_activity_definition_id act) (sg_signal cmd) (cx_context ctx') of
        (outcome, trace) \<Rightarrow>
          tx_then (apply_outcome env svc fuel ctx' outcome trace act (ai_round act))
          (signal_outcome_of env (sg_instance_id cmd))))) (\<lambda>_. Syn env sn i t settled)"
    unfolding sn
    by (rule hoare_then [OF hoare_signal_complete [OF u i tg sig run a]], rule hoare_skip)
      (simp add: signal_resume_def st,
       rule hoare_decided_outcome [OF u ctx' r src rework_free_decide [OF rf] hoare_outcome_of])
qed

lemma hoare_signal:
  assumes u: "uuid_text_ok env" and rf: "rework_free sn" and i: "sg_instance_id cmd = i"
  shows "hoare (Syn env sn i t settled) (signal env svc fuel cmd) (\<lambda>_. Syn env sn i t settled)"
proof (rule hoare_Syn)
  fix L R
  assume a: "agrees (join_free sn) L R" and q: "settled L"
  let ?Q = "\<lambda>_. Syn env sn i t settled"
  have same: "hoare (St env sn i t L R) m ?Q" if "hoare (St env sn i t L R) m (\<lambda>_. St env sn i t L R)" for m :: "signal_outcome tx"
    by (rule hoare_post [OF that]) (rule SynI [where q = settled, OF _ a q])
  have inner: "hoare (St env sn i t L R) (if sg_signal cmd = SigClaimed \<or> sg_signal cmd = SigReassigned then signal_claim env ctx cmd act b
       else signal_advance env svc fuel ctx inst node cmd act) ?Q"
    if c: "ctx_of sn i ctx" and tg: "target_in env L act" and b: "parse_uuid env (ai_id act) = Inr b" and st: "wi_status inst = WsActive"
      and run: "running L" for ctx act b inst node
  proof -
    have e: "ai_id act = uuid_str env b" using b tg u by (auto simp: target_in_def parse_uuid_str)
    have id: "cx_instance_id ctx = i" using c by (simp add: ctx_of_def)
    show ?thesis
      by (auto intro: hoare_signal_claim [OF u id tg e _ q a] hoare_signal_advance [OF u c tg _ _ run a st rf])
  qed
  have active: "hoare (St env sn i t L R) (signal_active env svc fuel inst cmd) ?Q"
    if st: "wi_status inst = WsActive" and run: "running L" for inst
    unfolding signal_active_def i
    by (rule hoare_bind [OF hoare_snapshot], rule hoare_pure, rule hoare_bind, simp only:, rule hoare_make_ctx, rule hoare_pure,
        rule hoare_bind [OF hoare_target [OF u]], rule hoare_pure, (rule hoare_lift)+, rule hoare_lift_then)
      (use inner st run i in auto)
  show "hoare (St env sn i t L R) (signal env svc fuel cmd) ?Q"
  proof (cases "trim_is_empty (sg_idempotency_key cmd)")
    case False
    show ?thesis
      unfolding signal_def Let_def i if_not_P [OF False]
    proof (rule hoare_bind [OF hoare_locked_instance], rule hoare_pure, rule hoare_read_any)
      fix inst :: workflow_instance and seen
      assume st: "wi_status inst = ri_status (rp_instance L) \<and> wi_result inst = ri_result (rp_instance L)"
      have "wi_status inst = WsActive \<and> running L" if "\<not> ws_is_terminal (wi_status inst)"
        using settled_not_terminal [OF q] that st by simp
      with active [of inst] same [OF hoare_replayed_outcome [where env = env and i = i and inst = inst]] show "hoare (St env sn i t L R)
        (if seen then replayed_outcome env i inst
         else if ws_is_terminal (wi_status inst) then
           tx_fail (Conflict (''workflow instance '' @ uuid_str env i @ '' is already terminal ('' @
             ws_as_str (wi_status inst) @ '')''))
         else signal_active env svc fuel inst cmd) ?Q"
        by simp
    qed
  qed (simp add: signal_def)
qed

section \<open>resubmit\<close>

lemma max_round_i32:
  assumes "St env sn i t L R db"
  shows "- (2 ^ 31) \<le> max_round i db"
proof (cases "activities_of i db = []")
  case False
  then have "Max (ar_round ` set (activities_of i db)) \<in> ar_round ` set (activities_of i db)" by (intro Max_in) auto
  then obtain r where "r \<in> set (activities_of i db)" "Max (set (map ar_round (activities_of i db))) = ar_round r"
    unfolding set_map by (elim imageE)
  moreover have "\<forall>r\<in>set (activities_of i db). in_i32 (ar_round r)" using assms by (auto simp: St_def wf_db_def)
  ultimately show ?thesis using False by (auto simp: max_round_def in_i32_def)
qed (simp add: max_round_def)

text \<open>The limit of a service made by \<open>service_new\<close> is an i32 far from the top.\<close>

definition rounds_limited :: "workflow_service \<Rightarrow> bool" where
  "rounds_limited svc \<longleftrightarrow> wc_max_round_hard_limit (svc_config svc) \<le> MAX_ROUND_HARD_LIMIT"

lemma rounds_limited_new [simp]: "rounds_limited (service_new config registry)"
  by (simp add: rounds_limited_def service_new_def MAX_ROUND_HARD_LIMIT_def)

lemma check_round_bound: "rounds_limited svc \<Longrightarrow> check_round svc ctx r = Inr () \<Longrightarrow> r \<le> 20"
  by (auto simp: check_round_def rounds_limited_def MAX_ROUND_HARD_LIMIT_def Let_def split: if_splits)

lemma hoare_resubmit_enter:
  assumes u: "uuid_text_ok env" and ctx: "ctx_of sn i ctx" and r: "in_i32 r"
    and a: "agrees (join_free sn) L R"
  shows "hoare (St env sn i t L R) (resubmit_enter env svc ctx r key) (\<lambda>_. Syn env sn i t settled)"
proof -
  have i: "cx_instance_id ctx = i" and sn: "cx_snapshot ctx = sn" using ctx by (simp_all add: ctx_of_def)
  let ?p = "obj [(''round'', JInt r)]"
  let ?L = "upd_inst (\<lambda>x. x\<lparr>ri_status := WsActive, ri_result := None, ri_completed_at := None\<rparr>) L"
  have "?L = log_step sn t ev_REACTIVATED ?p L" by (simp add: replay_reactivated_def upd_inst_def)
  then have "agrees (join_free sn) ?L (log_step sn t ev_REACTIVATED ?p R)" by (simp only: agrees_log_step a)
  then have entered: "Syn env sn i t running db" if "St env sn i t ?L (log_step sn t ev_REACTIVATED ?p R) db" for db
    by (rule SynI [OF that]) simp
  have enter: "hoare (Syn env sn i t running) (schedule_current env svc ctx node role r) (\<lambda>_. Syn env sn i t settled)"
    if "ctx_node ctx n = Inr node" for n node role
    using hoare_schedule_current [OF u i conjunct1 [OF ctx_node_in_snapshot [OF that sn]] r, of t svc role]
    by (rule hoare_post) (auto elim: Syn_mono)
  show ?thesis
    unfolding resubmit_enter_def i
  proof (rule hoare_bind [OF hoare_reactivate])
    fix ok
    show "hoare (\<lambda>db. ok \<longrightarrow> St env sn i t ?L R db)
      (if \<not> ok then tx_fail (Conflict ''reactivate lost the race (instance no longer completed/returned)'')
       else tx_then (append_ev ctx ev_REACTIVATED ?p (Some key))
         (tx_bind (tx_lift (okorR (Validation ''definition has no approval node to re-enter'') (decide_start (ds_nodes (cx_snapshot ctx)))))
           (\<lambda>(entry_node_id, entry_role).
              tx_bind (tx_lift (ctx_node ctx entry_node_id)) (\<lambda>entry_node.
              tx_then (schedule_current env svc ctx entry_node entry_role r) (signal_outcome_of env i)))))
      (\<lambda>_. Syn env sn i t settled)"
      by (cases ok) (auto intro!: hoare_then [OF hoare_append [OF i]] hoare_lift hoare_then [OF hoare_pre [OF enter entered]]
          hoare_outcome_of simp del: log_step_simps)
  qed
qed

lemma hoare_resubmit:
  assumes u: "uuid_text_ok env" and lim: "rounds_limited svc"
  shows "hoare (Syn env sn i t settled) (resubmit env svc scope i key) (\<lambda>_. Syn env sn i t settled)"
proof (rule hoare_Syn)
  fix L R
  assume a: "agrees (join_free sn) L R" and q: "settled L"
  let ?Q = "\<lambda>_. Syn env sn i t settled"
  have same: "hoare (St env sn i t L R) (replayed_outcome env i inst) ?Q" for inst
    by (rule hoare_post [OF hoare_replayed_outcome]) (rule SynI [where q = settled, OF _ a q])
  have enter: "hoare (\<lambda>db. St env sn i t L R db \<and> max_round i db = m)
      (tx_then (tx_lift (check_round svc ctx (m + 1))) (resubmit_enter env svc ctx (m + 1) key)) ?Q" if c: "ctx_of sn i ctx" for ctx m
  proof (rule hoare_gen)
    fix db0
    assume s: "St env sn i t L R db0 \<and> max_round i db0 = m"
    then have "- (2 ^ 31) \<le> m" using max_round_i32 [of env sn i t L R db0] by simp
    then have "in_i32 (m + 1)" if "check_round svc ctx (m + 1) = Inr ()"
      using check_round_bound [OF lim that] by (simp add: in_i32_def)
    then show "hoare (\<lambda>db. db = db0) (tx_then (tx_lift (check_round svc ctx (m + 1))) (resubmit_enter env svc ctx (m + 1) key)) ?Q"
      using s by (intro hoare_lift_then) (rule hoare_pre [OF hoare_resubmit_enter [OF u c _ a]], auto)
  qed
  show "hoare (St env sn i t L R) (resubmit env svc scope i key) ?Q"
  proof (cases "trim_is_empty key")
    case False
    show ?thesis
      unfolding resubmit_def if_not_P [OF False] Let_def
    proof (rule hoare_bind [OF hoare_locked_instance], rule hoare_pure, rule hoare_read_any)
      fix inst :: workflow_instance and seen
      have "hoare (St env sn i t L R) (tx_bind (tx_read_res (load_snapshot env i)) (\<lambda>snapshot.
          tx_bind (make_ctx env i inst snapshot) (\<lambda>ctx. tx_bind (tx_read (max_round i)) (\<lambda>m.
          tx_then (tx_lift (check_round svc ctx (m + 1))) (resubmit_enter env svc ctx (m + 1) key))))) ?Q"
        by (rule hoare_bind [OF hoare_snapshot], rule hoare_pure, simp only:, rule hoare_bind [OF hoare_make_ctx], rule hoare_pure,
            rule hoare_read, erule enter)
      with same show "hoare (St env sn i t L R) (if seen then replayed_outcome env i inst
        else if \<not> (wi_status inst = WsCompleted \<and> wi_result inst = Some WrReturned) then
          tx_fail (InvalidState (''resubmit requires a completed(returned) instance, got '' @
            ws_as_str (wi_status inst) @ '' ('' @ debug_opt wr_debug (wi_result inst) @ '')''))
        else tx_bind (tx_read_res (load_snapshot env i)) (\<lambda>snapshot.
          tx_bind (make_ctx env i inst snapshot) (\<lambda>ctx. tx_bind (tx_read (max_round i)) (\<lambda>m.
          tx_then (tx_lift (check_round svc ctx (m + 1))) (resubmit_enter env svc ctx (m + 1) key))))) ?Q"
        by simp
    qed
  qed (simp add: resubmit_def)
qed

text \<open>
  The handlers that are not commands keep the projections in agreement: a firing timer, the
  delivery of a notification or of a business callback, a dead letter.
\<close>

section \<open>The activity of a timer or of an outbox row\<close>

definition owned :: "uuid \<Rightarrow> uuid \<Rightarrow> db \<Rightarrow> bool" where
  "owned i a db \<longleftrightarrow> (\<exists>r\<in>set (db_activities db). ar_id r = a \<and> ar_workflow_instance_id r = i)"

lemma owned_activity:
  assumes s: "St env sn i t L R db" and u: "uuid_text_ok env" and o: "owned i a db"
    and l: "load_activity env a db = Some act" "ai_status act = AsActive"
  shows "target_in env L act \<and> ai_id act = uuid_str env a"
proof -
  obtain r where r: "r \<in> set (db_activities db)" "ar_id r = a" "ar_workflow_instance_id r = i" using o by (auto simp: owned_def)
  then have "find_activity db a = Some r"
    using s find_key_distinct [of ar_id "db_activities db" r] by (simp add: St_def wf_db_def find_activity_def)
  with l have "act = activity_model env r" by (simp add: load_activity_def)
  with r l target_row [OF s u, of r] show ?thesis by (simp add: activities_of_def)
qed

lemma parse_uuid_ok: "uuid_text_ok env \<Longrightarrow> parse_uuid env (uuid_str env u) = Inr u"
  by (simp add: parse_uuid_str)

section \<open>A firing timer\<close>

lemma hoare_fire_reminder:
  "agrees (join_free sn) L R \<Longrightarrow> q L \<Longrightarrow> hoare (St env sn i t L R) (fire_reminder env svc ctx node act) (\<lambda>_. Syn env sn i t q)"
  unfolding fire_reminder_def by (rule hoare_then [OF hoare_enqueue_notification]) (auto intro: SynI)

lemma update_where_target:
  assumes "target_in env L act"
  shows "update_first (\<lambda>x. ra_id x = ai_id act) g (rp_activities L) = update_where (active_at (ai_id act)) g (rp_activities L)"
  by (rule update_first_active [OF _ target_active [OF assms]]) (use assms in \<open>simp add: target_in_def\<close>)

lemma hoare_fire_escalation:
  assumes u: "uuid_text_ok env" and i: "cx_instance_id ctx = i" and tg: "target_in env L act" and b: "ai_id act = uuid_str env b"
    and s: "settled L" and a: "agrees (join_free sn) L R"
  shows "hoare (St env sn i t L R) (fire_escalation env svc ctx node act b) (\<lambda>_. Syn env sn i t settled)"
proof (cases "escalation_config node")
  case None
  then show ?thesis using s a by (auto simp: fire_escalation_def intro: SynI)
next
  case (Some c)
  obtain sec role where c: "escalation_config node = Some (sec, role)" using Some by (cases c) auto
  let ?p = "obj [(''activity_id'', JStr (ai_id act)), (''from_role'', opt_str (ai_assignee_role act)), (''to_role'', JStr role)]"
  let ?L = "upd_acts (update_where (active_at (ai_id act)) (\<lambda>x. x\<lparr>ra_assignee_role := Some role\<rparr>)) L"
  have "log_step sn t ev_APPROVAL_ESCALATED ?p L = ?L"
    by (simp add: replay_escalated_def pstr_obj upd_acts_def update_where_target [OF tg])
  then have ag: "agrees (join_free sn) ?L (log_step sn t ev_APPROVAL_ESCALATED ?p R)"
    using agrees_log_step [OF a, of sn t ev_APPROVAL_ESCALATED ?p] by simp
  have fin: "Syn env sn i t settled db" if "St env sn i t ?L (log_step sn t ev_APPROVAL_ESCALATED ?p R) db" for db
    by (rule SynI [OF that ag]) (use s in \<open>simp add: settled_def\<close>)
  have esc: "hoare (St env sn i t ?L R) (tx_then (append_ev ctx ev_APPROVAL_ESCALATED ?p None)
     (enqueue_notification env ctx act ob_NOTIFICATION_ESCALATION
       (framework_notification env svc ctx (wc_escalation_template_code (svc_config svc)) (Some role) node))) (\<lambda>_. Syn env sn i t settled)"
    by (rule hoare_then [OF hoare_append [OF i]], rule hoare_post [OF hoare_enqueue_notification]) (rule fin)
  show ?thesis
    unfolding fire_escalation_def c option.case prod.case
  proof (rule hoare_bind [OF hoare_assignee_role [OF u]])
    fix ok
    let ?P = "\<lambda>db. St env sn i t (upd_acts (update_where (active_at (uuid_str env b)) (\<lambda>x. x\<lparr>ra_assignee_role := Some role\<rparr>)) L) R db \<and>
         (ok \<longrightarrow> active_if_present (uuid_str env b) L) \<and>
         (\<not> ok \<longrightarrow> upd_acts (update_where (active_at (uuid_str env b)) (\<lambda>x. x\<lparr>ra_assignee_role := Some role\<rparr>)) L = L)"
      and ?m = "tx_then (append_ev ctx ev_APPROVAL_ESCALATED ?p None)
         (enqueue_notification env ctx act ob_NOTIFICATION_ESCALATION
           (framework_notification env svc ctx (wc_escalation_template_code (svc_config svc)) (Some role) node))"
    have "Syn env sn i t settled db" if "?P db" "\<not> ok" for db using that s a by (auto intro: SynI)
    moreover have "hoare ?P ?m (\<lambda>_. Syn env sn i t settled)" by (rule hoare_pre [OF esc]) (simp add: b)
    ultimately have "hoare ?P (tx_when ok ?m) (\<lambda>_. Syn env sn i t settled)" by (rule hoare_when [rotated])
    then show "hoare ?P (tx_then (tx_when ok ?m) (tx_return True)) (\<lambda>_. Syn env sn i t settled)"
      by (rule hoare_then) simp
  qed
qed

lemma run_from_upd:
  assumes "target_in env L act" "running L" "\<And>x. ra_id (g x) = ra_id x" "\<And>x. ra_status (g x) \<noteq> AsActive"
  shows "run_from (ai_id act) (upd_acts (update_where (active_at (ai_id act)) g) L)"
proof -
  have m: "map ra_id (update_where (active_at (ai_id act)) g (rp_activities L)) = map ra_id (rp_activities L)"
    by (rule map_key_update_where) (rule assms(3))
  have "ai_id act \<in> set (map ra_id (update_where (active_at (ai_id act)) g (rp_activities L)))"
    unfolding m using assms(1) by (auto simp: target_in_def intro: rev_image_eqI)
  moreover have "ra_status x \<noteq> AsActive"
    if x: "x \<in> set (update_where (active_at (ai_id act)) g (rp_activities L))" "ra_id x = ai_id act" for x
    using in_update_whereE [OF x(1)] x(2) assms(3,4) by (elim bexE) (simp split: if_splits)
  ultimately show ?thesis using assms(2) by (simp add: run_from_def src_done_def)
qed

lemma hoare_fire_timeout:
  assumes u: "uuid_text_ok env" and ctx: "ctx_of sn i ctx" and tg: "target_in env L act" and b: "ai_id act = uuid_str env b"
    and run: "running L" and a: "agrees (join_free sn) L R"
  shows "hoare (St env sn i t L R) (fire_timeout env svc fuel ctx act b) (\<lambda>_. Syn env sn i t settled)"
proof -
  have i: "cx_instance_id ctx = i" and sn: "cx_snapshot ctx = sn" using ctx by (simp_all add: ctx_of_def)
  have r: "in_i32 (ai_round act)" and src: "\<exists>a. ai_id act = uuid_str env a" using tg by (auto simp: target_in_def)
  let ?p = "obj [(''activity_id'', JStr (ai_id act))]"
  let ?L = "upd_acts (update_where (active_at (ai_id act)) (\<lambda>x. x\<lparr>ra_status := AsSkipped\<rparr>)) L"
  have "?L = log_step sn t ev_ACTIVITY_SKIPPED ?p L"
    by (simp add: replay_skipped_def pstr_obj upd_acts_def update_where_target [OF tg])
  then have "agrees (join_free sn) ?L (log_step sn t ev_ACTIVITY_SKIPPED ?p R)" by (simp only: agrees_log_step a)
  moreover have "run_from (ai_id act) ?L" by (rule run_from_upd [OF tg run]) simp_all
  ultimately have fin: "Syn env sn i t (run_from (ai_id act)) db" if "St env sn i t ?L (log_step sn t ev_ACTIVITY_SKIPPED ?p R) db" for db
    using that by (auto intro: SynI)
  show ?thesis
    unfolding fire_timeout_def
    by (rule hoare_bind [OF hoare_skip_activity [OF u, where a = b, folded b]], rule hoare_skip [OF hoare_cancel],
        rule hoare_then [OF hoare_post [OF hoare_append [OF i] fin]], assumption,
        rule hoare_decided_outcome [OF u ctx r src no_rework_timeout]) simp
qed

lemma hoare_fire_active_timer:
  assumes u: "uuid_text_ok env" and tg: "target_in env L act" and b: "ai_id act = uuid_str env b"
    and run: "running L" and a: "agrees (join_free sn) L R"
  shows "hoare (St env sn i t L R) (fire_active_timer env svc fuel k i inst act b) (\<lambda>_. Syn env sn i t settled)"
proof -
  have "hoare (St env sn i t L R)
     (if k = ''reminder'' then fire_reminder env svc ctx node act
      else if k = ''escalation'' then fire_escalation env svc ctx node act b
      else if k = ''timeout'' then fire_timeout env svc fuel ctx act b
      else tx_fail (InvalidState (''unknown timer_kind '' @ quoted k))) (\<lambda>_. Syn env sn i t settled)"
    if c: "ctx_of sn i ctx" for ctx node
    using hoare_fire_timeout [OF u c tg b run a] hoare_fire_reminder [where q = settled and env = env and i = i and t = t and svc = svc and ctx = ctx and node = node and act = act, OF a settled_running [OF run]]
      hoare_fire_escalation [OF u conjunct1 [OF c [unfolded ctx_of_def]] tg b settled_running [OF run] a] by simp
  then show ?thesis
    unfolding fire_active_timer_def
    by (intro hoare_bind [OF hoare_snapshot] hoare_pure, simp only:)
      (rule hoare_bind [OF hoare_make_ctx], rule hoare_pure, rule hoare_lift, rule hoare_then [OF hoare_log_marker],
        simp_all add: ctx_of_def)
qed

lemma hoare_fire_timer:
  assumes u: "uuid_text_ok env" and ids: "tm_workflow_instance_id timer = uuid_str env i" "tm_activity_instance_id timer = uuid_str env a"
  shows "hoare (\<lambda>db. Syn env sn i t settled db \<and> owned i a db) (fire_timer env svc fuel timer) (\<lambda>_. Syn env sn i t settled)"
proof -
  have "hoare (\<lambda>db. St env sn i t L R db \<and> owned i a db) (fire_timer env svc fuel timer) (\<lambda>_. Syn env sn i t settled)"
    if ag: "agrees (join_free sn) L R" and q: "settled L" for L R
  proof -
    have st: "Syn env sn i t settled db" if "St env sn i t L R db" for db using that ag q by (auto intro: SynI)
    have fired: "hoare (\<lambda>db. St env sn i t L R db \<and> owned i a db) (tx_op (mark_timer_fired u))
        (\<lambda>_ db. St env sn i t L R db \<and> owned i a db)" for u
      using hoare_timer_fired [of env sn i t L R u]
      by (auto simp: hoare_def tx_op_def mark_timer_fired_def set_timers_def owned_def)
    have act: "hoare (\<lambda>db. (St env sn i t L R db \<and> owned i a db) \<and> load_instance env i db = Some inst)
        (tx_bind (tx_read (load_activity env a)) (\<lambda>found.
          case found of None \<Rightarrow> tx_return False
          | Some activity \<Rightarrow> if ai_status activity \<noteq> AsActive then tx_return False
              else fire_active_timer env svc fuel (tm_timer_kind timer) i inst activity a)) (\<lambda>_. Syn env sn i t settled)"
      if nt: "\<not> ws_is_terminal (wi_status inst)" for inst
    proof (rule hoare_read, rule hoare_gen)
      fix found db0
      assume "((St env sn i t L R db0 \<and> owned i a db0) \<and> load_instance env i db0 = Some inst) \<and> load_activity env a db0 = found"
      then have s: "St env sn i t L R db0" "owned i a db0" "load_activity env a db0 = found" and i: "load_instance env i db0 = Some inst"
        by auto
      have "running L" using settled_not_terminal [OF q] nt loaded_instance [OF s(1) i] by simp
      with owned_activity [OF s(1) u s(2)] s show "hoare (\<lambda>db. db = db0) (case found of None \<Rightarrow> tx_return False
          | Some activity \<Rightarrow> if ai_status activity \<noteq> AsActive then tx_return False
              else fire_active_timer env svc fuel (tm_timer_kind timer) i inst activity a) (\<lambda>_. Syn env sn i t settled)"
        by (auto split: option.split intro: st intro!: hoare_pre [OF hoare_fire_active_timer [OF u _ _ _ ag]])
    qed
    have inst: "hoare (\<lambda>db. (St env sn i t L R db \<and> owned i a db) \<and> load_instance env i db = found) (case found of
          None \<Rightarrow> tx_return False
        | Some inst \<Rightarrow> if ws_is_terminal (wi_status inst) then tx_return False
            else tx_bind (tx_read (load_activity env a)) (\<lambda>found.
              case found of None \<Rightarrow> tx_return False
              | Some activity \<Rightarrow> if ai_status activity \<noteq> AsActive then tx_return False
                  else fire_active_timer env svc fuel (tm_timer_kind timer) i inst activity a)) (\<lambda>_. Syn env sn i t settled)" for found
      using act st by (cases found) (simp_all split: if_split)
    show ?thesis
      unfolding fire_timer_def ids parse_uuid_ok [OF u] tx_lift_Inr
      by (rule hoare_lift, rule hoare_bind [OF fired], rule hoare_if, simp add: st, rule hoare_read, rule inst)
  qed
  then show ?thesis by (auto simp: hoare_def Syn_def)
qed

section \<open>Deliveries\<close>

lemma completed_by_outbox:
  assumes "target_in env L act"
  shows "update_where (active_at (ai_id act)) (\<lambda>x. x\<lparr>ra_status := AsCompleted, ra_result := None, ra_review_notes := None,
      ra_reviewed_by := Some (show_int 0), ra_reviewed_at := Some t\<rparr>) (rp_activities L) =
    update_where (active_at (ai_id act)) (\<lambda>x. x\<lparr>ra_status := AsCompleted, ra_result := None,
      ra_reviewed_by := Some NIL_ACTOR, ra_reviewed_at := Some t\<rparr>) (rp_activities L)"
proof -
  obtain y where y: "y \<in> set (rp_activities L)" "ra_id y = ai_id act" "ra_review_notes y = None"
    and d: "distinct (map ra_id (rp_activities L))" using assms by (auto simp: target_in_def)
  have z: "show_int 0 = NIL_ACTOR" by code_simp
  show ?thesis
    unfolding update_where_def
  proof (intro map_cong refl)
    fix x
    assume x: "x \<in> set (rp_activities L)"
    have "ra_review_notes x = None" if "ra_id x = ai_id act" using that x y d by (metis distinct_map inj_onD)
    then show "(if active_at (ai_id act) x then x\<lparr>ra_status := AsCompleted, ra_result := None, ra_review_notes := None,
        ra_reviewed_by := Some (show_int 0), ra_reviewed_at := Some t\<rparr> else x) =
      (if active_at (ai_id act) x then x\<lparr>ra_status := AsCompleted, ra_result := None,
        ra_reviewed_by := Some NIL_ACTOR, ra_reviewed_at := Some t\<rparr> else x)"
      unfolding z by (cases x) simp
  qed
qed

lemma hoare_decided:
  assumes u: "uuid_text_ok env" and ctx: "ctx_of sn i ctx" and r: "in_i32 r" and src: "\<exists>a. ai_id src = uuid_str env a"
    and d: "no_rework (fst d)"
  shows "hoare (Syn env sn i t (run_from (ai_id src))) (case d of (out, trace) \<Rightarrow>
      apply_outcome env svc fuel ctx out trace src r) (\<lambda>_. Syn env sn i t settled)"
  by (cases d) (use d in \<open>auto intro!: hoare_apply_outcome [OF u ctx r src]\<close>)

lemma hoare_complete_delivered:
  assumes u: "uuid_text_ok env" and tg: "target_in env L act" and b: "ai_id act = uuid_str env b"
    and run: "running L" and a: "agrees (join_free sn) L R"
  shows "hoare (St env sn i t L R) (complete_delivered env svc fuel i b inst act) (\<lambda>_. Syn env sn i t settled)"
proof -
  let ?p = "obj [(''activity_id'', JStr (ai_id act)), (''result'', JNull), (''source'', JStr ''notification_outbox'')]"
  let ?g = "\<lambda>x. x\<lparr>ra_status := AsCompleted, ra_result := None, ra_reviewed_by := Some NIL_ACTOR, ra_reviewed_at := Some t\<rparr>"
  let ?L = "upd_acts (update_where (active_at (ai_id act)) ?g) L"
  have r: "in_i32 (ai_round act)" and src: "\<exists>a. ai_id act = uuid_str env a" using tg by (auto simp: target_in_def)
  have cas: "hoare (St env sn i t L R) (tx_op (complete_activity_cas b None 0 None)) (\<lambda>_. St env sn i t ?L R)"
    by (rule hoare_post [OF hoare_complete_activity_cas [OF u]])
      (simp add: b [symmetric] upd_acts_def completed_by_outbox [OF tg])
  have "?L = log_step sn t ev_ACTIVITY_COMPLETED ?p L"
    by (simp add: replay_completed_activity_def pstr_obj upd_acts_def update_where_target [OF tg] Let_def)
  then have "agrees (join_free sn) ?L (log_step sn t ev_ACTIVITY_COMPLETED ?p R)" by (simp only: agrees_log_step a)
  moreover have "run_from (ai_id act) ?L" by (rule run_from_upd [OF tg run]) simp_all
  ultimately have fin: "Syn env sn i t (run_from (ai_id act)) db" if "St env sn i t ?L (log_step sn t ev_ACTIVITY_COMPLETED ?p R) db" for db
    using that by (auto intro: SynI)
  have finished: "hoare (Syn env sn i t (run_from (ai_id act))) (case decide_advance (env_cel env) (ds_nodes (cx_snapshot ctx))
        (ds_transitions (cx_snapshot ctx)) (ai_activity_definition_id act) SigCompleted (cx_context ctx) of
      (outcome, trace) \<Rightarrow> apply_outcome env svc fuel ctx outcome trace act (ai_round act)) (\<lambda>_. Syn env sn i t settled)"
    if c: "ctx_of sn i ctx" for ctx
    by (rule hoare_decided [OF u c r src], rule no_rework_decide) simp
  show ?thesis
    unfolding complete_delivered_def
    by (intro hoare_bind [OF hoare_snapshot] hoare_pure, simp only:)
      (rule hoare_bind [OF hoare_make_ctx], rule hoare_pure, rule hoare_bind [OF cas], rule hoare_skip [OF hoare_cancel],
        rule hoare_then [OF hoare_post [OF hoare_append fin]], simp add: ctx_of_def, assumption, erule finished)
qed

lemma hoare_notification_delivered:
  assumes u: "uuid_text_ok env"
  shows "hoare (\<lambda>db. Syn env sn i t settled db \<and> owned i a db) (on_notification_delivered env svc fuel i a) (\<lambda>_. Syn env sn i t settled)"
proof -
  have "hoare (\<lambda>db. St env sn i t L R db \<and> owned i a db) (on_notification_delivered env svc fuel i a) (\<lambda>_. Syn env sn i t settled)"
    if ag: "agrees (join_free sn) L R" and q: "settled L" for L R
    unfolding on_notification_delivered_def
  proof (rule hoare_gen)
    fix db
    assume s: "St env sn i t L R db \<and> owned i a db"
    then have st: "Syn env sn i t settled db" using ag q by (auto intro: SynI)
    have "hoare (\<lambda>db'. db' = db) (complete_delivered env svc fuel i a inst act) (\<lambda>_. Syn env sn i t settled)"
      if "load_instance env i db = Some inst" "\<not> ws_is_terminal (wi_status inst)" "load_activity env a db = Some act"
        "ai_status act = AsActive" for inst act
    proof -
      have "running L" using settled_not_terminal [OF q] that loaded_instance [of env sn i t L R db inst] s by simp
      moreover have "target_in env L act \<and> ai_id act = uuid_str env a" using owned_activity [of env sn i t L R db a act] s u that by simp
      ultimately show ?thesis using s by (auto intro: hoare_pre [OF hoare_complete_delivered [OF u _ _ _ ag]])
    qed
    with st show "hoare (\<lambda>db'. db' = db) (tx_bind (tx_read (load_instance env i)) (\<lambda>found.
       case found of None \<Rightarrow> tx_return ()
       | Some inst \<Rightarrow> if ws_is_terminal (wi_status inst) then tx_return ()
           else tx_bind (tx_read (load_activity env a)) (\<lambda>found_activity.
             case found_activity of None \<Rightarrow> tx_return ()
             | Some act \<Rightarrow> if ai_status act \<noteq> AsActive then tx_return ()
                 else if ai_activity_type act \<noteq> AtNotification then tx_return ()
                 else complete_delivered env svc fuel i a inst act))) (\<lambda>_. Syn env sn i t settled)"
      by (simp add: hoare_def tx_bind_def tx_read_def tx_return_def split: option.split)
  qed
  then show ?thesis by (auto simp: hoare_def Syn_def)
qed

lemma hoare_callback_delivered: "hoare (Syn env sn i t q) (on_business_callback_delivered j) (\<lambda>_. Syn env sn i t q)"
  by (rule hoare_Syn) (auto simp: on_business_callback_delivered_def intro!: hoare_bind [OF hoare_side_effects] intro: SynI)

lemma hoare_dead_letter: "hoare (Syn env sn i t q) (on_outbox_dead_letter env i a ty e) (\<lambda>_. Syn env sn i t q)"
proof -
  have "hoare (Syn env sn i t q) (tx_bind (make_ctx env i inst sn') (\<lambda>ctx0.
      append_ev (ctx0\<lparr>cx_context := None\<rparr>) ev_ACTIVITY_FAILED p None)) (\<lambda>_. Syn env sn i t q)" for inst sn' p
    by (rule hoare_bind [OF hoare_make_ctx], rule hoare_pure, rule hoare_marker) (simp_all add: ctx_of_def)
  then show ?thesis
    unfolding on_outbox_dead_letter_def Let_def by (auto intro!: hoare_read_any split: option.split)
qed

end
