(* ===== verification/Flow_Isolation.thy ===== *)
theory Flow_Isolation
  imports Flow_Sync_Handlers "HOL-Library.Sublist"
begin

text \<open>
  A handler that works on one instance leaves every other instance alone: its row, its activities
  and its event log. Together with the integrity of the tables (unique keys, references that
  resolve) this is one invariant, kept by every operation and composed by rules that follow the
  structure of the handlers.
\<close>

section \<open>Integrity\<close>

definition numbered :: "db \<Rightarrow> bool" where
  "numbered db \<longleftrightarrow> (\<forall>i. map er_seq (events_of i db) = map int [1..<Suc (length (events_of i db))])"

definition active_unique :: "db \<Rightarrow> bool" where
  "active_unique db \<longleftrightarrow> (\<forall>r\<in>set (db_instances db). \<forall>q\<in>set (db_instances db).
     ir_status r \<in> {1, 2} \<longrightarrow> active_for_key (ir_business_key r) (ir_business_type r) q \<longrightarrow> ir_id q = ir_id r)"

lemma numbered_cong: "db_events db' = db_events db \<Longrightarrow> numbered db' = numbered db"
  by (simp add: numbered_def events_of_def)

lemma active_unique_cong: "db_instances db' = db_instances db \<Longrightarrow> active_unique db' = active_unique db"
  by (simp add: active_unique_def)

lemma numbered_frame [simp]:
  "numbered (db\<lparr>db_instances := a\<rparr>) = numbered db" "numbered (db\<lparr>db_activities := b\<rparr>) = numbered db"
  "numbered (db\<lparr>db_timers := c\<rparr>) = numbered db" "numbered (db\<lparr>db_outbox := d\<rparr>) = numbered db"
  "numbered (db\<lparr>db_now := t\<rparr>) = numbered db" "numbered (db\<lparr>db_next_uuid := u\<rparr>) = numbered db"
  by (rule numbered_cong, simp)+

lemma active_unique_frame [simp]:
  "active_unique (db\<lparr>db_events := a\<rparr>) = active_unique db" "active_unique (db\<lparr>db_activities := b\<rparr>) = active_unique db"
  "active_unique (db\<lparr>db_timers := c\<rparr>) = active_unique db" "active_unique (db\<lparr>db_outbox := d\<rparr>) = active_unique db"
  "active_unique (db\<lparr>db_now := t\<rparr>) = active_unique db" "active_unique (db\<lparr>db_next_uuid := u\<rparr>) = active_unique db"
  by (rule active_unique_cong, simp)+

definition keys_ok :: "db \<Rightarrow> bool" where
  "keys_ok db \<longleftrightarrow> distinct (map mr_id (db_timers db)) \<and> distinct (map xr_id (db_outbox db)) \<and>
     (\<forall>m\<in>set (db_timers db). mr_id m < db_next_uuid db) \<and> (\<forall>x\<in>set (db_outbox db). xr_id x < db_next_uuid db)"

lemma keys_mono:
  "keys_ok db \<Longrightarrow> db_timers db' = db_timers db \<Longrightarrow> db_outbox db' = db_outbox db \<Longrightarrow> db_next_uuid db \<le> db_next_uuid db' \<Longrightarrow> keys_ok db'"
  by (fastforce simp: keys_ok_def)

lemma keys_frame [simp]:
  "keys_ok (db\<lparr>db_instances := a\<rparr>) = keys_ok db" "keys_ok (db\<lparr>db_activities := b\<rparr>) = keys_ok db"
  "keys_ok (db\<lparr>db_events := c\<rparr>) = keys_ok db" "keys_ok (db\<lparr>db_now := t\<rparr>) = keys_ok db"
  by (simp_all add: keys_ok_def)

lemma key_bound_update: "(\<And>r. k (f r) = k r) \<Longrightarrow> (\<forall>r\<in>set (update_where P f rs). k r < (n :: nat)) = (\<forall>r\<in>set rs. k r < n)"
proof -
  assume "\<And>r. k (f r) = k r"
  then have "map k (update_where P f rs) = map k rs" by (rule map_key_update_where)
  then have "k ` set (update_where P f rs) = k ` set rs" by (metis image_set)
  then show ?thesis by (metis (no_types, lifting) image_iff)
qed

lemma keys_set_timers: "keys_ok db \<Longrightarrow> (\<And>m. mr_id (f m) = mr_id m) \<Longrightarrow> keys_ok (snd (set_timers P f db))"
  by (simp add: keys_ok_def set_timers_def map_key_update_where key_bound_update)

lemma keys_set_outbox: "keys_ok db \<Longrightarrow> (\<And>x. xr_id (f x) = xr_id x) \<Longrightarrow> keys_ok (snd (set_outbox P f db))"
  by (simp add: keys_ok_def set_outbox_def map_key_update_where key_bound_update)

lemma keys_schedule: "keys_ok db \<Longrightarrow> keys_ok (snd (schedule_timer tn f i a k s db))"
  and keys_enqueue: "keys_ok db \<Longrightarrow> keys_ok (snd (enqueue_outbox tn f i a ty p db))"
  and keys_insert: "keys_ok db \<Longrightarrow> keys_ok (snd (insert_activity tn i node aty role r db))"
  by (auto simp: keys_ok_def schedule_timer_def enqueue_outbox_def insert_activity_def fresh_def Let_def less_Suc_eq)

definition db_ok :: "db \<Rightarrow> bool" where
  "db_ok db \<longleftrightarrow> 0 < db_next_uuid db \<and>
     distinct (map ir_id (db_instances db)) \<and> distinct (map ar_id (db_activities db)) \<and>
     (\<forall>r\<in>set (db_instances db). ir_id r < db_next_uuid db) \<and>
     (\<forall>r\<in>set (db_activities db). 0 < ar_id r \<and> ar_id r < db_next_uuid db \<and> ar_workflow_instance_id r < db_next_uuid db) \<and>
     (\<forall>e\<in>set (db_events db). er_workflow_instance_id e < db_next_uuid db) \<and>
     (\<forall>m\<in>set (db_timers db). owned (mr_workflow_instance_id m) (mr_activity_instance_id m) db) \<and>
     (\<forall>x\<in>set (db_outbox db). owned (xr_workflow_instance_id x) (xr_activity_instance_id x) db) \<and>
     numbered db \<and> active_unique db \<and> keys_ok db"

definition same_rows :: "uuid \<Rightarrow> db \<Rightarrow> db \<Rightarrow> bool" where
  "same_rows j db db' \<longleftrightarrow> find_instance db' j = find_instance db j \<and> activities_of j db' = activities_of j db \<and>
     events_of j db' = events_of j db"

text \<open>
  What is final: an activity that is no longer active, a timer that has fired or was cancelled, an
  outbox row that succeeded or is dead. Such rows are never written again.
\<close>

definition history_kept :: "db \<Rightarrow> db \<Rightarrow> bool" where
  "history_kept db0 db \<longleftrightarrow>
     (\<forall>r\<in>set (db_activities db0). ar_status r \<noteq> 2 \<longrightarrow> r \<in> set (db_activities db)) \<and>
     (\<forall>m\<in>set (db_timers db0). mr_status m \<noteq> 1 \<longrightarrow> m \<in> set (db_timers db)) \<and>
     (\<forall>x\<in>set (db_outbox db0). xr_status x \<in> {3, 4} \<longrightarrow> x \<in> set (db_outbox db))"

lemma history_refl: "history_kept db db"
  by (simp add: history_kept_def)

lemma history_trans: "history_kept db0 db1 \<Longrightarrow> history_kept db1 db \<Longrightarrow> history_kept db0 db"
  by (simp add: history_kept_def)

lemma in_update_where_other: "r \<in> set rs \<Longrightarrow> \<not> P r \<Longrightarrow> r \<in> set (update_where P f rs)"
  by (auto simp: update_where_def intro: rev_image_eqI)

lemma history_set_instances: "history_kept db0 db \<Longrightarrow> history_kept db0 (snd (set_instances P f db))"
  by (simp add: history_kept_def set_instances_def)

lemma history_set_activities:
  "history_kept db0 db \<Longrightarrow> (\<And>r. P r \<Longrightarrow> ar_status r = 2) \<Longrightarrow> history_kept db0 (snd (set_activities P f db))"
  by (force simp: history_kept_def set_activities_def intro: in_update_where_other)

lemma history_set_timers:
  "history_kept db0 db \<Longrightarrow> (\<And>m. P m \<Longrightarrow> mr_status m = 1) \<Longrightarrow> history_kept db0 (snd (set_timers P f db))"
  by (force simp: history_kept_def set_timers_def intro: in_update_where_other)

lemma history_set_outbox:
  "history_kept db0 db \<Longrightarrow> (\<And>x. P x \<Longrightarrow> xr_status x \<notin> {3, 4}) \<Longrightarrow> history_kept db0 (snd (set_outbox P f db))"
  by (force simp: history_kept_def set_outbox_def intro: in_update_where_other)

lemma history_append_event: "history_kept db0 db \<Longrightarrow> history_kept db0 (snd (append_event tn f i s ty p k db))"
  by (simp add: history_kept_def append_event_def)

lemma history_schedule: "history_kept db0 db \<Longrightarrow> history_kept db0 (snd (schedule_timer tn f i a k s db))"
  and history_enqueue: "history_kept db0 db \<Longrightarrow> history_kept db0 (snd (enqueue_outbox tn f i a ty p db))"
  and history_insert: "history_kept db0 db \<Longrightarrow> history_kept db0 (snd (insert_activity tn i node aty role r db))"
  by (simp_all add: history_kept_def schedule_timer_def enqueue_outbox_def insert_activity_def fresh_def Let_def)

text \<open>The invariant of a handler on instance \<open>i\<close> started in \<open>db0\<close>.\<close>

definition iso :: "uuid \<Rightarrow> db \<Rightarrow> db \<Rightarrow> bool" where
  "iso i db0 db \<longleftrightarrow> db_ok db \<and> db_now db = db_now db0 \<and> i < db_next_uuid db \<and>
     map (\<lambda>r. (ir_id r, ir_definition_snapshot r)) (db_instances db) =
       map (\<lambda>r. (ir_id r, ir_definition_snapshot r)) (db_instances db0) \<and>
     (\<forall>j. j \<noteq> i \<longrightarrow> same_rows j db0 db) \<and> (\<forall>w a. owned w a db0 \<longrightarrow> owned w a db) \<and>
     prefix (db_events db0) (db_events db) \<and> history_kept db0 db"

lemma iso_trans: "iso i db0 db1 \<Longrightarrow> iso i db1 db \<Longrightarrow> iso i db0 db"
  by (auto simp: iso_def same_rows_def intro: prefix_order.trans history_trans)

lemma iso_refl: "db_ok db \<Longrightarrow> i < db_next_uuid db \<Longrightarrow> iso i db db"
  by (simp add: iso_def same_rows_def history_refl)

section \<open>One lemma per kind of operation\<close>

definition inst_update :: "(instance_row \<Rightarrow> instance_row) \<Rightarrow> bool" where
  "inst_update f \<longleftrightarrow> (\<forall>r. ir_id (f r) = ir_id r \<and> ir_definition_snapshot (f r) = ir_definition_snapshot r \<and>
     ir_business_key (f r) = ir_business_key r \<and> ir_business_type (f r) = ir_business_type r)"

lemma active_unique_set:
  assumes u: "active_unique db" and f: "inst_update f" and P: "\<And>r. P r \<Longrightarrow> ir_id r = i"
    and act: "\<And>r. r \<in> set (db_instances db) \<Longrightarrow> P r \<Longrightarrow> ir_status (f r) \<in> {1, 2} \<Longrightarrow> ir_status r \<in> {1, 2} \<or> \<not> active_key_taken i db"
  shows "active_unique (snd (set_instances P f db))"
proof -
  let ?act = "\<lambda>r. ir_status r \<in> {1, 2}"
  have src: "\<exists>r0\<in>set (db_instances db). ir_id r0 = ir_id r \<and> ir_business_key r0 = ir_business_key r \<and>
      ir_business_type r0 = ir_business_type r \<and> (?act r \<longrightarrow> ?act r0 \<or> ir_id r0 = i \<and> \<not> active_key_taken i db)"
    if "r \<in> set (db_instances (snd (set_instances P f db)))" for r
  proof -
    have "r \<in> set (update_where P (\<lambda>r. (f r)\<lparr>ir_updated_at := db_now db\<rparr>) (db_instances db))"
      using that by (simp add: set_instances_def)
    then obtain r0 where r0: "r0 \<in> set (db_instances db)" "r = r0 \<or> P r0 \<and> r = (f r0)\<lparr>ir_updated_at := db_now db\<rparr>"
      using in_update_whereE that by (metis (mono_tags, lifting))
    then show ?thesis using f act [OF r0(1)] P [of r0] by (intro bexI [OF _ r0(1)]) (auto simp: inst_update_def)
  qed
  have clash: "ir_id q = i" if "r \<in> set (db_instances db)" "q \<in> set (db_instances db)" "ir_id r = i" "\<not> active_key_taken i db"
    "active_for_key (ir_business_key r) (ir_business_type r) q" for r q
    using that by (auto simp: active_key_taken_def list_ex_iff)
  show ?thesis
    unfolding active_unique_def
  proof (intro ballI impI)
    fix r q
    assume r: "r \<in> set (db_instances (snd (set_instances P f db)))" and q: "q \<in> set (db_instances (snd (set_instances P f db)))"
      and a: "?act r" "active_for_key (ir_business_key r) (ir_business_type r) q"
    obtain r0 where r0: "r0 \<in> set (db_instances db)" "ir_id r0 = ir_id r" "ir_business_key r0 = ir_business_key r"
      "ir_business_type r0 = ir_business_type r" "?act r0 \<or> ir_id r0 = i \<and> \<not> active_key_taken i db"
      using src [OF r] a(1) by blast
    obtain q0 where q0: "q0 \<in> set (db_instances db)" "ir_id q0 = ir_id q" "ir_business_key q0 = ir_business_key q"
      "ir_business_type q0 = ir_business_type q" "?act q0 \<or> ir_id q0 = i \<and> \<not> active_key_taken i db"
      using src [OF q] a(2) unfolding active_for_key_def by blast
    have k: "ir_business_key q0 = ir_business_key r0" "ir_business_type q0 = ir_business_type r0"
      using a(2) r0 q0 by (simp_all add: active_for_key_def)
    consider "?act r0" "?act q0" | "ir_id r0 = i" "ir_id q0 = i" | "?act r0" "ir_id q0 = i" "\<not> active_key_taken i db"
      | "?act q0" "ir_id r0 = i" "\<not> active_key_taken i db"
      using r0(5) q0(5) by blast
    then have "ir_id q0 = ir_id r0"
    proof cases
      case 1
      with u r0(1) q0(1) k show ?thesis by (auto simp: active_unique_def active_for_key_def)
    next
      case 3
      with clash [OF q0(1) r0(1)] k show ?thesis by (simp add: active_for_key_def)
    next
      case 4
      with clash [OF r0(1) q0(1)] k show ?thesis by (simp add: active_for_key_def)
    qed simp
    with r0(2) q0(2) show "ir_id q = ir_id r" by simp
  qed
qed

lemma iso_set_instances:
  assumes "iso i db0 db" "inst_update f" "\<And>r. P r \<Longrightarrow> ir_id r = i"
    "\<And>r. r \<in> set (db_instances db) \<Longrightarrow> P r \<Longrightarrow> ir_status (f r) \<in> {1, 2} \<Longrightarrow> ir_status r \<in> {1, 2} \<or> \<not> active_key_taken i db"
  shows "iso i db0 (snd (set_instances P f db))"
proof -
  have "keys_ok (snd (set_instances P f db))" using assms(1) by (simp add: iso_def db_ok_def set_instances_def)
  let ?db = "snd (set_instances P f db)"
  have f: "ir_id (f r) = ir_id r" "ir_definition_snapshot (f r) = ir_definition_snapshot r" for r
    using assms(2) by (simp_all add: inst_update_def)
  have m: "map (\<lambda>r. (ir_id r, ir_definition_snapshot r)) (db_instances ?db) =
      map (\<lambda>r. (ir_id r, ir_definition_snapshot r)) (db_instances db)"
    unfolding set_instances_def by (simp add: map_key_update_where f)
  have k: "map ir_id (db_instances ?db) = map ir_id (db_instances db)"
    unfolding set_instances_def by (simp add: map_key_update_where f)
  have "find_instance ?db j = find_instance db j" if "j \<noteq> i" for j
  proof (cases "find_instance db j")
    case (Some r)
    then have "\<not> P r" using that assms(3) by (auto simp: find_instance_def dest: find_SomeD)
    with Some show ?thesis by (simp add: find_instance_set f)
  qed (simp add: find_instance_set f)
  moreover have "set (map ir_id (db_instances ?db)) = set (map ir_id (db_instances db))" unfolding k ..
  then have "(\<forall>r\<in>set (db_instances ?db). ir_id r < n) = (\<forall>r\<in>set (db_instances db). ir_id r < n)" for n
    by (metis (mono_tags, lifting) image_iff image_set)
  moreover have "active_unique ?db" using active_unique_set [OF _ assms(2,3,4)] assms(1) by (simp add: iso_def db_ok_def)
  moreover note \<open>keys_ok ?db\<close>
  moreover have "history_kept db0 ?db" by (rule history_set_instances) (use assms(1) in \<open>simp add: iso_def\<close>)
  ultimately show ?thesis
    using assms(1) k m
    by (simp add: iso_def db_ok_def same_rows_def) (simp add: set_instances_def activities_of_def events_of_def owned_def)
qed

lemma iso_set_activities:
  assumes "iso i db0 db" "act_update f" "\<And>r. r \<in> set (db_activities db) \<Longrightarrow> P r \<Longrightarrow> ar_workflow_instance_id r = i"
    "\<And>r. P r \<Longrightarrow> ar_status r = 2"
  shows "iso i db0 (snd (set_activities P f db))"
proof -
  let ?db = "snd (set_activities P f db)" and ?f = "\<lambda>r. (f r)\<lparr>ar_updated_at := db_now db\<rparr>"
  let ?k = "\<lambda>r. (ar_id r, ar_workflow_instance_id r)"
  have f: "ar_id (f r) = ar_id r" "ar_workflow_instance_id (f r) = ar_workflow_instance_id r" for r
    using assms(2) by (simp_all add: act_update_def)
  have m: "map ?k (db_activities ?db) = map ?k (db_activities db)"
    unfolding set_activities_def by (simp add: map_key_update_where f)
  have k: "map ar_id (db_activities ?db) = map ar_id (db_activities db)"
    unfolding set_activities_def by (simp add: map_key_update_where f)
  have s: "?k ` set (db_activities ?db) = ?k ` set (db_activities db)" using arg_cong [OF m, of set] by simp
  have all: "(\<forall>r\<in>set (db_activities ?db). Q (ar_id r) (ar_workflow_instance_id r)) = (\<forall>r\<in>set (db_activities db). Q (ar_id r) (ar_workflow_instance_id r))" for Q
    using s by (simp add: set_eq_iff image_iff) (metis (no_types, lifting))
  have own: "owned w a ?db = owned w a db" for w a
    using all [of "\<lambda>x y. \<not> (x = a \<and> y = w)"] by (auto simp: owned_def)
  have "activities_of j ?db = activities_of j db" if "j \<noteq> i" for j
  proof -
    have "update_where P ?f (activities_of j db) = activities_of j db"
      by (rule update_where_cong_none) (use assms(3) that in \<open>auto simp: activities_of_def\<close>)
    then show ?thesis by (simp add: activities_of_set f)
  qed
  moreover have "keys_ok ?db" using assms(1) by (simp add: iso_def db_ok_def set_activities_def)
  moreover have "history_kept db0 ?db" by (rule history_set_activities) (use assms(1,4) in \<open>simp_all add: iso_def\<close>)
  ultimately show ?thesis
    using assms(1) k all [of "\<lambda>x y. 0 < x \<and> x < db_next_uuid db \<and> y < db_next_uuid db"]
    by (simp add: iso_def db_ok_def same_rows_def own) (simp add: set_activities_def events_of_def find_instance_def)
qed

lemma iso_timers_outbox:
  assumes "iso i db0 db" "db_instances db' = db_instances db" "db_activities db' = db_activities db" "db_events db' = db_events db"
    "db_now db' = db_now db" "db_next_uuid db \<le> db_next_uuid db'"
    "\<forall>m\<in>set (db_timers db'). owned (mr_workflow_instance_id m) (mr_activity_instance_id m) db"
    "\<forall>x\<in>set (db_outbox db'). owned (xr_workflow_instance_id x) (xr_activity_instance_id x) db"
    "history_kept db0 db'" "keys_ok db'"
  shows "iso i db0 db'"
proof -
  have "numbered db' = numbered db" "active_unique db' = active_unique db"
    using assms(2,4) by (simp_all cong: numbered_cong active_unique_cong)
  with assms show ?thesis
    by (fastforce simp: iso_def db_ok_def same_rows_def find_instance_def activities_of_def events_of_def owned_def)
qed

lemma iso_owned:
  assumes "iso i db0 db"
  shows "\<forall>m\<in>set (db_timers db). owned (mr_workflow_instance_id m) (mr_activity_instance_id m) db"
    "\<forall>x\<in>set (db_outbox db). owned (xr_workflow_instance_id x) (xr_activity_instance_id x) db"
  using assms by (simp_all add: iso_def db_ok_def)

lemma iso_set_timers:
  assumes "iso i db0 db" "\<And>m. mr_workflow_instance_id (f m) = mr_workflow_instance_id m"
    "\<And>m. mr_activity_instance_id (f m) = mr_activity_instance_id m" "\<And>m. P m \<Longrightarrow> mr_status m = 1" "\<And>m. mr_id (f m) = mr_id m"
  shows "iso i db0 (snd (set_timers P f db))"
proof (rule iso_timers_outbox [OF assms(1)])
  show "history_kept db0 (snd (set_timers P f db))"
    by (rule history_set_timers) (use assms(1,4) in \<open>simp_all add: iso_def\<close>)
  show "keys_ok (snd (set_timers P f db))" by (rule keys_set_timers) (use assms(1,5) in \<open>simp_all add: iso_def db_ok_def\<close>)
qed (use iso_owned [OF assms(1)] assms(2,3) in \<open>auto simp: set_timers_def dest!: in_update_whereE\<close>)

lemma iso_set_outbox:
  assumes "iso i db0 db" "\<And>m. xr_workflow_instance_id (f m) = xr_workflow_instance_id m"
    "\<And>m. xr_activity_instance_id (f m) = xr_activity_instance_id m" "\<And>x. P x \<Longrightarrow> xr_status x \<notin> {3, 4}" "\<And>x. xr_id (f x) = xr_id x"
  shows "iso i db0 (snd (set_outbox P f db))"
proof (rule iso_timers_outbox [OF assms(1)])
  show "history_kept db0 (snd (set_outbox P f db))"
    by (rule history_set_outbox) (use assms(1,4) in \<open>simp_all add: iso_def\<close>)
  show "keys_ok (snd (set_outbox P f db))" by (rule keys_set_outbox) (use assms(1,5) in \<open>simp_all add: iso_def db_ok_def\<close>)
qed (use iso_owned [OF assms(1)] assms(2,3) in \<open>auto simp: set_outbox_def dest!: in_update_whereE\<close>)

lemma iso_schedule_timer: "iso i db0 db \<Longrightarrow> owned i a db \<Longrightarrow> iso i db0 (snd (schedule_timer tn f i a k s db))"
  by (rule iso_timers_outbox, assumption)
    (use history_schedule [of db0 db tn f i a k s] keys_schedule [of db tn f i a k s] in \<open>auto simp: schedule_timer_def fresh_def Let_def iso_def db_ok_def\<close>)

lemma iso_enqueue_outbox: "iso i db0 db \<Longrightarrow> owned i a db \<Longrightarrow> iso i db0 (snd (enqueue_outbox tn f i a ty p db))"
  by (rule iso_timers_outbox, assumption)
    (use history_enqueue [of db0 db tn f i a ty p] keys_enqueue [of db tn f i a ty p] in \<open>auto simp: enqueue_outbox_def fresh_def Let_def iso_def db_ok_def\<close>)

lemma numbered_next_seq: "numbered db \<Longrightarrow> next_seq i db = int (length (events_of i db)) + 1"
proof -
  assume "numbered db"
  then have m: "map er_seq (events_of i db) = map int [1..<Suc (length (events_of i db))]" by (simp add: numbered_def)
  show ?thesis
  proof (cases "events_of i db = []")
    case False
    then have "Max (set (map er_seq (events_of i db))) = int (length (events_of i db))"
      unfolding m by (intro Max_eqI) (auto simp: image_iff Suc_le_eq)
    with False show ?thesis by (simp add: next_seq_def)
  qed (simp add: next_seq_def)
qed

lemma numbered_append:
  assumes "numbered db"
  shows "numbered (snd (append_event tn f i (next_seq i db) ty p k db))"
  using assms by (auto simp: numbered_def append_event_def events_of_def numbered_next_seq [OF assms, unfolded events_of_def])

lemma iso_append_event: "iso i db0 db \<Longrightarrow> iso i db0 (snd (append_event tn f i (next_seq i db) ty p k db))"
  using numbered_append [of db] history_append_event [of db0 db tn f i "next_seq i db" ty p k]
  by (auto simp: iso_def db_ok_def same_rows_def find_instance_def activities_of_def events_of_def owned_def append_event_def)

lemma iso_insert_activity:
  "iso i db0 db \<Longrightarrow> iso i db0 (snd (insert_activity tn i node ty role r db)) \<and>
     owned i (ar_id (fst (insert_activity tn i node ty role r db))) (snd (insert_activity tn i node ty role r db))"
  using history_insert [of db0 db tn i node ty role r] keys_insert [of db tn i node ty role r]
  by (fastforce simp: iso_def db_ok_def same_rows_def insert_activity_def fresh_def Let_def find_instance_def activities_of_def
      events_of_def owned_def less_Suc_eq)

section \<open>Composition\<close>

abbreviation keeps :: "uuid \<Rightarrow> db \<Rightarrow> 'a tx \<Rightarrow> bool" where
  "keeps i db0 m \<equiv> hoare (iso i db0) m (\<lambda>_. iso i db0)"

text \<open>From a state on, the invariant may be read relative to that state.\<close>

lemma hoare_rebase:
  assumes "\<And>db1. iso i db0 db1 \<Longrightarrow> P db1 \<Longrightarrow> keeps i db1 m"
  shows "hoare (\<lambda>db. iso i db0 db \<and> P db) m (\<lambda>_. iso i db0)"
proof (rule hoare_gen)
  fix db1
  assume a: "iso i db0 db1 \<and> P db1"
  then have "db_ok db1" "i < db_next_uuid db1" by (simp_all add: iso_def)
  from assms [of db1] a have "keeps i db1 m" by simp
  then show "hoare (\<lambda>db. db = db1) m (\<lambda>_. iso i db0)"
    using a iso_refl [OF \<open>db_ok db1\<close> \<open>i < db_next_uuid db1\<close>]
    by (auto simp: hoare_def intro: iso_trans)
qed

lemma keeps_bind: "keeps i db0 m \<Longrightarrow> (\<And>x. keeps i db0 (f x)) \<Longrightarrow> keeps i db0 (tx_bind m f)"
  by (rule hoare_bind)

lemma keeps_then: "keeps i db0 m \<Longrightarrow> keeps i db0 n \<Longrightarrow> keeps i db0 (tx_then m n)"
  by (rule hoare_then)

lemma keeps_when: "keeps i db0 m \<Longrightarrow> keeps i db0 (tx_when b m)"
  by (rule hoare_when)

lemma keeps_option: "(x = None \<Longrightarrow> keeps i db0 m) \<Longrightarrow> (\<And>y. x = Some y \<Longrightarrow> keeps i db0 (f y)) \<Longrightarrow>
    keeps i db0 (case x of None \<Rightarrow> m | Some y \<Rightarrow> f y)"
  by (cases x) simp_all

lemma keeps_pair: "(\<And>x y. p = (x, y) \<Longrightarrow> keeps i db0 (f x y)) \<Longrightarrow> keeps i db0 (case p of (x, y) \<Rightarrow> f x y)"
  by (cases p) simp

lemmas keeps_rules =
  hoare_read_any hoare_read_res_any hoare_lift hoare_lift_then keeps_bind keeps_then keeps_when hoare_for hoare_if
  keeps_option keeps_pair hoare_fail

lemma keeps_return: "keeps i db0 (tx_return x)"
  by simp

lemma keeps_op: "(\<And>db. iso i db0 db \<Longrightarrow> iso i db0 (snd (f db))) \<Longrightarrow> keeps i db0 (tx_op f)"
  by (rule hoare_op) (metis snd_conv)

text \<open>An UPDATE of the activity with a given key.\<close>

lemma iso_activity_key:
  assumes "iso i db0 db" "owned i a db0" "r \<in> set (db_activities db)" "ar_id r = a"
  shows "ar_workflow_instance_id r = i"
proof -
  have "owned i a db" using assms(1,2) by (simp add: iso_def)
  then obtain q where q: "q \<in> set (db_activities db)" "ar_id q = a" "ar_workflow_instance_id q = i"
    unfolding owned_def by blast
  moreover have "distinct (map ar_id (db_activities db))" using assms(1) by (simp add: iso_def db_ok_def)
  ultimately have "r = q" using assms(3,4) by (metis distinct_map inj_onD)
  with q show ?thesis by simp
qed

lemma iso_activity_cas:
  assumes "iso i db0 db" "owned i a db0" "act_update f"
  shows "iso i db0 (snd (set_activities (\<lambda>r. ar_id r = a \<and> ar_status r = 2) f db))"
  by (rule iso_set_activities [OF assms(1,3)]) (use iso_activity_key [OF assms(1,2)] in blast)+

lemma keeps_activity_ops:
  assumes "owned i a db0"
  shows "keeps i db0 (tx_op (complete_activity_cas a res by notes))" "keeps i db0 (tx_op (skip_activity_for_timeout a))"
    "keeps i db0 (tx_op (update_activity_assignee_role a role))" "keeps i db0 (tx_op (update_activity_assignee a who))"
    "keeps i db0 (tx_op (schedule_timer tn f i a k s))" "keeps i db0 (tx_op (enqueue_outbox tn f i a ty p))"
proof -
  have o: "owned i a db" if "iso i db0 db" for db using assms that by (simp add: iso_def)
  show "keeps i db0 (tx_op (schedule_timer tn f i a k s))" by (rule keeps_op) (rule iso_schedule_timer [OF _ o])
  show "keeps i db0 (tx_op (enqueue_outbox tn f i a ty p))" by (rule keeps_op) (rule iso_enqueue_outbox [OF _ o])
  have c: "iso i db0 (snd (case set_activities (\<lambda>r. ar_id r = a \<and> ar_status r = 2) g db of (n, db') \<Rightarrow> (0 < n, db')))"
    if "iso i db0 db" "act_update g" for g db
    using iso_activity_cas [OF that(1) assms that(2)] by (simp add: split_beta)
  show "keeps i db0 (tx_op (complete_activity_cas a res by notes))" "keeps i db0 (tx_op (skip_activity_for_timeout a))"
    "keeps i db0 (tx_op (update_activity_assignee_role a role))" "keeps i db0 (tx_op (update_activity_assignee a who))"
    by (rule keeps_op; simp add: complete_activity_cas_def skip_activity_for_timeout_def update_activity_assignee_role_def
        update_activity_assignee_def Let_def; erule c; simp add: act_update_def)+
qed

lemma keeps_activate:
  assumes "inst_update f"
  shows "keeps i db0 (tx_op_res (activate_instances i C f))"
proof (rule hoare_op_res)
  fix db x db'
  assume i: "iso i db0 db" and a: "activate_instances i C f db = (Inr x, db')"
  let ?P = "\<lambda>r. ir_id r = i \<and> C r"
  have "db' = snd (set_instances ?P f db)" using a by (auto simp: activate_instances_def split: if_splits prod.splits)
  moreover have "\<not> active_key_taken i db" if "r \<in> set (db_instances db)" "?P r" for r
    using a that by (auto simp: activate_instances_def list_ex_iff split: if_splits)
  then have "iso i db0 (snd (set_instances ?P f db))" by (intro iso_set_instances [OF i assms]) auto
  ultimately show "iso i db0 db'" by simp
qed

lemma keeps_reactivate: "keeps i db0 (tx_op_res (reactivate_workflow i))"
  and keeps_resume: "keeps i db0 (tx_op_res (resume_from_returned_waiting i))"
  unfolding reactivate_workflow_def [abs_def] resume_from_returned_waiting_def [abs_def]
  by (rule keeps_activate; simp add: inst_update_def)+

lemma keeps_instance_ops:
  "keeps i db0 (tx_op (error_workflow i))" "keeps i db0 (tx_op (complete_workflow_cas i n))"
  "keeps i db0 (tx_op (clear_current_activity i))" "keeps i db0 (tx_op (update_current_activity i a))"
  "keeps i db0 (tx_op (enter_returned_waiting i a))" "keeps i db0 (tx_op (mark_side_effects_executed i))"
  by (rule keeps_op; auto simp: error_workflow_def complete_workflow_cas_def clear_current_activity_def
      update_current_activity_def enter_returned_waiting_def mark_side_effects_executed_def inst_update_def
      intro!: iso_set_instances)+

lemma keeps_merge_context: "keeps i db0 (tx_op_res (merge_instance_context i p))"
proof -
  have "iso i db0 (snd (set_instances (\<lambda>r. ir_id r = i) (\<lambda>r. r\<lparr>ir_context := c r\<rparr>) db))" if "iso i db0 db" for c db
    by (rule iso_set_instances [OF that]) (simp_all add: inst_update_def)
  then show ?thesis by (auto simp: hoare_def tx_op_res_def merge_instance_context_def Let_def split: option.splits)
qed

lemma keeps_timer_ops:
  "keeps i db0 (tx_op (cancel_timers_for_activity a))" "keeps i db0 (tx_op (mark_timer_fired u))"
  by (rule keeps_op; simp add: cancel_timers_for_activity_def mark_timer_fired_def; erule iso_set_timers; simp)+

lemma keeps_outbox_ops:
  "keeps i db0 (tx_op (mark_outbox_succeeded u w))" "keeps i db0 (tx_op (mark_outbox_retry u w n e))"
  "keeps i db0 (tx_op (mark_outbox_dead_letter u w e))"
  by (rule keeps_op; simp add: mark_outbox_succeeded_def mark_outbox_retry_def mark_outbox_dead_letter_def; erule iso_set_outbox; simp add: leased_by_def)+

lemma keeps_skip_others: "keeps i db0 (tx_op (skip_other_active_activities i ex))"
  by (rule keeps_op, simp add: skip_other_active_activities_def Let_def, rule iso_set_activities, rule iso_set_timers)
    (auto simp: act_update_def)

lemma keeps_append: "cx_instance_id ctx = i \<Longrightarrow> keeps i db0 (append_ev ctx ty p k)"
proof -
  assume "cx_instance_id ctx = i"
  then show ?thesis
    using iso_append_event by (force simp: append_ev_def hoare_def tx_bind_def tx_read_def tx_op_def append_event_def)
qed

lemmas keeps_ops = keeps_return keeps_instance_ops keeps_reactivate keeps_resume keeps_merge_context keeps_timer_ops keeps_outbox_ops keeps_skip_others
  keeps_append keeps_activity_ops

end
