(* ===== verification/Flow_Isolation_Handlers.thy ===== *)
theory Flow_Isolation_Handlers
  imports Flow_Isolation
begin

text \<open>
  Isolation of the handlers: each of them, on every path, keeps the invariant \<open>iso\<close> of the instance
  it works on. The proofs follow the definitions.
\<close>

section \<open>Scheduling and ending\<close>

lemma keeps_fail_instance: "cx_instance_id ctx = i \<Longrightarrow> keeps i db0 (fail_instance ctx e)"
  unfolding fail_instance_def by (simp, intro keeps_rules keeps_ops)

lemma keeps_enqueue_notification:
  assumes "uuid_text_ok env" "cx_instance_id ctx = i" "ai_id act = uuid_str env a" "owned i a db0"
  shows "keeps i db0 (enqueue_notification env ctx act ty p)"
  unfolding enqueue_notification_def assms(2,3) parse_uuid_ok [OF assms(1)] tx_lift_Inr
  by (intro hoare_lift keeps_activity_ops assms(4))

lemma keeps_schedule_timers:
  assumes "cx_instance_id ctx = i" "owned i a db0"
  shows "keeps i db0 (schedule_timers ctx node a)"
  unfolding schedule_timers_def Let_def assms(1)
  by (intro keeps_then) (auto split: option.split intro: keeps_activity_ops assms(2))

lemma keeps_schedule_activity:
  assumes u: "uuid_text_ok env" and i: "cx_instance_id ctx = i"
  shows "keeps i db0 (schedule_activity env svc ctx node role r fm)"
proof (cases "kind node = KSubWorkflow")
  case False
  have ins: "hoare (iso i db0) (tx_op (insert_activity tn i nid ty role r)) (\<lambda>row db. iso i db0 db \<and> owned i (ar_id row) db)"
    for tn nid ty
    by (rule hoare_op) (metis iso_insert_activity fst_conv snd_conv)
  show ?thesis
    unfolding schedule_activity_def Let_def if_not_P [OF False] i
    by (rule hoare_bind [OF ins], rule hoare_rebase)
      (auto simp: parse_uuid_ok [OF u] tx_lift_Inr i split: option.split
        intro!: keeps_then keeps_append keeps_schedule_timers keeps_enqueue_notification [OF u] keeps_return)
qed (simp add: schedule_activity_def)

lemma keeps_schedule_current:
  "uuid_text_ok env \<Longrightarrow> cx_instance_id ctx = i \<Longrightarrow> keeps i db0 (schedule_current env svc ctx node role r)"
  unfolding schedule_current_def
  by (intro keeps_bind keeps_schedule_activity hoare_lift) (auto intro!: keeps_bind keeps_ops)

text \<open>The anchor of a terminal callback is an activity of the instance.\<close>

lemma anchor_owned:
  assumes "(case active_activity env i db of Some a \<Rightarrow> Some a
       | None \<Rightarrow> (case rev (list_activities env i db) of [] \<Rightarrow> None | a # _ \<Rightarrow> Some a)) = Some act"
  shows "\<exists>a. ai_id act = uuid_str env a \<and> owned i a db"
proof -
  have "act \<in> activity_model env ` set (activities_of i db)"
  proof (cases "active_activity env i db")
    case None
    then obtain as where "rev (list_activities env i db) = act # as" using assms by (auto split: list.splits)
    then have "act \<in> set (list_activities env i db)" by (metis list.set_intros(1) set_rev)
    then show ?thesis by (auto simp: list_activities_def)
  next
    case (Some a)
    let ?rs = "sort_key ar_created_at (filter (\<lambda>r. ar_status r = 2) (activities_of i db))"
    obtain r rs where "rev ?rs = r # rs" "act = activity_model env r"
      using Some assms by (auto simp: active_activity_def split: list.splits)
    then have "r \<in> set (rev ?rs)" "act = activity_model env r" by simp_all
    then show ?thesis by (intro image_eqI [where x = r]) (auto simp del: set_rev simp: set_rev [of ?rs])
  qed
  then show ?thesis by (auto simp: owned_def activities_of_def)
qed

lemma keeps_enqueue_terminal:
  assumes u: "uuid_text_ok env" and i: "cx_instance_id ctx = i"
  shows "keeps i db0 (enqueue_terminal_callback env svc ctx tc)"
  unfolding enqueue_terminal_callback_def i
proof (rule hoare_read, rule hoare_rebase)
  fix anchor db1
  assume a: "(case active_activity env i db1 of None \<Rightarrow> (case rev (list_activities env i db1) of [] \<Rightarrow> None | a # _ \<Rightarrow> Some a)
      | Some a \<Rightarrow> Some a) = anchor"
  show "keeps i db1 (case anchor of
       None \<Rightarrow> tx_fail (InvalidState ''terminal callback needs an activity anchor but none exists'')
     | Some anchor \<Rightarrow>
         tx_bind (tx_lift (okorR (Validation (''terminal callback handler '' @ quoted (tc_handler_type tc) @
           '' is not registered'')) (registry_get (svc_registry svc) (tc_handler_type tc)))) (\<lambda>handler.
         tx_bind (tx_lift (map_errR (\<lambda>e. Serialization (''business callback payload not serializable: '' @ e))
           (callback_ser env
             \<lparr>bp_tenant_id = show_int (cx_tenant_id ctx), bp_facility_id = uuid_str env (cx_facility_id ctx),
              bp_workflow_instance_id = uuid_str env i, bp_activity_instance_id = ai_id anchor,
              bp_handler_type = tc_handler_type tc,
              bp_idempotency_key = callback_idempotency_key env ctx handler tc,
              bp_business_type = cx_business_type ctx, bp_business_key = cx_business_key ctx,
              bp_payload = tc_payload tc\<rparr>))) (\<lambda>v.
         tx_bind (tx_lift (parse_uuid env (ai_id anchor))) (\<lambda>a.
         tx_op (enqueue_outbox (cx_tenant_id ctx) (cx_facility_id ctx) i a ob_BUSINESS_CALLBACK v)))))"
  proof (rule keeps_option)
    fix act
    assume "anchor = Some act"
    with anchor_owned [of env i db1 act] a obtain x where "ai_id act = uuid_str env x" "owned i x db1" by auto
    then show "keeps i db1 (tx_bind (tx_lift (okorR (Validation (''terminal callback handler '' @ quoted (tc_handler_type tc) @
           '' is not registered'')) (registry_get (svc_registry svc) (tc_handler_type tc)))) (\<lambda>handler.
         tx_bind (tx_lift (map_errR (\<lambda>e. Serialization (''business callback payload not serializable: '' @ e))
           (callback_ser env
             \<lparr>bp_tenant_id = show_int (cx_tenant_id ctx), bp_facility_id = uuid_str env (cx_facility_id ctx),
              bp_workflow_instance_id = uuid_str env i, bp_activity_instance_id = ai_id act,
              bp_handler_type = tc_handler_type tc,
              bp_idempotency_key = callback_idempotency_key env ctx handler tc,
              bp_business_type = cx_business_type ctx, bp_business_key = cx_business_key ctx,
              bp_payload = tc_payload tc\<rparr>))) (\<lambda>v.
         tx_bind (tx_lift (parse_uuid env (ai_id act))) (\<lambda>a.
         tx_op (enqueue_outbox (cx_tenant_id ctx) (cx_facility_id ctx) i a ob_BUSINESS_CALLBACK v)))))"
      by (intro hoare_lift) (simp add: parse_uuid_str [OF u] keeps_activity_ops)
  qed simp
qed

lemma keeps_find_terminal: "keeps i db0 (find_terminal_callback env ctx)"
  unfolding find_terminal_callback_def
  by (rule hoare_read_any) (auto simp: hoare_def tx_lift_def tx_return_def split: option.split json.split)

lemma keeps_complete_instance:
  assumes u: "uuid_text_ok env" and i: "cx_instance_id ctx = i"
  shows "keeps i db0 (complete_instance env svc ctx res)"
  unfolding complete_instance_def i
  by (intro keeps_bind keeps_instance_ops keeps_reactivate keeps_resume hoare_if hoare_fail keeps_then keeps_append i keeps_find_terminal keeps_option
      keeps_enqueue_terminal [OF u i] keeps_return)

section \<open>Applying an outcome\<close>

lemma keeps_try_satisfy_join:
  assumes i: "cx_instance_id ctx = i" and cont: "\<And>out trace. keeps i db0 (cont ctx out trace src r)"
  shows "keeps i db0 (try_satisfy_join env cont ctx jn src r ex)"
  unfolding try_satisfy_join_def Let_def i
  by (intro hoare_read_any hoare_lift keeps_pair hoare_if keeps_instance_ops keeps_then keeps_append keeps_when keeps_bind
      keeps_skip_others i cont)

lemma keeps_apply_outcome:
  assumes u: "uuid_text_ok env" and i: "cx_instance_id ctx = i"
  shows "keeps i db0 (apply_outcome env svc fuel ctx out trace src r)"
proof (induction fuel arbitrary: out trace)
  case (Suc fuel)
  let ?rec = "apply_outcome env svc fuel"
  have join: "keeps i db0 (try_satisfy_join env ?rec ctx jn src r ex)" for jn ex
    by (rule keeps_try_satisfy_join [where cont = ?rec, OF i Suc])
  have sched: "keeps i db0 (schedule_branch env svc ctx via r target)" for via target
    unfolding schedule_branch_def by (intro hoare_lift keeps_bind keeps_schedule_activity u i keeps_return)
  have adv: "keeps i db0 (apply_advance env svc ?rec ctx n role src r)" for n role
    unfolding apply_advance_def branch_reached_join_def
    by (intro hoare_lift hoare_if keeps_then keeps_append i join keeps_schedule_current [OF u])
  have fan: "keeps i db0 (fan_out env svc ?rec ctx ts trace src r)" for ts
    unfolding fan_out_def i
    by (intro keeps_then keeps_instance_ops keeps_option keeps_append i hoare_for sched hoare_if hoare_lift join keeps_return)
  have rework: "keeps i db0 (apply_rework env svc ctx n role src)" for n role
    unfolding apply_rework_def Let_def i
  proof (rule hoare_read_any)
    fix m
    show "keeps i db0 (case check_round svc ctx (m + 1) of
        Inl e \<Rightarrow> tx_then (fail_instance ctx (flow_error_display e)) (tx_fail e)
      | Inr _ \<Rightarrow> tx_bind (tx_lift (ctx_node ctx n)) (\<lambda>node.
         tx_bind (schedule_activity env svc ctx node role (m + 1) None) (\<lambda>activity.
         tx_bind (tx_lift (parse_uuid env (ai_id activity))) (\<lambda>a.
         tx_bind (tx_op (enter_returned_waiting i a)) (\<lambda>ok.
         if \<not> ok then tx_fail (Conflict ''instance left 'active' before the rework hand-back'')
         else append_ev ctx ev_RETURNED_TO_REWORK
             (obj [(''from_node'', JStr (ai_activity_definition_id src)), (''rework_target'', JStr (node_id node)),
                   (''round'', JInt (m + 1)), (''activity_id'', JStr (ai_id activity)),
                   (''assignee_role'', opt_str role)]) None)))))"
      by (cases "check_round svc ctx (m + 1)")
        (simp_all, intro keeps_then keeps_fail_instance i hoare_fail,
         intro hoare_lift keeps_bind keeps_schedule_activity u i keeps_instance_ops hoare_if hoare_fail keeps_append)
  qed
  show ?case
    unfolding apply_outcome.simps apply_outcome_step_def append_merges_def
    by (intro keeps_then hoare_for keeps_append i)
      (auto split: advance_outcome.split intro: adv fan rework keeps_complete_instance [OF u i] keeps_fail_instance [OF i])
qed simp

lemma keeps_decided:
  assumes u: "uuid_text_ok env" and i: "cx_instance_id ctx = i" and m: "keeps i db0 m"
  shows "keeps i db0 (case d of (out, trace) \<Rightarrow> tx_then (apply_outcome env svc fuel ctx out trace src r) m)"
  by (intro keeps_pair keeps_then keeps_apply_outcome u i m)

lemma keeps_decided_last:
  assumes u: "uuid_text_ok env" and i: "cx_instance_id ctx = i"
  shows "keeps i db0 (case d of (out, trace) \<Rightarrow> apply_outcome env svc fuel ctx out trace src r)"
  by (intro keeps_pair keeps_apply_outcome u i)

section \<open>Commands\<close>

lemma keeps_outcome_of: "keeps i db0 (signal_outcome_of env j)" "keeps i db0 (replayed_outcome env j inst)"
  by (rule hoare_outcome_of hoare_replayed_outcome)+

lemma keeps_make_ctx:
  assumes "\<And>ctx. cx_instance_id ctx = i \<Longrightarrow> keeps i db0 (f ctx)"
  shows "keeps i db0 (tx_bind (make_ctx env i inst sn) f)"
  by (rule hoare_bind [OF hoare_make_ctx], rule hoare_pure, rule assms) (simp add: ctx_of_def)

lemma keeps_locked: "keeps i db0 (locked_instance env scope j)"
  by (auto simp: locked_instance_def hoare_def tx_read_res_def)

lemma hoare_target_owned:
  assumes u: "uuid_text_ok env" and i: "sg_instance_id cmd = i"
  shows "hoare (iso i db0) (resolve_target_activity env cmd)
    (\<lambda>act db. iso i db0 db \<and> (\<exists>a. ai_id act = uuid_str env a \<and> owned i a db))"
proof -
  have one: "\<exists>a. ai_id act = uuid_str env a \<and> owned i a db" if "act \<in> set (active_activities env i db)" for act db
    using that by (auto simp: active_activities_def owned_def activities_of_def)
  have given: "\<exists>a. ai_id act = uuid_str env a \<and> owned i a db"
    if "load_activity env a db = Some act" "ai_workflow_instance_id act = uuid_str env i" for act a db
    using that by (auto simp: load_activity_def find_activity_def owned_def uuid_str_inject u dest!: find_SomeD)
  note run = hoare_def tx_bind_def tx_read_def tx_read_res_def tx_fail_def tx_return_def okorR_def
  show ?thesis
  proof (cases "sg_activity_id cmd")
    case None
    then show ?thesis unfolding resolve_target_activity_def i by (auto simp: run split: list.splits intro!: one)
  next
    case (Some a)
    then show ?thesis
      unfolding resolve_target_activity_def i
      by (auto simp: run split: option.splits sum.splits if_splits intro!: given)
  qed
qed

lemma keeps_context_writes: "cx_instance_id ctx = i \<Longrightarrow> hoare (iso i db0) (apply_context_writes ctx node r patch)
    (\<lambda>ctx' db. iso i db0 db \<and> cx_instance_id ctx' = i)"
  unfolding apply_context_writes_def Let_def
  by (rule hoare_if, simp, intro hoare_lift, rule hoare_bind) (auto intro: keeps_merge_context intro!: hoare_then [OF keeps_append])

lemma keeps_signal_active:
  assumes u: "uuid_text_ok env" and i: "sg_instance_id cmd = i"
  shows "keeps i db0 (signal_active env svc fuel inst cmd)"
  unfolding signal_active_def i
proof (rule hoare_read_res_any, rule keeps_make_ctx, rule hoare_bind [OF hoare_target_owned [OF u i]], rule hoare_rebase)
  fix sn db1 and ctx :: instance_ctx and act :: activity_instance
  assume c: "cx_instance_id ctx = i" and "\<exists>a. ai_id act = uuid_str env a \<and> owned i a db1"
  then obtain a where a: "ai_id act = uuid_str env a" and o: "owned i a db1" by blast
  have claim: "keeps i db1 (signal_claim env ctx cmd act a)"
    unfolding signal_claim_def by (intro keeps_bind keeps_then keeps_activity_ops o keeps_append c keeps_outcome_of)
  have complete: "keeps i db1 (signal_complete env ctx' cmd act)" if c': "cx_instance_id ctx' = i" for ctx'
    unfolding signal_complete_def complete_activity_def a parse_uuid_ok [OF u] tx_lift_Inr
    by (intro keeps_then keeps_append c' keeps_bind keeps_activity_ops o hoare_if hoare_fail keeps_timer_ops)
  have resume: "keeps i db1 (signal_resume ctx' inst act)" if c': "cx_instance_id ctx' = i" for ctx'
    unfolding signal_resume_def c' by (intro hoare_if keeps_bind keeps_instance_ops keeps_reactivate keeps_resume keeps_when keeps_append c' keeps_return)
  have advance: "keeps i db1 (signal_advance env svc fuel ctx inst node cmd act)" for node
    unfolding signal_advance_def
    by (rule hoare_bind [OF keeps_context_writes [OF c]], rule hoare_pure, intro keeps_then keeps_decided u complete resume keeps_outcome_of)
  show "keeps i db1 (tx_bind (tx_lift (parse_uuid env (ai_id act))) (\<lambda>a.
     tx_bind (tx_lift (ctx_node ctx (ai_activity_definition_id act))) (\<lambda>node.
     tx_then (tx_lift (check_signal_against_node node (sg_signal cmd) (sg_event_type cmd)))
     (if sg_signal cmd = SigClaimed \<or> sg_signal cmd = SigReassigned then signal_claim env ctx cmd act a
      else signal_advance env svc fuel ctx inst node cmd act))))"
    unfolding a parse_uuid_ok [OF u] tx_lift_Inr by (intro hoare_lift hoare_lift_then hoare_if claim advance)
qed

lemma keeps_signal:
  "uuid_text_ok env \<Longrightarrow> sg_instance_id cmd = i \<Longrightarrow> keeps i db0 (signal env svc fuel cmd)"
  unfolding signal_def Let_def
  by (intro hoare_if hoare_fail keeps_bind keeps_locked hoare_read_any keeps_signal_active) (auto intro: keeps_outcome_of)

lemma keeps_resubmit:
  assumes u: "uuid_text_ok env"
  shows "keeps i db0 (resubmit env svc scope i key)"
proof -
  have enter: "keeps i db0 (resubmit_enter env svc ctx r key)" if c: "cx_instance_id ctx = i" for ctx r
    unfolding resubmit_enter_def c
    by (intro keeps_bind keeps_instance_ops keeps_reactivate keeps_resume hoare_if hoare_fail keeps_then keeps_append c hoare_lift keeps_pair
        keeps_schedule_current [OF u c] keeps_outcome_of)
  show ?thesis
    unfolding resubmit_def Let_def
    by (intro hoare_if hoare_fail keeps_bind keeps_locked hoare_read_any hoare_read_res_any keeps_outcome_of keeps_make_ctx
        hoare_lift_then enter)
qed

section \<open>Events\<close>

lemma owned_loaded:
  assumes "iso i db0 db" "owned i a db0" "load_activity env a db = Some act"
  shows "ai_id act = uuid_str env a"
  using assms(3) by (auto simp: load_activity_def find_activity_def dest!: find_SomeD)

lemma hoare_load_activity:
  "hoare P (tx_read (load_activity env a)) (\<lambda>found db. P db \<and> (\<forall>act. found = Some act \<longrightarrow> ai_id act = uuid_str env a))"
  by (auto simp: hoare_def tx_read_def load_activity_def find_activity_def dest!: find_SomeD)

lemma keeps_fire_active:
  assumes u: "uuid_text_ok env" and a: "ai_id act = uuid_str env a" and o: "owned i a db0"
  shows "keeps i db0 (fire_active_timer env svc fuel k i inst act a)"
proof -
  have notify: "keeps i db0 (enqueue_notification env ctx act ty p)" if "cx_instance_id ctx = i" for ctx ty p
    by (rule keeps_enqueue_notification [OF u that a o])
  have "keeps i db0 (fire_reminder env svc ctx node act)" if "cx_instance_id ctx = i" for ctx node
    unfolding fire_reminder_def by (intro keeps_then notify that keeps_return)
  moreover have "keeps i db0 (fire_escalation env svc ctx node act a)" if "cx_instance_id ctx = i" for ctx node
    unfolding fire_escalation_def
    by (intro keeps_option keeps_pair keeps_bind keeps_then keeps_when keeps_activity_ops o keeps_append notify that keeps_return)
  moreover have "keeps i db0 (fire_timeout env svc fuel ctx act a)" if "cx_instance_id ctx = i" for ctx
    unfolding fire_timeout_def
    by (intro keeps_bind keeps_then keeps_activity_ops o keeps_timer_ops keeps_append that keeps_decided u keeps_return)
  ultimately show ?thesis
    unfolding fire_active_timer_def
    by (intro hoare_read_res_any keeps_make_ctx hoare_lift keeps_then keeps_append hoare_if hoare_fail) auto
qed

lemma keeps_fire_timer:
  assumes u: "uuid_text_ok env" and ids: "tm_workflow_instance_id timer = uuid_str env i" "tm_activity_instance_id timer = uuid_str env a"
    and o: "owned i a db0"
  shows "keeps i db0 (fire_timer env svc fuel timer)"
  unfolding fire_timer_def ids parse_uuid_ok [OF u] tx_lift_Inr
  by (rule hoare_lift, rule keeps_bind, rule keeps_timer_ops, rule hoare_if, rule keeps_return, rule hoare_read_any,
      rule keeps_option, rule keeps_return, rule hoare_if, rule keeps_return, rule hoare_bind [OF hoare_load_activity], rule hoare_pure)
    (auto split: option.split intro: keeps_fire_active [OF u _ o])

lemma keeps_notification_delivered:
  assumes u: "uuid_text_ok env" and o: "owned i a db0"
  shows "keeps i db0 (on_notification_delivered env svc fuel i a)"
proof -
  have delivered: "keeps i db0 (complete_delivered env svc fuel i a inst act)" if "ai_id act = uuid_str env a" for inst act
    unfolding complete_delivered_def
    by (intro hoare_read_res_any keeps_make_ctx keeps_bind keeps_then keeps_activity_ops o keeps_timer_ops keeps_append keeps_decided_last u keeps_return)
  show ?thesis
    unfolding on_notification_delivered_def
    by (rule hoare_read_any, rule keeps_option, rule keeps_return, rule hoare_if, rule keeps_return,
        rule hoare_bind [OF hoare_load_activity], rule hoare_pure) (auto split: option.split intro: delivered)
qed

lemma keeps_callback_delivered: "keeps i db0 (on_business_callback_delivered i)"
  unfolding on_business_callback_delivered_def by (intro keeps_bind keeps_instance_ops keeps_reactivate keeps_resume keeps_return)

lemma keeps_dead_letter: "keeps i db0 (on_outbox_dead_letter env i a ty e)"
  unfolding on_outbox_dead_letter_def Let_def
  by (intro hoare_read_any keeps_option keeps_return keeps_make_ctx keeps_append) simp

end
