(* ===== verification/Flow_Run.thy ===== *)
theory Flow_Run
  imports Flow_Isolation_Handlers
begin

text \<open>
  Runs of the whole engine: a step is one committed transaction of a command, a worker or the clock,
  on any instance. The invariant of every reachable database: its tables are sound and every
  instance whose definition has no rework edge agrees with the fold of its event log.
\<close>

section \<open>One instance among others\<close>

lemma Syn_same_rows:
  assumes "same_rows j db0 db" "db_ok db" "db_now db = db_now db0" "Syn env sn j t q db0"
  shows "Syn env sn j t q db"
proof -
  obtain L R where s: "St env sn j t L R db0" and a: "agrees (join_free sn) L R" and q: "q L" using assms(4) by (auto simp: Syn_def)
  have r: "find_instance db j = find_instance db0 j" "activities_of j db = activities_of j db0" "events_of j db = events_of j db0"
    using assms(1) by (simp_all add: same_rows_def)
  note ok = assms(2,3)
  have "wf_db env sn j t db" using s ok by (simp add: St_def wf_db_def r db_ok_def)
  with s have "St env sn j t L R db" by (simp add: St_def live_projection_def folded_projection_def load_events_def r cong: option.case_cong)
  then show ?thesis by (rule SynI [where q = q, OF _ a q])
qed

lemma Syn_other: "iso i db0 db \<Longrightarrow> j \<noteq> i \<Longrightarrow> Syn env sn j t q db0 \<Longrightarrow> Syn env sn j t q db"
  by (rule Syn_same_rows) (simp_all add: iso_def)

lemma Syn_tick:
  assumes "Syn env sn j t q db" "t \<le> t'"
  shows "Syn env sn j t' q (db\<lparr>db_now := t'\<rparr>)"
proof -
  obtain L R where s: "St env sn j t L R db" and a: "agrees (join_free sn) L R" and q: "q L" using assms(1) by (auto simp: Syn_def)
  have r: "find_instance (db\<lparr>db_now := t'\<rparr>) j = find_instance db j" "activities_of j (db\<lparr>db_now := t'\<rparr>) = activities_of j db"
    "events_of j (db\<lparr>db_now := t'\<rparr>) = events_of j db"
    by (simp_all add: find_instance_def activities_of_def events_of_def)
  have "wf_db env sn j t' (db\<lparr>db_now := t'\<rparr>)" using s assms(2) by (fastforce simp: St_def wf_db_def r)
  with s have "St env sn j t' L R (db\<lparr>db_now := t'\<rparr>)" by (simp add: St_def live_projection_def folded_projection_def load_events_def r cong: option.case_cong)
  then show ?thesis by (rule SynI [where q = q, OF _ a q])
qed

section \<open>start\<close>

text \<open>What is relied on of serde: a snapshot that serialises reads back as it was.\<close>

definition snapshot_codec_ok :: "('p, 'c, 'v) env \<Rightarrow> bool" where
  "snapshot_codec_ok env \<longleftrightarrow> (\<forall>sn j. snapshot_ser env sn = Inr j \<longrightarrow> snapshot_de env j = Inr sn)"

lemma db_ok_absent:
  assumes "db_ok db"
  shows "find_instance db (db_next_uuid db) = None" "activities_of (db_next_uuid db) db = []" "events_of (db_next_uuid db) db = []"
  using assms by (auto simp: db_ok_def find_instance_def find_None_set activities_of_def events_of_def filter_empty_conv)

lemma insert_instance_effect:
  assumes ok: "db_ok db" and ins: "insert_instance_on_conflict tn f d ref key ty c j h db = (Some row, db1)"
  shows "ir_id row = db_next_uuid db" "db_ok db1" "db_now db1 = db_now db" "ir_id row < db_next_uuid db1"
    "db_instances db1 = db_instances db @ [row]" "ir_definition_snapshot row = j"
    "\<And>k. k \<noteq> ir_id row \<Longrightarrow> same_rows k db db1"
    "snapshot_de env j = Inr sn \<Longrightarrow> St env sn (ir_id row) (db_now db) \<lparr>rp_instance = live_instance env row, rp_activities = []\<rparr> initial_projection db1"
    "live_instance env row = \<lparr>ri_status = WsActive, ri_current_activity_id = None, ri_result = None,
        ri_started_at = Some (db_now db), ri_completed_at = None\<rparr>"
    "db_events db1 = db_events db" "history_kept db db1"
proof -
  have row: "row = \<lparr>ir_id = db_next_uuid db, ir_tenant_id = tn, ir_facility_id = f, ir_reference_no = ref,
       ir_workflow_definition_id = d, ir_business_key = key, ir_business_type = ty,
       ir_status = 2, ir_current_activity_id = None, ir_result = None,
       ir_side_effects_executed = False, ir_context = c, ir_definition_snapshot = j,
       ir_definition_hash = h, ir_started_at = Some (db_now db), ir_completed_at = None,
       ir_created_at = db_now db, ir_updated_at = db_now db\<rparr>"
    and db1: "db1 = db\<lparr>db_next_uuid := Suc (db_next_uuid db), db_instances := db_instances db @ [row]\<rparr>"
    and free: "\<forall>q\<in>set (db_instances db). \<not> active_for_key key ty q"
    using ins by (auto simp: insert_instance_on_conflict_def fresh_def Let_def list_ex_iff split: if_splits)
  show id: "ir_id row = db_next_uuid db" and "db_now db1 = db_now db" and "ir_id row < db_next_uuid db1"
    and "db_instances db1 = db_instances db @ [row]" and "ir_definition_snapshot row = j" by (simp_all add: row db1)
  have uniq: "active_unique (db\<lparr>db_instances := db_instances db @ [row]\<rparr>)"
    unfolding active_unique_def
  proof (intro ballI impI)
    fix r q
    assume m: "r \<in> set (db_instances (db\<lparr>db_instances := db_instances db @ [row]\<rparr>))"
      "q \<in> set (db_instances (db\<lparr>db_instances := db_instances db @ [row]\<rparr>))"
      and a: "ir_status r \<in> {1, 2}" "active_for_key (ir_business_key r) (ir_business_type r) q"
    have "active_unique db" using ok by (simp add: db_ok_def)
    moreover have "ir_business_key row = key" "ir_business_type row = ty" by (simp_all add: row)
    moreover have "active_for_key key ty r" if "q = row" using a that calculation(2,3) by (simp add: active_for_key_def)
    ultimately show "ir_id q = ir_id r" using m a free by (auto simp only: active_unique_def) auto
  qed
  then have "active_unique db1" by (subst active_unique_cong [where db = "db\<lparr>db_instances := db_instances db @ [row]\<rparr>"]) (simp_all add: db1)
  moreover have "distinct (map ir_id (db_instances db1))" using ok by (auto simp: db_ok_def db1 id)
  moreover have "owned w a db1 = owned w a db" for w a by (simp add: owned_def db1)
  moreover have "keys_ok db1" using ok keys_mono [of db db1] by (simp add: db_ok_def db1)
  moreover have "\<forall>r\<in>set (db_instances db1). ir_id r < db_next_uuid db1" using ok by (auto simp: db_ok_def db1 id less_Suc_eq)
  ultimately show ok1: "db_ok db1" using ok unfolding db_ok_def by (simp add: db1) (metis less_SucI)
  show "db_events db1 = db_events db" "history_kept db db1" by (simp_all add: db1 history_kept_def)
  show "same_rows k db db1" if "k \<noteq> ir_id row" for k
    using that by (auto simp: same_rows_def db1 find_instance_def activities_of_def events_of_def find_append split: option.split)
  show li: "live_instance env row = \<lparr>ri_status = WsActive, ri_current_activity_id = None, ri_result = None,
        ri_started_at = Some (db_now db), ri_completed_at = None\<rparr>"
    by (simp add: row live_instance_def)
  note abs = db_ok_absent [OF ok]
  have n: "find_instance db1 (ir_id row) = Some row" "activities_of (ir_id row) db1 = []" "events_of (ir_id row) db1 = []"
    using abs by (simp_all add: id db1 find_instance_def activities_of_def events_of_def find_append)
  assume "snapshot_de env j = Inr sn"
  then have "wf_db env sn (ir_id row) (db_now db) db1"
    using ok1 by (simp add: wf_db_def n db_ok_def) (simp add: db1 row)
  then show "St env sn (ir_id row) (db_now db) \<lparr>rp_instance = live_instance env row, rp_activities = []\<rparr> initial_projection db1"
    by (simp add: St_def live_projection_def folded_projection_def load_events_def n fold_events_def)
qed

lemma hoare_start_created:
  assumes u: "uuid_text_ok env" and id: "wi_id inst = uuid_str env i" and a: "agrees True L (log_step (sc_snapshot cmd) t ev_STARTED JNull R)"
    and run: "running L"
  shows "hoare (St env (sc_snapshot cmd) i t L R) (start_created env svc cmd n role h inst) (\<lambda>_. Syn env (sc_snapshot cmd) i t settled)"
proof -
  let ?sn = "sc_snapshot cmd"
  have L: "L = log_step ?sn t ev_STARTED p R" for p using a by (simp add: agrees_exact)
  have started: "Syn env ?sn i t running db" if "St env ?sn i t L (log_step ?sn t ev_STARTED p R) db" for p db
    by (rule SynI [OF that]) (use L [of p] run in \<open>simp_all add: agrees_refl\<close>)
  have sched: "hoare (Syn env ?sn i t running) (schedule_current env svc ctx node role 1) (\<lambda>_. Syn env ?sn i t settled)"
    if "ctx_of ?sn i ctx" "ctx_node ctx n = Inr node" for ctx node
  proof -
    have i: "cx_instance_id ctx = i" and n: "in_snapshot ?sn node"
      using that ctx_node_in_snapshot [OF that(2)] by (simp_all add: ctx_of_def)
    show ?thesis
      by (rule hoare_post [OF hoare_schedule_current [OF u i n]]) (auto simp: in_i32_def elim: Syn_mono)
  qed
  show ?thesis
    unfolding start_created_def id parse_uuid_ok [OF u] tx_lift_Inr Let_def
    by (rule hoare_then [OF hoare_append], simp, rule hoare_lift, rule hoare_then, rule hoare_pre [OF sched started])
      (simp_all add: ctx_of_def reload_def hoare_read_any hoare_read_res_any)
qed

lemma keeps_start_created:
  assumes u: "uuid_text_ok env" and id: "wi_id inst = uuid_str env i"
  shows "keeps i db0 (start_created env svc cmd n role h inst)"
  unfolding start_created_def id parse_uuid_ok [OF u] tx_lift_Inr Let_def reload_def
  by (intro keeps_then keeps_append hoare_lift keeps_schedule_current u hoare_read_res_any hoare_read_any keeps_return) simp_all

section \<open>Steps\<close>

text \<open>
  A timer record or an outbox record a worker holds was read from a row in an earlier transaction;
  rows are never deleted and their references never change, so the ids still resolve.
\<close>

definition timer_of :: "('p, 'c, 'v) env \<Rightarrow> db \<Rightarrow> timer_record \<Rightarrow> bool" where
  "timer_of env db timer \<longleftrightarrow> (\<exists>m\<in>set (db_timers db).
     tm_workflow_instance_id timer = uuid_str env (mr_workflow_instance_id m) \<and>
     tm_activity_instance_id timer = uuid_str env (mr_activity_instance_id m))"

definition outbox_of :: "('p, 'c, 'v) env \<Rightarrow> db \<Rightarrow> outbox_record \<Rightarrow> bool" where
  "outbox_of env db record \<longleftrightarrow> (\<exists>x\<in>set (db_outbox db).
     or_workflow_instance_id record = uuid_str env (xr_workflow_instance_id x) \<and>
     or_activity_instance_id record = uuid_str env (xr_activity_instance_id x))"

inductive engine_step :: "('p, 'c, 'v) env \<Rightarrow> workflow_service \<Rightarrow> db \<Rightarrow> db \<Rightarrow> bool"
  for env :: "('p, 'c, 'v) env" and svc :: workflow_service where
  start_step: "in_txn (start env svc cmd) db = Some (Inr out, db') \<Longrightarrow> engine_step env svc db db'"
| signal_step: "in_txn (signal env svc fuel cmd) db = Some (Inr out, db') \<Longrightarrow> engine_step env svc db db'"
| resubmit_step: "in_txn (resubmit env svc scope i key) db = Some (Inr out, db') \<Longrightarrow> engine_step env svc db db'"
| timer_step: "timer_of env db timer \<Longrightarrow> in_txn (fire_timer env svc fuel timer) db = Some (Inr fired, db') \<Longrightarrow>
    engine_step env svc db db'"
| lease_step: "poll_due_outbox env worker ttl limit db = (records, db') \<Longrightarrow> engine_step env svc db db'"
| success_step: "outbox_of env db record \<Longrightarrow> settle_success env svc fuel cfg record db = Some (Inr (), db') \<Longrightarrow>
    engine_step env svc db db'"
| failure_step: "outbox_of env db record \<Longrightarrow> settle_failure env cfg record error db = Some (Inr (), db') \<Longrightarrow>
    engine_step env svc db db'"
| clock_step: "db_now db \<le> now \<Longrightarrow> engine_step env svc db (db\<lparr>db_now := now\<rparr>)"

definition empty_db :: "timestamp \<Rightarrow> int \<Rightarrow> db" where
  "empty_db now attempts =
     \<lparr>db_instances = [], db_activities = [], db_timers = [], db_outbox = [], db_events = [], db_now = now,
      db_next_uuid = 1, db_default_max_attempts = attempts\<rparr>"

definition reachable :: "('p, 'c, 'v) env \<Rightarrow> workflow_service \<Rightarrow> db \<Rightarrow> bool" where
  "reachable env svc db \<longleftrightarrow> (\<exists>now attempts. (engine_step env svc)\<^sup>*\<^sup>* (empty_db now attempts) db)"

section \<open>The invariant\<close>

definition replays :: "('p, 'c, 'v) env \<Rightarrow> db \<Rightarrow> bool" where
  "replays env db \<longleftrightarrow> (\<forall>r\<in>set (db_instances db). \<forall>sn. snapshot_de env (ir_definition_snapshot r) = Inr sn \<longrightarrow>
     rework_free sn \<longrightarrow> Syn env sn (ir_id r) (db_now db) settled db)"

text \<open>
  What a step may change: the rows of one instance. The log only grows at its end, and no instance
  is removed or has the definition it was started with replaced.
\<close>

definition inst_ids :: "db \<Rightarrow> (uuid \<times> json) list" where
  "inst_ids db = map (\<lambda>r. (ir_id r, ir_definition_snapshot r)) (db_instances db)"

definition local_change :: "db \<Rightarrow> db \<Rightarrow> bool" where
  "local_change db db' \<longleftrightarrow> (\<exists>i. \<forall>j. j \<noteq> i \<longrightarrow> same_rows j db db') \<and> prefix (db_events db) (db_events db') \<and>
     prefix (inst_ids db) (inst_ids db') \<and> history_kept db db'"

lemma local_change_refl: "local_change db db"
  by (simp add: local_change_def same_rows_def history_refl)

lemma local_change_iso: "iso i db db' \<Longrightarrow> local_change db db'"
  by (auto simp: local_change_def iso_def inst_ids_def)

definition engine_inv :: "('p, 'c, 'v) env \<Rightarrow> db \<Rightarrow> bool" where
  "engine_inv env db \<longleftrightarrow> db_ok db \<and> replays env db"

definition step_ok :: "('p, 'c, 'v) env \<Rightarrow> db \<Rightarrow> db \<Rightarrow> bool" where
  "step_ok env db db' \<longleftrightarrow> engine_inv env db' \<and> local_change db db'"

lemma in_txn_Inr: "in_txn m db = Some (Inr x, db') \<longleftrightarrow> m db = Some (Inr x, db')"
  by (auto simp: in_txn_def split: option.split sum.split)

lemma iso_instance:
  assumes "iso i db0 db" "r \<in> set (db_instances db)"
  shows "\<exists>r0\<in>set (db_instances db0). ir_id r0 = ir_id r \<and> ir_definition_snapshot r0 = ir_definition_snapshot r"
proof -
  have "(\<lambda>r. (ir_id r, ir_definition_snapshot r)) ` set (db_instances db) = (\<lambda>r. (ir_id r, ir_definition_snapshot r)) ` set (db_instances db0)"
    using assms(1) unfolding iso_def by (metis image_set)
  with assms(2) have "(ir_id r, ir_definition_snapshot r) \<in> (\<lambda>r. (ir_id r, ir_definition_snapshot r)) ` set (db_instances db0)" by blast
  then show ?thesis by (elim imageE) (simp, blast)
qed

text \<open>A transaction on one instance that keeps its own agreement keeps the invariant.\<close>

lemma inv_transaction:
  assumes inv: "engine_inv env db" and i: "i < db_next_uuid db" and k: "keeps i db m"
    and own: "\<And>sn. rework_free sn \<Longrightarrow> Syn env sn i (db_now db) settled db \<Longrightarrow>
      hoare (\<lambda>db'. db' = db) m (\<lambda>_. Syn env sn i (db_now db) settled)"
    and run: "m db = Some (Inr x, db')"
  shows "step_ok env db db'"
proof -
  have ok: "db_ok db" and rep: "replays env db" using inv by (simp_all add: engine_inv_def)
  have io: "iso i db db'" by (rule hoareD [OF k iso_refl [OF ok i] run])
  have "Syn env sn (ir_id r) (db_now db') settled db'"
    if r: "r \<in> set (db_instances db')" and sn: "snapshot_de env (ir_definition_snapshot r) = Inr sn" "rework_free sn" for r sn
  proof -
    obtain r0 where "r0 \<in> set (db_instances db)" "ir_id r0 = ir_id r" "ir_definition_snapshot r0 = ir_definition_snapshot r"
      using iso_instance [OF io r] by blast
    with rep sn have s: "Syn env sn (ir_id r) (db_now db) settled db" by (auto simp: replays_def)
    have now: "db_now db' = db_now db" using io by (simp add: iso_def)
    show ?thesis
    proof (cases "ir_id r = i")
      case True
      with hoareD [OF own [OF sn(2)] refl run] s now show ?thesis by simp
    qed (use Syn_other [OF io _ s] now in simp)
  qed
  then have "engine_inv env db'" using io by (auto simp: engine_inv_def replays_def iso_def)
  then show ?thesis using local_change_iso [OF io] by (simp add: step_ok_def)
qed

section \<open>Every step keeps the invariant\<close>

lemma hoare_at: "hoare P m Q \<Longrightarrow> P db \<Longrightarrow> hoare (\<lambda>db'. db' = db) m Q"
  by (auto simp: hoare_def)

lemma locked_exists:
  assumes "tx_bind (locked_instance env scope i) f db = Some (Inr x, db')" "db_ok db"
  shows "i < db_next_uuid db"
proof -
  obtain inst where "load_instance_for_update_scoped env scope i db = Inr (Some inst)"
    using assms(1) by (auto simp: locked_instance_def tx_bind_def tx_read_res_def res_simps split: option.splits sum.splits prod.splits)
  then obtain r where "r \<in> set (db_instances db)" "ir_id r = i"
    by (auto simp: load_instance_for_update_scoped_def get_instance_scoped_def res_simps dest!: find_SomeD)
  with assms(2) show ?thesis by (auto simp: db_ok_def)
qed

lemma inv_signal:
  assumes u: "uuid_text_ok env" and inv: "engine_inv env db" and run: "signal env svc fuel cmd db = Some (Inr out, db')"
  shows "step_ok env db db'"
proof (rule inv_transaction [OF inv _ keeps_signal [OF u refl] _ run])
  have "\<not> trim_is_empty (sg_idempotency_key cmd)" using run by (auto simp: signal_def tx_fail_def split: if_splits)
  then show "sg_instance_id cmd < db_next_uuid db"
    using run inv by (auto simp: signal_def Let_def engine_inv_def intro: locked_exists)
qed (rule hoare_at [OF hoare_signal [OF u _ refl]])

lemma inv_resubmit:
  assumes u: "uuid_text_ok env" and lim: "rounds_limited svc" and inv: "engine_inv env db"
    and run: "resubmit env svc scope i key db = Some (Inr out, db')"
  shows "step_ok env db db'"
proof (rule inv_transaction [OF inv _ keeps_resubmit [OF u] _ run])
  have "\<not> trim_is_empty key" using run by (auto simp: resubmit_def tx_fail_def split: if_splits)
  then show "i < db_next_uuid db"
    using run inv by (auto simp: resubmit_def Let_def engine_inv_def intro: locked_exists)
qed (rule hoare_at [OF hoare_resubmit [OF u lim]])

lemma db_ok_owned: "db_ok db \<Longrightarrow> owned i a db \<Longrightarrow> i < db_next_uuid db"
  by (auto simp: db_ok_def owned_def)

lemma inv_timer:
  assumes u: "uuid_text_ok env" and inv: "engine_inv env db" and t: "timer_of env db timer"
    and run: "fire_timer env svc fuel timer db = Some (Inr b, db')"
  shows "step_ok env db db'"
proof -
  obtain m where m: "m \<in> set (db_timers db)" and ids: "tm_workflow_instance_id timer = uuid_str env (mr_workflow_instance_id m)"
    "tm_activity_instance_id timer = uuid_str env (mr_activity_instance_id m)" using t by (auto simp: timer_of_def)
  have ok: "db_ok db" using inv by (simp add: engine_inv_def)
  then have o: "owned (mr_workflow_instance_id m) (mr_activity_instance_id m) db" using m by (simp add: db_ok_def)
  show ?thesis
    by (rule inv_transaction [OF inv db_ok_owned [OF ok o] keeps_fire_timer [OF u ids o] _ run])
      (rule hoare_at [OF hoare_fire_timer [OF u ids]], simp add: o)
qed

lemma inv_same_projection:
  assumes inv: "engine_inv env db" and s: "same_projection db db'" and ok: "db_ok db'" and h: "history_kept db db'"
  shows "step_ok env db db'"
proof -
  have e: "db_instances db' = db_instances db" "db_now db' = db_now db" using s by (simp_all add: same_projection_def)
  have "Syn env sn i t q db'" if "Syn env sn i t q db" for sn i t q
    using that by (auto simp: Syn_def intro: St_same [OF s])
  with inv ok have "engine_inv env db'" by (simp add: engine_inv_def replays_def e)
  moreover have "local_change db db'" using s h
    by (simp add: local_change_def same_rows_def same_projection_def inst_ids_def find_instance_def activities_of_def events_of_def)
  ultimately show ?thesis by (simp add: step_ok_def)
qed

lemma db_ok_set_outbox:
  assumes "db_ok db" "\<And>x. xr_workflow_instance_id (f x) = xr_workflow_instance_id x" "\<And>x. xr_activity_instance_id (f x) = xr_activity_instance_id x"
    "\<And>x. xr_id (f x) = xr_id x"
  shows "db_ok (snd (set_outbox P f db))"
proof -
  have "keys_ok (snd (set_outbox P f db))" by (rule keys_set_outbox) (use assms(1,4) in \<open>simp_all add: db_ok_def\<close>)
  then show ?thesis using assms by (auto simp: db_ok_def set_outbox_def owned_def dest!: in_update_whereE)
qed

lemma inv_lease:
  assumes inv: "engine_inv env db" and run: "poll_due_outbox env worker ttl limit db = (records, db')"
  shows "step_ok env db db'"
proof -
  define ids where "ids = map xr_id (take (nat limit) (sort_key xr_next_attempt_at (filter (outbox_due (db_now db)) (db_outbox db))))"
  define f :: "outbox_row \<Rightarrow> outbox_row" where "f = (\<lambda>x. x\<lparr>xr_status := 2, xr_lease_owner := Some worker, xr_lease_expires_at := Some (db_now db + secs ttl)\<rparr>)"
  have db': "db' = snd (set_outbox (\<lambda>x. xr_id x \<in> set ids) f db)" using run by (auto simp: poll_due_outbox_def Let_def ids_def f_def)
  have ok0: "db_ok db" using inv by (simp add: engine_inv_def)
  have ok: "db_ok db'" unfolding db' by (rule db_ok_set_outbox [OF ok0]) (simp_all add: f_def)
  have due: "outbox_due (db_now db) x" if "x \<in> set (db_outbox db)" "xr_id x \<in> set ids" for x
  proof -
    have "set ids \<subseteq> xr_id ` {y \<in> set (db_outbox db). outbox_due (db_now db) y}"
      by (auto simp: ids_def dest!: in_set_takeD)
    with that(2) obtain y where y: "y \<in> set (db_outbox db)" "outbox_due (db_now db) y" "xr_id y = xr_id x" by auto
    have "distinct (map xr_id (db_outbox db))" using ok0 by (simp add: db_ok_def keys_ok_def)
    with y that(1) have "y = x" unfolding distinct_map by (meson inj_onD)
    with y show ?thesis by simp
  qed
  have "xr_id x \<notin> set ids" if "x \<in> set (db_outbox db)" "xr_status x \<in> {3, 4}" for x
    using due [OF that(1)] that(2) by (auto simp: outbox_due_def)
  then have "history_kept db db'"
    by (auto simp: db' history_kept_def set_outbox_def intro!: in_update_where_other)
  then show ?thesis by (intro inv_same_projection [OF inv _ ok]) (simp_all add: db' same_projection_ops)
qed

text \<open>Settling an outbox row.\<close>

lemma hoare_outbox_op:
  assumes "\<And>db. same_projection db (snd (f db))" "\<And>db. db_activities (snd (f db)) = db_activities db"
  shows "hoare (\<lambda>db. Syn env sn i t q db \<and> owned i a db) (tx_op f) (\<lambda>_ db. Syn env sn i t q db \<and> owned i a db)"
proof (rule hoare_op)
  fix db x db'
  assume s: "Syn env sn i t q db \<and> owned i a db" and "f db = (x, db')"
  then have db': "db' = snd (f db)" by simp
  have "Syn env sn i t q db'" using s St_same [OF assms(1) [of db]] by (fastforce simp: Syn_def db')
  with s assms(2) [of db] show "Syn env sn i t q db' \<and> owned i a db'" by (simp add: db' owned_def)
qed

lemma hoare_outbox_marks:
  fixes env :: "('p, 'c, 'v) env"
  shows "hoare (\<lambda>db. Syn env sn i t q db \<and> owned i a db) (tx_op (mark_outbox_succeeded u w)) (\<lambda>_ db. Syn env sn i t q db \<and> owned i a db)"
    and "hoare (\<lambda>db. Syn env sn i t q db \<and> owned i a db) (tx_op (mark_outbox_retry u w n e)) (\<lambda>_ db. Syn env sn i t q db \<and> owned i a db)"
    and "hoare (\<lambda>db. Syn env sn i t q db \<and> owned i a db) (tx_op (mark_outbox_dead_letter u w e)) (\<lambda>_ db. Syn env sn i t q db \<and> owned i a db)"
  by (rule hoare_outbox_op; unfold mark_outbox_succeeded_def mark_outbox_retry_def mark_outbox_dead_letter_def;
      (rule same_projection_ops | simp add: set_outbox_def))+

lemma hoare_settle_success:
  assumes u: "uuid_text_ok env"
  shows "hoare (\<lambda>db. Syn env sn i t settled db \<and> owned i a db) (settle_success_body env svc fuel cfg ty x i a) (\<lambda>_. Syn env sn i t settled)"
  unfolding settle_success_body_def
  by (rule hoare_bind [OF hoare_outbox_marks(1)])
    (auto intro!: hoare_if hoare_notification_delivered [OF u] hoare_pre [OF hoare_callback_delivered])

lemma hoare_settle_failure:
  "hoare (\<lambda>db. Syn env sn i t settled db \<and> owned i a db) (settle_failure_body env cfg record e x i a) (\<lambda>_. Syn env sn i t settled)"
  unfolding settle_failure_body_def
  by (intro hoare_if hoare_bind [OF hoare_outbox_marks(2)] hoare_bind [OF hoare_outbox_marks(3)])
    (auto intro!: hoare_when hoare_pre [OF hoare_dead_letter])

lemma keeps_settle:
  assumes u: "uuid_text_ok env" and o: "owned i a db0"
  shows "keeps i db0 (settle_success_body env svc fuel cfg ty x i a)" "keeps i db0 (settle_failure_body env cfg record e x i a)"
  unfolding settle_success_body_def settle_failure_body_def
  by (intro hoare_if keeps_bind keeps_outbox_ops keeps_return keeps_notification_delivered u o keeps_callback_delivered keeps_when
      keeps_dead_letter)+

lemma record_ids_of:
  assumes "outbox_of env db record" "uuid_text_ok env" "db_ok db" "record_ids env record = Inr (x, i, a)"
  shows "owned i a db"
proof -
  obtain r where "r \<in> set (db_outbox db)" "or_workflow_instance_id record = uuid_str env (xr_workflow_instance_id r)"
     "or_activity_instance_id record = uuid_str env (xr_activity_instance_id r)" using assms(1) by (auto simp: outbox_of_def)
  with assms show ?thesis by (auto simp: record_ids_def res_simps parse_uuid_ok db_ok_def)
qed

lemma settle_cases:
  assumes "tx_bind (tx_lift (record_ids env record)) (\<lambda>(x, i, a). in_txn (m x i a)) db = Some (Inr y, db')"
  shows "\<exists>x i a. record_ids env record = Inr (x, i, a) \<and> m x i a db = Some (Inr y, db')"
  using assms by (auto simp: tx_bind_def tx_lift_def in_txn_Inr split: sum.splits prod.splits)

lemma inv_settle:
  assumes u: "uuid_text_ok env" and inv: "engine_inv env db" and o: "outbox_of env db record"
  shows "settle_success env svc fuel cfg record db = Some (Inr (), db') \<Longrightarrow> step_ok env db db'"
    and "settle_failure env cfg record error db = Some (Inr (), db') \<Longrightarrow> step_ok env db db'"
proof -
  have ok: "db_ok db" using inv by (simp add: engine_inv_def)
  note own = record_ids_of [OF o u ok]
  assume "settle_success env svc fuel cfg record db = Some (Inr (), db')"
  then obtain x i a where ids: "record_ids env record = Inr (x, i, a)"
    and run: "settle_success_body env svc fuel cfg (or_activity_type record) x i a db = Some (Inr (), db')"
    unfolding settle_success_def by (auto dest: settle_cases)
  show "step_ok env db db'"
    by (rule inv_transaction [OF inv db_ok_owned [OF ok own [OF ids]] keeps_settle(1) [OF u own [OF ids]] _ run])
      (rule hoare_at [OF hoare_settle_success [OF u]], simp add: own [OF ids])
next
  have ok: "db_ok db" using inv by (simp add: engine_inv_def)
  note own = record_ids_of [OF o u ok]
  assume "settle_failure env cfg record error db = Some (Inr (), db')"
  then obtain x i a where ids: "record_ids env record = Inr (x, i, a)"
    and run: "settle_failure_body env cfg record error x i a db = Some (Inr (), db')"
    unfolding settle_failure_def by (auto dest: settle_cases)
  show "step_ok env db db'"
    by (rule inv_transaction [OF inv db_ok_owned [OF ok own [OF ids]] keeps_settle(2) [OF u own [OF ids]] _ run])
      (rule hoare_at [OF hoare_settle_failure], simp add: own [OF ids])
qed

lemma inv_clock:
  assumes inv: "engine_inv env db" and t: "db_now db \<le> now"
  shows "step_ok env db (db\<lparr>db_now := now\<rparr>)"
proof -
  have "db_ok (db\<lparr>db_now := now\<rparr>)" using inv by (simp add: engine_inv_def db_ok_def owned_def)
  moreover have "Syn env sn i now q (db\<lparr>db_now := now\<rparr>)" if "Syn env sn i (db_now db) q db" for sn i q
    by (rule Syn_tick [OF that t])
  then have "replays env (db\<lparr>db_now := now\<rparr>)" using inv by (simp add: engine_inv_def replays_def)
  moreover have "local_change db (db\<lparr>db_now := now\<rparr>)"
    by (simp add: local_change_def same_rows_def inst_ids_def find_instance_def activities_of_def events_of_def history_kept_def)
  ultimately show ?thesis by (simp add: step_ok_def engine_inv_def)
qed

text \<open>A start inserts a row, then runs on the new instance like any other transaction.\<close>

lemma start_cases:
  assumes "start env svc cmd db = Some (Inr out, db')"
  shows "db' = db \<or> (\<exists>n role j h row db1. snapshot_ser env (sc_snapshot cmd) = Inr j \<and>
      insert_instance_on_conflict (sc_tenant_id cmd) (sc_facility_id cmd) (sc_definition_id cmd)
           (sc_reference_no cmd) (sc_business_key cmd) (sc_business_type cmd) (sc_context cmd) j h db = (Some row, db1) \<and>
      start_created env svc cmd n role h (instance_model env row) db1 = Some (Inr out, db'))"
proof -
  obtain n role j where j: "snapshot_ser env (sc_snapshot cmd) = Inr j"
    and run: "tx_bind (tx_op (insert_instance_on_conflict (sc_tenant_id cmd) (sc_facility_id cmd) (sc_definition_id cmd)
           (sc_reference_no cmd) (sc_business_key cmd) (sc_business_type cmd) (sc_context cmd) j
           (definition_hash (json_text env) (sha256 env) j)))
         (\<lambda>inserted. case inserted of None \<Rightarrow> start_existing env cmd
       | Some row \<Rightarrow> start_created env svc cmd n role (definition_hash (json_text env) (sha256 env) j) (instance_model env row)) db
      = Some (Inr out, db')"
    using assms by (auto simp: start_def tx_then_def tx_bind_def tx_lift_def res_simps Let_def split: sum.splits prod.splits)
  let ?h = "definition_hash (json_text env) (sha256 env) j"
  obtain ins db1 where i: "insert_instance_on_conflict (sc_tenant_id cmd) (sc_facility_id cmd) (sc_definition_id cmd)
           (sc_reference_no cmd) (sc_business_key cmd) (sc_business_type cmd) (sc_context cmd) j ?h db = (ins, db1)"
    by (cases "insert_instance_on_conflict (sc_tenant_id cmd) (sc_facility_id cmd) (sc_definition_id cmd)
           (sc_reference_no cmd) (sc_business_key cmd) (sc_business_type cmd) (sc_context cmd) j ?h db")
  show ?thesis
  proof (cases ins)
    case None
    with i have "db1 = db" by (auto simp: insert_instance_on_conflict_def fresh_def Let_def split: if_splits)
    with run i None have "db' = db"
      by (auto simp: tx_bind_def tx_op_def start_existing_def tx_read_res_def tx_read_def tx_lift_def tx_return_def
          split: sum.splits)
    then show ?thesis ..
  next
    case (Some row)
    with run i j show ?thesis by (auto simp: tx_bind_def tx_op_def)
  qed
qed

lemma inv_start:
  assumes u: "uuid_text_ok env" and codec: "snapshot_codec_ok env" and inv: "engine_inv env db"
    and run: "start env svc cmd db = Some (Inr out, db')"
  shows "step_ok env db db'"
  using start_cases [OF run]
proof (elim disjE exE conjE)
  fix n role j h row db1
  assume j: "snapshot_ser env (sc_snapshot cmd) = Inr j"
    and ins: "insert_instance_on_conflict (sc_tenant_id cmd) (sc_facility_id cmd) (sc_definition_id cmd)
           (sc_reference_no cmd) (sc_business_key cmd) (sc_business_type cmd) (sc_context cmd) j h db = (Some row, db1)"
    and go: "start_created env svc cmd n role h (instance_model env row) db1 = Some (Inr out, db')"
  have ok: "db_ok db" and rep: "replays env db" using inv by (simp_all add: engine_inv_def)
  note eff = insert_instance_effect [OF ok ins]
  have de: "snapshot_de env j = Inr (sc_snapshot cmd)" using codec j by (simp add: snapshot_codec_ok_def)
  have id: "wi_id (instance_model env row) = uuid_str env (ir_id row)" by (simp add: instance_model_def)
  have io: "iso (ir_id row) db1 db'"
    by (rule hoareD [OF keeps_start_created [OF u id] iso_refl [OF eff(2) eff(4)] go])
  have now: "db_now db' = db_now db" using io eff(3) by (simp add: iso_def)
  have own: "Syn env (sc_snapshot cmd) (ir_id row) (db_now db) settled db'"
    by (rule hoareD [OF hoare_start_created [OF u id] eff(8) [OF de] go])
      (simp_all add: agrees_exact eff(9) replay_started_def initial_projection_def)
  have "Syn env sn (ir_id r) (db_now db') settled db'"
    if r: "r \<in> set (db_instances db')" and sn: "snapshot_de env (ir_definition_snapshot r) = Inr sn" "rework_free sn" for r sn
  proof -
    obtain r1 where r1: "r1 \<in> set (db_instances db1)" "ir_id r1 = ir_id r" "ir_definition_snapshot r1 = ir_definition_snapshot r"
      using iso_instance [OF io r] by blast
    show ?thesis
    proof (cases "r1 = row")
      case True
      with r1 sn de eff(6) own now show ?thesis by simp
    next
      case False
      then have m: "r1 \<in> set (db_instances db)" using r1(1) eff(5) by simp
      then have ne: "ir_id r1 \<noteq> ir_id row" using ok eff(1) by (auto simp: db_ok_def)
      have "snapshot_de env (ir_definition_snapshot r1) = Inr sn" using sn r1 by simp
      with rep m sn(2) have "Syn env sn (ir_id r1) (db_now db) settled db" unfolding replays_def by blast
      moreover have "same_rows (ir_id r1) db db'" using eff(7) [OF ne] io ne by (simp add: iso_def same_rows_def)
      moreover have "db_ok db'" using io by (simp add: iso_def)
      ultimately show ?thesis using Syn_same_rows r1(2) now by metis
    qed
  qed
  then have "engine_inv env db'" using io by (simp add: engine_inv_def replays_def iso_def)
  moreover have "local_change db db1"
    using eff(5,7,10,11) by (auto simp: local_change_def inst_ids_def)
  then have "local_change db db'"
    using io eff(7) history_trans [OF eff(11)]
    by (auto simp: local_change_def iso_def inst_ids_def same_rows_def intro!: exI [of _ "ir_id row"] intro: prefix_order.trans)
  ultimately show ?thesis by (simp add: step_ok_def)
qed (use inv local_change_refl in \<open>simp add: step_ok_def\<close>)

section \<open>Reachable databases\<close>

lemma engine_inv_step:
  assumes "engine_step env svc db db'" "uuid_text_ok env" "snapshot_codec_ok env" "rounds_limited svc" "engine_inv env db"
  shows "step_ok env db db'"
  using assms
  by (cases rule: engine_step.cases)
    (auto simp: in_txn_Inr intro: inv_start inv_signal inv_resubmit inv_timer inv_lease inv_settle inv_clock)

lemma engine_inv_empty: "engine_inv env (empty_db now attempts)"
  by (simp add: engine_inv_def db_ok_def replays_def empty_db_def numbered_def active_unique_def events_of_def keys_ok_def)

lemma reachable_inv:
  assumes "reachable env svc db" "uuid_text_ok env" "snapshot_codec_ok env" "rounds_limited svc"
  shows "engine_inv env db"
proof -
  obtain now attempts where "(engine_step env svc)\<^sup>*\<^sup>* (empty_db now attempts) db" using assms(1) by (auto simp: reachable_def)
  then show ?thesis
    by (induction rule: rtranclp_induct) (auto intro: engine_inv_empty engine_inv_step [unfolded step_ok_def, THEN conjunct1] assms(2-4))
qed

end
