(* ===== verification/Flow_Run_Demo.thy ===== *)
theory Flow_Run_Demo
  imports Flow_Run Flow_Demo
begin

text \<open>
  A concrete environment and a short run, for the witnesses: ids are written as decimal numbers, and
  the serde functions know two definitions, a linear one and the graph of Flow_Demo.
\<close>

definition demo_linear :: definition_snapshot where
  "demo_linear =
     \<lparr>ds_flow_type = ''leave'', ds_version = 1,
      ds_nodes = [demo_node ''start'' NcStart, demo_node ''a0'' (NcApproval (Some ''clerk'') (Some 60) None None),
        demo_node ''end'' (NcEnd (Some ''approved''))],
      ds_transitions = [demo_edge ''start'' SigApproved ''a0'', demo_edge ''a0'' SigApproved ''end''],
      ds_max_round = 3\<rparr>"

definition demo_parallel :: definition_snapshot where
  "demo_parallel =
     \<lparr>ds_flow_type = ''order'', ds_version = 1, ds_nodes = demo_nodes, ds_transitions = demo_edges, ds_max_round = 3\<rparr>"

definition demo_env :: "(string, json, json) env" where
  "demo_env =
     \<lparr>env_cel = demo_cel, uuid_str = show_nat, uuid_parse = read_nat, json_text = (\<lambda>_. ''json''), sha256 = (\<lambda>_. [1, 2]),
      snapshot_ser = (\<lambda>sn. if sn = demo_linear then Inr (JStr ''linear'') else if sn = demo_parallel then Inr (JStr ''parallel'')
        else Inl ''unknown''),
      snapshot_de = (\<lambda>j. if j = JStr ''linear'' then Inr demo_linear else if j = JStr ''parallel'' then Inr demo_parallel
        else Inl ''unknown''),
      notification_ser = (\<lambda>_. Inr (JStr ''notification'')), notification_de = (\<lambda>_. Inl ''none''),
      callback_ser = (\<lambda>_. Inr (JStr ''callback'')), callback_de = (\<lambda>_. Inl ''none''),
      terminal_ser = (\<lambda>_. Inr (JStr ''terminal'')), terminal_de = (\<lambda>_. Inl ''none'')\<rparr>"

definition demo_svc :: workflow_service where
  "demo_svc = service_new default_workflow_config registry_new"

lemma demo_uuids: "uuid_text_ok demo_env"
  by (simp add: uuid_text_ok_def demo_env_def read_nat_show)

lemma demo_codec: "snapshot_codec_ok demo_env"
  by (auto simp: snapshot_codec_ok_def demo_env_def demo_linear_def demo_parallel_def)

lemma demo_rounds: "rounds_limited demo_svc"
  by (simp add: demo_svc_def)

definition demo_scope :: scope_filter where
  "demo_scope = \<lparr>sf_tenant_id = ''7'', sf_facilities = AllInTenant\<rparr>"

definition demo_start :: "definition_snapshot \<Rightarrow> string \<Rightarrow> start_command" where
  "demo_start sn key =
     \<lparr>sc_tenant_id = 7, sc_facility_id = 9, sc_definition_id = 8, sc_snapshot = sn, sc_reference_no = ''R1'',
      sc_business_type = ''leave'', sc_business_key = key, sc_context = Some demo_ctx, sc_terminal_callback = None\<rparr>"

definition demo_signal :: "uuid \<Rightarrow> signal_type \<Rightarrow> string \<Rightarrow> signal_command" where
  "demo_signal i sig key =
     \<lparr>sg_scope = demo_scope, sg_instance_id = i, sg_signal = sig, sg_activity_id = None, sg_idempotency_key = key,
      sg_actor_user_id = 5, sg_review_notes = Some ''fine'', sg_event_type = None, sg_assignee_id = None,
      sg_context_patch = None\<rparr>"

section \<open>Execution by rewriting\<close>

text \<open>
  Transaction bodies are run by the simplifier: the congruence rules keep it out of continuations
  until their argument is known.
\<close>

lemma tx_bind_weak: "m = m' \<Longrightarrow> tx_bind m f = tx_bind m' f" by simp
lemma tx_then_weak: "m = m' \<Longrightarrow> tx_then m n = tx_then m' n" by simp
lemma run_bind: "tx_bind m f db = (case m db of None \<Rightarrow> None | Some (Inl e, db') \<Rightarrow> Some (Inl e, db') | Some (Inr x, db') \<Rightarrow> f x db')"
  by (simp add: tx_bind_def)
lemma run_then: "tx_then m n db = (case m db of None \<Rightarrow> None | Some (Inl e, db') \<Rightarrow> Some (Inl e, db') | Some (Inr x, db') \<Rightarrow> n db')"
  by (simp add: tx_then_def tx_bind_def)
lemma run_return: "tx_return x db = Some (Inr x, db)" by (simp add: tx_return_def)
lemma run_fail: "tx_fail e db = Some (Inl e, db)" by (simp add: tx_fail_def)
lemma run_lift: "tx_lift r db = Some (r, db)" by (simp add: tx_lift_def)
lemma run_op: "tx_op g db = (case g db of (x, db') \<Rightarrow> Some (Inr x, db'))" by (simp add: tx_op_def)
lemma run_op_res: "tx_op_res g db = Some (g db)" by (simp add: tx_op_res_def)
lemma run_read: "tx_read g db = Some (Inr (g db), db)" by (simp add: tx_read_def)
lemma run_read_res: "tx_read_res g db = Some (g db, db)" by (simp add: tx_read_res_def)
lemmas run_simps = run_bind run_then run_return run_fail run_lift run_op run_op_res run_read run_read_res tx_when_def

lemmas engine_run = start_def start_created_def schedule_current_def schedule_activity_def schedule_timers_def append_ev_def
  reload_def check_terminal_callback_def ctx_node_def signal_def signal_active_def locked_instance_def
  make_ctx_def resolve_target_activity_def signal_advance_def signal_complete_def complete_activity_def signal_resume_def
  apply_context_writes_def apply_outcome_step_def complete_instance_def find_terminal_callback_def signal_outcome_of_def
  append_merges_def signal_claim_def replayed_outcome_def
lemmas store_run = insert_instance_on_conflict_def fresh_def next_seq_def append_event_def events_of_def insert_activity_def
  schedule_timer_def secs_def update_current_activity_def set_instances_def count_where_def load_instance_def find_instance_def
  active_activities_def activities_of_def set_activities_def set_timers_def complete_activity_cas_def cancel_timers_for_activity_def
  complete_workflow_cas_def load_snapshot_def get_instance_scoped_def load_instance_for_update_scoped_def idempotency_seen_def
  load_events_def load_activity_def find_activity_def
lemmas run_cong = tx_bind_weak tx_then_weak
lemmas exec = engine_run store_run run_simps Let_def okorR_def map_errR_def instance_model_def activity_model_def

section \<open>A run\<close>

lemma demo_env_simps [simp]:
  "env_cel demo_env = demo_cel" "json_text demo_env = (\<lambda>_. ''json'')" "sha256 demo_env = (\<lambda>_. [1, 2])"
  "snapshot_ser demo_env demo_linear = Inr (JStr ''linear'')" "snapshot_de demo_env (JStr ''linear'') = Inr demo_linear"
  "snapshot_ser demo_env demo_parallel = Inr (JStr ''parallel'')" "snapshot_de demo_env (JStr ''parallel'') = Inr demo_parallel"
  by (simp_all add: demo_env_def demo_linear_def demo_parallel_def)

lemma demo_parse [simp]: "parse_uuid demo_env (uuid_str demo_env u) = Inr u"
  by (rule parse_uuid_ok [OF demo_uuids])

lemma demo_decide: "validate_definition demo_cel (ds_nodes demo_linear) (ds_transitions demo_linear) = Inr ()"
  "decide_start (ds_nodes demo_linear) = Some (''a0'', Some ''clerk'')"
  by code_simp+

lemma demo_linear_nodes: "List.find (\<lambda>n. node_id n = ''a0'') (ds_nodes demo_linear) = Some (demo_node ''a0'' (NcApproval (Some ''clerk'') (Some 60) None None))"
  by code_simp

lemma demo_node_sel: "node_id (demo_node i c) = i" "kind (demo_node i c) = config_kind c" "node_config (demo_node i c) = c"
   by (simp_all add: demo_node_def kind_def)

lemma demo_a0: "sla_seconds (demo_node ''a0'' (NcApproval (Some ''clerk'') (Some 60) None None)) = Some 60"
  "escalation_config (demo_node ''a0'' (NcApproval (Some ''clerk'') (Some 60) None None)) = None"
  "event_wait (demo_node ''a0'' (NcApproval (Some ''clerk'') (Some 60) None None)) = None"
  "notification (demo_node ''a0'' (NcApproval (Some ''clerk'') (Some 60) None None)) = None"
  "instantiated_activity_type (config_kind (NcApproval (Some ''clerk'') (Some 60) None None)) = AtApproval"
  by code_simp+

definition demo_db1 :: db where
  "demo_db1 =
     \<lparr>db_instances =
        [\<lparr>ir_id = 1, ir_tenant_id = 7, ir_facility_id = 9, ir_reference_no = ''R1'', ir_workflow_definition_id = 8,
          ir_business_key = ''K1'', ir_business_type = ''leave'', ir_status = 2, ir_current_activity_id = Some 2,
          ir_result = None, ir_side_effects_executed = False, ir_context = Some demo_ctx,
          ir_definition_snapshot = JStr ''linear'',
          ir_definition_hash = definition_hash (\<lambda>_. ''json'') (\<lambda>_. [1, 2]) (JStr ''linear''),
          ir_started_at = Some 0, ir_completed_at = None, ir_created_at = 0, ir_updated_at = 0\<rparr>],
      db_activities =
        [\<lparr>ar_id = 2, ar_tenant_id = 7, ar_workflow_instance_id = 1, ar_activity_definition_id = ''a0'', ar_activity_type = 2,
          ar_status = 2, ar_assignee_role = Some ''clerk'', ar_assignee_id = None, ar_result = None, ar_review_notes = None,
          ar_reviewed_by = None, ar_reviewed_at = None, ar_round = 1, ar_created_at = 0, ar_updated_at = 0\<rparr>],
      db_timers =
        [\<lparr>mr_id = 3, mr_tenant_id = 7, mr_facility_id = 9, mr_workflow_instance_id = 1, mr_activity_instance_id = 2,
          mr_timer_kind = 1, mr_status = 1, mr_fire_at = 60000000, mr_fired_at = None\<rparr>],
      db_outbox = [],
      db_events =
        [\<lparr>er_tenant_id = 7, er_facility_id = 9, er_workflow_instance_id = 1, er_seq = 1, er_event_type = ev_STARTED,
          er_event_payload = started_payload demo_env
            \<lparr>cx_instance_id = 1, cx_tenant_id = 7, cx_facility_id = 9, cx_snapshot = demo_linear, cx_context = Some demo_ctx,
             cx_business_type = ''leave'', cx_business_key = ''K1'', cx_reference_no = ''R1''\<rparr>
            (definition_hash (\<lambda>_. ''json'') (\<lambda>_. [1, 2]) (JStr ''linear'')) None,
          er_idempotency_key = None, er_created_at = 0\<rparr>,
         \<lparr>er_tenant_id = 7, er_facility_id = 9, er_workflow_instance_id = 1, er_seq = 2, er_event_type = ev_ACTIVITY_SCHEDULED,
          er_event_payload = scheduled_payload (uuid_str demo_env 2) ''a0'' AtApproval 1 (Some ''clerk'') None,
          er_idempotency_key = None, er_created_at = 0\<rparr>],
      db_now = 0, db_next_uuid = 4, db_default_max_attempts = 5\<rparr>"

lemma demo_kind: "timer_kind_i16 ''reminder'' = 1"
  by code_simp

lemma demo_started: "\<exists>out. start demo_env demo_svc (demo_start demo_linear ''K1'') (empty_db 0 5) = Some (Inr out, demo_db1)"
  by (simp add: exec demo_start_def demo_decide demo_linear_nodes demo_node_sel empty_db_def demo_a0 demo_db1_def demo_kind
      numeral_eq_Suc cong: run_cong)

lemma demo_scope_ok: "push_scope demo_env demo_scope = Inr (\<lambda>t f. t = 7)"
proof -
  have "parse_i64 (sf_tenant_id demo_scope) = Some 7" by code_simp
  then show ?thesis by (simp add: push_scope_def okorR_def demo_scope_def)
qed

lemma demo_signal_facts: "parse_i64 (show_int 7) = Some 7" "trim_is_empty ''s1'' = False" "ws_is_terminal (ws_from_i16 2) = False"
  "as_from_i16 2 = AsActive" "node_context_writes (demo_node ''a0'' (NcApproval (Some ''clerk'') (Some 60) None None)) = []"
  "check_signal_against_node (demo_node ''a0'' (NcApproval (Some ''clerk'') (Some 60) None None)) SigApproved None = Inr ()"
  "Option.bind (signal_result SigApproved) activity_result_from_str = Some 1"
  "decide_advance demo_cel (ds_nodes demo_linear) (ds_transitions demo_linear) ''a0'' SigApproved (Some demo_ctx) =
     (Complete WrApproved, empty_trace)" "merges_passed empty_trace = []"
  "activity_result_from_str ''approved'' = Some 1"
  "wr_as_i16 WrApproved = 1"
  by code_simp+

lemma demo_no_callback: "json_get ''terminal_callback'' (started_payload demo_env c h None) = Some JNull"
  by (simp add: started_payload_def json_get_obj_distinct)

definition demo_db2 :: db where
  "demo_db2 = demo_db1\<lparr>
     db_instances := map (\<lambda>r. r\<lparr>ir_status := 3, ir_current_activity_id := None, ir_result := Some 1, ir_completed_at := Some 0\<rparr>)
       (db_instances demo_db1),
     db_activities := map (\<lambda>r. r\<lparr>ar_status := 3, ar_result := Some 1, ar_review_notes := Some ''fine'', ar_reviewed_by := Some 5,
       ar_reviewed_at := Some 0\<rparr>) (db_activities demo_db1),
     db_timers := map (\<lambda>m. m\<lparr>mr_status := 3\<rparr>) (db_timers demo_db1),
     db_events := db_events demo_db1 @
       [\<lparr>er_tenant_id = 7, er_facility_id = 9, er_workflow_instance_id = 1, er_seq = 3, er_event_type = ev_SIGNAL_RECEIVED,
         er_event_payload = obj [(''signal_type'', JStr ''approved''), (''target_activity_id'', JStr (uuid_str demo_env 2)),
           (''reviewer_id'', JStr (show_int 5)), (''review_notes'', opt_str (Some ''fine''))],
         er_idempotency_key = Some ''s1'', er_created_at = 0\<rparr>,
        \<lparr>er_tenant_id = 7, er_facility_id = 9, er_workflow_instance_id = 1, er_seq = 4, er_event_type = ev_ACTIVITY_COMPLETED,
         er_event_payload = obj [(''activity_id'', JStr (uuid_str demo_env 2)), (''result'', opt_str (Some ''approved''))],
         er_idempotency_key = None, er_created_at = 0\<rparr>,
        \<lparr>er_tenant_id = 7, er_facility_id = 9, er_workflow_instance_id = 1, er_seq = 5, er_event_type = ev_COMPLETED,
         er_event_payload = obj [(''result'', JStr ''approved'')], er_idempotency_key = None, er_created_at = 0\<rparr>]\<rparr>"

lemma demo_signalled: "\<exists>out. signal demo_env demo_svc 1 (demo_signal 1 SigApproved ''s1'') demo_db1 = Some (Inr out, demo_db2)"
  by (simp add: exec demo_signal_def demo_scope_ok demo_linear_nodes demo_node_sel demo_a0 demo_db1_def demo_kind demo_signal_facts
     demo_no_callback parse_i64_field_def event_neq event_model_def demo_db2_def numeral_eq_Suc cong: run_cong)

lemma demo_steps: "engine_step demo_env demo_svc (empty_db 0 5) demo_db1" "engine_step demo_env demo_svc demo_db1 demo_db2"
proof -
  obtain out where "in_txn (start demo_env demo_svc (demo_start demo_linear ''K1'')) (empty_db 0 5) = Some (Inr out, demo_db1)"
    using demo_started by (auto simp: in_txn_Inr)
  then show "engine_step demo_env demo_svc (empty_db 0 5) demo_db1" by (rule start_step)
  obtain out where "in_txn (signal demo_env demo_svc 1 (demo_signal 1 SigApproved ''s1'')) demo_db1 = Some (Inr out, demo_db2)"
    using demo_signalled by (auto simp: in_txn_Inr)
  then show "engine_step demo_env demo_svc demo_db1 demo_db2" by (rule signal_step)
qed

lemma demo_reachable: "reachable demo_env demo_svc demo_db1" "reachable demo_env demo_svc demo_db2"
  unfolding reachable_def using demo_steps by (meson rtranclp.rtrancl_into_rtrancl rtranclp.rtrancl_refl)+

lemma demo_rework_free: "rework_free demo_linear"
  by (simp add: rework_free_def demo_linear_def demo_edge_def)

lemma demo_join_free: "join_free demo_linear"
  by code_simp

end
