(* ===== verification/Flow_Run_Props.thy ===== *)
theory Flow_Run_Props
  imports Flow_Run_Demo
begin

text \<open>
  What every run of the engine keeps: the projection is the fold of the event log, a step writes one
  instance, the log is append-only and numbered without gaps, one instance is active per business
  key, and a signal takes effect once per idempotency key.
\<close>

lemma reachable_step: "reachable env svc db \<Longrightarrow> engine_step env svc db db' \<Longrightarrow> reachable env svc db'"
  unfolding reachable_def by (meson rtranclp.rtrancl_into_rtrancl)

lemma reachable_steps: "(engine_step env svc)\<^sup>*\<^sup>* db db' \<Longrightarrow> reachable env svc db \<Longrightarrow> reachable env svc db'"
  by (induction rule: rtranclp_induct) (auto intro: reachable_step)

lemma reachable_local_change:
  assumes "reachable env svc db" "engine_step env svc db db'" "uuid_text_ok env" "snapshot_codec_ok env" "rounds_limited svc"
  shows "local_change db db'"
  using engine_inv_step [OF assms(2-5) reachable_inv [OF assms(1,3-5)]] by (simp add: step_ok_def)

section \<open>The projection is the fold of the log\<close>

lemma inv_agrees:
  assumes "engine_inv env db" "r \<in> set (db_instances db)" "snapshot_de env (ir_definition_snapshot r) = Inr sn" "rework_free sn"
  shows "agrees (join_free sn) (live_projection env (ir_id r) db) (fold_events sn (load_events (ir_id r) db))"
  using assms by (auto simp: engine_inv_def replays_def Syn_def St_def folded_projection_def)

text \<open>
  C1: In every database the engine can reach, through any interleaving of commands, timer firings,
  outbox deliveries and clock ticks on any instances, the stored rows of an instance whose bound
  definition has no rework edge are the fold of its event log: the same activities with the same
  status, result, round, assignees and review, and the same instance status, result and times. When
  the definition has no ParallelJoin node the current-activity pointer is the same too.
\<close>

theorem reachable_replays:
  assumes "reachable env svc db" "uuid_text_ok env" "snapshot_codec_ok env" "rounds_limited svc"
    and "r \<in> set (db_instances db)" "snapshot_de env (ir_definition_snapshot r) = Inr sn" "rework_free sn"
  shows "agrees (join_free sn) (live_projection env (ir_id r) db) (fold_events sn (load_events (ir_id r) db))"
  using reachable_inv [OF assms(1-4)] assms(5-7) by (rule inv_agrees)

lemma demo_db1_row:
  obtains r where "r \<in> set (db_instances demo_db1)" "ir_definition_snapshot r = JStr ''linear''" "ir_id r = 1"
  by (rule that [of "hd (db_instances demo_db1)"]) (simp_all add: demo_db1_def)

lemma demo_db2_row:
  obtains r where "r \<in> set (db_instances demo_db2)" "ir_definition_snapshot r = JStr ''linear''" "ir_id r = 1"
  by (rule that [of "hd (db_instances demo_db2)"]) (simp_all add: demo_db1_def demo_db2_def)

theorem reachable_replays_witness:
  "live_projection demo_env 1 demo_db2 = fold_events demo_linear (load_events 1 demo_db2)"
proof -
  obtain r where r: "r \<in> set (db_instances demo_db2)" "ir_definition_snapshot r = JStr ''linear''" "ir_id r = 1"
    by (rule demo_db2_row)
  have "agrees (join_free demo_linear) (live_projection demo_env (ir_id r) demo_db2) (fold_events demo_linear (load_events (ir_id r) demo_db2))"
    by (rule reachable_replays [OF demo_reachable(2) demo_uuids demo_codec demo_rounds r(1) _ demo_rework_free]) (simp add: r)
  then show ?thesis by (simp add: demo_join_free agrees_exact r)
qed

section \<open>Drift verification\<close>

lemma list_activities_sorted:
  assumes "wf_db env sn i t db"
  shows "list_activities env i db = map (activity_model env) (activities_of i db)"
  using assms by (simp add: list_activities_def wf_db_def sort_key_id_if_sorted)

lemma activity_agrees_live: "activity_agrees (live_activity env a) (activity_model env a)"
  by (simp add: activity_agrees_def live_activity_def activity_model_def)

lemma distinct_activity_ids:
  assumes "uuid_text_ok env" "wf_db env sn i t db"
  shows "distinct (map ai_id (map (activity_model env) (activities_of i db)))"
proof -
  have "distinct (map ar_id (activities_of i db))"
    using assms(2) by (simp add: wf_db_def activities_of_def distinct_map_filter)
  then show ?thesis
    by (auto simp: activity_model_def distinct_map comp_def inj_on_def uuid_str_inject [OF assms(1)])
qed

lemma diff_agreeing:
  assumes u: "uuid_text_ok env" and w: "wf_db env sn i t db" and r: "find_instance db i = Some row"
    and a: "agrees e (live_projection env i db) pr"
  shows "diff_projection pr (instance_model env row) (list_activities env i db) =
     (if ri_current_activity_id (rp_instance pr) = wi_current_activity_id (instance_model env row) then []
      else [diff_line ''instance.current_activity_id'' (debug_opt debug_str (ri_current_activity_id (rp_instance pr)))
        (debug_opt debug_str (wi_current_activity_id (instance_model env row)))])"
proof -
  let ?las = "map (activity_model env) (activities_of i db)"
  have acts: "rp_activities pr = map (live_activity env) (activities_of i db)"
    using a r by (simp add: agrees_def live_projection_def)
  have inst: "ri_status (rp_instance pr) = wi_status (instance_model env row)" "ri_result (rp_instance pr) = wi_result (instance_model env row)"
    using a r unfolding agrees_def replayed_instance_split
    by (simp_all add: live_projection_def live_instance_def instance_model_def)
  define pr' where "pr' = pr\<lparr>rp_instance := (rp_instance pr)\<lparr>ri_current_activity_id := wi_current_activity_id (instance_model env row)\<rparr>\<rparr>"
  have "diff_projection pr' (instance_model env row) ?las = []"
    unfolding diff_projection_Nil [OF distinct_activity_ids [OF u w]]
    using activity_agrees_live [of env]
    by (auto simp: pr'_def instance_agrees_def inst acts activity_model_def live_activity_def image_image)
  then show ?thesis
    by (simp add: list_activities_sorted [OF w] diff_projection_def pr'_def diff_instance_def inst)
qed

lemma get_scoped_row:
  assumes "db_ok db" "get_instance_scoped env scope i db = Inr (Some inst)"
  shows "\<exists>row. find_instance db i = Some row \<and> inst = instance_model env row"
proof -
  obtain row where "row \<in> set (db_instances db)" "ir_id row = i" "inst = instance_model env row"
    using assms(2) by (auto simp: get_instance_scoped_def res_simps dest!: find_SomeD)
  moreover have "distinct (map ir_id (db_instances db))" using assms(1) by (simp add: db_ok_def)
  ultimately show ?thesis using find_key_distinct [of ir_id "db_instances db" row] by (auto simp: find_instance_def)
qed

lemma verify_cases:
  assumes "verify_projection env scope i db = Some (Inr v, db')" "db_ok db"
  shows "db' = db \<and> (\<exists>row sn. find_instance db i = Some row \<and> snapshot_de env (ir_definition_snapshot row) = Inr sn \<and>
    pv_consistent v = (pv_differences v = []) \<and> pv_event_count v = int (length (events_of i db)) \<and>
    pv_differences v = diff_projection (fold_events sn (load_events i db)) (instance_model env row) (list_activities env i db))"
proof -
  obtain inst sn where g: "get_instance_scoped env scope i db = Inr (Some inst)" and s: "load_snapshot env i db = Inr sn"
    and v: "db' = db" "pv_consistent v = (pv_differences v = [])" "pv_event_count v = int (length (load_events i db))"
      "pv_differences v = diff_projection (fold_events sn (load_events i db)) inst (list_activities env i db)"
    using assms(1) by (auto simp: verify_projection_def tx_bind_def tx_read_res_def tx_read_def tx_return_def Let_def res_simps
        split: sum.splits)
  obtain row where row: "find_instance db i = Some row" "snapshot_de env (ir_definition_snapshot row) = Inr sn"
    using s by (auto simp: load_snapshot_def res_simps split: option.splits)
  with get_scoped_row [OF assms(2) g] v show ?thesis by (auto simp: load_events_def)
qed

text \<open>
  C2: \<open>verify_projection\<close> writes nothing, counts every event of the instance, and in every reachable
  database it reports an instance whose definition has no rework edge as consistent when the definition has
  no ParallelJoin node either; with a ParallelJoin the only line it can report is the current-activity pointer.
\<close>

theorem verify_projection_consistent:
  assumes "reachable env svc db" "uuid_text_ok env" "snapshot_codec_ok env" "rounds_limited svc"
    and "find_instance db i = Some row" "snapshot_de env (ir_definition_snapshot row) = Inr sn" "rework_free sn"
    and "verify_projection env scope i db = Some (Inr v, db')"
  shows "db' = db \<and> pv_event_count v = int (length (events_of i db)) \<and> (pv_consistent v \<longleftrightarrow> pv_differences v = []) \<and>
     (join_free sn \<longrightarrow> pv_consistent v) \<and>
     (pv_consistent v \<or> (\<exists>r l. pv_differences v = [diff_line ''instance.current_activity_id'' r l]))"
proof -
  have inv: "engine_inv env db" by (rule reachable_inv [OF assms(1-4)])
  then have ok: "db_ok db" by (simp add: engine_inv_def)
  have row: "row \<in> set (db_instances db)" "ir_id row = i" using assms(5) by (auto simp: find_instance_def dest: find_SomeD)
  then have "Syn env sn i (db_now db) settled db"
    using inv assms(6,7) unfolding engine_inv_def replays_def by blast
  then obtain L R where st: "St env sn i (db_now db) L R db" by (auto simp: Syn_def)
  have a: "agrees (join_free sn) (live_projection env i db) (fold_events sn (load_events i db))"
    using inv_agrees [OF inv row(1) assms(6,7)] row(2) by simp
  have w: "wf_db env sn i (db_now db) db" using st by (simp add: St_def)
  note diff = diff_agreeing [OF assms(2) w assms(5) a]
  have e: "ri_current_activity_id (rp_instance (fold_events sn (load_events i db))) = wi_current_activity_id (instance_model env row)"
    if "join_free sn" using a that assms(5) by (simp add: agrees_def live_projection_def live_instance_def instance_model_def)
  show ?thesis using verify_cases [OF assms(8) ok] assms(5,6) e by (auto simp: diff)
qed

theorem verify_projection_consistent_witness:
  "\<exists>v. verify_projection demo_env demo_scope 1 demo_db2 = Some (Inr v, demo_db2) \<and> pv_consistent v"
proof -
  obtain v where v: "verify_projection demo_env demo_scope 1 demo_db2 = Some (Inr v, demo_db2)"
    by (simp add: verify_projection_def exec demo_scope_ok demo_db2_def demo_db1_def cong: run_cong)
  have "find_instance demo_db2 1 = Some (hd (db_instances demo_db2))" "snapshot_de demo_env (ir_definition_snapshot (hd (db_instances demo_db2))) = Inr demo_linear"
    by (simp_all add: find_instance_def demo_db2_def demo_db1_def)
  then have "pv_consistent v"
    by (intro verify_projection_consistent [OF demo_reachable(2) demo_uuids demo_codec demo_rounds _ _ demo_rework_free v,
        THEN conjunct2, THEN conjunct2, THEN conjunct2, THEN conjunct1, rule_format]) (simp_all add: demo_join_free)
  with v show ?thesis by blast
qed

section \<open>One instance at a time\<close>

text \<open>
  C9: A step of the engine (a command, a timer, an outbox settlement) changes the row, the activities
  and the events of at most one instance.
\<close>

theorem step_writes_one_instance:
  assumes "reachable env svc db" "engine_step env svc db db'" "uuid_text_ok env" "snapshot_codec_ok env" "rounds_limited svc"
  shows "\<exists>i. \<forall>j. j \<noteq> i \<longrightarrow> find_instance db' j = find_instance db j \<and> activities_of j db' = activities_of j db \<and>
     events_of j db' = events_of j db"
  using reachable_local_change [OF assms] by (simp add: local_change_def same_rows_def)

theorem step_writes_one_instance_witness:
  "events_of 1 demo_db2 = events_of 1 demo_db1 \<or> events_of 2 demo_db2 = events_of 2 demo_db1"
proof -
  obtain i where "\<And>j. j \<noteq> i \<Longrightarrow> events_of j demo_db2 = events_of j demo_db1"
    using step_writes_one_instance [OF demo_reachable(1) demo_steps(2) demo_uuids demo_codec demo_rounds] by blast
  from this [of 1] this [of 2] show ?thesis by (cases "i = 1") simp_all
qed

section \<open>The event log\<close>

lemma reachable_numbered:
  assumes "reachable env svc db" "uuid_text_ok env" "snapshot_codec_ok env" "rounds_limited svc"
  shows "map er_seq (events_of i db) = map int [1..<Suc (length (events_of i db))]"
  using reachable_inv [OF assms] by (simp add: engine_inv_def db_ok_def numbered_def)

lemma steps_local_change:
  assumes "(engine_step env svc)\<^sup>*\<^sup>* db db'" "reachable env svc db" "uuid_text_ok env" "snapshot_codec_ok env" "rounds_limited svc"
  shows "prefix (db_events db) (db_events db') \<and> prefix (inst_ids db) (inst_ids db') \<and> history_kept db db'"
  using assms(1)
proof (induction rule: rtranclp_induct)
  case (step db1 db2)
  then show ?case
    using reachable_local_change [OF reachable_steps [OF step(1) assms(2)] step(2) assms(3-5)]
    by (auto simp: local_change_def intro: prefix_order.trans history_trans)
qed (simp add: history_refl)

lemma demo_path: "(engine_step demo_env demo_svc)\<^sup>*\<^sup>* demo_db1 demo_db2"
  by (rule rtranclp.rtrancl_into_rtrancl [where r = "engine_step demo_env demo_svc", OF rtranclp.rtrancl_refl demo_steps(2)])

text \<open>
  C10: The event log is append-only and every instance's events are numbered 1, 2, 3, ... without gap
  or duplicate: whatever the engine does after a database, the events stored there keep their place
  and content, and the log of each instance is numbered by its position.
\<close>

theorem event_log_append_only:
  assumes "reachable env svc db" "(engine_step env svc)\<^sup>*\<^sup>* db db'" "uuid_text_ok env" "snapshot_codec_ok env" "rounds_limited svc"
  shows "(\<exists>es. db_events db' = db_events db @ es) \<and> map er_seq (events_of i db') = map int [1..<Suc (length (events_of i db'))]"
  using steps_local_change [OF assms(2,1,3-5)] reachable_numbered [OF reachable_steps [OF assms(2,1)] assms(3-5)]
  by (auto simp: prefix_def)

theorem event_log_append_only_witness:
  "(\<exists>es. db_events demo_db2 = db_events demo_db1 @ es) \<and> map er_seq (events_of 1 demo_db2) = map int [1..<Suc (length (events_of 1 demo_db2))]"
  by (rule event_log_append_only [OF demo_reachable(1) demo_path demo_uuids demo_codec demo_rounds])

text \<open>
  No instance is ever removed, and the definition an instance was started with is never replaced:
  later edits of a definition do not reach running instances.
\<close>

theorem snapshot_never_replaced:
  assumes "reachable env svc db" "(engine_step env svc)\<^sup>*\<^sup>* db db'" "uuid_text_ok env" "snapshot_codec_ok env" "rounds_limited svc"
    and "r \<in> set (db_instances db)"
  shows "\<exists>r'. find_instance db' (ir_id r) = Some r' \<and> ir_definition_snapshot r' = ir_definition_snapshot r"
proof -
  have "(ir_id r, ir_definition_snapshot r) \<in> set (inst_ids db)" using assms(6) by (simp add: inst_ids_def)
  then have "(ir_id r, ir_definition_snapshot r) \<in> set (inst_ids db')"
    using steps_local_change [OF assms(2,1,3-5)] set_mono_prefix by blast
  then obtain r' where r': "r' \<in> set (db_instances db')" "ir_id r' = ir_id r" "ir_definition_snapshot r' = ir_definition_snapshot r"
    by (auto simp: inst_ids_def)
  have "distinct (map ir_id (db_instances db'))"
    using reachable_inv [OF reachable_steps [OF assms(2,1)] assms(3-5)] by (simp add: engine_inv_def db_ok_def)
  with r' show ?thesis using find_key_distinct [of ir_id "db_instances db'" r'] by (auto simp: find_instance_def)
qed

theorem snapshot_never_replaced_witness:
  "\<exists>r'. find_instance demo_db2 (ir_id (hd (db_instances demo_db1))) = Some r' \<and>
     ir_definition_snapshot r' = ir_definition_snapshot (hd (db_instances demo_db1))"
  by (rule snapshot_never_replaced [OF demo_reachable(1) demo_path demo_uuids demo_codec demo_rounds])
    (simp add: demo_db1_def)

section \<open>Business keys\<close>

text \<open>
  C4: At most one instance per business type and business key is pending or active, in every reachable
  database; a start on a key that is taken creates nothing, changes nothing and hands out the instance
  that holds the key.
\<close>

theorem one_active_instance_per_key:
  assumes "reachable env svc db" "uuid_text_ok env" "snapshot_codec_ok env" "rounds_limited svc"
    and "r \<in> set (db_instances db)" "ir_status r \<in> {1, 2}" "ir_business_key r = sc_business_key cmd" "ir_business_type r = sc_business_type cmd"
    and "start env svc cmd db = Some (Inr out, db')"
  shows "(\<forall>q\<in>set (db_instances db). active_for_key (sc_business_key cmd) (sc_business_type cmd) q \<longrightarrow> q = r) \<and>
     db' = db \<and> \<not> so_created out \<and> so_instance out = instance_model env r"
proof -
  have ok: "db_ok db" using reachable_inv [OF assms(1-4)] by (simp add: engine_inv_def)
  have uniq: "q = r" if "q \<in> set (db_instances db)" "active_for_key (sc_business_key cmd) (sc_business_type cmd) q" for q
  proof -
    have "active_for_key (ir_business_key r) (ir_business_type r) q" using that(2) assms(7,8) by simp
    then have "ir_id q = ir_id r" using ok assms(5,6) that(1) unfolding db_ok_def active_unique_def by blast
    then show ?thesis using ok assms(5) that(1) unfolding db_ok_def distinct_map by (meson inj_onD)
  qed
  have r: "active_for_key (sc_business_key cmd) (sc_business_type cmd) r" using assms(6-8) by (simp add: active_for_key_def)
  obtain q where q: "active_instance_by_business_key (sc_business_key cmd) (sc_business_type cmd) db = Some q"
    using r assms(5) find_None_set unfolding active_instance_by_business_key_def by (metis not_None_eq)
  then have "q = r" by (auto simp: active_instance_by_business_key_def intro: uniq dest!: find_SomeD)
  with q have q: "active_instance_by_business_key (sc_business_key cmd) (sc_business_type cmd) db = Some r" by simp
  have "insert_instance_on_conflict (sc_tenant_id cmd) (sc_facility_id cmd) (sc_definition_id cmd)
           (sc_reference_no cmd) (sc_business_key cmd) (sc_business_type cmd) (sc_context cmd) j h db = (None, db)" for j h
    using r assms(5) by (auto simp: insert_instance_on_conflict_def list_ex_iff)
  then have "start_existing env cmd db = Some (Inr out, db')"
    using assms(9) by (auto simp: start_def tx_then_def tx_bind_def tx_lift_def tx_op_def Let_def split: sum.splits prod.splits)
  then have "db' = db \<and> \<not> so_created out \<and> so_instance out = instance_model env r"
    by (auto simp: start_existing_def tx_bind_def tx_read_res_def tx_lift_def tx_read_def tx_return_def q okorR_def split: sum.splits)
  with uniq show ?thesis by blast
qed

theorem one_active_instance_per_key_witness:
  "\<exists>out. start demo_env demo_svc (demo_start demo_linear ''K1'') demo_db1 = Some (Inr out, demo_db1) \<and> \<not> so_created out"
proof -
  let ?r = "hd (db_instances demo_db1)" and ?c = "demo_start demo_linear ''K1''"
  obtain out db' where run: "start demo_env demo_svc ?c demo_db1 = Some (Inr out, db')"
    by (simp add: exec start_existing_def active_instance_by_business_key_def active_for_key_def demo_start_def demo_decide demo_linear_nodes
        demo_node_sel demo_db1_def cong: run_cong)
  have "?r \<in> set (db_instances demo_db1)" "ir_status ?r \<in> {1, 2}" "ir_business_key ?r = sc_business_key ?c" "ir_business_type ?r = sc_business_type ?c"
    by (simp_all add: demo_db1_def demo_start_def)
  from one_active_instance_per_key [OF demo_reachable(1) demo_uuids demo_codec demo_rounds this run] run show ?thesis by auto
qed

text \<open>
  Commands take effect once: a signal or a resubmission that succeeds leaves its idempotency key in
  the log of its instance, the log is never cut, and a command whose key is there is answered as
  replayed without a write.
\<close>

abbreviation logs :: "uuid \<Rightarrow> db \<Rightarrow> string \<Rightarrow> 'a tx \<Rightarrow> bool" where
  "logs i db0 k m \<equiv> hoare (iso i db0) m (\<lambda>_ db. iso i db0 db \<and> idempotency_seen i k db)"

lemma seen_prefix: "prefix (db_events db) (db_events db') \<Longrightarrow> idempotency_seen i k db \<Longrightarrow> idempotency_seen i k db'"
  by (auto simp: prefix_def idempotency_seen_def)

lemma logs_append:
  assumes "cx_instance_id ctx = i"
  shows "logs i db0 k (append_ev ctx ty p (Some k))"
proof -
  have "hoare (iso i db0) (append_ev ctx ty p (Some k)) (\<lambda>_ db. idempotency_seen i k db)"
    using assms by (auto simp: append_ev_def hoare_def tx_bind_def tx_read_def tx_op_def append_event_def idempotency_seen_def)
  with keeps_append [OF assms] show ?thesis by (fastforce simp: hoare_def)
qed

lemma logs_kept:
  assumes "\<And>db1. iso i db0 db1 \<Longrightarrow> keeps i db1 m"
  shows "hoare (\<lambda>db. iso i db0 db \<and> idempotency_seen i k db) m (\<lambda>_ db. iso i db0 db \<and> idempotency_seen i k db)"
proof (rule hoare_gen)
  fix db1
  assume a: "iso i db0 db1 \<and> idempotency_seen i k db1"
  then have "db_ok db1" "i < db_next_uuid db1" by (simp_all add: iso_def)
  then have "iso i db1 db1" by (rule iso_refl)
  moreover have "iso i db0 db \<and> idempotency_seen i k db" if "iso i db1 db" for db
  proof
    show "iso i db0 db" using a that iso_trans by blast
    have "prefix (db_events db1) (db_events db)" using that by (simp add: iso_def)
    with a show "idempotency_seen i k db" using seen_prefix by blast
  qed
  ultimately show "hoare (\<lambda>db. db = db1) m (\<lambda>_ db. iso i db0 db \<and> idempotency_seen i k db)"
    using assms [of db1] a by (auto simp: hoare_def)
qed

lemma logs_then: "logs i db0 k m \<Longrightarrow> (\<And>db1. iso i db0 db1 \<Longrightarrow> keeps i db1 n) \<Longrightarrow> logs i db0 k (tx_then m n)"
  by (rule hoare_then [OF _ logs_kept])

lemma logs_later: "keeps i db0 m \<Longrightarrow> logs i db0 k n \<Longrightarrow> logs i db0 k (tx_then m n)"
  by (rule hoare_then)

lemma logs_signal_active:
  assumes u: "uuid_text_ok env" and i: "sg_instance_id cmd = i"
  shows "logs i db0 (sg_idempotency_key cmd) (signal_active env svc fuel inst cmd)"
  unfolding signal_active_def i
proof (rule hoare_read_res_any, rule hoare_bind [OF hoare_make_ctx], rule hoare_pure,
    rule hoare_bind [OF hoare_target_owned [OF u i]], rule hoare_gen)
  fix sn db1 and ctx :: instance_ctx and act :: activity_instance
  let ?k = "sg_idempotency_key cmd"
  assume "ctx_of sn i ctx" and db1: "iso i db0 db1 \<and> (\<exists>a. ai_id act = uuid_str env a \<and> owned i a db1)"
  then have c: "cx_instance_id ctx = i" by (simp add: ctx_of_def)
  obtain a where a: "ai_id act = uuid_str env a" and o: "owned i a db1" using db1 by blast
  have ok: "db_ok db1" "i < db_next_uuid db1" using db1 by (simp_all add: iso_def)
  have own: "owned i a db2" if "iso i db1 db2" for db2 using that o by (simp add: iso_def)
  have claim: "logs i db1 ?k (signal_claim env ctx cmd act a)"
    unfolding signal_claim_def
    by (rule hoare_bind [OF keeps_activity_ops(4) [OF o]], rule logs_then [OF logs_append [OF c]], rule hoare_outcome_of)
  have complete: "logs i db1 ?k (signal_complete env ctx' cmd act)" if c': "cx_instance_id ctx' = i" for ctx'
    unfolding signal_complete_def
  proof (rule logs_then [OF logs_append [OF c']])
    fix db2
    assume "iso i db1 db2"
    then have o: "owned i a db2" by (rule own)
    show "keeps i db2 (complete_activity env ctx' act r w n)" for r w n
      unfolding complete_activity_def a parse_uuid_ok [OF u] tx_lift_Inr
      by (intro keeps_then keeps_append c' keeps_bind keeps_activity_ops o hoare_if hoare_fail keeps_timer_ops)
  qed
  have resume: "keeps i db2 (signal_resume ctx' inst act)" if c': "cx_instance_id ctx' = i" for ctx' db2
    unfolding signal_resume_def c' by (intro hoare_if keeps_bind keeps_instance_ops keeps_resume keeps_when keeps_append c' keeps_return)
  have advance: "logs i db1 ?k (signal_advance env svc fuel ctx inst node cmd act)" for node
    unfolding signal_advance_def i
    by (rule hoare_bind [OF keeps_context_writes [OF c]], rule hoare_pure, rule logs_then [OF complete], assumption)
      (intro keeps_then keeps_decided u resume hoare_outcome_of)
  have "logs i db1 ?k (tx_bind (tx_lift (parse_uuid env (ai_id act))) (\<lambda>a.
     tx_bind (tx_lift (ctx_node ctx (ai_activity_definition_id act))) (\<lambda>node.
     tx_then (tx_lift (check_signal_against_node node (sg_signal cmd) (sg_event_type cmd)))
     (if sg_signal cmd = SigClaimed \<or> sg_signal cmd = SigReassigned then signal_claim env ctx cmd act a
      else signal_advance env svc fuel ctx inst node cmd act))))"
    unfolding a parse_uuid_ok [OF u] tx_lift_Inr by (intro hoare_lift hoare_lift_then hoare_if claim advance)
  then show "hoare (\<lambda>db. db = db1) (tx_bind (tx_lift (parse_uuid env (ai_id act))) (\<lambda>a.
     tx_bind (tx_lift (ctx_node ctx (ai_activity_definition_id act))) (\<lambda>node.
     tx_then (tx_lift (check_signal_against_node node (sg_signal cmd) (sg_event_type cmd)))
     (if sg_signal cmd = SigClaimed \<or> sg_signal cmd = SigReassigned then signal_claim env ctx cmd act a
      else signal_advance env svc fuel ctx inst node cmd act)))) (\<lambda>_ db. iso i db0 db \<and> idempotency_seen i ?k db)"
    using iso_refl [OF ok] db1 by (auto simp: hoare_def intro: iso_trans)
qed

lemma signal_logs:
  assumes u: "uuid_text_ok env" and ok: "db_ok db" and run: "signal env svc fuel cmd db = Some (Inr out, db')"
  shows "idempotency_seen (sg_instance_id cmd) (sg_idempotency_key cmd) db'"
proof -
  let ?i = "sg_instance_id cmd" and ?k = "sg_idempotency_key cmd"
  have t: "\<not> trim_is_empty ?k" using run by (auto simp: signal_def tx_fail_def split: if_splits)
  then have lt: "?i < db_next_uuid db" using run ok by (auto simp: signal_def Let_def intro: locked_exists)
  obtain inst where l: "locked_instance env (sg_scope cmd) ?i db = Some (Inr inst, db)"
    using run t by (auto simp: signal_def Let_def tx_bind_def locked_instance_def tx_read_res_def split: sum.splits)
  show ?thesis
  proof (cases "idempotency_seen ?i ?k db")
    case True
    with run t l show ?thesis
      by (auto simp: signal_def Let_def tx_bind_def tx_read_def replayed_outcome_def tx_return_def)
  next
    case False
    with run t l have "signal_active env svc fuel inst cmd db = Some (Inr out, db')"
      by (auto simp: signal_def Let_def tx_bind_def tx_read_def tx_fail_def split: if_splits)
    from hoareD [OF logs_signal_active [OF u refl] iso_refl [OF ok lt] this] show ?thesis by simp
  qed
qed

lemma signal_replayed:
  assumes "idempotency_seen (sg_instance_id cmd) (sg_idempotency_key cmd) db" "signal env svc fuel cmd db = Some (Inr out, db')"
  shows "db' = db \<and> go_replayed out"
  using assms
  by (auto simp: signal_def Let_def tx_bind_def tx_read_def replayed_outcome_def tx_return_def tx_fail_def locked_instance_def
      tx_read_res_def split: if_splits sum.splits)

text \<open>
  C3: A signal takes effect exactly once per idempotency key: after a signal has succeeded, whatever
  the engine does in between, another signal to the same instance with the same key (of any kind, on
  any activity) writes nothing and is answered as replayed.
\<close>

theorem signal_once:
  assumes "reachable env svc db" "uuid_text_ok env" "snapshot_codec_ok env" "rounds_limited svc"
    and "in_txn (signal env svc fuel cmd) db = Some (Inr out, db1)" "(engine_step env svc)\<^sup>*\<^sup>* db1 db2"
    and "sg_instance_id cmd' = sg_instance_id cmd" "sg_idempotency_key cmd' = sg_idempotency_key cmd"
    and "in_txn (signal env svc fuel' cmd') db2 = Some (Inr out', db3)"
  shows "db3 = db2 \<and> go_replayed out'"
proof -
  have ok: "db_ok db" using reachable_inv [OF assms(1-4)] by (simp add: engine_inv_def)
  have "idempotency_seen (sg_instance_id cmd) (sg_idempotency_key cmd) db1"
    using signal_logs [OF assms(2) ok] assms(5) by (auto simp: in_txn_Inr)
  moreover have "reachable env svc db1" using reachable_step [OF assms(1) signal_step [OF assms(5)]] .
  then have "prefix (db_events db1) (db_events db2)" using steps_local_change [OF assms(6) _ assms(2-4)] by simp
  ultimately show ?thesis using assms(7-9) seen_prefix by (intro signal_replayed) (auto simp: in_txn_Inr)
qed

theorem signal_once_witness:
  "\<exists>out. signal demo_env demo_svc 1 (demo_signal 1 SigRejected ''s1'') demo_db2 = Some (Inr out, demo_db2) \<and> go_replayed out"
proof -
  obtain out where "in_txn (signal demo_env demo_svc 1 (demo_signal 1 SigApproved ''s1'')) demo_db1 = Some (Inr out, demo_db2)"
    using demo_signalled by (auto simp: in_txn_Inr)
  note once = signal_once [OF demo_reachable(1) demo_uuids demo_codec demo_rounds this rtranclp.rtrancl_refl]
  obtain out' db3 where run: "signal demo_env demo_svc 1 (demo_signal 1 SigRejected ''s1'') demo_db2 = Some (Inr out', db3)"
    by (simp add: exec demo_signal_def demo_scope_ok demo_signal_facts demo_db2_def demo_db1_def cong: run_cong)
  have "db3 = demo_db2 \<and> go_replayed out'"
    by (rule once [of "demo_signal 1 SigRejected ''s1''" 1]) (simp_all only: in_txn_Inr run, simp_all add: demo_signal_def)
  with run show ?thesis by blast
qed

end
