(* ===== verification/Flow_Contracts.thy ===== *)
theory Flow_Contracts
  imports Flow_Sync
begin

text \<open>
  What the orchestration relies on of its store and its registry, as interfaces: an UPDATE with a
  guard that one caller wins, an append-only log, a dictionary. Each is interpreted on the operations
  of Flow_Store and Flow_Ports.
\<close>

section \<open>Guarded updates\<close>

text \<open>Attempts made one after the other, by whichever callers the row locks let through.\<close>

fun attempts :: "('o \<Rightarrow> 's \<Rightarrow> bool \<times> 's) \<Rightarrow> 'o list \<Rightarrow> 's \<Rightarrow> bool list \<times> 's" where
  "attempts op [] s = ([], s)"
| "attempts op (x # xs) s = (case op x s of (b, s1) \<Rightarrow> (case attempts op xs s1 of (bs, s2) \<Rightarrow> (b # bs, s2)))"

locale guarded_update =
  fixes op :: "'o \<Rightarrow> 's \<Rightarrow> bool \<times> 's" and ready :: "'s \<Rightarrow> bool"
  assumes refused: "\<not> ready s \<Longrightarrow> op x s = (False, s)"
    and accepted: "ready s \<Longrightarrow> fst (op x s)"
begin

lemma outcome: "fst (op x s) \<longleftrightarrow> ready s"
  by (cases "ready s") (simp_all add: refused accepted)

lemma all_refused: "\<not> ready s \<Longrightarrow> attempts op xs s = (replicate (length xs) False, s)"
  by (induction xs) (simp_all add: refused)

end

locale one_shot = guarded_update +
  assumes consumed: "ready s \<Longrightarrow> \<not> ready (snd (op x s))"
begin

lemma first_wins:
  "ready s \<Longrightarrow> attempts op (x # xs) s = (True # replicate (length xs) False, snd (op x s))"
  using accepted [of s x] all_refused [OF consumed [of s x], of xs] by (cases "op x s") simp

lemma won_at_most_once: "length (filter id (fst (attempts op xs s))) \<le> 1"
proof (cases xs)
  case (Cons x ys)
  show ?thesis
  proof (cases "ready s")
    case True
    show ?thesis unfolding Cons first_wins [OF True] by simp
  next
    case False
    show ?thesis unfolding all_refused [OF False] by simp
  qed
qed simp

end

section \<open>Append-only logs\<close>

locale event_log =
  fixes append :: "'i \<Rightarrow> 'e \<Rightarrow> 's \<Rightarrow> 's" and entries :: "'i \<Rightarrow> 's \<Rightarrow> 'r list" and carries :: "'r \<Rightarrow> 'e \<Rightarrow> bool"
  assumes entries_append: "\<exists>r. entries i (append i e s) = entries i s @ [r] \<and> carries r e"
    and entries_other: "j \<noteq> i \<Longrightarrow> entries j (append i e s) = entries j s"
begin

lemma entries_appends: "\<exists>rs. entries i (fold (append i) es s) = entries i s @ rs \<and> list_all2 carries rs es"
proof (induction es arbitrary: s)
  case (Cons e es)
  obtain r where r: "entries i (append i e s) = entries i s @ [r]" "carries r e" using entries_append by blast
  obtain rs where "entries i (fold (append i) es (append i e s)) = entries i (append i e s) @ rs" "list_all2 carries rs es"
    using Cons by blast
  with r show ?case by (intro exI [of _ "r # rs"]) simp
qed simp

lemma entries_appends_other: "j \<noteq> i \<Longrightarrow> entries j (fold (append i) es s) = entries j s"
  by (induction es arbitrary: s) (simp_all add: entries_other)

end

section \<open>Dictionaries\<close>

locale dictionary =
  fixes empty :: 'd and insert_at :: "'k \<Rightarrow> 'v \<Rightarrow> 'd \<Rightarrow> 'd" and lookup :: "'d \<Rightarrow> 'k \<Rightarrow> 'v option"
  assumes lookup_empty: "lookup empty k = None"
    and lookup_insert: "lookup (insert_at k v d) k' = (if k' = k then Some v else lookup d k')"
begin

lemma lookup_inserts:
  assumes "distinct (map fst kvs)"
  shows "lookup (fold (\<lambda>(k, v). insert_at k v) kvs d) k = (case map_of kvs k of None \<Rightarrow> lookup d k | Some v \<Rightarrow> Some v)"
  using assms
proof (induction kvs arbitrary: d)
  case (Cons kv kvs)
  obtain k' v' where "kv = (k', v')" by (cases kv)
  with Cons show ?case by (auto simp: lookup_insert dom_map_of_conv_image_fst domIff split: option.split) (force dest: map_of_SomeD)
qed simp

lemma lookup_built: "distinct (map fst kvs) \<Longrightarrow> lookup (fold (\<lambda>(k, v). insert_at k v) kvs empty) = map_of kvs"
  by (rule ext) (simp add: lookup_inserts lookup_empty split: option.split)

end

section \<open>The store's guarded updates\<close>

text \<open>An active activity is completed by a reviewer or a delivery, or skipped by its timeout.\<close>

definition claim_activity :: "uuid \<Rightarrow> (int option \<times> int \<times> string option) option \<Rightarrow> db \<Rightarrow> bool \<times> db" where
  "claim_activity a c = (case c of None \<Rightarrow> skip_activity_for_timeout a | Some (res, by, notes) \<Rightarrow> complete_activity_cas a res by notes)"

definition activity_claimable :: "uuid \<Rightarrow> db \<Rightarrow> bool" where
  "activity_claimable a db \<longleftrightarrow> (\<exists>r\<in>set (db_activities db). ar_id r = a \<and> ar_status r = 2)"

lemma set_activities_refused: "\<forall>r\<in>set (db_activities db). \<not> P r \<Longrightarrow> set_activities P f db = (0, db)"
  by (simp add: set_activities_def count_where_0 update_where_cong_none)

interpretation claim: one_shot "claim_activity a" "activity_claimable a"
proof
  fix db c
  let ?P = "\<lambda>r. ar_id r = a \<and> ar_status r = 2"
  note defs = claim_activity_def skip_activity_for_timeout_def complete_activity_cas_def
  show "\<not> activity_claimable a db \<Longrightarrow> claim_activity a c db = (False, db)"
    by (auto simp: defs activity_claimable_def set_activities_refused split: option.split)
  assume "activity_claimable a db"
  then show "fst (claim_activity a c db)"
    by (auto simp: defs activity_claimable_def set_activities_def count_where_pos split: option.split)
  show "\<not> activity_claimable a (snd (claim_activity a c db))"
    by (auto simp: defs activity_claimable_def set_activities_def split: option.split dest!: in_update_whereE split: if_splits)
qed

text \<open>An active instance is completed with a result or fails.\<close>

definition end_instance :: "uuid \<Rightarrow> int option \<Rightarrow> db \<Rightarrow> bool \<times> db" where
  "end_instance i c = (case c of None \<Rightarrow> error_workflow i | Some n \<Rightarrow> complete_workflow_cas i n)"

definition instance_active :: "uuid \<Rightarrow> db \<Rightarrow> bool" where
  "instance_active i db \<longleftrightarrow> (\<exists>r\<in>set (db_instances db). ir_id r = i \<and> ir_status r = 2)"

lemma set_instances_refused: "\<forall>r\<in>set (db_instances db). \<not> P r \<Longrightarrow> set_instances P f db = (False, db)"
  by (simp add: set_instances_def count_where_0 update_where_cong_none)

interpretation ending: one_shot "end_instance i" "instance_active i"
proof
  fix db c
  note defs = end_instance_def error_workflow_def complete_workflow_cas_def
  show "\<not> instance_active i db \<Longrightarrow> end_instance i c db = (False, db)"
    by (auto simp: defs instance_active_def set_instances_refused split: option.split)
  assume "instance_active i db"
  then show "fst (end_instance i c db)"
    by (auto simp: defs instance_active_def set_instances_def count_where_pos split: option.split)
  show "\<not> instance_active i (snd (end_instance i c db))"
    by (auto simp: defs instance_active_def set_instances_def split: option.split dest!: in_update_whereE split: if_splits)
qed

text \<open>A pending timer fires.\<close>

definition timer_pending :: "uuid \<Rightarrow> db \<Rightarrow> bool" where
  "timer_pending u db \<longleftrightarrow> (\<exists>m\<in>set (db_timers db). mr_id m = u \<and> mr_status m = 1)"

lemma set_timers_refused: "\<forall>m\<in>set (db_timers db). \<not> P m \<Longrightarrow> set_timers P f db = (False, db)"
  by (simp add: set_timers_def count_where_0 update_where_cong_none)

interpretation firing: one_shot "\<lambda>_ :: unit. mark_timer_fired u" "timer_pending u"
proof
  fix db and x :: unit
  show "\<not> timer_pending u db \<Longrightarrow> mark_timer_fired u db = (False, db)"
    by (auto simp: mark_timer_fired_def timer_pending_def set_timers_refused)
  assume "timer_pending u db"
  then show "fst (mark_timer_fired u db)"
    by (auto simp: mark_timer_fired_def timer_pending_def set_timers_def count_where_pos)
  show "\<not> timer_pending u (snd (mark_timer_fired u db))"
    by (auto simp: mark_timer_fired_def timer_pending_def set_timers_def dest!: in_update_whereE split: if_splits)
qed

text \<open>A leased outbox row is settled by the worker that holds the lease.\<close>

datatype settlement = Succeeded | Retried int string | DeadLettered string

definition settle_row :: "uuid \<Rightarrow> string \<Rightarrow> settlement \<Rightarrow> db \<Rightarrow> bool \<times> db" where
  "settle_row u worker s =
     (case s of
        Succeeded \<Rightarrow> mark_outbox_succeeded u worker
      | Retried n e \<Rightarrow> mark_outbox_retry u worker n e
      | DeadLettered e \<Rightarrow> mark_outbox_dead_letter u worker e)"

definition row_leased :: "uuid \<Rightarrow> string \<Rightarrow> db \<Rightarrow> bool" where
  "row_leased u worker db \<longleftrightarrow> (\<exists>x\<in>set (db_outbox db). leased_by u worker x)"

lemma set_outbox_refused: "\<forall>x\<in>set (db_outbox db). \<not> P x \<Longrightarrow> set_outbox P f db = (False, db)"
  by (simp add: set_outbox_def count_where_0 update_where_cong_none)

interpretation settling: one_shot "settle_row u worker" "row_leased u worker"
proof
  fix db s
  note defs = settle_row_def mark_outbox_succeeded_def mark_outbox_retry_def mark_outbox_dead_letter_def
  show "\<not> row_leased u worker db \<Longrightarrow> settle_row u worker s db = (False, db)"
    by (auto simp: defs row_leased_def set_outbox_refused split: settlement.split)
  assume "row_leased u worker db"
  then show "fst (settle_row u worker s db)"
    by (auto simp: defs row_leased_def set_outbox_def count_where_pos split: settlement.split)
  show "\<not> row_leased u worker (snd (settle_row u worker s db))"
    by (auto simp: defs row_leased_def set_outbox_def leased_by_def split: settlement.split dest!: in_update_whereE split: if_splits)
qed

section \<open>The event table\<close>

type_synonym log_entry = "int \<times> uuid \<times> string \<times> json \<times> string option"

definition log_append :: "uuid \<Rightarrow> log_entry \<Rightarrow> db \<Rightarrow> db" where
  "log_append i e db = (case e of (tn, f, ty, p, k) \<Rightarrow> snd (append_event tn f i (next_seq i db) ty p k db))"

definition log_carries :: "event_record \<Rightarrow> log_entry \<Rightarrow> bool" where
  "log_carries r e \<longleftrightarrow> (case e of (tn, f, ty, p, k) \<Rightarrow> ev_event_type r = ty \<and> ev_payload r = p)"

interpretation log: event_log log_append load_events log_carries
proof
  fix i j :: uuid and e :: log_entry and db
  obtain tn f ty p k where e: "e = (tn, f, ty, p, k)" by (cases e)
  let ?r = "\<lparr>er_tenant_id = tn, er_facility_id = f, er_workflow_instance_id = i, er_seq = next_seq i db,
         er_event_type = ty, er_event_payload = p, er_idempotency_key = k, er_created_at = db_now db\<rparr>"
  have "events_of i (log_append i e db) = events_of i db @ [?r]"
    by (simp add: log_append_def e append_event_def events_of_def)
  then have "load_events i (log_append i e db) = load_events i db @ [event_model ?r]"
    using sort_key_snoc [of "events_of i db" er_seq ?r] next_seq_greater [of _ i db] by (force simp add: load_events_def)
  then show "\<exists>r. load_events i (log_append i e db) = load_events i db @ [r] \<and> log_carries r e"
    by (simp add: log_carries_def e event_model_def)
  show "j \<noteq> i \<Longrightarrow> load_events j (log_append i e db) = load_events j db"
    by (simp add: load_events_def log_append_def e append_event_def events_of_def)
qed

section \<open>The callback registry\<close>

interpretation registry: dictionary registry_new bt_insert registry_get
  by unfold_locales (simp_all add: registry_new_def registry_get_def)

end
