(* ===== verification/Flow_Returns.thy ===== *)
theory Flow_Returns
  imports Flow_Handlers
begin

text \<open>
  When the handlers return. The only unbounded recursion of the engine is a satisfied join that
  advances into another join: with a rank that falls along these advances, fuel above the rank is
  enough for every outcome and for \<open>signal\<close>; and more fuel never changes a result.
\<close>

section \<open>Bodies that return\<close>

definition returns :: "'a tx \<Rightarrow> bool" where
  "returns m \<longleftrightarrow> (\<forall>db. m db \<noteq> None)"

named_theorems returns_intro "composition of bodies that return"

lemma returns_return [returns_intro]: "returns (tx_return x)"
  and returns_fail [returns_intro]: "returns (tx_fail e)"
  and returns_lift [returns_intro]: "returns (tx_lift r)"
  and returns_op [returns_intro]: "returns (tx_op f)"
  and returns_op_res [returns_intro]: "returns (tx_op_res f')"
  and returns_read [returns_intro]: "returns (tx_read g)"
  and returns_read_res [returns_intro]: "returns (tx_read_res g')"
  by (simp_all add: returns_def tx_return_def tx_fail_def tx_lift_def tx_op_def tx_op_res_def tx_read_def tx_read_res_def
      split: prod.split)

lemma returns_bind [returns_intro]: "returns m \<Longrightarrow> (\<And>x. returns (f x)) \<Longrightarrow> returns (tx_bind m f)"
  by (auto simp: returns_def tx_bind_def split: option.split sum.split prod.split)

lemma returns_lift_bind: "(\<And>x. r = Inr x \<Longrightarrow> returns (f x)) \<Longrightarrow> returns (tx_bind (tx_lift r) f)"
  by (cases r) (auto simp: returns_def tx_bind_def tx_lift_def)

lemma returns_then [returns_intro]: "returns m \<Longrightarrow> returns n \<Longrightarrow> returns (tx_then m n)"
  unfolding tx_then_def by (rule returns_bind)

lemma returns_when [returns_intro]: "returns m \<Longrightarrow> returns (tx_when b m)"
  by (simp add: tx_when_def returns_return)

lemma returns_for [returns_intro]: "(\<And>x. returns (f x)) \<Longrightarrow> returns (tx_for f xs)"
  by (induction xs) (simp_all add: returns_return returns_then)

lemma returns_if [returns_intro]: "(b \<Longrightarrow> returns m) \<Longrightarrow> (\<not> b \<Longrightarrow> returns n) \<Longrightarrow> returns (if b then m else n)"
  by simp

lemma returns_option [returns_intro]:
  "(x = None \<Longrightarrow> returns m) \<Longrightarrow> (\<And>y. x = Some y \<Longrightarrow> returns (f y)) \<Longrightarrow> returns (case x of None \<Rightarrow> m | Some y \<Rightarrow> f y)"
  by (cases x) simp_all

lemma returns_pair [returns_intro]: "(\<And>x y. p = (x, y) \<Longrightarrow> returns (f x y)) \<Longrightarrow> returns (case p of (x, y) \<Rightarrow> f x y)"
  by (cases p) simp

lemma returns_Let [returns_intro]: "returns (f x) \<Longrightarrow> returns (let y = x in f y)"
  by simp

lemma returns_list [returns_intro]:
  "returns m \<Longrightarrow> (\<And>x ys. returns (f x ys)) \<Longrightarrow> returns (case xs of [] \<Rightarrow> m | x # ys \<Rightarrow> f x ys)"
  by (cases xs) simp_all

lemma returns_sum [returns_intro]:
  "(\<And>e. r = Inl e \<Longrightarrow> returns (f e)) \<Longrightarrow> (\<And>x. r = Inr x \<Longrightarrow> returns (g x)) \<Longrightarrow> returns (case r of Inl e \<Rightarrow> f e | Inr x \<Rightarrow> g x)"
  by (cases r) simp_all

section \<open>The parts\<close>

lemma returns_append_ev [returns_intro]: "returns (append_ev ctx ty p k)"
  unfolding append_ev_def by (intro returns_intro)

lemma returns_schedule_timers [returns_intro]: "returns (schedule_timers ctx node a)"
  unfolding schedule_timers_def Let_def by (intro returns_intro)

lemma returns_schedule_activity [returns_intro]: "returns (schedule_activity env svc ctx node role r fan)"
  unfolding schedule_activity_def enqueue_notification_def by (intro returns_intro)

lemma returns_schedule_current [returns_intro]: "returns (schedule_current env svc ctx node role r)"
  unfolding schedule_current_def by (intro returns_intro)

lemma returns_fail_instance [returns_intro]: "returns (fail_instance ctx reason)"
  unfolding fail_instance_def by (intro returns_intro)

lemma returns_find_terminal [returns_intro]: "returns (find_terminal_callback env ctx)"
  by (auto simp: find_terminal_callback_def returns_def tx_bind_def tx_read_def tx_return_def tx_lift_def split: option.split json.split)

lemma returns_complete_instance [returns_intro]: "returns (complete_instance env svc ctx res)"
  unfolding complete_instance_def enqueue_terminal_callback_def by (intro returns_intro)

lemma returns_rework [returns_intro]: "returns (apply_rework env svc ctx t role src)"
  unfolding apply_rework_def by (intro returns_intro)

lemma returns_append_merges [returns_intro]: "returns (append_merges ctx trace src r)"
  unfolding append_merges_def by (intro returns_intro)

lemma returns_complete_activity [returns_intro]: "returns (complete_activity env ctx act res w n)"
  unfolding complete_activity_def by (intro returns_intro)

lemma returns_context_writes [returns_intro]: "returns (apply_context_writes ctx node r patch)"
  unfolding apply_context_writes_def by (intro returns_intro)

lemma returns_make_ctx [returns_intro]: "returns (make_ctx env i inst sn)"
  unfolding make_ctx_def by (intro returns_intro)

lemma returns_target [returns_intro]: "returns (resolve_target_activity env cmd)"
  unfolding resolve_target_activity_def by (intro returns_intro)

lemma returns_outcome_of [returns_intro]: "returns (signal_outcome_of env i)" "returns (replayed_outcome env i inst)"
  unfolding signal_outcome_of_def replayed_outcome_def reload_def by (intro returns_intro)+

lemma returns_locked [returns_intro]: "returns (locked_instance env scope i)"
  unfolding locked_instance_def by (intro returns_intro)

section \<open>Joins that advance into joins\<close>

text \<open>The join an outcome tries to satisfy: the target of an advance, or of a fan-out with no branch.\<close>

definition next_join :: "definition_snapshot \<Rightarrow> advance_outcome \<times> resolve_trace \<Rightarrow> string option" where
  "next_join sn d =
     (case d of
        (Advance t _, _) \<Rightarrow>
          (case find_node (ds_nodes sn) t of
             Some n \<Rightarrow> if kind n = KParallelJoin then Some (node_id n) else None
           | None \<Rightarrow> None)
      | (AdvanceMulti [], trace) \<Rightarrow>
          (case for_each_fan_out trace of
             Some fan \<Rightarrow> map_option node_id (find_node (ds_nodes sn) (ff_join_target fan))
           | None \<Rightarrow> None)
      | _ \<Rightarrow> None)"

definition joins_ranked :: "('p, 'c, 'v) env \<Rightarrow> definition_snapshot \<Rightarrow> (string \<Rightarrow> nat) \<Rightarrow> bool" where
  "joins_ranked env sn rank \<longleftrightarrow> (\<forall>c j k.
     next_join sn (decide_advance (env_cel env) (ds_nodes sn) (ds_transitions sn) j SigApproved c) = Some k \<longrightarrow> rank k < rank j)"

lemma returns_try_satisfy:
  assumes "\<And>d. d = decide_advance (env_cel env) (ds_nodes (cx_snapshot ctx)) (ds_transitions (cx_snapshot ctx))
      (node_id node) SigApproved (cx_context ctx) \<Longrightarrow> returns (rec ctx (fst d) (snd d) src r)"
  shows "returns (try_satisfy_join env rec ctx node src r ex)"
  unfolding try_satisfy_join_def Let_def
  by (intro returns_intro) (use assms in \<open>fastforce\<close>)

lemma returns_apply_outcome:
  assumes "joins_ranked env (cx_snapshot ctx) rank"
    and "case next_join (cx_snapshot ctx) (out, trace) of None \<Rightarrow> 0 < fuel | Some j \<Rightarrow> Suc (rank j) < fuel"
  shows "returns (apply_outcome env svc fuel ctx out trace src r)"
  using assms(2)
proof (induction fuel arbitrary: out trace src r)
  case (Suc fuel)
  let ?sn = "cx_snapshot ctx" and ?rec = "apply_outcome env svc fuel"
  have join: "returns (try_satisfy_join env ?rec ctx node src r ex)" if "rank (node_id node) < fuel" for node src r ex
  proof (rule returns_try_satisfy)
    fix d
    assume d: "d = decide_advance (env_cel env) (ds_nodes ?sn) (ds_transitions ?sn) (node_id node) SigApproved (cx_context ctx)"
    have "rank k < rank (node_id node)" if "next_join ?sn d = Some k" for k
      using assms(1) that unfolding joins_ranked_def d by blast
    with that have "case next_join ?sn d of None \<Rightarrow> 0 < fuel | Some j \<Rightarrow> Suc (rank j) < fuel"
      by (auto split: option.split)
    then show "returns (?rec ctx (fst d) (snd d) src r)" by (intro Suc.IH) simp
  qed
  have adv: "returns (apply_advance env svc ?rec ctx t role src r)" if "out = Advance t role" for t role
    unfolding apply_advance_def branch_reached_join_def
  proof (rule returns_lift_bind)
    fix node
    assume "ctx_node ctx t = Inr node"
    then have "kind node = KParallelJoin \<Longrightarrow> rank (node_id node) < fuel"
      using Suc.prems that by (auto simp: ctx_node_def next_join_def find_node_def res_simps)
    then show "returns (if kind node = KParallelJoin
        then tx_then (append_ev ctx ev_BRANCH_REACHED_JOIN (obj [(''branch_node'', JStr (ai_activity_definition_id src)),
               (''join_node'', JStr (node_id node)), (''round'', JInt r)]) None)
             (tx_bind (tx_lift (parse_uuid env (ai_id src))) (\<lambda>ex. try_satisfy_join env ?rec ctx node src r (Some ex)))
        else schedule_current env svc ctx node role r)"
      by (intro returns_intro join)
  qed
  have multi: "returns (fan_out env svc ?rec ctx ts trace src r)" if "out = AdvanceMulti ts" for ts
  proof -
    have empty: "returns (tx_bind (tx_lift (ctx_node ctx (ff_join_target fan))) (\<lambda>node. try_satisfy_join env ?rec ctx node src r None))"
      if "ts = []" "for_each_fan_out trace = Some fan" for fan
      using Suc.prems that \<open>out = AdvanceMulti ts\<close>
      by (intro returns_lift_bind join) (auto simp: ctx_node_def next_join_def find_node_def res_simps)
    show ?thesis
      unfolding fan_out_def schedule_branch_def by (intro returns_intro empty)
  qed
  show ?case
    unfolding apply_outcome.simps apply_outcome_step_def
    by (cases out) (auto intro!: returns_intro adv multi)
qed (auto split: option.splits)

text \<open>More fuel never changes what a body returns.\<close>

definition refines :: "'a tx \<Rightarrow> 'a tx \<Rightarrow> bool" where
  "refines m n \<longleftrightarrow> (\<forall>db. m db = None \<or> m db = n db)"

named_theorems refines_intro "monotonicity in the continuation"

lemma refines_refl [refines_intro]: "refines m m"
  by (simp add: refines_def)

lemma refines_bind [refines_intro]: "refines m m' \<Longrightarrow> (\<And>x. refines (f x) (f' x)) \<Longrightarrow> refines (tx_bind m f) (tx_bind m' f')"
proof (unfold refines_def, rule allI)
  fix db
  assume m: "\<forall>db. m db = None \<or> m db = m' db" and f: "\<And>x. \<forall>db. f x db = None \<or> f x db = f' x db"
  show "tx_bind m f db = None \<or> tx_bind m f db = tx_bind m' f' db"
  proof (cases "m db")
    case (Some p)
    then have "m' db = Some p" using m [rule_format, of db] by simp
    with Some f show ?thesis by (auto simp: tx_bind_def split: prod.split sum.split)
  qed (simp add: tx_bind_def)
qed

lemma refines_then [refines_intro]: "refines m m' \<Longrightarrow> refines n n' \<Longrightarrow> refines (tx_then m n) (tx_then m' n')"
  unfolding tx_then_def by (rule refines_bind)

lemma refines_if [refines_intro]: "refines m m' \<Longrightarrow> refines n n' \<Longrightarrow> refines (if b then m else n) (if b then m' else n')"
  by simp

lemma refines_option [refines_intro]:
  "refines m m' \<Longrightarrow> (\<And>y. refines (f y) (f' y)) \<Longrightarrow> refines (case x of None \<Rightarrow> m | Some y \<Rightarrow> f y) (case x of None \<Rightarrow> m' | Some y \<Rightarrow> f' y)"
  by (cases x) simp_all

lemma refines_pair [refines_intro]: "(\<And>x y. refines (f x y) (f' x y)) \<Longrightarrow> refines (case p of (x, y) \<Rightarrow> f x y) (case p of (x, y) \<Rightarrow> f' x y)"
  by (cases p) simp

lemma refines_step:
  assumes "\<And>ctx out trace src r. refines (rec ctx out trace src r) (rec' ctx out trace src r)"
  shows "refines (apply_outcome_step env svc rec ctx out trace src r) (apply_outcome_step env svc rec' ctx out trace src r)"
proof -
  have join: "refines (try_satisfy_join env rec ctx node src r ex) (try_satisfy_join env rec' ctx node src r ex)" for node ex
    unfolding try_satisfy_join_def Let_def by (intro refines_intro assms)
  show ?thesis
    unfolding apply_outcome_step_def apply_advance_def branch_reached_join_def fan_out_def
    by (cases out) (auto intro!: refines_intro join)
qed

lemma apply_outcome_mono: "refines (apply_outcome env svc fuel ctx out trace src r) (apply_outcome env svc (fuel + k) ctx out trace src r)"
proof (induction fuel arbitrary: ctx out trace src r)
  case 0
  then show ?case by (simp add: refines_def tx_out_of_fuel_def)
next
  case (Suc fuel)
  then show ?case unfolding add_Suc apply_outcome.simps by (intro refines_step)
qed

section \<open>signal\<close>

lemma returns_make_ctx_bind: "(\<And>ctx. cx_snapshot ctx = sn \<Longrightarrow> returns (f ctx)) \<Longrightarrow> returns (tx_bind (make_ctx env i inst sn) f)"
  by (auto simp: make_ctx_def returns_def tx_bind_def tx_lift_def tx_return_def split: sum.split)

lemma returns_writes_bind:
  assumes "\<And>ctx'. cx_snapshot ctx' = cx_snapshot ctx \<Longrightarrow> returns (f ctx')"
  shows "returns (tx_bind (apply_context_writes ctx node r patch) f)"
proof -
  have "cx_snapshot ctx' = cx_snapshot ctx" if "apply_context_writes ctx node r patch db = Some (Inr ctx', db')" for db ctx' db'
    using that by (auto simp: apply_context_writes_def Let_def tx_bind_def tx_then_def tx_lift_def tx_op_res_def tx_return_def
        split: if_splits sum.splits prod.splits option.splits)
  then show ?thesis
    using assms returns_context_writes [of ctx node r patch]
    by (auto simp: returns_def tx_bind_def split: option.split sum.split prod.split)
qed

lemma returns_signal_active:
  assumes "\<And>sn. load_snapshot env (sg_instance_id cmd) db = Inr sn \<Longrightarrow> joins_ranked env sn rank"
    and "\<And>j. Suc (rank j) < fuel"
  shows "signal_active env svc fuel inst cmd db \<noteq> None"
proof (cases "load_snapshot env (sg_instance_id cmd) db")
  case (Inr sn)
  have out: "returns (apply_outcome env svc fuel ctx out trace act r)" if "cx_snapshot ctx = sn" for ctx out trace act r
    by (rule returns_apply_outcome [where rank = rank]) (use assms Inr that in \<open>auto split: option.split intro: gr_implies_not0 less_trans\<close>)
  have advance: "returns (signal_advance env svc fuel ctx inst node cmd act)" if "cx_snapshot ctx = sn" for ctx node act
    unfolding signal_advance_def signal_complete_def signal_resume_def
    by (rule returns_writes_bind) (use that in \<open>auto intro!: returns_intro out\<close>)
  have "returns (tx_bind (make_ctx env (sg_instance_id cmd) inst sn) (\<lambda>ctx.
     tx_bind (resolve_target_activity env cmd) (\<lambda>act.
     tx_bind (tx_lift (parse_uuid env (ai_id act))) (\<lambda>a.
     tx_bind (tx_lift (ctx_node ctx (ai_activity_definition_id act))) (\<lambda>node.
     tx_then (tx_lift (check_signal_against_node node (sg_signal cmd) (sg_event_type cmd)))
     (if sg_signal cmd = SigClaimed \<or> sg_signal cmd = SigReassigned then signal_claim env ctx cmd act a
      else signal_advance env svc fuel ctx inst node cmd act))))))"
    unfolding signal_claim_def by (rule returns_make_ctx_bind) (intro returns_intro advance)
  then show ?thesis using Inr by (simp add: signal_active_def tx_bind_def tx_read_res_def returns_def)
qed (simp add: signal_active_def tx_bind_def tx_read_res_def)

lemma signal_returns_ranked:
  assumes "\<And>sn. load_snapshot env (sg_instance_id cmd) db = Inr sn \<Longrightarrow> joins_ranked env sn rank"
    and "\<And>j. Suc (rank j) < fuel"
  shows "signal env svc fuel cmd db \<noteq> None"
proof -
  have "returns (replayed_outcome env (sg_instance_id cmd) inst)" for inst by (intro returns_intro)
  then show ?thesis
    using returns_signal_active [OF assms]
    by (auto simp: signal_def Let_def tx_bind_def tx_read_def tx_fail_def locked_instance_def tx_read_res_def returns_def split: sum.split)
qed

end
