(* ===== verification/Flow_Engine_Props.thy ===== *)
theory Flow_Engine_Props
  imports Flow_Run_Props Flow_Contracts Flow_Returns
begin

text \<open>
  Properties of the store's guarded updates, of the registry and of the termination of commands;
  those of the first kinds rest on the interfaces of Flow_Contracts.
\<close>

section \<open>Races\<close>

text \<open>
  C13: Of any attempts to finish an active activity, by reviewers, deliveries or its timeout in
  whatever order the row lock lets them through, the first succeeds and every later one is refused
  and changes nothing.
\<close>

theorem activity_finished_once:
  assumes "activity_claimable a db"
  shows "attempts (claim_activity a) (c # cs) db = (True # replicate (length cs) False, snd (claim_activity a c db))"
  by (rule claim.first_wins [OF assms])

theorem activity_finished_once_witness:
  "attempts (claim_activity 2) [Some (Some 1, 5, None), None, Some (Some 2, 6, None)] demo_db1 =
     ([True, False, False], snd (complete_activity_cas 2 (Some 1) 5 None demo_db1))"
  using activity_finished_once [of 2 demo_db1 "Some (Some 1, 5, None)" "[None, Some (Some 2, 6, None)]"]
  by (simp add: activity_claimable_def demo_db1_def claim_activity_def numeral_eq_Suc)

text \<open>
  A timer whose row is no longer pending (it fired, or its activity finished and cancelled it)
  does nothing when a poller still holds its record: the handler returns False and writes nothing.
\<close>

theorem stale_timer_ignored:
  assumes "parse_uuid env (tm_id timer) = Inr u" "\<not> timer_pending u db"
  shows "fire_timer env svc fuel timer db = Some (Inr False, db)"
  using firing.refused [OF assms(2)] by (simp add: fire_timer_def tx_bind_def tx_lift_def tx_op_def tx_return_def assms(1))

theorem stale_timer_ignored_witness:
  "fire_timer demo_env demo_svc 1 (timer_model demo_env (hd (db_timers demo_db2))) demo_db2 = Some (Inr False, demo_db2)"
  by (rule stale_timer_ignored [where u = 3]) (simp_all add: timer_model_def demo_db2_def demo_db1_def timer_pending_def)

text \<open>
  C11: What is finished stays as it is: after any steps of the engine every activity that was completed
  or skipped, every timer that fired or was cancelled and every outbox row that succeeded or died is
  stored unchanged.
\<close>

theorem history_is_final:
  assumes "reachable env svc db" "(engine_step env svc)\<^sup>*\<^sup>* db db'" "uuid_text_ok env" "snapshot_codec_ok env" "rounds_limited svc"
  shows "(\<forall>r\<in>set (db_activities db). ar_status r \<noteq> 2 \<longrightarrow> r \<in> set (db_activities db')) \<and>
     (\<forall>m\<in>set (db_timers db). mr_status m \<noteq> 1 \<longrightarrow> m \<in> set (db_timers db')) \<and>
     (\<forall>x\<in>set (db_outbox db). xr_status x \<in> {3, 4} \<longrightarrow> x \<in> set (db_outbox db'))"
  using steps_local_change [OF assms(2,1,3-5)] by (simp add: history_kept_def)

theorem history_is_final_witness:
  "hd (db_timers demo_db2) \<in> set (db_timers (demo_db2\<lparr>db_now := 5\<rparr>))"
proof -
  have "engine_step demo_env demo_svc demo_db2 (demo_db2\<lparr>db_now := 5\<rparr>)"
    by (rule clock_step) (simp add: demo_db2_def demo_db1_def)
  then have "(engine_step demo_env demo_svc)\<^sup>*\<^sup>* demo_db2 (demo_db2\<lparr>db_now := 5\<rparr>)" by (simp only: r_into_rtranclp)
  from history_is_final [OF demo_reachable(2) this demo_uuids demo_codec demo_rounds]
  have "mr_status m \<noteq> 1 \<Longrightarrow> m \<in> set (db_timers (demo_db2\<lparr>db_now := 5\<rparr>))" if "m \<in> set (db_timers demo_db2)" for m
    using that by blast
  moreover have "hd (db_timers demo_db2) \<in> set (db_timers demo_db2)" "mr_status (hd (db_timers demo_db2)) \<noteq> 1"
    by (simp_all add: demo_db2_def demo_db1_def)
  ultimately show ?thesis by blast
qed

section \<open>Leases of an outbox row\<close>

text \<open>
  What several workers, the clock and new enqueues do to the outbox, one move after the other, and what is
  seen of each move: to whom a lease handed which rows, at what time and until when, and whether a
  settlement was accepted.
\<close>

datatype outbox_move =
    Wait nat
  | Enqueue int uuid uuid uuid string json
  | Lease string int int
  | Settle string uuid settlement

datatype outbox_seen =
    Nothing_seen
  | Handed string "string list" timestamp timestamp
  | Answered string uuid settlement bool

fun outbox_step :: "('p, 'c, 'v) env \<Rightarrow> outbox_move \<Rightarrow> db \<Rightarrow> outbox_seen \<times> db" where
  "outbox_step env (Wait n) db = (Nothing_seen, db\<lparr>db_now := db_now db + int n\<rparr>)"
| "outbox_step env (Enqueue tn f i a ty p) db = (Nothing_seen, snd (enqueue_outbox tn f i a ty p db))"
| "outbox_step env (Lease w ttl limit) db =
     (case poll_due_outbox env w ttl limit db of
        (rs, db') \<Rightarrow> (Handed w (map or_id rs) (db_now db) (db_now db + secs ttl), db'))"
| "outbox_step env (Settle w v s) db = (case settle_row v w s db of (b, db') \<Rightarrow> (Answered w v s b, db'))"

fun outbox_run :: "('p, 'c, 'v) env \<Rightarrow> outbox_move list \<Rightarrow> db \<Rightarrow> outbox_seen list \<times> db" where
  "outbox_run env [] db = ([], db)"
| "outbox_run env (m # ms) db =
     (case outbox_step env m db of (e, db1) \<Rightarrow> (case outbox_run env ms db1 of (es, db2) \<Rightarrow> (e # es, db2)))"

text \<open>
  Who holds row \<open>u\<close>, from what was seen alone: the worker it was last handed to, until a settlement of it
  was accepted; with the end of the lease. \<open>finished\<close>: it was settled as succeeded or dead.
\<close>

fun holder_after :: "string \<Rightarrow> uuid \<Rightarrow> outbox_seen \<Rightarrow> (string \<times> timestamp) option \<Rightarrow> (string \<times> timestamp) option" where
  "holder_after t u (Handed w ids now until) h = (if t \<in> set ids then Some (w, until) else h)"
| "holder_after t u (Answered w v s b) h = (if v = u \<and> b then None else h)"
| "holder_after t u Nothing_seen h = h"

definition holder :: "('p, 'c, 'v) env \<Rightarrow> uuid \<Rightarrow> outbox_seen list \<Rightarrow> (string \<times> timestamp) option" where
  "holder env u es = fold (holder_after (uuid_str env u) u) es None"

fun finishes :: "uuid \<Rightarrow> outbox_seen \<Rightarrow> bool" where
  "finishes u (Answered w v s b) \<longleftrightarrow> v = u \<and> b \<and> (case s of Retried _ _ \<Rightarrow> False | _ \<Rightarrow> True)"
| "finishes u _ \<longleftrightarrow> False"

definition finished :: "uuid \<Rightarrow> outbox_seen list \<Rightarrow> bool" where
  "finished u es \<longleftrightarrow> list_ex (finishes u) es"

text \<open>What the rows say of \<open>u\<close> agrees with what was seen.\<close>

definition row_agrees :: "(string \<times> timestamp) option \<Rightarrow> bool \<Rightarrow> outbox_row \<Rightarrow> bool" where
  "row_agrees h fin x \<longleftrightarrow>
     (case h of
        None \<Rightarrow> xr_status x \<in> (if fin then {3, 4} else {1})
      | Some (w, t) \<Rightarrow> \<not> fin \<and> xr_status x = 2 \<and> xr_lease_owner x = Some w \<and> xr_lease_expires_at x = Some t)"

definition outbox_agrees :: "uuid \<Rightarrow> (string \<times> timestamp) option \<Rightarrow> bool \<Rightarrow> db \<Rightarrow> bool" where
  "outbox_agrees u h fin db \<longleftrightarrow> u < db_next_uuid db \<and> (\<exists>x\<in>set (db_outbox db). xr_id x = u) \<and>
     (\<forall>x\<in>set (db_outbox db). xr_id x = u \<longrightarrow> row_agrees h fin x)"

lemma row_leased_agrees:
  "outbox_agrees u h fin db \<Longrightarrow> row_leased u w db \<longleftrightarrow> (\<exists>t. h = Some (w, t))"
  by (fastforce simp: outbox_agrees_def row_agrees_def row_leased_def leased_by_def split: option.splits if_splits)

lemma set_outbox_agrees:
  assumes "outbox_agrees u h fin db"
    and "\<And>x. \<lbrakk>x \<in> set (db_outbox db); xr_id x = u\<rbrakk> \<Longrightarrow> row_agrees h' fin' (if P x then (f x)\<lparr>xr_updated_at := db_now db\<rparr> else x)"
    and "\<And>x. xr_id (f x) = xr_id x"
  shows "outbox_agrees u h' fin' (snd (set_outbox P f db))"
proof -
  let ?g = "\<lambda>x. if P x then (f x)\<lparr>xr_updated_at := db_now db\<rparr> else x"
  have rows: "set (db_outbox (snd (set_outbox P f db))) = ?g ` set (db_outbox db)" "db_next_uuid (snd (set_outbox P f db)) = db_next_uuid db"
    by (simp_all add: set_outbox_def update_where_def)
  have "xr_id (?g x) = xr_id x" for x using assms(3) by simp
  with assms(1) assms(2) show ?thesis unfolding outbox_agrees_def rows by (metis (no_types, lifting) imageE imageI)
qed

lemma settle_agrees:
  assumes a: "outbox_agrees u h fin db" and s: "settle_row v w s db = (b, db')"
  shows "outbox_agrees u (holder_after t u (Answered w v s b) h) (fin \<or> finishes u (Answered w v s b)) db' \<and>
    (v = u \<longrightarrow> (b \<longleftrightarrow> (\<exists>until. h = Some (w, until))))"
proof -
  have b: "b \<longleftrightarrow> row_leased v w db" using settling.outcome [of v w s db] s by simp
  show ?thesis
  proof (cases "v = u \<and> b")
    case True
    with row_leased_agrees [OF a] b obtain until where h: "h = Some (w, until)" by auto
    have row: "row_agrees h fin x" if "x \<in> set (db_outbox db)" "xr_id x = u" for x
      using a that by (simp add: outbox_agrees_def)
    have "db' = snd (settle_row v w s db)" using s by simp
    moreover have "outbox_agrees u None (fin \<or> finishes u (Answered w v s b)) (snd (settle_row v w s db))"
      using True unfolding settle_row_def
      by (cases s; simp add: mark_outbox_succeeded_def mark_outbox_retry_def mark_outbox_dead_letter_def)
        (rule set_outbox_agrees [OF a]; use row h in \<open>force simp: row_agrees_def leased_by_def\<close>)+
    ultimately show ?thesis using True h by simp
  next
    case False
    have "outbox_agrees u h fin (snd (settle_row v w s db))"
    proof (cases "row_leased v w db")
      case True
      with False b have "v \<noteq> u" by simp
      have row: "row_agrees h fin x" if "x \<in> set (db_outbox db)" "xr_id x = u" for x
        using a that by (simp add: outbox_agrees_def)
      show ?thesis using \<open>v \<noteq> u\<close> unfolding settle_row_def
        by (cases s; simp add: mark_outbox_succeeded_def mark_outbox_retry_def mark_outbox_dead_letter_def)
          (rule set_outbox_agrees [OF a]; use row in \<open>simp add: leased_by_def\<close>)+
    next
      case no: False
      then show ?thesis using settling.refused [of v w db s] a by simp
    qed
    moreover have "\<not> finishes u (Answered w v s b)" "holder_after t u (Answered w v s b) h = h" using False by auto
    moreover have "v = u \<longrightarrow> (b \<longleftrightarrow> (\<exists>until. h = Some (w, until)))" using row_leased_agrees [OF a, of w] b by auto
    ultimately show ?thesis using s by (simp del: finishes.simps holder_after.simps)
  qed
qed

lemma lease_agrees:
  assumes a: "outbox_agrees u h fin db" and env: "uuid_text_ok env" and p: "poll_due_outbox env w ttl limit db = (rs, db')"
  shows "outbox_agrees u (if uuid_str env u \<in> set (map or_id rs) then Some (w, db_now db + secs ttl) else h) fin db' \<and>
    (uuid_str env u \<in> set (map or_id rs) \<longrightarrow> \<not> fin \<and> (\<forall>w' t. h = Some (w', t) \<longrightarrow> t < db_now db))"
proof -
  let ?due = "filter (outbox_due (db_now db)) (db_outbox db)"
  define ids where "ids = map xr_id (take (nat limit) (sort_key xr_next_attempt_at ?due))"
  let ?f = "\<lambda>x. x\<lparr>xr_status := 2, xr_lease_owner := Some w, xr_lease_expires_at := Some (db_now db + secs ttl)\<rparr>"
  have db': "db' = snd (set_outbox (\<lambda>x. xr_id x \<in> set ids) ?f db)"
    and rs: "rs = map (outbox_model env) (filter (\<lambda>x. xr_id x \<in> set ids) (db_outbox db'))"
    using p by (auto simp: poll_due_outbox_def ids_def Let_def)
  have row: "row_agrees h fin x" if "x \<in> set (db_outbox db)" "xr_id x = u" for x
    using a that by (simp add: outbox_agrees_def)
  have due: "\<exists>x\<in>set (db_outbox db). xr_id x = u \<and> outbox_due (db_now db) x" if "u \<in> set ids"
    using that by (auto simp: ids_def dest!: in_set_takeD)
  have "\<exists>x\<in>set (db_outbox db'). xr_id x = u"
  proof -
    have "map xr_id (db_outbox db') = map xr_id (db_outbox db)" by (simp add: db' set_outbox_def map_key_update_where)
    then have "xr_id ` set (db_outbox db') = xr_id ` set (db_outbox db)" by (metis list.set_map)
    with a show ?thesis unfolding outbox_agrees_def by (metis imageE imageI)
  qed
  then have mem: "uuid_str env u \<in> set (map or_id rs) \<longleftrightarrow> u \<in> set ids"
    using uuid_str_inject [OF env] by (force simp: rs outbox_model_def)
  show ?thesis
  proof (cases "u \<in> set ids")
    case True
    with due obtain x where x: "x \<in> set (db_outbox db)" "xr_id x = u" "outbox_due (db_now db) x" by blast
    from row [OF x(1,2)] x(3) have ok: "\<not> fin" "\<forall>w' t. h = Some (w', t) \<longrightarrow> t < db_now db"
      by (auto simp: row_agrees_def outbox_due_def split: option.splits if_splits)
    have "outbox_agrees u (Some (w, db_now db + secs ttl)) fin db'"
      unfolding db' by (rule set_outbox_agrees [OF a]) (use True ok(1) in \<open>simp_all add: row_agrees_def\<close>)
    with True ok mem show ?thesis by simp
  next
    case False
    have "outbox_agrees u h fin db'"
      unfolding db' by (rule set_outbox_agrees [OF a]) (use False row in simp_all)
    with False mem show ?thesis by simp
  qed
qed

lemma enqueue_agrees: "outbox_agrees u h fin db \<Longrightarrow> outbox_agrees u h fin (snd (enqueue_outbox tn f i a ty p db))"
  by (cases "list_ex (\<lambda>x. xr_workflow_instance_id x = i \<and> xr_activity_instance_id x = a \<and> xr_activity_type x = ty) (db_outbox db)")
    (auto simp: outbox_agrees_def enqueue_outbox_def fresh_def)

text \<open>One move: what is allowed to be seen after \<open>es\<close>.\<close>

definition seen_ok :: "('p, 'c, 'v) env \<Rightarrow> uuid \<Rightarrow> outbox_seen list \<Rightarrow> outbox_seen \<Rightarrow> bool" where
  "seen_ok env u es e \<longleftrightarrow>
     (case e of
        Answered w v s b \<Rightarrow> v = u \<longrightarrow> (b \<longleftrightarrow> (\<exists>until. holder env u es = Some (w, until)))
      | Handed w ids now until \<Rightarrow> uuid_str env u \<in> set ids \<longrightarrow>
          \<not> finished u es \<and> (\<forall>w' t. holder env u es = Some (w', t) \<longrightarrow> t < now)
      | Nothing_seen \<Rightarrow> True)"

lemma outbox_step_agrees:
  assumes "outbox_agrees u (holder env u es) (finished u es) db" "uuid_text_ok env" "outbox_step env m db = (e, db')"
  shows "seen_ok env u es e \<and> outbox_agrees u (holder env u (es @ [e])) (finished u (es @ [e])) db'"
proof (cases m)
  case (Wait n)
  with assms show ?thesis by (auto simp: seen_ok_def holder_def finished_def outbox_agrees_def)
next
  case (Enqueue tn f i a ty p)
  with assms have "e = Nothing_seen" "db' = snd (enqueue_outbox tn f i a ty p db)" by simp_all
  with enqueue_agrees [OF assms(1)] show ?thesis by (simp add: seen_ok_def holder_def finished_def)
next
  case (Lease w ttl limit)
  obtain rs where p: "poll_due_outbox env w ttl limit db = (rs, db')" "e = Handed w (map or_id rs) (db_now db) (db_now db + secs ttl)"
    using assms(3) Lease by (auto split: prod.splits)
  from lease_agrees [OF assms(1,2) p(1)] show ?thesis
    by (auto simp: seen_ok_def p(2) holder_def finished_def split: if_splits)
next
  case (Settle w v s)
  obtain b where s: "settle_row v w s db = (b, db')" "e = Answered w v s b"
    using assms(3) Settle by (auto split: prod.splits)
  from settle_agrees [OF assms(1) s(1), of "uuid_str env u"] show ?thesis
    by (simp add: seen_ok_def s(2) holder_def finished_def)
qed

lemma outbox_run_agrees:
  assumes "uuid_text_ok env" "outbox_agrees u (holder env u es) (finished u es) db" "outbox_run env ms db = (pre @ e # post, db')"
  shows "seen_ok env u (es @ pre) e"
  using assms(2,3)
proof (induction ms arbitrary: es db pre)
  case (Cons m ms)
  obtain e1 db1 where s: "outbox_step env m db = (e1, db1)" by fastforce
  obtain es2 db2 where r: "outbox_run env ms db1 = (es2, db2)" by fastforce
  from Cons.prems(2) s r have eq: "e1 # es2 = pre @ e # post" "db2 = db'" by simp_all
  note step = outbox_step_agrees [OF Cons.prems(1) assms(1) s]
  show ?case
  proof (cases pre)
    case Nil
    with eq step show ?thesis by simp
  next
    case (Cons x xs)
    with eq have "pre = e1 # xs" "outbox_run env ms db1 = (xs @ e # post, db')" using r by simp_all
    with Cons.IH [OF conjunct2 [OF step]] show ?thesis by simp
  qed
qed simp

text \<open>
  C14: Whatever workers lease and settle in whatever order, while the clock runs and rows are enqueued: a
  settlement of an outbox row (success, retry or dead letter) is accepted exactly when the worker is the one
  the row was last handed to and no settlement was accepted since; a row is handed out again only
  after its lease has run out or after a retry, and never once it has succeeded or died.
\<close>

theorem outbox_settled_once:
  assumes "uuid_text_ok env" "u < db_next_uuid db" "\<exists>x\<in>set (db_outbox db). xr_id x = u"
    and "\<forall>x\<in>set (db_outbox db). xr_id x = u \<longrightarrow> xr_status x = 1"
    and "outbox_run env ms db = (pre @ e # post, db')"
  shows "case e of
      Answered w v s b \<Rightarrow> v = u \<longrightarrow> (b \<longleftrightarrow> (\<exists>until. holder env u pre = Some (w, until)))
    | Handed w ids now until \<Rightarrow> uuid_str env u \<in> set ids \<longrightarrow>
        \<not> finished u pre \<and> (\<forall>w' t. holder env u pre = Some (w', t) \<longrightarrow> t < now)
    | Nothing_seen \<Rightarrow> True"
proof -
  have "outbox_agrees u (holder env u []) (finished u []) db"
    using assms(2-4) by (simp add: outbox_agrees_def row_agrees_def holder_def finished_def)
  from outbox_run_agrees [OF assms(1) this assms(5)] show ?thesis by (simp add: seen_ok_def)
qed

text \<open>
  Two workers: \<open>w1\<close> leases the row for 10 seconds, its lease runs out, \<open>w2\<close> takes the row over, and the late
  answer of \<open>w1\<close> is refused.
\<close>

definition race_db :: db where
  "race_db = snd (enqueue_outbox 7 9 1 2 ''notify'' JNull demo_db1)"

definition race_moves :: "outbox_move list" where
  "race_moves = [Lease ''w1'' 10 5, Wait 11000000, Lease ''w2'' 10 5, Settle ''w1'' 4 Succeeded, Settle ''w2'' 4 (Retried 3 ''busy'')]"

definition race_handed :: "outbox_seen list" where
  "race_handed =
     [Handed ''w1'' [uuid_str demo_env 4] 0 10000000, Nothing_seen, Handed ''w2'' [uuid_str demo_env 4] 11000000 21000000]"

lemma race_run:
  "\<exists>b c db'. outbox_run demo_env race_moves race_db =
     (race_handed @ [Answered ''w1'' 4 Succeeded b, Answered ''w2'' 4 (Retried 3 ''busy'') c], db')"
  by (simp add: race_moves_def race_db_def race_handed_def demo_db1_def enqueue_outbox_def fresh_def poll_due_outbox_def outbox_due_def
      set_outbox_def secs_def outbox_model_def Let_def split: prod.splits)

theorem outbox_settled_once_witness:
  "\<exists>db'. outbox_run demo_env race_moves race_db =
     (race_handed @ [Answered ''w1'' 4 Succeeded False, Answered ''w2'' 4 (Retried 3 ''busy'') True], db')"
proof -
  obtain b c db' where run: "outbox_run demo_env race_moves race_db =
     (race_handed @ [Answered ''w1'' 4 Succeeded b, Answered ''w2'' 4 (Retried 3 ''busy'') c], db')" using race_run by blast
  have db: "4 < db_next_uuid race_db" "\<exists>x\<in>set (db_outbox race_db). xr_id x = 4"
    "\<forall>x\<in>set (db_outbox race_db). xr_id x = 4 \<longrightarrow> xr_status x = 1"
    by (simp_all add: race_db_def demo_db1_def enqueue_outbox_def fresh_def)
  note once = outbox_settled_once [OF demo_uuids db]
  have b: "\<not> b" using once [OF run] by (simp add: race_handed_def holder_def)
  have "outbox_run demo_env race_moves race_db =
     ((race_handed @ [Answered ''w1'' 4 Succeeded b]) @ [Answered ''w2'' 4 (Retried 3 ''busy'') c], db')" using run by simp
  from once [OF this] b have "c" by (simp add: race_handed_def holder_def)
  with b run show ?thesis by simp
qed

section \<open>The log\<close>

text \<open>
  Events appended one after the other to an instance are loaded back behind what was there, in
  that order, with their types and payloads; the logs of other instances are untouched.
\<close>

theorem appended_events_load_back:
  "(\<exists>rs. load_events i (fold (log_append i) es db) = load_events i db @ rs \<and> list_all2 log_carries rs es) \<and>
   (\<forall>j. j \<noteq> i \<longrightarrow> load_events j (fold (log_append i) es db) = load_events j db)"
  using log.entries_appends log.entries_appends_other by blast

theorem appended_events_load_back_witness:
  "load_events 2 (fold (log_append 1) [(7, 9, ''x'', JNull, None)] demo_db1) = load_events 2 demo_db1"
  by (rule appended_events_load_back [THEN conjunct2, rule_format]) simp

section \<open>The callback registry\<close>

fun register_all :: "callback_handler list \<Rightarrow> callback_registry \<Rightarrow> callback_registry res" where
  "register_all [] reg = Inr reg"
| "register_all (h # hs) reg = bindR (registry_register h reg) (register_all hs)"

lemma register_fold:
  "register_all hs reg = Inr reg' \<Longrightarrow> reg' = fold (\<lambda>(k, v). bt_insert k v) (map (\<lambda>h. (ch_handler_type h, h)) hs) reg \<and>
     distinct (map ch_handler_type hs) \<and> (\<forall>h\<in>set hs. \<not> registry_contains reg (ch_handler_type h))"
proof (induction hs arbitrary: reg)
  case (Cons h hs)
  obtain reg1 where r: "registry_register h reg = Inr reg1" and a: "register_all hs reg1 = Inr reg'"
    using Cons.prems by (auto simp: res_simps)
  have e: "reg1 = bt_insert (ch_handler_type h) h reg" and n: "\<not> registry_contains reg (ch_handler_type h)"
    using r by (auto simp: registry_register_def Let_def split: if_splits)
  have c: "registry_contains reg1 k \<longleftrightarrow> k = ch_handler_type h \<or> registry_contains reg k" for k
    using set_bt_insert [of "ch_handler_type h" h reg] by (simp only: e registry_contains_def insert_iff)
  show ?case using Cons.IH [OF a] n c e by auto
qed simp

lemma sorted_register: "sorted_wrt (<) (map fst reg) \<Longrightarrow> register_all hs reg = Inr reg' \<Longrightarrow> sorted_wrt (<) (map fst reg')"
proof (induction hs arbitrary: reg)
  case (Cons h hs)
  obtain reg1 where r: "registry_register h reg = Inr reg1" and a: "register_all hs reg1 = Inr reg'"
    using Cons.prems by (auto simp: res_simps)
  then have "sorted_wrt (<) (map fst reg1)"
    using sorted_bt_insert [OF Cons.prems(1)] by (auto simp: registry_register_def Let_def split: if_splits)
  with a show ?case by (rule Cons.IH [rotated])
qed simp

text \<open>
  A registry filled from empty resolves exactly the registered handler types, each to its own
  handler, lists them in strictly ascending order, and can only be filled with pairwise different
  types: a second handler of a type is an error.
\<close>

theorem registry_faithful:
  assumes "register_all hs registry_new = Inr reg"
  shows "registry_get reg = map_of (map (\<lambda>h. (ch_handler_type h, h)) hs) \<and>
     sorted_wrt (<) (registry_handler_types reg) \<and> distinct (map ch_handler_type hs)"
proof -
  from register_fold [OF assms] have d: "distinct (map ch_handler_type hs)"
    and r: "reg = fold (\<lambda>(k, v). bt_insert k v) (map (\<lambda>h. (ch_handler_type h, h)) hs) registry_new" by blast+
  have "registry_get reg = map_of (map (\<lambda>h. (ch_handler_type h, h)) hs)"
    unfolding r by (rule registry.lookup_built) (use d in \<open>simp add: comp_def\<close>)
  with d sorted_register [OF _ assms] show ?thesis by (simp add: registry_handler_types_def registry_new_def)
qed

definition demo_handler :: "string \<Rightarrow> callback_handler" where
  "demo_handler k = \<lparr>ch_handler_type = k, ch_idempotency_key_strategy = BusinessKey, ch_execute = (\<lambda>_. Inr ())\<rparr>"

theorem registry_faithful_witness:
  "\<exists>reg. register_all [demo_handler ''b'', demo_handler ''a''] registry_new = Inr reg \<and>
     registry_get reg ''b'' = Some (demo_handler ''b'') \<and> registry_get reg ''c'' = None"
proof -
  obtain reg where r: "register_all [demo_handler ''b'', demo_handler ''a''] registry_new = Inr reg"
    by (simp add: registry_register_def demo_handler_def registry_contains_def registry_new_def Let_def)
  with registry_faithful [OF r] show ?thesis by (simp add: demo_handler_def)
qed

section \<open>Termination\<close>

text \<open>
  C12: \<open>signal\<close> returns, and what it returns does not depend on the fuel once it is two more than a
  bound on a rank of the joins: with ranks that fall whenever a satisfied join advances into another
  join, no run of the outcome recursion is cut off.
\<close>

theorem signal_terminates:
  assumes "\<And>sn. load_snapshot env (sg_instance_id cmd) db = Inr sn \<Longrightarrow> joins_ranked env sn rank"
    and "\<And>j. rank j < n"
  shows "\<exists>res. \<forall>k. signal env svc (n + 1 + k) cmd db = Some res"
proof -
  have "signal env svc (n + 1) cmd db \<noteq> None"
    by (rule signal_returns_ranked [where rank = rank]) (use assms in auto)
  moreover have "refines (signal env svc fuel cmd) (signal env svc (fuel + k) cmd)" for fuel k
    unfolding signal_def Let_def signal_active_def signal_advance_def
    by (intro refines_intro apply_outcome_mono)
  ultimately show ?thesis unfolding refines_def by (metis option.exhaust)
qed

text \<open>A definition with two joins, the first of which can advance, through a fan-out over no row, into the second.\<close>

definition join_rank :: "string \<Rightarrow> nat" where
  "join_rank j = (if j = ''join2'' then 0 else if j = ''join'' then 1 else 2)"

lemma demo_selects:
  "select_branch demo_cel c ''end'' [\<lparr>cb_guard_expression = ''more'', cb_target = ''each''\<rparr>] = Inr t \<Longrightarrow> t = ''each'' \<or> t = ''end''"
  by (auto split: sum.splits bool.splits)

lemma demo_lookups:
  "find_node demo_nodes ''end'' = Some (demo_node ''end'' (NcEnd (Some ''approved'')))"
  "find_node demo_nodes ''cond'' = Some (demo_node ''cond'' (NcCondition ''end'' [\<lparr>cb_guard_expression = ''more'', cb_target = ''each''\<rparr>]))"
  "find_node demo_nodes ''merge'' = Some (demo_node ''merge'' NcMerge)"
  "find_node demo_nodes ''join'' = Some (demo_node ''join'' (NcParallelJoin WaitAll))"
  "find_node demo_nodes ''join2'' = Some (demo_node ''join2'' (NcParallelJoin WaitAll))"
  "find_node demo_nodes ''a0'' = Some (demo_node ''a0'' (NcApproval (Some ''clerk'') (Some 60) None None))"
  "find_node demo_nodes ''item'' = Some (demo_node ''item'' (NcAssignment \<lparr>ac_assignee_selector = None, ac_queue_code = Some ''q'', ac_sla_seconds = None\<rparr>))"
  "find_next_transition demo_edges ''merge'' SigApproved = Some (demo_edge ''merge'' SigApproved ''cond'')"
  by (simp_all add: find_node_def find_next_transition_def demo_graph)

lemma demo_joins:
  "next_join demo_parallel (resolve_target demo_cel demo_nodes demo_edges ''each'' c vs tr d) \<in> {None, Some ''join2''}"
  "next_join demo_parallel (resolve_target demo_cel demo_nodes demo_edges ''end'' c vs tr d) = None"
  "next_join demo_parallel (resolve_target demo_cel demo_nodes demo_edges ''cond'' c vs tr d) \<in> {None, Some ''join2''}"
  "next_join demo_parallel (resolve_target demo_cel demo_nodes demo_edges ''merge'' c vs tr d) \<in> {None, Some ''join2''}"
proof -
  show each: "next_join demo_parallel (resolve_target demo_cel demo_nodes demo_edges ''each'' c vs tr d) \<in> {None, Some ''join2''}" for vs tr d
  proof (cases "eval_array demo_cel ''rows'' c")
    case (Inl e)
    then show ?thesis
      by (subst resolve_target.simps) (simp add: next_join_def resolve_for_each_def demo_node_def kind_def for_each_def Let_def)
  next
    case (Inr items)
    then show ?thesis
      by (subst resolve_target.simps, cases items)
        (simp_all add: next_join_def resolve_for_each_def demo_node_def demo_parallel_def demo_lookups kind_def for_each_def Let_def)
  qed
  show fin: "next_join demo_parallel (resolve_target demo_cel demo_nodes demo_edges ''end'' c vs tr d) = None" for vs tr d
    by (subst resolve_target.simps) (simp add: next_join_def demo_lookups demo_node_def kind_def)
  show cond: "next_join demo_parallel (resolve_target demo_cel demo_nodes demo_edges ''cond'' c vs tr d) \<in> {None, Some ''join2''}" for vs tr d
  proof (cases "select_branch demo_cel c ''end'' [\<lparr>cb_guard_expression = ''more'', cb_target = ''each''\<rparr>]")
    case (Inr t)
    with demo_selects have "t = ''each'' \<or> t = ''end''" by blast
    with Inr each fin show ?thesis
      by (subst resolve_target.simps) (auto simp: next_join_def demo_lookups demo_node_def kind_def condition_def simp del: select_branch.simps)
  qed (subst resolve_target.simps, auto simp: next_join_def demo_lookups demo_node_def kind_def condition_def simp del: select_branch.simps)
  show "next_join demo_parallel (resolve_target demo_cel demo_nodes demo_edges ''merge'' c vs tr d) \<in> {None, Some ''join2''}"
    using cond by (subst resolve_target.simps) (auto simp: next_join_def demo_lookups demo_node_def demo_edge_def kind_def Let_def)
qed

lemma demo_parallel_ranked: "joins_ranked demo_env demo_parallel join_rank"
  unfolding joins_ranked_def
proof (intro allI impI)
  fix c j k
  assume n: "next_join demo_parallel (decide_advance (env_cel demo_env) (ds_nodes demo_parallel) (ds_transitions demo_parallel) j SigApproved c) = Some k"
  have adv: "decide_advance (env_cel demo_env) (ds_nodes demo_parallel) (ds_transitions demo_parallel) j SigApproved c =
      (case find_next_transition demo_edges j SigApproved of
         Some t \<Rightarrow> resolve_target demo_cel demo_nodes demo_edges (tr_to t) c [] empty_trace 0
       | None \<Rightarrow> (OutcomeError, empty_trace))"
    by (simp add: decide_advance_def Let_def demo_env_def demo_parallel_def)
  from n adv obtain t where t: "find_next_transition demo_edges j SigApproved = Some t"
    "next_join demo_parallel (resolve_target demo_cel demo_nodes demo_edges (tr_to t) c [] empty_trace 0) = Some k"
    by (auto simp: next_join_def split: option.splits)
  have plain: "next_join demo_parallel (resolve_target demo_cel demo_nodes demo_edges ''a0'' c [] empty_trace 0) = None"
    "next_join demo_parallel (resolve_target demo_cel demo_nodes demo_edges ''join'' c [] empty_trace 0) = Some ''join''"
    by (subst resolve_target.simps, simp add: next_join_def demo_parallel_def demo_lookups demo_node_def kind_def)+
  have "next_join demo_parallel (resolve_split demo_nodes (demo_node ''split'' (NcParallelSplit [''a1'', ''w1''])), empty_trace) = None"
    by (simp add: next_join_def resolve_split_def empty_trace_def split: option.split list.split)
  then have split: "next_join demo_parallel (resolve_target demo_cel demo_nodes demo_edges ''split'' c [] empty_trace 0) = None"
    by (subst resolve_target.simps) (simp add: demo_node_def kind_def)
  have edge: "t \<in> set demo_edges \<and> tr_from t = j \<and> tr_on_signal t = SigApproved"
    using t(1) by (auto simp: find_next_transition_def find_Some_iff)
  then have "(j, tr_to t) \<in> {(''start'', ''a0''), (''a0'', ''split''), (''a1'', ''join''), (''join'', ''merge''), (''merge'', ''cond''), (''join2'', ''end'')}"
    by (simp add: demo_edges_def demo_edge_def) (elim disjE conjE, simp_all)
  then consider "tr_to t \<in> {''a0'', ''split'', ''end''}" | "tr_to t = ''join''" "j = ''a1''" | "tr_to t \<in> {''merge'', ''cond''}" "j \<in> {''join'', ''merge''}"
    by blast
  then show "join_rank k < join_rank j"
  proof cases
    case 1
    then show ?thesis using t(2) plain(1) split demo_joins(2) [of c "[]" empty_trace 0] by auto
  next
    case 2
    then have "k = ''join''" using t(2) plain(2) by simp
    then show ?thesis using 2(2) by (simp add: join_rank_def)
  next
    case 3
    then have "k = ''join2''" using t(2) demo_joins(3,4) [of c "[]" empty_trace 0] by auto
    then show ?thesis using 3 by (auto simp: join_rank_def)
  qed
qed

text \<open>An instance of it whose branch \<open>a1\<close> awaits its approval.\<close>

definition join_db :: db where
  "join_db = demo_db1\<lparr>db_instances := map (\<lambda>r. r\<lparr>ir_definition_snapshot := JStr ''parallel''\<rparr>) (db_instances demo_db1),
     db_activities := map (\<lambda>r. r\<lparr>ar_activity_definition_id := ''a1''\<rparr>) (db_activities demo_db1)\<rparr>"

lemma join_snapshot: "load_snapshot demo_env (sg_instance_id (demo_signal 1 SigApproved ''s1'')) join_db = Inr demo_parallel"
  by (simp add: demo_signal_def load_snapshot_def find_instance_def join_db_def demo_db1_def map_errR_def demo_env_def)

theorem signal_terminates_witness:
  "\<exists>res. \<forall>k. signal demo_env demo_svc (3 + 1 + k) (demo_signal 1 SigApproved ''s1'') join_db = Some res"
proof (rule signal_terminates)
  fix sn
  assume "load_snapshot demo_env (sg_instance_id (demo_signal 1 SigApproved ''s1'')) join_db = Inr sn"
  then show "joins_ranked demo_env sn join_rank" using join_snapshot demo_parallel_ranked by simp
qed (simp add: join_rank_def)

end
