(* ===== verification/Flow_Findings.thy ===== *)
theory Flow_Findings
  imports Flow_Engine_Props
begin

text \<open>
  What the engine does on definitions that validation accepts and that it does not handle: a join
  that advances into itself, an empty fan-out under a join that waits for a branch, and a rework as
  the event log tells it.
\<close>

section \<open>A join that advances into itself\<close>

definition loop_nodes :: "workflow_node list" where
  "loop_nodes =
     [demo_node ''start'' NcStart, demo_node ''a0'' (NcApproval (Some ''clerk'') None None None),
      demo_node ''split'' (NcParallelSplit [''a1'', ''a2'']), demo_node ''a1'' (NcApproval (Some ''lead'') None None None),
      demo_node ''a2'' (NcApproval (Some ''lead'') None None None), demo_node ''join'' (NcParallelJoin WaitAny),
      demo_node ''end'' (NcEnd (Some ''approved''))]"

definition loop_edges :: "workflow_transition list" where
  "loop_edges =
     [demo_edge ''start'' SigApproved ''a0'', demo_edge ''a0'' SigApproved ''split'', demo_edge ''a1'' SigApproved ''join'',
      demo_edge ''a2'' SigApproved ''join'', demo_edge ''join'' SigApproved ''join'']"

definition loop_snapshot :: definition_snapshot where
  "loop_snapshot = \<lparr>ds_flow_type = ''loop'', ds_version = 1, ds_nodes = loop_nodes, ds_transitions = loop_edges, ds_max_round = 3\<rparr>"

lemma loop_valid: "validate_definition demo_cel loop_nodes loop_edges = Inr ()"
  by code_simp

lemma loop_decide: "decide_advance demo_cel loop_nodes loop_edges ''join'' SigApproved c = (Advance ''join'' None, empty_trace)"
  by code_simp

lemma loop_join: "List.find (\<lambda>n. node_id n = ''join'') loop_nodes = Some (demo_node ''join'' (NcParallelJoin WaitAny))"
  by code_simp

text \<open>A branch has completed and no fan-out was recorded for the join.\<close>

definition branch_done :: "('p, 'c, 'v) env \<Rightarrow> uuid \<Rightarrow> int \<Rightarrow> db \<Rightarrow> bool" where
  "branch_done env i r db \<longleftrightarrow> for_each_branch_count env i ''join'' r db = None \<and>
     0 < count_completed_branches i [''a1'', ''a2'', ''join''] r db"

definition going :: "(db \<Rightarrow> bool) \<Rightarrow> 'a tx \<Rightarrow> bool" where
  "going I m \<longleftrightarrow> (\<forall>db. I db \<longrightarrow> (\<exists>x db'. m db = Some (Inr x, db') \<and> I db'))"

definition stuck :: "(db \<Rightarrow> bool) \<Rightarrow> 'a tx \<Rightarrow> bool" where
  "stuck I m \<longleftrightarrow> (\<forall>db. I db \<longrightarrow> m db = None)"

lemma stuck_bind: "going I m \<Longrightarrow> (\<And>x. stuck I (f x)) \<Longrightarrow> stuck I (tx_bind m f)"
  by (fastforce simp: going_def stuck_def tx_bind_def)

lemma stuck_then: "going I m \<Longrightarrow> stuck I n \<Longrightarrow> stuck I (tx_then m n)"
  unfolding tx_then_def by (rule stuck_bind)

lemma going_append:
  assumes "ty \<noteq> ev_FOR_EACH_FANNED_OUT"
  shows "going (branch_done env i r) (append_ev ctx ty p k)"
proof -
  have "branch_done env i r (snd (append_event tn f j s ty p k db)) = branch_done env i r db" for tn f j s db
    using assms
    by (simp add: branch_done_def for_each_branch_count_def events_of_append_event filter_append count_completed_branches_def
        append_event_def cong: list.case_cong)
      (simp add: events_of_def)
  then show ?thesis by (auto simp: going_def append_ev_def tx_bind_def tx_read_def tx_op_def append_event_def)
qed

lemma stuck_read: "(\<And>x. stuck (\<lambda>db. I db \<and> f db = x) (g x)) \<Longrightarrow> stuck I (tx_bind (tx_read f) g)"
  by (auto simp: stuck_def tx_bind_def tx_read_def)

lemma stuck_weaken: "stuck J m \<Longrightarrow> (\<And>db. I db \<Longrightarrow> J db) \<Longrightarrow> stuck I m"
  by (simp add: stuck_def)

lemma stuck_lift: "r = Inr x \<Longrightarrow> stuck I (f x) \<Longrightarrow> stuck I (tx_bind (tx_lift r) f)"
  by (simp add: stuck_def tx_bind_def tx_lift_def)

lemma going_then: "going I m \<Longrightarrow> going I n \<Longrightarrow> going I (tx_then m n)"
  unfolding going_def tx_then_def tx_bind_def by fastforce

lemma count_where_update: "(\<And>r. P r \<Longrightarrow> Q (f r) = Q r) \<Longrightarrow> count_where Q (update_where P f rs) = count_where Q rs"
  by (induction rs) (auto simp: count_where_def update_where_def)

lemma going_skip:
  "going (branch_done env i r) (tx_bind (tx_op (skip_other_active_activities i ex)) (\<lambda>n. tx_when (n > 0) (append_ev ctx ev_ACTIVITY_SKIPPED (p n) k)))"
proof -
  have count: "count_completed_branches i ids r (snd (skip_other_active_activities i ex db)) = count_completed_branches i ids r db" for ids db
    unfolding count_completed_branches_def skip_other_active_activities_def set_activities_def set_timers_def Let_def
    by simp (rule impI, rule count_where_update, auto)
  have keep: "branch_done env i r (snd (skip_other_active_activities i ex db)) = branch_done env i r db" for db
    unfolding branch_done_def count
    by (simp add: for_each_branch_count_def skip_other_active_activities_def set_activities_def set_timers_def Let_def events_of_def)
  have "going (branch_done env i r) (append_ev ctx ev_ACTIVITY_SKIPPED (p n) k)" for n
    by (rule going_append) (simp add: event_neq)
  then have w: "going (branch_done env i r) (tx_when (0 < n) (append_ev ctx ev_ACTIVITY_SKIPPED (p n) k))" for n :: nat
    by (simp add: tx_when_def going_def tx_return_def)
  show ?thesis
    unfolding going_def
  proof (intro allI impI)
    fix db
    assume "branch_done env i r db"
    with keep have "branch_done env i r (snd (skip_other_active_activities i ex db))" by simp
    with w [of "fst (skip_other_active_activities i ex db)"]
    show "\<exists>x db'. tx_bind (tx_op (skip_other_active_activities i ex)) (\<lambda>n. tx_when (0 < n) (append_ev ctx ev_ACTIVITY_SKIPPED (p n) k)) db =
        Some (Inr x, db') \<and> branch_done env i r db'"
      by (simp add: going_def tx_bind_def tx_op_def split_beta)
  qed
qed

lemma loop_stuck:
  assumes "env_cel env = demo_cel" "cx_snapshot ctx = loop_snapshot" "parse_uuid env (ai_id src) = Inr a"
  shows "stuck (branch_done env (cx_instance_id ctx) r) (apply_outcome env svc fuel ctx (Advance ''join'' None) empty_trace src r)"
proof (induction fuel)
  case 0
  then show ?case by (simp add: stuck_def tx_out_of_fuel_def)
next
  case (Suc fuel)
  let ?node = "demo_node ''join'' (NcParallelJoin WaitAny)" and ?I = "branch_done env (cx_instance_id ctx) r"
  have node: "ctx_node ctx ''join'' = Inr ?node"
    by (simp add: ctx_node_def assms(2) loop_snapshot_def loop_join okorR_def)
  have k: "kind ?node = KParallelJoin" "node_id ?node = ''join''" "node_join_strategy ?node = Some WaitAny" by code_simp+
  have exp: "join_expectation ctx ?node None = Inr (3, [''a1'', ''a2'', ''join''])"
    by (simp add: join_expectation_def assms(2) loop_snapshot_def k loop_edges_def demo_edge_def)
  have dec: "decide_advance (env_cel env) (ds_nodes (cx_snapshot ctx)) (ds_transitions (cx_snapshot ctx)) ''join'' SigApproved c =
      (Advance ''join'' None, empty_trace)" for c
    by (simp add: assms(1,2) loop_snapshot_def loop_decide)
  have merges: "append_merges ctx empty_trace src r = tx_return ()" by (simp add: append_merges_def empty_trace_def)
  have satisfied: "stuck ?I (try_satisfy_join env (apply_outcome env svc fuel) ctx ?node src r ex)" for ex
    unfolding stuck_def
  proof (intro allI impI)
    fix db
    assume I: "?I db"
    let ?n = "count_completed_branches (cx_instance_id ctx) [''a1'', ''a2'', ''join''] r db"
    let ?A = "append_ev ctx ev_PARALLEL_JOIN_SATISFIED
       (obj [(''join_node'', JStr ''join''), (''arrived'', JInt ?n), (''expected'', JInt 3), (''round'', JInt r)]) None"
    let ?B = "tx_bind (tx_op (skip_other_active_activities (cx_instance_id ctx) (unwrap_or nil_uuid ex))) (\<lambda>n.
       tx_when (n > 0) (append_ev ctx ev_ACTIVITY_SKIPPED (obj [(''join_node'', JStr ''join''), (''count'', JInt (int n))]) None))"
    have z: "for_each_branch_count env (cx_instance_id ctx) ''join'' r db = None" and n: "0 < ?n" using I by (simp_all add: branch_done_def)
    have "try_satisfy_join env (apply_outcome env svc fuel) ctx ?node src r ex db =
        tx_then ?A (tx_then ?B (apply_outcome env svc fuel ctx (Advance ''join'' None) empty_trace src r)) db"
      using n by (simp add: try_satisfy_join_def Let_def k run_bind run_read run_lift z exp dec tx_when_def [of True])
    moreover have "stuck ?I (tx_then ?A (tx_then ?B (apply_outcome env svc fuel ctx (Advance ''join'' None) empty_trace src r)))"
      by (intro stuck_then going_append going_skip Suc.IH) (simp add: event_neq)
    ultimately show "try_satisfy_join env (apply_outcome env svc fuel) ctx ?node src r ex db = None" using I by (simp add: stuck_def)
  qed
  have "stuck ?I (tx_then (append_ev ctx ev_BRANCH_REACHED_JOIN p None) (tx_bind (tx_lift (parse_uuid env (ai_id src)))
      (\<lambda>ex. try_satisfy_join env (apply_outcome env svc fuel) ctx ?node src r (Some ex))))" for p
    by (intro stuck_then going_append stuck_lift [OF assms(3)] satisfied) (simp add: event_neq)
  then show ?case
    by (simp add: apply_outcome_step_def merges apply_advance_def node k branch_reached_join_def stuck_def run_then run_return run_bind run_lift)
qed

text \<open>
  C15: Validation accepts a definition whose ParallelJoin (WaitAny) advances into itself, and once a
  branch of it has completed the engine never finishes handling the branch's arrival: whatever the
  fuel, the outcome recursion runs out of it.
\<close>

theorem join_into_itself_never_returns:
  assumes "env_cel env = demo_cel" "cx_snapshot ctx = loop_snapshot" "parse_uuid env (ai_id src) = Inr a"
    and "for_each_branch_count env (cx_instance_id ctx) ''join'' r db = None"
    and "0 < count_completed_branches (cx_instance_id ctx) [''a1'', ''a2'', ''join''] r db"
  shows "validate_definition (env_cel env) (ds_nodes (cx_snapshot ctx)) (ds_transitions (cx_snapshot ctx)) = Inr () \<and>
     (\<forall>fuel. apply_outcome env svc fuel ctx (Advance ''join'' None) empty_trace src r db = None)"
  using loop_stuck [OF assms(1-3)] assms(4,5) by (simp add: assms(1,2) loop_snapshot_def loop_valid stuck_def branch_done_def)

definition loop_db :: db where
  "loop_db = demo_db1\<lparr>db_activities := map (\<lambda>r. r\<lparr>ar_activity_definition_id := ''a1'', ar_status := 3, ar_result := Some 1\<rparr>) (db_activities demo_db1)\<rparr>"

definition loop_ctx :: instance_ctx where
  "loop_ctx = \<lparr>cx_instance_id = 1, cx_tenant_id = 7, cx_facility_id = 9, cx_snapshot = loop_snapshot, cx_context = None,
      cx_business_type = ''leave'', cx_business_key = ''K1'', cx_reference_no = ''R1''\<rparr>"

theorem join_into_itself_never_returns_witness:
  "\<forall>fuel. apply_outcome demo_env demo_svc fuel loop_ctx (Advance ''join'' None) empty_trace
     (activity_model demo_env (hd (db_activities loop_db))) 1 loop_db = None"
  by (rule join_into_itself_never_returns [where a = 2, THEN conjunct2])
    (simp_all add: loop_ctx_def activity_model_def loop_db_def demo_db1_def for_each_branch_count_def events_of_def
      count_completed_branches_def count_where_def event_neq)

section \<open>A fan-out over nothing\<close>

definition empty_nodes :: "workflow_node list" where
  "empty_nodes =
     [demo_node ''start'' NcStart, demo_node ''a0'' (NcApproval (Some ''clerk'') None None None),
      demo_node ''each'' (NcForEach ''rows'' ''item'' ''join'' None), demo_node ''item'' (NcApproval (Some ''lead'') None None None),
      demo_node ''join'' (NcParallelJoin WaitAny), demo_node ''end'' (NcEnd (Some ''approved''))]"

definition empty_edges :: "workflow_transition list" where
  "empty_edges =
     [demo_edge ''start'' SigApproved ''a0'', demo_edge ''a0'' SigApproved ''each'', demo_edge ''item'' SigApproved ''join'',
      demo_edge ''join'' SigApproved ''end'']"

definition empty_snapshot :: definition_snapshot where
  "empty_snapshot = \<lparr>ds_flow_type = ''rows'', ds_version = 1, ds_nodes = empty_nodes, ds_transitions = empty_edges, ds_max_round = 3\<rparr>"

definition empty_trace_each :: resolve_trace where
  "empty_trace_each = empty_trace\<lparr>for_each_fan_out := Some \<lparr>ff_for_each_node = ''each'', ff_join_target = ''join''\<rparr>\<rparr>"

lemma empty_valid: "validate_definition demo_cel empty_nodes empty_edges = Inr ()"
  by code_simp

lemma empty_decide: "decide_advance demo_cel empty_nodes empty_edges ''a0'' SigApproved (Some (JObj [(''rows'', JArr [])])) =
    (AdvanceMulti [], empty_trace_each)"
  by code_simp

definition empty_ctx :: instance_ctx where
  "empty_ctx = loop_ctx\<lparr>cx_snapshot := empty_snapshot, cx_context := Some (JObj [(''rows'', JArr [])])\<rparr>"

definition empty_rows_db :: db where
  "empty_rows_db = demo_db1\<lparr>db_activities := map (\<lambda>r. r\<lparr>ar_status := 3, ar_result := Some 1\<rparr>) (db_activities demo_db1)\<rparr>"

lemma empty_join: "ctx_node empty_ctx ''join'' = Inr (demo_node ''join'' (NcParallelJoin WaitAny))"
  by code_simp

lemma empty_expect: "join_expectation empty_ctx (demo_node ''join'' (NcParallelJoin WaitAny)) (Some 0) = Inr (0, [''item''])"
  by code_simp

lemma empty_ctx_sel: "cx_instance_id empty_ctx = 1" "cx_tenant_id empty_ctx = 7" "cx_facility_id empty_ctx = 9"
  "cx_context empty_ctx = Some (JObj [(''rows'', JArr [])])"
  by (simp_all add: empty_ctx_def loop_ctx_def)

lemma empty_strategy: "node_join_strategy (demo_node ''join'' (NcParallelJoin WaitAny)) = Some WaitAny"
  by code_simp

lemma empty_payload: "pg_text demo_env (obj [(''for_each_node'', JStr ''each''), (''join_node'', JStr ''join''), (''branch_count'', JInt 0),
     (''round'', JInt 1)]) ''join_node'' = Some ''join''"
  "pg_int demo_env (obj [(''for_each_node'', JStr ''each''), (''join_node'', JStr ''join''), (''branch_count'', JInt 0),
     (''round'', JInt 1)]) ''round'' = Some 1"
  "pg_int demo_env (obj [(''for_each_node'', JStr ''each''), (''join_node'', JStr ''join''), (''branch_count'', JInt 0),
     (''round'', JInt 1)]) ''branch_count'' = Some 0"
  by code_simp+

text \<open>
  A ForEach over an empty array whose join waits for any branch (or for n of them) leaves the
  instance stuck: validation accepts the definition, the advance fans out to no branch, and after it
  the instance is active with no active activity and no current activity, so no signal can reach it.
\<close>

theorem empty_fan_out_strands_instance:
  "validate_definition demo_cel empty_nodes empty_edges = Inr () \<and>
   decide_advance demo_cel empty_nodes empty_edges ''a0'' SigApproved (cx_context empty_ctx) = (AdvanceMulti [], empty_trace_each) \<and>
   (\<exists>db row. apply_outcome demo_env demo_svc (Suc fuel) empty_ctx (AdvanceMulti []) empty_trace_each
        (activity_model demo_env (hd (db_activities empty_rows_db))) 1 empty_rows_db = Some (Inr (), db) \<and>
      active_activities demo_env 1 db = [] \<and> find_instance db 1 = Some row \<and> ir_status row = 2 \<and> ir_current_activity_id row = None)"
proof -
  have run: "\<exists>db row. apply_outcome demo_env demo_svc (Suc fuel) empty_ctx (AdvanceMulti []) empty_trace_each src 1 empty_rows_db = Some (Inr (), db) \<and>
      active_activities demo_env 1 db = [] \<and> find_instance db 1 = Some row \<and> ir_status row = 2 \<and> ir_current_activity_id row = None" for src
    by (simp add: exec apply_outcome_step_def append_merges_def fan_out_def empty_trace_each_def empty_trace_def clear_current_activity_def empty_join try_satisfy_join_def
       empty_strategy for_each_branch_count_def empty_payload empty_expect demo_node_sel event_neq count_completed_branches_def
       empty_rows_db_def demo_db1_def empty_ctx_sel del: ctx_node_def cong: run_cong)
  show ?thesis using run by (simp add: empty_valid empty_decide empty_ctx_sel)
qed

section \<open>A rework in the log\<close>

lemma hoare_enter_returned:
  "hoare (St env sn i t L R) (tx_op (enter_returned_waiting i a)) (\<lambda>_ db. \<exists>L'. St env sn i t L' R db \<and> rp_activities L' = rp_activities L)"
  by (rule hoare_post [OF hoare_set_instances [where C = "\<lambda>r. ir_status r = 2" and C' = "\<lambda>x. ri_status x = WsActive" and
        f = "\<lambda>_ r. r\<lparr>ir_status := 6, ir_current_activity_id := Some a\<rparr>" and
        g = "\<lambda>x. x\<lparr>ri_status := WsReturnedWaiting, ri_current_activity_id := Some (uuid_str env a)\<rparr>"]])
    (auto simp: enter_returned_waiting_def live_instance_def ws_from_i16_def upd_inst_def)

definition rework_enter ::
  "('p, 'c, 'v) env \<Rightarrow> workflow_service \<Rightarrow> instance_ctx \<Rightarrow> string option \<Rightarrow> activity_instance \<Rightarrow> int \<Rightarrow> workflow_node \<Rightarrow> unit tx" where
  "rework_enter env svc ctx role src r node =
     tx_bind (schedule_activity env svc ctx node role r None) (\<lambda>activity.
     tx_bind (tx_lift (parse_uuid env (ai_id activity))) (\<lambda>a.
     tx_bind (tx_op (enter_returned_waiting (cx_instance_id ctx) a)) (\<lambda>ok.
     if \<not> ok then tx_fail (Conflict ''instance left 'active' before the rework hand-back'')
     else
       append_ev ctx ev_RETURNED_TO_REWORK
         (obj [(''from_node'', JStr (ai_activity_definition_id src)), (''rework_target'', JStr (node_id node)),
               (''round'', JInt r), (''activity_id'', JStr (ai_id activity)), (''assignee_role'', opt_str role)]) None)))"

lemma apply_rework_split:
  "apply_rework env svc ctx target role src =
     tx_bind (tx_read (max_round (cx_instance_id ctx))) (\<lambda>m.
     case check_round svc ctx (m + 1) of
       Inl e \<Rightarrow> tx_then (fail_instance ctx (flow_error_display e)) (tx_fail e)
     | Inr _ \<Rightarrow> tx_bind (tx_lift (ctx_node ctx target)) (rework_enter env svc ctx role src (m + 1)))"
  unfolding apply_rework_def rework_enter_def [abs_def] Let_def by (rule refl)

abbreviation counted_twice ::
  "('p, 'c, 'v) env \<Rightarrow> definition_snapshot \<Rightarrow> uuid \<Rightarrow> timestamp \<Rightarrow> replayed_projection \<Rightarrow> replayed_projection \<Rightarrow> db \<Rightarrow> bool" where
  "counted_twice env sn i t L R db \<equiv> \<exists>L' R'. St env sn i t L' R' db \<and>
     length (rp_activities L') = length (rp_activities L) + 1 \<and> length (rp_activities R') = length (rp_activities R) + 2"

lemma hoare_rework_enter:
  assumes u: "uuid_text_ok env" and i: "cx_instance_id ctx = i" and n: "in_snapshot sn node" and r: "in_i32 r"
  shows "hoare (St env sn i t L R) (rework_enter env svc ctx role src r node) (\<lambda>_. counted_twice env sn i t L R)"
  unfolding rework_enter_def i
proof (rule hoare_bind [OF hoare_schedule_activity [OF u i n r]], rule hoare_pure, rule hoare_lift,
    intro hoare_bind [OF hoare_enter_returned] hoare_if hoare_fail hoare_ex, rule hoare_pure)
  fix act and L' :: replayed_projection
  let ?R = "log_step sn t ev_ACTIVITY_SCHEDULED
     (scheduled_payload (ai_id act) (node_id node) (instantiated_activity_type (kind node)) r role None) R"
  assume L': "rp_activities L' = rp_activities (scheduled sn node role r (ai_id act) L)"
  have len: "length (rp_activities L') = Suc (length (rp_activities L))" "length (rp_activities ?R) = Suc (length (rp_activities R))"
    unfolding L' by (simp_all add: scheduled_def upd_acts_def replay_scheduled_payload [OF r])
  show "hoare (St env sn i t L' ?R) (append_ev ctx ev_RETURNED_TO_REWORK p None) (\<lambda>_. counted_twice env sn i t L R)" for p
  proof (rule hoare_post [OF hoare_append [OF i]])
    fix x :: unit and db
    let ?R' = "log_step sn t ev_RETURNED_TO_REWORK p ?R"
    assume "St env sn i t L' ?R' db"
    moreover have "length (rp_activities ?R') = length (rp_activities R) + 2"
      using len(2) by (simp only: log_step_def replay_event_simps replay_returned_def Let_def) simp
    ultimately show "counted_twice env sn i t L R db" using len(1) by auto
  qed
qed

lemma hoare_rework_counts:
  assumes u: "uuid_text_ok env" and c: "ctx_of sn i ctx" and lim: "rounds_limited svc"
  shows "hoare (St env sn i t L R) (apply_rework env svc ctx target role src) (\<lambda>_. counted_twice env sn i t L R)"
proof -
  have i: "cx_instance_id ctx = i" and s: "cx_snapshot ctx = sn" using c by (simp_all add: ctx_of_def)
  have step: "hoare (\<lambda>db. St env sn i t L R db \<and> max_round i db = m) (case check_round svc ctx (m + 1) of
       Inl e \<Rightarrow> tx_then (fail_instance ctx (flow_error_display e)) (tx_fail e)
     | Inr _ \<Rightarrow> tx_bind (tx_lift (ctx_node ctx target)) (rework_enter env svc ctx role src (m + 1))) (\<lambda>_. counted_twice env sn i t L R)" for m
  proof (cases "check_round svc ctx (m + 1)")
    case (Inl e)
    then show ?thesis
      by (simp add: tx_then_def) (auto simp: hoare_def tx_bind_def tx_fail_def split: option.splits sum.splits prod.splits)
  next
    case (Inr v)
    have "in_i32 (m + 1)" if "St env sn i t L R db" "max_round i db = m" for db
      using max_round_i32 [OF that(1)] that(2) check_round_bound [OF lim, of ctx "m + 1"] Inr by (simp add: in_i32_def)
    then have "hoare (\<lambda>db. St env sn i t L R db \<and> max_round i db = m) (rework_enter env svc ctx role src (m + 1) node)
        (\<lambda>_. counted_twice env sn i t L R)" if "in_snapshot sn node" for node
      using hoareD [OF hoare_rework_enter [OF u i that]] by (simp add: hoare_def) metis
    then show ?thesis
      unfolding Inr sum.case using ctx_node_in_snapshot [OF _ s] by (intro hoare_lift) simp
  qed
  show ?thesis unfolding apply_rework_split i by (rule hoare_read, rule step)
qed

text \<open>
  After every rework the event log tells one activity more than there is: the handler writes both
  an ACTIVITY_SCHEDULED and a RETURNED_TO_REWORK event for the one activity it creates, and the fold
  makes an activity of each.
\<close>

theorem rework_replays_twice:
  assumes "uuid_text_ok env" "rounds_limited svc" "ctx_of sn i ctx" "wf_db env sn i (db_now db) db"
    and "apply_rework env svc ctx target role src db = Some (Inr (), db')"
  shows "length (rp_activities (live_projection env i db')) = length (rp_activities (live_projection env i db)) + 1 \<and>
     length (rp_activities (folded_projection sn i db')) = length (rp_activities (folded_projection sn i db)) + 2"
proof -
  have "St env sn i (db_now db) (live_projection env i db) (folded_projection sn i db) db" using assms(4) by (simp add: St_def)
  from hoareD [OF hoare_rework_counts [OF assms(1,3,2)] this assms(5)] show ?thesis by (auto simp: St_def)
qed

definition rework_ctx :: instance_ctx where
  "rework_ctx = loop_ctx\<lparr>cx_snapshot := demo_linear\<rparr>"

lemma rework_ctx_sel: "cx_instance_id rework_ctx = 1" "cx_tenant_id rework_ctx = 7" "cx_facility_id rework_ctx = 9"
  "cx_snapshot rework_ctx = demo_linear"
  by (simp_all add: rework_ctx_def loop_ctx_def)

lemma rework_round: "check_round demo_svc rework_ctx 2 = Inr ()"
  by code_simp

theorem rework_replays_twice_witness:
  "\<exists>db. apply_rework demo_env demo_svc rework_ctx ''a0'' (Some ''clerk'') (activity_model demo_env (hd (db_activities demo_db1))) demo_db1 =
       Some (Inr (), db) \<and> length (rp_activities (live_projection demo_env 1 db)) = 2 \<and> length (rp_activities (folded_projection demo_linear 1 db)) = 3"
proof -
  obtain db where run: "apply_rework demo_env demo_svc rework_ctx ''a0'' (Some ''clerk'')
      (activity_model demo_env (hd (db_activities demo_db1))) demo_db1 = Some (Inr (), db)"
    by (simp add: exec apply_rework_def max_round_def rework_round enter_returned_waiting_def demo_linear_nodes demo_node_sel demo_a0
        rework_ctx_sel demo_kind demo_db1_def cong: run_cong)
  obtain r where r: "r \<in> set (db_instances demo_db1)" "ir_definition_snapshot r = JStr ''linear''" "ir_id r = 1" by (rule demo_db1_row)
  have "engine_inv demo_env demo_db1" by (rule reachable_inv [OF demo_reachable(1) demo_uuids demo_codec demo_rounds])
  then have "Syn demo_env demo_linear 1 (db_now demo_db1) settled demo_db1"
    using r demo_rework_free unfolding engine_inv_def replays_def by (metis demo_env_simps(5))
  then have w: "wf_db demo_env demo_linear 1 (db_now demo_db1) demo_db1"
    and ag: "folded_projection demo_linear 1 demo_db1 = live_projection demo_env 1 demo_db1"
    by (auto simp: Syn_def St_def demo_join_free agrees_exact)
  have one: "length (rp_activities (live_projection demo_env 1 demo_db1)) = 1"
    by (simp add: live_projection_def find_instance_def activities_of_def demo_db1_def)
  have "ctx_of demo_linear 1 rework_ctx" by (simp add: ctx_of_def rework_ctx_sel)
  from rework_replays_twice [OF demo_uuids demo_rounds this w run, unfolded ag one] run show ?thesis
    by (intro exI [of _ db]) simp
qed

end
