(* ===== verification/Common_Text.thy ===== *)
theory Common_Text
  imports Flow_Prelude Flow_Json
begin

text \<open>
  The string operations of the standard library that the framework crates use (prefixes, trimming,
  splitting, ASCII case, searching), on ASCII strings, with the characterisations their clients need.
\<close>

section \<open>Text\<close>

fun strip_prefix :: "string \<Rightarrow> string \<Rightarrow> string option" where
  "strip_prefix [] s = Some s"
| "strip_prefix (c # p) [] = None"
| "strip_prefix (c # p) (d # s) = (if c = d then strip_prefix p s else None)"

definition has_prefix :: "string \<Rightarrow> string \<Rightarrow> bool" where
  "has_prefix s p \<longleftrightarrow> strip_prefix p s \<noteq> None"

definition trim_start :: "string \<Rightarrow> string" where
  "trim_start s = dropWhile is_space_char s"

definition trim_str :: "string \<Rightarrow> string" where
  "trim_str s = rev (dropWhile is_space_char (rev (dropWhile is_space_char s)))"

fun split_on :: "char \<Rightarrow> string \<Rightarrow> string list" where
  "split_on c [] = [[]]"
| "split_on c (d # s) =
     (if d = c then [] # split_on c s
      else (case split_on c s of [] \<Rightarrow> [[d]] | x # xs \<Rightarrow> (d # x) # xs))"

definition split_once :: "char \<Rightarrow> string \<Rightarrow> (string \<times> string) option" where
  "split_once c s =
     (case dropWhile (\<lambda>d. d \<noteq> c) s of
        [] \<Rightarrow> None
      | _ # rest \<Rightarrow> Some (takeWhile (\<lambda>d. d \<noteq> c) s, rest))"

text \<open>The part before and after the last \<open>c\<close>: \<open>rfind\<close> and the two slices.\<close>

definition rsplit_once :: "char \<Rightarrow> string \<Rightarrow> (string \<times> string) option" where
  "rsplit_once c s =
     map_option (\<lambda>(a, b). (rev b, rev a)) (split_once c (rev s))"

definition lower_char :: "char \<Rightarrow> char" where
  "lower_char c = (if 65 \<le> (of_char c :: nat) \<and> (of_char c :: nat) \<le> 90 then char_of ((of_char c :: nat) + 32) else c)"

definition to_ascii_lowercase :: "string \<Rightarrow> string" where
  "to_ascii_lowercase s = map lower_char s"

definition trim_end_slash :: "string \<Rightarrow> string" where
  "trim_end_slash s = rev (dropWhile (\<lambda>c. c = CHR ''/'') (rev s))"

text \<open>A 64-bit result and \<open>u64 as i64\<close> keep the low bits and read them as two's complement.\<close>

definition wrap_i64 :: "int \<Rightarrow> int" where
  "wrap_i64 n = (n + 2 ^ 63) mod 2 ^ 64 - 2 ^ 63"

lemma wrap_i64_id: "- (2 ^ 63) \<le> n \<Longrightarrow> n < 2 ^ 63 \<Longrightarrow> wrap_i64 n = n"
  by (simp add: wrap_i64_def)

fun find_map :: "('a \<Rightarrow> 'c option) \<Rightarrow> 'a list \<Rightarrow> 'c option" where
  "find_map f [] = None"
| "find_map f (x # xs) = (case f x of None \<Rightarrow> find_map f xs | Some y \<Rightarrow> Some y)"

fun contains_str :: "string \<Rightarrow> string \<Rightarrow> bool" where
  "contains_str p [] = (p = [])"
| "contains_str p (c # s) = (has_prefix (c # s) p \<or> contains_str p s)"

section \<open>Characterisations\<close>

lemma dropWhile_eq_tail: "dropWhile (\<lambda>d. d \<noteq> c) (s @ c # rest) = c # rest" if "c \<notin> set s"
  using that by (induction s) auto

lemma takeWhile_eq_head: "takeWhile (\<lambda>d. d \<noteq> c) (s @ c # rest) = s" if "c \<notin> set s"
  using that by (induction s) auto

lemma split_once_Some_iff: "split_once c s = Some (a, b) \<longleftrightarrow> s = a @ c # b \<and> c \<notin> set a"
proof
  assume "split_once c s = Some (a, b)"
  then obtain d where d: "dropWhile (\<lambda>d. d \<noteq> c) s = d # b" and a: "a = takeWhile (\<lambda>d. d \<noteq> c) s"
    by (auto simp: split_once_def split: list.splits)
  then have "d = c" using hd_dropWhile [of "\<lambda>d. d \<noteq> c" s] by auto
  with a d have "s = a @ c # b" by (metis takeWhile_dropWhile_id)
  moreover have "c \<notin> set a" using a by (auto dest: set_takeWhileD)
  ultimately show "s = a @ c # b \<and> c \<notin> set a" by simp
next
  assume "s = a @ c # b \<and> c \<notin> set a"
  then show "split_once c s = Some (a, b)"
    by (simp add: split_once_def dropWhile_eq_tail takeWhile_eq_head)
qed

lemma rsplit_once_Some_iff: "rsplit_once c s = Some (a, b) \<longleftrightarrow> s = a @ c # b \<and> c \<notin> set b"
proof -
  have "rsplit_once c s = Some (a, b) \<longleftrightarrow> split_once c (rev s) = Some (rev b, rev a)"
    by (auto simp: rsplit_once_def)
  also have "\<dots> \<longleftrightarrow> rev s = rev b @ c # rev a \<and> c \<notin> set b" by (simp add: split_once_Some_iff)
  also have "rev s = rev b @ c # rev a \<longleftrightarrow> s = a @ c # b"
    by (metis append.assoc append_Cons append_Nil rev.simps(2) rev_append rev_rev_ident)
  finally show ?thesis .
qed

lemma strip_prefix_Some_iff: "strip_prefix p s = Some r \<longleftrightarrow> s = p @ r"
  by (induction p s rule: strip_prefix.induct) auto

lemma has_prefix_iff: "has_prefix s p \<longleftrightarrow> (\<exists>r. s = p @ r)"
  by (auto simp: has_prefix_def strip_prefix_Some_iff)

text \<open>
  Objects of JSON as sorted maps: what \<open>map_insert\<close> and a loop of it do to the keys. Shared by the
  stored contexts of the graph executor and by the requests of the providers.
\<close>

lemma map_insert_last: "\<forall>k'\<in>set (map fst m). k' < k \<Longrightarrow> map_insert k v m = m @ [(k, v)]"
  by (induction k v m rule: map_insert.induct) (auto dest: order.asym)

lemma fold_insert_sorted:
  "sorted_wrt (<) (map fst (m0 @ m)) \<Longrightarrow> fold (\<lambda>(k, v). map_insert k v) m m0 = m0 @ m"
proof (induction m arbitrary: m0)
  case (Cons a m)
  obtain k v where a: "a = (k, v)" by (cases a)
  have "map_insert k v m0 = m0 @ [(k, v)]"
    using Cons.prems by (intro map_insert_last) (auto simp: sorted_wrt_append a)
  with Cons.IH [of "m0 @ [a]"] Cons.prems show ?case by (simp add: a)
qed simp

lemma map_insert_keys: "set (map fst (map_insert k v m)) = insert k (set (map fst m))"
  by (induction k v m rule: map_insert.induct) auto

lemma map_insert_sorted: "sorted_wrt (<) (map fst m) \<Longrightarrow> sorted_wrt (<) (map fst (map_insert k v m))"
proof (induction k v m rule: map_insert.induct)
  case (2 k v k' v' m)
  show ?case
  proof (cases "k < k' \<or> k = k'")
    case True
    with 2(2) show ?thesis by (auto dest: order.strict_trans)
  next
    case False
    then have "k' < k" by (meson linorder_less_linear)
    with False 2 show ?thesis using map_insert_keys [of k v m] by simp
  qed
qed simp

lemma fold_map_insert_sorted:
  "sorted_wrt (<) (map fst m) \<Longrightarrow> sorted_wrt (<) (map fst (fold (\<lambda>(k, v). map_insert k v) kvs m))"
  by (induction kvs arbitrary: m) (auto simp: map_insert_sorted)

lemma fold_map_insert_keys:
  "set (map fst (fold (\<lambda>(k, v). map_insert k v) kvs m)) = set (map fst kvs) \<union> set (map fst m)"
proof (induction kvs arbitrary: m)
  case (Cons a kvs)
  then show ?case using map_insert_keys [of "fst a" "snd a" m] by (cases a) (auto simp del: set_map)
qed simp

lemma sorted_keys_distinct: "sorted_wrt (<) xs \<Longrightarrow> distinct (xs :: string list)"
  by (induction xs) auto

section \<open>Decoding\<close>

text \<open>
  What serde derives for a structure, one field at a time: a required string, an optional field, the
  number types, a list of elements that must all decode.
\<close>

definition string_field :: "json_map \<Rightarrow> string \<Rightarrow> string option" where
  "string_field m k = Option.bind (map_of m k) as_str"

text \<open>A string that is empty when absent.\<close>

definition default_string :: "json_map \<Rightarrow> string \<Rightarrow> string option" where
  "default_string m k = (case map_of m k of None \<Rightarrow> Some [] | Some v \<Rightarrow> as_str v)"

text \<open>An optional field: absent or null is none, any other value must decode.\<close>

definition opt_field :: "(json \<Rightarrow> 'a option) \<Rightarrow> json_map \<Rightarrow> string \<Rightarrow> 'a option option" where
  "opt_field dec m k =
     (case map_of m k of
        None \<Rightarrow> Some None
      | Some JNull \<Rightarrow> Some None
      | Some v \<Rightarrow> map_option Some (dec v))"

fun as_u64 :: "json \<Rightarrow> int option" where
  "as_u64 (JInt n) = (if 0 \<le> n \<and> n < 2 ^ 64 then Some n else None)"
| "as_u64 _ = None"

fun as_number :: "json \<Rightarrow> json option" where
  "as_number (JInt n) = Some (JInt n)"
| "as_number (JFloat s) = Some (JFloat s)"
| "as_number _ = None"

fun all_some :: "'a option list \<Rightarrow> 'a list option" where
  "all_some [] = Some []"
| "all_some (None # xs) = None"
| "all_some (Some x # xs) = map_option (Cons x) (all_some xs)"

lemma all_some_map: "(\<And>x. x \<in> set xs \<Longrightarrow> f x = Some (g x)) \<Longrightarrow> all_some (map f xs) = Some (map g xs)"
  by (induction xs) auto

end
