(* ===== verification/Ai_Context.thy ===== *)
theory Ai_Context
  imports Common_Text
begin

text \<open>
  crates/fusion-ai/src/graph_flow/context.rs: the chat history with its limit and the context that
  tasks share. A \<open>Context\<close> is a pair of shared pointers, so a clone of it is the same context: the
  model keeps the cells of all contexts in a heap and lets a context be a reference into it. The clock
  of a message and the text form of a time are parameters.
\<close>

section \<open>Messages\<close>

datatype message_role = RoleUser | RoleAssistant | RoleSystem

record chat_message =
  cm_role :: message_role
  cm_content :: string
  cm_timestamp :: int

definition message_new :: "message_role \<Rightarrow> string \<Rightarrow> int \<Rightarrow> chat_message" where
  "message_new r c now = \<lparr>cm_role = r, cm_content = c, cm_timestamp = now\<rparr>"

section \<open>The chat history\<close>

record chat_history =
  ch_messages :: "chat_message list"
  ch_max_messages :: "nat option"

definition history_new :: chat_history where
  "history_new = \<lparr>ch_messages = [], ch_max_messages = Some 1000\<rparr>"

definition history_with_max :: "nat \<Rightarrow> chat_history" where
  "history_with_max n = \<lparr>ch_messages = [], ch_max_messages = Some n\<rparr>"

text \<open>\<open>drain(0..len - max)\<close> after the push.\<close>

definition add_message :: "chat_message \<Rightarrow> chat_history \<Rightarrow> chat_history" where
  "add_message m h =
     (let ms = ch_messages h @ [m]
      in h\<lparr>ch_messages :=
           (case ch_max_messages h of
              None \<Rightarrow> ms
            | Some n \<Rightarrow> if length ms > n then drop (length ms - n) ms else ms)\<rparr>)"

definition history_clear :: "chat_history \<Rightarrow> chat_history" where
  "history_clear h = h\<lparr>ch_messages := []\<rparr>"

definition history_len :: "chat_history \<Rightarrow> nat" where
  "history_len h = length (ch_messages h)"

definition history_is_empty :: "chat_history \<Rightarrow> bool" where
  "history_is_empty h \<longleftrightarrow> ch_messages h = []"

definition last_messages :: "nat \<Rightarrow> chat_history \<Rightarrow> chat_message list" where
  "last_messages n h =
     (let start = (if length (ch_messages h) > n then length (ch_messages h) - n else 0)
      in drop start (ch_messages h))"

section \<open>Contexts\<close>

record context_cell =
  cc_data :: json_map
  cc_chat :: chat_history

type_synonym context_ref = nat

record context_heap =
  hp_cells :: "context_ref \<Rightarrow> context_cell"
  hp_next :: context_ref

definition cell_of :: "context_ref \<Rightarrow> context_heap \<Rightarrow> context_cell" where
  "cell_of c hp = hp_cells hp c"

definition put_cell :: "context_ref \<Rightarrow> context_cell \<Rightarrow> context_heap \<Rightarrow> context_heap" where
  "put_cell c x hp = hp\<lparr>hp_cells := (hp_cells hp)(c := x)\<rparr>"

definition alloc_context :: "context_cell \<Rightarrow> context_heap \<Rightarrow> context_ref \<times> context_heap" where
  "alloc_context x hp = (hp_next hp, (put_cell (hp_next hp) x hp)\<lparr>hp_next := Suc (hp_next hp)\<rparr>)"

definition context_new :: "context_heap \<Rightarrow> context_ref \<times> context_heap" where
  "context_new = alloc_context \<lparr>cc_data = [], cc_chat = history_new\<rparr>"

definition with_max_chat_messages :: "nat \<Rightarrow> context_heap \<Rightarrow> context_ref \<times> context_heap" where
  "with_max_chat_messages n = alloc_context \<lparr>cc_data = [], cc_chat = history_with_max n\<rparr>"

text \<open>\<open>set\<close> and \<open>set_sync\<close>, on a value that serialises (they panic otherwise); \<open>get\<close> and \<open>get_sync\<close>
  with the decoder of the type asked for, a value that does not decode being absent.\<close>

definition ctx_set :: "string \<Rightarrow> json \<Rightarrow> context_ref \<Rightarrow> context_heap \<Rightarrow> context_heap" where
  "ctx_set k v c hp = put_cell c ((cell_of c hp)\<lparr>cc_data := map_insert k v (cc_data (cell_of c hp))\<rparr>) hp"

definition ctx_get :: "(json \<Rightarrow> 'a option) \<Rightarrow> string \<Rightarrow> context_ref \<Rightarrow> context_heap \<Rightarrow> 'a option" where
  "ctx_get decode k c hp = Option.bind (map_of (cc_data (cell_of c hp)) k) decode"

definition ctx_remove :: "string \<Rightarrow> context_ref \<Rightarrow> context_heap \<Rightarrow> json option \<times> context_heap" where
  "ctx_remove k c hp =
     (map_of (cc_data (cell_of c hp)) k,
      put_cell c ((cell_of c hp)\<lparr>cc_data := filter (\<lambda>(k', _). k' \<noteq> k) (cc_data (cell_of c hp))\<rparr>) hp)"

definition ctx_clear :: "context_ref \<Rightarrow> context_heap \<Rightarrow> context_heap" where
  "ctx_clear c hp = put_cell c ((cell_of c hp)\<lparr>cc_data := []\<rparr>) hp"

definition ctx_add_message :: "message_role \<Rightarrow> string \<Rightarrow> int \<Rightarrow> context_ref \<Rightarrow> context_heap \<Rightarrow> context_heap" where
  "ctx_add_message r content now c hp =
     put_cell c ((cell_of c hp)\<lparr>cc_chat := add_message (message_new r content now) (cc_chat (cell_of c hp))\<rparr>) hp"

definition ctx_clear_chat :: "context_ref \<Rightarrow> context_heap \<Rightarrow> context_heap" where
  "ctx_clear_chat c hp = put_cell c ((cell_of c hp)\<lparr>cc_chat := history_clear (cc_chat (cell_of c hp))\<rparr>) hp"

definition ctx_chat_history :: "context_ref \<Rightarrow> context_heap \<Rightarrow> chat_history" where
  "ctx_chat_history c hp = cc_chat (cell_of c hp)"

definition ctx_chat_len :: "context_ref \<Rightarrow> context_heap \<Rightarrow> nat" where
  "ctx_chat_len c hp = history_len (cc_chat (cell_of c hp))"

definition ctx_chat_is_empty :: "context_ref \<Rightarrow> context_heap \<Rightarrow> bool" where
  "ctx_chat_is_empty c hp = history_is_empty (cc_chat (cell_of c hp))"

definition ctx_all_messages :: "context_ref \<Rightarrow> context_heap \<Rightarrow> chat_message list" where
  "ctx_all_messages c hp = ch_messages (cc_chat (cell_of c hp))"

text \<open>Messages for the model: a system message travels as a user message with a prefix.\<close>

datatype llm_message = LlmUser string | LlmAssistant string

definition to_message :: "chat_message \<Rightarrow> llm_message" where
  "to_message m =
     (case cm_role m of
        RoleUser \<Rightarrow> LlmUser (cm_content m)
      | RoleAssistant \<Rightarrow> LlmAssistant (cm_content m)
      | RoleSystem \<Rightarrow> LlmUser (''[SYSTEM] '' @ cm_content m))"

definition ctx_get_messages :: "context_ref \<Rightarrow> context_heap \<Rightarrow> llm_message list" where
  "ctx_get_messages c hp = map to_message (ctx_all_messages c hp)"

definition ctx_last_messages :: "nat \<Rightarrow> context_ref \<Rightarrow> context_heap \<Rightarrow> llm_message list" where
  "ctx_last_messages n c hp = map to_message (last_messages n (cc_chat (cell_of c hp)))"

section \<open>Serialisation\<close>

fun role_json :: "message_role \<Rightarrow> json" where
  "role_json RoleUser = JStr ''USER''"
| "role_json RoleAssistant = JStr ''ASSISTANT''"
| "role_json RoleSystem = JStr ''SYSTEM''"

definition role_of_json :: "json \<Rightarrow> message_role option" where
  "role_of_json j =
     (if j = JStr ''USER'' then Some RoleUser else if j = JStr ''ASSISTANT'' then Some RoleAssistant
      else if j = JStr ''SYSTEM'' then Some RoleSystem else None)"

text \<open>\<open>ts_str\<close> and \<open>ts_parse\<close> are chrono's text form of a time.\<close>

definition message_ser :: "(int \<Rightarrow> string) \<Rightarrow> chat_message \<Rightarrow> json" where
  "message_ser ts_str m =
     obj [(''role'', role_json (cm_role m)), (''content'', JStr (cm_content m)), (''timestamp'', JStr (ts_str (cm_timestamp m)))]"

definition message_de :: "(string \<Rightarrow> int option) \<Rightarrow> json \<Rightarrow> chat_message option" where
  "message_de ts_parse j =
     Option.bind (Option.bind (json_get ''role'' j) role_of_json) (\<lambda>r.
     Option.bind (Option.bind (json_get ''content'' j) as_str) (\<lambda>c.
     Option.bind (Option.bind (Option.bind (json_get ''timestamp'' j) as_str) ts_parse) (\<lambda>t.
     Some \<lparr>cm_role = r, cm_content = c, cm_timestamp = t\<rparr>)))"

definition history_ser :: "(int \<Rightarrow> string) \<Rightarrow> chat_history \<Rightarrow> json" where
  "history_ser ts_str h =
     obj [(''messages'', JArr (map (message_ser ts_str) (ch_messages h))),
          (''max_messages'', case ch_max_messages h of None \<Rightarrow> JNull | Some n \<Rightarrow> JInt (int n))]"

text \<open>An absent or null limit is \<open>None\<close>; a limit is a \<open>usize\<close>.\<close>

definition limit_of_json :: "json option \<Rightarrow> nat option option" where
  "limit_of_json j =
     (case j of
        None \<Rightarrow> Some None
      | Some JNull \<Rightarrow> Some None
      | Some (JInt n) \<Rightarrow> if 0 \<le> n \<and> n < 2 ^ 64 then Some (Some (nat n)) else None
      | _ \<Rightarrow> None)"

definition history_de :: "(string \<Rightarrow> int option) \<Rightarrow> json \<Rightarrow> chat_history option" where
  "history_de ts_parse j =
     Option.bind (Option.bind (json_get ''messages'' j) as_array) (\<lambda>ms.
     Option.bind (all_some (map (message_de ts_parse) ms)) (\<lambda>messages.
     Option.bind (limit_of_json (json_get ''max_messages'' j)) (\<lambda>limit.
     Some \<lparr>ch_messages = messages, ch_max_messages = limit\<rparr>)))"

definition context_ser :: "(int \<Rightarrow> string) \<Rightarrow> context_cell \<Rightarrow> json" where
  "context_ser ts_str x = obj [(''data'', JObj (cc_data x)), (''chatHistory'', history_ser ts_str (cc_chat x))]"

definition context_de :: "(string \<Rightarrow> int option) \<Rightarrow> json \<Rightarrow> context_cell option" where
  "context_de ts_parse j =
     Option.bind (Option.bind (json_get ''data'' j) as_object) (\<lambda>m.
     Option.bind (Option.bind (json_get ''chatHistory'' j) (history_de ts_parse)) (\<lambda>h.
     Some \<lparr>cc_data = fold (\<lambda>(k, v). map_insert k v) m [], cc_chat = h\<rparr>))"

section \<open>Facts\<close>

lemma cell_of_put [simp]: "cell_of c' (put_cell c x hp) = (if c' = c then x else cell_of c' hp)"
  by (simp add: cell_of_def put_cell_def)

lemma get_set: "ctx_get d k' c' (ctx_set k v c hp) = (if c' = c \<and> k' = k then d v else ctx_get d k' c' hp)"
  by (simp add: ctx_get_def ctx_set_def)

lemma ctx_set_frame [simp]: "c' \<noteq> c \<Longrightarrow> cell_of c' (ctx_set k v c hp) = cell_of c' hp"
  by (simp add: ctx_set_def)

text \<open>The messages kept are the newest ones.\<close>

lemma add_message_drop:
  assumes "ch_max_messages h = Some n" "ch_messages h = drop (length ms - n) ms"
  shows "ch_messages (add_message m h) = drop (length (ms @ [m]) - n) (ms @ [m])"
  using assms by (auto simp: add_message_def Let_def Suc_diff_le)

lemma add_messages_newest:
  assumes "ch_max_messages h = Some n" "ch_messages h = drop (length ms0 - n) ms0"
  shows "ch_messages (fold add_message ms h) = drop (length (ms0 @ ms) - n) (ms0 @ ms) \<and> ch_max_messages (fold add_message ms h) = Some n"
  using assms
proof (induction ms arbitrary: h ms0)
  case (Cons m ms)
  have "ch_max_messages (add_message m h) = Some n" using Cons.prems(1) by (simp add: add_message_def Let_def)
  from Cons.IH [OF this add_message_drop [OF Cons.prems]] show ?case by simp
qed simp

lemma message_roundtrip: "(\<And>t. ts_parse (ts_str t) = Some t) \<Longrightarrow> message_de ts_parse (message_ser ts_str m) = Some m"
  by (cases m; cases "cm_role m") (simp_all add: message_de_def message_ser_def json_get_obj role_of_json_def)

end
