(* ===== verification/Ai_Graph.thy ===== *)
theory Ai_Graph
  imports Ai_Context "HOL-Library.AList"
begin

text \<open>
  crates/fusion-ai/src/graph_flow/{error.rs, task.rs, graph.rs} and the \<open>Session\<close> of storage.rs:
  tasks, edges, the builder and the executor.

  A task is code outside the repository: a record of its id and of its \<open>run\<close>, which is told how
  long it may run, may read and write every context and the rest of the world (\<open>'w\<close>), and either
  finishes or does not finish in that time. An edge condition only reads. A \<open>HashMap\<close> of tasks is
  an association list with one entry per key.
\<close>

section \<open>Errors (error.rs)\<close>

datatype graph_error =
    TaskExecutionFailed string
  | GraphNotFound string
  | InvalidEdge string
  | TaskNotFound string
  | ContextError string
  | StorageError string
  | SessionNotFound string
  | OtherError string

text \<open>\<open>Display\<close>; \<open>OtherError\<close> carries the text of the error it wraps.\<close>

fun graph_error_text :: "graph_error \<Rightarrow> string" where
  "graph_error_text (TaskExecutionFailed s) = ''Task execution failed: '' @ s"
| "graph_error_text (GraphNotFound s) = ''Graph not found: '' @ s"
| "graph_error_text (InvalidEdge s) = ''Invalid edge: '' @ s"
| "graph_error_text (TaskNotFound s) = ''Task not found: '' @ s"
| "graph_error_text (ContextError s) = ''Context error: '' @ s"
| "graph_error_text (StorageError s) = ''Storage error: '' @ s"
| "graph_error_text (SessionNotFound s) = ''Session not found: '' @ s"
| "graph_error_text (OtherError s) = s"

section \<open>Task results (task.rs)\<close>

datatype next_action = Continue | ContinueAndExecute | GoTo string | GoBack | EndFlow | WaitForInput

record task_result =
  tr_response :: "string option"
  tr_next_action :: next_action
  tr_task_id :: string
  tr_status_message :: "string option"

definition task_result_new :: "string option \<Rightarrow> next_action \<Rightarrow> task_result" where
  "task_result_new r a = \<lparr>tr_response = r, tr_next_action = a, tr_task_id = [], tr_status_message = None\<rparr>"

definition task_result_with_status :: "string option \<Rightarrow> next_action \<Rightarrow> string option \<Rightarrow> task_result" where
  "task_result_with_status r a st = \<lparr>tr_response = r, tr_next_action = a, tr_task_id = [], tr_status_message = st\<rparr>"

definition move_to_next :: task_result where
  "move_to_next = task_result_new None Continue"

definition move_to_next_direct :: task_result where
  "move_to_next_direct = task_result_new None ContinueAndExecute"

type_synonym 'w machine = "'w \<times> context_heap"

datatype task_end = Finished "graph_error + task_result" | Elapsed

text \<open>A time is a number of nanoseconds; \<open>None\<close> is no limit.\<close>

record 'w task =
  t_id :: string
  t_run :: "nat option \<Rightarrow> context_ref \<Rightarrow> 'w machine \<Rightarrow> task_end \<times> 'w machine"

section \<open>The graph (graph.rs)\<close>

record edge =
  e_from :: string
  e_to :: string
  e_condition :: "(context_ref \<Rightarrow> context_heap \<Rightarrow> bool) option"

record 'w graph =
  g_id :: string
  g_tasks :: "(string \<times> 'w task) list"
  g_edges :: "edge list"
  g_start :: "string option"
  g_timeout :: nat

definition default_task_timeout :: nat where
  "default_task_timeout = 300 * 10 ^ 9"

definition graph_new :: "string \<Rightarrow> 'w graph" where
  "graph_new i = \<lparr>g_id = i, g_tasks = [], g_edges = [], g_start = None, g_timeout = default_task_timeout\<rparr>"

definition has_task :: "string \<Rightarrow> 'w graph \<Rightarrow> bool" where
  "has_task t g \<longleftrightarrow> map_of (g_tasks g) t \<noteq> None"

definition get_task :: "string \<Rightarrow> 'w graph \<Rightarrow> 'w task option" where
  "get_task t g = map_of (g_tasks g) t"

text \<open>The builder holds the fields of the graph it builds.\<close>

definition add_task :: "'w task \<Rightarrow> 'w graph \<Rightarrow> 'w graph" where
  "add_task t b =
     b\<lparr>g_start := (if g_tasks b = [] then Some (t_id t) else g_start b), g_tasks := AList.update (t_id t) t (g_tasks b)\<rparr>"

definition add_edge :: "string \<Rightarrow> string \<Rightarrow> 'w graph \<Rightarrow> 'w graph" where
  "add_edge f t b = b\<lparr>g_edges := g_edges b @ [\<lparr>e_from = f, e_to = t, e_condition = None\<rparr>]\<rparr>"

definition add_conditional_edge ::
  "string \<Rightarrow> (context_ref \<Rightarrow> context_heap \<Rightarrow> bool) \<Rightarrow> string \<Rightarrow> string \<Rightarrow> 'w graph \<Rightarrow> 'w graph" where
  "add_conditional_edge f p yes no b =
     b\<lparr>g_edges := g_edges b @ [\<lparr>e_from = f, e_to = yes, e_condition = Some p\<rparr>, \<lparr>e_from = f, e_to = no, e_condition = None\<rparr>]\<rparr>"

definition set_start_task :: "string \<Rightarrow> 'w graph \<Rightarrow> 'w graph" where
  "set_start_task t b = (if has_task t b then b\<lparr>g_start := Some t\<rparr> else b)"

definition with_task_timeout :: "nat \<Rightarrow> 'w graph \<Rightarrow> 'w graph" where
  "with_task_timeout n b = b\<lparr>g_timeout := n\<rparr>"

text \<open>What \<open>build\<close> warns of: no tasks, or tasks no edge touches.\<close>

datatype build_warning = NoTasks | NoEdges string

definition build_warnings :: "'w graph \<Rightarrow> build_warning list" where
  "build_warnings b =
     (if g_tasks b = [] then [NoTasks] else []) @
     (if length (g_tasks b) > 1
      then map NoEdges (filter (\<lambda>t. t \<notin> set (map e_from (g_edges b) @ map e_to (g_edges b))) (map fst (g_tasks b)))
      else [])"

definition build :: "'w graph \<Rightarrow> 'w graph" where
  "build b = \<lparr>g_id = g_id b, g_tasks = g_tasks b, g_edges = g_edges b, g_start = g_start b, g_timeout = g_timeout b\<rparr>"

text \<open>The loop over the edges: the first condition that holds wins, else the first edge without one.\<close>

fun next_edge :: "context_ref \<Rightarrow> context_heap \<Rightarrow> string option \<Rightarrow> edge list \<Rightarrow> string option" where
  "next_edge c hp fallback [] = fallback"
| "next_edge c hp fallback (e # es) =
     (case e_condition e of
        Some p \<Rightarrow> if p c hp then Some (e_to e) else next_edge c hp fallback es
      | None \<Rightarrow> if fallback = None then next_edge c hp (Some (e_to e)) es else next_edge c hp fallback es)"

definition find_next_task :: "'w graph \<Rightarrow> string \<Rightarrow> context_ref \<Rightarrow> context_heap \<Rightarrow> string option" where
  "find_next_task g t c hp = next_edge c hp None (filter (\<lambda>e. e_from e = t) (g_edges g))"

section \<open>One task\<close>

text \<open>\<open>{:?}\<close> of a \<open>Duration\<close>: the largest unit that fits, the fraction without its trailing zeros.\<close>

definition duration_part :: "nat \<Rightarrow> nat \<Rightarrow> nat \<Rightarrow> string \<Rightarrow> string" where
  "duration_part n unit digits suffix =
     (let frac = show_nat (n mod unit);
          padded = replicate (digits - length frac) (CHR ''0'') @ frac;
          trimmed = rev (dropWhile (\<lambda>x. x = CHR ''0'') (rev padded))
      in show_nat (n div unit) @ (if n mod unit = 0 then [] else CHR ''.'' # trimmed) @ suffix)"

definition duration_text :: "nat \<Rightarrow> string" where
  "duration_text n =
     (if n \<ge> 10 ^ 9 then duration_part n (10 ^ 9) 9 ''s''
      else if n \<ge> 10 ^ 6 then duration_part n (10 ^ 6) 6 ''ms''
      else if n \<ge> 10 ^ 3 then duration_part n (10 ^ 3) 3 [char_of (0xC2 :: nat), char_of (0xB5 :: nat), CHR ''s'']
      else show_nat n @ ''ns'')"

definition execute_single_task ::
  "'w graph \<Rightarrow> string \<Rightarrow> context_ref \<Rightarrow> 'w machine \<Rightarrow> (graph_error + task_result) \<times> 'w machine" where
  "execute_single_task g t c m =
     (case get_task t g of
        None \<Rightarrow> (Inl (TaskNotFound t), m)
      | Some task \<Rightarrow>
          (case t_run task (Some (g_timeout g)) c m of
             (Finished (Inr r), m') \<Rightarrow> (Inr (r\<lparr>tr_task_id := t\<rparr>), m')
           | (Finished (Inl e), m') \<Rightarrow>
               (Inl (TaskExecutionFailed (''Task '' @ quoted t @ '' failed: '' @ graph_error_text e)), m')
           | (Elapsed, m') \<Rightarrow>
               (Inl (TaskExecutionFailed (''Task '' @ quoted t @ '' timed out after '' @ duration_text (g_timeout g))), m')))"

section \<open>The executor\<close>

datatype execution_status = Paused string string | WaitingForInput | Completed | ExecError string

record execution_result =
  er_response :: "string option"
  er_status :: execution_status

text \<open>\<open>Session\<close> of storage.rs; its context is a reference.\<close>

record session =
  se_id :: string
  se_graph_id :: string
  se_current :: string
  se_status :: "string option"
  se_context :: context_ref

definition session_new_from_task :: "string \<Rightarrow> string \<Rightarrow> context_heap \<Rightarrow> session \<times> context_heap" where
  "session_new_from_task sid t hp =
     (let (c, hp') = context_new hp
      in (\<lparr>se_id = sid, se_graph_id = ''default'', se_current = t, se_status = None, se_context = c\<rparr>, hp'))"

text \<open>The session after a task that ends the step where it is (\<open>stay\<close>), with the status it reports.\<close>

definition stay :: "task_result \<Rightarrow> session \<Rightarrow> session" where
  "stay r s = s\<lparr>se_status := tr_status_message r, se_current := tr_task_id r\<rparr>"

definition move :: "task_result \<Rightarrow> string \<Rightarrow> session \<Rightarrow> session" where
  "move r t s = s\<lparr>se_status := tr_status_message r, se_current := t\<rparr>"

definition answer :: "task_result \<Rightarrow> execution_status \<Rightarrow> graph_error + execution_result" where
  "answer r st = Inr \<lparr>er_response = tr_response r, er_status = st\<rparr>"

definition no_edge_status :: "task_result \<Rightarrow> execution_status" where
  "no_edge_status r = Paused (tr_task_id r) ''No outgoing edge found from current task''"

text \<open>
  \<open>execute_session\<close>. The recursion of \<open>ContinueAndExecute\<close> has no bound in the source, so a step that
  never returns is \<open>None\<close>.
\<close>

partial_function (option) execute_session ::
  "'w graph \<Rightarrow> session \<Rightarrow> 'w machine \<Rightarrow> ((graph_error + execution_result) \<times> session \<times> 'w machine) option" where
  "execute_session g s m =
     (case execute_single_task g (se_current s) (se_context s) m of
        (Inl e, m') \<Rightarrow> Some (Inl e, s, m')
      | (Inr r, m') \<Rightarrow>
          (case tr_next_action r of
             Continue \<Rightarrow>
               (case find_next_task g (tr_task_id r) (se_context s) (snd m') of
                  Some t \<Rightarrow> Some (answer r (Paused t ''Task completed, continuing to next task''), move r t s, m')
                | None \<Rightarrow> Some (answer r (no_edge_status r), stay r s, m'))
           | ContinueAndExecute \<Rightarrow>
               (case find_next_task g (tr_task_id r) (se_context s) (snd m') of
                  Some t \<Rightarrow> execute_session g (move r t s) m'
                | None \<Rightarrow> Some (answer r (no_edge_status r), stay r s, m'))
           | WaitForInput \<Rightarrow> Some (answer r WaitingForInput, stay r s, m')
           | EndFlow \<Rightarrow> Some (answer r Completed, stay r s, m')
           | GoTo t \<Rightarrow>
               if has_task t g then Some (answer r (Paused t ''Task requested jump to specific task''), move r t s, m')
               else Some (Inl (TaskNotFound t), s\<lparr>se_status := tr_status_message r\<rparr>, m')
           | GoBack \<Rightarrow> Some (answer r WaitingForInput, stay r s, m')))"

text \<open>\<open>execute\<close>: the task runs without a time limit (a task that never ends makes the call never
  return), and its own error is passed on as it is.\<close>

partial_function (option) execute ::
  "'w graph \<Rightarrow> string \<Rightarrow> context_ref \<Rightarrow> 'w machine \<Rightarrow> ((graph_error + task_result) \<times> 'w machine) option" where
  "execute g t c m =
     (case get_task t g of
        None \<Rightarrow> Some (Inl (TaskNotFound t), m)
      | Some task \<Rightarrow>
          (case t_run task None c m of
             (Elapsed, m') \<Rightarrow> None
           | (Finished (Inl e), m') \<Rightarrow> Some (Inl e, m')
           | (Finished (Inr r0), m') \<Rightarrow>
               (let r = r0\<lparr>tr_task_id := t\<rparr>
                in case tr_next_action r of
                     Continue \<Rightarrow>
                       if tr_response r \<noteq> None then Some (Inr r, m')
                       else (case find_next_task g t c (snd m') of
                               Some t' \<Rightarrow> execute g t' c m'
                             | None \<Rightarrow> Some (Inr r, m'))
                   | GoTo t' \<Rightarrow> if has_task t' g then execute g t' c m' else Some (Inl (TaskNotFound t'), m')
                   | _ \<Rightarrow> Some (Inr r, m'))))"

end
