(* ===== verification/Ai_Runner.thy ===== *)
theory Ai_Runner
  imports Ai_Graph
begin

text \<open>
  crates/fusion-ai/src/graph_flow/{storage.rs, storage_postgres.rs, runner.rs}: the two session
  stores, the graph store, and the runner that loads a session, executes a step and saves it.

  The in-memory store keeps a session with its reference to the context; the PostgreSQL store keeps
  the JSON text of the context and builds a new context on every load. PostgreSQL's cast of a text to a
  UUID (its canonical text, or an error with its message), what its \<open>JSONB\<close> refuses (the character
  \<open>\u0000\<close>) and makes of a number that is not an integer, and the transaction's \<open>NOW()\<close> are parameters; a
  broken connection is not modelled.
\<close>

section \<open>The stores in memory (storage.rs)\<close>

text \<open>A \<open>DashMap\<close>.\<close>

type_synonym 'v dash_map = "string \<Rightarrow> 'v option"

definition memory_save_graph :: "string \<Rightarrow> 'w graph \<Rightarrow> 'w graph dash_map \<Rightarrow> 'w graph dash_map" where
  "memory_save_graph i g st = st(i \<mapsto> g)"

definition memory_get_graph :: "string \<Rightarrow> 'w graph dash_map \<Rightarrow> 'w graph option" where
  "memory_get_graph i st = st i"

definition memory_delete_graph :: "string \<Rightarrow> 'w graph dash_map \<Rightarrow> 'w graph dash_map" where
  "memory_delete_graph i st = st(i := None)"

text \<open>The operations of \<open>SessionStorage\<close>, over a store \<open>'st\<close>; each may touch the heap of contexts.\<close>

record 'st session_storage =
  ss_save :: "session \<Rightarrow> 'st \<Rightarrow> context_heap \<Rightarrow> (graph_error + 'st)"
  ss_get :: "string \<Rightarrow> 'st \<Rightarrow> context_heap \<Rightarrow> (graph_error + session option) \<times> context_heap"
  ss_delete :: "string \<Rightarrow> 'st \<Rightarrow> (graph_error + 'st)"

definition memory_save :: "session \<Rightarrow> session dash_map \<Rightarrow> context_heap \<Rightarrow> graph_error + session dash_map" where
  "memory_save s st hp = Inr (st(se_id s \<mapsto> s))"

definition memory_get ::
  "string \<Rightarrow> session dash_map \<Rightarrow> context_heap \<Rightarrow> (graph_error + session option) \<times> context_heap" where
  "memory_get i st hp = (Inr (st i), hp)"

definition memory_delete :: "string \<Rightarrow> session dash_map \<Rightarrow> graph_error + session dash_map" where
  "memory_delete i st = Inr (st(i := None))"

definition memory_storage :: "session dash_map session_storage" where
  "memory_storage = \<lparr>ss_save = memory_save, ss_get = memory_get, ss_delete = memory_delete\<rparr>"

section \<open>The store in PostgreSQL (storage_postgres.rs)\<close>

record session_row =
  sr_graph_id :: string
  sr_current :: string
  sr_status :: "string option"
  sr_context :: json
  sr_updated_at :: int

text \<open>The table, by its primary key.\<close>

type_synonym session_table = "string \<Rightarrow> session_row option"

record pg_env =
  pe_uuid :: "string \<Rightarrow> string + string"
  pe_ts_str :: "int \<Rightarrow> string"
  pe_ts_parse :: "string \<Rightarrow> int option"
  pe_refused :: "json \<Rightarrow> string option"
  pe_number :: "string \<Rightarrow> json"

text \<open>
  A document after its way through a \<open>JSONB\<close> column. It keeps the members of objects and arrays, strings,
  truth values and integers; a fraction is stored as a \<open>numeric\<close> and read back from that number's text,
  so \<open>1e16\<close> comes back as an integer.
\<close>

fun jsonb :: "(string \<Rightarrow> json) \<Rightarrow> json \<Rightarrow> json" where
  "jsonb num (JFloat x) = num x"
| "jsonb num (JArr xs) = JArr (map (jsonb num) xs)"
| "jsonb num (JObj m) = JObj (map (\<lambda>kv. (fst kv, jsonb num (snd kv))) m)"
| "jsonb num j = j"

definition row_of_session :: "pg_env \<Rightarrow> int \<Rightarrow> session \<Rightarrow> context_heap \<Rightarrow> session_row" where
  "row_of_session env now s hp =
     \<lparr>sr_graph_id = se_graph_id s, sr_current = se_current s, sr_status = se_status s,
      sr_context = jsonb (pe_number env) (context_ser (pe_ts_str env) (cell_of (se_context s) hp)), sr_updated_at = now\<rparr>"

text \<open>\<open>INSERT ... ON CONFLICT (id) DO UPDATE ... WHERE sessions.updated_at <= EXCLUDED.updated_at\<close>.\<close>

definition upsert_session :: "string \<Rightarrow> session_row \<Rightarrow> session_table \<Rightarrow> session_table" where
  "upsert_session k row tab =
     (case tab k of
        None \<Rightarrow> tab(k \<mapsto> row)
      | Some old \<Rightarrow> if sr_updated_at old \<le> sr_updated_at row then tab(k \<mapsto> row) else tab)"

definition pg_save :: "pg_env \<Rightarrow> int \<Rightarrow> session \<Rightarrow> session_table \<Rightarrow> context_heap \<Rightarrow> graph_error + session_table" where
  "pg_save env now s tab hp =
     (case pe_uuid env (se_id s) of
        Inl e \<Rightarrow> Inl (StorageError (''Failed to save session: '' @ e))
      | Inr k \<Rightarrow>
          (case pe_refused env (context_ser (pe_ts_str env) (cell_of (se_context s) hp)) of
             Some e \<Rightarrow> Inl (StorageError (''Failed to save session: '' @ e))
           | None \<Rightarrow> Inr (upsert_session k (row_of_session env now s hp) tab)))"

text \<open>\<open>de_error\<close> is serde's message.\<close>

definition pg_get ::
  "pg_env \<Rightarrow> (json \<Rightarrow> string) \<Rightarrow> string \<Rightarrow> session_table \<Rightarrow> context_heap \<Rightarrow> (graph_error + session option) \<times> context_heap" where
  "pg_get env de_error i tab hp =
     (case pe_uuid env i of
        Inl e \<Rightarrow> (Inl (StorageError (''Failed to fetch session: '' @ e)), hp)
      | Inr k \<Rightarrow>
          (case tab k of
             None \<Rightarrow> (Inr None, hp)
           | Some row \<Rightarrow>
               (case context_de (pe_ts_parse env) (sr_context row) of
                  None \<Rightarrow> (Inl (StorageError (''Context deserialization failed: '' @ de_error (sr_context row))), hp)
                | Some x \<Rightarrow>
                    (let (c, hp') = alloc_context x hp
                     in (Inr (Some \<lparr>se_id = k, se_graph_id = sr_graph_id row, se_current = sr_current row,
                                     se_status = sr_status row, se_context = c\<rparr>), hp')))))"

definition pg_delete :: "pg_env \<Rightarrow> string \<Rightarrow> session_table \<Rightarrow> graph_error + session_table" where
  "pg_delete env i tab =
     (case pe_uuid env i of
        Inl e \<Rightarrow> Inl (StorageError (''Failed to delete session: '' @ e))
      | Inr k \<Rightarrow> Inr (tab(k := None)))"

definition pg_storage :: "pg_env \<Rightarrow> (json \<Rightarrow> string) \<Rightarrow> int \<Rightarrow> session_table session_storage" where
  "pg_storage env de_error now =
     \<lparr>ss_save = pg_save env now, ss_get = pg_get env de_error, ss_delete = pg_delete env\<rparr>"

section \<open>The runner (runner.rs)\<close>

text \<open>
  \<open>FlowRunner::run\<close> in a world \<open>m\<close> and a store \<open>st\<close>. \<open>None\<close>: the step does not return.
\<close>

definition runner_run ::
  "'st session_storage \<Rightarrow> 'w graph \<Rightarrow> string \<Rightarrow> 'st \<Rightarrow> 'w machine \<Rightarrow>
   ((graph_error + execution_result) \<times> 'st \<times> 'w machine) option" where
  "runner_run store g i st m =
     (case ss_get store i st (snd m) of
        (Inl e, hp) \<Rightarrow> Some (Inl e, st, (fst m, hp))
      | (Inr None, hp) \<Rightarrow> Some (Inl (SessionNotFound i), st, (fst m, hp))
      | (Inr (Some s), hp) \<Rightarrow>
          (case execute_session g s (fst m, hp) of
             None \<Rightarrow> None
           | Some (Inl e, s', m') \<Rightarrow> Some (Inl e, st, m')
           | Some (Inr r, s', m') \<Rightarrow>
               (case ss_save store s' st (snd m') of
                  Inl e \<Rightarrow> Some (Inl e, st, m')
                | Inr st' \<Rightarrow> Some (Inr r, st', m'))))"

text \<open>
  crates/fusion-ai/src/graph_flow/fanout.rs: a task that runs its children concurrently on one
  context. The children are code outside the repository and run between the joins, so a run is
  given the list of what each \<open>join_next\<close> delivers: a step that changes the world the way the
  running children did since the last join and yields the outcome of the child that ended.
\<close>

record fan_out_task =
  fo_id :: string
  fo_prefix :: "string option"
  fo_next_action :: next_action

definition fan_out_new :: "string \<Rightarrow> fan_out_task" where
  "fan_out_new i = \<lparr>fo_id = i, fo_prefix = None, fo_next_action = Continue\<rparr>"

definition fan_out_with_prefix :: "string \<Rightarrow> fan_out_task \<Rightarrow> fan_out_task" where
  "fan_out_with_prefix p f = f\<lparr>fo_prefix := Some p\<rparr>"

definition fan_out_with_next_action :: "next_action \<Rightarrow> fan_out_task \<Rightarrow> fan_out_task" where
  "fan_out_with_next_action a f = f\<lparr>fo_next_action := a\<rparr>"

definition fan_key :: "fan_out_task \<Rightarrow> string \<Rightarrow> string \<Rightarrow> string" where
  "fan_key f child field =
     (case fo_prefix f of
        Some p \<Rightarrow> p @ ''.'' @ child @ ''.'' @ field
      | None \<Rightarrow> ''fanout.'' @ child @ ''.'' @ field)"

text \<open>\<open>{:?}\<close> of a string and of a \<open>NextAction\<close>.\<close>

definition debug_char :: "char \<Rightarrow> string" where
  "debug_char x =
     (let n = of_char x :: nat; b = char_of (92 :: nat)
      in if n = 0 then [b, CHR ''0'']
         else if n = 9 then [b, CHR ''t'']
         else if n = 10 then [b, CHR ''n'']
         else if n = 13 then [b, CHR ''r'']
         else if n = 34 \<or> n = 92 then [b, x]
         else if n < 32 \<or> n = 127 then [b, CHR ''u'', CHR ''{''] @ dropWhile (\<lambda>y. y = CHR ''0'') (hex_byte n) @ ''}''
         else [x])"

definition debug_string :: "string \<Rightarrow> string" where
  "debug_string s = [char_of (34 :: nat)] @ concat (map debug_char s) @ [char_of (34 :: nat)]"

fun debug_action :: "next_action \<Rightarrow> string" where
  "debug_action Continue = ''Continue''"
| "debug_action ContinueAndExecute = ''ContinueAndExecute''"
| "debug_action (GoTo t) = ''GoTo('' @ debug_string t @ '')''"
| "debug_action GoBack = ''GoBack''"
| "debug_action EndFlow = ''End''"
| "debug_action WaitForInput = ''WaitForInput''"

text \<open>What one join delivers: the panic or cancellation of a child, or its id and result.\<close>

datatype join_outcome = JoinError string | ChildDone string "graph_error + task_result"

type_synonym 'w join_step = "'w machine \<Rightarrow> join_outcome \<times> 'w machine"

definition machine_set :: "string \<Rightarrow> string \<Rightarrow> context_ref \<Rightarrow> 'w machine \<Rightarrow> 'w machine" where
  "machine_set k v c m = (fst m, ctx_set k (JStr v) c (snd m))"

definition store_child :: "fan_out_task \<Rightarrow> context_ref \<Rightarrow> string \<Rightarrow> task_result \<Rightarrow> 'w machine \<Rightarrow> 'w machine" where
  "store_child f c child tr m =
     (let m1 = (case tr_response tr of None \<Rightarrow> m | Some v \<Rightarrow> machine_set (fan_key f child ''response'') v c m);
          m2 = (case tr_status_message tr of None \<Rightarrow> m1 | Some v \<Rightarrow> machine_set (fan_key f child ''status'') v c m1)
      in machine_set (fan_key f child ''next_action'') (debug_action (tr_next_action tr)) c m2)"

definition join_one ::
  "fan_out_task \<Rightarrow> context_ref \<Rightarrow> 'w join_step \<Rightarrow> graph_error option \<times> nat \<times> 'w machine \<Rightarrow> graph_error option \<times> nat \<times> 'w machine" where
  "join_one f c step = (\<lambda>(err, done, m).
     (case step m of
        (JoinError e, m') \<Rightarrow> (Some (TaskExecutionFailed (''FanOut child join error: '' @ e)), done, m')
      | (ChildDone child (Inl e), m') \<Rightarrow>
          (Some (TaskExecutionFailed (''FanOut child '' @ quoted child @ '' failed: '' @ graph_error_text e)), done, m')
      | (ChildDone child (Inr tr), m') \<Rightarrow> (err, done + 1, store_child f c child tr m')))"

definition fan_out_run ::
  "fan_out_task \<Rightarrow> context_ref \<Rightarrow> 'w join_step list \<Rightarrow> 'w machine \<Rightarrow> (graph_error + task_result) \<times> 'w machine" where
  "fan_out_run f c steps m =
     (case fold (join_one f c) steps (None, 0, m) of
        (Some e, done, m') \<Rightarrow> (Inl e, m')
      | (None, done, m') \<Rightarrow>
          (let summary = ''FanOutTask '' @ quoted (fo_id f) @ '' completed '' @ show_nat done @ '' child task(s)''
           in (Inr (task_result_with_status (Some summary) (fo_next_action f) (Some summary)), m')))"

section \<open>What a run reports\<close>

text \<open>The outcomes the joins deliver in this run, in the order of the joins.\<close>

fun outcomes :: "fan_out_task \<Rightarrow> context_ref \<Rightarrow> 'w join_step list \<Rightarrow> 'w machine \<Rightarrow> join_outcome list" where
  "outcomes f c [] m = []"
| "outcomes f c (step # steps) m = fst (step m) # outcomes f c steps (snd (snd (join_one f c step (None, 0, m))))"

fun join_failure :: "join_outcome \<Rightarrow> graph_error option" where
  "join_failure (JoinError e) = Some (TaskExecutionFailed (''FanOut child join error: '' @ e))"
| "join_failure (ChildDone child (Inl e)) =
     Some (TaskExecutionFailed (''FanOut child '' @ quoted child @ '' failed: '' @ graph_error_text e))"
| "join_failure (ChildDone child (Inr tr)) = None"

definition last_failure :: "graph_error option \<Rightarrow> join_outcome list \<Rightarrow> graph_error option" where
  "last_failure e os = fold (\<lambda>x e. case join_failure x of None \<Rightarrow> e | Some e' \<Rightarrow> Some e') os e"

lemma join_one_eq:
  "join_one f c step (err, done, m) =
     (case join_failure (fst (step m)) of None \<Rightarrow> err | Some e \<Rightarrow> Some e,
      done + (if join_failure (fst (step m)) = None then 1 else 0),
      snd (snd (join_one f c step (None, 0, m))))"
  by (auto simp: join_one_def split: prod.split join_outcome.split sum.split)

lemma fold_join:
  "fold (join_one f c) steps (err, done, m) =
     (last_failure err (outcomes f c steps m),
      done + length (filter (\<lambda>x. join_failure x = None) (outcomes f c steps m)),
      snd (snd (fold (join_one f c) steps (None, 0, m))))"
proof (induction steps arbitrary: err "done" m)
  case (Cons step steps)
  let ?err = "case join_failure (fst (step m)) of None \<Rightarrow> err | Some e \<Rightarrow> Some e"
  let ?done = "done + (if join_failure (fst (step m)) = None then 1 else 0)"
  obtain e0 d0 m1 where z: "join_one f c step (None, 0, m) = (e0, d0, m1)" by (metis surj_pair)
  have first: "join_one f c step (err, done, m) = (?err, ?done, m1)" by (simp add: join_one_eq [of _ _ _ err] z)
  have os: "outcomes f c (step # steps) m = fst (step m) # outcomes f c steps m1" by (simp add: z)
  have last: "snd (snd (fold (join_one f c) (step # steps) (None, 0, m))) = snd (snd (fold (join_one f c) steps (None, 0, m1)))"
    unfolding fold_simps z by (subst Cons.IH [of e0 d0]) (simp only: snd_conv)
  have "fold (join_one f c) (step # steps) (err, done, m) = fold (join_one f c) steps (?err, ?done, m1)"
    unfolding fold_simps first ..
  also have "\<dots> = (last_failure ?err (outcomes f c steps m1),
      ?done + length (filter (\<lambda>x. join_failure x = None) (outcomes f c steps m1)),
      snd (snd (fold (join_one f c) steps (None, 0, m1))))"
    by (rule Cons.IH)
  finally show ?case unfolding last os by (simp add: last_failure_def)
qed (simp add: last_failure_def)

lemma last_failure_None: "last_failure e os = None \<longleftrightarrow> e = None \<and> (\<forall>x\<in>set os. join_failure x = None)"
  by (induction os arbitrary: e) (auto simp: last_failure_def split: option.splits)

lemma outcomes_length: "length (outcomes f c steps m) = length steps"
  by (induction f c steps m rule: outcomes.induct) simp_all

end
