(* ===== verification/Ai_Graph_Facts.thy ===== *)
theory Ai_Graph_Facts
  imports Ai_Graph
begin

text \<open>
  Facts about the executor: what the choice of the next edge computes, which tasks a session can
  stand on, and when a step returns.
\<close>

section \<open>The next edge\<close>

definition edge_holds :: "context_ref \<Rightarrow> context_heap \<Rightarrow> edge \<Rightarrow> bool" where
  "edge_holds c hp e = (case e_condition e of Some p \<Rightarrow> p c hp | None \<Rightarrow> False)"

definition edge_plain :: "edge \<Rightarrow> bool" where
  "edge_plain e \<longleftrightarrow> e_condition e = None"

lemma next_edge_find:
  "next_edge c hp fallback es =
     (case List.find (edge_holds c hp) es of
        Some e \<Rightarrow> Some (e_to e)
      | None \<Rightarrow> (case fallback of Some t \<Rightarrow> Some t | None \<Rightarrow> map_option e_to (List.find edge_plain es)))"
  by (induction c hp fallback es rule: next_edge.induct)
    (auto simp: edge_holds_def edge_plain_def split: option.splits)

lemma find_filter: "List.find P (filter Q xs) = List.find (\<lambda>x. Q x \<and> P x) xs"
  by (induction xs) auto

lemma find_next_task_edge:
  assumes "find_next_task g t c hp = Some u"
  shows "\<exists>e\<in>set (g_edges g). e_from e = t \<and> e_to e = u"
proof -
  from assms obtain e where
    "List.find (edge_holds c hp) (filter (\<lambda>e. e_from e = t) (g_edges g)) = Some e \<or>
     List.find edge_plain (filter (\<lambda>e. e_from e = t) (g_edges g)) = Some e" "u = e_to e"
    by (auto simp: find_next_task_def next_edge_find split: option.splits)
  then show ?thesis using find_SomeD by fastforce
qed

section \<open>Where a session can stand\<close>

definition edges_closed :: "'w graph \<Rightarrow> bool" where
  "edges_closed g \<longleftrightarrow> (\<forall>e\<in>set (g_edges g). has_task (e_to e) g)"

definition start_ok :: "'w graph \<Rightarrow> bool" where
  "start_ok g \<longleftrightarrow> (case g_start g of None \<Rightarrow> g_tasks g = [] | Some t \<Rightarrow> has_task t g)"

lemma next_has_task: "\<lbrakk>edges_closed g; find_next_task g t c hp = Some u\<rbrakk> \<Longrightarrow> has_task u g"
  using find_next_task_edge by (fastforce simp: edges_closed_def)

lemma single_task_id: "execute_single_task g t c m = (Inr r, m') \<Longrightarrow> tr_task_id r = t \<and> has_task t g"
  by (auto simp: execute_single_task_def has_task_def get_task_def split: option.splits prod.splits task_end.splits sum.splits)

lemma execute_session_current:
  assumes "execute_session g s m = Some out" "edges_closed g" "has_task (se_current s) g"
  shows "has_task (se_current (fst (snd out))) g \<and> se_context (fst (snd out)) = se_context s \<and> se_id (fst (snd out)) = se_id s"
proof -
  have "edges_closed g \<longrightarrow> has_task (se_current s) g \<longrightarrow>
      has_task (se_current (fst (snd out))) g \<and> se_context (fst (snd out)) = se_context s \<and> se_id (fst (snd out)) = se_id s"
    using assms(1)
  proof (rule execute_session.raw_induct [rotated], goal_cases)
    case (1 ex g s m out)
    show ?case
    proof (intro impI)
      assume ok: "edges_closed g" "has_task (se_current s) g"
      obtain res m1 where one: "execute_single_task g (se_current s) (se_context s) m = (res, m1)" by (rule prod.exhaust)
      show "has_task (se_current (fst (snd out))) g \<and> se_context (fst (snd out)) = se_context s \<and> se_id (fst (snd out)) = se_id s"
      proof (cases res)
        case (Inl e)
        with 1(2) one ok show ?thesis by auto
      next
        case (Inr r)
        note id = single_task_id [OF one [unfolded Inr]]
        show ?thesis
        proof (cases "tr_next_action r = ContinueAndExecute")
          case True
          show ?thesis
          proof (cases "find_next_task g (tr_task_id r) (se_context s) (snd m1)")
            case None
            with 1(2) one Inr True id ok show ?thesis by (auto simp: stay_def)
          next
            case (Some t)
            with 1(2) one Inr True have "ex g (move r t s) m1 = Some out" by simp
            from 1(1) [OF this] next_has_task [OF ok(1) Some] ok(1) show ?thesis by (simp add: move_def)
          qed
        next
          case False
          with 1(2) one Inr id ok show ?thesis
            by (auto simp: stay_def move_def dest: next_has_task split: next_action.splits option.splits if_splits)
        qed
      qed
    qed
  qed
  with assms(2,3) show ?thesis by blast
qed

section \<open>When a step returns\<close>

text \<open>A rank that falls along every edge bounds the chain of tasks one step runs.\<close>

lemma execute_session_returns:
  assumes "\<And>e. e \<in> set (g_edges g) \<Longrightarrow> (rank (e_to e) :: nat) < rank (e_from e)"
  shows "\<exists>out. execute_session g s m = Some out"
proof (induction "rank (se_current s)" arbitrary: s m rule: less_induct)
  case less
  obtain res m1 where one: "execute_single_task g (se_current s) (se_context s) m = (res, m1)" by (rule prod.exhaust)
  show ?case
  proof (cases res)
    case (Inl e)
    with one show ?thesis by (subst execute_session.simps) simp
  next
    case (Inr r)
    have rec: "\<exists>out. execute_session g (move r t s) m1 = Some out"
      if "find_next_task g (tr_task_id r) (se_context s) (snd m1) = Some t" for t
    proof -
      from find_next_task_edge [OF that] single_task_id [OF one [unfolded Inr]]
      have "rank t < rank (se_current s)" using assms by fastforce
      then show ?thesis using less [of "move r t s" m1] by (simp add: move_def)
    qed
    show ?thesis
      by (subst execute_session.simps) (use rec in \<open>fastforce simp: one Inr split: next_action.split option.split\<close>)
  qed
qed

text \<open>A task that keeps handing over to itself is never left.\<close>

lemma execute_session_loops:
  assumes one: "\<And>m. \<exists>r m'. execute_single_task g t c m = (Inr r, m') \<and> tr_next_action r = ContinueAndExecute"
    and onward: "\<And>hp. find_next_task g t c hp = Some t"
    and s: "se_current s = t" "se_context s = c"
  shows "execute_session g s m = None"
proof (rule ccontr)
  assume "execute_session g s m \<noteq> None"
  then obtain out where "execute_session g s m = Some out" by blast
  then have "g = g \<longrightarrow> se_current s = t \<longrightarrow> se_context s = c \<longrightarrow> False"
  proof (rule execute_session.raw_induct [where P = "\<lambda>h s m out. h = g \<longrightarrow> se_current s = t \<longrightarrow> se_context s = c \<longrightarrow> False", rotated])
    fix ex h s m out
    assume IH: "\<And>h s m out. ex h s m = Some out \<Longrightarrow> h = g \<longrightarrow> se_current s = t \<longrightarrow> se_context s = c \<longrightarrow> False"
      and body: "(case execute_single_task h (se_current s) (se_context s) m of
        (Inl e, m') \<Rightarrow> Some (Inl e, s, m')
      | (Inr r, m') \<Rightarrow>
          (case tr_next_action r of
             Continue \<Rightarrow>
               (case find_next_task h (tr_task_id r) (se_context s) (snd m') of
                  Some t \<Rightarrow> Some (answer r (Paused t ''Task completed, continuing to next task''), move r t s, m')
                | None \<Rightarrow> Some (answer r (no_edge_status r), stay r s, m'))
           | ContinueAndExecute \<Rightarrow>
               (case find_next_task h (tr_task_id r) (se_context s) (snd m') of
                  Some t \<Rightarrow> ex h (move r t s) m'
                | None \<Rightarrow> Some (answer r (no_edge_status r), stay r s, m'))
           | WaitForInput \<Rightarrow> Some (answer r WaitingForInput, stay r s, m')
           | EndFlow \<Rightarrow> Some (answer r Completed, stay r s, m')
           | GoTo t \<Rightarrow>
               if has_task t h then Some (answer r (Paused t ''Task requested jump to specific task''), move r t s, m')
               else Some (Inl (TaskNotFound t), s\<lparr>se_status := tr_status_message r\<rparr>, m')
           | GoBack \<Rightarrow> Some (answer r WaitingForInput, stay r s, m'))) = Some out"
    show "h = g \<longrightarrow> se_current s = t \<longrightarrow> se_context s = c \<longrightarrow> False"
    proof (intro impI)
      assume h: "h = g" "se_current s = t" "se_context s = c"
      obtain r m' where r: "execute_single_task g t c m = (Inr r, m')" "tr_next_action r = ContinueAndExecute"
        using one by blast
      have "ex g (move r t s) m' = Some out"
        using body h r onward single_task_id [OF r(1)] by simp
      from IH [OF this] h show False by (simp add: move_def)
    qed
  qed
  with s show False by simp
qed

section \<open>The builder\<close>

lemma has_task_add [simp]: "has_task t (add_task x b) \<longleftrightarrow> t = t_id x \<or> has_task t b"
  by (auto simp: has_task_def add_task_def update_conv')

lemma start_ok_new: "start_ok (graph_new i)"
  by (simp add: start_ok_def graph_new_def)

lemma has_task_empty: "has_task t b \<Longrightarrow> g_tasks b \<noteq> []"
  by (auto simp: has_task_def)

lemma start_ok_add_task: "start_ok b \<Longrightarrow> start_ok (add_task x b)"
  unfolding start_ok_def [of "add_task x b"]
  by (auto simp: start_ok_def add_task_def has_task_def update_conv' split: option.splits)

lemma start_ok_set_start: "start_ok b \<Longrightarrow> start_ok (set_start_task t b)"
  by (auto simp: start_ok_def set_start_task_def has_task_def)

end
