(* ===== verification/Ai_Contracts.thy ===== *)
theory Ai_Contracts
  imports Ai_Runner Ai_Graph_Facts Common_Text
begin

text \<open>
  The contract of \<open>SessionStorage\<close> as a locale, what the runner does over any store that keeps it,
  and the interpretations on the two stores of the source. What a session means is its content:
  the names it carries and the cell its context refers to.
\<close>

section \<open>Contexts survive their JSON text\<close>

definition cell_ok :: "context_cell \<Rightarrow> bool" where
  "cell_ok x \<longleftrightarrow> sorted_wrt (<) (map fst (cc_data x)) \<and>
     (case ch_max_messages (cc_chat x) of None \<Rightarrow> True | Some n \<Rightarrow> n < 2 ^ 64)"

lemma ctx_set_ok: "cell_ok (cell_of c hp) \<Longrightarrow> cell_ok (cell_of c (ctx_set k v c hp))"
  by (simp add: ctx_set_def cell_ok_def map_insert_sorted)

lemma ctx_add_message_ok: "cell_ok (cell_of c hp) \<Longrightarrow> cell_ok (cell_of c (ctx_add_message r t now c hp))"
  by (auto simp: ctx_add_message_def cell_ok_def add_message_def Let_def)

lemma history_roundtrip:
  assumes "\<And>t. ts_parse (ts_str t) = Some t" "case ch_max_messages h of None \<Rightarrow> True | Some n \<Rightarrow> n < 2 ^ 64"
  shows "history_de ts_parse (history_ser ts_str h) = Some h"
proof -
  have "all_some (map (message_de ts_parse \<circ> message_ser ts_str) (ch_messages h)) = Some (map (\<lambda>m. m) (ch_messages h))"
    by (rule all_some_map) (simp add: message_roundtrip assms(1))
  moreover have "limit_of_json (Some (case ch_max_messages h of None \<Rightarrow> JNull | Some n \<Rightarrow> JInt (int n))) = Some (ch_max_messages h)"
    using assms(2) by (auto simp: limit_of_json_def split: option.splits)
  ultimately show ?thesis by (simp add: history_de_def history_ser_def json_get_obj)
qed

lemma context_roundtrip:
  assumes "\<And>t. ts_parse (ts_str t) = Some t" "cell_ok x"
  shows "context_de ts_parse (context_ser ts_str x) = Some x"
  using assms fold_insert_sorted [of "[]" "cc_data x"]
  by (simp add: context_de_def context_ser_def json_get_obj cell_ok_def history_roundtrip)

text \<open>Of a context only the values are changed by a \<open>JSONB\<close> column.\<close>

definition jsonb_cell :: "(string \<Rightarrow> json) \<Rightarrow> context_cell \<Rightarrow> context_cell" where
  "jsonb_cell num x = x\<lparr>cc_data := map (\<lambda>kv. (fst kv, jsonb num (snd kv))) (cc_data x)\<rparr>"

lemma jsonb_insert:
  "map (\<lambda>kv. (fst kv, jsonb num (snd kv))) (map_insert k v m) = map_insert k (jsonb num v) (map (\<lambda>kv. (fst kv, jsonb num (snd kv))) m)"
  by (induction k v m rule: map_insert.induct) auto

lemma jsonb_obj: "jsonb num (obj kvs) = obj (map (\<lambda>kv. (fst kv, jsonb num (snd kv))) kvs)"
proof -
  have "map (\<lambda>kv. (fst kv, jsonb num (snd kv))) (fold (\<lambda>(k, v). map_insert k v) kvs m) =
      fold (\<lambda>(k, v). map_insert k v) (map (\<lambda>kv. (fst kv, jsonb num (snd kv))) kvs) (map (\<lambda>kv. (fst kv, jsonb num (snd kv))) m)" for m
    by (induction kvs arbitrary: m) (auto simp: jsonb_insert)
  then show ?thesis by (simp add: obj_def)
qed

lemma jsonb_history: "jsonb num (history_ser ts_str h) = history_ser ts_str h"
proof -
  have "jsonb num (message_ser ts_str m) = message_ser ts_str m" for m
    by (cases "cm_role m") (simp_all add: message_ser_def jsonb_obj)
  then show ?thesis by (simp add: history_ser_def jsonb_obj comp_def split: option.split)
qed

lemma jsonb_context: "jsonb num (context_ser ts_str x) = context_ser ts_str (jsonb_cell num x)"
  by (simp add: context_ser_def jsonb_obj jsonb_history jsonb_cell_def)

lemma jsonb_cell_ok: "cell_ok x \<Longrightarrow> cell_ok (jsonb_cell num x)"
  by (simp add: cell_ok_def jsonb_cell_def comp_def)

section \<open>The contract of a session store\<close>

type_synonym content = "string \<times> string \<times> string option \<times> context_cell"

definition content :: "session \<Rightarrow> context_heap \<Rightarrow> content" where
  "content s hp = (se_graph_id s, se_current s, se_status s, cell_of (se_context s) hp)"

locale session_store =
  fixes store :: "'st session_storage"
    and key :: "string \<Rightarrow> 'k"
    and peek :: "'k \<Rightarrow> 'st \<Rightarrow> context_heap \<Rightarrow> content option"
    and st_ok :: "'st \<Rightarrow> bool"
    and stored :: "content \<Rightarrow> content"
    and takes :: "session \<Rightarrow> 'st \<Rightarrow> context_heap \<Rightarrow> bool"
  assumes get_content: "st_ok st \<Longrightarrow> ss_get store i st hp = (Inr (Some s), hp') \<Longrightarrow> peek (key i) st hp = Some (content s hp') \<and> key (se_id s) = key i"
    and save_content: "\<lbrakk>st_ok st; takes s st hp; ss_save store s st hp = Inr st'\<rbrakk> \<Longrightarrow>
      st_ok st' \<and> peek (key (se_id s)) st' hp = Some (stored (content s hp))"
    and save_loads: "\<lbrakk>st_ok st; takes s st hp; ss_save store s st hp = Inr st'; key i = key (se_id s)\<rbrakk> \<Longrightarrow>
      \<exists>s' hp'. ss_get store i st' hp = (Inr (Some s'), hp')"
    and save_other: "\<lbrakk>ss_save store s st hp = Inr st'; k \<noteq> key (se_id s)\<rbrakk> \<Longrightarrow> peek k st' hp = peek k st hp"
    and delete_content: "ss_delete store i st = Inr st' \<Longrightarrow> peek (key i) st' hp = None"
    and delete_other: "\<lbrakk>ss_delete store i st = Inr st'; k \<noteq> key i\<rbrakk> \<Longrightarrow> peek k st' hp = peek k st hp"
begin

text \<open>A successful run is one step of the loaded session, and the next load resumes from its end when the
  store takes the save (\<open>takes\<close>).\<close>

lemma run_ok:
  assumes "runner_run store g i st m = Some (Inr r, st', m')" "st_ok st"
  obtains s hp s' where "ss_get store i st (snd m) = (Inr (Some s), hp)"
    "execute_session g s (fst m, hp) = Some (Inr r, s', m')" "ss_save store s' st (snd m') = Inr st'"
  using assms(1) by (auto simp: runner_run_def split: prod.splits sum.splits option.splits)

lemma run_resumes:
  assumes run: "runner_run store g i st m = Some (Inr r, st', m')"
    and ok: "st_ok st" "\<And>s'. key (se_id s') = key i \<Longrightarrow> takes s' st (snd m')"
    and g: "edges_closed g"
    and s: "ss_get store i st (snd m) = (Inr (Some s), hp)" "has_task (se_current s) g"
  shows "\<exists>s' n hp'. execute_session g s (fst m, hp) = Some (Inr r, s', m') \<and> has_task (se_current s') g \<and>
    ss_get store i st' (snd m') = (Inr (Some n), hp') \<and> content n hp' = stored (content s' (snd m'))"
proof -
  from run ok(1) obtain s' where step: "execute_session g s (fst m, hp) = Some (Inr r, s', m')"
    and save: "ss_save store s' st (snd m') = Inr st'"
    using s(1) by (elim run_ok) auto
  have cur: "has_task (se_current s') g" "se_id s' = se_id s"
    using execute_session_current [OF step g s(2)] by simp_all
  have k: "key i = key (se_id s')" using get_content [OF ok(1) s(1)] cur(2) by simp
  note ok' = ok(1) ok(2) [OF k [symmetric]]
  from save_loads [OF ok' save k] obtain n hp' where n: "ss_get store i st' (snd m') = (Inr (Some n), hp')" by blast
  moreover have "content n hp' = stored (content s' (snd m'))"
    using get_content [OF conjunct1 [OF save_content [OF ok' save]] n] save_content [OF ok' save] k by simp
  ultimately show ?thesis using step cur(1) by blast
qed

text \<open>A failing run leaves the store as it was.\<close>

lemma run_fails: "runner_run store g i st m = Some (Inl e, st', m') \<Longrightarrow> st' = st"
  by (auto simp: runner_run_def split: prod.splits sum.splits option.splits)

end

section \<open>The two stores keep it\<close>

definition memory_peek :: "string \<Rightarrow> session dash_map \<Rightarrow> context_heap \<Rightarrow> content option" where
  "memory_peek k st hp = map_option (\<lambda>s. content s hp) (st k)"

definition memory_ok :: "session dash_map \<Rightarrow> bool" where
  "memory_ok st \<longleftrightarrow> (\<forall>k s. st k = Some s \<longrightarrow> se_id s = k)"

interpretation memory: session_store memory_storage id memory_peek memory_ok id "\<lambda>_ _ _. True"
  by unfold_locales
    (auto simp: memory_storage_def memory_get_def memory_save_def memory_delete_def memory_peek_def memory_ok_def split: if_splits)

text \<open>What the model relies on of PostgreSQL and chrono: the text of a time reads back, the canonical
  text of a UUID is its own canonical text.\<close>

definition env_ok :: "pg_env \<Rightarrow> bool" where
  "env_ok env \<longleftrightarrow> (\<forall>t. pe_ts_parse env (pe_ts_str env t) = Some t) \<and>
     (\<forall>i k. pe_uuid env i = Inr k \<longrightarrow> pe_uuid env k = Inr k)"

definition pg_peek :: "pg_env \<Rightarrow> string + string \<Rightarrow> session_table \<Rightarrow> context_heap \<Rightarrow> content option" where
  "pg_peek env k tab hp =
     (case k of
        Inl _ \<Rightarrow> None
      | Inr k \<Rightarrow> Option.bind (tab k) (\<lambda>row.
          map_option (\<lambda>x. (sr_graph_id row, sr_current row, sr_status row, x)) (context_de (pe_ts_parse env) (sr_context row))))"

text \<open>The keys of the table are canonical; a save is taken when the row it meets is not newer than its clock.\<close>

definition pg_ok :: "pg_env \<Rightarrow> session_table \<Rightarrow> bool" where
  "pg_ok env tab \<longleftrightarrow> env_ok env \<and> (\<forall>k row. tab k = Some row \<longrightarrow> pe_uuid env k = Inr k)"

definition pg_takes :: "pg_env \<Rightarrow> int \<Rightarrow> session \<Rightarrow> session_table \<Rightarrow> context_heap \<Rightarrow> bool" where
  "pg_takes env now s tab hp \<longleftrightarrow> cell_ok (cell_of (se_context s) hp) \<and>
     (\<forall>k row. pe_uuid env (se_id s) = Inr k \<longrightarrow> tab k = Some row \<longrightarrow> sr_updated_at row \<le> now)"

definition pg_stored :: "pg_env \<Rightarrow> content \<Rightarrow> content" where
  "pg_stored env = (\<lambda>(g, t, st, x). (g, t, st, jsonb_cell (pe_number env) x))"

lemma cell_of_alloc: "alloc_context x hp = (c, hp') \<Longrightarrow> cell_of c hp' = x"
  by (auto simp: alloc_context_def cell_of_def put_cell_def)

lemma pg_get_content:
  assumes "pg_ok env tab" "pg_get env de_error i tab hp = (Inr (Some s), hp')"
  shows "pg_peek env (pe_uuid env i) tab hp = Some (content s hp') \<and> pe_uuid env (se_id s) = pe_uuid env i"
  using assms
  by (auto simp: pg_get_def pg_peek_def content_def pg_ok_def Let_def cell_of_alloc split: sum.splits option.splits prod.splits)

lemma pg_save_row:
  assumes "pg_ok env tab" "pg_takes env now s tab hp" "pg_save env now s tab hp = Inr tab'"
  obtains k where "pe_uuid env (se_id s) = Inr k" "pe_uuid env k = Inr k" "tab' = tab(k \<mapsto> row_of_session env now s hp)"
proof -
  from assms(3) obtain k where k: "pe_uuid env (se_id s) = Inr k" "tab' = upsert_session k (row_of_session env now s hp) tab"
    by (auto simp: pg_save_def split: sum.splits option.splits)
  moreover have "upsert_session k (row_of_session env now s hp) tab = tab(k \<mapsto> row_of_session env now s hp)"
    using assms(2) k(1) by (auto simp: upsert_session_def pg_takes_def row_of_session_def split: option.split)
  moreover have "pe_uuid env k = Inr k" using assms(1) k(1) unfolding pg_ok_def env_ok_def by blast
  ultimately show thesis using that by simp
qed

lemma row_context:
  assumes "env_ok env" "cell_ok (cell_of (se_context s) hp)"
  shows "context_de (pe_ts_parse env) (sr_context (row_of_session env now s hp)) =
    Some (jsonb_cell (pe_number env) (cell_of (se_context s) hp))"
  using assms by (simp add: row_of_session_def env_ok_def jsonb_context context_roundtrip jsonb_cell_ok)

lemma pg_save_content:
  assumes "pg_ok env tab" "pg_takes env now s tab hp" "pg_save env now s tab hp = Inr tab'"
  shows "pg_ok env tab' \<and> pg_peek env (pe_uuid env (se_id s)) tab' hp = Some (pg_stored env (content s hp))"
proof -
  from assms(1-3) obtain k where k: "pe_uuid env (se_id s) = Inr k" "pe_uuid env k = Inr k"
    "tab' = tab(k \<mapsto> row_of_session env now s hp)" by (rule pg_save_row)
  have env: "env_ok env" "cell_ok (cell_of (se_context s) hp)" using assms(1,2) by (simp_all add: pg_ok_def pg_takes_def)
  have "pg_peek env (Inr k) tab' hp = Some (pg_stored env (content s hp))"
    using row_context [OF env, of now] by (simp add: k(3) pg_peek_def content_def pg_stored_def) (simp add: row_of_session_def)
  moreover have "pg_ok env tab'" using assms(1) k(2,3) by (simp add: pg_ok_def row_of_session_def)
  ultimately show ?thesis by (simp add: k(1))
qed

lemma pg_save_loads:
  assumes "pg_ok env tab" "pg_takes env now s tab hp" "pg_save env now s tab hp = Inr tab'" "pe_uuid env i = pe_uuid env (se_id s)"
  shows "\<exists>s' hp'. pg_get env de_error i tab' hp = (Inr (Some s'), hp')"
proof -
  from assms(1-3) obtain k where k: "pe_uuid env (se_id s) = Inr k" "tab' = tab(k \<mapsto> row_of_session env now s hp)"
    by (rule pg_save_row)
  have env: "env_ok env" "cell_ok (cell_of (se_context s) hp)" using assms(1,2) by (simp_all add: pg_ok_def pg_takes_def)
  show ?thesis
    using row_context [OF env, of now] by (simp add: pg_get_def assms(4) k Let_def alloc_context_def)
qed

lemma pg_save_other:
  "\<lbrakk>pg_save env now s tab hp = Inr tab'; k \<noteq> pe_uuid env (se_id s)\<rbrakk> \<Longrightarrow> pg_peek env k tab' hp = pg_peek env k tab hp"
  by (auto simp: pg_save_def pg_peek_def upsert_session_def split: sum.splits option.splits if_splits)

interpretation pg: session_store "pg_storage env de_error now" "pe_uuid env" "pg_peek env" "pg_ok env" "pg_stored env" "pg_takes env now"
  for env de_error now
proof unfold_locales
  fix i tab s tab' hp hp' k
  let ?store = "pg_storage env de_error now"
  note ops = pg_storage_def
  show "pg_peek env (pe_uuid env i) tab hp = Some (content s hp') \<and> pe_uuid env (se_id s) = pe_uuid env i"
    if "pg_ok env tab" "ss_get ?store i tab hp = (Inr (Some s), hp')"
    using that by (simp add: ops pg_get_content)
  show "pg_ok env tab' \<and> pg_peek env (pe_uuid env (se_id s)) tab' hp = Some (pg_stored env (content s hp))"
    if "pg_ok env tab" "pg_takes env now s tab hp" "ss_save ?store s tab hp = Inr tab'"
    using that by (simp add: ops pg_save_content)
  show "\<exists>s' hp'. ss_get ?store i tab' hp = (Inr (Some s'), hp')"
    if "pg_ok env tab" "pg_takes env now s tab hp" "ss_save ?store s tab hp = Inr tab'" "pe_uuid env i = pe_uuid env (se_id s)"
    using that by (simp add: ops pg_save_loads)
  show "pg_peek env k tab' hp = pg_peek env k tab hp"
    if "ss_save ?store s tab hp = Inr tab'" "k \<noteq> pe_uuid env (se_id s)"
    using that by (simp add: ops pg_save_other)
  show "pg_peek env (pe_uuid env i) tab' hp = None" if "ss_delete ?store i tab = Inr tab'"
    using that by (auto simp: ops pg_delete_def pg_peek_def split: sum.splits)
  show "pg_peek env k tab' hp = pg_peek env k tab hp" if "ss_delete ?store i tab = Inr tab'" "k \<noteq> pe_uuid env i"
    using that by (auto simp: ops pg_delete_def pg_peek_def split: sum.splits if_splits)
qed

end
