(* ===== verification/Ai_Props.thy ===== *)
theory Ai_Props
  imports Ai_Contracts Ai_Runner
begin

text \<open>
  Properties of the graph executor of fusion-ai, with the concrete graphs and stores that show their
  hypotheses can hold, and two runs in which the code and its documentation part ways.
\<close>

section \<open>A concrete graph, store and environment\<close>

definition writes_then :: "graph_error + task_result \<Rightarrow> string \<Rightarrow> unit task" where
  "writes_then res i =
     \<lparr>t_id = i, t_run = (\<lambda>_ c m. (Finished res, (fst m, ctx_set i (JBool True) c (snd m))))\<rparr>"

definition demo_graph :: "unit graph" where
  "demo_graph = build (add_edge ''a'' ''b'' (add_task (writes_then (Inr (task_result_new (Some ''bye'') EndFlow)) ''b'')
     (add_task (writes_then (Inr move_to_next_direct) ''a'') (graph_new ''g''))))"

definition failing_graph :: "unit graph" where
  "failing_graph = build (add_task (writes_then (Inl (OtherError ''down'')) ''a'') (graph_new ''g''))"

definition empty_heap :: context_heap where
  "empty_heap = \<lparr>hp_cells = (\<lambda>_. \<lparr>cc_data = [], cc_chat = history_new\<rparr>), hp_next = 0\<rparr>"

definition demo_session :: session where
  "demo_session = \<lparr>se_id = ''s'', se_graph_id = ''g'', se_current = ''a'', se_status = None, se_context = 0\<rparr>"

definition tally :: "int \<Rightarrow> string" where
  "tally t = (if t < 0 then CHR ''-'' # replicate (nat (- t)) CHR ''1'' else replicate (nat t) CHR ''1'')"

definition untally :: "string \<Rightarrow> int option" where
  "untally s = (case s of [] \<Rightarrow> Some 0 | x # xs \<Rightarrow> if x = CHR ''-'' then Some (- int (length xs)) else Some (1 + int (length xs)))"

lemma untally_tally: "untally (tally t) = Some t"
  by (cases "nat t") (auto simp: untally_def tally_def split: list.split)

definition demo_env :: pg_env where
  "demo_env = \<lparr>pe_uuid = Inr, pe_ts_str = tally, pe_ts_parse = untally,
     pe_refused = (\<lambda>_. None), pe_number = (\<lambda>x. if x = ''1e16'' then JInt 10000000000000000 else JFloat x)\<rparr>"

lemma demo_env_ok: "env_ok demo_env"
  by (simp add: env_ok_def demo_env_def untally_tally)

definition heap_ok :: "context_heap \<Rightarrow> bool" where
  "heap_ok hp \<longleftrightarrow> (\<forall>c. cell_ok (cell_of c hp))"

lemma empty_heap_ok: "heap_ok empty_heap"
  by (simp add: heap_ok_def empty_heap_def cell_of_def cell_ok_def history_new_def)

lemma heap_ok_set: "heap_ok hp \<Longrightarrow> heap_ok (ctx_set k v c hp)"
  using ctx_set_ok [of _ hp k v] ctx_set_frame [of _ c k v hp] unfolding heap_ok_def by metis

lemma heap_ok_alloc: "\<lbrakk>heap_ok hp; cell_ok x\<rbrakk> \<Longrightarrow> heap_ok (snd (alloc_context x hp))"
  by (simp add: heap_ok_def alloc_context_def cell_of_def put_cell_def)

lemmas demo_defs = demo_graph_def failing_graph_def writes_then_def build_def add_edge_def add_task_def graph_new_def
  demo_session_def move_to_next_direct_def task_result_new_def

lemma demo_tasks:
  "has_task t demo_graph \<longleftrightarrow> t = ''a'' \<or> t = ''b''"
  "execute_single_task demo_graph ''a'' c m = (Inr (move_to_next_direct\<lparr>tr_task_id := ''a''\<rparr>), fst m, ctx_set ''a'' (JBool True) c (snd m))"
  "execute_single_task demo_graph ''b'' c m =
     (Inr ((task_result_new (Some ''bye'') EndFlow)\<lparr>tr_task_id := ''b''\<rparr>), fst m, ctx_set ''b'' (JBool True) c (snd m))"
  "find_next_task demo_graph ''a'' c hp = Some ''b''"
  "edges_closed demo_graph"
  by (auto simp: demo_defs has_task_def execute_single_task_def get_task_def find_next_task_def edges_closed_def)

lemma demo_step:
  "execute_session demo_graph (demo_session\<lparr>se_context := c\<rparr>) m =
     Some (Inr \<lparr>er_response = Some ''bye'', er_status = Completed\<rparr>, (demo_session\<lparr>se_context := c, se_current := ''b''\<rparr>),
       fst m, ctx_set ''b'' (JBool True) c (ctx_set ''a'' (JBool True) c (snd m)))"
proof -
  have "execute_session demo_graph (demo_session\<lparr>se_context := c\<rparr>) m =
      execute_session demo_graph (demo_session\<lparr>se_context := c, se_current := ''b''\<rparr>) (fst m, ctx_set ''a'' (JBool True) c (snd m))"
    by (subst execute_session.simps)
      (simp add: demo_tasks demo_session_def move_to_next_direct_def task_result_new_def move_def)
  also have "\<dots> = Some (Inr \<lparr>er_response = Some ''bye'', er_status = Completed\<rparr>, (demo_session\<lparr>se_context := c, se_current := ''b''\<rparr>),
       fst m, ctx_set ''b'' (JBool True) c (ctx_set ''a'' (JBool True) c (snd m)))"
    by (subst execute_session.simps)
      (simp add: demo_tasks demo_session_def task_result_new_def stay_def answer_def)
  finally show ?thesis .
qed

section \<open>Properties\<close>

text \<open>\<open>find_next_task\<close> takes the first edge out of the task whose condition holds and, when none
  does, the first edge without a condition, wherever it stands among the others.\<close>

theorem next_task_first_match:
  "find_next_task g t c hp =
     (case List.find (\<lambda>e. e_from e = t \<and> edge_holds c hp e) (g_edges g) of
        Some e \<Rightarrow> Some (e_to e)
      | None \<Rightarrow> map_option e_to (List.find (\<lambda>e. e_from e = t \<and> edge_plain e) (g_edges g)))"
  by (simp add: find_next_task_def next_edge_find find_filter split: option.split)

text \<open>C26: when every edge leads to a task of the graph, a step of \<open>execute_session\<close>, whatever the tasks
  answer and whether it succeeds or fails, leaves the session on a task of the graph, with its id and its
  context.\<close>

theorem session_stays_in_graph:
  assumes "edges_closed g" "has_task (se_current s) g" "execute_session g s m = Some (res, s', m')"
  shows "has_task (se_current s') g \<and> se_context s' = se_context s \<and> se_id s' = se_id s"
  using execute_session_current [OF assms(3,1,2)] by simp

theorem session_stays_in_graph_witness:
  "has_task ''b'' demo_graph"
  using session_stays_in_graph [OF demo_tasks(5) _ demo_step [of 0 "((), empty_heap)"]]
  by (simp add: demo_tasks(1) demo_session_def)

text \<open>C27: in a graph whose edges never lead back (a rank falls along each of them) every step of
  \<open>execute_session\<close> returns, however many tasks it runs without a pause.\<close>

theorem acyclic_session_step_returns:
  assumes "\<And>e. e \<in> set (g_edges g) \<Longrightarrow> (rank (e_to e) :: nat) < rank (e_from e)"
  shows "\<exists>res s' m'. execute_session g s m = Some (res, s', m')"
  using execute_session_returns [of g rank s m] assms by (metis prod.collapse)

theorem acyclic_session_step_returns_witness:
  "\<exists>res s' m'. execute_session demo_graph demo_session ((), empty_heap) = Some (res, s', m')"
  by (rule acyclic_session_step_returns [where rank = "\<lambda>t. if t = ''a'' then 1 else 0"]) (auto simp: demo_defs)

lemma pg_storage_get: "ss_get (pg_storage env de_error now) = pg_get env de_error"
  by (simp add: pg_storage_def)

text \<open>C25: after a successful \<open>FlowRunner::run\<close> over the PostgreSQL store: when the stored row is not newer
  than the clock of the save, the session that the next load delivers is the one in which the executed step
  ended: its task, its status, every message and every value of its context, as \<open>JSONB\<close> gives it back;
  when the row is newer, the table is as it was and the step is lost, though the run answers \<open>Ok\<close>.\<close>

theorem postgres_run_resumes:
  assumes "runner_run (pg_storage env de_error now) g i tab m = Some (Inr r, tab', m')"
    and "pg_ok env tab" "heap_ok (snd m')" "edges_closed g"
    and "pg_get env de_error i tab (snd m) = (Inr (Some s), hp)" "has_task (se_current s) g"
  shows "\<exists>s' k row. execute_session g s (fst m, hp) = Some (Inr r, s', m') \<and> has_task (se_current s') g \<and>
    pe_uuid env i = Inr k \<and> tab k = Some row \<and>
    (if sr_updated_at row \<le> now
     then \<exists>n hp'. pg_get env de_error i tab' (snd m') = (Inr (Some n), hp') \<and> content n hp' = pg_stored env (content s' (snd m'))
     else tab' = tab)"
proof -
  from assms(5) obtain k row where k: "pe_uuid env i = Inr k" "tab k = Some row"
    by (auto simp: pg_get_def split: sum.splits option.splits)
  have get: "ss_get (pg_storage env de_error now) i tab (snd m) = (Inr (Some s), hp)" using assms(5) by (simp add: pg_storage_get)
  from pg.run_ok [OF assms(1,2)] get obtain s' where s': "execute_session g s (fst m, hp) = Some (Inr r, s', m')"
    "pg_save env now s' tab (snd m') = Inr tab'" by (auto simp: pg_storage_def)
  have cur: "has_task (se_current s') g" "se_id s' = se_id s"
    using execute_session_current [OF s'(1) assms(4,6)] by simp_all
  show ?thesis
  proof (cases "sr_updated_at row \<le> now")
    case True
    then have "pg_takes env now x tab (snd m')" if "pe_uuid env (se_id x) = pe_uuid env i" for x
      using that k assms(3) by (simp add: pg_takes_def heap_ok_def)
    from pg.run_resumes [OF assms(1,2) this assms(4) get assms(6)] s'(1) cur(1) k True show ?thesis
      by (auto simp: pg_storage_def)
  next
    case False
    have "pe_uuid env (se_id s') = Inr k" using pg_get_content [OF assms(2,5)] cur(2) k(1) by simp
    with s'(2) False k(2) have "tab' = tab"
      by (auto simp: pg_save_def upsert_session_def row_of_session_def split: option.splits)
    with s'(1) cur(1) k False show ?thesis by auto
  qed
qed

definition demo_row :: session_row where
  "demo_row = row_of_session demo_env 5 demo_session empty_heap"

definition demo_table :: session_table where
  "demo_table = [''s'' \<mapsto> demo_row]"

lemma demo_table_ok: "pg_ok demo_env demo_table"
  using demo_env_ok by (auto simp: pg_ok_def demo_table_def demo_row_def row_of_session_def demo_env_def)

lemma demo_load:
  "pg_get demo_env err ''s'' demo_table empty_heap =
     (Inr (Some (demo_session\<lparr>se_context := 0\<rparr>)), snd (alloc_context (cell_of 0 empty_heap) empty_heap))"
proof -
  have "jsonb_cell num (cell_of 0 empty_heap) = cell_of 0 empty_heap" for num
    by (simp add: empty_heap_def cell_of_def jsonb_cell_def)
  then have "context_de untally (context_ser tally (jsonb_cell num (cell_of 0 empty_heap))) = Some (cell_of 0 empty_heap)" for num
    using empty_heap_ok by (simp add: context_roundtrip untally_tally heap_ok_def)
  then show ?thesis
    by (simp add: pg_get_def demo_env_def demo_table_def demo_row_def row_of_session_def demo_session_def Let_def
        alloc_context_def jsonb_context) (simp add: empty_heap_def)
qed

definition demo_after :: "unit machine" where
  "demo_after = ((), ctx_set ''b'' (JBool True) 0 (ctx_set ''a'' (JBool True) 0
     (snd (alloc_context (cell_of 0 empty_heap) empty_heap))))"

definition demo_saved :: "int \<Rightarrow> session_table" where
  "demo_saved now =
     upsert_session ''s'' (row_of_session demo_env now (demo_session\<lparr>se_context := 0, se_current := ''b''\<rparr>) (snd demo_after)) demo_table"

lemma demo_run:
  "runner_run (pg_storage demo_env err now) demo_graph ''s'' demo_table ((), empty_heap) =
     Some (Inr \<lparr>er_response = Some ''bye'', er_status = Completed\<rparr>, demo_saved now, demo_after)"
  by (simp add: runner_run_def pg_storage_def demo_load demo_step demo_after_def pg_save_def demo_saved_def)
    (simp add: demo_env_def demo_session_def)

text \<open>The run at time 7 is kept, the run at time 3, behind the row's time 5, is lost.\<close>

theorem postgres_run_resumes_witness:
  "(\<exists>n hp'. pg_get demo_env (\<lambda>_. []) ''s'' (demo_saved 7) (snd demo_after) = (Inr (Some n), hp') \<and> se_current n = ''b'') \<and>
   demo_saved 3 = demo_table"
proof -
  have h: "heap_ok (snd demo_after)"
    using empty_heap_ok unfolding demo_after_def snd_conv
    by (intro heap_ok_set heap_ok_alloc) (simp_all add: heap_ok_def)
  have c: "has_task (se_current (demo_session\<lparr>se_context := 0\<rparr>)) demo_graph"
    by (simp add: demo_tasks(1) demo_session_def)
  have load: "pg_get demo_env (\<lambda>_. []) ''s'' demo_table (snd ((), empty_heap)) =
      (Inr (Some (demo_session\<lparr>se_context := 0\<rparr>)), snd (alloc_context (cell_of 0 empty_heap) empty_heap))"
    by (simp add: demo_load)
  have row: "sr_updated_at row = 5" if "demo_table k = Some row" for k row
    using that by (auto simp: demo_table_def demo_row_def row_of_session_def split: if_splits)
  have k: "pe_uuid demo_env ''s'' = Inr ''s''" by (simp add: demo_env_def)
  note resumes = postgres_run_resumes [OF demo_run demo_table_ok h demo_tasks(5) load c, unfolded k]
  from resumes [of 7] obtain s' n hp' where
    s': "execute_session demo_graph (demo_session\<lparr>se_context := 0\<rparr>) (fst ((), empty_heap), snd (alloc_context (cell_of 0 empty_heap) empty_heap)) =
      Some (Inr \<lparr>er_response = Some ''bye'', er_status = Completed\<rparr>, s', demo_after)"
    and n: "pg_get demo_env (\<lambda>_. []) ''s'' (demo_saved 7) (snd demo_after) = (Inr (Some n), hp')"
      "content n hp' = pg_stored demo_env (content s' (snd demo_after))"
    using row by fastforce
  from s' have "se_current s' = ''b''" by (auto simp: demo_step)
  with n(2) have "se_current n = ''b''" by (simp add: content_def pg_stored_def)
  moreover from resumes [of 3] row have "demo_saved 3 = demo_table" by fastforce
  ultimately show ?thesis using n(1) by blast
qed

text \<open>A context with a history limit of \<open>n\<close> holds, after any sequence of messages added to it, exactly
  the last \<open>n\<close> of them in their order, and the other contexts hold what they held.\<close>

definition add_to_chat :: "context_ref \<Rightarrow> (message_role \<times> string \<times> int) list \<Rightarrow> context_heap \<Rightarrow> context_heap" where
  "add_to_chat c ms hp = fold (\<lambda>(r, t, now). ctx_add_message r t now c) ms hp"

lemma add_to_chat_cell:
  "cell_of c' (add_to_chat c ms hp) =
     (if c' = c then (cell_of c hp)\<lparr>cc_chat := fold (\<lambda>(r, t, now). add_message (message_new r t now)) ms (cc_chat (cell_of c hp))\<rparr>
      else cell_of c' hp)"
  by (induction ms arbitrary: hp) (auto simp: add_to_chat_def ctx_add_message_def)

lemma fold_add_map:
  "fold (\<lambda>(r, t, now). add_message (message_new r t now)) ms h = fold add_message (map (\<lambda>(r, t, now). message_new r t now) ms) h"
  by (induction ms arbitrary: h) auto

lemma fresh_history: "history_with_max n = \<lparr>ch_messages = drop (length [] - n) [], ch_max_messages = Some n\<rparr>"
  by (simp add: history_with_max_def)

theorem chat_keeps_newest:
  assumes "with_max_chat_messages n hp = (c, hp')"
  shows "ch_messages (ctx_chat_history c (add_to_chat c ms hp')) =
      drop (length ms - n) (map (\<lambda>(r, t, now). message_new r t now) ms) \<and>
    (c' \<noteq> c \<longrightarrow> ctx_chat_history c' (add_to_chat c ms hp') = ctx_chat_history c' hp')"
  using cell_of_alloc [OF assms [unfolded with_max_chat_messages_def]]
    add_messages_newest [of "history_with_max n" n "[]" "map (\<lambda>(r, t, now). message_new r t now) ms"]
  by (simp add: ctx_chat_history_def add_to_chat_cell fold_add_map history_with_max_def)

theorem chat_keeps_newest_witness:
  "ch_messages (ctx_chat_history 0 (add_to_chat 0 [(RoleUser, ''x'', 1), (RoleSystem, ''y'', 2), (RoleAssistant, ''z'', 3)]
      (snd (with_max_chat_messages 2 empty_heap)))) =
    [message_new RoleSystem ''y'' 2, message_new RoleAssistant ''z'' 3]"
  using chat_keeps_newest [of 2 empty_heap 0 "snd (with_max_chat_messages 2 empty_heap)"
      "[(RoleUser, ''x'', 1), (RoleSystem, ''y'', 2), (RoleAssistant, ''z'', 3)]" 1]
  by (simp add: with_max_chat_messages_def alloc_context_def) (simp add: empty_heap_def)

text \<open>A context whose keys are in the order of its map and whose limit fits a \<open>usize\<close> reads back from
  its JSON form as it was, data and history, when the text of a time reads back.\<close>

theorem context_json_roundtrip:
  assumes "\<And>t. ts_parse (ts_str t) = Some t" "cell_ok x"
  shows "context_de ts_parse (context_ser ts_str x) = Some x"
  using assms by (rule context_roundtrip)

theorem context_json_roundtrip_witness:
  "context_de untally (context_ser tally \<lparr>cc_data = [(''k'', JInt 3)], cc_chat = add_message (message_new RoleUser ''hi'' (-2)) history_new\<rparr>) =
     Some \<lparr>cc_data = [(''k'', JInt 3)], cc_chat = add_message (message_new RoleUser ''hi'' (-2)) history_new\<rparr>"
  by (rule context_json_roundtrip) (simp_all add: untally_tally cell_ok_def add_message_def history_new_def Let_def)

text \<open>A fan-out succeeds exactly when every child does, and then reports how many there were; otherwise
  it fails with the error of the child that failed last, in the order the joins delivered them.\<close>

theorem fan_out_reports_children:
  "fst (fan_out_run f c steps m) =
     (case last_failure None (outcomes f c steps m) of
        Some e \<Rightarrow> Inl e
      | None \<Rightarrow>
          (let summary = ''FanOutTask '' @ quoted (fo_id f) @ '' completed '' @ show_nat (length steps) @ '' child task(s)''
           in Inr (task_result_with_status (Some summary) (fo_next_action f) (Some summary)))) \<and>
   (last_failure None (outcomes f c steps m) = None \<longleftrightarrow> join_failure ` set (outcomes f c steps m) \<subseteq> {None})"
proof -
  have n: "length (filter (\<lambda>x. join_failure x = None) (outcomes f c steps m)) = length steps"
    if "last_failure None (outcomes f c steps m) = None"
    using that outcomes_length [of f c steps m] by (simp add: last_failure_None filter_True)
  obtain x where x: "fold (join_one f c) steps (None, 0, m) =
      (last_failure None (outcomes f c steps m), length (filter (\<lambda>x. join_failure x = None) (outcomes f c steps m)), x)"
    using fold_join [of f c steps None 0 m] by simp
  show ?thesis
  proof (cases "last_failure None (outcomes f c steps m)")
    case None
    then have "\<forall>x\<in>set (outcomes f c steps m). join_failure x = None" by (simp add: last_failure_None)
    with n None show ?thesis by (auto simp: fan_out_run_def x None Let_def)
  next
    case (Some e)
    then have "\<not> (\<forall>x\<in>set (outcomes f c steps m). join_failure x = None)"
      using last_failure_None [of None "outcomes f c steps m"] by simp
    with Some show ?thesis by (auto simp: fan_out_run_def x)
  qed
qed

section \<open>Where code and documentation differ\<close>

text \<open>One call of the runner, documented to execute exactly one task, runs both tasks of the graph.\<close>

theorem one_run_two_tasks:
  "\<exists>st' m'. runner_run memory_storage demo_graph ''s'' [''s'' \<mapsto> demo_session] ((), empty_heap) =
      Some (Inr \<lparr>er_response = Some ''bye'', er_status = Completed\<rparr>, st', m') \<and>
    map fst (cc_data (cell_of 0 (snd m'))) = [''a'', ''b'']"
proof -
  have s: "demo_session\<lparr>se_context := 0\<rparr> = demo_session" by (simp add: demo_session_def)
  show ?thesis
    using demo_step [of 0 "((), empty_heap)"]
    by (simp add: runner_run_def memory_storage_def memory_get_def memory_save_def s ctx_set_def)
      (simp add: empty_heap_def cell_of_def)
qed

text \<open>A run that fails is not saved; in memory the write of the failed task is in the stored session all the
  same, because the store keeps the context by reference. The row in PostgreSQL does not have it.\<close>

lemma failing_step:
  "se_current s = ''a'' \<Longrightarrow> \<exists>e. execute_session failing_graph s m = Some (Inl e, s, fst m, ctx_set ''a'' (JBool True) (se_context s) (snd m))"
  by (subst execute_session.simps) (simp add: demo_defs execute_single_task_def get_task_def)

theorem failed_run_visible_in_memory:
  "\<exists>e m'. runner_run memory_storage failing_graph ''s'' [''s'' \<mapsto> demo_session] ((), empty_heap) =
      Some (Inl e, [''s'' \<mapsto> demo_session], m') \<and>
    memory_peek ''s'' [''s'' \<mapsto> demo_session] empty_heap \<noteq> memory_peek ''s'' [''s'' \<mapsto> demo_session] (snd m')"
proof -
  obtain e where "execute_session failing_graph demo_session ((), empty_heap) =
      Some (Inl e, demo_session, (), ctx_set ''a'' (JBool True) 0 empty_heap)"
    using failing_step [of demo_session "((), empty_heap)"] by (auto simp: demo_session_def)
  then show ?thesis
    by (simp add: runner_run_def memory_storage_def memory_get_def memory_peek_def content_def demo_session_def ctx_set_def)
      (simp add: empty_heap_def cell_of_def)
qed

text \<open>The guard of the upsert compares with the time of the writing transaction, so a session loaded before
  another save overwrites what that save stored.\<close>

theorem stale_session_overwrites:
  assumes "t0 \<le> t1" "t1 \<le> t2" "pe_uuid env (se_id old) = Inr k" "pe_uuid env (se_id new) = Inr k"
    and "tab k = Some (row_of_session env t0 old hp0)"
    and "pg_save env t1 new tab hp1 = Inr tab1" "pg_save env t2 old tab1 hp0 = Inr tab2"
  shows "tab2 k = Some (row_of_session env t2 old hp0)"
  using assms by (auto simp: pg_save_def upsert_session_def row_of_session_def split: option.splits)

end
