(* ===== verification/Sql_Dbx.thy ===== *)
theory Sql_Dbx
  imports Flow_Prelude
begin

text \<open>
  crates/fusion-sql: the database handle with its nested transactions (store/dbx/dbx_postgres.rs,
  store/dbx/dbx_sqlite.rs, store/dbx/mod.rs), the model manager that runs a closure in a transaction
  (model_manager.rs) and the choice of the provider (config.rs).

  The database is a parameter: a record of what the driver offers on the connection of a
  transaction holder, each with its answer and the server's next state, since a refused statement can
  change the state of its transaction. A holder is shared by the clones of a handle, so it is a reference, and the
  connection its transaction is bound to has the same number.
\<close>

section \<open>Errors and the server\<close>

datatype dbx_error =
    CountFail
  | UnsupportedDatabase string
  | CannotBeginTxnWithTxnFalse
  | CannotCommitTxnWithTxnFalse
  | TxnCantCommitNoOpenTxn
  | NoTxn
  | SavePointError string
  | ConfigInvalid string
  | TransactionDepthMismatch nat nat
  | SqlxError string

type_synonym holder_ref = nat

record 's sql_server =
  sv_begin :: "holder_ref \<Rightarrow> 's \<Rightarrow> (string + unit) \<times> 's"
  sv_exec :: "holder_ref \<Rightarrow> string \<Rightarrow> string list \<Rightarrow> 's \<Rightarrow> (string + unit) \<times> 's"
  sv_commit :: "holder_ref \<Rightarrow> 's \<Rightarrow> (string + unit) \<times> 's"
  sv_rollback :: "holder_ref \<Rightarrow> 's \<Rightarrow> (string + unit) \<times> 's"
  sv_pool_exec :: "string \<Rightarrow> string list \<Rightarrow> 's \<Rightarrow> (string + unit) \<times> 's"

section \<open>The transaction holder\<close>

text \<open>The counter is an \<open>i32\<close> in the code; 2147483647 nested begins are out of reach and it is unbounded here.\<close>

record txn_holder =
  th_counter :: int
  th_savepoints :: "string list"

definition holder_new :: txn_holder where
  "holder_new = \<lparr>th_counter = 1, th_savepoints = []\<rparr>"

definition savepoint_name :: "int \<Rightarrow> string" where
  "savepoint_name n = ''sp_'' @ show_int n"

definition holder_inc :: "txn_holder \<Rightarrow> string \<times> txn_holder" where
  "holder_inc h =
     (savepoint_name (th_counter h),
      \<lparr>th_counter = th_counter h + 1, th_savepoints = th_savepoints h @ [savepoint_name (th_counter h)]\<rparr>)"

text \<open>\<open>Vec::pop\<close> takes the last name, if there is one.\<close>

definition holder_dec :: "txn_holder \<Rightarrow> int \<times> string option \<times> txn_holder" where
  "holder_dec h =
     (th_counter h - 1,
      (if th_savepoints h = [] then None else Some (last (th_savepoints h))),
      \<lparr>th_counter = th_counter h - 1, th_savepoints = butlast (th_savepoints h)\<rparr>)"

section \<open>The handle\<close>

datatype dbx_provider = Postgres | Sqlite

text \<open>\<open>DbxPostgres\<close> and \<open>DbxSqlite\<close>; the latter has no session variables.\<close>

record dbx =
  dx_provider :: dbx_provider
  dx_holder :: holder_ref
  dx_txn :: bool
  dx_session_vars :: "(string \<times> string) list"

text \<open>The state: the holders, how many there are, and the server.\<close>

record 's dbx_state =
  ds_holders :: "holder_ref \<Rightarrow> txn_holder option"
  ds_next :: holder_ref
  ds_server :: 's

definition put_holder :: "holder_ref \<Rightarrow> txn_holder option \<Rightarrow> 's dbx_state \<Rightarrow> 's dbx_state" where
  "put_holder r h st = st\<lparr>ds_holders := (ds_holders st)(r := h)\<rparr>"

definition put_server :: "'s \<Rightarrow> 's dbx_state \<Rightarrow> 's dbx_state" where
  "put_server s st = st\<lparr>ds_server := s\<rparr>"

definition dbx_new :: "dbx_provider \<Rightarrow> bool \<Rightarrow> 's dbx_state \<Rightarrow> dbx \<times> 's dbx_state" where
  "dbx_new p t st =
     (\<lparr>dx_provider = p, dx_holder = ds_next st, dx_txn = t, dx_session_vars = []\<rparr>,
      (put_holder (ds_next st) None st)\<lparr>ds_next := Suc (ds_next st)\<rparr>)"

definition is_txn :: "dbx \<Rightarrow> bool" where
  "is_txn d = dx_txn d"

definition non_txn :: "dbx \<Rightarrow> bool" where
  "non_txn d = (\<not> dx_txn d)"

text \<open>A new holder; the session variables are kept by PostgreSQL's handle and dropped by SQLite's.\<close>

definition dbx_txn_cloned :: "dbx \<Rightarrow> 's dbx_state \<Rightarrow> dbx \<times> 's dbx_state" where
  "dbx_txn_cloned d st =
     (case dx_provider d of
        Postgres \<Rightarrow> (let (d', st') = dbx_new Postgres True st in (d'\<lparr>dx_session_vars := dx_session_vars d\<rparr>, st'))
      | Sqlite \<Rightarrow> dbx_new Sqlite True st)"

definition with_session_vars :: "(string \<times> string) list \<Rightarrow> dbx \<Rightarrow> dbx" where
  "with_session_vars vars d = (case dx_provider d of Postgres \<Rightarrow> d\<lparr>dx_session_vars := vars\<rparr> | Sqlite \<Rightarrow> d)"

section \<open>Begin\<close>

text \<open>A savepoint: the counter is raised before the statement runs.\<close>

definition open_savepoint ::
  "'s sql_server \<Rightarrow> dbx \<Rightarrow> txn_holder \<Rightarrow> 's dbx_state \<Rightarrow> (dbx_error + unit) \<times> 's dbx_state" where
  "open_savepoint sv d h st =
     (let (name, h') = holder_inc h; st' = put_holder (dx_holder d) (Some h') st
      in case sv_exec sv (dx_holder d) (''SAVEPOINT '' @ name) [] (ds_server st') of
           (Inl e, s) \<Rightarrow> (Inl (SavePointError (''Failed to create savepoint '' @ quoted name @ '': '' @ e)), put_server s st')
         | (Inr _, s) \<Rightarrow> (Inr (), put_server s st'))"

text \<open>\<open>SELECT set_config($1, $2, true), ...\<close> with the names and values bound in turn.\<close>

definition session_sql :: "(string \<times> string) list \<Rightarrow> string" where
  "session_sql vars =
     ''SELECT '' @ join_with '', ''
       (map (\<lambda>i. ''set_config($'' @ show_nat (i * 2 + 1) @ '', $'' @ show_nat (i * 2 + 2) @ '', true)'') [0..<length vars])"

definition session_binds :: "(string \<times> string) list \<Rightarrow> string list" where
  "session_binds vars = concat (map (\<lambda>(k, v). [k, v]) vars)"

text \<open>A statement of a fresh transaction that fails drops the transaction, which the driver rolls back.\<close>

definition drop_txn :: "'s sql_server \<Rightarrow> holder_ref \<Rightarrow> 's \<Rightarrow> 's" where
  "drop_txn sv r s = snd (sv_rollback sv r s)"

definition open_transaction ::
  "'s sql_server \<Rightarrow> dbx \<Rightarrow> bool \<Rightarrow> 's dbx_state \<Rightarrow> (dbx_error + unit) \<times> 's dbx_state" where
  "open_transaction sv d read_only st =
     (case sv_begin sv (dx_holder d) (ds_server st) of
        (Inl e, s) \<Rightarrow> (Inl (SqlxError e), put_server s st)
      | (Inr _, s) \<Rightarrow>
          (case (if read_only then sv_exec sv (dx_holder d) ''SET TRANSACTION READ ONLY'' [] s else (Inr (), s)) of
             (Inl e, s1) \<Rightarrow> (Inl (SqlxError e), put_server (drop_txn sv (dx_holder d) s1) st)
           | (Inr _, s1) \<Rightarrow>
               (case (if dx_session_vars d \<noteq> []
                      then sv_exec sv (dx_holder d) (session_sql (dx_session_vars d)) (session_binds (dx_session_vars d)) s1
                      else (Inr (), s1)) of
                  (Inl e, s2) \<Rightarrow> (Inl (SqlxError e), put_server (drop_txn sv (dx_holder d) s2) st)
                | (Inr _, s2) \<Rightarrow> (Inr (), put_holder (dx_holder d) (Some holder_new) (put_server s2 st)))))"

definition begin_txn_inner ::
  "'s sql_server \<Rightarrow> dbx \<Rightarrow> bool \<Rightarrow> 's dbx_state \<Rightarrow> (dbx_error + unit) \<times> 's dbx_state" where
  "begin_txn_inner sv d read_only st =
     (if \<not> dx_txn d then (Inl CannotBeginTxnWithTxnFalse, st)
      else (case ds_holders st (dx_holder d) of
              Some h \<Rightarrow> open_savepoint sv d h st
            | None \<Rightarrow> open_transaction sv d read_only st))"

text \<open>SQLite has no read-only transaction; its handle has no session variables.\<close>

definition begin_txn :: "'s sql_server \<Rightarrow> dbx \<Rightarrow> 's dbx_state \<Rightarrow> (dbx_error + unit) \<times> 's dbx_state" where
  "begin_txn sv d = begin_txn_inner sv d False"

definition begin_txn_read_only :: "'s sql_server \<Rightarrow> dbx \<Rightarrow> 's dbx_state \<Rightarrow> (dbx_error + unit) \<times> 's dbx_state" where
  "begin_txn_read_only sv d =
     (case dx_provider d of Postgres \<Rightarrow> begin_txn_inner sv d True | Sqlite \<Rightarrow> begin_txn sv d)"

section \<open>Rollback and commit\<close>

definition rollback_txn :: "'s sql_server \<Rightarrow> dbx \<Rightarrow> 's dbx_state \<Rightarrow> (dbx_error + unit) \<times> 's dbx_state" where
  "rollback_txn sv d st =
     (case ds_holders st (dx_holder d) of
        None \<Rightarrow> (Inl NoTxn, st)
      | Some h \<Rightarrow>
          (let (counter, savepoint, h') = holder_dec h; st' = put_holder (dx_holder d) (Some h') st
           in if counter = 0
              then (case sv_rollback sv (dx_holder d) (ds_server st') of
                      (Inl e, s) \<Rightarrow> (Inl (SqlxError e), put_holder (dx_holder d) None (put_server s st'))
                    | (Inr _, s) \<Rightarrow> (Inr (), put_holder (dx_holder d) None (put_server s st')))
              else (case savepoint of
                      Some sp \<Rightarrow>
                        (case sv_exec sv (dx_holder d) (''ROLLBACK TO SAVEPOINT '' @ sp) [] (ds_server st') of
                           (Inl e, s) \<Rightarrow> (Inl (SavePointError (''Failed to rollback to savepoint '' @ quoted sp @ '': '' @ e)), put_server s st')
                         | (Inr _, s) \<Rightarrow> (Inr (), put_server s st'))
                    | None \<Rightarrow> (Inr (), st'))))"

definition commit_txn :: "'s sql_server \<Rightarrow> dbx \<Rightarrow> 's dbx_state \<Rightarrow> (dbx_error + unit) \<times> 's dbx_state" where
  "commit_txn sv d st =
     (if \<not> dx_txn d then (Inl CannotCommitTxnWithTxnFalse, st)
      else (case ds_holders st (dx_holder d) of
        None \<Rightarrow> (Inl TxnCantCommitNoOpenTxn, st)
      | Some h \<Rightarrow>
          (let (counter, savepoint, h') = holder_dec h; st' = put_holder (dx_holder d) (Some h') st
           in if counter = 0
              then (case sv_commit sv (dx_holder d) (ds_server st') of
                      (Inl e, s) \<Rightarrow> (Inl (SqlxError e), put_holder (dx_holder d) None (put_server s st'))
                    | (Inr _, s) \<Rightarrow> (Inr (), put_holder (dx_holder d) None (put_server s st')))
              else (case savepoint of
                      Some sp \<Rightarrow>
                        (case sv_exec sv (dx_holder d) (''RELEASE SAVEPOINT '' @ sp) [] (ds_server st') of
                           (Inl e, s) \<Rightarrow> (Inl (SavePointError (''Failed to release savepoint '' @ quoted sp @ '': '' @ e)), put_server s st')
                         | (Inr _, s) \<Rightarrow> (Inr (), put_server s st'))
                    | None \<Rightarrow> (Inr (), st')))))"

section \<open>Statements\<close>

text \<open>
  \<open>execute\<close> and the \<open>fetch\<close> variants run on the connection of the open transaction, else on the pool.
  \<open>assert_no_orphan_session_vars\<close> panics in a debug build (\<open>debug\<close>) before a statement goes to the
  pool with session variables set: \<open>None\<close>.
\<close>

definition orphan_session_vars :: "dbx \<Rightarrow> bool" where
  "orphan_session_vars d \<longleftrightarrow> \<not> (dx_txn d \<or> dx_session_vars d = [])"

definition dbx_execute ::
  "bool \<Rightarrow> 's sql_server \<Rightarrow> dbx \<Rightarrow> string \<Rightarrow> string list \<Rightarrow> 's dbx_state \<Rightarrow> ((dbx_error + unit) \<times> 's dbx_state) option" where
  "dbx_execute debug sv d sql binds st =
     (if dx_txn d \<and> ds_holders st (dx_holder d) \<noteq> None
      then Some (case sv_exec sv (dx_holder d) sql binds (ds_server st) of
                   (Inl e, s) \<Rightarrow> (Inl (SqlxError e), put_server s st)
                 | (Inr _, s) \<Rightarrow> (Inr (), put_server s st))
      else if debug \<and> orphan_session_vars d then None
      else Some (case sv_pool_exec sv sql binds (ds_server st) of
                   (Inl e, s) \<Rightarrow> (Inl (SqlxError e), put_server s st)
                 | (Inr _, s) \<Rightarrow> (Inr (), put_server s st)))"

section \<open>The model manager (model_manager.rs)\<close>

record 'c model_manager =
  mm_dbx :: dbx
  mm_ctx :: "'c option"

definition new_with_dbx :: "dbx \<Rightarrow> 'c model_manager" where
  "new_with_dbx d = \<lparr>mm_dbx = d, mm_ctx = None\<rparr>"

definition mm_txn_cloned :: "'c model_manager \<Rightarrow> 's dbx_state \<Rightarrow> 'c model_manager \<times> 's dbx_state" where
  "mm_txn_cloned mm st = (let (d, st') = dbx_txn_cloned (mm_dbx mm) st in (mm\<lparr>mm_dbx := d\<rparr>, st'))"

definition get_txn_clone :: "'c model_manager \<Rightarrow> 's dbx_state \<Rightarrow> 'c model_manager \<times> 's dbx_state" where
  "get_txn_clone mm st = (if is_txn (mm_dbx mm) then (mm, st) else mm_txn_cloned mm st)"

text \<open>\<open>vars\<close> is the context's \<open>db_session_vars\<close>.\<close>

definition with_ctx :: "('c \<Rightarrow> (string \<times> string) list) \<Rightarrow> 'c \<Rightarrow> 'c model_manager \<Rightarrow> 'c model_manager" where
  "with_ctx vars c mm = mm\<lparr>mm_dbx := with_session_vars (vars c) (mm_dbx mm), mm_ctx := Some c\<rparr>"

text \<open>\<open>run_in_txn\<close>; the errors of the closure and of the handle are of one type here, the closure's
  \<open>'e\<close> with the handle's embedded by \<open>lift\<close>.\<close>

definition run_in_txn ::
  "(dbx_error \<Rightarrow> 'e) \<Rightarrow> 's sql_server \<Rightarrow> 'c model_manager \<Rightarrow> bool \<Rightarrow>
   ('c model_manager \<Rightarrow> 's dbx_state \<Rightarrow> ('e + 'a) \<times> 's dbx_state) \<Rightarrow> 's dbx_state \<Rightarrow> ('e + 'a) \<times> 's dbx_state" where
  "run_in_txn lift sv mm read_only f st =
     (let (mt, st0) = get_txn_clone mm st
      in case (if read_only then begin_txn_read_only sv (mm_dbx mt) st0 else begin_txn sv (mm_dbx mt) st0) of
           (Inl e, st1) \<Rightarrow> (Inl (lift e), st1)
         | (Inr _, st1) \<Rightarrow>
             (case f mt st1 of
                (Inr x, st2) \<Rightarrow>
                  (case commit_txn sv (mm_dbx mt) st2 of
                     (Inl e, st3) \<Rightarrow> (Inl (lift e), st3)
                   | (Inr _, st3) \<Rightarrow> (Inr x, st3))
              | (Inl e, st2) \<Rightarrow> (Inl e, snd (rollback_txn sv (mm_dbx mt) st2))))"

section \<open>The provider (config.rs)\<close>

text \<open>With the features of both databases.\<close>

definition starts_with :: "string \<Rightarrow> string \<Rightarrow> bool" where
  "starts_with p s \<longleftrightarrow> take (length p) s = p"

definition dbx_type :: "dbx_provider option \<Rightarrow> string option \<Rightarrow> dbx_error + dbx_provider" where
  "dbx_type provider url =
     (let unsupported = Inl (ConfigInvalid (''Unsupported database URL scheme: expected postgresql:// / postgres:// / file: / sqlite: '' @
        ''(and the matching `with-postgres` / `with-sqlite` feature must be enabled)''))
      in case provider of
           Some p \<Rightarrow> Inr p
         | None \<Rightarrow>
             (case url of
                Some u \<Rightarrow>
                  if starts_with ''postgresql://'' u \<or> starts_with ''postgres://'' u then Inr Postgres
                  else if starts_with ''file:'' u \<or> starts_with ''sqlite:'' u then Inr Sqlite
                  else unsupported
              | None \<Rightarrow> unsupported))"

end
