(* ===== verification/Sql_Txn.thy ===== *)
theory Sql_Txn
  imports Sql_Dbx
begin

text \<open>
  Nested transactions refine a stack of snapshots. The abstract state is the committed database and,
  inside a transaction, its current database with the database at each open nested begin. The laws
  of the server are the documented ones of savepoints: \<open>ROLLBACK TO\<close> restores the newest savepoint of
  the name and keeps it, \<open>RELEASE\<close> drops it and all later ones. The names left over by earlier rollbacks
  are what makes the refinement more than a renaming.
\<close>

section \<open>The laws of the server\<close>

type_synonym 'd txn_view = "'d \<times> (string \<times> 'd) list"

definition setting_sql :: "string \<Rightarrow> bool" where
  "setting_sql q \<longleftrightarrow> q = ''SET TRANSACTION READ ONLY'' \<or> (\<exists>vars. vars \<noteq> [] \<and> q = session_sql vars)"

definition begin_law :: "'s sql_server \<Rightarrow> ('s \<Rightarrow> 'd) \<Rightarrow> ('s \<Rightarrow> holder_ref \<Rightarrow> 'd txn_view option) \<Rightarrow> bool" where
  "begin_law sv committed view \<longleftrightarrow> (\<forall>r s s'. view s r = None \<longrightarrow> sv_begin sv r s = (Inr (), s') \<longrightarrow>
     view s' r = Some (committed s, []) \<and> committed s' = committed s)"

definition savepoint_law :: "'s sql_server \<Rightarrow> ('s \<Rightarrow> 'd) \<Rightarrow> ('s \<Rightarrow> holder_ref \<Rightarrow> 'd txn_view option) \<Rightarrow> bool" where
  "savepoint_law sv committed view \<longleftrightarrow> (\<forall>r s s' d stk n. view s r = Some (d, stk) \<longrightarrow>
     sv_exec sv r (''SAVEPOINT '' @ n) [] s = (Inr (), s') \<longrightarrow> view s' r = Some (d, (n, d) # stk) \<and> committed s' = committed s)"

definition rollback_to_law :: "'s sql_server \<Rightarrow> ('s \<Rightarrow> 'd) \<Rightarrow> ('s \<Rightarrow> holder_ref \<Rightarrow> 'd txn_view option) \<Rightarrow> bool" where
  "rollback_to_law sv committed view \<longleftrightarrow> (\<forall>r s s' d stk n d' rest. view s r = Some (d, stk) \<longrightarrow>
     dropWhile (\<lambda>x. fst x \<noteq> n) stk = (n, d') # rest \<longrightarrow> sv_exec sv r (''ROLLBACK TO SAVEPOINT '' @ n) [] s = (Inr (), s') \<longrightarrow>
     view s' r = Some (d', (n, d') # rest) \<and> committed s' = committed s)"

definition release_law :: "'s sql_server \<Rightarrow> ('s \<Rightarrow> 'd) \<Rightarrow> ('s \<Rightarrow> holder_ref \<Rightarrow> 'd txn_view option) \<Rightarrow> bool" where
  "release_law sv committed view \<longleftrightarrow> (\<forall>r s s' d stk n d' rest. view s r = Some (d, stk) \<longrightarrow>
     dropWhile (\<lambda>x. fst x \<noteq> n) stk = (n, d') # rest \<longrightarrow> sv_exec sv r (''RELEASE SAVEPOINT '' @ n) [] s = (Inr (), s') \<longrightarrow>
     view s' r = Some (d, rest) \<and> committed s' = committed s)"

definition setting_law :: "'s sql_server \<Rightarrow> ('s \<Rightarrow> 'd) \<Rightarrow> ('s \<Rightarrow> holder_ref \<Rightarrow> 'd txn_view option) \<Rightarrow> bool" where
  "setting_law sv committed view \<longleftrightarrow> (\<forall>r s s' v q b. view s r = Some v \<longrightarrow> setting_sql q \<longrightarrow> sv_exec sv r q b s = (Inr (), s') \<longrightarrow>
     view s' r = Some v \<and> committed s' = committed s)"

definition end_law :: "'s sql_server \<Rightarrow> ('s \<Rightarrow> 'd) \<Rightarrow> ('s \<Rightarrow> holder_ref \<Rightarrow> 'd txn_view option) \<Rightarrow> bool" where
  "end_law sv committed view \<longleftrightarrow> (\<forall>r s s' d stk. view s r = Some (d, stk) \<longrightarrow>
     (sv_commit sv r s = (Inr (), s') \<longrightarrow> view s' r = None \<and> committed s' = d) \<and>
     (sv_rollback sv r s = (Inr (), s') \<longrightarrow> view s' r = None \<and> committed s' = committed s))"

definition server_laws :: "'s sql_server \<Rightarrow> ('s \<Rightarrow> 'd) \<Rightarrow> ('s \<Rightarrow> holder_ref \<Rightarrow> 'd txn_view option) \<Rightarrow> bool" where
  "server_laws sv committed view \<longleftrightarrow>
     begin_law sv committed view \<and> savepoint_law sv committed view \<and> rollback_to_law sv committed view \<and>
     release_law sv committed view \<and> setting_law sv committed view \<and> end_law sv committed view"

lemma server_begin:
  "\<lbrakk>server_laws sv committed view; view s r = None; sv_begin sv r s = (Inr (), s')\<rbrakk> \<Longrightarrow>
    view s' r = Some (committed s, []) \<and> committed s' = committed s"
  unfolding server_laws_def begin_law_def by blast

lemma server_savepoint:
  "\<lbrakk>server_laws sv committed view; view s r = Some (d, stk); sv_exec sv r (''SAVEPOINT '' @ n) [] s = (Inr (), s')\<rbrakk> \<Longrightarrow>
    view s' r = Some (d, (n, d) # stk) \<and> committed s' = committed s"
  unfolding server_laws_def savepoint_law_def by blast

lemma server_rollback_to:
  "\<lbrakk>server_laws sv committed view; view s r = Some (d, stk); dropWhile (\<lambda>x. fst x \<noteq> n) stk = (n, d') # rest;
    sv_exec sv r (''ROLLBACK TO SAVEPOINT '' @ n) [] s = (Inr (), s')\<rbrakk> \<Longrightarrow>
    view s' r = Some (d', (n, d') # rest) \<and> committed s' = committed s"
  unfolding server_laws_def rollback_to_law_def by blast

lemma server_release:
  "\<lbrakk>server_laws sv committed view; view s r = Some (d, stk); dropWhile (\<lambda>x. fst x \<noteq> n) stk = (n, d') # rest;
    sv_exec sv r (''RELEASE SAVEPOINT '' @ n) [] s = (Inr (), s')\<rbrakk> \<Longrightarrow>
    view s' r = Some (d, rest) \<and> committed s' = committed s"
  unfolding server_laws_def release_law_def by blast

lemma server_setting:
  "\<lbrakk>server_laws sv committed view; view s r = Some v; setting_sql q; sv_exec sv r q b s = (Inr (), s')\<rbrakk> \<Longrightarrow>
    view s' r = Some v \<and> committed s' = committed s"
  unfolding server_laws_def setting_law_def by blast

lemma server_commit:
  "\<lbrakk>server_laws sv committed view; view s r = Some (d, stk); sv_commit sv r s = (Inr (), s')\<rbrakk> \<Longrightarrow>
    view s' r = None \<and> committed s' = d"
  unfolding server_laws_def end_law_def by blast

lemma server_rollback:
  "\<lbrakk>server_laws sv committed view; view s r = Some (d, stk); sv_rollback sv r s = (Inr (), s')\<rbrakk> \<Longrightarrow>
    view s' r = None \<and> committed s' = committed s"
  unfolding server_laws_def end_law_def by blast

section \<open>The levels of a savepoint stack\<close>

definition sp :: "nat \<Rightarrow> string" where
  "sp k = savepoint_name (int k)"

lemma sp_inject [simp]: "sp i = sp j \<longleftrightarrow> i = j"
  by (simp add: sp_def savepoint_name_def)

definition deeper :: "nat \<Rightarrow> (string \<times> 'd) list \<Rightarrow> bool" where
  "deeper n stk \<longleftrightarrow> (\<forall>x\<in>set stk. \<exists>k>n. fst x = sp k)"

text \<open>The newest entry of each level's name, from the deepest level down, with the leftovers between them.\<close>

inductive levels :: "nat \<Rightarrow> (string \<times> 'd) list \<Rightarrow> 'd list \<Rightarrow> bool" where
  ground: "deeper 0 stk \<Longrightarrow> levels 0 stk []"
| level: "\<lbrakk>deeper (Suc n) pre; levels n rest ds\<rbrakk> \<Longrightarrow> levels (Suc n) (pre @ (sp (Suc n), d) # rest) (d # ds)"

inductive_cases levels_SucE: "levels (Suc n) stk ds"
inductive_cases levels_0E: "levels 0 stk ds"
inductive_simps levels_0: "levels 0 stk ds"

lemma levels_length: "levels n stk ds \<Longrightarrow> length ds = n"
  by (induction rule: levels.induct) simp_all

lemma levels_push: "levels n stk ds \<Longrightarrow> levels (Suc n) ((sp (Suc n), d) # stk) (d # ds)"
  using levels.level [of n "[]" stk ds d] by (simp add: deeper_def)

lemma deeper_drop: "deeper n pre \<Longrightarrow> dropWhile (\<lambda>x. fst x \<noteq> sp n) (pre @ (sp n, d) # rest) = (sp n, d) # rest"
  by (induction pre) (auto simp: deeper_def)

lemma levels_stale: "levels n rest ds \<Longrightarrow> levels n ((sp (Suc n), d) # rest) ds"
proof (induction rule: levels.cases)
  case (ground stk)
  then show ?case by (auto simp: levels_0 deeper_def)
next
  case (level m pre rest ds d')
  then have "deeper (Suc m) ((sp (Suc (Suc m)), d) # pre)" by (auto simp: deeper_def)
  from levels.level [OF this level(5), of d'] level show ?case by simp
qed

lemma levels_split:
  assumes "levels (Suc n) stk ds"
  obtains rest d ds' where "ds = d # ds'" "dropWhile (\<lambda>x. fst x \<noteq> sp (Suc n)) stk = (sp (Suc n), d) # rest"
    "levels n rest ds'"
  using assms by (elim levels_SucE) (auto simp: deeper_drop)

section \<open>The abstract transactions\<close>

type_synonym 'd nested = "'d \<times> ('d \<times> 'd list) option"

datatype txn_call = CallBegin bool | CallCommit | CallRollback | CallWork string "string list"

text \<open>\<open>eff\<close> is what a statement does to a database; outside a transaction it commits at once.\<close>

fun abs_call :: "(string \<Rightarrow> string list \<Rightarrow> 'd \<Rightarrow> 'd) \<Rightarrow> txn_call \<Rightarrow> 'd nested \<Rightarrow> 'd nested option" where
  "abs_call eff (CallBegin _) (c, None) = Some (c, Some (c, []))"
| "abs_call eff (CallBegin _) (c, Some (d, ds)) = Some (c, Some (d, d # ds))"
| "abs_call eff CallCommit (c, Some (d, [])) = Some (d, None)"
| "abs_call eff CallCommit (c, Some (d, x # ds)) = Some (c, Some (d, ds))"
| "abs_call eff CallRollback (c, Some (d, [])) = Some (c, None)"
| "abs_call eff CallRollback (c, Some (d, x # ds)) = Some (c, Some (x, ds))"
| "abs_call eff (CallWork q b) (c, Some (d, ds)) = Some (c, Some (eff q b d, ds))"
| "abs_call eff (CallWork q b) (c, None) = Some (eff q b c, None)"
| "abs_call eff _ (c, None) = None"

definition do_call :: "'s sql_server \<Rightarrow> dbx \<Rightarrow> txn_call \<Rightarrow> 's dbx_state \<Rightarrow> (dbx_error + unit) \<times> 's dbx_state" where
  "do_call sv d c st =
     (case c of
        CallBegin read_only \<Rightarrow> if read_only then begin_txn_read_only sv d st else begin_txn sv d st
      | CallCommit \<Rightarrow> commit_txn sv d st
      | CallRollback \<Rightarrow> rollback_txn sv d st
      | CallWork q b \<Rightarrow> (case dbx_execute False sv d q b st of Some r \<Rightarrow> r | None \<Rightarrow> (Inr (), st)))"

text \<open>The law of the other statements, those of \<open>W\<close>.\<close>

definition statement_law ::
  "'s sql_server \<Rightarrow> ('s \<Rightarrow> 'd) \<Rightarrow> ('s \<Rightarrow> holder_ref \<Rightarrow> 'd txn_view option) \<Rightarrow> (string \<Rightarrow> string list \<Rightarrow> 'd \<Rightarrow> 'd) \<Rightarrow> string set \<Rightarrow> bool" where
  "statement_law sv committed view eff W \<longleftrightarrow>
     (\<forall>q\<in>W. \<forall>b s s'.
        (\<forall>r d stk. view s r = Some (d, stk) \<longrightarrow> sv_exec sv r q b s = (Inr (), s') \<longrightarrow>
           view s' r = Some (eff q b d, stk) \<and> committed s' = committed s) \<and>
        (sv_pool_exec sv q b s = (Inr (), s') \<longrightarrow> committed s' = eff q b (committed s) \<and> (\<forall>r. view s r = None \<longrightarrow> view s' r = None)))"

text \<open>The holder of a transaction with \<open>n\<close> nested begins open.\<close>

definition holder_at :: "nat \<Rightarrow> txn_holder" where
  "holder_at n = \<lparr>th_counter = int n + 1, th_savepoints = map sp [1..<n + 1]\<rparr>"

lemma holder_at_0: "holder_new = holder_at 0"
  by (simp add: holder_new_def holder_at_def)

lemma holder_inc_at: "holder_inc (holder_at n) = (sp (Suc n), holder_at (Suc n))"
  by (simp add: holder_inc_def holder_at_def sp_def add.commute)

lemma holder_dec_at:
  "holder_dec (holder_at (Suc n)) = (int n + 1, Some (sp (Suc n)), holder_at n)"
  "fst (holder_dec (holder_at 0)) = 0"
  by (simp_all add: holder_dec_def holder_at_def)

definition represents ::
  "('s \<Rightarrow> 'd) \<Rightarrow> ('s \<Rightarrow> holder_ref \<Rightarrow> 'd txn_view option) \<Rightarrow> dbx \<Rightarrow> 's dbx_state \<Rightarrow> 'd nested \<Rightarrow> bool" where
  "represents committed view d st a \<longleftrightarrow>
     committed (ds_server st) = fst a \<and>
     (case snd a of
        None \<Rightarrow> ds_holders st (dx_holder d) = None \<and> view (ds_server st) (dx_holder d) = None
      | Some (cur, ds) \<Rightarrow> \<exists>stk.
          ds_holders st (dx_holder d) =
            Some (holder_at (length ds)) \<and>
          view (ds_server st) (dx_holder d) = Some (cur, stk) \<and> levels (length ds) stk ds)"

lemmas state_simps = put_holder_def put_server_def

lemma begin_refines:
  assumes laws: "server_laws sv committed view" and rep: "represents committed view d st a"
    and b: "begin_txn_inner sv d ro st = (Inr (), st')"
  shows "\<exists>a'. abs_call eff (CallBegin ro) a = Some a' \<and> represents committed view d st' a'"
proof (cases "snd a")
  case None
  with rep have n: "ds_holders st (dx_holder d) = None" "view (ds_server st) (dx_holder d) = None" "committed (ds_server st) = fst a"
    by (simp_all add: represents_def)
  have t: "dx_txn d" using b by (auto simp: begin_txn_inner_def split: if_splits)
  with b n(1) have "open_transaction sv d ro st = (Inr (), st')" by (simp add: begin_txn_inner_def)
  then obtain s s1 s2 where s: "sv_begin sv (dx_holder d) (ds_server st) = (Inr (), s)"
    "(if ro then sv_exec sv (dx_holder d) ''SET TRANSACTION READ ONLY'' [] s else (Inr (), s)) = (Inr (), s1)"
    "(if dx_session_vars d \<noteq> []
      then sv_exec sv (dx_holder d) (session_sql (dx_session_vars d)) (session_binds (dx_session_vars d)) s1 else (Inr (), s1)) = (Inr (), s2)"
    "st' = put_holder (dx_holder d) (Some holder_new) (put_server s2 st)"
    unfolding open_transaction_def by (auto split: prod.splits sum.splits)
  have v: "view s (dx_holder d) = Some (fst a, [])" "committed s = fst a"
    using server_begin [OF laws n(2) s(1)] n(3) by simp_all
  have v1: "view s1 (dx_holder d) = Some (fst a, []) \<and> committed s1 = fst a"
    using s(2) v server_setting [OF laws v(1), of "''SET TRANSACTION READ ONLY''" "[]" s1] by (auto simp: setting_sql_def split: if_splits)
  have v2: "view s2 (dx_holder d) = Some (fst a, []) \<and> committed s2 = fst a"
    using s(3) v1 server_setting [OF laws conjunct1 [OF v1], of "session_sql (dx_session_vars d)" "session_binds (dx_session_vars d)" s2]
    by (auto simp: setting_sql_def split: if_splits)
  have "represents committed view d st' (fst a, Some (fst a, []))"
    using v2 by (simp add: represents_def s(4) state_simps holder_at_0 levels_0 deeper_def)
  moreover have "abs_call eff (CallBegin ro) a = Some (fst a, Some (fst a, []))" using None by (cases a) simp
  ultimately show ?thesis by blast
next
  case (Some x)
  then obtain cur ds where x: "snd a = Some (cur, ds)" by (cases x) auto
  with rep obtain stk where r: "ds_holders st (dx_holder d) =
        Some (holder_at (length ds))"
    "view (ds_server st) (dx_holder d) = Some (cur, stk)" "levels (length ds) stk ds" "committed (ds_server st) = fst a"
    by (auto simp: represents_def)
  have "open_savepoint sv d (holder_at (length ds)) st = (Inr (), st')"
    using b r(1) by (auto simp: begin_txn_inner_def split: if_splits)
  then obtain s where s: "sv_exec sv (dx_holder d) (''SAVEPOINT '' @ sp (Suc (length ds))) [] (ds_server st) = (Inr (), s)"
    and st': "st' = put_server s (put_holder (dx_holder d) (Some (holder_at (Suc (length ds)))) st)"
    unfolding open_savepoint_def holder_inc_at by (auto simp: Let_def state_simps split: prod.splits sum.splits)
  have "represents committed view d st' (fst a, Some (cur, cur # ds))"
    using server_savepoint [OF laws r(2) s] levels_push [OF r(3), of cur] r(4)
    by (simp add: represents_def st' state_simps)
  moreover have "abs_call eff (CallBegin ro) a = Some (fst a, Some (cur, cur # ds))" using x by (cases a) simp
  ultimately show ?thesis by blast
qed

lemma end_refines:
  assumes laws: "server_laws sv committed view" and rep: "represents committed view d st a"
    and e: "do_call sv d c st = (Inr (), st')" "c = CallCommit \<or> c = CallRollback"
  shows "\<exists>a'. abs_call eff c a = Some a' \<and> represents committed view d st' a'"
proof (cases "snd a")
  case None
  with rep have "ds_holders st (dx_holder d) = None" by (simp add: represents_def)
  with e show ?thesis by (auto simp: do_call_def commit_txn_def rollback_txn_def split: if_splits)
next
  case (Some x)
  then obtain cur ds where x: "snd a = Some (cur, ds)" by (cases x) auto
  with rep obtain stk where r: "ds_holders st (dx_holder d) =
        Some (holder_at (length ds))"
    "view (ds_server st) (dx_holder d) = Some (cur, stk)" "levels (length ds) stk ds" "committed (ds_server st) = fst a"
    by (auto simp: represents_def)
  show ?thesis
  proof (cases ds)
    case Nil
    show ?thesis
    proof (cases "c = CallCommit")
      case True
      then obtain s where s: "sv_commit sv (dx_holder d) (ds_server st) = (Inr (), s)"
        "st' = put_holder (dx_holder d) None (put_server s st)"
        using e(1) r(1) Nil
        by (auto simp: do_call_def commit_txn_def holder_at_def holder_dec_def Let_def state_simps split: if_splits prod.splits sum.splits)
      have "represents committed view d st' (cur, None)"
        using server_commit [OF laws r(2) s(1)] by (simp add: represents_def s(2) state_simps)
      with True x Nil show ?thesis by (cases a) auto
    next
      case False
      with e(2) have c: "c = CallRollback" by simp
      then obtain s where s: "sv_rollback sv (dx_holder d) (ds_server st) = (Inr (), s)"
        "st' = put_holder (dx_holder d) None (put_server s st)"
        using e(1) r(1) Nil
        by (auto simp: do_call_def rollback_txn_def holder_at_def holder_dec_def Let_def state_simps split: if_splits prod.splits sum.splits)
      have "represents committed view d st' (fst a, None)"
        using server_rollback [OF laws r(2) s(1)] r(4) by (simp add: represents_def s(2) state_simps)
      with c x Nil show ?thesis by (cases a) auto
    qed
  next
    case (Cons y ys)
    let ?h = "holder_at (length ys)"
    from r(3) Cons obtain rest where rest: "dropWhile (\<lambda>x. fst x \<noteq> sp (Suc (length ys))) stk = (sp (Suc (length ys)), y) # rest"
      "levels (length ys) rest ys" by (auto elim: levels_split)
    have st: "ds_holders st (dx_holder d) = Some (holder_at (Suc (length ys)))"
      using r(1) Cons by simp
    show ?thesis
    proof (cases "c = CallCommit")
      case True
      then obtain s where s: "sv_exec sv (dx_holder d) (''RELEASE SAVEPOINT '' @ sp (Suc (length ys))) [] (ds_server st) = (Inr (), s)"
        "st' = put_server s (put_holder (dx_holder d) (Some ?h) st)"
        using e(1) unfolding do_call_def commit_txn_def st option.case holder_dec_at
        by (auto simp: Let_def state_simps split: if_splits prod.splits sum.splits)
      have "represents committed view d st' (fst a, Some (cur, ys))"
        using server_release [OF laws r(2) rest(1) s(1)] rest(2) r(4) by (simp add: represents_def s(2) state_simps)
      with True x Cons show ?thesis by (cases a) auto
    next
      case False
      with e(2) have c: "c = CallRollback" by simp
      then obtain s where s: "sv_exec sv (dx_holder d) (''ROLLBACK TO SAVEPOINT '' @ sp (Suc (length ys))) [] (ds_server st) = (Inr (), s)"
        "st' = put_server s (put_holder (dx_holder d) (Some ?h) st)"
        using e(1) unfolding do_call_def rollback_txn_def st option.case holder_dec_at
        by (auto simp: Let_def state_simps split: if_splits prod.splits sum.splits)
      have "represents committed view d st' (fst a, Some (y, ys))"
        using server_rollback_to [OF laws r(2) rest(1) s(1)] levels_stale [OF rest(2)] r(4)
        by (simp add: represents_def s(2) state_simps)
      with c x Cons show ?thesis by (cases a) auto
    qed
  qed
qed

lemma work_refines:
  assumes st: "statement_law sv committed view eff W" "q \<in> W" and rep: "represents committed view d st a"
    and t: "dx_txn d" and e: "do_call sv d (CallWork q b) st = (Inr (), st')"
  shows "\<exists>a'. abs_call eff (CallWork q b) a = Some a' \<and> represents committed view d st' a'"
proof (cases "snd a")
  case None
  with rep have n: "ds_holders st (dx_holder d) = None" "view (ds_server st) (dx_holder d) = None" "committed (ds_server st) = fst a"
    by (simp_all add: represents_def)
  with e t obtain s where s: "sv_pool_exec sv q b (ds_server st) = (Inr (), s)" "st' = put_server s st"
    by (auto simp: do_call_def dbx_execute_def orphan_session_vars_def split: prod.splits sum.splits)
  have "committed s = eff q b (fst a) \<and> view s (dx_holder d) = None"
    using st s(1) n(2,3) unfolding statement_law_def by metis
  then have "represents committed view d st' (eff q b (fst a), None)"
    using n by (simp add: represents_def s(2) state_simps)
  with None show ?thesis by (cases a) auto
next
  case (Some x)
  then obtain cur ds where x: "snd a = Some (cur, ds)" by (cases x) auto
  with rep obtain stk where r: "ds_holders st (dx_holder d) = Some (holder_at (length ds))"
    "view (ds_server st) (dx_holder d) = Some (cur, stk)" "levels (length ds) stk ds" "committed (ds_server st) = fst a"
    by (auto simp: represents_def)
  with e t obtain s where s: "sv_exec sv (dx_holder d) q b (ds_server st) = (Inr (), s)" "st' = put_server s st"
    by (auto simp: do_call_def dbx_execute_def split: prod.splits sum.splits)
  have "view s (dx_holder d) = Some (eff q b cur, stk) \<and> committed s = fst a"
    using st s(1) r(2,4) unfolding statement_law_def by metis
  then have "represents committed view d st' (fst a, Some (eff q b cur, ds))"
    using r by (simp add: represents_def s(2) state_simps)
  with x show ?thesis by (cases a) auto
qed

fun works :: "txn_call \<Rightarrow> string set" where
  "works (CallWork q b) = {q}"
| "works _ = {}"

lemma call_refines:
  assumes "server_laws sv committed view" "statement_law sv committed view eff W" "works c \<subseteq> W"
    "represents committed view d st a" "dx_txn d" "do_call sv d c st = (Inr (), st')"
  shows "\<exists>a'. abs_call eff c a = Some a' \<and> represents committed view d st' a'"
proof (cases c)
  case (CallBegin ro)
  then have "\<exists>ro'. begin_txn_inner sv d ro' st = (Inr (), st')"
    using assms(6) by (auto simp: do_call_def begin_txn_def begin_txn_read_only_def split: if_splits dbx_provider.splits)
  with begin_refines [OF assms(1,4)] obtain a' ro' where "abs_call eff (CallBegin ro') a = Some a'" "represents committed view d st' a'" by blast
  moreover have "abs_call eff (CallBegin ro') a = abs_call eff (CallBegin ro) a" by (cases a; cases "snd a") auto
  ultimately show ?thesis using CallBegin by auto
next
  case (CallWork q b)
  with work_refines [OF assms(2) _ assms(4,5)] assms(3,6) show ?thesis by auto
qed (use end_refines [OF assms(1,4,6)] in auto)

end
