(* ===== verification/Sql_Props.thy ===== *)
theory Sql_Props
  imports Sql_Txn
begin

text \<open>
  Properties of the database handle and of the model manager's transactions, with a server that keeps
  its snapshots in a list for the witnesses.
\<close>

section \<open>Sequences of calls\<close>

fun do_calls :: "'s sql_server \<Rightarrow> dbx \<Rightarrow> txn_call list \<Rightarrow> 's dbx_state \<Rightarrow> (dbx_error + unit) \<times> 's dbx_state" where
  "do_calls sv d [] st = (Inr (), st)"
| "do_calls sv d (c # cs) st =
     (case do_call sv d c st of
        (Inl e, st') \<Rightarrow> (Inl e, st')
      | (Inr _, st') \<Rightarrow> do_calls sv d cs st')"

fun abs_calls :: "(string \<Rightarrow> string list \<Rightarrow> 'd \<Rightarrow> 'd) \<Rightarrow> txn_call list \<Rightarrow> 'd nested \<Rightarrow> 'd nested option" where
  "abs_calls eff [] a = Some a"
| "abs_calls eff (c # cs) a = Option.bind (abs_call eff c a) (abs_calls eff cs)"

lemma calls_refine:
  assumes "server_laws sv committed view" "statement_law sv committed view eff W" "dx_txn d"
    and "\<Union> (works ` set cs) \<subseteq> W" "represents committed view d st a" "do_calls sv d cs st = (Inr (), st')"
  shows "\<exists>a'. abs_calls eff cs a = Some a' \<and> represents committed view d st' a'"
  using assms(4-6)
proof (induction cs arbitrary: st a)
  case (Cons c cs)
  from Cons.prems(3) obtain st1 where st1: "do_call sv d c st = (Inr (), st1)" "do_calls sv d cs st1 = (Inr (), st')"
    by (auto split: prod.splits sum.splits)
  from call_refines [OF assms(1,2) _ Cons.prems(2) assms(3) st1(1)] Cons.prems(1)
  obtain a1 where a1: "abs_call eff c a = Some a1" "represents committed view d st1 a1" by auto
  from Cons.IH [OF _ a1(2) st1(2)] Cons.prems(1) a1(1) show ?case by auto
qed simp

section \<open>A concrete server\<close>

text \<open>The database is a list of the statements it took. \<open>FAIL\<close> is refused, and a transaction with a refused
  statement takes nothing more but a rollback.\<close>

record toy_server =
  ty_committed :: "string list"
  ty_view :: "holder_ref \<Rightarrow> string list txn_view option"
  ty_failed :: "holder_ref \<Rightarrow> bool"

definition toy_strip :: "string \<Rightarrow> string \<Rightarrow> string option" where
  "toy_strip p q = (if starts_with p q then Some (drop (length p) q) else None)"

definition toy_effect :: "string \<Rightarrow> string list \<Rightarrow> string list \<Rightarrow> string list" where
  "toy_effect q b d = d @ [q @ concat b]"

definition toy_put :: "holder_ref \<Rightarrow> string list txn_view option \<Rightarrow> bool \<Rightarrow> toy_server \<Rightarrow> toy_server" where
  "toy_put r v f s = s\<lparr>ty_view := (ty_view s)(r := v), ty_failed := (ty_failed s)(r := f)\<rparr>"

definition toy_exec :: "holder_ref \<Rightarrow> string \<Rightarrow> string list \<Rightarrow> toy_server \<Rightarrow> (string + unit) \<times> toy_server" where
  "toy_exec r q b s =
     (case ty_view s r of
        None \<Rightarrow> (Inl ''no transaction'', s)
      | Some (d, stk) \<Rightarrow>
          (case toy_strip ''ROLLBACK TO SAVEPOINT '' q of
             Some n \<Rightarrow>
               (case dropWhile (\<lambda>x. fst x \<noteq> n) stk of
                  [] \<Rightarrow> (Inl ''savepoint does not exist'', toy_put r (Some (d, stk)) True s)
                | (m, d') # rest \<Rightarrow> (Inr (), toy_put r (Some (d', (m, d') # rest)) False s))
           | None \<Rightarrow>
          if ty_failed s r \<or> q = ''FAIL'' then (Inl ''transaction is aborted'', toy_put r (Some (d, stk)) True s)
          else
          (case toy_strip ''SAVEPOINT '' q of
             Some n \<Rightarrow> (Inr (), toy_put r (Some (d, (n, d) # stk)) False s)
           | None \<Rightarrow>
          (case toy_strip ''RELEASE SAVEPOINT '' q of
             Some n \<Rightarrow>
               (case dropWhile (\<lambda>x. fst x \<noteq> n) stk of
                  [] \<Rightarrow> (Inl ''savepoint does not exist'', toy_put r (Some (d, stk)) True s)
                | _ # rest \<Rightarrow> (Inr (), toy_put r (Some (d, rest)) False s))
           | None \<Rightarrow>
               if starts_with ''SE'' q then (Inr (), s)
               else (Inr (), toy_put r (Some (toy_effect q b d, stk)) False s)))))"

definition toy :: "toy_server sql_server" where
  "toy =
     \<lparr>sv_begin = (\<lambda>r s. (Inr (), toy_put r (Some (ty_committed s, [])) False s)),
      sv_exec = toy_exec,
      sv_commit = (\<lambda>r s. case ty_view s r of
           None \<Rightarrow> (Inl ''no transaction'', s)
         | Some (d, _) \<Rightarrow>
             if ty_failed s r then (Inl ''transaction is aborted'', toy_put r None False s)
             else (Inr (), (toy_put r None False s)\<lparr>ty_committed := d\<rparr>)),
      sv_rollback = (\<lambda>r s. (Inr (), toy_put r None False s)),
      sv_pool_exec = (\<lambda>q b s.
         if q = ''FAIL'' then (Inl ''refused'', s) else (Inr (), s\<lparr>ty_committed := toy_effect q b (ty_committed s)\<rparr>))\<rparr>"

lemma setting_starts: "setting_sql q \<Longrightarrow> take 2 q = ''SE''"
  by (auto simp: setting_sql_def session_sql_def)

lemmas toy_defs = toy_def toy_exec_def toy_strip_def starts_with_def toy_put_def

lemma toy_laws: "server_laws toy ty_committed ty_view"
proof -
  have "setting_law toy ty_committed ty_view"
  proof -
    have "s' = s" if "ty_view s r = Some v" "setting_sql q" "toy_exec r q b s = (Inr (), s')" for r q b s s' v
    proof -
      from setting_starts [OF that(2)] obtain t where q: "q = ''SE'' @ t"
        by (metis append_take_drop_id)
      show ?thesis using that(1,3) by (cases v) (auto simp: q toy_defs split: if_splits)
    qed
    then show ?thesis unfolding setting_law_def by (simp add: toy_def) metis
  qed
  moreover have "savepoint_law toy ty_committed ty_view"
    by (auto simp: savepoint_law_def toy_defs split: if_splits)
  moreover have "rollback_to_law toy ty_committed ty_view"
    by (auto simp: rollback_to_law_def toy_defs)
  moreover have "release_law toy ty_committed ty_view"
    by (auto simp: release_law_def toy_defs split: if_splits)
  moreover have "begin_law toy ty_committed ty_view" by (auto simp: begin_law_def toy_defs)
  moreover have "end_law toy ty_committed ty_view" by (auto simp: end_law_def toy_defs split: if_splits)
  ultimately show ?thesis by (simp add: server_laws_def)
qed

lemma toy_statements: "statement_law toy ty_committed ty_view toy_effect {''INSERT'', ''FAIL''}"
  by (auto simp: statement_law_def toy_defs split: if_splits)

definition toy_state :: "toy_server dbx_state" where
  "toy_state = \<lparr>ds_holders = (\<lambda>_. None), ds_next = 1, ds_server = \<lparr>ty_committed = [], ty_view = (\<lambda>_. None), ty_failed = (\<lambda>_. False)\<rparr>\<rparr>"

definition toy_dbx :: dbx where
  "toy_dbx = \<lparr>dx_provider = Postgres, dx_holder = 0, dx_txn = True, dx_session_vars = []\<rparr>"

lemma toy_represents: "represents ty_committed ty_view toy_dbx toy_state ([], None)"
  by (simp add: represents_def toy_state_def toy_dbx_def)

section \<open>Properties\<close>

text \<open>C8: whatever sequence of begins, commits, rollbacks and statements is issued on a handle, as long as each of
  them succeeds the database goes through nested transactions: a commit keeps what was done since the
  matching begin, a rollback restores the database of the matching begin, also when names of savepoints
  left over by earlier rollbacks are used again.\<close>

theorem nested_transactions_refine:
  assumes "server_laws sv committed view" "statement_law sv committed view eff W" "dx_txn d"
    and "\<Union> (works ` set cs) \<subseteq> W" "represents committed view d st a" "do_calls sv d cs st = (Inr (), st')"
  shows "\<exists>a'. abs_calls eff cs a = Some a' \<and> represents committed view d st' a'"
  using assms by (rule calls_refine)

definition toy_calls :: "txn_call list" where
  "toy_calls = [CallBegin False, CallWork ''INSERT'' [], CallBegin False, CallWork ''INSERT'' [], CallRollback,
     CallBegin False, CallWork ''INSERT'' [], CallCommit, CallCommit]"

lemma toy_abs: "abs_calls toy_effect toy_calls ([], None) = Some ([''INSERT'', ''INSERT''], None)"
  by (simp add: toy_calls_def toy_effect_def)

lemma toy_run: "\<exists>st'. do_calls toy toy_dbx toy_calls toy_state = (Inr (), st')"
  by (simp add: toy_calls_def do_call_def begin_txn_def begin_txn_inner_def open_transaction_def open_savepoint_def
      commit_txn_def rollback_txn_def dbx_execute_def toy_dbx_def toy_state_def state_simps holder_new_def holder_inc_def
      holder_dec_def savepoint_name_def toy_defs Let_def)

theorem nested_transactions_refine_witness:
  "ty_committed (ds_server (snd (do_calls toy toy_dbx toy_calls toy_state))) = [''INSERT'', ''INSERT'']"
proof -
  obtain st' where run: "do_calls toy toy_dbx toy_calls toy_state = (Inr (), st')" using toy_run by blast
  have "\<exists>a'. abs_calls toy_effect toy_calls ([], None) = Some a' \<and> represents ty_committed ty_view toy_dbx st' a'"
    by (rule nested_transactions_refine [OF toy_laws toy_statements _ _ toy_represents run])
      (simp_all add: toy_dbx_def toy_calls_def)
  with run toy_abs show ?thesis by (auto simp: represents_def)
qed

section \<open>Closures\<close>






section \<open>Failures\<close>





















section \<open>One level\<close>


















text \<open>A nested begin whose savepoint fails still counts: the handle's next rollback, meant for the
  enclosing transaction, is sent to a savepoint that was never made, and the transaction stays open
  whether that statement fails or not.\<close>

theorem failed_savepoint_miscounts:
  assumes "ds_holders st (dx_holder d) = Some holder_new" "dx_txn d"
    and "sv_exec sv (dx_holder d) (''SAVEPOINT '' @ savepoint_name 1) [] (ds_server st) = (Inl e, s1)"
    and "begin_txn sv d st = (res, st1)" "rollback_txn sv d st1 = (res2, st2)"
  shows "res \<noteq> Inr () \<and> ds_holders st2 (dx_holder d) = Some holder_new \<and>
    (sv_exec sv (dx_holder d) (''ROLLBACK TO SAVEPOINT '' @ savepoint_name 1) [] s1 = (Inl e2, s2) \<longrightarrow>
      res2 \<noteq> Inr () \<and> ds_server st2 = s2)"
  using assms
  by (auto simp: begin_txn_def begin_txn_inner_def open_savepoint_def rollback_txn_def holder_new_def holder_inc_def
      holder_dec_def state_simps Let_def split: prod.splits sum.splits)

definition full_toy :: "toy_server sql_server" where
  "full_toy = toy\<lparr>sv_exec := (\<lambda>r q b s. (Inl ''out of savepoints'', s))\<rparr>"

theorem failed_savepoint_miscounts_witness:
  "ds_holders (snd (rollback_txn full_toy toy_dbx (snd (begin_txn full_toy toy_dbx
      (put_holder 0 (Some holder_new) toy_state))))) 0 = Some holder_new"
  using failed_savepoint_miscounts [where st = "put_holder 0 (Some holder_new) toy_state" and d = toy_dbx and sv = full_toy,
      OF _ _ _ surjective_pairing surjective_pairing]
  by (simp add: toy_dbx_def full_toy_def put_holder_def)

end
