(* ===== verification/Core_App.thy ===== *)
theory Core_App
  imports Flow_Prelude "HOL-Library.AList"
begin

text \<open>
  crates/fusion-core: the application builder and the built application (application.rs), plugins
  (plugin/mod.rs) and components (component/mod.rs, component/error.rs).

  Plugins, component installers and shutdown hooks are code outside the repository: a reference to each
  is a number, and their code is a record of functions on the builder. A panic is an error value. The
  configuration registry is the parameter type \<open>'g\<close>; \<open>iter\<close> is the order in which a concurrent map yields
  its entries.
\<close>

section \<open>Components\<close>

datatype component_error =
    ComponentNotFound string
  | ComponentTypeMismatch string
  | AlreadyRegistered string

text \<open>A component of a type is the name of the type with a value; \<open>downcast\<close> succeeds at its own type.\<close>

record 'v dyn_component =
  dc_type :: string
  dc_value :: 'v

definition downcast :: "string \<Rightarrow> 'v dyn_component \<Rightarrow> component_error + 'v" where
  "downcast t c = (if dc_type c = t then Inr (dc_value c) else Inl (ComponentTypeMismatch t))"

type_synonym 'v registry = "(string \<times> 'v) list"

definition component_by_name :: "string \<Rightarrow> string \<Rightarrow> 'v dyn_component registry \<Rightarrow> component_error + 'v" where
  "component_by_name t name cs =
     (case map_of cs name of
        None \<Rightarrow> Inl (ComponentNotFound name)
      | Some c \<Rightarrow> downcast t c)"

definition component_of :: "string \<Rightarrow> 'v dyn_component registry \<Rightarrow> component_error + 'v" where
  "component_of t cs = component_by_name t t cs"

definition insert_component :: "string \<Rightarrow> 'v \<Rightarrow> 'v dyn_component registry \<Rightarrow> component_error + 'v dyn_component registry" where
  "insert_component t v cs =
     (if map_of cs t \<noteq> None then Inl (AlreadyRegistered t)
      else Inr (AList.update t \<lparr>dc_type = t, dc_value = v\<rparr> cs))"

section \<open>The builder\<close>

type_synonym plugin_ref = nat
type_synonym hook_ref = nat

record ('v, 'g) app_builder =
  ab_config :: 'g
  ab_plugins :: "plugin_ref registry"
  ab_components :: "'v dyn_component registry"
  ab_hooks :: "hook_ref list"

record ('v, 'g) plugin =
  pl_name :: string
  pl_dependencies :: "string list"
  pl_immediately :: bool
  pl_build :: "('v, 'g) app_builder \<Rightarrow> ('v, 'g) app_builder"
  pl_immediately_build :: "('v, 'g) app_builder \<Rightarrow> ('v, 'g) app_builder"

type_synonym ('v, 'g) plugins = "plugin_ref \<Rightarrow> ('v, 'g) plugin"

definition try_add_component :: "string \<Rightarrow> 'v \<Rightarrow> ('v, 'g) app_builder \<Rightarrow> component_error + ('v, 'g) app_builder" where
  "try_add_component t v b = map_sum id (\<lambda>cs. b\<lparr>ab_components := cs\<rparr>) (insert_component t v (ab_components b))"

definition try_component :: "string \<Rightarrow> ('v, 'g) app_builder \<Rightarrow> component_error + 'v" where
  "try_component t b = component_of t (ab_components b)"

definition add_shutdown_hook :: "hook_ref \<Rightarrow> ('v, 'g) app_builder \<Rightarrow> ('v, 'g) app_builder" where
  "add_shutdown_hook h b = b\<lparr>ab_hooks := ab_hooks b @ [h]\<rparr>"

definition add_plugin :: "('v, 'g) plugins \<Rightarrow> plugin_ref \<Rightarrow> ('v, 'g) app_builder \<Rightarrow> string + ('v, 'g) app_builder" where
  "add_plugin ps p b =
     (let plugin = ps p
      in if pl_immediately plugin then Inr (pl_immediately_build plugin b)
         else if map_of (ab_plugins b) (pl_name plugin) \<noteq> None
         then Inl (''Error adding plugin '' @ pl_name plugin @ '': plugin was already added in application'')
         else Inr (b\<lparr>ab_plugins := AList.update (pl_name plugin) p (ab_plugins b)\<rparr>))"

definition contains_plugin :: "string \<Rightarrow> ('v, 'g) app_builder \<Rightarrow> bool" where
  "contains_plugin name b \<longleftrightarrow> map_of (ab_plugins b) name \<noteq> None"

section \<open>Building the plugins\<close>

text \<open>
  One pass of the inner loop: the builder, the names registered (a set in the source, here in the order
  of registration), the plugins left for the next round, and whether one was built.
\<close>

fun plugin_round ::
  "('v, 'g) plugins \<Rightarrow> plugin_ref list \<Rightarrow> ('v, 'g) app_builder \<Rightarrow> string list \<Rightarrow>
   ('v, 'g) app_builder \<times> string list \<times> plugin_ref list \<times> bool" where
  "plugin_round ps [] b registered = (b, registered, [], False)"
| "plugin_round ps (p # rest) b registered =
     (if set (pl_dependencies (ps p)) \<subseteq> set registered
      then (let (b', r, left, _) = plugin_round ps rest (pl_build (ps p) b) (registered @ [pl_name (ps p)])
            in (b', r, left, True))
      else (let (b', r, left, progress) = plugin_round ps rest b registered in (b', r, p # left, progress)))"

lemma plugin_round_left: "plugin_round ps xs b reg = (b', reg', left, prog) \<Longrightarrow>
  length left \<le> length xs \<and> (prog \<longrightarrow> length left < length xs) \<and> (\<not> prog \<longrightarrow> left = xs \<and> reg' = reg)"
  by (induction ps xs b reg arbitrary: b' reg' left prog rule: plugin_round.induct)
    (fastforce split: if_splits prod.splits)+

definition cyclic_message :: string where
  "cyclic_message = ''Cyclic dependency detected or missing dependencies for some plugins''"

function build_rounds ::
  "('v, 'g) plugins \<Rightarrow> plugin_ref list \<Rightarrow> ('v, 'g) app_builder \<Rightarrow> string list \<Rightarrow> string + ('v, 'g) app_builder \<times> string list" where
  "build_rounds ps to_register b registered =
     (if to_register = [] then Inr (b, registered)
      else (case plugin_round ps to_register b registered of
              (b', registered', left, progress) \<Rightarrow>
                if progress then build_rounds ps left b' registered' else Inl cyclic_message))"
  by pat_completeness auto

termination
  by (relation "measure (\<lambda>(ps, to_register, b, registered). length to_register)")
    (auto dest!: plugin_round_left [OF sym])

declare build_rounds.simps [simp del]

text \<open>The registry is taken out of the builder for the rounds and put back afterwards.\<close>

definition build_plugins ::
  "(plugin_ref registry \<Rightarrow> plugin_ref registry) \<Rightarrow> ('v, 'g) plugins \<Rightarrow> ('v, 'g) app_builder \<Rightarrow>
   string + ('v, 'g) app_builder \<times> string list" where
  "build_plugins iter ps b =
     (let registry = ab_plugins b
      in bindR (build_rounds ps (map snd (iter registry)) (b\<lparr>ab_plugins := []\<rparr>) [])
           (\<lambda>(b', registered). Inr (b'\<lparr>ab_plugins := registry\<rparr>, registered)))"

section \<open>Injecting the components\<close>

text \<open>An installer: what it depends on and its \<open>install_component\<close>, which may fail with an error \<open>'e\<close>.\<close>

record ('v, 'g, 'e) installer =
  in_dependencies :: "string list"
  in_install :: "('v, 'g) app_builder \<Rightarrow> 'e + ('v, 'g) app_builder"

datatype 'e build_error = InstallError 'e | Panicked string

definition missing :: "('v, 'g) app_builder \<Rightarrow> string list \<Rightarrow> string list" where
  "missing b deps = filter (\<lambda>d. map_of (ab_components b) d = None) deps"

text \<open>A pass: the dependencies that are still missing are remembered with the installer.\<close>

fun inject_round ::
  "(('v, 'g, 'e) installer \<times> string list) list \<Rightarrow> ('v, 'g) app_builder \<Rightarrow>
   'e + ('v, 'g) app_builder \<times> (('v, 'g, 'e) installer \<times> string list) list \<times> bool" where
  "inject_round [] b = Inr (b, [], False)"
| "inject_round ((r, deps) # rest) b =
     (if missing b deps = []
      then bindR (in_install r b) (\<lambda>b'. bindR (inject_round rest b') (\<lambda>(b'', pending, _). Inr (b'', pending, True)))
      else bindR (inject_round rest b) (\<lambda>(b', pending, progress). Inr (b', (r, missing b deps) # pending, progress)))"

lemma inject_round_left: "inject_round xs b = Inr (b', pending, prog) \<Longrightarrow>
  length pending \<le> length xs \<and> (prog \<longrightarrow> length pending < length xs) \<and> (\<not> prog \<longrightarrow> b' = b \<and> length pending = length xs)"
  by (induction xs b arbitrary: b' pending prog rule: inject_round.induct)
    (fastforce simp: bindR_eq_Inr split: if_splits prod.splits)+

text \<open>\<open>show\<close> is the debug text of a set of names.\<close>

definition inject_message :: "(string set \<Rightarrow> string) \<Rightarrow> (('v, 'g, 'e) installer \<times> string list) list \<Rightarrow> string" where
  "inject_message show pending =
     ''Component registration failed, please check the component dependency relationship. '' @
     ''Cyclic or missing dependencies, unregistered Components: '' @ show (\<Union> (set ` snd ` set pending))"

function inject_rounds ::
  "(string set \<Rightarrow> string) \<Rightarrow> (('v, 'g, 'e) installer \<times> string list) list \<Rightarrow> ('v, 'g) app_builder \<Rightarrow>
   'e build_error + ('v, 'g) app_builder" where
  "inject_rounds show registrars b =
     (if registrars = [] then Inr b
      else (case inject_round registrars b of
              Inl e \<Rightarrow> Inl (InstallError e)
            | Inr (b', pending, progress) \<Rightarrow>
                if progress then inject_rounds show pending b' else Inl (Panicked (inject_message show pending))))"
  by pat_completeness auto

termination
  by (relation "measure (\<lambda>(show, registrars, b). length registrars)") (auto dest!: inject_round_left)

declare inject_rounds.simps [simp del]

definition auto_inject_component ::
  "(string set \<Rightarrow> string) \<Rightarrow> ('v, 'g, 'e) installer list \<Rightarrow> ('v, 'g) app_builder \<Rightarrow> 'e build_error + ('v, 'g) app_builder" where
  "auto_inject_component show inventory b = inject_rounds show (map (\<lambda>r. (r, in_dependencies r)) inventory) b"

section \<open>The application\<close>

text \<open>The shutdown pair is there or has been taken. \<open>'t\<close> is a time.\<close>

record ('v, 'g, 't) application =
  ap_config :: 'g
  ap_components :: "'v dyn_component registry"
  ap_start_time :: 't
  ap_shutdown :: bool
  ap_hooks :: "hook_ref list"

text \<open>\<open>build_application\<close> takes the fields out of the builder; \<open>default_config\<close> is what it leaves behind.\<close>

definition build_application ::
  "'g \<Rightarrow> ('g \<Rightarrow> 't) \<Rightarrow> ('v, 'g) app_builder \<Rightarrow> ('v, 'g, 't) application \<times> ('v, 'g) app_builder" where
  "build_application default_config time_now b =
     (\<lparr>ap_config = ab_config b, ap_components = ab_components b, ap_start_time = time_now (ab_config b),
       ap_shutdown = True, ap_hooks = ab_hooks b\<rparr>,
      b\<lparr>ab_components := [], ab_config := default_config, ab_hooks := []\<rparr>)"

text \<open>\<open>set_global\<close> on a \<open>OnceLock\<close>; \<open>show\<close> is the display of the application that could not be set.\<close>

definition set_global ::
  "(('v, 'g, 't) application \<Rightarrow> string) \<Rightarrow> ('v, 'g, 't) application \<Rightarrow> ('v, 'g, 't) application option \<Rightarrow>
   string + ('v, 'g, 't) application option" where
  "set_global show app global =
     (case global of
        None \<Rightarrow> Inr (Some app)
      | Some _ \<Rightarrow> Inl (''Global application was already set to '' @ show app))"

record ('v, 'g, 't, 'e) app_env =
  ae_iter :: "plugin_ref registry \<Rightarrow> plugin_ref registry"
  ae_plugins :: "('v, 'g) plugins"
  ae_show_names :: "string set \<Rightarrow> string"
  ae_inventory :: "('v, 'g, 'e) installer list"
  ae_default_config :: 'g
  ae_time_now :: "'g \<Rightarrow> 't"
  ae_show_app :: "('v, 'g, 't) application \<Rightarrow> string"

definition build_app ::
  "('v, 'g, 't, 'e) app_env \<Rightarrow> ('v, 'g) app_builder \<Rightarrow> ('v, 'g, 't) application option \<Rightarrow>
   'e build_error + ('v, 'g, 't) application option \<times> ('v, 'g) app_builder" where
  "build_app env b global =
     bindR (map_errR Panicked (build_plugins (ae_iter env) (ae_plugins env) b)) (\<lambda>(b1, _).
     bindR (auto_inject_component (ae_show_names env) (ae_inventory env) b1) (\<lambda>b2.
     (let (app, b3) = build_application (ae_default_config env) (ae_time_now env) b2
      in bindR (map_errR Panicked (set_global (ae_show_app env) app global)) (\<lambda>global'. Inr (global', b3)))))"

definition app_try_add_component ::
  "string \<Rightarrow> 'v \<Rightarrow> ('v, 'g, 't) application \<Rightarrow> component_error + ('v, 'g, 't) application" where
  "app_try_add_component t v app = map_sum id (\<lambda>cs. app\<lparr>ap_components := cs\<rparr>) (insert_component t v (ap_components app))"

definition app_try_component :: "string \<Rightarrow> ('v, 'g, 't) application \<Rightarrow> component_error + 'v" where
  "app_try_component t app = component_of t (ap_components app)"

definition component_names :: "('v, 'g, 't) application \<Rightarrow> string list" where
  "component_names app = map fst (ap_components app)"

definition is_shutdown :: "('v, 'g, 't) application \<Rightarrow> bool" where
  "is_shutdown app = (\<not> ap_shutdown app)"

text \<open>A hook runs on the application and the rest of the world and answers with its name or an error,
  which is only logged.\<close>

type_synonym ('v, 'g, 't, 'w) hooks =
  "hook_ref \<Rightarrow> ('v, 'g, 't) application \<times> 'w \<Rightarrow> (string + string) \<times> ('v, 'g, 't) application \<times> 'w"

definition run_shutdown_hooks ::
  "('v, 'g, 't, 'w) hooks \<Rightarrow> ('v, 'g, 't) application \<times> 'w \<Rightarrow> ('v, 'g, 't) application \<times> 'w" where
  "run_shutdown_hooks hooks = (\<lambda>(app, w). fold (\<lambda>h aw. snd (hooks h aw)) (ap_hooks app) (app\<lparr>ap_hooks := []\<rparr>, w))"

definition await_shutdown ::
  "('v, 'g, 't, 'w) hooks \<Rightarrow> ('v, 'g, 't) application \<times> 'w \<Rightarrow> bool \<times> ('v, 'g, 't) application \<times> 'w" where
  "await_shutdown hooks = (\<lambda>(app, w).
     if ap_shutdown app then (True, run_shutdown_hooks hooks (app\<lparr>ap_shutdown := False\<rparr>, w)) else (False, app, w))"

end
