(* ===== verification/Core_Order.thy ===== *)
theory Core_Order
  imports Core_App "HOL-Library.Multiset"
begin

text \<open>
  The order in which plugins are built: the rounds find an order in which every plugin comes after the
  plugins it depends on, exactly when there is one.
\<close>

abbreviation plugin_names :: "('v, 'g) plugins \<Rightarrow> plugin_ref list \<Rightarrow> string list" where
  "plugin_names ps refs \<equiv> map (\<lambda>p. pl_name (ps p)) refs"

text \<open>\<open>refs\<close> can be built in this order once the names \<open>reg\<close> are registered.\<close>

fun in_order :: "('v, 'g) plugins \<Rightarrow> string list \<Rightarrow> plugin_ref list \<Rightarrow> bool" where
  "in_order ps reg [] \<longleftrightarrow> True"
| "in_order ps reg (p # refs) \<longleftrightarrow> set (pl_dependencies (ps p)) \<subseteq> set reg \<and> in_order ps (reg @ [pl_name (ps p)]) refs"

definition build_all :: "('v, 'g) plugins \<Rightarrow> plugin_ref list \<Rightarrow> ('v, 'g) app_builder \<Rightarrow> ('v, 'g) app_builder" where
  "build_all ps refs b = fold (\<lambda>p. pl_build (ps p)) refs b"

lemma in_order_append: "in_order ps reg (xs @ ys) \<longleftrightarrow> in_order ps reg xs \<and> in_order ps (reg @ plugin_names ps xs) ys"
  by (induction xs arbitrary: reg) auto

lemma in_order_split:
  "in_order ps reg (xs @ p # ys) \<Longrightarrow> set (pl_dependencies (ps p)) \<subseteq> set reg \<union> set (plugin_names ps xs)"
  by (simp add: in_order_append)

lemma plugin_round_order:
  assumes "plugin_round ps xs b reg = (b', reg', left, prog)"
  shows "\<exists>refs. mset xs = mset refs + mset left \<and> reg' = reg @ plugin_names ps refs \<and> b' = build_all ps refs b \<and> in_order ps reg refs"
  using assms
proof (induction ps xs b reg arbitrary: b' reg' left prog rule: plugin_round.induct)
  case (1 ps b reg)
  then show ?case by (auto simp: build_all_def)
next
  case (2 ps p rest b reg)
  show ?case
  proof (cases "set (pl_dependencies (ps p)) \<subseteq> set reg")
    case True
    obtain pr where "plugin_round ps rest (pl_build (ps p) b) (reg @ [pl_name (ps p)]) = (b', reg', left, pr)"
      using 2(3) True by (auto split: prod.splits)
    from 2(1) [OF True this] obtain refs where refs: "mset rest = mset refs + mset left"
      "reg' = (reg @ [pl_name (ps p)]) @ plugin_names ps refs" "b' = build_all ps refs (pl_build (ps p) b)"
      "in_order ps (reg @ [pl_name (ps p)]) refs" by blast
    then show ?thesis using True by (intro exI [of _ "p # refs"]) (simp add: build_all_def)
  next
    case False
    obtain l where l: "plugin_round ps rest b reg = (b', reg', l, prog)" "left = p # l"
      using 2(3) False by (auto split: prod.splits)
    from 2(2) [OF False l(1)] l(2) show ?thesis by auto
  qed
qed

lemma plugin_round_stuck:
  "plugin_round ps xs b reg = (b', reg', left, False) \<Longrightarrow> \<forall>p\<in>set xs. \<not> set (pl_dependencies (ps p)) \<subseteq> set reg"
  by (induction ps xs b reg arbitrary: b' reg' left rule: plugin_round.induct) (auto split: if_splits prod.splits)

lemma build_rounds_order:
  "build_rounds ps xs b reg = Inr (b', reg') \<Longrightarrow>
   \<exists>refs. mset xs = mset refs \<and> reg' = reg @ plugin_names ps refs \<and> b' = build_all ps refs b \<and> in_order ps reg refs"
proof (induction ps xs b reg rule: build_rounds.induct)
  case (1 ps xs b reg)
  show ?case
  proof (cases "xs = []")
    case True
    with 1(2) show ?thesis by (simp add: build_rounds.simps build_all_def)
  next
    case False
    obtain b1 reg1 left prog where r: "plugin_round ps xs b reg = (b1, reg1, left, prog)" by (metis surj_pair)
    with 1(2) False have p: "prog" and rec: "build_rounds ps left b1 reg1 = Inr (b', reg')"
      by (auto simp: build_rounds.simps [of ps xs] split: if_splits)
    from plugin_round_order [OF r] obtain refs1 where refs1: "mset xs = mset refs1 + mset left"
      "reg1 = reg @ plugin_names ps refs1" "b1 = build_all ps refs1 b" "in_order ps reg refs1" by blast
    from 1(1) [OF False r [symmetric] refl refl p rec] obtain refs2 where refs2: "mset left = mset refs2"
      "reg' = reg1 @ plugin_names ps refs2" "b' = build_all ps refs2 b1" "in_order ps reg1 refs2" by blast
    show ?thesis
      using refs1 refs2 by (intro exI [of _ "refs1 @ refs2"]) (simp add: in_order_append build_all_def)
  qed
qed

lemma build_rounds_stuck:
  "build_rounds ps xs b reg = Inl e \<Longrightarrow>
   e = cyclic_message \<and> (\<exists>refs left. left \<noteq> [] \<and> mset xs = mset refs + mset left \<and>
     (\<forall>p\<in>set left. \<not> set (pl_dependencies (ps p)) \<subseteq> set (reg @ plugin_names ps refs)))"
proof (induction ps xs b reg rule: build_rounds.induct)
  case (1 ps xs b reg)
  from 1(2) have ne: "xs \<noteq> []" by (auto simp: build_rounds.simps)
  obtain b1 reg1 left prog where r: "plugin_round ps xs b reg = (b1, reg1, left, prog)" by (metis surj_pair)
  from plugin_round_order [OF r] obtain refs1 where refs1: "mset xs = mset refs1 + mset left"
    "reg1 = reg @ plugin_names ps refs1" by blast
  show ?case
  proof (cases prog)
    case True
    with 1(2) ne r have "build_rounds ps left b1 reg1 = Inl e" by (simp add: build_rounds.simps [of ps xs])
    from 1(1) [OF ne r [symmetric] refl refl True this] obtain refs2 left2 where rest: "e = cyclic_message" "left2 \<noteq> []"
      "mset left = mset refs2 + mset left2"
      "\<forall>p\<in>set left2. \<not> set (pl_dependencies (ps p)) \<subseteq> set (reg1 @ plugin_names ps refs2)" by blast
    from rest refs1 show ?thesis
      by (intro conjI exI [of _ "refs1 @ refs2"] exI [of _ left2]) (simp_all add: Un_assoc)
  next
    case False
    with 1(2) ne r have "e = cyclic_message" by (simp add: build_rounds.simps [of ps xs])
    moreover have "\<forall>p\<in>set xs. \<not> set (pl_dependencies (ps p)) \<subseteq> set reg"
      using r False by (intro plugin_round_stuck [of ps xs b reg b1 reg1 left]) simp
    ultimately show ?thesis using ne by (intro conjI exI [of _ "[]"] exI [of _ xs]) simp_all
  qed
qed

text \<open>With an order at hand the rounds never get stuck: the first plugin of the order that is left can be built.\<close>

lemma build_rounds_complete:
  assumes "in_order ps reg order" "mset order = mset xs"
  shows "\<exists>out. build_rounds ps xs b reg = Inr out"
proof (rule ccontr)
  assume "\<nexists>out. build_rounds ps xs b reg = Inr out"
  then obtain e where "build_rounds ps xs b reg = Inl e" by (cases "build_rounds ps xs b reg") auto
  from build_rounds_stuck [OF this] obtain refs left where stuck: "left \<noteq> []" "mset xs = mset refs + mset left"
    "\<forall>p\<in>set left. \<not> set (pl_dependencies (ps p)) \<subseteq> set (reg @ plugin_names ps refs)" by blast
  have all: "set order = set refs \<union> set left"
    using assms(2) stuck(2) by (metis set_mset_mset set_mset_union)
  then have "\<exists>p\<in>set order. p \<in> set left" using stuck(1) by (metis UnCI list.set_sel(1))
  from split_list_first_prop [OF this] obtain xs1 p ys where o: "order = xs1 @ p # ys" "p \<in> set left" "\<forall>q\<in>set xs1. q \<notin> set left"
    by blast
  then have "set xs1 \<subseteq> set refs" using all by auto
  then have "set (plugin_names ps xs1) \<subseteq> set (plugin_names ps refs)" by auto
  with in_order_split [of ps reg xs1 p ys] assms(1) o(1) have "set (pl_dependencies (ps p)) \<subseteq> set (reg @ plugin_names ps refs)" by auto
  with stuck(3) o(2) show False by blast
qed

section \<open>The registry\<close>

definition registry_ok :: "('v, 'g) plugins \<Rightarrow> plugin_ref registry \<Rightarrow> bool" where
  "registry_ok ps reg \<longleftrightarrow> distinct (map fst reg) \<and> (\<forall>(n, p)\<in>set reg. pl_name (ps p) = n)"

lemma registry_ok_add:
  assumes "registry_ok ps (ab_plugins b)" "add_plugin ps p b = Inr b'" "\<not> pl_immediately (ps p)"
  shows "registry_ok ps (ab_plugins b') \<and> map_of (ab_plugins b') (pl_name (ps p)) = Some p"
proof -
  from assms have b': "map_of (ab_plugins b) (pl_name (ps p)) = None" "ab_plugins b' = AList.update (pl_name (ps p)) p (ab_plugins b)"
    by (auto simp: add_plugin_def Let_def split: if_splits)
  have "AList.update k v al = al @ [(k, v)]" if "k \<notin> set (map fst al)" for k v and al :: "plugin_ref registry"
    using that by (induction al) auto
  with b' have "ab_plugins b' = ab_plugins b @ [(pl_name (ps p), p)]" by (auto simp: map_of_eq_None_iff)
  with assms(1) b'(1) show ?thesis by (force simp: registry_ok_def map_of_eq_None_iff map_add_def split: option.split)
qed

lemma registry_names: "registry_ok ps reg \<Longrightarrow> plugin_names ps (map snd reg) = map fst reg"
  by (auto simp: registry_ok_def)

end
