(* ===== verification/Core_Props.thy ===== *)
theory Core_Props
  imports Core_Order
begin

text \<open>
  Properties of the application builder: the order of the plugins, the fate of a plugin that another
  plugin adds, and the installation of the components.
\<close>

section \<open>Plugins\<close>

lemma build_plugins_Inr:
  "build_plugins iter ps b = Inr (b', built) \<longleftrightarrow>
   (\<exists>b1. build_rounds ps (map snd (iter (ab_plugins b))) (b\<lparr>ab_plugins := []\<rparr>) [] = Inr (b1, built) \<and>
      b' = b1\<lparr>ab_plugins := ab_plugins b\<rparr>)"
  by (auto simp: build_plugins_def Let_def bindR_eq_Inr)

lemma build_plugins_order:
  assumes reg: "registry_ok ps (ab_plugins b)" "mset (iter (ab_plugins b)) = mset (ab_plugins b)"
    and "build_plugins iter ps b = Inr (b', built)"
  shows "\<exists>refs. mset refs = mset (map snd (ab_plugins b)) \<and> built = plugin_names ps refs \<and> distinct built \<and>
    set built = fst ` set (ab_plugins b) \<and> in_order ps [] refs \<and>
    b' = (build_all ps refs (b\<lparr>ab_plugins := []\<rparr>))\<lparr>ab_plugins := ab_plugins b\<rparr>"
proof -
  from assms(3) obtain b1 where b1: "build_rounds ps (map snd (iter (ab_plugins b))) (b\<lparr>ab_plugins := []\<rparr>) [] = Inr (b1, built)"
    "b' = b1\<lparr>ab_plugins := ab_plugins b\<rparr>" by (auto simp: build_plugins_Inr)
  from build_rounds_order [OF b1(1)] obtain refs where refs: "mset (map snd (iter (ab_plugins b))) = mset refs"
    "built = plugin_names ps refs" "b1 = build_all ps refs (b\<lparr>ab_plugins := []\<rparr>)" "in_order ps [] refs" by auto
  have m: "mset refs = mset (map snd (ab_plugins b))" using refs(1) reg(2) by simp
  have "mset built = mset (plugin_names ps (map snd (ab_plugins b)))" using m refs(2) by (metis mset_map)
  also have "\<dots> = mset (map fst (ab_plugins b))" by (rule arg_cong [OF registry_names [OF reg(1)]])
  finally have b: "mset built = mset (map fst (ab_plugins b))" .
  have "distinct built" using b reg(1) by (metis registry_ok_def mset_eq_imp_distinct_iff)
  moreover have "set built = fst ` set (ab_plugins b)" using b by (metis list.set_map mset_eq_setD)
  ultimately show ?thesis using m refs b1(2) by blast
qed

text \<open>C18: \<open>build_plugins\<close> succeeds exactly when the plugins can be ordered so that each comes after the plugins it
  depends on, whatever the order in which the registry yields them; it then builds every plugin once, in
  such an order, each on the builder that the ones before it left.\<close>

theorem plugins_built_in_order:
  assumes "registry_ok ps (ab_plugins b)" "mset (iter (ab_plugins b)) = mset (ab_plugins b)"
  shows "((\<exists>b' built. build_plugins iter ps b = Inr (b', built)) \<longleftrightarrow>
      (\<exists>order. mset order = mset (map snd (ab_plugins b)) \<and> in_order ps [] order)) \<and>
    (\<forall>b' built. build_plugins iter ps b = Inr (b', built) \<longrightarrow>
      (\<exists>refs. mset refs = mset (map snd (ab_plugins b)) \<and> built = plugin_names ps refs \<and> distinct built \<and> in_order ps [] refs \<and>
        b' = (build_all ps refs (b\<lparr>ab_plugins := []\<rparr>))\<lparr>ab_plugins := ab_plugins b\<rparr>))"
proof -
  have "\<exists>b' built. build_plugins iter ps b = Inr (b', built)"
    if "mset order = mset (map snd (ab_plugins b))" "in_order ps [] order" for order
  proof -
    have "mset order = mset (map snd (iter (ab_plugins b)))" using that(1) assms(2) by simp
    from build_rounds_complete [OF that(2) this, of "b\<lparr>ab_plugins := []\<rparr>"] obtain b1 built
      where "build_rounds ps (map snd (iter (ab_plugins b))) (b\<lparr>ab_plugins := []\<rparr>) [] = Inr (b1, built)"
      by (metis surj_pair)
    then show ?thesis by (auto simp: build_plugins_Inr)
  qed
  then show ?thesis using build_plugins_order [where iter = iter, OF assms] by blast
qed

text \<open>A database plugin and a web plugin that depends on it, added in the other order.\<close>

definition plain_plugin :: "string \<Rightarrow> string list \<Rightarrow> (unit, unit) plugin" where
  "plain_plugin n deps = \<lparr>pl_name = n, pl_dependencies = deps, pl_immediately = False, pl_build = (\<lambda>b. b), pl_immediately_build = (\<lambda>b. b)\<rparr>"

definition demo_plugins :: "(unit, unit) plugins" where
  "demo_plugins p = (if p = 0 then plain_plugin ''db'' [] else plain_plugin ''web'' [''db''])"

definition demo_builder :: "(unit, unit) app_builder" where
  "demo_builder = \<lparr>ab_config = (), ab_plugins = [(''web'', 1), (''db'', 0)], ab_components = [], ab_hooks = []\<rparr>"

theorem plugins_built_in_order_witness:
  "\<exists>b'. build_plugins rev demo_plugins demo_builder = Inr (b', [''db'', ''web''])"
proof -
  have reg: "registry_ok demo_plugins (ab_plugins demo_builder)"
    by (simp add: registry_ok_def demo_builder_def demo_plugins_def plain_plugin_def)
  have "\<exists>b' built. build_plugins rev demo_plugins demo_builder = Inr (b', built)"
    unfolding plugins_built_in_order [where iter = rev, OF reg mset_rev, THEN conjunct1]
    by (rule exI [of _ "[0, 1]"]) (simp add: demo_builder_def demo_plugins_def plain_plugin_def)
  then obtain b' built where b: "build_plugins rev demo_plugins demo_builder = Inr (b', built)" by blast
  have "build_rounds demo_plugins [0, 1] (demo_builder\<lparr>ab_plugins := []\<rparr>) [] = Inr (demo_builder\<lparr>ab_plugins := []\<rparr>, [''db'', ''web''])"
    by (subst build_rounds.simps, simp add: demo_plugins_def plain_plugin_def, subst build_rounds.simps, simp)
  with b show ?thesis by (auto simp: build_plugins_Inr demo_builder_def)
qed

text \<open>A plugin that another plugin adds while it is built is dropped: after \<open>build_plugins\<close> the registry holds
  exactly the plugins it held before, and no other name was built.\<close>

theorem plugin_added_in_build_dropped:
  assumes "registry_ok ps (ab_plugins b)" "mset (iter (ab_plugins b)) = mset (ab_plugins b)"
    and "build_plugins iter ps b = Inr (b', built)" "\<not> contains_plugin n b"
  shows "\<not> contains_plugin n b' \<and> n \<notin> set built"
  using build_plugins_order [where iter = iter, OF assms(1-3)] assms(4)
  by (auto simp: contains_plugin_def map_of_eq_None_iff)

text \<open>The plugin 0 adds the plugin 1 when it is built.\<close>

definition adding_plugins :: "(unit, unit) plugins" where
  "adding_plugins p =
     (if p = 0
      then (plain_plugin ''outer'' [])\<lparr>pl_build := (\<lambda>b. case add_plugin (\<lambda>_. plain_plugin ''inner'' []) 1 b of Inl _ \<Rightarrow> b | Inr b' \<Rightarrow> b')\<rparr>
      else plain_plugin ''inner'' [])"

theorem plugin_added_in_build_dropped_witness:
  "\<exists>b' built. build_plugins id adding_plugins (demo_builder\<lparr>ab_plugins := [(''outer'', 0)]\<rparr>) = Inr (b', built) \<and>
     contains_plugin ''inner'' (pl_build (adding_plugins 0) demo_builder) \<and> \<not> contains_plugin ''inner'' b'"
proof -
  let ?b = "demo_builder\<lparr>ab_plugins := [(''outer'', 0)]\<rparr>"
  have reg: "registry_ok adding_plugins (ab_plugins ?b)"
    by (simp add: registry_ok_def adding_plugins_def plain_plugin_def)
  have "\<exists>b' built. build_plugins id adding_plugins ?b = Inr (b', built)"
    unfolding build_plugins_Inr
    by (subst build_rounds.simps) (simp add: adding_plugins_def plain_plugin_def build_rounds.simps)
  then obtain b' built where b: "build_plugins id adding_plugins ?b = Inr (b', built)" by blast
  have n: "\<not> contains_plugin ''inner'' ?b" by (simp add: contains_plugin_def)
  have "contains_plugin ''inner'' (pl_build (adding_plugins 0) demo_builder)"
    by (simp add: adding_plugins_def plain_plugin_def add_plugin_def demo_builder_def contains_plugin_def update_conv')
  with plugin_added_in_build_dropped [OF reg _ b n] b show ?thesis by auto
qed

section \<open>Components\<close>

text \<open>Installing one after the other, each when all it depends on is there.\<close>

fun install_in_order :: "('v, 'g, 'e) installer list \<Rightarrow> ('v, 'g) app_builder \<Rightarrow> ('v, 'g) app_builder option" where
  "install_in_order [] b = Some b"
| "install_in_order (r # rs) b =
     (if missing b (in_dependencies r) = []
      then (case in_install r b of Inl _ \<Rightarrow> None | Inr b' \<Rightarrow> install_in_order rs b')
      else None)"

definition keeps_components :: "('v, 'g, 'e) installer \<Rightarrow> bool" where
  "keeps_components r \<longleftrightarrow> (\<forall>b b'. in_install r b = Inr b' \<longrightarrow> dom (map_of (ab_components b)) \<subseteq> dom (map_of (ab_components b')))"

lemma install_in_order_append:
  "install_in_order (xs @ ys) b = Option.bind (install_in_order xs b) (install_in_order ys)"
  by (induction xs arbitrary: b) (auto split: sum.split)

text \<open>What is remembered with an installer covers what is still missing.\<close>

definition covers :: "('v, 'g) app_builder \<Rightarrow> ('v, 'g, 'e) installer \<times> string list \<Rightarrow> bool" where
  "covers b x \<longleftrightarrow> set (missing b (in_dependencies (fst x))) \<subseteq> set (snd x)"

lemma covers_ready: "\<lbrakk>covers b (r, deps); missing b deps = []\<rbrakk> \<Longrightarrow> missing b (in_dependencies r) = []"
  by (force simp: covers_def missing_def filter_empty_conv)

lemma covers_mono:
  "\<lbrakk>covers b x; dom (map_of (ab_components b)) \<subseteq> dom (map_of (ab_components b'))\<rbrakk> \<Longrightarrow> covers b' x"
  by (fastforce simp: covers_def missing_def subset_iff domIff)

lemma covers_missing: "covers b (r, deps) \<Longrightarrow> covers b (r, missing b deps)"
  by (auto simp: covers_def missing_def)

lemma inject_round_order:
  assumes "inject_round xs b = Inr (b', pending, prog)" "\<forall>x\<in>set xs. covers b x \<and> keeps_components (fst x)"
  shows "\<exists>order. mset (map fst xs) = mset order + mset (map fst pending) \<and> install_in_order order b = Some b' \<and>
    dom (map_of (ab_components b)) \<subseteq> dom (map_of (ab_components b')) \<and> (\<forall>x\<in>set pending. covers b' x \<and> keeps_components (fst x))"
  using assms
proof (induction xs b arbitrary: b' pending prog rule: inject_round.induct)
  case (2 r deps rest b)
  show ?case
  proof (cases "missing b deps = []")
    case True
    with 2(3) obtain b1 pr where b1: "in_install r b = Inr b1" "inject_round rest b1 = Inr (b', pending, pr)"
      by (auto simp: bindR_eq_Inr)
    have d: "dom (map_of (ab_components b)) \<subseteq> dom (map_of (ab_components b1))"
      using 2(4) b1(1) by (auto simp: keeps_components_def)
    have "\<forall>x\<in>set rest. covers b1 x \<and> keeps_components (fst x)" using 2(4) by (auto intro: covers_mono [OF _ d])
    from 2(1) [OF True b1(2) this] obtain order where o: "mset (map fst rest) = mset order + mset (map fst pending)"
      "install_in_order order b1 = Some b'" "dom (map_of (ab_components b1)) \<subseteq> dom (map_of (ab_components b'))"
      "\<forall>x\<in>set pending. covers b' x \<and> keeps_components (fst x)" by blast
    have "missing b (in_dependencies r) = []" using 2(4) True covers_ready by fastforce
    then show ?thesis using o d b1(1) by (intro exI [of _ "r # order"]) auto
  next
    case False
    with 2(3) obtain p where p: "inject_round rest b = Inr (b', p, prog)" "pending = (r, missing b deps) # p"
      by (auto simp: bindR_eq_Inr)
    from 2(2) [OF False p(1)] 2(4) obtain order where o: "mset (map fst rest) = mset order + mset (map fst p)"
      "install_in_order order b = Some b'" "dom (map_of (ab_components b)) \<subseteq> dom (map_of (ab_components b'))"
      "\<forall>x\<in>set p. covers b' x \<and> keeps_components (fst x)" by auto
    have "covers b (r, deps)" using 2(4) by simp
    then have "covers b' (r, missing b deps)" using covers_mono [OF covers_missing o(3)] by blast
    then show ?thesis using o p(2) 2(4) by (intro exI [of _ order]) auto
  qed
qed simp

lemma inject_rounds_order:
  assumes "inject_rounds show xs b = Inr b'" "\<forall>x\<in>set xs. covers b x \<and> keeps_components (fst x)"
  shows "\<exists>order. mset (map fst xs) = mset order \<and> install_in_order order b = Some b'"
  using assms
proof (induction "show" xs b rule: inject_rounds.induct)
  case (1 s xs b)
  show ?case
  proof (cases "xs = []")
    case True
    with 1(2) show ?thesis by (simp add: inject_rounds.simps)
  next
    case False
    note run = 1(2) [unfolded inject_rounds.simps [of s xs b]]
    from run False obtain b1 pending prog where r: "inject_round xs b = Inr (b1, pending, prog)"
      by (cases "inject_round xs b") auto
    with run False have p: prog and rec: "inject_rounds s pending b1 = Inr b'"
      by (auto split: if_splits)
    from inject_round_order [OF r 1(3)] obtain o1 where o1: "mset (map fst xs) = mset o1 + mset (map fst pending)"
      "install_in_order o1 b = Some b1" "\<forall>x\<in>set pending. covers b1 x \<and> keeps_components (fst x)" by blast
    from 1(1) [OF False r refl refl p rec o1(3)] obtain o2 where o2: "mset (map fst pending) = mset o2"
      "install_in_order o2 b1 = Some b'" by blast
    show ?thesis using o1 o2 by (intro exI [of _ "o1 @ o2"]) (simp add: install_in_order_append)
  qed
qed

text \<open>When \<open>auto_inject_component\<close> succeeds, every installer of the inventory ran exactly once, in some order in
  which each of them found all the components it depends on, provided installers remove no
  component.\<close>

theorem components_installed_after_dependencies:
  assumes "auto_inject_component show inventory b = Inr b'" "\<forall>r\<in>set inventory. keeps_components r"
  shows "\<exists>order. mset order = mset inventory \<and> install_in_order order b = Some b'"
proof -
  have "\<forall>x\<in>set (map (\<lambda>r. (r, in_dependencies r)) inventory). covers b x \<and> keeps_components (fst x)"
    using assms(2) by (auto simp: covers_def missing_def)
  from inject_rounds_order [OF assms(1) [unfolded auto_inject_component_def] this] show ?thesis
    by (auto simp: comp_def)
qed

definition demo_installer :: "string \<Rightarrow> string list \<Rightarrow> (nat, unit, string) installer" where
  "demo_installer n deps = \<lparr>in_dependencies = deps,
     in_install = (\<lambda>b. case try_add_component n 7 b of Inl _ \<Rightarrow> Inl ''twice'' | Inr b' \<Rightarrow> Inr b')\<rparr>"

lemma demo_installer_keeps: "keeps_components (demo_installer n deps)"
  by (auto simp: keeps_components_def demo_installer_def try_add_component_def insert_component_def update_conv'
      split: sum.splits if_splits)

theorem components_installed_after_dependencies_witness:
  "\<exists>order b'. install_in_order order \<lparr>ab_config = (), ab_plugins = [], ab_components = [], ab_hooks = []\<rparr> = Some b' \<and>
     mset order = mset [demo_installer ''service'' [''pool''], demo_installer ''pool'' []]"
proof -
  let ?b = "\<lparr>ab_config = (), ab_plugins = [], ab_components = [], ab_hooks = []\<rparr> :: (nat, unit) app_builder"
  let ?inv = "[demo_installer ''service'' [''pool''], demo_installer ''pool'' []]"
  have "\<exists>b'. auto_inject_component (\<lambda>_. []) ?inv ?b = Inr b'"
    unfolding auto_inject_component_def
    by (subst inject_rounds.simps, simp add: demo_installer_def missing_def try_add_component_def insert_component_def,
        subst inject_rounds.simps, simp add: missing_def try_add_component_def insert_component_def, simp add: inject_rounds.simps)
  then obtain b' where "auto_inject_component (\<lambda>_. []) ?inv ?b = Inr b'" by blast
  from components_installed_after_dependencies [OF this] demo_installer_keeps show ?thesis by auto
qed

end
