(* ===== verification/Common_Ctx.thy ===== *)
theory Common_Ctx
  imports Flow_Json
begin

text \<open>
  The session context of fusion-common (\<open>ctx/mod.rs\<close>: \<open>CtxPayload\<close>, \<open>Ctx\<close>) and the token
  functions of fusion-core (\<open>security/security_utils.rs\<close>, \<open>configuration/model/security_setting.rs\<close>).

  Instants are nanoseconds since the Unix epoch as \<open>int\<close>; the clock is an argument. Encryption,
  the reading of the registered claims by josekit and the range of chrono's timestamps are code of
  other crates: they are the fields of the record \<open>jose\<close> and the argument \<open>from_ts\<close>. Adding a
  \<open>Duration\<close> to a \<open>SystemTime\<close> panics when the 64-bit second counter overflows; a function that
  can panic returns an \<open>option\<close> and \<open>None\<close> is the panic.
\<close>

section \<open>Claims\<close>

definition claim_sub :: string where "claim_sub = ''sub''"
definition claim_exp :: string where "claim_exp = ''exp''"
definition claim_tenant_id :: string where "claim_tenant_id = ''tenant_id''"

definition secs_of :: "int \<Rightarrow> int" where
  "secs_of t = t div 1000000000"

definition set_string :: "string \<Rightarrow> string \<Rightarrow> json_map \<Rightarrow> json_map" where
  "set_string k v p = map_insert k (JStr v) p"

definition set_i64 :: "string \<Rightarrow> int \<Rightarrow> json_map \<Rightarrow> json_map" where
  "set_i64 k v p = map_insert k (JInt v) p"

definition set_i32 :: "string \<Rightarrow> int \<Rightarrow> json_map \<Rightarrow> json_map" where
  "set_i32 k v p = map_insert k (JInt v) p"

definition set_bool :: "string \<Rightarrow> bool \<Rightarrow> json_map \<Rightarrow> json_map" where
  "set_bool k v p = map_insert k (JBool v) p"

definition set_strings :: "string \<Rightarrow> string list \<Rightarrow> json_map \<Rightarrow> json_map" where
  "set_strings k vs p = map_insert k (JArr (map JStr vs)) p"

definition set_datetime :: "string \<Rightarrow> int \<Rightarrow> json_map \<Rightarrow> json_map" where
  "set_datetime k t p = map_insert k (JInt (secs_of t)) p"

definition set_subject :: "string \<Rightarrow> json_map \<Rightarrow> json_map" where
  "set_subject v p = set_string claim_sub v p"

definition set_tenant_id :: "string \<Rightarrow> json_map \<Rightarrow> json_map" where
  "set_tenant_id v p = set_string claim_tenant_id v p"

definition set_exp :: "int \<Rightarrow> json_map \<Rightarrow> json_map" where
  "set_exp s p = set_i64 claim_exp s p"

definition set_expires_at :: "int \<Rightarrow> json_map \<Rightarrow> json_map" where
  "set_expires_at t p = set_exp (secs_of t) p"

definition get_str :: "string \<Rightarrow> json_map \<Rightarrow> string option" where
  "get_str k p = (case map_of p k of None \<Rightarrow> None | Some v \<Rightarrow> as_str v)"

definition get_i64 :: "string \<Rightarrow> json_map \<Rightarrow> int option" where
  "get_i64 k p = (case map_of p k of None \<Rightarrow> None | Some v \<Rightarrow> as_i64 v)"

definition get_i32 :: "string \<Rightarrow> json_map \<Rightarrow> int option" where
  "get_i32 k p = map_option as_i32 (get_i64 k p)"

fun as_bool :: "json \<Rightarrow> bool option" where
  "as_bool (JBool b) = Some b"
| "as_bool _ = None"

definition get_bool :: "string \<Rightarrow> json_map \<Rightarrow> bool option" where
  "get_bool k p = (case map_of p k of None \<Rightarrow> None | Some v \<Rightarrow> as_bool v)"

definition get_strings :: "string \<Rightarrow> json_map \<Rightarrow> string list option" where
  "get_strings k p =
     (case map_of p k of
        None \<Rightarrow> None
      | Some v \<Rightarrow> map_option (List.map_filter as_str) (as_array v))"

definition get_subject :: "json_map \<Rightarrow> string option" where
  "get_subject p = get_str claim_sub p"

definition get_exp :: "json_map \<Rightarrow> int option" where
  "get_exp p = get_i64 claim_exp p"

text \<open>\<open>from_ts\<close> is \<open>DateTime::from_timestamp_secs\<close>: the instant, or \<open>None\<close> out of chrono's range.\<close>

definition get_expires_at :: "(int \<Rightarrow> int option) \<Rightarrow> json_map \<Rightarrow> int option" where
  "get_expires_at from_ts p = Option.bind (get_exp p) from_ts"

section \<open>Contexts\<close>

datatype ctx_error = InvalidPayload | CtxUnauthorized string

record ctx =
  cx_payload :: json_map
  cx_req_time :: int
  cx_req_id :: string

definition sixty_days :: int where
  "sixty_days = 60 * 60 * 24 * 60 * 1000000000"

definition thirty_minutes :: int where
  "thirty_minutes = 60 * 30 * 1000000000"

definition ctx_try_new ::
  "(int \<Rightarrow> int option) \<Rightarrow> int \<Rightarrow> json_map \<Rightarrow> int option \<Rightarrow> string option \<Rightarrow> ctx_error + ctx" where
  "ctx_try_new from_ts now p req_time req_id =
     (case get_expires_at from_ts p of
        Some st \<Rightarrow>
          (if st < now then Inl (CtxUnauthorized ''The token expired'')
           else Inr \<lparr>cx_payload = p, cx_req_time = unwrap_or now req_time, cx_req_id = unwrap_or [] req_id\<rparr>)
      | None \<Rightarrow>
          Inr \<lparr>cx_payload = set_expires_at (now + sixty_days) p, cx_req_time = unwrap_or now req_time,
               cx_req_id = unwrap_or [] req_id\<rparr>)"

definition ctx_new_root :: "int \<Rightarrow> ctx" where
  "ctx_new_root now =
     \<lparr>cx_payload = set_expires_at (now + thirty_minutes) (set_string claim_sub ''0'' []),
      cx_req_time = now, cx_req_id = []\<rparr>"

definition ctx_new_super_admin :: "int \<Rightarrow> ctx" where
  "ctx_new_super_admin now =
     \<lparr>cx_payload = set_expires_at (now + thirty_minutes) (set_string claim_sub ''1'' []),
      cx_req_time = now, cx_req_id = []\<rparr>"

definition get_user_id :: "ctx \<Rightarrow> int option" where
  "get_user_id c = Option.bind (get_subject (cx_payload c)) parse_i64"

definition user_id :: "ctx \<Rightarrow> int" where
  "user_id c = unwrap_or 0 (get_user_id c)"

definition get_tenant_id :: "ctx \<Rightarrow> string option" where
  "get_tenant_id c = get_str claim_tenant_id (cx_payload c)"

definition tenant_id :: "ctx \<Rightarrow> string" where
  "tenant_id c = unwrap_or [] (get_tenant_id c)"

definition req_epoch_secs :: "ctx \<Rightarrow> int" where
  "req_epoch_secs c = secs_of (cx_req_time c)"

definition req_epoch_millis :: "ctx \<Rightarrow> int" where
  "req_epoch_millis c = cx_req_time c div 1000000"

definition ctx_expires_at :: "(int \<Rightarrow> int option) \<Rightarrow> ctx \<Rightarrow> int option" where
  "ctx_expires_at from_ts c = get_expires_at from_ts (cx_payload c)"

section \<open>Tokens\<close>

datatype sec_error =
    HmacFailNewFromSlice
  | CannotDecodeIdent
  | CannotDecodeExp
  | SignatureNotMatching
  | ExpNotIso
  | TokenExpired
  | TokenNotYetValid
  | JoseError string

record key_conf =
  kc_secret_key :: string
  kc_expires_in :: int

record security_setting =
  ss_pwd :: key_conf
  ss_token :: key_conf

text \<open>\<open>now_utc() + Duration::seconds(expires_in)\<close>.\<close>

definition key_expires_at :: "int \<Rightarrow> key_conf \<Rightarrow> int" where
  "key_expires_at now kc = now + kc_expires_in kc * 1000000000"

text \<open>What the token functions call of josekit: the checked claims set, encryption and decryption
  with a direct key, and the registered claims as instants.\<close>

record jose =
  jo_from_map :: "json_map \<Rightarrow> string + json_map"
  jo_encrypt :: "string \<Rightarrow> json_map \<Rightarrow> string + string"
  jo_decrypt :: "string \<Rightarrow> string \<Rightarrow> string + json_map"
  jo_expires_at :: "json_map \<Rightarrow> int option"
  jo_not_before :: "json_map \<Rightarrow> int option"
  jo_set_expires_at :: "int \<Rightarrow> json_map \<Rightarrow> json_map"

definition clock_leeway :: int where
  "clock_leeway = 60 * 1000000000"

text \<open>\<open>SystemTime + Duration\<close>: the seconds are an \<open>i64\<close>.\<close>

definition st_add :: "int \<Rightarrow> int \<Rightarrow> int option" where
  "st_add t d = (if secs_of (t + d) \<le> i64_max then Some (t + d) else None)"

definition encrypt_jwt_payload :: "jose \<Rightarrow> int \<Rightarrow> key_conf \<Rightarrow> json_map \<Rightarrow> sec_error + string" where
  "encrypt_jwt_payload jo now kc p =
     (let p' = (case jo_expires_at jo p of
                  None \<Rightarrow> jo_set_expires_at jo (key_expires_at now kc) p
                | Some _ \<Rightarrow> p)
      in map_errR JoseError (jo_encrypt jo (kc_secret_key kc) p'))"

definition encrypt_jwt :: "jose \<Rightarrow> int \<Rightarrow> key_conf \<Rightarrow> json_map \<Rightarrow> sec_error + string" where
  "encrypt_jwt jo now kc p =
     bindR (map_errR JoseError (jo_from_map jo p)) (encrypt_jwt_payload jo now kc)"

text \<open>The two temporal checks of \<open>decrypt_jwt_payload\<close> in their order.\<close>

definition check_exp :: "jose \<Rightarrow> int \<Rightarrow> json_map \<Rightarrow> (sec_error + unit) option" where
  "check_exp jo now p =
     (case jo_expires_at jo p of
        None \<Rightarrow> Some okR
      | Some e \<Rightarrow> map_option (\<lambda>limit. ensureR (\<not> limit < now) TokenExpired) (st_add e clock_leeway))"

definition check_nbf :: "jose \<Rightarrow> int \<Rightarrow> json_map \<Rightarrow> (sec_error + unit) option" where
  "check_nbf jo now p =
     (case jo_not_before jo p of
        None \<Rightarrow> Some okR
      | Some n \<Rightarrow> map_option (\<lambda>limit. ensureR (\<not> limit < n) TokenNotYetValid) (st_add now clock_leeway))"

definition decrypt_jwt :: "jose \<Rightarrow> int \<Rightarrow> key_conf \<Rightarrow> string \<Rightarrow> (sec_error + json_map) option" where
  "decrypt_jwt jo now kc token =
     (case jo_decrypt jo (kc_secret_key kc) token of
        Inl e \<Rightarrow> Some (Inl (JoseError e))
      | Inr p \<Rightarrow>
          (case check_exp jo now p of
             None \<Rightarrow> None
           | Some (Inl e) \<Rightarrow> Some (Inl e)
           | Some (Inr _) \<Rightarrow>
               (case check_nbf jo now p of
                  None \<Rightarrow> None
                | Some (Inl e) \<Rightarrow> Some (Inl e)
                | Some (Inr _) \<Rightarrow> Some (Inr p))))"

section \<open>Facts\<close>

lemma get_str_insert [simp]: "get_str k (map_insert k' v p) = (if k = k' then as_str v else get_str k p)"
  by (simp add: get_str_def)

lemma get_i64_insert [simp]: "get_i64 k (map_insert k' v p) = (if k = k' then as_i64 v else get_i64 k p)"
  by (simp add: get_i64_def)

lemma get_exp_set_exp [simp]: "get_exp (set_exp s p) = (if in_i64 s then Some s else None)"
  by (simp add: get_exp_def set_exp_def set_i64_def)

lemma secs_of_mono: "s \<le> t \<Longrightarrow> secs_of s \<le> secs_of t"
  by (simp add: secs_of_def zdiv_mono1)

lemma secs_of_le: "secs_of t * 1000000000 \<le> t"
proof -
  have "1000000000 * (t div 1000000000) \<le> t"
    by (metis mult_div_mod_eq add.commute le_add_same_cancel2 pos_mod_sign zero_less_numeral add_increasing order_refl)
  then show ?thesis by (simp add: secs_of_def mult.commute)
qed

lemma secs_of_gt: "t < (secs_of t + 1) * 1000000000"
proof -
  have "t mod 1000000000 < 1000000000" by simp
  then show ?thesis using div_mult_mod_eq [of t 1000000000] by (simp add: secs_of_def distrib_right)
qed

lemma check_exp_ok:
  "check_exp jo now p = Some (Inr u) \<Longrightarrow> jo_expires_at jo p = Some e \<Longrightarrow> now \<le> e + clock_leeway"
  by (auto simp: check_exp_def st_add_def ensureR_def split: if_splits)

lemma check_nbf_ok:
  "check_nbf jo now p = Some (Inr u) \<Longrightarrow> jo_not_before jo p = Some n \<Longrightarrow> n \<le> now + clock_leeway"
  by (auto simp: check_nbf_def st_add_def ensureR_def split: if_splits)

text \<open>What an accepted token is: it decrypts under the key, it expired at most a minute ago and
  becomes valid at most a minute from now.\<close>

lemma decrypt_jwt_ok:
  assumes "decrypt_jwt jo now kc token = Some (Inr p)"
  shows "jo_decrypt jo (kc_secret_key kc) token = Inr p"
    and "jo_expires_at jo p = Some e \<Longrightarrow> now \<le> e + clock_leeway"
    and "jo_not_before jo p = Some n \<Longrightarrow> n \<le> now + clock_leeway"
  using assms
  by (auto simp: decrypt_jwt_def split: sum.splits option.splits dest: check_exp_ok check_nbf_ok)

lemma decrypt_jwt_accepts:
  assumes "jo_decrypt jo (kc_secret_key kc) token = Inr p"
    and "\<And>e. jo_expires_at jo p = Some e \<Longrightarrow> now \<le> e + clock_leeway \<and> secs_of (e + clock_leeway) \<le> i64_max"
    and "\<And>n. jo_not_before jo p = Some n \<Longrightarrow> n \<le> now + clock_leeway"
    and "secs_of (now + clock_leeway) \<le> i64_max"
  shows "decrypt_jwt jo now kc token = Some (Inr p)"
  using assms
  by (cases "jo_expires_at jo p"; cases "jo_not_before jo p")
    (simp_all add: decrypt_jwt_def check_exp_def check_nbf_def st_add_def ensureR_def okR_def not_less)

end
