(* ===== verification/Rpc_Auth.thy ===== *)
theory Rpc_Auth
  imports Common_Ctx Common_Text
begin

text \<open>
  The two request filters of fusion-rpc: \<open>auth_middleware.rs\<close> (\<open>AuthLayer\<close>: a bearer or cookie
  token becomes trusted identity headers) and \<open>context_validation_middleware.rs\<close>, with
  \<open>parse_rpc_path\<close> and \<open>extract_token_from_headers\<close> of \<open>utils.rs\<close>.

  A \<open>HeaderMap\<close> is the map from lower-case names to the list of values in arrival order
  (\<open>get\<close> reads the first, \<open>insert\<close> replaces them all, \<open>remove\<close> drops them all). A header value is
  of any type \<open>'v\<close>; \<open>hc_parse\<close> is \<open>str::parse::<HeaderValue>\<close> and \<open>hc_to_str\<close> is
  \<open>HeaderValue::to_str\<close>, both of the http crate. The body and every other part of a request is
  \<open>'b\<close>.
\<close>

section \<open>Procedure paths\<close>

definition parse_rpc_path :: "string \<Rightarrow> (string \<times> string) option" where
  "parse_rpc_path path =
     (case rsplit_once (CHR ''/'') (dropWhile (\<lambda>c. c = CHR ''/'') path) of
        None \<Rightarrow> None
      | Some (service, method) \<Rightarrow>
          (if CHR ''.'' \<in> set service \<and> method \<noteq> [] then Some (service, method) else None))"

section \<open>Headers\<close>

definition hname :: "string \<Rightarrow> string" where
  "hname n = to_ascii_lowercase n"

type_synonym 'v headers = "string \<Rightarrow> 'v list"

definition h_get :: "string \<Rightarrow> 'v headers \<Rightarrow> 'v option" where
  "h_get n h = (case h (hname n) of [] \<Rightarrow> None | v # _ \<Rightarrow> Some v)"

definition h_insert :: "string \<Rightarrow> 'v \<Rightarrow> 'v headers \<Rightarrow> 'v headers" where
  "h_insert n v h = h(hname n := [v])"

definition h_remove :: "string \<Rightarrow> 'v headers \<Rightarrow> 'v headers" where
  "h_remove n h = h(hname n := [])"

record 'v header_codec =
  hc_parse :: "string \<Rightarrow> 'v option"
  hc_to_str :: "'v \<Rightarrow> string option"

text \<open>\<open>headers.get(name)\<close> read as text, and as text or the empty string.\<close>

definition h_str :: "'v header_codec \<Rightarrow> string \<Rightarrow> 'v headers \<Rightarrow> string option" where
  "h_str hc n h = Option.bind (h_get n h) (hc_to_str hc)"

section \<open>Configuration and requests\<close>

datatype claim_source =
    Subject
  | ClaimString string
  | ClaimI64 string
  | StringOrI64 string

record claim_mapping =
  cm_header :: string
  cm_source :: claim_source

record trusted_subject =
  ts_principal :: string
  ts_identity_headers :: "(string \<times> string) list"

record auth_config =
  ac_exclude_paths :: "string list"
  ac_preserve_paths :: "string list"
  ac_exclude_rpcs :: "(string \<times> string) list"
  ac_trusted_subject_rpcs :: "(string \<times> string) list"
  ac_claim_mappings :: "claim_mapping list"
  ac_cookie_token_name :: string
  ac_error_code :: string
  ac_error_message :: string

definition auth_config_default :: auth_config where
  "auth_config_default =
     \<lparr>ac_exclude_paths = [], ac_preserve_paths = [], ac_exclude_rpcs = [], ac_trusted_subject_rpcs = [],
      ac_claim_mappings = [], ac_cookie_token_name = ''access_token'', ac_error_code = ''unauthenticated'',
      ac_error_message = ''Invalid or expired token''\<rparr>"

record ('v, 'b) request =
  rq_path :: string
  rq_headers :: "'v headers"
  rq_subject :: "trusted_subject option"
  rq_rest :: 'b

record response =
  rs_status :: nat
  rs_content_type :: string
  rs_body :: json

type_synonym resolver = "string \<Rightarrow> (string \<times> string) list option"

text \<open>\<open>AuthLayer::new\<close> and \<open>AuthLayer::with_token_resolver\<close>; \<open>into_middleware\<close> copies the fields.\<close>

record authorizer =
  au_security :: "security_setting option"
  au_config :: auth_config
  au_resolver :: "resolver option"

definition auth_layer_new :: "security_setting \<Rightarrow> auth_config \<Rightarrow> authorizer" where
  "auth_layer_new s cfg = \<lparr>au_security = Some s, au_config = cfg, au_resolver = None\<rparr>"

definition auth_layer_with_token_resolver :: "auth_config \<Rightarrow> resolver \<Rightarrow> authorizer" where
  "auth_layer_with_token_resolver cfg r = \<lparr>au_security = None, au_config = cfg, au_resolver = Some r\<rparr>"

section \<open>AuthLayer\<close>

definition unauthorized_response :: "auth_config \<Rightarrow> string \<Rightarrow> response" where
  "unauthorized_response cfg msg =
     \<lparr>rs_status = 401, rs_content_type = ''application/json'',
      rs_body = obj [(''code'', JStr (ac_error_code cfg)), (''message'', JStr msg)]\<rparr>"

definition strip_configured_identity_headers :: "auth_config \<Rightarrow> ('v, 'b) request \<Rightarrow> ('v, 'b) request" where
  "strip_configured_identity_headers cfg rq =
     rq\<lparr>rq_headers := fold (\<lambda>m. h_remove (cm_header m)) (ac_claim_mappings cfg) (rq_headers rq)\<rparr>"

fun cookie_part :: "string \<Rightarrow> string \<Rightarrow> string option" where
  "cookie_part name part =
     (case split_once (CHR ''='') (trim_str part) of
        None \<Rightarrow> None
      | Some (key, value) \<Rightarrow> if key = name \<and> value \<noteq> [] then Some value else None)"

definition extract_cookie_value :: "'v header_codec \<Rightarrow> 'v headers \<Rightarrow> string \<Rightarrow> string option" where
  "extract_cookie_value hc h name =
     Option.bind (h_str hc ''cookie'' h) (\<lambda>cookie. find_map (cookie_part name) (split_on (CHR '';'') cookie))"

definition extract_bearer_token :: "'v header_codec \<Rightarrow> 'v headers \<Rightarrow> string \<Rightarrow> string + string" where
  "extract_bearer_token hc h cookie_name =
     (case h_get ''authorization'' h of
        Some auth_header \<Rightarrow>
          (case hc_to_str hc auth_header of
             None \<Rightarrow> Inl ''Invalid authorization header''
           | Some auth_str \<Rightarrow>
               okorR ''Invalid authorization scheme, expected Bearer'' (strip_prefix ''Bearer '' auth_str))
      | None \<Rightarrow> okorR ''Missing authorization header'' (extract_cookie_value hc h cookie_name))"

definition path_exempt :: "string list \<Rightarrow> string \<Rightarrow> bool" where
  "path_exempt prefixes path \<longleftrightarrow> list_ex (has_prefix path) prefixes"

definition rpc_listed :: "(string \<times> string) list \<Rightarrow> string \<Rightarrow> bool" where
  "rpc_listed rpcs path =
     (case parse_rpc_path path of None \<Rightarrow> False | Some sm \<Rightarrow> list_ex (\<lambda>x. x = sm) rpcs)"

text \<open>The three loops that write identity headers; \<open>None\<close> is the early 401.\<close>

fun inject_subject :: "'v header_codec \<Rightarrow> (string \<times> string) list \<Rightarrow> 'v headers \<Rightarrow> 'v headers option" where
  "inject_subject hc [] h = Some h"
| "inject_subject hc ((name, value) # rest) h =
     (case hc_parse hc value of
        None \<Rightarrow> None
      | Some hv \<Rightarrow> inject_subject hc rest (h_insert name hv h))"

fun inject_identity :: "'v header_codec \<Rightarrow> (string \<times> string) list \<Rightarrow> 'v headers \<Rightarrow> 'v headers option" where
  "inject_identity hc [] h = Some h"
| "inject_identity hc ((name, value) # rest) h =
     (let h' = h_remove name h in
      case hc_parse hc value of
        None \<Rightarrow> None
      | Some hv \<Rightarrow> inject_identity hc rest (h_insert name hv h'))"

fun claim_value :: "json_map \<Rightarrow> claim_source \<Rightarrow> string option" where
  "claim_value p Subject = get_subject p"
| "claim_value p (ClaimString c) = get_str c p"
| "claim_value p (ClaimI64 c) = map_option show_int (get_i64 c p)"
| "claim_value p (StringOrI64 c) =
     (case get_str c p of Some s \<Rightarrow> Some s | None \<Rightarrow> map_option show_int (get_i64 c p))"

fun inject_claims :: "'v header_codec \<Rightarrow> json_map \<Rightarrow> claim_mapping list \<Rightarrow> 'v headers \<Rightarrow> 'v headers option" where
  "inject_claims hc p [] h = Some h"
| "inject_claims hc p (m # ms) h =
     (case claim_value p (cm_source m) of
        None \<Rightarrow> inject_claims hc p ms h
      | Some v \<Rightarrow>
          (case hc_parse hc v of
             None \<Rightarrow> None
           | Some hv \<Rightarrow> inject_claims hc p ms (h_insert (cm_header m) hv h)))"

definition forwarded :: "auth_config \<Rightarrow> ('v, 'b) request \<Rightarrow> 'v headers option \<Rightarrow> response + ('v, 'b) request" where
  "forwarded cfg rq r =
     (case r of
        None \<Rightarrow> Inl (unauthorized_response cfg (ac_error_message cfg))
      | Some h \<Rightarrow> Inr (rq\<lparr>rq_headers := h\<rparr>))"

text \<open>The token part of \<open>authorize\<close>: the resolver mode, else the JWE mode.\<close>

definition authorize_token ::
  "'v header_codec \<Rightarrow> jose \<Rightarrow> int \<Rightarrow> authorizer \<Rightarrow> ('v, 'b) request \<Rightarrow> (response + ('v, 'b) request) option" where
  "authorize_token hc jo now au rq =
     (let cfg = au_config au; denied = Inl (unauthorized_response cfg (ac_error_message cfg)) in
      case extract_bearer_token hc (rq_headers rq) (ac_cookie_token_name cfg) of
        Inl msg \<Rightarrow> Some (Inl (unauthorized_response cfg msg))
      | Inr token \<Rightarrow>
          (case au_resolver au of
             Some resolve \<Rightarrow>
               (case resolve token of
                  None \<Rightarrow> Some denied
                | Some identity \<Rightarrow> Some (forwarded cfg rq (inject_identity hc identity (rq_headers rq))))
           | None \<Rightarrow>
               (case au_security au of
                  None \<Rightarrow> Some denied
                | Some s \<Rightarrow>
                    (case decrypt_jwt jo now (ss_pwd s) token of
                      None \<Rightarrow> None
                    | Some (Inl _) \<Rightarrow> Some denied
                    | Some (Inr p) \<Rightarrow>
                        Some (forwarded cfg rq (inject_claims hc p (ac_claim_mappings cfg) (rq_headers rq)))))))"

text \<open>\<open>AuthAuthorizer::authorize\<close>; \<open>None\<close> is the panic inside \<open>decrypt_jwt\<close>.\<close>

definition authorize ::
  "'v header_codec \<Rightarrow> jose \<Rightarrow> int \<Rightarrow> authorizer \<Rightarrow> ('v, 'b) request \<Rightarrow> (response + ('v, 'b) request) option" where
  "authorize hc jo now au rq0 =
     (let cfg = au_config au;
          path = rq_path rq0;
          rq = (if path_exempt (ac_preserve_paths cfg) path then rq0
                else strip_configured_identity_headers cfg rq0)
      in if path_exempt (ac_exclude_paths cfg) path then Some (Inr rq)
      else if rpc_listed (ac_exclude_rpcs cfg) path then Some (Inr rq)
      else (case rq_subject rq of
              Some subject \<Rightarrow>
                (if rpc_listed (ac_trusted_subject_rpcs cfg) path
                 then Some (forwarded cfg rq (inject_subject hc (ts_identity_headers subject) (rq_headers rq)))
                 else authorize_token hc jo now au rq)
            | None \<Rightarrow> authorize_token hc jo now au rq))"

section \<open>ContextValidationLayer\<close>

record context_config =
  vc_context_header :: string
  vc_trigger_value :: string
  vc_require_header :: string
  vc_exclude_paths :: "string list"
  vc_exclude_rpcs :: "(string \<times> string) list"
  vc_reject_status :: nat
  vc_error_code :: string
  vc_error_message :: string

text \<open>\<open>StatusCode::from_u16\<close> accepts 100 to 999; anything else becomes 403.\<close>

definition reject_response :: "context_config \<Rightarrow> response" where
  "reject_response cfg =
     \<lparr>rs_status = (if 100 \<le> vc_reject_status cfg \<and> vc_reject_status cfg < 1000 then vc_reject_status cfg else 403),
      rs_content_type = ''application/json'',
      rs_body = obj [(''code'', JStr (vc_error_code cfg)), (''message'', JStr (vc_error_message cfg))]\<rparr>"

definition validate_context ::
  "'v header_codec \<Rightarrow> context_config \<Rightarrow> ('v, 'b) request \<Rightarrow> response + ('v, 'b) request" where
  "validate_context hc cfg rq =
     (if path_exempt (vc_exclude_paths cfg) (rq_path rq) then Inr rq
      else if rpc_listed (vc_exclude_rpcs cfg) (rq_path rq) then Inr rq
      else if unwrap_or [] (h_str hc (vc_context_header cfg) (rq_headers rq)) = vc_trigger_value cfg \<and>
              unwrap_or [] (h_str hc (vc_require_header cfg) (rq_headers rq)) = []
      then Inl (reject_response cfg)
      else Inr rq)"

section \<open>Handler-side helpers\<close>

datatype rpc_code =
    RpcCanceled | RpcUnknown | RpcInvalidArgument | RpcDeadlineExceeded | RpcNotFound | RpcAlreadyExists
  | RpcPermissionDenied | RpcResourceExhausted | RpcFailedPrecondition | RpcAborted | RpcOutOfRange
  | RpcUnimplemented | RpcInternal | RpcUnavailable | RpcDataLoss | RpcUnauthenticated

record connect_error =
  ce_code :: rpc_code
  ce_message :: "string option"

definition connect_error_new :: "rpc_code \<Rightarrow> string \<Rightarrow> connect_error" where
  "connect_error_new c msg = \<lparr>ce_code = c, ce_message = Some msg\<rparr>"

definition extract_token_from_headers :: "'v header_codec \<Rightarrow> 'v headers \<Rightarrow> connect_error + string" where
  "extract_token_from_headers hc h =
     (case h_get ''authorization'' h of
        None \<Rightarrow> Inl (connect_error_new RpcUnauthenticated ''Missing authorization header'')
      | Some auth_header \<Rightarrow>
          (case hc_to_str hc auth_header of
             None \<Rightarrow> Inl (connect_error_new RpcUnauthenticated ''Invalid authorization header'')
           | Some auth_str \<Rightarrow>
               okorR (connect_error_new RpcUnauthenticated ''Expected Bearer authorization scheme'')
                 (strip_prefix ''Bearer '' auth_str)))"

text \<open>\<open>show\<close> is \<open>to_string\<close> of the token error.\<close>

definition extract_payload_from_context ::
  "'v header_codec \<Rightarrow> jose \<Rightarrow> (sec_error \<Rightarrow> string) \<Rightarrow> int \<Rightarrow> security_setting \<Rightarrow> 'v headers \<Rightarrow>
     (connect_error + json_map) option" where
  "extract_payload_from_context hc jo show now sc h =
     (case extract_token_from_headers hc h of
        Inl e \<Rightarrow> Some (Inl e)
      | Inr token \<Rightarrow>
          map_option (map_errR (\<lambda>e. connect_error_new RpcUnauthenticated (show e)))
            (decrypt_jwt jo now (ss_pwd sc) token))"

text \<open>\<open>IntoConnectError::into_internal\<close> and \<open>ConnectErrorPassthrough::into_connect_error\<close>.\<close>

definition into_internal :: "('e \<Rightarrow> string) \<Rightarrow> 'e \<Rightarrow> connect_error" where
  "into_internal show e = connect_error_new RpcInternal (show e)"

definition into_connect_error :: "connect_error \<Rightarrow> connect_error" where
  "into_connect_error e = e"

end
