(* ===== verification/Rpc_Auth_Facts.thy ===== *)
theory Rpc_Auth_Facts
  imports Rpc_Auth
begin

text \<open>
  What the proofs about the request filters share: the laws a header map gives its clients
  (locale \<open>header_store\<close>, interpreted on the model's header map), the effect of the stripping loop
  and of the three injecting loops.
\<close>

section \<open>The header map as an interface\<close>

locale header_store =
  fixes get :: "string \<Rightarrow> 'h \<Rightarrow> 'v option"
    and ins :: "string \<Rightarrow> 'v \<Rightarrow> 'h \<Rightarrow> 'h"
    and rem :: "string \<Rightarrow> 'h \<Rightarrow> 'h"
    and same :: "string \<Rightarrow> string \<Rightarrow> bool"
  assumes get_ins: "get n (ins m v h) = (if same n m then Some v else get n h)"
    and get_rem: "get n (rem m h) = (if same n m then None else get n h)"
begin

text \<open>Writing a list of headers in order: the last write of a name wins.\<close>

lemma get_fold_ins:
  "get n (fold (\<lambda>(m, v). ins m v) kvs h) =
     (case List.find (\<lambda>(m, v). same n m) (rev kvs) of Some (m, v) \<Rightarrow> Some v | None \<Rightarrow> get n h)"
  by (induction kvs arbitrary: h) (auto simp: get_ins find_append split: option.splits)

lemma get_fold_rem: "get n (fold rem ms h) = (if list_ex (same n) ms then None else get n h)"
  by (induction ms arbitrary: h) (auto simp: get_rem)

text \<open>A header that no write names keeps its value.\<close>

lemma get_fold_ins_other: "\<not> list_ex (\<lambda>(m, v). same n m) kvs \<Longrightarrow> get n (fold (\<lambda>(m, v). ins m v) kvs h) = get n h"
  by (induction kvs arbitrary: h) (auto simp: get_ins)

lemma get_rem_ins: "get n (ins m v (rem m h)) = get n (ins m v h)"
  by (simp add: get_ins get_rem)

end

definition same_name :: "string \<Rightarrow> string \<Rightarrow> bool" where
  "same_name n m \<longleftrightarrow> hname n = hname m"

interpretation hm: header_store h_get h_insert h_remove same_name
  by unfold_locales (simp_all add: h_get_def h_insert_def h_remove_def same_name_def)

lemma h_insert_remove [simp]: "h_insert n v (h_remove n h) = h_insert n v h"
  by (simp add: h_insert_def h_remove_def)

section \<open>Stripping and injecting\<close>

lemma fold_remove_apply:
  "fold (\<lambda>m. h_remove (cm_header m)) ms h n = (if n \<in> (\<lambda>m. hname (cm_header m)) ` set ms then [] else h n)"
  by (induction ms arbitrary: h) (auto simp: h_remove_def)

lemma strip_same:
  assumes "\<And>n. n \<notin> (\<lambda>m. hname (cm_header m)) ` set (ac_claim_mappings cfg) \<Longrightarrow> rq_headers rq n = rq_headers rq' n"
    and "rq_path rq = rq_path rq'" "rq_subject rq = rq_subject rq'" "rq_rest rq = rq_rest rq'"
  shows "strip_configured_identity_headers cfg rq = strip_configured_identity_headers cfg rq'"
proof -
  have "fold (\<lambda>m. h_remove (cm_header m)) (ac_claim_mappings cfg) (rq_headers rq) =
        fold (\<lambda>m. h_remove (cm_header m)) (ac_claim_mappings cfg) (rq_headers rq')"
    using assms(1) by (auto simp: fun_eq_iff fold_remove_apply)
  with assms(2-4) show ?thesis by (cases rq; cases rq') (simp add: strip_configured_identity_headers_def)
qed

lemma strip_get:
  "m \<in> set (ac_claim_mappings cfg) \<Longrightarrow> h_get (cm_header m) (rq_headers (strip_configured_identity_headers cfg rq)) = None"
  by (auto simp: strip_configured_identity_headers_def h_get_def fold_remove_apply)

lemma strip_other:
  "n \<notin> (\<lambda>m. hname (cm_header m)) ` set (ac_claim_mappings cfg) \<Longrightarrow>
     rq_headers (strip_configured_identity_headers cfg rq) n = rq_headers rq n"
  by (auto simp: strip_configured_identity_headers_def fold_remove_apply)

lemma strip_fields [simp]:
  "rq_path (strip_configured_identity_headers cfg rq) = rq_path rq"
  "rq_subject (strip_configured_identity_headers cfg rq) = rq_subject rq"
  "rq_rest (strip_configured_identity_headers cfg rq) = rq_rest rq"
  by (simp_all add: strip_configured_identity_headers_def)

text \<open>The headers a token puts on a request, as the list of the writes; \<open>None\<close> when one cannot be a
  header value.\<close>

fun parse_all :: "'v header_codec \<Rightarrow> (string \<times> string) list \<Rightarrow> (string \<times> 'v) list option" where
  "parse_all hc [] = Some []"
| "parse_all hc ((n, s) # kvs) =
     (case hc_parse hc s of
        None \<Rightarrow> None
      | Some v \<Rightarrow> map_option ((#) (n, v)) (parse_all hc kvs))"

definition claim_headers :: "json_map \<Rightarrow> claim_mapping list \<Rightarrow> (string \<times> string) list" where
  "claim_headers p ms = List.map_filter (\<lambda>m. map_option (Pair (cm_header m)) (claim_value p (cm_source m))) ms"

lemma inject_subject_fold:
  "inject_subject hc kvs h = map_option (\<lambda>ws. fold (\<lambda>(n, v). h_insert n v) ws h) (parse_all hc kvs)"
  by (induction hc kvs h rule: inject_subject.induct) (auto simp: option.map_comp comp_def split: option.split)

text \<open>The three loops write the same headers: removing first makes no difference.\<close>

lemma inject_identity_subject: "inject_identity hc kvs h = inject_subject hc kvs h"
  by (induction hc kvs h rule: inject_identity.induct) (auto simp: Let_def split: option.split)

lemma inject_claims_subject: "inject_claims hc p ms h = inject_subject hc (claim_headers p ms) h"
  by (induction hc p ms h rule: inject_claims.induct)
    (auto simp: claim_headers_def map_filter_simps split: option.split)

lemma parse_all_Some_iff: "parse_all hc kvs \<noteq> None \<longleftrightarrow> list_all (\<lambda>(n, s). hc_parse hc s \<noteq> None) kvs"
  by (induction kvs rule: parse_all.induct) (auto split: option.split)

lemma parse_all_member:
  "parse_all hc kvs = Some ws \<Longrightarrow> (n, s) \<in> set kvs \<Longrightarrow> \<exists>v. hc_parse hc s = Some v"
  using parse_all_Some_iff [of hc kvs] by (fastforce simp: list_all_iff)

lemma parse_all_find:
  "parse_all hc kvs = Some ws \<Longrightarrow>
     List.find (\<lambda>(m, v). P m) (rev ws) =
     map_option (\<lambda>(m, s). (m, the (hc_parse hc s))) (List.find (\<lambda>(m, s). P m) (rev kvs))"
proof (induction kvs arbitrary: ws rule: parse_all.induct)
  case (2 hc n s kvs)
  from "2.prems" obtain v ws' where w: "hc_parse hc s = Some v" "parse_all hc kvs = Some ws'" "ws = (n, v) # ws'"
    by (auto split: option.splits)
  from "2.IH" [OF w(1) w(2)] w show ?case by (auto simp: find_append split: option.splits)
qed simp

lemma inject_get:
  assumes "inject_subject hc kvs h = Some h'"
  shows "h_get n h' =
    (case List.find (\<lambda>(m, s). same_name n m) (rev kvs) of
       Some (m, s) \<Rightarrow> hc_parse hc s
     | None \<Rightarrow> h_get n h)"
proof -
  from assms obtain ws where w: "parse_all hc kvs = Some ws" "h' = fold (\<lambda>(n, v). h_insert n v) ws h"
    by (auto simp: inject_subject_fold)
  have ok: "list_all (\<lambda>(n, s). hc_parse hc s \<noteq> None) kvs" using w(1) parse_all_Some_iff [of hc kvs] by simp
  have "hc_parse hc s \<noteq> None" if "List.find (\<lambda>(m, s). same_name n m) (rev kvs) = Some (m, s)" for m s
    using find_SomeD [OF that] ok by (auto simp: list_all_iff)
  with parse_all_find [OF w(1), of "same_name n"] w(2) show ?thesis
    by (auto simp: hm.get_fold_ins split: option.splits)
qed

lemma inject_other:
  "inject_subject hc kvs h = Some h' \<Longrightarrow> n \<notin> hname ` fst ` set kvs \<Longrightarrow> h' n = h n"
  by (induction hc kvs h rule: inject_subject.induct) (auto simp: h_insert_def split: option.splits)

lemma claim_headers_set: "(n, s) \<in> set (claim_headers p ms) \<longleftrightarrow> (\<exists>m\<in>set ms. n = cm_header m \<and> claim_value p (cm_source m) = Some s)"
  by (force simp: claim_headers_def map_filter_def)

text \<open>Mappings with pairwise different header names: each header carries its own claim.\<close>

lemma find_claim_header:
  assumes "distinct (map (\<lambda>m. hname (cm_header m)) ms)" "m \<in> set ms"
  shows "List.find (\<lambda>(n, s). same_name (cm_header m) n) (rev (claim_headers p ms)) =
    map_option (Pair (cm_header m)) (claim_value p (cm_source m))"
proof -
  have uniq: "m' = m" if "m' \<in> set ms" "same_name (cm_header m) (cm_header m')" for m'
    using assms that by (auto simp: same_name_def distinct_map inj_on_def)
  show ?thesis
  proof (cases "claim_value p (cm_source m)")
    case None
    then have "\<not> same_name (cm_header m) n" if "(n, s) \<in> set (claim_headers p ms)" for n s
      using uniq that by (force simp: claim_headers_set)
    with None show ?thesis by (auto simp: find_None_iff)
  next
    case (Some v)
    have in_it: "(cm_header m, v) \<in> set (claim_headers p ms)" using Some assms(2) by (auto simp: claim_headers_set)
    have only: "x = (cm_header m, v)" if x: "x \<in> set (claim_headers p ms)" "same_name (cm_header m) (fst x)" for x
    proof -
      from x(1) have "(fst x, snd x) \<in> set (claim_headers p ms)" by simp
      then obtain m' where m': "m' \<in> set ms" "fst x = cm_header m'" "claim_value p (cm_source m') = Some (snd x)"
        unfolding claim_headers_set by blast
      with uniq [of m'] x(2) Some have "fst x = cm_header m" "snd x = v" by auto
      then show ?thesis by (simp add: prod_eq_iff)
    qed
    obtain x where "List.find (\<lambda>(n, s). same_name (cm_header m) n) (rev (claim_headers p ms)) = Some x"
      using in_it by (cases "List.find (\<lambda>(n, s). same_name (cm_header m) n) (rev (claim_headers p ms))")
        (auto simp: find_None_iff same_name_def)
    with only [of x] find_SomeD [OF this] Some show ?thesis by (auto simp: case_prod_beta)
  qed
qed

lemma injected_claim:
  assumes "inject_subject hc (claim_headers p (ac_claim_mappings cfg)) (rq_headers (strip_configured_identity_headers cfg rq)) = Some h"
    and "distinct (map (\<lambda>m. hname (cm_header m)) (ac_claim_mappings cfg))" "m \<in> set (ac_claim_mappings cfg)"
  shows "h_get (cm_header m) h = Option.bind (claim_value p (cm_source m)) (hc_parse hc)"
  using inject_get [OF assms(1), of "cm_header m"] find_claim_header [OF assms(2,3), of p] strip_get [OF assms(3), of rq]
  by (cases "claim_value p (cm_source m)") simp_all

text \<open>With a codec that reads back what it wrote, the header reads as the claim.\<close>

lemma injected_claim_str:
  assumes "inject_subject hc (claim_headers p (ac_claim_mappings cfg)) (rq_headers (strip_configured_identity_headers cfg rq)) = Some h"
    and "distinct (map (\<lambda>m. hname (cm_header m)) (ac_claim_mappings cfg))" "m \<in> set (ac_claim_mappings cfg)"
    and "\<And>s v. hc_parse hc s = Some v \<Longrightarrow> hc_to_str hc v = Some s"
  shows "h_str hc (cm_header m) h = claim_value p (cm_source m)"
proof (cases "claim_value p (cm_source m)")
  case (Some v)
  then have "(cm_header m, v) \<in> set (claim_headers p (ac_claim_mappings cfg))" using assms(3) by (auto simp: claim_headers_set)
  moreover obtain ws where "parse_all hc (claim_headers p (ac_claim_mappings cfg)) = Some ws"
    using assms(1) by (auto simp: inject_subject_fold)
  ultimately obtain w where "hc_parse hc v = Some w" using parse_all_member by fastforce
  with injected_claim [OF assms(1-3)] Some assms(4) show ?thesis by (simp add: h_str_def)
qed (simp add: h_str_def injected_claim [OF assms(1-3)])

end
