(* ===== verification/Rpc_Props.thy ===== *)
theory Rpc_Props
  imports Rpc_Auth_Facts
begin

text \<open>
  What the request filters of fusion-rpc guarantee: identity headers cannot be forged, nothing passes
  unauthenticated outside the exemptions, the forwarded identity is exactly the token's, a claim that
  cannot be a header value rejects the request, and the two filters stacked.
\<close>

section \<open>Both modes\<close>

definition exempt :: "auth_config \<Rightarrow> string \<Rightarrow> bool" where
  "exempt cfg path \<longleftrightarrow> path_exempt (ac_exclude_paths cfg) path \<or> rpc_listed (ac_exclude_rpcs cfg) path"

lemma authorize_stripped:
  "\<not> path_exempt (ac_preserve_paths (au_config au)) (rq_path rq) \<Longrightarrow>
     authorize hc jo now au rq =
       (let rq' = strip_configured_identity_headers (au_config au) rq in
        if exempt (au_config au) (rq_path rq) then Some (Inr rq')
        else (case rq_subject rq of
                Some subject \<Rightarrow>
                  (if rpc_listed (ac_trusted_subject_rpcs (au_config au)) (rq_path rq)
                   then Some (forwarded (au_config au) rq' (inject_subject hc (ts_identity_headers subject) (rq_headers rq')))
                   else authorize_token hc jo now au rq')
              | None \<Rightarrow> authorize_token hc jo now au rq'))"
  by (simp add: authorize_def exempt_def Let_def)

lemma forwarded_Inr: "forwarded cfg rq r = Inr rq' \<longleftrightarrow> (\<exists>h. r = Some h \<and> rq' = rq\<lparr>rq_headers := h\<rparr>)"
  by (auto simp: forwarded_def split: option.split)

text \<open>The headers that \<open>claim_mappings\<close> configures.\<close>

definition identity_names :: "auth_config \<Rightarrow> string set" where
  "identity_names cfg = (\<lambda>m. hname (cm_header m)) ` set (ac_claim_mappings cfg)"

text \<open>C19: Identity headers cannot be forged. Two requests with the same path, extension and
  remaining parts, whose headers differ only in headers that \<open>claim_mappings\<close> configures, are
  treated alike: the same refusal or the same forwarded request, header for header, in both token
  modes and for exempt requests too. The only way a caller's own identity header reaches a service
  is a path listed in \<open>preserve_identity_headers_for_paths\<close>.\<close>

theorem identity_headers_unforgeable:
  assumes "\<not> path_exempt (ac_preserve_paths (au_config au)) (rq_path rq)"
    and "rq_path rq' = rq_path rq" "rq_subject rq' = rq_subject rq" "rq_rest rq' = rq_rest rq"
    and "\<And>n. n \<notin> identity_names (au_config au) \<Longrightarrow> rq_headers rq' n = rq_headers rq n"
  shows "authorize hc jo now au rq' = authorize hc jo now au rq"
proof -
  have "strip_configured_identity_headers (au_config au) rq' = strip_configured_identity_headers (au_config au) rq"
    using assms(2-) by (intro strip_same) (auto simp: identity_names_def)
  with assms(1-3) show ?thesis
    by (simp add: authorize_stripped Let_def cong: option.case_cong)
qed

text \<open>How a token is accepted in the two modes.\<close>

definition token_accepted :: "jose \<Rightarrow> int \<Rightarrow> authorizer \<Rightarrow> string \<Rightarrow> bool" where
  "token_accepted jo now au token \<longleftrightarrow>
     (case au_resolver au of
        Some resolve \<Rightarrow> resolve token \<noteq> None
      | None \<Rightarrow>
          (case au_security au of
             None \<Rightarrow> False
           | Some s \<Rightarrow>
               (case jo_decrypt jo (kc_secret_key (ss_pwd s)) token of
                  Inl _ \<Rightarrow> False
                | Inr p \<Rightarrow> (case jo_expires_at jo p of None \<Rightarrow> True | Some e \<Rightarrow> now \<le> e + clock_leeway))))"

lemma token_accepted_jwe:
  "decrypt_jwt jo now (ss_pwd s) token = Some (Inr p) \<Longrightarrow> au_resolver au = None \<Longrightarrow> au_security au = Some s \<Longrightarrow>
     token_accepted jo now au token"
  by (auto simp: token_accepted_def decrypt_jwt_ok(1) dest: decrypt_jwt_ok(2) split: option.split)

lemma authorize_token_Inr:
  "authorize_token hc jo now au rq = Some (Inr rq') \<Longrightarrow>
     \<exists>token. extract_bearer_token hc (rq_headers rq) (ac_cookie_token_name (au_config au)) = Inr token \<and>
       token_accepted jo now au token"
  by (auto simp: authorize_token_def Let_def split: sum.splits option.splits intro: token_accepted_jwe)
    (simp add: token_accepted_def)

text \<open>The headers the token is read from: the identity headers are gone unless the path preserves them.\<close>

definition token_headers :: "auth_config \<Rightarrow> ('v, 'b) request \<Rightarrow> 'v headers" where
  "token_headers cfg rq =
     (if path_exempt (ac_preserve_paths cfg) (rq_path rq) then rq_headers rq
      else rq_headers (strip_configured_identity_headers cfg rq))"

text \<open>C20: No anonymous request passes. A request that \<open>AuthLayer\<close> forwards is exempt by path or
  by procedure, or carries a verified \<open>TrustedSubject\<close> and calls a whitelisted procedure, or
  carries a bearer or cookie token that the resolver accepted or that decrypts under the key with
  an expiry at most the clock leeway in the past. A configured identity header is never read as the
  token: it is gone before the token is looked for.\<close>

theorem no_anonymous_request:
  assumes "authorize hc jo now au rq = Some (Inr rq')"
  shows "exempt (au_config au) (rq_path rq) \<or>
    rq_subject rq \<noteq> None \<and> rpc_listed (ac_trusted_subject_rpcs (au_config au)) (rq_path rq) \<or>
    (\<exists>token. extract_bearer_token hc (token_headers (au_config au) rq) (ac_cookie_token_name (au_config au)) = Inr token \<and>
       token_accepted jo now au token)"
  using assms
  by (auto simp: authorize_def exempt_def token_headers_def Let_def split: if_splits option.splits
    dest: authorize_token_Inr)

section \<open>The encrypted-token mode\<close>

lemma authorize_jwe:
  assumes "\<not> path_exempt (ac_preserve_paths cfg) (rq_path rq)" "\<not> exempt cfg (rq_path rq)"
    and "rq_subject rq = None" "authorize hc jo now (auth_layer_new s cfg) rq = Some (Inr rq')"
  obtains token p h where
    "extract_bearer_token hc (rq_headers (strip_configured_identity_headers cfg rq)) (ac_cookie_token_name cfg) = Inr token"
    "decrypt_jwt jo now (ss_pwd s) token = Some (Inr p)"
    "inject_subject hc (claim_headers p (ac_claim_mappings cfg)) (rq_headers (strip_configured_identity_headers cfg rq)) = Some h"
    "rq' = (strip_configured_identity_headers cfg rq)\<lparr>rq_headers := h\<rparr>"
  using assms
  by (auto simp: authorize_stripped authorize_token_def auth_layer_new_def Let_def forwarded_Inr
    inject_claims_subject split: sum.splits option.splits)

text \<open>C21: The forwarded identity is the token's, header for header. In the encrypted-token mode,
  with mappings to pairwise different headers, a forwarded request that is neither exempt nor on a
  preserved path has in every mapped header the claim of the token it carried, as the header codec
  writes it, and no such header at all when the token has no such claim; every other header is the
  caller's own.\<close>

theorem forwarded_identity_exact:
  assumes "\<not> path_exempt (ac_preserve_paths cfg) (rq_path rq)" "\<not> exempt cfg (rq_path rq)"
    and "rq_subject rq = None" "distinct (map (\<lambda>m. hname (cm_header m)) (ac_claim_mappings cfg))"
    and "authorize hc jo now (auth_layer_new s cfg) rq = Some (Inr rq')"
  shows "\<exists>token p. jo_decrypt jo (kc_secret_key (ss_pwd s)) token = Inr p \<and>
      extract_bearer_token hc (rq_headers (strip_configured_identity_headers cfg rq)) (ac_cookie_token_name cfg) = Inr token \<and>
      (\<forall>m\<in>set (ac_claim_mappings cfg).
         h_get (cm_header m) (rq_headers rq') = Option.bind (claim_value p (cm_source m)) (hc_parse hc)) \<and>
      (\<forall>n. n \<notin> identity_names cfg \<longrightarrow> rq_headers rq' n = rq_headers rq n)"
proof -
  obtain token p h where t: "extract_bearer_token hc (rq_headers (strip_configured_identity_headers cfg rq)) (ac_cookie_token_name cfg) = Inr token"
    and d: "decrypt_jwt jo now (ss_pwd s) token = Some (Inr p)"
    and i: "inject_subject hc (claim_headers p (ac_claim_mappings cfg)) (rq_headers (strip_configured_identity_headers cfg rq)) = Some h"
    and r: "rq' = (strip_configured_identity_headers cfg rq)\<lparr>rq_headers := h\<rparr>"
    using assms(1-3,5) by (rule authorize_jwe)
  have "h_get (cm_header m) h = Option.bind (claim_value p (cm_source m)) (hc_parse hc)"
    if m: "m \<in> set (ac_claim_mappings cfg)" for m
    using i assms(4) m by (rule injected_claim)
  moreover have "h n = rq_headers rq n" if "n \<notin> identity_names cfg" for n
  proof -
    from that have "n \<notin> hname ` fst ` set (claim_headers p (ac_claim_mappings cfg))"
      by (auto simp: identity_names_def claim_headers_set)
    from inject_other [OF i this] strip_other [of n cfg rq] that show ?thesis by (simp add: identity_names_def)
  qed
  ultimately show ?thesis using r t decrypt_jwt_ok(1) [OF d] by auto
qed

text \<open>A claim that cannot be a header value rejects the request. When the token of a request
  that needs one is accepted and some mapped claim is present but not representable as a header
  value, the answer is the configured 401, never a request without that header.\<close>

theorem unrepresentable_claim_rejected:
  assumes "\<not> path_exempt (ac_preserve_paths cfg) (rq_path rq)" "\<not> exempt cfg (rq_path rq)" "rq_subject rq = None"
    and "extract_bearer_token hc (rq_headers (strip_configured_identity_headers cfg rq)) (ac_cookie_token_name cfg) = Inr token"
    and "decrypt_jwt jo now (ss_pwd s) token = Some (Inr p)"
    and "m \<in> set (ac_claim_mappings cfg)" "claim_value p (cm_source m) = Some v" "hc_parse hc v = None"
  shows "authorize hc jo now (auth_layer_new s cfg) rq =
    Some (Inl (unauthorized_response cfg (ac_error_message cfg)))"
proof -
  have "(cm_header m, v) \<in> set (claim_headers p (ac_claim_mappings cfg))" using assms(6,7) by (auto simp: claim_headers_set)
  with assms(8) have "parse_all hc (claim_headers p (ac_claim_mappings cfg)) = None"
    using parse_all_member [of hc "claim_headers p (ac_claim_mappings cfg)"] by (cases "parse_all hc (claim_headers p (ac_claim_mappings cfg))") fastforce+
  with assms(1-5) show ?thesis
    by (simp add: authorize_stripped authorize_token_def auth_layer_new_def Let_def forwarded_def
      inject_claims_subject inject_subject_fold)
qed

section \<open>The resolver mode\<close>

text \<open>The resolver's value wins over a forged one, and a configured header that the resolver does not
  return is absent.\<close>

theorem resolver_headers_win:
  assumes "\<not> path_exempt (ac_preserve_paths cfg) (rq_path rq)" "\<not> exempt cfg (rq_path rq)" "rq_subject rq = None"
    and "authorize hc jo now (auth_layer_with_token_resolver cfg resolve) rq = Some (Inr rq')"
  shows "\<exists>token identity. resolve token = Some identity \<and>
      (\<forall>n. h_get n (rq_headers rq') =
         (case List.find (\<lambda>(m, s). same_name n m) (rev identity) of
            Some (m, s) \<Rightarrow> hc_parse hc s
          | None \<Rightarrow> if hname n \<in> identity_names cfg then None else h_get n (rq_headers rq)))"
proof -
  from assms obtain token identity h where t: "resolve token = Some identity"
    and i: "inject_subject hc identity (rq_headers (strip_configured_identity_headers cfg rq)) = Some h"
    and r: "rq' = (strip_configured_identity_headers cfg rq)\<lparr>rq_headers := h\<rparr>"
    by (auto simp: authorize_stripped authorize_token_def auth_layer_with_token_resolver_def Let_def forwarded_Inr
      inject_identity_subject split: sum.splits option.splits)
  have "h_get n (rq_headers (strip_configured_identity_headers cfg rq)) =
      (if hname n \<in> identity_names cfg then None else h_get n (rq_headers rq))" for n
    by (auto simp: h_get_def strip_configured_identity_headers_def fold_remove_apply identity_names_def)
  with inject_get [OF i] r
  have "\<forall>n. h_get n (rq_headers rq') =
      (case List.find (\<lambda>(m, s). same_name n m) (rev identity) of
         Some (m, s) \<Rightarrow> hc_parse hc s
       | None \<Rightarrow> if hname n \<in> identity_names cfg then None else h_get n (rq_headers rq))"
    by (auto split: option.split)
  with t show ?thesis by blast
qed

section \<open>Stacked filters\<close>

text \<open>C22: Behind both filters a request in the triggering context names its scope, and the name is
  the token's. With the context header and the required header both mapped from claims, a request
  that passes \<open>AuthLayer\<close> and then \<open>ContextValidationLayer\<close> (neither exempting it) and whose token
  claims the triggering context also has the required claim in the token, written as a non-empty
  header: a caller can neither supply the scope nor drop it.\<close>

theorem scope_claim_required:
  assumes "\<not> path_exempt (ac_preserve_paths cfg) (rq_path rq)" "\<not> exempt cfg (rq_path rq)"
    and "rq_subject rq = None" "distinct (map (\<lambda>m. hname (cm_header m)) (ac_claim_mappings cfg))"
    and "\<not> path_exempt (vc_exclude_paths vc) (rq_path rq)" "\<not> rpc_listed (vc_exclude_rpcs vc) (rq_path rq)"
    and "\<lparr>cm_header = vc_context_header vc, cm_source = ClaimString c\<rparr> \<in> set (ac_claim_mappings cfg)"
    and "\<lparr>cm_header = vc_require_header vc, cm_source = src\<rparr> \<in> set (ac_claim_mappings cfg)"
    and "\<And>s v. hc_parse hc s = Some v \<Longrightarrow> hc_to_str hc v = Some s"
    and "authorize hc jo now (auth_layer_new s cfg) rq = Some (Inr rq')"
    and "validate_context hc vc rq' = Inr rq''"
  shows "\<exists>token p. jo_decrypt jo (kc_secret_key (ss_pwd s)) token = Inr p \<and>
    extract_bearer_token hc (rq_headers (strip_configured_identity_headers cfg rq)) (ac_cookie_token_name cfg) = Inr token \<and>
    (get_str c p = Some (vc_trigger_value vc) \<longrightarrow>
       (\<exists>scope. claim_value p src = Some scope \<and> scope \<noteq> [] \<and>
          h_str hc (vc_require_header vc) (rq_headers rq'') = Some scope))"
proof -
  obtain token p h where t: "extract_bearer_token hc (rq_headers (strip_configured_identity_headers cfg rq)) (ac_cookie_token_name cfg) = Inr token"
    and d: "decrypt_jwt jo now (ss_pwd s) token = Some (Inr p)"
    and i: "inject_subject hc (claim_headers p (ac_claim_mappings cfg)) (rq_headers (strip_configured_identity_headers cfg rq)) = Some h"
    and r: "rq' = (strip_configured_identity_headers cfg rq)\<lparr>rq_headers := h\<rparr>"
    using assms(1-3,10) by (rule authorize_jwe)
  have str: "h_str hc (cm_header m) h = claim_value p (cm_source m)" if m: "m \<in> set (ac_claim_mappings cfg)" for m
    using i assms(4) m assms(9) by (rule injected_claim_str)
  from str [OF assms(7)] str [OF assms(8)]
  have s: "h_str hc (vc_context_header vc) h = get_str c p" "h_str hc (vc_require_header vc) h = claim_value p src"
    by simp_all
  have v: "rq'' = rq'" "get_str c p = Some (vc_trigger_value vc) \<Longrightarrow> unwrap_or [] (claim_value p src) \<noteq> []"
    using assms(5,6,11) r s by (auto simp: validate_context_def split: if_splits)
  have "\<exists>scope. claim_value p src = Some scope \<and> scope \<noteq> [] \<and> h_str hc (vc_require_header vc) (rq_headers rq'') = Some scope"
    if "get_str c p = Some (vc_trigger_value vc)"
    using v(2) [OF that] v(1) r s(2) by (cases "claim_value p src") auto
  with t decrypt_jwt_ok(1) [OF d] show ?thesis by blast
qed

section \<open>A demonstration configuration\<close>

text \<open>Header values are their text without control characters; the toy token is its own claims: the
  key is ignored and the token names one of two claim sets.\<close>

definition demo_header_codec :: "string header_codec" where
  "demo_header_codec =
     \<lparr>hc_parse = (\<lambda>s. if list_all (\<lambda>c. 32 \<le> (of_char c :: nat)) s then Some s else None), hc_to_str = Some\<rparr>"

definition demo_claims :: json_map where
  "demo_claims =
     [(''context_type'', JStr ''facility''), (''facility_id'', JInt 9), (''sub'', JStr ''user-42''),
      (''tenant_id'', JStr ''100'')]"

definition demo_bad_claims :: json_map where
  "demo_bad_claims = [(''tenant_id'', JStr [CHR 0x0A])]"

definition demo_jose :: jose where
  "demo_jose =
     \<lparr>jo_from_map = Inr, jo_encrypt = (\<lambda>k p. Inr ''tok''),
      jo_decrypt = (\<lambda>k t. if t = ''tok'' then Inr demo_claims else if t = ''bad'' then Inr demo_bad_claims else Inl ''no''),
      jo_expires_at = (\<lambda>p. None), jo_not_before = (\<lambda>p. None), jo_set_expires_at = (\<lambda>e p. p)\<rparr>"

definition demo_auth_config :: auth_config where
  "demo_auth_config = auth_config_default
     \<lparr>ac_exclude_paths := [''/health''],
      ac_claim_mappings :=
        [\<lparr>cm_header = ''x-tenant-id'', cm_source = ClaimString ''tenant_id''\<rparr>,
         \<lparr>cm_header = ''x-user-id'', cm_source = Subject\<rparr>,
         \<lparr>cm_header = ''x-facility-id'', cm_source = StringOrI64 ''facility_id''\<rparr>,
         \<lparr>cm_header = ''x-context-type'', cm_source = ClaimString ''context_type''\<rparr>]\<rparr>"

definition demo_validation :: context_config where
  "demo_validation =
     \<lparr>vc_context_header = ''x-context-type'', vc_trigger_value = ''facility'', vc_require_header = ''x-facility-id'',
      vc_exclude_paths = [''/health''], vc_exclude_rpcs = [], vc_reject_status = 403,
      vc_error_code = ''permission_denied'', vc_error_message = ''facility context mismatch''\<rparr>"

definition demo_security :: security_setting where
  "demo_security =
     \<lparr>ss_pwd = \<lparr>kc_secret_key = ''k'', kc_expires_in = 7200\<rparr>, ss_token = \<lparr>kc_secret_key = ''k'', kc_expires_in = 7200\<rparr>\<rparr>"

definition demo_headers :: "string \<Rightarrow> string list \<Rightarrow> string headers" where
  "demo_headers auth tenant =
     (\<lambda>n. if n = ''authorization'' then [auth] else if n = ''x-tenant-id'' then tenant else [])"

definition demo_request :: "string \<Rightarrow> string list \<Rightarrow> (string, unit) request" where
  "demo_request auth tenant =
     \<lparr>rq_path = ''/a.S/M'', rq_headers = demo_headers auth tenant, rq_subject = None, rq_rest = ()\<rparr>"

lemmas rpc_demo_defs = demo_auth_config_def demo_request_def demo_headers_def auth_config_default_def demo_header_codec_def
  demo_jose_def demo_claims_def demo_bad_claims_def demo_security_def demo_validation_def

lemma demo_not_preserved: "\<not> path_exempt (ac_preserve_paths demo_auth_config) (rq_path (demo_request a t))"
  by (simp add: rpc_demo_defs path_exempt_def)

lemma demo_not_exempt: "\<not> exempt demo_auth_config (rq_path (demo_request a t))"
proof -
  have "\<not> exempt demo_auth_config ''/a.S/M''" by code_simp
  then show ?thesis by (simp add: demo_request_def)
qed

lemma demo_no_subject: "rq_subject (demo_request a t) = None"
  by (simp add: rpc_demo_defs)

lemma demo_distinct: "distinct (map (\<lambda>m. hname (cm_header m)) (ac_claim_mappings demo_auth_config))"
  by code_simp

lemma demo_token:
  "extract_bearer_token demo_header_codec
     (rq_headers (strip_configured_identity_headers demo_auth_config (demo_request (''Bearer '' @ t) [''forged''])))
     (ac_cookie_token_name demo_auth_config) = Inr t"
proof -
  have "rq_headers (strip_configured_identity_headers demo_auth_config (demo_request (''Bearer '' @ t) [''forged'']))
      ''authorization'' = [''Bearer '' @ t]"
    by (subst strip_other) (simp_all add: rpc_demo_defs hname_def to_ascii_lowercase_def lower_char_def)
  moreover have "hname ''authorization'' = ''authorization''" by code_simp
  ultimately show ?thesis
    by (simp add: extract_bearer_token_def h_get_def demo_header_codec_def okorR_def)
qed

lemma demo_accepted:
  assumes "t = ''tok''"
  obtains h where
    "inject_subject demo_header_codec (claim_headers demo_claims (ac_claim_mappings demo_auth_config))
       (rq_headers (strip_configured_identity_headers demo_auth_config (demo_request (''Bearer '' @ t) [''forged'']))) = Some h"
    "authorize demo_header_codec demo_jose 0 (auth_layer_new demo_security demo_auth_config) (demo_request (''Bearer '' @ t) [''forged'']) =
       Some (Inr ((strip_configured_identity_headers demo_auth_config (demo_request (''Bearer '' @ t) [''forged'']))\<lparr>rq_headers := h\<rparr>))"
proof -
  have "parse_all demo_header_codec (claim_headers demo_claims (ac_claim_mappings demo_auth_config)) \<noteq> None" by code_simp
  then obtain h where h: "inject_subject demo_header_codec (claim_headers demo_claims (ac_claim_mappings demo_auth_config))
       (rq_headers (strip_configured_identity_headers demo_auth_config (demo_request (''Bearer '' @ t) [''forged'']))) = Some h"
    by (auto simp: inject_subject_fold)
  have d: "decrypt_jwt demo_jose 0 (ss_pwd demo_security) t = Some (Inr demo_claims)"
    by (rule decrypt_jwt_accepts) (simp_all add: demo_jose_def assms st_add_def secs_of_def clock_leeway_def i64_max_def)
  have "authorize demo_header_codec demo_jose 0 (auth_layer_new demo_security demo_auth_config) (demo_request (''Bearer '' @ t) [''forged'']) =
       Some (Inr ((strip_configured_identity_headers demo_auth_config (demo_request (''Bearer '' @ t) [''forged'']))\<lparr>rq_headers := h\<rparr>))"
    using demo_token [of t] demo_not_preserved demo_not_exempt demo_no_subject d h
    by (simp add: authorize_stripped auth_layer_new_def authorize_token_def inject_claims_subject forwarded_def)
  with h show ?thesis by (rule that)
qed

lemma demo_mapping:
  "\<lparr>cm_header = ''x-tenant-id'', cm_source = ClaimString ''tenant_id''\<rparr> \<in> set (ac_claim_mappings demo_auth_config)"
  "\<lparr>cm_header = ''x-facility-id'', cm_source = StringOrI64 ''facility_id''\<rparr> \<in> set (ac_claim_mappings demo_auth_config)"
  "\<lparr>cm_header = ''x-context-type'', cm_source = ClaimString ''context_type''\<rparr> \<in> set (ac_claim_mappings demo_auth_config)"
  by (simp_all add: demo_auth_config_def)

lemma demo_claim_values:
  "claim_value demo_claims (ClaimString ''tenant_id'') = Some ''100''"
  "claim_value demo_claims (StringOrI64 ''facility_id'') = Some ''9''"
  "claim_value demo_claims (ClaimString ''context_type'') = Some ''facility''"
  by code_simp+

lemma demo_header_codec_reads: "hc_parse demo_header_codec s = Some v \<Longrightarrow> hc_to_str demo_header_codec v = Some s"
  by (auto simp: demo_header_codec_def split: if_splits)

theorem identity_headers_unforgeable_witness:
  "authorize demo_header_codec demo_jose 0 (auth_layer_new demo_security demo_auth_config) (demo_request ''Bearer tok'' [''forged'']) =
   authorize demo_header_codec demo_jose 0 (auth_layer_new demo_security demo_auth_config) (demo_request ''Bearer tok'' [])"
proof (rule identity_headers_unforgeable)
  show "\<not> path_exempt (ac_preserve_paths (au_config (auth_layer_new demo_security demo_auth_config))) (rq_path (demo_request ''Bearer tok'' []))"
    by (simp add: auth_layer_new_def demo_not_preserved)
  fix n
  assume "n \<notin> identity_names (au_config (auth_layer_new demo_security demo_auth_config))"
  moreover have "hname ''x-tenant-id'' = ''x-tenant-id''" by code_simp
  then have "''x-tenant-id'' \<in> identity_names demo_auth_config" using demo_mapping(1) by (force simp: identity_names_def)
  ultimately show "rq_headers (demo_request ''Bearer tok'' [''forged'']) n = rq_headers (demo_request ''Bearer tok'' []) n"
    by (auto simp: auth_layer_new_def demo_request_def demo_headers_def)
qed (simp_all add: demo_request_def)

theorem no_anonymous_request_witness:
  "\<exists>rq'. authorize demo_header_codec demo_jose 0 (auth_layer_new demo_security demo_auth_config) (demo_request ''Bearer tok'' [''forged'']) = Some (Inr rq') \<and>
     (\<exists>token. extract_bearer_token demo_header_codec (token_headers demo_auth_config (demo_request ''Bearer tok'' [''forged''])) ''access_token'' = Inr token \<and>
        token_accepted demo_jose 0 (auth_layer_new demo_security demo_auth_config) token)"
proof -
  obtain h where a: "authorize demo_header_codec demo_jose 0 (auth_layer_new demo_security demo_auth_config) (demo_request (''Bearer '' @ ''tok'') [''forged'']) =
       Some (Inr ((strip_configured_identity_headers demo_auth_config (demo_request (''Bearer '' @ ''tok'') [''forged'']))\<lparr>rq_headers := h\<rparr>))"
    using demo_accepted [OF refl] by blast
  have c: "au_config (auth_layer_new demo_security demo_auth_config) = demo_auth_config" "ac_cookie_token_name demo_auth_config = ''access_token''"
    by (simp_all add: auth_layer_new_def demo_auth_config_def auth_config_default_def)
  from no_anonymous_request [OF a] demo_not_exempt [of "''Bearer '' @ ''tok''" "[''forged'']"]
    demo_no_subject [of "''Bearer '' @ ''tok''" "[''forged'']"] have
    "\<exists>token. extract_bearer_token demo_header_codec (token_headers demo_auth_config (demo_request (''Bearer '' @ ''tok'') [''forged''])) ''access_token'' = Inr token \<and>
        token_accepted demo_jose 0 (auth_layer_new demo_security demo_auth_config) token"
    unfolding c by blast
  with a show ?thesis by auto
qed

theorem forwarded_identity_exact_witness:
  "\<exists>rq'. authorize demo_header_codec demo_jose 0 (auth_layer_new demo_security demo_auth_config) (demo_request ''Bearer tok'' [''forged'']) = Some (Inr rq') \<and>
     h_get ''x-tenant-id'' (rq_headers rq') = Some ''100'' \<and> h_get ''x-facility-id'' (rq_headers rq') = Some ''9''"
proof -
  obtain h where a: "authorize demo_header_codec demo_jose 0 (auth_layer_new demo_security demo_auth_config) (demo_request (''Bearer '' @ ''tok'') [''forged'']) =
       Some (Inr ((strip_configured_identity_headers demo_auth_config (demo_request (''Bearer '' @ ''tok'') [''forged'']))\<lparr>rq_headers := h\<rparr>))"
    using demo_accepted [OF refl] by blast
  define rq' where "rq' = (strip_configured_identity_headers demo_auth_config (demo_request (''Bearer '' @ ''tok'') [''forged'']))\<lparr>rq_headers := h\<rparr>"
  from forwarded_identity_exact [OF demo_not_preserved demo_not_exempt demo_no_subject demo_distinct a [folded rq'_def]]
  obtain p where "jo_decrypt demo_jose (kc_secret_key (ss_pwd demo_security)) ''tok'' = Inr p"
    and hdr: "\<And>m. m \<in> set (ac_claim_mappings demo_auth_config) \<Longrightarrow>
      h_get (cm_header m) (rq_headers rq') = Option.bind (claim_value p (cm_source m)) (hc_parse demo_header_codec)"
    unfolding demo_token by auto
  then have p: "p = demo_claims" by (simp add: demo_jose_def)
  have v: "hc_parse demo_header_codec ''100'' = Some ''100''" "hc_parse demo_header_codec ''9'' = Some ''9''" by code_simp+
  from hdr [OF demo_mapping(1)] hdr [OF demo_mapping(2)]
  have "h_get ''x-tenant-id'' (rq_headers rq') = Some ''100'' \<and> h_get ''x-facility-id'' (rq_headers rq') = Some ''9''"
    unfolding p by (simp add: demo_claim_values v del: claim_value.simps)
  with a [folded rq'_def] show ?thesis by auto
qed

theorem unrepresentable_claim_rejected_witness:
  "authorize demo_header_codec demo_jose 0 (auth_layer_new demo_security demo_auth_config) (demo_request (''Bearer '' @ ''bad'') [''forged'']) =
     Some (Inl (unauthorized_response demo_auth_config (ac_error_message demo_auth_config)))"
proof (rule unrepresentable_claim_rejected [OF demo_not_preserved demo_not_exempt demo_no_subject demo_token])
  show "decrypt_jwt demo_jose 0 (ss_pwd demo_security) ''bad'' = Some (Inr demo_bad_claims)"
    by (rule decrypt_jwt_accepts) (simp_all add: demo_jose_def st_add_def secs_of_def clock_leeway_def i64_max_def)
  show "\<lparr>cm_header = ''x-tenant-id'', cm_source = ClaimString ''tenant_id''\<rparr> \<in> set (ac_claim_mappings demo_auth_config)"
    by (rule demo_mapping)
  show "claim_value demo_bad_claims (cm_source \<lparr>cm_header = ''x-tenant-id'', cm_source = ClaimString ''tenant_id''\<rparr>) =
      Some [CHR 0x0A]"
    by (simp add: demo_bad_claims_def get_str_def)
  show "hc_parse demo_header_codec [CHR 0x0A] = None" by code_simp
qed

theorem scope_claim_required_witness:
  "\<exists>rq'. authorize demo_header_codec demo_jose 0 (auth_layer_new demo_security demo_auth_config) (demo_request ''Bearer tok'' [''forged'']) = Some (Inr rq') \<and>
     validate_context demo_header_codec demo_validation rq' = Inr rq' \<and>
     h_str demo_header_codec ''x-facility-id'' (rq_headers rq') = Some ''9''"
proof -
  obtain h where i: "inject_subject demo_header_codec (claim_headers demo_claims (ac_claim_mappings demo_auth_config))
       (rq_headers (strip_configured_identity_headers demo_auth_config (demo_request (''Bearer '' @ ''tok'') [''forged'']))) = Some h"
    and a: "authorize demo_header_codec demo_jose 0 (auth_layer_new demo_security demo_auth_config) (demo_request (''Bearer '' @ ''tok'') [''forged'']) =
       Some (Inr ((strip_configured_identity_headers demo_auth_config (demo_request (''Bearer '' @ ''tok'') [''forged'']))\<lparr>rq_headers := h\<rparr>))"
    using demo_accepted [OF refl] by blast
  define rq' where "rq' = (strip_configured_identity_headers demo_auth_config (demo_request (''Bearer '' @ ''tok'') [''forged'']))\<lparr>rq_headers := h\<rparr>"
  have s: "h_str demo_header_codec ''x-facility-id'' (rq_headers rq') = Some ''9''"
    using injected_claim_str [OF i demo_distinct demo_mapping(2) demo_header_codec_reads]
    by (simp add: rq'_def demo_claim_values del: claim_value.simps)
  then have v: "validate_context demo_header_codec demo_validation rq' = Inr rq'"
    by (simp add: validate_context_def demo_validation_def)
  have vc: "vc_context_header demo_validation = ''x-context-type''" "vc_require_header demo_validation = ''x-facility-id''"
    "vc_trigger_value demo_validation = ''facility''"
    by (simp_all add: demo_validation_def)
  have e: "\<not> path_exempt (vc_exclude_paths demo_validation) ''/a.S/M''" "\<not> rpc_listed (vc_exclude_rpcs demo_validation) ''/a.S/M''"
    by code_simp+
  have path: "rq_path (demo_request (''Bearer '' @ ''tok'') [''forged'']) = ''/a.S/M''" by (simp add: demo_request_def)
  from scope_claim_required [OF demo_not_preserved demo_not_exempt demo_no_subject demo_distinct
      e [folded path] demo_mapping(3) [folded vc(1)] demo_mapping(2) [folded vc(2)] demo_header_codec_reads
      a [folded rq'_def] v]
  obtain p where "jo_decrypt demo_jose (kc_secret_key (ss_pwd demo_security)) ''tok'' = Inr p"
    "get_str ''context_type'' p = Some (vc_trigger_value demo_validation) \<longrightarrow>
       (\<exists>scope. claim_value p (StringOrI64 ''facility_id'') = Some scope \<and> scope \<noteq> [] \<and>
          h_str demo_header_codec (vc_require_header demo_validation) (rq_headers rq') = Some scope)"
    unfolding demo_token by auto
  with a [folded rq'_def] v s show ?thesis by auto
qed

section \<open>Procedure paths\<close>

text \<open>A procedure path reads back. The path of a procedure of a dotted service (no leading
  slash in the service, a non-empty method without slash) parses to exactly that service and method;
  and a path that parses is leading slashes, the service, a slash and the method.\<close>

theorem parse_rpc_path_iff:
  "parse_rpc_path path = Some (service, method) \<longleftrightarrow>
     dropWhile (\<lambda>c. c = CHR ''/'') path = service @ CHR ''/'' # method \<and>
     CHR ''/'' \<notin> set method \<and> method \<noteq> [] \<and> CHR ''.'' \<in> set service"
proof -
  have "parse_rpc_path path = Some (service, method) \<longleftrightarrow>
      rsplit_once (CHR ''/'') (dropWhile (\<lambda>c. c = CHR ''/'') path) = Some (service, method) \<and>
      CHR ''.'' \<in> set service \<and> method \<noteq> []"
    by (auto simp: parse_rpc_path_def split: option.splits if_splits)
  then show ?thesis by (auto simp: rsplit_once_Some_iff)
qed

end
