(* ===== verification/Ai_OpenAi.thy ===== *)
theory Ai_OpenAi
  imports Common_Text
begin

text \<open>
  The OpenAI-compatible provider of fusion-ai (\<open>providers/openai_compatible\<close>): the message model that is
  independent of the provider (\<open>types.rs\<close>), its errors (\<open>errors.rs\<close>), the JSON helpers of \<open>json_utils.rs\<close>
  and the conversions between that model and the messages of Chat Completions (\<open>completion/mod.rs\<close>).
  A content type with a single variant (\<open>SystemContent\<close>, \<open>ToolResultContent\<close>) is its text. A panic of the
  source is an error of its own (\<open>ConvPanic\<close>).
\<close>

section \<open>Errors\<close>

datatype openai_error =
    OaHttp nat string
  | OaTransport string
  | OaResponseParse string
  | OaRequestBuild string
  | OaStream string

fun show_openai_error :: "openai_error \<Rightarrow> string" where
  "show_openai_error (OaHttp s m) = ''upstream HTTP error ('' @ show_nat s @ ''): '' @ m"
| "show_openai_error (OaTransport m) = ''transport error: '' @ m"
| "show_openai_error (OaResponseParse m) = ''response parse error: '' @ m"
| "show_openai_error (OaRequestBuild m) = ''request build error: '' @ m"
| "show_openai_error (OaStream m) = ''stream error: '' @ m"

fun openai_is_upstream_transient :: "openai_error \<Rightarrow> bool" where
  "openai_is_upstream_transient (OaTransport _) = True"
| "openai_is_upstream_transient (OaHttp s _) = (s = 429 \<or> 500 \<le> s)"
| "openai_is_upstream_transient _ = False"

datatype conv_error = Conversion string | ConvPanic string

fun openai_of_conversion :: "conv_error \<Rightarrow> openai_error" where
  "openai_of_conversion (Conversion m) = OaRequestBuild (''Message conversion error: '' @ m)"
| "openai_of_conversion (ConvPanic m) = OaRequestBuild m"

section \<open>At least one element\<close>

datatype 'a one_or_many = OneOrMany (om_first: 'a) (om_rest: "'a list")

definition om_one :: "'a \<Rightarrow> 'a one_or_many" where
  "om_one x = OneOrMany x []"

fun om_many :: "'a list \<Rightarrow> 'a one_or_many option" where
  "om_many [] = None"
| "om_many (x # xs) = Some (OneOrMany x xs)"

definition om_list :: "'a one_or_many \<Rightarrow> 'a list" where
  "om_list m = om_first m # om_rest m"

definition om_last :: "'a one_or_many \<Rightarrow> 'a" where
  "om_last m = (if om_rest m = [] then om_first m else last (om_rest m))"

definition om_push :: "'a one_or_many \<Rightarrow> 'a \<Rightarrow> 'a one_or_many" where
  "om_push m x = OneOrMany (om_first m) (om_rest m @ [x])"

definition om_length :: "'a one_or_many \<Rightarrow> nat" where
  "om_length m = 1 + length (om_rest m)"

definition om_json :: "('a \<Rightarrow> json) \<Rightarrow> 'a one_or_many \<Rightarrow> json" where
  "om_json ser m = JArr (map ser (om_list m))"

fun om_of_json :: "(json \<Rightarrow> 'a option) \<Rightarrow> json \<Rightarrow> 'a one_or_many option" where
  "om_of_json de (JArr xs) = Option.bind (all_some (map de xs)) om_many"
| "om_of_json de _ = None"

text \<open>\<open>string_or_one_or_many\<close>: one string, one object, or an array.\<close>

fun string_or_one_or_many :: "(string \<Rightarrow> 'a) \<Rightarrow> (json \<Rightarrow> 'a option) \<Rightarrow> json \<Rightarrow> 'a one_or_many option" where
  "string_or_one_or_many of_str de (JStr s) = Some (om_one (of_str s))"
| "string_or_one_or_many of_str de (JArr xs) = om_of_json de (JArr xs)"
| "string_or_one_or_many of_str de (JObj m) = map_option om_one (de (JObj m))"
| "string_or_one_or_many of_str de _ = None"

lemma om_list_one [simp]: "om_list (om_one x) = [x]"
  by (simp add: om_one_def om_list_def)

lemma om_list_nonempty [simp]: "om_list m \<noteq> []"
  by (simp add: om_list_def)

lemma om_many_list [simp]: "om_many (om_list m) = Some m"
  by (simp add: om_list_def)

lemma om_many_Some_iff: "om_many xs = Some m \<longleftrightarrow> xs = om_list m"
  by (cases xs) (auto simp: om_list_def)

lemma om_many_None_iff [simp]: "om_many xs = None \<longleftrightarrow> xs = []"
  by (cases xs) auto

lemma om_list_push: "om_list (om_push m x) = om_list m @ [x]"
  by (simp add: om_list_def om_push_def)

lemma om_last_list: "om_last m = last (om_list m)"
  by (simp add: om_last_def om_list_def)

lemma om_length_list: "om_length m = length (om_list m)"
  by (simp add: om_length_def om_list_def)

lemma om_list_inj: "om_list m = om_list m' \<longleftrightarrow> m = m'"
  by (cases m; cases m') (simp add: om_list_def)

section \<open>The message model\<close>

datatype image_media = JPEG | PNG | GIF | WEBP | HEIC | HEIF | SVG

fun image_mime :: "image_media \<Rightarrow> string" where
  "image_mime JPEG = ''image/jpeg''"
| "image_mime PNG = ''image/png''"
| "image_mime GIF = ''image/gif''"
| "image_mime WEBP = ''image/webp''"
| "image_mime HEIC = ''image/heic''"
| "image_mime HEIF = ''image/heif''"
| "image_mime SVG = ''image/svg+xml''"

datatype document_media = PDF | TXT | RTF | HTML | CSS | MARKDOWN | CSV | XML | Javascript | Python

fun document_mime :: "document_media \<Rightarrow> string" where
  "document_mime PDF = ''application/pdf''"
| "document_mime TXT = ''text/plain''"
| "document_mime RTF = ''application/rtf''"
| "document_mime HTML = ''text/html''"
| "document_mime CSS = ''text/css''"
| "document_mime MARKDOWN = ''text/markdown''"
| "document_mime CSV = ''text/csv''"
| "document_mime XML = ''application/xml''"
| "document_mime Javascript = ''application/javascript''"
| "document_mime Python = ''text/x-python''"

datatype audio_media = AuWAV | AuMP3 | AuAIFF | AuAAC | AuOGG | AuFLAC | AuM4A | AuWEBM | AuPCM16 | AuPCM24

text \<open>The names serde writes (\<open>rename_all = "lowercase"\<close>).\<close>

fun audio_name :: "audio_media \<Rightarrow> string" where
  "audio_name AuWAV = ''wav''"
| "audio_name AuMP3 = ''mp3''"
| "audio_name AuAIFF = ''aiff''"
| "audio_name AuAAC = ''aac''"
| "audio_name AuOGG = ''ogg''"
| "audio_name AuFLAC = ''flac''"
| "audio_name AuM4A = ''m4a''"
| "audio_name AuWEBM = ''webm''"
| "audio_name AuPCM16 = ''pcm16''"
| "audio_name AuPCM24 = ''pcm24''"

datatype image_detail = DetailLow | DetailHigh | DetailAuto

fun detail_name :: "image_detail \<Rightarrow> string" where
  "detail_name DetailLow = ''low''"
| "detail_name DetailHigh = ''high''"
| "detail_name DetailAuto = ''auto''"

datatype source_kind = SrcUrl string | SrcBase64 string | SrcRaw "nat list" | SrcString string | SrcUnknown

fun show_source_kind :: "source_kind \<Rightarrow> string" where
  "show_source_kind (SrcUrl s) = s"
| "show_source_kind (SrcBase64 s) = s"
| "show_source_kind (SrcString s) = s"
| "show_source_kind (SrcRaw _) = ''<binary data>''"
| "show_source_kind SrcUnknown = ''<unknown>''"

record text_part =
  tx_text :: string
  tx_params :: "json option"

definition text_new :: "string \<Rightarrow> text_part" where
  "text_new s = \<lparr>tx_text = s, tx_params = None\<rparr>"

record image_part =
  im_data :: source_kind
  im_media :: "image_media option"
  im_detail :: "image_detail option"
  im_params :: "json option"

record audio_part =
  ad_data :: source_kind
  ad_media :: "audio_media option"
  ad_params :: "json option"

record document_part =
  do_data :: source_kind
  do_media :: "document_media option"
  do_params :: "json option"

datatype tool_result_content = TrText text_part | TrImage image_part

record tool_result =
  res_id :: string
  res_call_id :: "string option"
  res_content :: "tool_result_content one_or_many"

record tool_function =
  fn_name :: string
  fn_arguments :: json

record core_tool_call =
  tc_id :: string
  tc_call_id :: "string option"
  tc_function :: tool_function
  tc_signature :: "string option"
  tc_params :: "json option"

definition tool_call_new :: "string \<Rightarrow> tool_function \<Rightarrow> core_tool_call" where
  "tool_call_new i f = \<lparr>tc_id = i, tc_call_id = None, tc_function = f, tc_signature = None, tc_params = None\<rparr>"

definition with_call_id :: "string \<Rightarrow> core_tool_call \<Rightarrow> core_tool_call" where
  "with_call_id c t = t\<lparr>tc_call_id := Some c\<rparr>"

datatype reasoning_content =
    RcText string "string option"
  | RcEncrypted string
  | RcRedacted string
  | RcSummary string

fun reasoning_text :: "reasoning_content \<Rightarrow> string" where
  "reasoning_text (RcText t _) = t"
| "reasoning_text (RcEncrypted s) = s"
| "reasoning_text (RcRedacted d) = d"
| "reasoning_text (RcSummary s) = s"

record core_reasoning =
  re_id :: "string option"
  re_content :: "reasoning_content list"

definition reasoning_new :: "string \<Rightarrow> core_reasoning" where
  "reasoning_new s = \<lparr>re_id = None, re_content = [RcText s None]\<rparr>"

datatype user_content =
    UcText text_part
  | UcToolResult tool_result
  | UcImage image_part
  | UcAudio audio_part
  | UcDocument document_part

definition uc_text :: "string \<Rightarrow> user_content" where
  "uc_text s = UcText (text_new s)"

definition uc_image_url :: "string \<Rightarrow> image_media option \<Rightarrow> image_detail option \<Rightarrow> user_content" where
  "uc_image_url url m d = UcImage \<lparr>im_data = SrcUrl url, im_media = m, im_detail = d, im_params = None\<rparr>"

definition uc_audio :: "string \<Rightarrow> audio_media option \<Rightarrow> user_content" where
  "uc_audio d m = UcAudio \<lparr>ad_data = SrcBase64 d, ad_media = m, ad_params = None\<rparr>"

datatype assistant_content =
    AcText text_part
  | AcToolCall core_tool_call
  | AcReasoning core_reasoning
  | AcImage image_part

definition ac_text :: "string \<Rightarrow> assistant_content" where
  "ac_text s = AcText (text_new s)"

datatype core_message =
    CoreSystem string
  | CoreUser "user_content one_or_many"
  | CoreAssistant "string option" "assistant_content one_or_many"

definition core_user :: "string \<Rightarrow> core_message" where
  "core_user s = CoreUser (om_one (uc_text s))"

definition core_assistant :: "string \<Rightarrow> core_message" where
  "core_assistant s = CoreAssistant None (om_one (ac_text s))"

definition core_assistant_with_id :: "string \<Rightarrow> string \<Rightarrow> core_message" where
  "core_assistant_with_id i s = CoreAssistant (Some i) (om_one (ac_text s))"

datatype core_tool_choice = CtAuto | CtNone | CtRequired | CtSpecific "string list"

record core_tool =
  ct_name :: string
  ct_parameters :: json
  ct_description :: string

record core_usage =
  cu_input :: nat
  cu_output :: nat
  cu_total :: nat
  cu_cached :: nat
  cu_cache_creation :: nat

definition core_usage_default :: core_usage where
  "core_usage_default = \<lparr>cu_input = 0, cu_output = 0, cu_total = 0, cu_cached = 0, cu_cache_creation = 0\<rparr>"

section \<open>JSON helpers\<close>

fun json_merge :: "json \<Rightarrow> json \<Rightarrow> json" where
  "json_merge (JObj a) (JObj b) = JObj (map_merge a b)"
| "json_merge a _ = a"

fun string_or_vec :: "(string \<Rightarrow> 'a) \<Rightarrow> (json \<Rightarrow> 'a option) \<Rightarrow> json \<Rightarrow> 'a list option" where
  "string_or_vec of_str de (JStr s) = Some [of_str s]"
| "string_or_vec of_str de (JArr xs) = all_some (map de xs)"
| "string_or_vec of_str de JNull = Some []"
| "string_or_vec of_str de _ = None"

fun null_or_vec :: "(json \<Rightarrow> 'a option) \<Rightarrow> json \<Rightarrow> 'a list option" where
  "null_or_vec de (JArr xs) = all_some (map de xs)"
| "null_or_vec de JNull = Some []"
| "null_or_vec de _ = None"

text \<open>\<open>stringified_json\<close>: an argument value travels as the text of its JSON.\<close>

definition stringified_ser :: "(json \<Rightarrow> string) \<Rightarrow> json \<Rightarrow> json" where
  "stringified_ser print v = JStr (print v)"

definition stringified_de :: "(string \<Rightarrow> json option) \<Rightarrow> json \<Rightarrow> json option" where
  "stringified_de parse j = Option.bind (as_str j) parse"

text \<open>\<open>collect\<close> of an iterator of results: the first failure, else every value.\<close>

fun collectR :: "('e + 'a) list \<Rightarrow> 'e + 'a list" where
  "collectR [] = Inr []"
| "collectR (r # rs) = bindR r (\<lambda>x. bindR (collectR rs) (\<lambda>xs. Inr (x # xs)))"

lemma collectR_map_Inr: "(\<And>x. x \<in> set xs \<Longrightarrow> f x = Inr (g x)) \<Longrightarrow> collectR (map f xs) = Inr (map g xs)"
  by (induction xs) auto

lemma collectR_map_eq_Inr: "collectR (map f xs) = Inr ys \<longleftrightarrow> list_all2 (\<lambda>x y. f x = Inr y) xs ys"
  by (induction xs arbitrary: ys) (auto simp: bindR_eq_Inr list_all2_Cons1)

lemma collectR_map_eq_InlD: "collectR (map f xs) = Inl e \<Longrightarrow> \<exists>x\<in>set xs. f x = Inl e"
proof (induction xs)
  case (Cons a xs)
  then show ?case by (cases "f a"; cases "collectR (map f xs)") auto
qed simp

end
