(* ===== verification/Fusions_Error.thy ===== *)
theory Fusions_Error
  imports Core_App Sql_Dbx Rpc_Auth Ai_OpenAi
begin

text \<open>
  The error model of the aggregate crate: the codes of fusion-common (\<open>error.rs\<close>), \<open>WebError\<close> and
  its HTTP status (fusion-web \<open>error.rs\<close>), the error enums of the crates with their \<open>Display\<close>, and
  \<open>DataError\<close> with every \<open>From\<close> conversion of fusions \<open>error.rs\<close>, to and from the RPC error.

  A source error that only travels along is an \<open>any_error\<close>: the enum of a crate of the repository,
  or the \<open>Display\<close> text of an error of another crate. What an error of sqlx says about the database
  (\<open>as_database_error\<close>) is the argument \<open>db_of\<close>.
\<close>

section \<open>Codes\<close>

definition code_invalid_argument :: string where "code_invalid_argument = ''validation.invalid_argument''"
definition code_bad_request :: string where "code_bad_request = ''validation.bad_request''"
definition code_invalid_payload :: string where "code_invalid_payload = ''validation.invalid_payload''"
definition code_failed_precondition :: string where "code_failed_precondition = ''validation.failed_precondition''"
definition code_unauthorized :: string where "code_unauthorized = ''auth.unauthorized''"
definition code_invalid_token :: string where "code_invalid_token = ''auth.invalid_token''"
definition code_token_expired :: string where "code_token_expired = ''auth.token_expired''"
definition code_permission_denied :: string where "code_permission_denied = ''auth.permission_denied''"
definition code_not_found :: string where "code_not_found = ''resource.not_found''"
definition code_already_exists :: string where "code_already_exists = ''resource.already_exists''"
definition code_conflict :: string where "code_conflict = ''resource.conflict''"
definition code_internal_error :: string where "code_internal_error = ''system.internal_error''"
definition code_service_unavailable :: string where "code_service_unavailable = ''system.service_unavailable''"
definition code_not_implemented :: string where "code_not_implemented = ''system.not_implemented''"
definition code_config_error :: string where "code_config_error = ''system.config_error''"
definition code_io_error :: string where "code_io_error = ''system.io_error''"
definition code_rate_limited :: string where "code_rate_limited = ''rate_limit.exceeded''"
definition code_retry_limit :: string where "code_retry_limit = ''rate_limit.retry_limit''"
definition code_channel_error :: string where "code_channel_error = ''channel.error''"
definition code_rpc_error :: string where "code_rpc_error = ''rpc.error''"

lemmas code_defs = code_invalid_argument_def code_bad_request_def code_invalid_payload_def
  code_failed_precondition_def code_unauthorized_def code_invalid_token_def code_token_expired_def
  code_permission_denied_def code_not_found_def code_already_exists_def code_conflict_def
  code_internal_error_def code_service_unavailable_def code_not_implemented_def code_config_error_def
  code_io_error_def code_rate_limited_def code_retry_limit_def code_channel_error_def code_rpc_error_def

section \<open>WebError\<close>

record web_error =
  we_code :: string
  we_message :: "string option"
  we_request_id :: "string option"
  we_details :: "json option"

definition web_new :: "string \<Rightarrow> string \<Rightarrow> web_error" where
  "web_new code msg = \<lparr>we_code = code, we_message = Some msg, we_request_id = None, we_details = None\<rparr>"

definition web_server_error :: "string \<Rightarrow> web_error" where
  "web_server_error msg = web_new code_internal_error msg"

definition web_with_request_id :: "string \<Rightarrow> web_error \<Rightarrow> web_error" where
  "web_with_request_id r e = e\<lparr>we_request_id := Some r\<rparr>"

definition web_with_details :: "json \<Rightarrow> web_error \<Rightarrow> web_error" where
  "web_with_details d e = e\<lparr>we_details := Some d\<rparr>"

definition web_bad_request :: "string \<Rightarrow> web_error" where
  "web_bad_request msg = web_new code_bad_request msg"

definition web_unauthorized :: "string \<Rightarrow> web_error" where
  "web_unauthorized msg = web_new code_unauthorized msg"

definition web_forbidden :: "string \<Rightarrow> web_error" where
  "web_forbidden msg = web_new code_permission_denied msg"

definition web_not_found :: "string \<Rightarrow> web_error" where
  "web_not_found msg = web_new code_not_found msg"

definition web_conflict :: "string \<Rightarrow> web_error" where
  "web_conflict msg = web_new code_conflict msg"

definition web_unprocessable_entity :: "string \<Rightarrow> web_error" where
  "web_unprocessable_entity msg = web_new ''validation.unprocessable_entity'' msg"

definition web_too_many_requests :: "string \<Rightarrow> web_error" where
  "web_too_many_requests msg = web_new code_rate_limited msg"

definition web_not_implemented :: "string \<Rightarrow> web_error" where
  "web_not_implemented msg = web_new code_not_implemented msg"

definition web_bad_gateway :: "string \<Rightarrow> web_error" where
  "web_bad_gateway msg = web_new ''system.bad_gateway'' msg"

definition web_service_unavailable :: "string \<Rightarrow> web_error" where
  "web_service_unavailable msg = web_new code_service_unavailable msg"

definition web_gateway_timeout :: "string \<Rightarrow> web_error" where
  "web_gateway_timeout msg = web_new ''system.gateway_timeout'' msg"

text \<open>The status that \<open>into_response\<close> gives the response, by the code.\<close>

definition web_status :: "string \<Rightarrow> nat" where
  "web_status code =
     (if code \<in> {code_bad_request, code_invalid_argument, code_invalid_payload} then 400
      else if code \<in> {code_unauthorized, code_invalid_token, code_token_expired} then 401
      else if code = code_permission_denied then 403
      else if code = code_not_found then 404
      else if code \<in> {code_already_exists, code_conflict} then 409
      else if code \<in> {code_rate_limited, code_retry_limit} then 429
      else if code = code_internal_error then 500
      else if code \<in> {code_service_unavailable, code_config_error, code_io_error} then 503
      else if code = code_not_implemented then 501
      else if code = ''system.bad_gateway'' then 502
      else if code = ''system.gateway_timeout'' then 504
      else 500)"

definition opt_member :: "string \<Rightarrow> json option \<Rightarrow> (string \<times> json) list" where
  "opt_member k v = (case v of None \<Rightarrow> [] | Some j \<Rightarrow> [(k, j)])"

text \<open>The serialized form: absent fields are skipped.\<close>

definition web_json :: "web_error \<Rightarrow> json" where
  "web_json e =
     obj ([(''code'', JStr (we_code e))] @ opt_member ''message'' (map_option JStr (we_message e)) @
          opt_member ''request_id'' (map_option JStr (we_request_id e)) @ opt_member ''details'' (we_details e))"

definition web_into_response :: "web_error \<Rightarrow> response" where
  "web_into_response e =
     \<lparr>rs_status = web_status (we_code e), rs_content_type = ''application/json'', rs_body = web_json e\<rparr>"

text \<open>\<open>web_error_to_response\<close>: the caller chooses the status.\<close>

definition web_error_to_response :: "web_error \<Rightarrow> nat \<Rightarrow> response" where
  "web_error_to_response e status =
     \<lparr>rs_status = status, rs_content_type = ''application/json; charset=utf-8'', rs_body = web_json e\<rparr>"

definition web_error_2_body :: "web_error \<Rightarrow> response" where
  "web_error_2_body e = web_error_to_response e 401"

text \<open>The four conversions into \<open>WebError\<close> say nothing of the error they replace.\<close>

datatype web_cause = CauseIo string | CauseConfigure string | CauseHyper string | CauseJson string

fun web_from_cause :: "web_cause \<Rightarrow> web_error" where
  "web_from_cause (CauseIo _) = web_server_error ''internal io error''"
| "web_from_cause (CauseConfigure _) = web_server_error ''internal config error''"
| "web_from_cause (CauseHyper _) = web_server_error ''internal transport error''"
| "web_from_cause (CauseJson _) = web_server_error ''internal serialization error''"

section \<open>Errors of the crates\<close>

datatype common_error =
    FailToB64uDecode string
  | B64uDecodedNotUtf8 string
  | DateFailParse string
  | KeyFail
  | PwdNotMatching
  | MissingEnv string
  | WrongFormat string

fun show_common_error :: "common_error \<Rightarrow> string" where
  "show_common_error (FailToB64uDecode s) = ''Decode base64 fail, string is '' @ s"
| "show_common_error (B64uDecodedNotUtf8 s) = ''Base64 decoded bytes are not valid UTF-8, string is '' @ s"
| "show_common_error (DateFailParse s) = ''Parse date fail, data is '' @ s"
| "show_common_error KeyFail = ''Key fail.''"
| "show_common_error PwdNotMatching = ''Password not match.''"
| "show_common_error (MissingEnv s) = ''Missing env: '' @ s"
| "show_common_error (WrongFormat s) = ''Wrong format: '' @ s"

fun show_ctx_error :: "ctx_error \<Rightarrow> string" where
  "show_ctx_error InvalidPayload = ''Invalid payload, need a json object''"
| "show_ctx_error (CtxUnauthorized s) = ''Unauthorized: '' @ s"

fun show_sec_error :: "sec_error \<Rightarrow> string" where
  "show_sec_error HmacFailNewFromSlice = ''Hmac failure new from slice''"
| "show_sec_error CannotDecodeIdent = ''Cannot decode ident''"
| "show_sec_error CannotDecodeExp = ''Cannot decode exp''"
| "show_sec_error SignatureNotMatching = ''Signature not matching''"
| "show_sec_error ExpNotIso = ''Exp not iso''"
| "show_sec_error TokenExpired = ''Token expired''"
| "show_sec_error TokenNotYetValid = ''Token not yet valid''"
| "show_sec_error (JoseError s) = s"

fun show_component_error :: "component_error \<Rightarrow> string" where
  "show_component_error (ComponentNotFound s) = ''Component not found, name is '' @ s"
| "show_component_error (ComponentTypeMismatch s) = ''Component type mismatch, type is '' @ s"
| "show_component_error (AlreadyRegistered s) = ''Component already registered, name is '' @ s"

datatype configure_error =
    ConfigMissingEnv string
  | ConfigWrongFormat string
  | ConfigError string

fun show_configure_error :: "configure_error \<Rightarrow> string" where
  "show_configure_error (ConfigMissingEnv s) = ''Config missing env: '' @ s"
| "show_configure_error (ConfigWrongFormat s) = ''Config wrong format, need: '' @ s"
| "show_configure_error (ConfigError s) = s"

datatype core_error =
    CoreComponent component_error
  | CoreConfigure configure_error
  | CoreSecurity sec_error
  | CoreIo string
  | CoreTaskJoin string
  | CoreTracing string
  | CoreTimer string
  | CoreCustom string

datatype security_error =
    TokenGeneration
  | TokenVerification string
  | SecurityTokenExpired
  | InvalidToken
  | OAuth string
  | FailedToHashPassword
  | InvalidPassword
  | FailedToVerifyPassword
  | InvalidHashFormat
  | PasswordWorkerJoinFailed string
  | SecurityCore sec_error
  | SecurityCustom string

fun show_security_error :: "security_error \<Rightarrow> string" where
  "show_security_error TokenGeneration = ''Failed to generate token''"
| "show_security_error (TokenVerification s) = ''Failed to verify token: '' @ s"
| "show_security_error SecurityTokenExpired = ''Token expired''"
| "show_security_error InvalidToken = ''Invalid token format''"
| "show_security_error (OAuth s) = ''OAuth error: '' @ s"
| "show_security_error FailedToHashPassword = ''Failed to hash password''"
| "show_security_error InvalidPassword = ''Invalid password''"
| "show_security_error FailedToVerifyPassword = ''Failed to verify password''"
| "show_security_error InvalidHashFormat = ''Invalid password hash format''"
| "show_security_error (PasswordWorkerJoinFailed s) = ''Password worker join failed: '' @ s"
| "show_security_error (SecurityCore e) = show_sec_error e"
| "show_security_error (SecurityCustom s) = s"

fun show_dbx_error :: "dbx_error \<Rightarrow> string" where
  "show_dbx_error CountFail = ''Failed to count rows''"
| "show_dbx_error (UnsupportedDatabase s) =
     ''Unsupported database: '' @ s @
     ''. This operation requires a specific database backend (PostgreSQL or SQLite).''"
| "show_dbx_error CannotBeginTxnWithTxnFalse =
     ''Cannot begin transaction: the database connection was not created with transaction support. '' @
     ''Wrap the call in a transactional helper before issuing SQL (e.g. application-layer with_*_txn).''"
| "show_dbx_error CannotCommitTxnWithTxnFalse =
     ''Cannot commit transaction: the database connection was not created with transaction support''"
| "show_dbx_error TxnCantCommitNoOpenTxn =
     ''Cannot commit: no transaction is currently open. Did you call `begin_txn()` first?''"
| "show_dbx_error NoTxn = ''Cannot rollback: no transaction is currently open''"
| "show_dbx_error (SavePointError s) = ''Savepoint error: '' @ s"
| "show_dbx_error (ConfigInvalid s) = ''Invalid database configuration: '' @ s"
| "show_dbx_error (TransactionDepthMismatch b e) =
     ''Transaction depth mismatch: begin was called '' @ show_nat b @
     '' time(s) but commit/rollback was called '' @ show_nat e @
     '' time(s). This may indicate unbalanced transaction calls.''"
| "show_dbx_error (SqlxError s) = s"

text \<open>An id is its text. \<open>resolve_unique_violation\<close> matches a borrowed code, which is what the PostgreSQL
  driver returns.\<close>

datatype sql_error =
    SqlUnauthorized string
  | SqlExecuteError string string
  | SqlExecuteFail "string option" string
  | SqlCountFail "string option" string
  | SqlInvalidDatabase string
  | SqlInvalidArgument string
  | SqlEntityNotFound "string option" string string
  | SqlNotFound "string option" string string
  | SqlListLimitOverMax nat nat
  | SqlListLimitUnderMin nat nat
  | SqlListPageUnderMin nat nat
  | SqlUserAlreadyExists string string
  | SqlUniqueViolation string string
  | SqlCantCreateModelManagerProvider string
  | SqlCtxMissing
  | SqlCustom string
  | SqlJsonError string
  | SqlDbxError dbx_error
  | SqlSqlx string

record db_error =
  db_code :: "string option"
  db_table :: "string option"
  db_constraint :: "string option"

fun as_database_error :: "(string \<Rightarrow> db_error option) \<Rightarrow> sql_error \<Rightarrow> db_error option" where
  "as_database_error db_of (SqlDbxError (SqlxError e)) = db_of e"
| "as_database_error db_of _ = None"

definition resolve_unique_violation ::
  "(string \<Rightarrow> db_error option) \<Rightarrow> (string \<Rightarrow> string \<Rightarrow> sql_error option) option \<Rightarrow> sql_error \<Rightarrow> sql_error" where
  "resolve_unique_violation db_of resolver e =
     (case as_database_error db_of e of
        Some d \<Rightarrow>
          (case (db_code d, db_table d, db_constraint d) of
             (Some code, Some table, Some constraint) \<Rightarrow>
               (if code = ''23505'' then
                  unwrap_or (SqlUniqueViolation table constraint)
                    (Option.bind resolver (\<lambda>f. f table constraint))
                else e)
           | _ \<Rightarrow> e)
      | None \<Rightarrow> e)"

datatype ai_error = AiCustom string | AiOpenAiCompat openai_error

fun show_ai_error :: "ai_error \<Rightarrow> string" where
  "show_ai_error (AiCustom m) = ''Custom error: '' @ m"
| "show_ai_error (AiOpenAiCompat e) = show_openai_error e"

fun ai_is_upstream_transient :: "ai_error \<Rightarrow> bool" where
  "ai_is_upstream_transient (AiCustom _) = False"
| "ai_is_upstream_transient (AiOpenAiCompat e) = openai_is_upstream_transient e"

datatype weixin_error =
    WxInvalid int string
  | WxUnavailable string
  | WxMissingUnionid

fun show_weixin_error :: "weixin_error \<Rightarrow> string" where
  "show_weixin_error (WxInvalid c m) = ''weixin exchange rejected: errcode='' @ show_int c @ '' message='' @ m"
| "show_weixin_error (WxUnavailable m) = ''weixin exchange unavailable: '' @ m"
| "show_weixin_error WxMissingUnionid =
     ''weixin exchange succeeded but unionid is missing (app not bound to open platform)''"

datatype any_error =
    AnyCommon common_error
  | AnyComponent component_error
  | AnyConfigure configure_error
  | AnySec sec_error
  | AnySecurity security_error
  | AnyDbx dbx_error
  | AnyWeixin weixin_error
  | AnyAi ai_error
  | AnyForeign string

end
