(* ===== verification/Fusions_Data.thy ===== *)
theory Fusions_Data
  imports Fusions_Error
begin

text \<open>
  \<open>DataError\<close> of the aggregate crate (fusions \<open>error.rs\<close>): the builders, every \<open>From\<close> conversion, and
  what they guarantee: the RPC round trip, the agreement of the HTTP and the RPC class of a code, the
  retry class of an upstream failure, and the unique violation that one of two paths hides.
\<close>

section \<open>DataError\<close>

record data_error =
  de_code :: string
  de_message :: "string option"
  de_request_id :: "string option"
  de_details :: "json option"
  de_source :: "any_error option"

definition data_error_of :: "string \<Rightarrow> string \<Rightarrow> data_error" where
  "data_error_of code msg =
     \<lparr>de_code = code, de_message = Some msg, de_request_id = None, de_details = None, de_source = None\<rparr>"

text \<open>\<open>Display\<close>.\<close>

definition show_data_error :: "data_error \<Rightarrow> string" where
  "show_data_error e = (case de_message e of Some msg \<Rightarrow> de_code e @ '': '' @ msg | None \<Rightarrow> de_code e)"

definition de_bad_request :: "string \<Rightarrow> data_error" where
  "de_bad_request msg = data_error_of code_bad_request msg"

definition de_not_found :: "string \<Rightarrow> data_error" where
  "de_not_found msg = data_error_of code_not_found msg"

definition de_failed_precondition :: "string \<Rightarrow> data_error" where
  "de_failed_precondition msg = data_error_of code_failed_precondition msg"

definition de_conflicted :: "string \<Rightarrow> data_error" where
  "de_conflicted msg = data_error_of code_conflict msg"

definition de_unauthorized :: "string \<Rightarrow> data_error" where
  "de_unauthorized msg = data_error_of code_unauthorized msg"

definition de_forbidden :: "string \<Rightarrow> data_error" where
  "de_forbidden msg = data_error_of code_permission_denied msg"

definition de_server_error :: "string \<Rightarrow> data_error" where
  "de_server_error msg = data_error_of code_internal_error msg"

definition de_not_implemented :: "string \<Rightarrow> data_error" where
  "de_not_implemented msg = data_error_of code_not_implemented msg"

definition de_biz_error :: "string \<Rightarrow> string \<Rightarrow> json option \<Rightarrow> data_error" where
  "de_biz_error code msg details = (data_error_of code msg)\<lparr>de_details := details\<rparr>"

definition de_internal :: "string \<Rightarrow> string \<Rightarrow> any_error option \<Rightarrow> data_error" where
  "de_internal code msg source = (data_error_of code msg)\<lparr>de_source := source\<rparr>"

definition de_retry_limit :: "string \<Rightarrow> int \<Rightarrow> data_error" where
  "de_retry_limit msg limit = (data_error_of code_retry_limit msg)\<lparr>de_details := Some (obj [(''retry_limit'', JInt limit)])\<rparr>"

definition de_with_request_id :: "string \<Rightarrow> data_error \<Rightarrow> data_error" where
  "de_with_request_id r e = e\<lparr>de_request_id := Some r\<rparr>"

definition de_with_details :: "json \<Rightarrow> data_error \<Rightarrow> data_error" where
  "de_with_details d e = e\<lparr>de_details := Some d\<rparr>"

definition de_with_source :: "any_error \<Rightarrow> data_error \<Rightarrow> data_error" where
  "de_with_source s e = e\<lparr>de_source := Some s\<rparr>"

section \<open>Conversions into DataError\<close>

definition de_from_common :: "common_error \<Rightarrow> data_error" where
  "de_from_common e = de_with_source (AnyCommon e) (de_server_error (show_common_error e))"

fun de_from_ctx :: "ctx_error \<Rightarrow> data_error" where
  "de_from_ctx (CtxUnauthorized msg) = de_unauthorized msg"
| "de_from_ctx InvalidPayload = de_bad_request ''Invalid ctx payload''"

text \<open>The errors of the standard library and of other crates, by their text.\<close>

datatype foreign_error =
    FeSystemTime string
  | FeIo string
  | FeJson string
  | FeAddrParse string
  | FeChronoParse string
  | FeUuid string
  | FeTokioSend string
  | FeOneshotRecv string
  | FeJoin string
  | FeMeaSend string
  | FeConfig string
  | FeSqlx string

fun de_from_foreign :: "foreign_error \<Rightarrow> data_error" where
  "de_from_foreign (FeSystemTime t) = de_internal code_internal_error ''SystemTimeError'' (Some (AnyForeign t))"
| "de_from_foreign (FeIo t) = de_internal code_io_error (''IO error: '' @ t) (Some (AnyForeign t))"
| "de_from_foreign (FeJson t) = de_internal code_internal_error ''JSON error'' (Some (AnyForeign t))"
| "de_from_foreign (FeAddrParse t) = de_with_source (AnyForeign t) (de_server_error (''Addr parse error: '' @ t))"
| "de_from_foreign (FeChronoParse t) = de_with_source (AnyForeign t) (de_bad_request (''Parse date error: '' @ t))"
| "de_from_foreign (FeUuid t) = de_internal code_internal_error t (Some (AnyForeign t))"
| "de_from_foreign (FeTokioSend t) = de_internal code_channel_error ''channel send error'' (Some (AnyForeign t))"
| "de_from_foreign (FeOneshotRecv t) = de_internal code_channel_error ''channel recv error'' (Some (AnyForeign t))"
| "de_from_foreign (FeJoin t) = de_internal code_internal_error ''Join tokio task error'' (Some (AnyForeign t))"
| "de_from_foreign (FeMeaSend t) = de_with_source (AnyForeign t) (de_server_error (''Send to mea::mpsc error, '' @ t))"
| "de_from_foreign (FeConfig t) = de_internal code_config_error (''Config load error: '' @ t) (Some (AnyForeign t))"
| "de_from_foreign (FeSqlx t) = de_internal code_io_error (''Sqlx error: '' @ t) (Some (AnyForeign t))"

definition de_from_component :: "component_error \<Rightarrow> data_error" where
  "de_from_component e = de_internal code_internal_error (show_component_error e) (Some (AnyComponent e))"

definition de_from_configure :: "configure_error \<Rightarrow> data_error" where
  "de_from_configure e = de_with_source (AnyConfigure e) (de_server_error (show_configure_error e))"

definition de_from_sec :: "sec_error \<Rightarrow> data_error" where
  "de_from_sec e =
     (case e of
        TokenExpired \<Rightarrow> de_unauthorized ''Token expired''
      | SignatureNotMatching \<Rightarrow> de_unauthorized ''Signature not matching''
      | other \<Rightarrow> de_with_source (AnySec other) (de_server_error (show_sec_error other)))"

fun de_from_core :: "core_error \<Rightarrow> data_error" where
  "de_from_core (CoreComponent e) = de_from_component e"
| "de_from_core (CoreConfigure e) = de_from_configure e"
| "de_from_core (CoreSecurity e) = de_from_sec e"
| "de_from_core (CoreIo t) = de_from_foreign (FeIo t)"
| "de_from_core (CoreTaskJoin t) = de_from_foreign (FeJoin t)"
| "de_from_core (CoreTracing msg) = de_server_error msg"
| "de_from_core (CoreTimer msg) = de_server_error msg"
| "de_from_core (CoreCustom msg) = de_server_error msg"

definition de_from_connect :: "connect_error \<Rightarrow> data_error" where
  "de_from_connect e =
     (let msg = unwrap_or [] (ce_message e) in
      case ce_code e of
        RpcCanceled \<Rightarrow> de_internal code_rpc_error msg None
      | RpcUnknown \<Rightarrow> de_internal code_rpc_error msg None
      | RpcInvalidArgument \<Rightarrow> de_bad_request msg
      | RpcDeadlineExceeded \<Rightarrow> de_internal code_service_unavailable msg None
      | RpcNotFound \<Rightarrow> de_not_found msg
      | RpcAlreadyExists \<Rightarrow> de_conflicted msg
      | RpcPermissionDenied \<Rightarrow> de_forbidden msg
      | RpcResourceExhausted \<Rightarrow> de_internal code_rate_limited msg None
      | RpcFailedPrecondition \<Rightarrow> de_failed_precondition msg
      | RpcAborted \<Rightarrow> de_internal code_rpc_error msg None
      | RpcOutOfRange \<Rightarrow> de_bad_request msg
      | RpcUnimplemented \<Rightarrow> de_not_implemented msg
      | RpcInternal \<Rightarrow> de_server_error msg
      | RpcUnavailable \<Rightarrow> de_internal code_service_unavailable msg None
      | RpcDataLoss \<Rightarrow> de_internal code_rpc_error msg None
      | RpcUnauthenticated \<Rightarrow> de_unauthorized msg)"

definition rpc_code_of :: "string \<Rightarrow> rpc_code" where
  "rpc_code_of code =
     (if code \<in> {code_bad_request, code_invalid_argument, code_invalid_payload} then RpcInvalidArgument
      else if code = code_failed_precondition then RpcFailedPrecondition
      else if code \<in> {code_unauthorized, code_invalid_token, code_token_expired} then RpcUnauthenticated
      else if code = code_permission_denied then RpcPermissionDenied
      else if code = code_not_found then RpcNotFound
      else if code \<in> {code_already_exists, code_conflict} then RpcAlreadyExists
      else if code \<in> {code_rate_limited, code_retry_limit} then RpcResourceExhausted
      else if code \<in> {code_internal_error, code_channel_error, code_rpc_error} then RpcInternal
      else if code \<in> {code_service_unavailable, code_config_error, code_io_error} then RpcUnavailable
      else if code = code_not_implemented then RpcUnimplemented
      else RpcUnknown)"

definition connect_from_data :: "data_error \<Rightarrow> connect_error" where
  "connect_from_data e = connect_error_new (rpc_code_of (de_code e)) (unwrap_or [] (de_message e))"

text \<open>\<open>{:?}\<close> of an \<open>Option<&str>\<close>.\<close>

definition debug_opt_str :: "string option \<Rightarrow> string" where
  "debug_opt_str x = (case x of None \<Rightarrow> ''None'' | Some s \<Rightarrow> ''Some('' @ debug_str s @ '')'')"

fun de_from_sql :: "sql_error \<Rightarrow> data_error" where
  "de_from_sql (SqlUnauthorized e) = de_unauthorized e"
| "de_from_sql (SqlInvalidArgument m) = de_bad_request (''InvalidArgument, '' @ m)"
| "de_from_sql (SqlEntityNotFound schema entity i) =
     de_not_found (''EntityNotFound, '' @ unwrap_or [] schema @ '':'' @ entity @ '':'' @ i)"
| "de_from_sql (SqlNotFound schema table sql) = de_not_found (''NotFound, '' @ unwrap_or [] schema @ '':'' @ table)"
| "de_from_sql (SqlListLimitOverMax m a) =
     de_bad_request (''ListLimitOverMax, max: '' @ show_nat m @ '', actual: '' @ show_nat a)"
| "de_from_sql (SqlListLimitUnderMin m a) =
     de_bad_request (''ListLimitUnderMin, min: '' @ show_nat m @ '', actual: '' @ show_nat a)"
| "de_from_sql (SqlListPageUnderMin m a) =
     de_bad_request (''ListPageUnderMin, min: '' @ show_nat m @ '', actual: '' @ show_nat a)"
| "de_from_sql (SqlUserAlreadyExists k v) = de_conflicted (''UserAlreadyExists, '' @ k @ '':'' @ v)"
| "de_from_sql (SqlUniqueViolation t c) = de_conflicted (''UniqueViolation, '' @ t @ '':'' @ c)"
| "de_from_sql (SqlExecuteError t m) = de_server_error (''ExecuteError, '' @ t @ '':'' @ m)"
| "de_from_sql (SqlExecuteFail schema t) = de_server_error (''ExecuteFail, '' @ debug_opt_str schema @ '':'' @ t)"
| "de_from_sql (SqlCountFail schema t) = de_server_error (''CountFail, '' @ debug_opt_str schema @ '':'' @ t)"
| "de_from_sql (SqlInvalidDatabase d) = de_server_error (''Invalid database. database: '' @ d)"
| "de_from_sql (SqlCantCreateModelManagerProvider p) =
     de_server_error (''Can't create ModelManagerProvider. provider: '' @ p)"
| "de_from_sql SqlCtxMissing =
     de_server_error ''ModelManager has no ctx; call `with_ctx(...)` before context-dependent operations''"
| "de_from_sql (SqlJsonError t) = de_server_error t"
| "de_from_sql (SqlCustom msg) = de_server_error msg"
| "de_from_sql (SqlDbxError e) = de_internal code_io_error (show_dbx_error e) (Some (AnyDbx e))"
| "de_from_sql (SqlSqlx t) = de_internal code_io_error t (Some (AnyForeign t))"

definition de_from_dbx :: "(string \<Rightarrow> db_error option) \<Rightarrow> dbx_error \<Rightarrow> data_error" where
  "de_from_dbx db_of e =
     (let msg = show_dbx_error e in
      case (case e of SqlxError t \<Rightarrow> Option.bind (db_of t) db_code | _ \<Rightarrow> None) of
        Some code \<Rightarrow>
          (if code = ''23505'' then de_conflicted msg
           else if code = ''23503'' then de_bad_request msg
           else de_server_error msg)
      | None \<Rightarrow>
          (if contains_str ''23505'' msg then de_conflicted msg
           else if contains_str ''23503'' msg then de_bad_request msg
           else de_server_error msg))"

definition de_from_web :: "web_error \<Rightarrow> data_error" where
  "de_from_web e =
     \<lparr>de_code = (if we_code e = [] then code_internal_error else we_code e), de_message = we_message e,
      de_request_id = we_request_id e, de_details = we_details e, de_source = None\<rparr>"

definition web_from_data :: "data_error \<Rightarrow> web_error" where
  "web_from_data e =
     \<lparr>we_code = de_code e, we_message = de_message e, we_request_id = de_request_id e, we_details = de_details e\<rparr>"

definition de_from_security :: "security_error \<Rightarrow> data_error" where
  "de_from_security e =
     (case e of
        TokenGeneration \<Rightarrow> de_unauthorized ''Failed to generate token''
      | TokenVerification msg \<Rightarrow> de_unauthorized (''Token verification failed: '' @ msg)
      | SecurityTokenExpired \<Rightarrow> de_unauthorized ''Token expired''
      | InvalidToken \<Rightarrow> de_unauthorized ''Invalid token format''
      | OAuth msg \<Rightarrow> de_unauthorized (''OAuth error: '' @ msg)
      | InvalidPassword \<Rightarrow> de_unauthorized ''Invalid password''
      | FailedToVerifyPassword \<Rightarrow> de_unauthorized ''Failed to verify password''
      | SecurityCore s \<Rightarrow> de_from_sec s
      | SecurityCustom msg \<Rightarrow> de_server_error msg
      | other \<Rightarrow> de_with_source (AnySecurity other) (de_server_error (show_security_error other)))"

definition de_from_weixin :: "weixin_error \<Rightarrow> data_error" where
  "de_from_weixin e =
     (case e of
        WxInvalid _ _ \<Rightarrow> de_unauthorized (show_weixin_error e)
      | WxUnavailable _ \<Rightarrow> de_internal code_service_unavailable (show_weixin_error e) (Some (AnyWeixin e))
      | WxMissingUnionid \<Rightarrow> de_with_source (AnyWeixin e) (de_server_error (show_weixin_error e)))"

definition de_from_ai :: "ai_error \<Rightarrow> data_error" where
  "de_from_ai e =
     (let msg = show_ai_error e in
      if ai_is_upstream_transient e then de_internal code_service_unavailable msg (Some (AnyAi e))
      else de_with_source (AnyAi e) (de_server_error msg))"

section \<open>Round trips\<close>

lemmas de_builders = de_bad_request_def de_not_found_def de_failed_precondition_def de_conflicted_def
  de_unauthorized_def de_forbidden_def de_server_error_def de_not_implemented_def de_internal_def
  de_biz_error_def de_with_source_def data_error_of_def

text \<open>The RPC codes that name a cause the error model has no code for.\<close>

definition collapsed_codes :: "rpc_code set" where
  "collapsed_codes = {RpcCanceled, RpcUnknown, RpcAborted, RpcDataLoss, RpcDeadlineExceeded, RpcOutOfRange}"

lemma rpc_code_of_from_connect:
  "rpc_code_of (de_code (de_from_connect e)) =
     (case ce_code e of
        RpcCanceled \<Rightarrow> RpcInternal | RpcUnknown \<Rightarrow> RpcInternal | RpcAborted \<Rightarrow> RpcInternal
      | RpcDataLoss \<Rightarrow> RpcInternal | RpcDeadlineExceeded \<Rightarrow> RpcUnavailable | RpcOutOfRange \<Rightarrow> RpcInvalidArgument
      | c \<Rightarrow> c)"
  by (cases "ce_code e")
    (simp_all add: de_from_connect_def de_builders rpc_code_of_def code_defs)

lemma message_from_connect: "de_message (de_from_connect e) = Some (unwrap_or [] (ce_message e))"
  by (cases "ce_code e") (simp_all add: de_from_connect_def de_builders)

text \<open>An RPC error that passes through the error model comes out with the same code exactly when
  its code is not one of the six that the model has no code for, always with the same message; and a
  second pass changes nothing, so an error relayed through several services settles after one hop.\<close>

theorem connect_error_roundtrip:
  "(ce_code (connect_from_data (de_from_connect e)) = ce_code e) = (ce_code e \<notin> collapsed_codes) \<and>
   ce_message (connect_from_data (de_from_connect e)) = Some (unwrap_or [] (ce_message e)) \<and>
   connect_from_data (de_from_connect (connect_from_data (de_from_connect e))) = connect_from_data (de_from_connect e)"
proof (intro conjI)
  show "(ce_code (connect_from_data (de_from_connect e)) = ce_code e) = (ce_code e \<notin> collapsed_codes)"
    by (cases "ce_code e")
      (simp_all add: connect_from_data_def connect_error_new_def rpc_code_of_from_connect collapsed_codes_def)
  show "ce_message (connect_from_data (de_from_connect e)) = Some (unwrap_or [] (ce_message e))"
    by (simp add: connect_from_data_def connect_error_new_def message_from_connect)
  show "connect_from_data (de_from_connect (connect_from_data (de_from_connect e))) = connect_from_data (de_from_connect e)"
    by (cases "ce_code e")
      (simp_all add: connect_from_data_def connect_error_new_def message_from_connect rpc_code_of_from_connect)
qed

text \<open>A web error with a code survives the error model; the error model's source does not travel.\<close>

lemma web_error_roundtrip: "we_code e \<noteq> [] \<Longrightarrow> web_from_data (de_from_web e) = e"
  by (simp add: web_from_data_def de_from_web_def)

section \<open>Status classes\<close>

definition client_status :: "nat \<Rightarrow> bool" where
  "client_status s \<longleftrightarrow> 400 \<le> s \<and> s < 500"

definition rpc_client_code :: "rpc_code \<Rightarrow> bool" where
  "rpc_client_code c \<longleftrightarrow>
     c \<in> {RpcInvalidArgument, RpcFailedPrecondition, RpcUnauthenticated, RpcPermissionDenied, RpcNotFound,
          RpcAlreadyExists, RpcResourceExhausted}"

text \<open>HTTP and RPC agree on whose fault an error is, for every code but one. The HTTP status of
  a code is a client error exactly when its RPC code is, except for
  \<open>validation.failed_precondition\<close>, which RPC reports as \<open>FailedPrecondition\<close> and HTTP as an internal
  server error.\<close>

theorem http_rpc_class_agree:
  "(client_status (web_status code) = rpc_client_code (rpc_code_of code)) = (code \<noteq> code_failed_precondition)"
  unfolding web_status_def rpc_code_of_def client_status_def rpc_client_code_def by (simp add: code_defs)

text \<open>The builders answer with the status they are documented with, except
  \<open>unprocessable_entity\<close>: its code is in no arm of the status table, so the response is a 500.\<close>

theorem builder_status:
  "map (\<lambda>b. rs_status (web_into_response (b msg)))
     [web_bad_request, web_unauthorized, web_forbidden, web_not_found, web_conflict, web_too_many_requests,
      web_server_error, web_not_implemented, web_bad_gateway, web_service_unavailable, web_gateway_timeout] =
   [400, 401, 403, 404, 409, 429, 500, 501, 502, 503, 504] \<and>
   rs_status (web_into_response (web_unprocessable_entity msg)) = 500"
  by (simp add: web_into_response_def web_new_def web_status_def code_defs web_bad_request_def
    web_unauthorized_def web_forbidden_def web_not_found_def web_conflict_def web_too_many_requests_def
    web_server_error_def web_not_implemented_def web_bad_gateway_def web_service_unavailable_def
    web_gateway_timeout_def web_unprocessable_entity_def)

text \<open>The retry class of an upstream failure: 503 exactly for the transient ones.\<close>

lemma ai_error_retryable: "(web_status (de_code (de_from_ai e)) = 503) = ai_is_upstream_transient e"
  by (simp add: de_from_ai_def Let_def de_builders web_status_def code_defs)

text \<open>Whether a unique violation is a conflict depends on the path it takes. Converted as a
  \<open>DbxError\<close> it is a conflict (409); wrapped in \<open>SqlError\<close> by \<open>?\<close> first and not resolved, the same
  database error is an unavailable service (503, retryable); after \<open>resolve_unique_violation\<close> it is a
  conflict again.\<close>

theorem unique_violation_by_path:
  assumes "db_of t = Some \<lparr>db_code = Some ''23505'', db_table = Some table, db_constraint = Some con\<rparr>"
  shows "web_status (de_code (de_from_dbx db_of (SqlxError t))) = 409 \<and>
    web_status (de_code (de_from_sql (SqlDbxError (SqlxError t)))) = 503 \<and>
    web_status (de_code (de_from_sql (resolve_unique_violation db_of None (SqlDbxError (SqlxError t))))) = 409"
  using assms
  by (simp add: de_from_dbx_def resolve_unique_violation_def de_builders web_status_def code_defs)

theorem unique_violation_by_path_witness:
  "web_status (de_code (de_from_sql (SqlDbxError (SqlxError ''duplicate key'')))) = 503"
  using unique_violation_by_path
    [of "\<lambda>t. Some \<lparr>db_code = Some ''23505'', db_table = Some ''users'', db_constraint = Some ''users_email''\<rparr>" "''duplicate key''"]
  by simp

end
