(* ===== verification/Web_Auth.thy ===== *)
theory Web_Auth
  imports Fusions_Error
begin

text \<open>
  Authentication in fusion-web: \<open>extract_token\<close>, \<open>extract_ctx\<close> and the response helpers of \<open>util.rs\<close>,
  the content-type extractor of \<open>extract.rs\<close>, and the \<open>WebAuth\<close> layer of \<open>middleware/web_auth.rs\<close>
  with its remote validation.

  The typed header readers of the headers crate and the query reader of axum are the fields of
  \<open>extractors\<close>; the remote API is a function from the request it is sent to its reply. The clock is
  read several times: each reading is an argument of its own.
\<close>

section \<open>Tokens of a request\<close>

record ('v, 'b) extractors =
  ex_bearer :: "'v headers \<Rightarrow> string option"
  ex_cookies :: "'v headers \<Rightarrow> (string \<Rightarrow> string option) option"
  ex_query_token :: "('v, 'b) request \<Rightarrow> string option"

definition extract_token :: "('v, 'b) extractors \<Rightarrow> ('v, 'b) request \<Rightarrow> web_error + string" where
  "extract_token ex rq =
     (case ex_bearer ex (rq_headers rq) of
        Some t \<Rightarrow> Inr t
      | None \<Rightarrow>
          (case Option.bind (ex_cookies ex (rq_headers rq)) (\<lambda>c. c ''access_token'') of
             Some v \<Rightarrow> Inr v
           | None \<Rightarrow> okorR (web_unauthorized ''Missing token'') (ex_query_token ex rq)))"

text \<open>\<open>t0\<close>, \<open>t1\<close>, \<open>t2\<close>: the request time, the clock of the token check and the clock of the context.\<close>

definition extract_ctx ::
  "('v, 'b) extractors \<Rightarrow> jose \<Rightarrow> (int \<Rightarrow> int option) \<Rightarrow> int \<Rightarrow> int \<Rightarrow> int \<Rightarrow> string option \<Rightarrow>
     security_setting \<Rightarrow> ('v, 'b) request \<Rightarrow> (web_error + ctx) option" where
  "extract_ctx ex jo from_ts t0 t1 t2 trace_id sc rq =
     (case extract_token ex rq of
        Inl e \<Rightarrow> Some (Inl e)
      | Inr token \<Rightarrow>
          (case decrypt_jwt jo t1 (ss_pwd sc) token of
             None \<Rightarrow> None
           | Some (Inl _) \<Rightarrow> Some (Inl (web_unauthorized ''Failed decode jwt''))
           | Some (Inr p) \<Rightarrow>
               Some (map_errR (\<lambda>e. web_unauthorized (show_ctx_error e)) (ctx_try_new from_ts t2 p (Some t0) trace_id))))"

definition extensions_2_ctx :: "ctx option \<Rightarrow> web_error + ctx" where
  "extensions_2_ctx c =
     okorR (web_unauthorized ''The current login session does not exist, No Ctx found.'') c"

definition opt_to_web_result :: "'a option \<Rightarrow> web_error + 'a" where
  "opt_to_web_result x = okorR (web_not_found ''Not found.'') x"

definition unauthorized_app_error :: "string \<Rightarrow> nat \<times> web_error" where
  "unauthorized_app_error msg = (401, web_unauthorized msg)"

section \<open>JSON or form\<close>

datatype media = MediaJson | MediaForm | MediaOther string

text \<open>\<open>ct\<close> is the header read as text or its error; \<open>mime\<close> parses it; \<open>json\<close> and \<open>form\<close> are the two
  body readers of axum with their rejection text.\<close>

definition json_or_form ::
  "(string + string) option \<Rightarrow> (string \<Rightarrow> media option) \<Rightarrow> string + 'a \<Rightarrow> string + 'a \<Rightarrow> web_error + 'a" where
  "json_or_form ct mime json form =
     (case ct of
        None \<Rightarrow> Inl (web_bad_request (quoted ''Content-Type'' @ '' not found''))
      | Some (Inl e) \<Rightarrow> Inl (web_bad_request e)
      | Some (Inr s) \<Rightarrow>
          (case mime s of
             None \<Rightarrow> Inl (web_bad_request (quoted ''Content-Type'' @ '' invalid''))
           | Some MediaJson \<Rightarrow> map_errR web_bad_request json
           | Some MediaForm \<Rightarrow> map_errR web_bad_request form
           | Some (MediaOther m) \<Rightarrow>
               Inl (web_bad_request (''Unsupported Content-Type for JsonOrForm extractor: '' @ m @
                 '' (expected application/json or application/x-www-form-urlencoded)''))))"

section \<open>WebAuth\<close>

record web_auth =
  wa_includes :: "string list"
  wa_excludes :: "string list"
  wa_external :: "string option"

definition web_auth_default :: web_auth where
  "web_auth_default = \<lparr>wa_includes = [], wa_excludes = [], wa_external = None\<rparr>"

definition trim_end_slashes :: "string \<Rightarrow> string" where
  "trim_end_slashes s = rev (dropWhile (\<lambda>c. c = CHR ''/'') (rev s))"

definition with_api_base_url :: "string \<Rightarrow> web_auth \<Rightarrow> web_auth" where
  "with_api_base_url url a = a\<lparr>wa_external := Some (trim_end_slashes url @ ''/api/auth/extract_token'')\<rparr>"

definition with_includes :: "string list \<Rightarrow> web_auth \<Rightarrow> web_auth" where
  "with_includes xs a = a\<lparr>wa_includes := xs\<rparr>"

definition with_excludes :: "string list \<Rightarrow> web_auth \<Rightarrow> web_auth" where
  "with_excludes xs a = a\<lparr>wa_excludes := xs\<rparr>"

datatype 'v credential = CredHeader 'v | CredBearer string

datatype api_reply = ApiFailed string | ApiReply nat "string + json"

definition remote_credential :: "('v, 'b) extractors \<Rightarrow> ('v, 'b) request \<Rightarrow> 'v credential option" where
  "remote_credential ex rq =
     (case h_get ''authorization'' (rq_headers rq) of
        Some v \<Rightarrow> Some (CredHeader v)
      | None \<Rightarrow>
          (case Option.bind (ex_cookies ex (rq_headers rq)) (\<lambda>c. c ''access_token'') of
             Some t \<Rightarrow> Some (CredBearer t)
           | None \<Rightarrow> map_option CredBearer (ex_query_token ex rq)))"

text \<open>\<open>status_text\<close> is \<open>Display\<close> of a status code.\<close>

definition validate_token_remote ::
  "('v, 'b) extractors \<Rightarrow> (string \<Rightarrow> 'v credential \<Rightarrow> api_reply) \<Rightarrow> (nat \<Rightarrow> string) \<Rightarrow> (int \<Rightarrow> int option) \<Rightarrow>
     int \<Rightarrow> int \<Rightarrow> string option \<Rightarrow> string \<Rightarrow> ('v, 'b) request \<Rightarrow> web_error + ctx" where
  "validate_token_remote ex api status_text from_ts t0 t2 trace_id url rq =
     (case remote_credential ex rq of
        None \<Rightarrow> Inl (web_unauthorized ''Authentication failed, missing token'')
      | Some cred \<Rightarrow>
          (case api url cred of
             ApiFailed e \<Rightarrow> Inl (web_unauthorized (''Failed to call auth API: '' @ e))
           | ApiReply status body \<Rightarrow>
               (if 200 \<le> status \<and> status < 300 then
                  (case body of
                     Inl e \<Rightarrow> Inl (web_unauthorized (''Failed to parse auth response: '' @ e))
                   | Inr j \<Rightarrow>
                       (case as_object j of
                          None \<Rightarrow> Inl (web_unauthorized ''Invalid token response format'')
                        | Some m \<Rightarrow>
                            map_errR (\<lambda>e. web_unauthorized (''Failed to create context: '' @ show_ctx_error e))
                              (ctx_try_new from_ts t2 m (Some t0) trace_id)))
                else Inl (web_unauthorized (''Token validation failed: '' @ status_text status)))))"

text \<open>\<open>authorize\<close>: the path filters, then the remote or the local validation; the context goes into the
  extensions of the request.\<close>

definition web_auth_authorize ::
  "('v, 'b) extractors \<Rightarrow> jose \<Rightarrow> (string \<Rightarrow> 'v credential \<Rightarrow> api_reply) \<Rightarrow> (nat \<Rightarrow> string) \<Rightarrow> (int \<Rightarrow> int option) \<Rightarrow>
     int \<Rightarrow> int \<Rightarrow> int \<Rightarrow> string option \<Rightarrow> security_setting \<Rightarrow> web_auth \<Rightarrow> ('v, 'b) request \<Rightarrow>
     (response + ('v, 'b) request \<times> ctx) option" where
  "web_auth_authorize ex jo api status_text from_ts t0 t1 t2 trace_id sc a rq =
     (let path = rq_path rq;
          answer = (\<lambda>r. case r of Inl e \<Rightarrow> Inl (web_error_to_response e 401) | Inr c \<Rightarrow> Inr (rq, c)) in
      if wa_includes a \<noteq> [] \<and> \<not> path_exempt (wa_includes a) path
      then Some (Inl (web_error_to_response (web_unauthorized (''Url path `'' @ path @ ''` is not in includes'')) 401))
      else if wa_excludes a \<noteq> [] \<and> path_exempt (wa_excludes a) path
      then Some (Inl (web_error_to_response (web_unauthorized (''Url path `'' @ path @ ''` is in excludes'')) 401))
      else (case wa_external a of
              Some url \<Rightarrow> Some (answer (validate_token_remote ex api status_text from_ts t0 t2 trace_id url rq))
            | None \<Rightarrow> map_option answer (extract_ctx ex jo from_ts t0 t1 t2 trace_id sc rq)))"

section \<open>Contexts of accepted requests\<close>

lemma extract_ctx_Inr:
  assumes "extract_ctx ex jo from_ts t0 t1 t2 trace_id sc rq = Some (Inr c)"
  obtains token p where "extract_token ex rq = Inr token" "decrypt_jwt jo t1 (ss_pwd sc) token = Some (Inr p)"
    "ctx_try_new from_ts t2 p (Some t0) trace_id = Inr c"
  using assms by (auto simp: extract_ctx_def map_errR_eq_Inr split: sum.splits option.splits)

text \<open>An expiry that can be read is checked without leeway and kept; one that cannot is replaced.\<close>

lemma ctx_try_new_Inr:
  assumes "ctx_try_new from_ts now p rt ri = Inr c"
  shows "case get_expires_at from_ts p of
      Some e \<Rightarrow> now \<le> e \<and> cx_payload c = p
    | None \<Rightarrow> cx_payload c = set_expires_at (now + sixty_days) p"
  using assms by (auto simp: ctx_try_new_def split: option.splits if_splits)

text \<open>A context that fusion-web hands to a handler belongs to a token that decrypts under the
  password key and has not expired at the clock of the context: either the token's expiry is
  readable, not in the past, and the context carries the token's claims unchanged, or it is not
  readable and the context carries the claims with the expiry set sixty days ahead.\<close>

theorem extract_ctx_sound:
  assumes "extract_ctx ex jo from_ts t0 t1 t2 trace_id sc rq = Some (Inr c)"
  shows "\<exists>token p. extract_token ex rq = Inr token \<and> jo_decrypt jo (kc_secret_key (ss_pwd sc)) token = Inr p \<and>
    cx_req_time c = t0 \<and> cx_req_id c = unwrap_or [] trace_id \<and>
    (case get_expires_at from_ts p of
       Some e \<Rightarrow> t2 \<le> e \<and> cx_payload c = p
     | None \<Rightarrow> cx_payload c = set_expires_at (t2 + sixty_days) p)"
proof -
  obtain token p where t: "extract_token ex rq = Inr token" "decrypt_jwt jo t1 (ss_pwd sc) token = Some (Inr p)"
    and c: "ctx_try_new from_ts t2 p (Some t0) trace_id = Inr c"
    using assms by (rule extract_ctx_Inr)
  from c have "cx_req_time c = t0 \<and> cx_req_id c = unwrap_or [] trace_id"
    by (auto simp: ctx_try_new_def split: option.splits if_splits)
  with t decrypt_jwt_ok(1) [OF t(2)] ctx_try_new_Inr [OF c] show ?thesis by blast
qed

text \<open>The clock leeway of the token check is lost in \<open>extract_ctx\<close>. A token that \<open>decrypt_jwt\<close>
  accepts because it expired within the last minute is refused a moment later by \<open>Ctx::try_new\<close>,
  which compares the same claim with the clock as it stands.\<close>

theorem leeway_lost:
  assumes "extract_token ex rq = Inr token" "decrypt_jwt jo t1 (ss_pwd sc) token = Some (Inr p)"
    and "get_expires_at from_ts p = Some e" "e < t2"
  shows "extract_ctx ex jo from_ts t0 t1 t2 trace_id sc rq =
    Some (Inl (web_unauthorized ''Unauthorized: The token expired''))"
  using assms by (simp add: extract_ctx_def ctx_try_new_def map_errR_def)

text \<open>An expiry that is not an integer counts as no expiry. Whatever a claim \<open>exp\<close> written as a
  fraction, a text or a list says, \<open>Ctx::try_new\<close> accepts the claims and dates the context sixty days
  ahead.\<close>

theorem unreadable_exp_grants_sixty_days:
  assumes "map_of p claim_exp = Some v" "as_i64 v = None" "in_i64 (secs_of (now + sixty_days))"
    and "from_ts (secs_of (now + sixty_days)) = Some e"
  shows "\<exists>c. ctx_try_new from_ts now p rt ri = Inr c \<and> ctx_expires_at from_ts c = Some e"
  using assms
  by (simp add: ctx_try_new_def get_expires_at_def get_exp_def get_i64_def ctx_expires_at_def set_expires_at_def
    set_exp_def set_i64_def claim_exp_def)

section \<open>Witnesses\<close>

definition demo_ex :: "(string, unit) extractors" where
  "demo_ex = \<lparr>ex_bearer = (\<lambda>h. Some ''tok''), ex_cookies = (\<lambda>h. None), ex_query_token = (\<lambda>r. None)\<rparr>"

definition demo_exp_jose :: "json \<Rightarrow> jose" where
  "demo_exp_jose v =
     \<lparr>jo_from_map = Inr, jo_encrypt = (\<lambda>k p. Inr ''tok''), jo_decrypt = (\<lambda>k t. Inr [(''exp'', v)]),
      jo_expires_at = (\<lambda>p. map_option (\<lambda>s. s * 1000000000) (get_exp p)), jo_not_before = (\<lambda>p. None),
      jo_set_expires_at = set_expires_at\<rparr>"

definition demo_ts :: "int \<Rightarrow> int option" where
  "demo_ts s = (if - 8334601228800 \<le> s \<and> s \<le> 8210266876799 then Some (s * 1000000000) else None)"

definition demo_setting :: security_setting where
  "demo_setting =
     \<lparr>ss_pwd = \<lparr>kc_secret_key = ''k'', kc_expires_in = 7200\<rparr>, ss_token = \<lparr>kc_secret_key = ''k2'', kc_expires_in = 7200\<rparr>\<rparr>"

definition demo_parts :: "(string, unit) request" where
  "demo_parts = \<lparr>rq_path = ''/x'', rq_headers = (\<lambda>n. []), rq_subject = None, rq_rest = ()\<rparr>"

lemmas demo_web_defs = demo_ex_def demo_exp_jose_def demo_ts_def demo_setting_def demo_parts_def

lemma demo_decrypts:
  "decrypt_jwt (demo_exp_jose (JInt 1000)) 1020000000000 (ss_pwd demo_setting) ''tok'' = Some (Inr [(''exp'', JInt 1000)])"
  by (simp add: decrypt_jwt_def demo_web_defs check_exp_def check_nbf_def get_exp_def get_i64_def claim_exp_def in_i64_def
    i64_min_def i64_max_def st_add_def secs_of_def clock_leeway_def ensureR_def okR_def)

theorem extract_ctx_sound_witness:
  "\<exists>c. extract_ctx demo_ex (demo_exp_jose (JInt 1000)) demo_ts 5 1020000000000 900000000000 None demo_setting demo_parts = Some (Inr c) \<and>
     cx_payload c = [(''exp'', JInt 1000)]"
proof -
  define c where "c = \<lparr>cx_payload = [(''exp'', JInt 1000)], cx_req_time = 5, cx_req_id = []\<rparr>"
  have e: "extract_ctx demo_ex (demo_exp_jose (JInt 1000)) demo_ts 5 1020000000000 900000000000 None demo_setting demo_parts = Some (Inr c)"
    using demo_decrypts
    by (simp add: extract_ctx_def extract_token_def demo_ex_def ctx_try_new_def get_expires_at_def get_exp_def
      get_i64_def claim_exp_def in_i64_def i64_min_def i64_max_def demo_ts_def map_errR_def c_def)
  from extract_ctx_sound [OF e] have "\<exists>p. jo_decrypt (demo_exp_jose (JInt 1000)) (kc_secret_key (ss_pwd demo_setting)) ''tok'' = Inr p \<and>
      (case get_expires_at demo_ts p of Some e \<Rightarrow> 900000000000 \<le> e \<and> cx_payload c = p
       | None \<Rightarrow> cx_payload c = set_expires_at (900000000000 + sixty_days) p)"
    by (auto simp: extract_token_def demo_ex_def)
  then have "cx_payload c = [(''exp'', JInt 1000)]"
    by (simp add: demo_exp_jose_def get_expires_at_def get_exp_def get_i64_def claim_exp_def in_i64_def i64_min_def i64_max_def
      demo_ts_def)
  with e show ?thesis by blast
qed

theorem leeway_lost_witness:
  "extract_ctx demo_ex (demo_exp_jose (JInt 1000)) demo_ts 5 1020000000000 1020000000001 None demo_setting demo_parts =
     Some (Inl (web_unauthorized ''Unauthorized: The token expired''))"
proof (rule leeway_lost [OF _ demo_decrypts])
  show "extract_token demo_ex demo_parts = Inr ''tok''" by (simp add: extract_token_def demo_ex_def)
  show "get_expires_at demo_ts [(''exp'', JInt 1000)] = Some 1000000000000"
    by (simp add: get_expires_at_def get_exp_def get_i64_def claim_exp_def in_i64_def i64_min_def i64_max_def demo_ts_def)
qed simp

theorem unreadable_exp_grants_sixty_days_witness:
  "\<exists>c. ctx_try_new demo_ts 1700000000000000000 [(''exp'', JFloat ''1000.5'')] None None = Inr c \<and>
     ctx_expires_at demo_ts c = Some 1705184000000000000"
  by (rule unreadable_exp_grants_sixty_days [where v = "JFloat ''1000.5''"])
    (simp_all add: claim_exp_def in_i64_def i64_min_def i64_max_def secs_of_def sixty_days_def demo_ts_def)

end
