(* ===== verification/Web_Rate.thy ===== *)
theory Web_Rate
  imports Complex_Main Rpc_Auth "HOL-Library.AList"
begin

text \<open>
  The keyed token-bucket limiter of fusion-web (\<open>middleware/rate_limit.rs\<close>).

  An \<open>f64\<close> is a rational number and every floating-point operation is the exact operation followed
  by the rounding \<open>rnd\<close>, an argument of the model (\<open>rnd x = x\<close> is exact arithmetic; binary64 rounding
  is another instance). A capacity or a refill rate comes from a \<open>u32\<close>, so infinities only arise from
  the division by a refill rate of zero, which is written out. An \<open>Instant\<close> is nanoseconds on the
  monotonic clock; the two readings of the clock in \<open>take\<close> are arguments. The table of buckets is an
  association list with distinct keys.
\<close>

section \<open>State\<close>

record bucket =
  bk_tokens :: rat
  bk_last_refill :: nat

type_synonym buckets = "(string \<times> bucket) list"

record limiter =
  rl_capacity :: rat
  rl_refill_per_sec :: rat

definition max_keys :: nat where "max_keys = 65536"
definition idle_limit :: nat where "idle_limit = 3600 * 1000000000"

text \<open>\<open>per_ip\<close> and \<open>per_key\<close> differ in the key extractor only.\<close>

definition per_minute_rate :: "(rat \<Rightarrow> rat) \<Rightarrow> nat \<Rightarrow> nat \<Rightarrow> limiter" where
  "per_minute_rate rnd burst per_minute =
     \<lparr>rl_capacity = of_nat burst, rl_refill_per_sec = rnd (of_nat per_minute / 60)\<rparr>"

section \<open>Taking a token\<close>

text \<open>\<open>Instant\<close> subtraction saturates at zero; \<open>as_secs_f64\<close> adds the whole seconds and the rest.\<close>

definition secs_f64 :: "(rat \<Rightarrow> rat) \<Rightarrow> nat \<Rightarrow> rat" where
  "secs_f64 rnd ns = rnd (rnd (of_nat (ns div 1000000000)) + rnd (of_nat (ns mod 1000000000) / 1000000000))"

definition keep_bucket :: "limiter \<Rightarrow> nat \<Rightarrow> bucket \<Rightarrow> bool" where
  "keep_bucket rl now b \<longleftrightarrow> bk_tokens b < rl_capacity rl \<and> now - bk_last_refill b < idle_limit"

definition evict :: "limiter \<Rightarrow> nat \<Rightarrow> buckets \<Rightarrow> buckets" where
  "evict rl now bs =
     (if max_keys \<le> length bs then filter (\<lambda>(k, b). keep_bucket rl now b) bs else bs)"

definition refilled :: "(rat \<Rightarrow> rat) \<Rightarrow> limiter \<Rightarrow> nat \<Rightarrow> bucket \<Rightarrow> rat" where
  "refilled rnd rl now b =
     min (rnd (bk_tokens b + rnd (secs_f64 rnd (now - bk_last_refill b) * rl_refill_per_sec rl))) (rl_capacity rl)"

text \<open>\<open>(need / refill).ceil().clamp(1.0, 3600.0)\<close>; the quotient by zero is infinite.\<close>

definition retry_after :: "(rat \<Rightarrow> rat) \<Rightarrow> limiter \<Rightarrow> rat \<Rightarrow> nat" where
  "retry_after rnd rl tokens =
     (if rl_refill_per_sec rl = 0 then 3600
      else nat (max 1 (min 3600 \<lceil>rnd (rnd (1 - tokens) / rl_refill_per_sec rl)\<rceil>)))"

definition take_token ::
  "(rat \<Rightarrow> rat) \<Rightarrow> limiter \<Rightarrow> nat \<Rightarrow> nat \<Rightarrow> string \<Rightarrow> buckets \<Rightarrow> (bool \<times> nat) \<times> buckets" where
  "take_token rnd rl t0 t1 key bs0 =
     (let bs = evict rl t0 bs0;
          b = (case map_of bs key of Some b \<Rightarrow> b | None \<Rightarrow> \<lparr>bk_tokens = rl_capacity rl, bk_last_refill = t1\<rparr>);
          tokens = refilled rnd rl t1 b
      in if 1 \<le> tokens
         then ((True, 0), AList.update key \<lparr>bk_tokens = rnd (tokens - 1), bk_last_refill = t1\<rparr> bs)
         else ((False, retry_after rnd rl tokens), AList.update key \<lparr>bk_tokens = tokens, bk_last_refill = t1\<rparr> bs))"

definition check_key :: "(rat \<Rightarrow> rat) \<Rightarrow> limiter \<Rightarrow> nat \<Rightarrow> nat \<Rightarrow> string \<Rightarrow> buckets \<Rightarrow> bool \<times> buckets" where
  "check_key rnd rl t0 t1 key bs = (let (r, bs') = take_token rnd rl t0 t1 key bs in (fst r, bs'))"

section \<open>The layer\<close>

definition rate_limited_response :: "nat \<Rightarrow> response \<times> (string \<times> string) list" where
  "rate_limited_response retry =
     (\<lparr>rs_status = 429, rs_content_type = ''application/json'', rs_body = obj [(''error'', JStr ''rate_limited'')]\<rparr>,
      [(''retry-after'', show_nat retry)])"

text \<open>\<open>addr\<close> is the extension of type \<open>SocketAddr\<close>, as its text without the port.\<close>

definition client_ip_key :: "'v header_codec \<Rightarrow> 'v headers \<Rightarrow> string option \<Rightarrow> string" where
  "client_ip_key hc h addr =
     (case option_filter non_empty
             (map_option (\<lambda>xff. trim_str (hd (split_on (CHR '','') xff))) (h_str hc ''x-forwarded-for'' h)) of
        Some first \<Rightarrow> first
      | None \<Rightarrow>
          (case option_filter non_empty (h_str hc ''x-real-ip'' h) of
             Some rip \<Rightarrow> rip
           | None \<Rightarrow> (case addr of Some ip \<Rightarrow> ip | None \<Rightarrow> ''unknown'')))"

definition rate_limit_authorize ::
  "(rat \<Rightarrow> rat) \<Rightarrow> limiter \<Rightarrow> ('r \<Rightarrow> string) \<Rightarrow> nat \<Rightarrow> nat \<Rightarrow> 'r \<Rightarrow> buckets \<Rightarrow>
     ((response \<times> (string \<times> string) list) + 'r) \<times> buckets" where
  "rate_limit_authorize rnd rl key_of t0 t1 rq bs =
     (let ((allowed, retry), bs') = take_token rnd rl t0 t1 (key_of rq) bs in
      (if allowed then Inr rq else Inl (rate_limited_response retry), bs'))"

section \<open>Requests of one key\<close>

lemma update_lookup [simp]: "map_of (AList.update k v bs) k' = (if k' = k then Some v else map_of bs k')"
  by (simp add: update_conv')

lemma take_other_key:
  "key' \<noteq> key \<Longrightarrow> map_of (snd (take_token rnd rl t0 t1 key bs)) key' = map_of (evict rl t0 bs) key'"
  by (simp add: take_token_def Let_def)

lemma evict_small [simp]: "length bs < max_keys \<Longrightarrow> evict rl t bs = bs"
  by (simp add: evict_def)

text \<open>Below the key limit another key's bucket is untouched, and the answer depends on the own bucket
  only.\<close>

theorem keys_isolated:
  assumes "length bs < max_keys" "length bs' < max_keys"
  shows "map_of bs key = map_of bs' key \<Longrightarrow> fst (take_token rnd rl t0 t1 key bs) = fst (take_token rnd rl t0 t1 key bs')"
    and "key' \<noteq> key \<Longrightarrow> map_of (snd (take_token rnd rl t0 t1 key bs)) key' = map_of bs key'"
  using assms by (auto simp: take_token_def Let_def)

text \<open>Every stored bucket lies between zero and the capacity, and was spent from: it is strictly below
  the capacity when that is at least one.\<close>

definition bucket_ok :: "limiter \<Rightarrow> bucket \<Rightarrow> bool" where
  "bucket_ok rl b \<longleftrightarrow> 0 \<le> bk_tokens b \<and> bk_tokens b \<le> rl_capacity rl \<and>
     (1 \<le> rl_capacity rl \<longrightarrow> bk_tokens b < rl_capacity rl)"

definition table_ok :: "limiter \<Rightarrow> buckets \<Rightarrow> bool" where
  "table_ok rl bs \<longleftrightarrow> distinct (map fst bs) \<and> (\<forall>k b. map_of bs k = Some b \<longrightarrow> bucket_ok rl b)"

text \<open>What is used of the rounding: it is monotone and exact on zero, and a token less is less.\<close>

definition rounding :: "limiter \<Rightarrow> (rat \<Rightarrow> rat) \<Rightarrow> bool" where
  "rounding rl rnd \<longleftrightarrow> mono rnd \<and> rnd 0 = 0 \<and> (\<forall>x. 1 \<le> x \<longrightarrow> x \<le> rl_capacity rl \<longrightarrow> rnd (x - 1) < rl_capacity rl)"

lemma rounding_nonneg: "rounding rl rnd \<Longrightarrow> 0 \<le> x \<Longrightarrow> 0 \<le> rnd x"
  unfolding rounding_def by (metis monoD)

lemma secs_nonneg: "rounding rl rnd \<Longrightarrow> 0 \<le> secs_f64 rnd ns"
  by (simp add: secs_f64_def rounding_nonneg)

lemma refilled_bounds:
  assumes "rounding rl rnd" "0 \<le> rl_refill_per_sec rl" "0 \<le> rl_capacity rl" "0 \<le> bk_tokens b"
  shows "0 \<le> refilled rnd rl now b" "refilled rnd rl now b \<le> rl_capacity rl"
  using assms by (simp_all add: refilled_def rounding_nonneg secs_nonneg)

lemma map_of_filter_Some:
  "distinct (map fst bs) \<Longrightarrow> map_of (filter (\<lambda>(k, b). P b) bs) k = (case map_of bs k of Some b \<Rightarrow> if P b then Some b else None | None \<Rightarrow> None)"
  by (induction bs) (auto simp: image_iff dest: map_of_SomeD split: option.splits)

lemma evict_lookup:
  "distinct (map fst bs) \<Longrightarrow> map_of (evict rl t bs) k =
     (case map_of bs k of
        Some b \<Rightarrow> if length bs < max_keys \<or> keep_bucket rl t b then Some b else None
      | None \<Rightarrow> None)"
  by (auto simp: evict_def map_of_filter_Some split: option.splits)

lemma distinct_filter_fst: "distinct (map fst bs) \<Longrightarrow> distinct (map fst (filter P bs))"
  by (induction bs) (auto simp: image_iff)

lemma evict_distinct: "distinct (map fst bs) \<Longrightarrow> distinct (map fst (evict rl t bs))"
  by (simp add: evict_def distinct_filter_fst)

lemma table_ok_lookup: "table_ok rl bs \<Longrightarrow> map_of bs k = Some b \<Longrightarrow> bucket_ok rl b"
  by (auto simp: table_ok_def)

lemma table_ok_update: "table_ok rl bs \<Longrightarrow> bucket_ok rl b \<Longrightarrow> table_ok rl (AList.update k b bs)"
  by (simp add: table_ok_def distinct_update del: map_of_eq_Some_iff)

text \<open>The bucket table stays within its bounds. Whatever the order of requests, keys and clock
  readings, every stored bucket keeps between zero and \<open>capacity\<close> tokens, strictly less than the
  capacity when it is at least one, for any rounding that is monotone, exact on zero and takes a
  token off.\<close>

theorem take_keeps_bounds:
  assumes "rounding rl rnd" "0 \<le> rl_refill_per_sec rl" "0 \<le> rl_capacity rl" "table_ok rl bs"
  shows "table_ok rl (snd (take_token rnd rl t0 t1 key bs))"
proof -
  define b where "b = (case map_of (evict rl t0 bs) key of Some b \<Rightarrow> b
    | None \<Rightarrow> \<lparr>bk_tokens = rl_capacity rl, bk_last_refill = t1\<rparr>)"
  define tk where "tk = refilled rnd rl t1 b"
  have e: "table_ok rl (evict rl t0 bs)"
    using assms(4) by (auto simp: table_ok_def evict_lookup evict_distinct simp del: map_of_eq_Some_iff split: option.splits if_splits)
  then have "0 \<le> bk_tokens b" using assms(3) table_ok_lookup [OF e]
    by (auto simp: b_def bucket_ok_def split: option.splits)
  then have tk: "0 \<le> tk" "tk \<le> rl_capacity rl" using refilled_bounds assms(1-3) by (auto simp: tk_def)
  have spent: "bucket_ok rl \<lparr>bk_tokens = rnd (tk - 1), bk_last_refill = t1\<rparr>" if "1 \<le> tk"
  proof -
    have "rnd (tk - 1) < rl_capacity rl" using assms(1) that tk(2) by (auto simp: rounding_def)
    moreover have "0 \<le> rnd (tk - 1)" using rounding_nonneg [OF assms(1)] that by simp
    ultimately show ?thesis by (simp add: bucket_ok_def)
  qed
  have kept: "bucket_ok rl \<lparr>bk_tokens = tk, bk_last_refill = t1\<rparr>" if "\<not> 1 \<le> tk"
    using that tk by (simp add: bucket_ok_def)
  show ?thesis
    using table_ok_update [OF e spent] table_ok_update [OF e kept]
    by (simp add: take_token_def Let_def b_def [symmetric] tk_def [symmetric])
qed

theorem take_keeps_bounds_witness:
  "table_ok (per_minute_rate (\<lambda>x. x) 3 60) (snd (take_token (\<lambda>x. x) (per_minute_rate (\<lambda>x. x) 3 60) 7 9 ''1.1.1.1'' []))"
proof (rule take_keeps_bounds)
  show "rounding (per_minute_rate (\<lambda>x. x) 3 60) (\<lambda>x. x)"
    by (simp add: rounding_def per_minute_rate_def mono_def)
qed (simp_all add: per_minute_rate_def table_ok_def)

section \<open>How many requests pass\<close>

text \<open>The requests of \<open>key\<close> admitted along a sequence of requests: two clock readings and a key each.\<close>

fun admitted :: "(rat \<Rightarrow> rat) \<Rightarrow> limiter \<Rightarrow> string \<Rightarrow> (nat \<times> nat \<times> string) list \<Rightarrow> buckets \<Rightarrow> nat" where
  "admitted rnd rl key [] bs = 0"
| "admitted rnd rl key ((t0, t1, k) # rs) bs =
     (let (r, bs') = take_token rnd rl t0 t1 k bs
      in (if k = key \<and> fst r then 1 else 0) + admitted rnd rl key rs bs')"

definition exact :: "rat \<Rightarrow> rat" where "exact x = x"

lemma secs_exact: "secs_f64 exact ns = of_nat ns / 1000000000"
proof -
  have "(of_nat ns :: rat) = of_nat (ns div 1000000000) * 1000000000 + of_nat (ns mod 1000000000)"
    by (metis div_mult_mod_eq of_nat_add of_nat_mult of_nat_numeral)
  then show ?thesis by (simp add: secs_f64_def exact_def add_divide_distrib)
qed

lemma refilled_exact:
  "refilled exact rl t b = min (bk_tokens b + of_nat (t - bk_last_refill b) / 1000000000 * rl_refill_per_sec rl) (rl_capacity rl)"
  by (simp add: refilled_def secs_exact) (simp add: exact_def)

text \<open>
  The standard model of a floating-point rounding: a result is too large by a relative error \<open>\<epsilon>\<close> and, near
  zero, by an absolute one \<open>\<eta>\<close> at most (2^-53 and 2^-1075 for binary64).
\<close>

definition rounds_up_by :: "rat \<Rightarrow> rat \<Rightarrow> (rat \<Rightarrow> rat) \<Rightarrow> bool" where
  "rounds_up_by \<epsilon> \<eta> rnd \<longleftrightarrow> 0 \<le> \<epsilon> \<and> 0 \<le> \<eta> \<and> (\<forall>x\<ge>0. rnd x \<le> (1 + \<epsilon>) * x + \<eta>)"

text \<open>The refill of a second and what one request can gain by rounding.\<close>

definition refill_bound :: "rat \<Rightarrow> rat \<Rightarrow> limiter \<Rightarrow> rat" where
  "refill_bound \<epsilon> \<eta> rl = (1 + \<epsilon>) ^ 4 * rl_refill_per_sec rl"

definition slack :: "rat \<Rightarrow> rat \<Rightarrow> limiter \<Rightarrow> rat" where
  "slack \<epsilon> \<eta> rl =
     2 * \<epsilon> * rl_capacity rl + (1 + \<epsilon>)\<^sup>2 * (3 + 2 * \<epsilon>) * \<eta> * rl_refill_per_sec rl + (3 + \<epsilon>) * \<eta>"

text \<open>A full burst per idle hour is what eviction can give back.\<close>

definition claim_rate :: "rat \<Rightarrow> rat \<Rightarrow> limiter \<Rightarrow> rat" where
  "claim_rate \<epsilon> \<eta> rl = max (refill_bound \<epsilon> \<eta> rl) (rl_capacity rl / 3600)"

definition elapsed :: "nat \<Rightarrow> nat \<Rightarrow> rat" where
  "elapsed t u = of_nat (u - t) / 1000000000"

text \<open>What a key can still claim at time \<open>t\<close>, when it gains \<open>\<rho>\<close> a second.\<close>

definition claim :: "limiter \<Rightarrow> rat \<Rightarrow> string \<Rightarrow> nat \<Rightarrow> buckets \<Rightarrow> rat" where
  "claim rl \<rho> key t bs =
     (case map_of bs key of
        None \<Rightarrow> rl_capacity rl
      | Some b \<Rightarrow> bk_tokens b + elapsed (bk_last_refill b) t * \<rho>)"

definition table_within :: "limiter \<Rightarrow> nat \<Rightarrow> buckets \<Rightarrow> bool" where
  "table_within rl t bs \<longleftrightarrow> distinct (map fst bs) \<and>
     (\<forall>k b. map_of bs k = Some b \<longrightarrow> 0 \<le> bk_tokens b \<and> bk_tokens b \<le> rl_capacity rl \<and> bk_last_refill b \<le> t)"

lemma withinD: "\<lbrakk>table_within rl t bs; map_of bs k = Some b\<rbrakk> \<Longrightarrow> 0 \<le> bk_tokens b \<and> bk_tokens b \<le> rl_capacity rl \<and> bk_last_refill b \<le> t"
  unfolding table_within_def by blast

lemma elapsed_nonneg [simp]: "0 \<le> elapsed t u"
  by (simp add: elapsed_def)

lemma elapsed_split: "t \<le> t1 \<Longrightarrow> t1 \<le> u \<Longrightarrow> elapsed t u = elapsed t t1 + elapsed t1 u"
  by (simp add: elapsed_def of_nat_diff diff_divide_distrib add_divide_distrib [symmetric])

lemma rounds_upD: "rounds_up_by \<epsilon> \<eta> rnd \<Longrightarrow> 0 \<le> x \<Longrightarrow> x \<le> y \<Longrightarrow> rnd x \<le> (1 + \<epsilon>) * y + \<eta>"
  unfolding rounds_up_by_def by (meson add_right_mono mult_left_mono add_nonneg_nonneg order_trans zero_le_one)

lemma claim_grows:
  assumes "0 \<le> \<rho>" "t \<le> t'" "table_within rl t bs"
  shows "claim rl \<rho> key t bs \<le> claim rl \<rho> key t' bs" "claim rl \<rho> key t' bs \<le> claim rl \<rho> key t bs + elapsed t t' * \<rho>"
proof -
  have "claim rl \<rho> key t bs \<le> claim rl \<rho> key t' bs \<and> claim rl \<rho> key t' bs \<le> claim rl \<rho> key t bs + elapsed t t' * \<rho>"
  proof (cases "map_of bs key")
    case None
    then show ?thesis using assms(1) by (simp add: claim_def)
  next
    case (Some b)
    with withinD [OF assms(3)] have "bk_last_refill b \<le> t" by blast
    from elapsed_split [OF this assms(2)] Some assms(1) show ?thesis by (simp add: claim_def distrib_right)
  qed
  then show "claim rl \<rho> key t bs \<le> claim rl \<rho> key t' bs" "claim rl \<rho> key t' bs \<le> claim rl \<rho> key t bs + elapsed t t' * \<rho>"
    by simp_all
qed

text \<open>An evicted bucket was full or idle for an hour; the full bucket of the next request is no gain over the
  claim.\<close>

lemma evict_claim:
  assumes "table_within rl t0 bs" "0 \<le> rl_capacity rl" "rl_capacity rl / 3600 \<le> \<rho>"
  shows "table_within rl t0 (evict rl t0 bs)" "claim rl \<rho> key t0 (evict rl t0 bs) \<le> claim rl \<rho> key t0 bs"
proof -
  have d: "distinct (map fst bs)" using assms(1) by (simp add: table_within_def)
  show "table_within rl t0 (evict rl t0 bs)"
    using assms(1) by (auto simp: table_within_def evict_lookup [OF d] evict_distinct simp del: map_of_eq_Some_iff split: option.splits if_splits)
  have r: "0 \<le> \<rho>" using assms(2,3) by (simp add: order_trans [of 0 "rl_capacity rl / 3600"])
  show "claim rl \<rho> key t0 (evict rl t0 bs) \<le> claim rl \<rho> key t0 bs"
  proof (cases "map_of bs key")
    case None
    then show ?thesis by (simp add: claim_def evict_lookup [OF d])
  next
    case (Some b)
    have "rl_capacity rl \<le> bk_tokens b + elapsed (bk_last_refill b) t0 * \<rho>" if "\<not> keep_bucket rl t0 b"
    proof (cases "rl_capacity rl \<le> bk_tokens b")
      case True
      then show ?thesis using r by (simp add: add_increasing2)
    next
      case False
      with that have "idle_limit \<le> t0 - bk_last_refill b" by (simp add: keep_bucket_def)
      then have "rat_of_nat idle_limit \<le> of_nat (t0 - bk_last_refill b)" by (rule of_nat_mono)
      then have "3600 \<le> elapsed (bk_last_refill b) t0" by (simp add: elapsed_def idle_limit_def)
      from mult_mono [OF this assms(3)] assms(2) have "rl_capacity rl \<le> elapsed (bk_last_refill b) t0 * \<rho>" by simp
      then show ?thesis using withinD [OF assms(1) Some] by linarith
    qed
    with Some show ?thesis by (simp add: claim_def evict_lookup [OF d])
  qed
qed

lemma secs_up:
  assumes "rounding rl rnd" "rounds_up_by \<epsilon> \<eta> rnd"
  shows "secs_f64 rnd ns \<le> (1 + \<epsilon>)\<^sup>2 * elapsed 0 ns + (3 + 2 * \<epsilon>) * \<eta>"
proof -
  let ?a = "of_nat (ns div 1000000000) :: rat" and ?b = "of_nat (ns mod 1000000000) / 1000000000 :: rat"
  have e: "elapsed 0 ns = ?a + ?b"
    using secs_exact [of ns] by (simp add: secs_f64_def exact_def elapsed_def)
  have "rnd ?a + rnd ?b \<le> (1 + \<epsilon>) * elapsed 0 ns + 2 * \<eta>"
    using rounds_upD [OF assms(2), of ?a ?a] rounds_upD [OF assms(2), of ?b ?b] by (simp add: e distrib_left)
  moreover have "0 \<le> rnd ?a + rnd ?b" using rounding_nonneg [OF assms(1)] by simp
  ultimately have "secs_f64 rnd ns \<le> (1 + \<epsilon>) * ((1 + \<epsilon>) * elapsed 0 ns + 2 * \<eta>) + \<eta>"
    unfolding secs_f64_def by (intro rounds_upD [OF assms(2)])
  then show ?thesis by (simp add: algebra_simps power2_eq_square)
qed

text \<open>A refill gains the claim of the elapsed time and a slack.\<close>

lemma refilled_up:
  assumes "rounding rl rnd" "rounds_up_by \<epsilon> \<eta> rnd" "0 \<le> rl_refill_per_sec rl" "0 \<le> bk_tokens b" "bk_tokens b \<le> rl_capacity rl"
  shows "refilled rnd rl t b \<le> bk_tokens b + elapsed (bk_last_refill b) t * refill_bound \<epsilon> \<eta> rl +
    (slack \<epsilon> \<eta> rl - \<epsilon> * rl_capacity rl - \<eta>)"
proof -
  let ?q = "1 + \<epsilon>" and ?r = "rl_refill_per_sec rl" and ?e = "elapsed (bk_last_refill b) t"
  have eps: "0 \<le> \<epsilon>" "0 \<le> \<eta>" using assms(2) by (simp_all add: rounds_up_by_def)
  have e: "elapsed 0 (t - bk_last_refill b) = ?e" by (simp add: elapsed_def)
  let ?p = "secs_f64 rnd (t - bk_last_refill b) * ?r"
  have p: "0 \<le> ?p" "?p \<le> (?q\<^sup>2 * ?e + (3 + 2 * \<epsilon>) * \<eta>) * ?r"
    using secs_nonneg [OF assms(1)] secs_up [OF assms(1,2), of "t - bk_last_refill b"] assms(3)
    by (simp_all add: e mult_right_mono)
  have y: "0 \<le> rnd ?p" "rnd ?p \<le> ?q * ((?q\<^sup>2 * ?e + (3 + 2 * \<epsilon>) * \<eta>) * ?r) + \<eta>"
    using rounding_nonneg [OF assms(1) p(1)] rounds_upD [OF assms(2) p] by simp_all
  have "refilled rnd rl t b \<le> rnd (bk_tokens b + rnd ?p)" by (simp add: refilled_def)
  also have "\<dots> \<le> ?q * (bk_tokens b + (?q * ((?q\<^sup>2 * ?e + (3 + 2 * \<epsilon>) * \<eta>) * ?r) + \<eta>)) + \<eta>"
    using y assms(4) by (intro rounds_upD [OF assms(2)]) simp_all
  also have "\<dots> = bk_tokens b + \<epsilon> * bk_tokens b + ?e * (?q ^ 4 * ?r) + ?q\<^sup>2 * (3 + 2 * \<epsilon>) * \<eta> * ?r + (2 + \<epsilon>) * \<eta>"
    by (simp add: algebra_simps power2_eq_square power4_eq_xxxx)
  also have "\<dots> \<le> bk_tokens b + \<epsilon> * rl_capacity rl + ?e * (?q ^ 4 * ?r) + ?q\<^sup>2 * (3 + 2 * \<epsilon>) * \<eta> * ?r + (2 + \<epsilon>) * \<eta>"
    using mult_left_mono [OF assms(5) eps(1)] by simp
  also have "\<dots> = bk_tokens b + ?e * refill_bound \<epsilon> \<eta> rl + (slack \<epsilon> \<eta> rl - \<epsilon> * rl_capacity rl - \<eta>)"
    by (simp add: slack_def refill_bound_def algebra_simps)
  finally show ?thesis .
qed

text \<open>One request pays for itself out of the claim, up to the slack.\<close>

lemma take_claim:
  assumes rnd: "rounding rl rnd" "rounds_up_by \<epsilon> \<eta> rnd" and rl: "0 \<le> rl_refill_per_sec rl" "0 \<le> rl_capacity rl"
    and w: "table_within rl t0 bs" and t: "t0 \<le> t1"
  defines "\<rho> \<equiv> claim_rate \<epsilon> \<eta> rl"
  shows "table_within rl t1 (snd (take_token rnd rl t0 t1 k bs))"
    and "(if k = key \<and> fst (fst (take_token rnd rl t0 t1 k bs)) then 1 else 0) + claim rl \<rho> key t1 (snd (take_token rnd rl t0 t1 k bs)) \<le>
      claim rl \<rho> key t0 bs + elapsed t0 t1 * \<rho> + (if k = key then slack \<epsilon> \<eta> rl else 0)"
proof -
  have eps: "0 \<le> \<epsilon>" "0 \<le> \<eta>" using rnd(2) by (simp_all add: rounds_up_by_def)
  have \<rho>: "rl_capacity rl / 3600 \<le> \<rho>" "refill_bound \<epsilon> \<eta> rl \<le> \<rho>" by (simp_all add: \<rho>_def claim_rate_def)
  have \<rho>0: "0 \<le> \<rho>" using \<rho>(1) rl(2) by (simp add: order_trans [of 0 "rl_capacity rl / 3600"])
  let ?bs = "evict rl t0 bs"
  note ev = evict_claim [OF w rl(2) \<rho>(1)]
  have w1: "table_within rl t1 ?bs"
    using ev(1) t unfolding table_within_def by (meson order_trans)
  define b where "b = (case map_of ?bs k of Some b \<Rightarrow> b | None \<Rightarrow> \<lparr>bk_tokens = rl_capacity rl, bk_last_refill = t1\<rparr>)"
  define tk where "tk = refilled rnd rl t1 b"
  have b: "0 \<le> bk_tokens b" "bk_tokens b \<le> rl_capacity rl" "bk_last_refill b \<le> t1"
    using withinD [OF w1] rl(2) by (auto simp: b_def simp del: map_of_eq_Some_iff split: option.splits)
  have tk: "0 \<le> tk" "tk \<le> rl_capacity rl" using refilled_bounds [OF rnd(1) rl b(1)] by (simp_all add: tk_def)
  define y where "y = (if 1 \<le> tk then rnd (tk - 1) else tk)"
  have y: "0 \<le> y" "y \<le> rl_capacity rl"
    using tk rounding_nonneg [OF rnd(1), of "tk - 1"] rnd(1) by (auto simp: y_def rounding_def less_imp_le)
  have out: "take_token rnd rl t0 t1 k bs =
      (if 1 \<le> tk then (True, 0) else (False, retry_after rnd rl tk), AList.update k \<lparr>bk_tokens = y, bk_last_refill = t1\<rparr> ?bs)"
    by (simp add: take_token_def Let_def b_def [symmetric] tk_def [symmetric] y_def)
  show "table_within rl t1 (snd (take_token rnd rl t0 t1 k bs))"
    using w1 y by (auto simp: out table_within_def distinct_update simp del: map_of_eq_Some_iff)
  have new: "claim rl \<rho> key t1 (snd (take_token rnd rl t0 t1 k bs)) = (if k = key then y else claim rl \<rho> key t1 ?bs)"
    by (simp add: out claim_def elapsed_def)
  have grown: "claim rl \<rho> key t1 ?bs \<le> claim rl \<rho> key t0 bs + elapsed t0 t1 * \<rho>"
    using claim_grows(2) [OF \<rho>0 t ev(1), of key] ev(2) [of key] by linarith
  show "(if k = key \<and> fst (fst (take_token rnd rl t0 t1 k bs)) then 1 else 0) + claim rl \<rho> key t1 (snd (take_token rnd rl t0 t1 k bs)) \<le>
      claim rl \<rho> key t0 bs + elapsed t0 t1 * \<rho> + (if k = key then slack \<epsilon> \<eta> rl else 0)"
  proof (cases "k = key")
    case True
    have "claim rl \<rho> k t1 ?bs = bk_tokens b + elapsed (bk_last_refill b) t1 * \<rho>"
      by (simp add: claim_def b_def elapsed_def split: option.split)
    moreover have "tk \<le> bk_tokens b + elapsed (bk_last_refill b) t1 * refill_bound \<epsilon> \<eta> rl + (slack \<epsilon> \<eta> rl - \<epsilon> * rl_capacity rl - \<eta>)"
      unfolding tk_def by (rule refilled_up [OF rnd rl(1) b(1,2)])
    moreover have "elapsed (bk_last_refill b) t1 * refill_bound \<epsilon> \<eta> rl \<le> elapsed (bk_last_refill b) t1 * \<rho>"
      by (rule mult_left_mono [OF \<rho>(2)]) simp
    moreover have "(if 1 \<le> tk then 1 else 0) + y \<le> tk + \<epsilon> * rl_capacity rl + \<eta>"
    proof (cases "1 \<le> tk")
      case one: True
      have "rnd (tk - 1) \<le> (1 + \<epsilon>) * (tk - 1) + \<eta>" using one by (intro rounds_upD [OF rnd(2)]) simp_all
      also have "\<dots> \<le> tk - 1 + \<epsilon> * rl_capacity rl + \<eta>"
        using mult_left_mono [of "tk - 1" "rl_capacity rl" \<epsilon>] tk(2) eps(1) by (simp add: algebra_simps)
      finally show ?thesis using one by (simp add: y_def)
    next
      case False
      then show ?thesis using eps rl(2) by (simp add: y_def)
    qed
    moreover have "fst (fst (take_token rnd rl t0 t1 k bs)) \<longleftrightarrow> 1 \<le> tk" by (simp add: out)
    ultimately show ?thesis using True new grown by (cases "1 \<le> tk") simp_all
  next
    case False
    then show ?thesis using new grown by simp
  qed
qed

text \<open>The readings of the clock, under the lock of the table: none runs back.\<close>

definition readings :: "(nat \<times> nat \<times> string) list \<Rightarrow> nat list" where
  "readings rs = concat (map (\<lambda>(t0, t1, k). [t0, t1]) rs)"

definition requests_of :: "string \<Rightarrow> (nat \<times> nat \<times> string) list \<Rightarrow> nat" where
  "requests_of key rs = length (filter (\<lambda>(t0, t1, k). k = key) rs)"

lemma admitted_claim:
  assumes rnd: "rounding rl rnd" "rounds_up_by \<epsilon> \<eta> rnd" and rl: "0 \<le> rl_refill_per_sec rl" "0 \<le> rl_capacity rl"
    and "table_within rl t bs" "sorted (t # readings rs @ [u])"
  shows "rat_of_nat (admitted rnd rl key rs bs) \<le>
    claim rl (claim_rate \<epsilon> \<eta> rl) key t bs + elapsed t u * claim_rate \<epsilon> \<eta> rl + of_nat (requests_of key rs) * slack \<epsilon> \<eta> rl"
  using assms(5-)
proof (induction rs arbitrary: bs t)
  case Nil
  let ?\<rho> = "claim_rate \<epsilon> \<eta> rl"
  have "0 \<le> ?\<rho>" using rl(2) by (simp add: claim_rate_def le_max_iff_disj)
  moreover have "0 \<le> claim rl ?\<rho> key t bs"
    using withinD [OF Nil.prems(1)] rl(2) calculation
    by (auto simp: claim_def simp del: map_of_eq_Some_iff split: option.split)
  ultimately show ?case by (simp add: requests_of_def)
next
  case (Cons r rs)
  let ?\<rho> = "claim_rate \<epsilon> \<eta> rl"
  obtain t0 t1 k where r: "r = (t0, t1, k)" by (cases r)
  have tt: "t \<le> t0" "t0 \<le> t1" "t1 \<le> u" "sorted (t1 # readings rs @ [u])"
    using Cons.prems(2) by (auto simp: r readings_def)
  have \<rho>: "0 \<le> ?\<rho>" using rl(2) by (simp add: claim_rate_def le_max_iff_disj)
  have w: "table_within rl t0 bs" using Cons.prems(1) tt(1) unfolding table_within_def by (meson order_trans)
  define bs' where "bs' = snd (take_token rnd rl t0 t1 k bs)"
  define a where "a = (if k = key \<and> fst (fst (take_token rnd rl t0 t1 k bs)) then 1 else 0 :: nat)"
  note tc = take_claim(1) [OF rnd rl w tt(2), of k] take_claim(2) [OF rnd rl w tt(2), of k key]
  from Cons.IH [OF tc(1) tt(4)] have "rat_of_nat (admitted rnd rl key rs bs') \<le>
      claim rl ?\<rho> key t1 bs' + elapsed t1 u * ?\<rho> + of_nat (requests_of key rs) * slack \<epsilon> \<eta> rl"
    by (simp add: bs'_def)
  moreover have "rat_of_nat a + claim rl ?\<rho> key t1 bs' \<le> claim rl ?\<rho> key t0 bs + elapsed t0 t1 * ?\<rho> + (if k = key then slack \<epsilon> \<eta> rl else 0)"
    using tc(2) by (simp add: a_def bs'_def split: if_splits)
  moreover have "claim rl ?\<rho> key t0 bs \<le> claim rl ?\<rho> key t bs + elapsed t t0 * ?\<rho>"
    by (rule claim_grows(2) [OF \<rho> tt(1) Cons.prems(1)])
  moreover have "elapsed t u * ?\<rho> = elapsed t t0 * ?\<rho> + elapsed t0 t1 * ?\<rho> + elapsed t1 u * ?\<rho>"
    using elapsed_split [of t t0 u] elapsed_split [of t0 t1 u] tt(1-3) by (simp add: distrib_right)
  moreover have "rat_of_nat (admitted rnd rl key (r # rs) bs) = rat_of_nat a + rat_of_nat (admitted rnd rl key rs bs')"
    by (simp add: r a_def bs'_def split: prod.split)
  moreover have "rat_of_nat (requests_of key (r # rs)) * slack \<epsilon> \<eta> rl =
      (if k = key then slack \<epsilon> \<eta> rl else 0) + of_nat (requests_of key rs) * slack \<epsilon> \<eta> rl"
    by (simp add: requests_of_def r distrib_right)
  ultimately show ?case by linarith
qed

text \<open>C23: The limiter admits no more than burst and refill. From the empty table of a new process, for any
  sequence of requests of any keys, evictions included, whose clock does not run backwards, it admits
  of one key at most \<open>burst\<close> plus, for each second, the greater of its refill rate and \<open>burst / 3600\<close>
  (eviction gives an hour's idle key its burst back), up to the rounding of its \<open>f64\<close>: the rate is too
  large by four roundings, and each request of the key gains at most \<open>slack\<close>. Without rounding errors
  (\<open>\<epsilon> = \<eta> = 0\<close>) the slack is zero and the rate \<open>per_minute / 60\<close>.\<close>

theorem admitted_bounded:
  fixes rnd :: "rat \<Rightarrow> rat" and burst per_minute :: nat
  defines "rl \<equiv> per_minute_rate rnd burst per_minute"
  assumes "rounding rl rnd" "rounds_up_by \<epsilon> \<eta> rnd" "sorted (t # readings rs @ [u])"
  shows "rat_of_nat (admitted rnd rl key rs []) \<le>
    of_nat burst + elapsed t u * max ((1 + \<epsilon>) ^ 4 * rnd (of_nat per_minute / 60)) (of_nat burst / 3600) +
    of_nat (requests_of key rs) * slack \<epsilon> \<eta> rl"
  using admitted_claim [of rl rnd \<epsilon> \<eta> t "[]" rs u key] assms rounding_nonneg [of rl rnd "of_nat per_minute / 60"]
  by (simp add: rl_def per_minute_rate_def claim_def claim_rate_def refill_bound_def table_within_def)

text \<open>A rounding down to multiples of 1/1024.\<close>

definition to_1024ths :: "rat \<Rightarrow> rat" where
  "to_1024ths x = of_int \<lfloor>x * 1024\<rfloor> / 1024"

theorem admitted_bounded_witness:
  "rat_of_nat (admitted to_1024ths (per_minute_rate to_1024ths 1 60) ''a'' [(0, 0, ''a''), (1, 2, ''a''), (3, 1500000000, ''a'')] []) \<le> 5 / 2"
proof -
  have down: "to_1024ths x \<le> x" for x by (simp add: to_1024ths_def divide_le_eq)
  have "mono to_1024ths" by (intro monoI) (simp add: to_1024ths_def divide_right_mono floor_mono)
  moreover have "to_1024ths (x - 1) < 1" if "x \<le> 1" for x using down [of "x - 1"] that by linarith
  ultimately have r: "rounding (per_minute_rate to_1024ths 1 60) to_1024ths"
    by (simp add: rounding_def per_minute_rate_def to_1024ths_def)
  have "rounds_up_by 0 0 to_1024ths" using down by (simp add: rounds_up_by_def)
  from admitted_bounded [OF r this, of 0 "[(0, 0, ''a''), (1, 2, ''a''), (3, 1500000000, ''a'')]" 1500000000 "''a''"]
  show ?thesis by (simp add: readings_def elapsed_def slack_def requests_of_def to_1024ths_def)
qed

section \<open>One-shot quotas\<close>

text \<open>A quota that is never refilled is final only until the table is full. With \<open>per_minute = 0\<close> and
  an exhausted bucket, a request is admitted exactly when the table holds 65536 buckets and this one
  has been idle for an hour: the eviction forgets that the quota was spent, and the next request
  starts with a full bucket.\<close>

theorem exhausted_quota_admits_iff:
  assumes "rl_refill_per_sec rl = 0" "distinct (map fst bs)" "map_of bs key = Some b" "bk_tokens b < 1"
  shows "fst (fst (take_token exact rl t0 t1 key bs)) \<longleftrightarrow>
    1 \<le> rl_capacity rl \<and> max_keys \<le> length bs \<and> idle_limit \<le> t0 - bk_last_refill b"
proof (cases "map_of (evict rl t0 bs) key")
  case None
  then have "max_keys \<le> length bs" "\<not> keep_bucket rl t0 b"
    using assms(2,3) by (auto simp: evict_lookup split: if_splits)
  then show ?thesis
    using None assms(1,4) by (auto simp: take_token_def Let_def refilled_exact keep_bucket_def)
next
  case (Some b')
  then have b: "b' = b" and "length bs < max_keys \<or> keep_bucket rl t0 b"
    using assms(2,3) by (auto simp: evict_lookup split: if_splits)
  then have "\<not> (max_keys \<le> length bs \<and> idle_limit \<le> t0 - bk_last_refill b)" by (auto simp: keep_bucket_def)
  then show ?thesis
    using Some assms(1,4) b by (auto simp: take_token_def Let_def refilled_exact)
qed

definition spent_bucket :: bucket where "spent_bucket = \<lparr>bk_tokens = 0, bk_last_refill = 0\<rparr>"

definition full_table :: buckets where
  "full_table = map (\<lambda>n. (show_nat n, spent_bucket)) [0..<65536]"

lemma show_nat_inj: "show_nat m = show_nat n \<Longrightarrow> m = n"
  by (metis option.inject read_nat_show)

theorem exhausted_quota_admits_iff_witness:
  "fst (fst (take_token exact (per_minute_rate exact 1 0) 3600000000000 3600000000000 (show_nat 7) full_table))"
proof -
  have d: "distinct (map fst full_table)"
    by (auto simp: full_table_def distinct_map comp_def inj_on_def dest: show_nat_inj)
  have "(show_nat 7, spent_bucket) \<in> set full_table" by (auto simp: full_table_def)
  with d have m: "map_of full_table (show_nat 7) = Some spent_bucket" by simp
  have "1 \<le> rl_capacity (per_minute_rate exact 1 0) \<and> max_keys \<le> length full_table \<and>
      idle_limit \<le> 3600000000000 - bk_last_refill spent_bucket"
    by (simp add: per_minute_rate_def max_keys_def full_table_def idle_limit_def spent_bucket_def)
  then show ?thesis
    using exhausted_quota_admits_iff [OF _ d m, of "per_minute_rate exact 1 0" 3600000000000 3600000000000]
    by (simp add: spent_bucket_def per_minute_rate_def exact_def)
qed

end
