(* ===== verification/Ai_Speech.thy ===== *)
theory Ai_Speech
  imports Common_Text
begin

text \<open>
  Streaming speech recognition of fusion-ai: the provider-independent types of
  \<open>speech_to_text/mod.rs\<close> and the DashScope regions of \<open>providers/dashscope/mod.rs\<close>. Audio bytes are a
  list of numbers, a confidence (a 32-bit float) stays the JSON number it was read from.
\<close>

datatype audio_encoding =
    PcmS16Le | PcmF32Le | G711Ulaw | G711Alaw | Opus | WebmOpus | Wav | Mp3 | Aac | Amr

record audio_config =
  au_encoding :: audio_encoding
  au_sample_rate :: nat
  au_channels :: nat
  au_frame_duration_ms :: nat
  au_language_hints :: "string list"
  au_vocabulary_ids :: "string list"
  au_context_items :: "string list"
  au_domain_hint :: "string option"
  au_provider_options :: json

definition pcm_s16le_16k_mono_40ms :: audio_config where
  "pcm_s16le_16k_mono_40ms =
     \<lparr>au_encoding = PcmS16Le, au_sample_rate = 16000, au_channels = 1, au_frame_duration_ms = 40,
      au_language_hints = [''zh'', ''en''], au_vocabulary_ids = [], au_context_items = [], au_domain_hint = None,
      au_provider_options = JNull\<rparr>"

record transcript_word =
  tw_text :: string
  tw_begin_ms :: "int option"
  tw_end_ms :: "int option"
  tw_punctuation :: "string option"

record segment =
  sg_text :: string
  sg_begin_ms :: "int option"
  sg_end_ms :: "int option"
  sg_confidence :: "json option"
  sg_words :: "transcript_word list"
  sg_is_final :: bool

record transcription =
  tr_text :: string
  tr_language :: "string option"
  tr_confidence :: "json option"
  tr_segments :: "segment list"
  tr_provider :: string
  tr_model :: string
  tr_session_id :: "string option"
  tr_audio_duration_ms :: "int option"

datatype stt_event =
    SttStarted "string option"
  | SttPartial segment
  | SttSegmentFinal segment
  | SttTaskFinished transcription

datatype stt_error =
    SttConfigInvalid string
  | SttUnsupported string string
  | SttAuth string
  | SttNetwork string
  | SttProtocol string
  | SttProvider string string string bool
  | SttTimeout string
  | SttOther string

fun show_stt_error :: "stt_error \<Rightarrow> string" where
  "show_stt_error (SttConfigInvalid m) = ''invalid config: '' @ m"
| "show_stt_error (SttUnsupported p c) = ''provider '' @ p @ '' does not support '' @ c"
| "show_stt_error (SttAuth m) = ''auth failed: '' @ m"
| "show_stt_error (SttNetwork m) = ''network: '' @ m"
| "show_stt_error (SttProtocol m) = ''protocol: '' @ m"
| "show_stt_error (SttProvider p c m _) = ''provider '' @ p @ '' returned '' @ c @ '': '' @ m"
| "show_stt_error (SttTimeout m) = ''timeout: '' @ m"
| "show_stt_error (SttOther m) = m"

fun stt_is_retryable :: "stt_error \<Rightarrow> bool" where
  "stt_is_retryable (SttNetwork _) = True"
| "stt_is_retryable (SttTimeout _) = True"
| "stt_is_retryable (SttProvider _ _ _ retryable) = retryable"
| "stt_is_retryable _ = False"

fun is_caller_fault :: "stt_error \<Rightarrow> bool" where
  "is_caller_fault (SttConfigInvalid _) = True"
| "is_caller_fault (SttUnsupported _ _) = True"
| "is_caller_fault (SttAuth _) = True"
| "is_caller_fault (SttProvider _ _ _ retryable) = (\<not> retryable)"
| "is_caller_fault _ = False"

text \<open>No failure is both the caller's fault and worth a replay.\<close>

lemma retryable_not_caller_fault: "stt_is_retryable e \<Longrightarrow> \<not> is_caller_fault e"
  by (cases e) auto

datatype uplink = UpAudio "nat list" | UpContext "string list"

definition uplink_from_audio :: "nat list list \<Rightarrow> uplink list" where
  "uplink_from_audio frames = map UpAudio frames"

text \<open>\<open>merge\<close>: whichever side is ready; a merge is a choice of sides.\<close>

fun uplink_merge :: "bool list \<Rightarrow> nat list list \<Rightarrow> string list list \<Rightarrow> uplink list" where
  "uplink_merge _ [] cs = map UpContext cs"
| "uplink_merge _ as [] = map UpAudio as"
| "uplink_merge (True # bs) (a # as) cs = UpAudio a # uplink_merge bs as cs"
| "uplink_merge (False # bs) as (c # cs) = UpContext c # uplink_merge bs as cs"
| "uplink_merge [] (a # as) cs = UpAudio a # uplink_merge [] as cs"

definition transcribe_batch_default :: "string \<Rightarrow> stt_error + transcription" where
  "transcribe_batch_default provider = Inl (SttUnsupported provider ''batch transcription'')"

text \<open>Merging loses nothing and keeps the order of either side.\<close>

lemma merge_keeps_audio: "List.map_filter (\<lambda>u. case u of UpAudio a \<Rightarrow> Some a | _ \<Rightarrow> None) (uplink_merge bs as cs) = as"
proof -
  have "List.map_filter (\<lambda>u. case u of UpAudio a \<Rightarrow> Some a | _ \<Rightarrow> None) (map UpContext xs) = []" for xs
    by (induction xs) (auto simp: map_filter_simps)
  moreover have "List.map_filter (\<lambda>u. case u of UpAudio a \<Rightarrow> Some a | _ \<Rightarrow> None) (map UpAudio xs) = xs" for xs
    by (induction xs) (auto simp: map_filter_simps)
  ultimately show ?thesis
    by (induction bs as cs rule: uplink_merge.induct) (simp_all add: map_filter_simps del: list.map)
qed

section \<open>DashScope\<close>

datatype region = Beijing | Singapore

fun websocket_endpoint :: "region \<Rightarrow> string" where
  "websocket_endpoint Beijing = ''wss://dashscope.aliyuncs.com/api-ws/v1/inference''"
| "websocket_endpoint Singapore = ''wss://dashscope-intl.aliyuncs.com/api-ws/v1/inference''"

fun multimodal_endpoint :: "region \<Rightarrow> string" where
  "multimodal_endpoint Beijing =
     ''https://dashscope.aliyuncs.com/api/v1/services/aigc/multimodal-generation/generation''"
| "multimodal_endpoint Singapore =
     ''https://dashscope-intl.aliyuncs.com/api/v1/services/aigc/multimodal-generation/generation''"

definition parse_dashscope_region :: "string option \<Rightarrow> region" where
  "parse_dashscope_region r =
     (if map_option to_ascii_lowercase r \<in> {Some ''singapore'', Some ''intl''} then Singapore else Beijing)"

record credentials =
  cr_api_key :: string
  cr_workspace_id :: "string option"

text \<open>
  The real-time Fun-ASR client of fusion-ai (\<open>providers/dashscope/fun_asr.rs\<close>): the checks before the
  connection, the messages of the protocol, the frames of the server, the session from the handshake
  to the final transcript, and the uplink pump that runs beside it.

  A session reads one item after another: a frame, the end or an error of the socket, or the timeout
  of that read; a list of items is a run, and a run that stops early is a session that still waits
  (\<open>Waiting\<close>). Connecting, sending and rendering headers are arguments with their failures. A JSON
  parser is the argument \<open>from_str\<close>, with the place of a failure; an object decodes from a JSON object
  only. Floating-point seconds are converted by the argument \<open>float_ms\<close>.
\<close>

section \<open>Limits and configuration\<close>

definition provider_name :: string where "provider_name = ''fun_asr_realtime''"
definition default_realtime_asr_model :: string where "default_realtime_asr_model = ''fun-asr-realtime''"
definition fun_asr_model_prefix :: string where "fun_asr_model_prefix = ''fun-asr''"
definition max_context_item_chars :: nat where "max_context_item_chars = 400"
definition max_context_items :: nat where "max_context_items = 5"

record fun_asr =
  fa_credentials :: credentials
  fa_region :: region
  fa_model :: string
  fa_start_timeout :: nat
  fa_idle_timeout :: nat

definition fun_asr_new :: "credentials \<Rightarrow> region \<Rightarrow> fun_asr" where
  "fun_asr_new c r =
     \<lparr>fa_credentials = c, fa_region = r, fa_model = default_realtime_asr_model, fa_start_timeout = 10,
      fa_idle_timeout = 30\<rparr>"

definition fun_asr_with_model :: "string \<Rightarrow> fun_asr \<Rightarrow> fun_asr" where
  "fun_asr_with_model m a = a\<lparr>fa_model := m\<rparr>"

definition fun_asr_from_parts ::
  "string \<Rightarrow> string option \<Rightarrow> region \<Rightarrow> string option \<Rightarrow> stt_error + fun_asr" where
  "fun_asr_from_parts key workspace r model =
     (if trim_is_empty key then Inl (SttConfigInvalid ''api_key required'')
      else Inr (fun_asr_with_model (unwrap_or default_realtime_asr_model model)
                  (fun_asr_new \<lparr>cr_api_key = key, cr_workspace_id = workspace\<rparr> r)))"

definition validate_model_for_region :: "string \<Rightarrow> region \<Rightarrow> stt_error + unit" where
  "validate_model_for_region model r =
     (if r = Singapore \<and> \<not> has_prefix model fun_asr_model_prefix
      then Inl (SttConfigInvalid (''region=singapore only serves the '' @ fun_asr_model_prefix @
                 ''* model family, got '' @ debug_str model))
      else okR)"

fun first_position :: "('a \<Rightarrow> bool) \<Rightarrow> 'a list \<Rightarrow> nat option" where
  "first_position P [] = None"
| "first_position P (x # xs) = (if P x then Some 0 else map_option Suc (first_position P xs))"

definition too_long :: "string \<Rightarrow> bool" where
  "too_long s \<longleftrightarrow> max_context_item_chars < length (trim_str s)"

definition validate_context_items :: "string list \<Rightarrow> stt_error + unit" where
  "validate_context_items items =
     (let meaningful = length (filter (\<lambda>s. \<not> trim_is_empty s) items) in
      if max_context_items < meaningful
      then Inl (SttConfigInvalid (''fun-asr-realtime accepts at most '' @ show_nat max_context_items @
                 '' context items, got '' @ show_nat meaningful))
      else (case first_position too_long items of
              Some pos \<Rightarrow> Inl (SttConfigInvalid (''fun-asr-realtime context item #'' @ show_nat pos @ '' exceeds '' @
                           show_nat max_context_item_chars @ '' chars''))
            | None \<Rightarrow> okR))"

definition bool_override_keys :: "string list" where
  "bool_override_keys =
     [''disfluency_removal_enabled'', ''punctuation_prediction_enabled'', ''inverse_text_normalization_enabled'']"

definition reserved_option_keys :: "string list" where
  "reserved_option_keys =
     [''format'', ''sample_rate'', ''vocabulary_id'', ''language_hints'', ''disfluency_removal_enabled'',
      ''punctuation_prediction_enabled'', ''inverse_text_normalization_enabled'', ''domain_hint'']"

fun json_type_name :: "json \<Rightarrow> string" where
  "json_type_name JNull = ''null''"
| "json_type_name (JBool _) = ''boolean''"
| "json_type_name (JInt _) = ''number''"
| "json_type_name (JFloat _) = ''number''"
| "json_type_name (JStr _) = ''string''"
| "json_type_name (JArr _) = ''array''"
| "json_type_name (JObj _) = ''object''"

fun is_boolean :: "json \<Rightarrow> bool" where
  "is_boolean (JBool _) = True"
| "is_boolean _ = False"

definition check_override :: "json_map \<Rightarrow> string \<Rightarrow> stt_error + unit" where
  "check_override m key =
     (case map_of m key of
        Some v \<Rightarrow>
          ensureR (is_boolean v)
            (SttConfigInvalid (''provider_options.'' @ key @ '' must be a boolean, got '' @ json_type_name v))
      | None \<Rightarrow> okR)"

fun validate_provider_options :: "json \<Rightarrow> stt_error + unit" where
  "validate_provider_options (JObj m) =
     (let offending = filter (\<lambda>k. k \<notin> set bool_override_keys \<and> map_of m k \<noteq> None) reserved_option_keys in
      if offending \<noteq> []
      then Inl (SttConfigInvalid (''provider_options may not override the named parameter(s) '' @
                 debug_strs offending @ ''; set them on AudioStreamConfig instead''))
      else check_all (check_override m) bool_override_keys)"
| "validate_provider_options JNull = okR"
| "validate_provider_options other =
     Inl (SttConfigInvalid (''provider_options must be a JSON object, got '' @ json_type_name other))"

fun push_new :: "string list \<Rightarrow> string list \<Rightarrow> string list" where
  "push_new out [] = out"
| "push_new out (x # xs) = push_new (if x \<noteq> [] \<and> x \<notin> set out then out @ [x] else out) xs"

definition primary_subtag :: "string \<Rightarrow> string" where
  "primary_subtag hint =
     to_ascii_lowercase (trim_str (takeWhile (\<lambda>c. c \<noteq> CHR ''-'' \<and> c \<noteq> CHR ''_'') hint))"

definition primary_language_subtags :: "string list \<Rightarrow> string list" where
  "primary_language_subtags hints = push_new [] (map primary_subtag hints)"

text \<open>The most recent items, each cut at the limit.\<close>

definition clamp_context :: "string list \<Rightarrow> string list" where
  "clamp_context items =
     (let kept = filter non_empty (map trim_str items) in
      map (take max_context_item_chars) (drop (length kept - max_context_items) kept))"

fun provider_audio_format :: "audio_encoding \<Rightarrow> stt_error + string" where
  "provider_audio_format PcmS16Le = Inr ''pcm''"
| "provider_audio_format Wav = Inr ''wav''"
| "provider_audio_format Mp3 = Inr ''mp3''"
| "provider_audio_format Aac = Inr ''aac''"
| "provider_audio_format Amr = Inr ''amr''"
| "provider_audio_format Opus = Inr ''opus''"
| "provider_audio_format PcmF32Le =
     Inl (SttConfigInvalid ''fun-asr-realtime pcm means 16-bit signed LE; convert PcmF32Le before sending'')"
| "provider_audio_format WebmOpus =
     Inl (SttConfigInvalid ''fun-asr-realtime opus means raw Opus packets, not a WebM container; demux before sending'')"
| "provider_audio_format G711Ulaw = Inl (SttConfigInvalid ''fun-asr-realtime does not accept g711 audio'')"
| "provider_audio_format G711Alaw = Inl (SttConfigInvalid ''fun-asr-realtime does not accept g711 audio'')"

section \<open>Messages to the server\<close>

text \<open>An object is the list of its members in the order they are written: what goes over the wire.\<close>

definition client_message :: "string \<Rightarrow> string \<Rightarrow> json \<Rightarrow> json" where
  "client_message action task_id payload =
     JObj [(''header'', JObj [(''action'', JStr action), (''task_id'', JStr task_id), (''streaming'', JStr ''duplex'')]),
           (''payload'', payload)]"

text \<open>An empty list is skipped.\<close>

definition list_member :: "string \<Rightarrow> json list \<Rightarrow> (string \<times> json) list" where
  "list_member k vs = (if vs = [] then [] else [(k, JArr vs)])"

definition task_input :: "string list \<Rightarrow> json" where
  "task_input context = JObj (list_member ''context'' (map (\<lambda>t. JObj [(''text'', JStr t)]) context))"

definition read_bool :: "json \<Rightarrow> string \<Rightarrow> bool \<Rightarrow> bool" where
  "read_bool options key dflt =
     (case json_get key options of Some (JBool b) \<Rightarrow> b | _ \<Rightarrow> dflt)"

definition extra_params :: "audio_config \<Rightarrow> json_map" where
  "extra_params cfg =
     (let kept = (case au_provider_options cfg of
                    JObj m \<Rightarrow> filter (\<lambda>(k, v). k \<notin> set reserved_option_keys) m
                  | _ \<Rightarrow> []);
          base = fold (\<lambda>(k, v). map_insert k v) kept []
      in (case au_domain_hint cfg of
            Some d \<Rightarrow> map_insert ''domain_hint'' (JStr d) base
          | None \<Rightarrow> base))"

definition named_parameters :: "audio_config \<Rightarrow> string \<Rightarrow> (string \<times> json) list" where
  "named_parameters cfg format =
     [(''format'', JStr format), (''sample_rate'', JInt (int (au_sample_rate cfg)))] @
     list_member ''vocabulary_id'' (map JStr (au_vocabulary_ids cfg)) @
     list_member ''language_hints'' (map JStr (primary_language_subtags (au_language_hints cfg))) @
     [(''disfluency_removal_enabled'', JBool (read_bool (au_provider_options cfg) ''disfluency_removal_enabled'' False)),
      (''punctuation_prediction_enabled'', JBool (read_bool (au_provider_options cfg) ''punctuation_prediction_enabled'' True)),
      (''inverse_text_normalization_enabled'',
         JBool (read_bool (au_provider_options cfg) ''inverse_text_normalization_enabled'' True))]"

text \<open>The named fields, then the flattened map.\<close>

definition run_task_parameters :: "audio_config \<Rightarrow> string \<Rightarrow> (string \<times> json) list" where
  "run_task_parameters cfg format = named_parameters cfg format @ extra_params cfg"

definition build_run_task :: "string \<Rightarrow> string \<Rightarrow> audio_config \<Rightarrow> string \<Rightarrow> json" where
  "build_run_task task_id model cfg format =
     client_message ''run-task'' task_id
       (JObj [(''task_group'', JStr ''audio''), (''task'', JStr ''asr''), (''function'', JStr ''recognition''),
              (''model'', JStr model), (''parameters'', JObj (run_task_parameters cfg format)),
              (''input'', task_input (clamp_context (au_context_items cfg)))])"

section \<open>Frames of the server\<close>

datatype frame =
    FrText string
  | FrBinary "nat list"
  | FrPing "nat list"
  | FrPong "nat list"
  | FrRaw
  | FrClose "(string \<times> string) option"

datatype json_category = CatIo | CatSyntax | CatData | CatEof

record json_failure =
  jf_category :: json_category
  jf_line :: nat
  jf_column :: nat

text \<open>The category and the place of a failure, never a value.\<close>

definition redacted_json_error :: "json_failure \<Rightarrow> string" where
  "redacted_json_error e =
     (case jf_category e of CatIo \<Rightarrow> ''io error'' | CatSyntax \<Rightarrow> ''malformed json'' | CatData \<Rightarrow> ''unexpected shape''
        | CatEof \<Rightarrow> ''truncated json'') @
     '' at line '' @ show_nat (jf_line e) @ '' column '' @ show_nat (jf_column e)"

text \<open>A value that does not have the shape: \<open>from_value\<close> knows no place.\<close>

definition shape_error :: json_failure where
  "shape_error = \<lparr>jf_category = CatData, jf_line = 0, jf_column = 0\<rparr>"

record server_header =
  sh_event :: string
  sh_error_code :: "string option"
  sh_error_message :: "string option"

definition decode_header :: "json_map \<Rightarrow> server_header option" where
  "decode_header m =
     (case (opt_field as_str m ''task_id'', string_field m ''event'', opt_field as_str m ''error_code'',
            opt_field as_str m ''error_message'') of
        (Some _, Some ev, Some code, Some msg) \<Rightarrow>
          Some \<lparr>sh_event = ev, sh_error_code = code, sh_error_message = msg\<rparr>
      | _ \<Rightarrow> None)"

definition decode_message :: "json \<Rightarrow> (server_header \<times> json) option" where
  "decode_message j =
     (case j of
        JObj m \<Rightarrow>
          (case map_of m ''header'' of
             Some (JObj h) \<Rightarrow> map_option (\<lambda>sh. (sh, unwrap_or JNull (map_of m ''payload''))) (decode_header h)
           | _ \<Rightarrow> None)
      | _ \<Rightarrow> None)"

definition decode_word :: "json \<Rightarrow> transcript_word option" where
  "decode_word j =
     (case j of
        JObj m \<Rightarrow>
          (case (opt_field as_u64 m ''begin_time'', opt_field as_u64 m ''end_time'', string_field m ''text'',
                 opt_field as_str m ''punctuation'') of
             (Some b, Some e, Some t, Some p) \<Rightarrow>
               Some \<lparr>tw_text = t, tw_begin_ms = b, tw_end_ms = e, tw_punctuation = p\<rparr>
           | _ \<Rightarrow> None)
      | _ \<Rightarrow> None)"

definition decode_words :: "json_map \<Rightarrow> transcript_word list option" where
  "decode_words m =
     (case map_of m ''words'' of
        None \<Rightarrow> Some []
      | Some (JArr xs) \<Rightarrow> all_some (map decode_word xs)
      | Some _ \<Rightarrow> None)"

definition decode_final :: "json_map \<Rightarrow> bool option" where
  "decode_final m =
     (case map_of m ''sentence_end'' of None \<Rightarrow> Some False | Some (JBool b) \<Rightarrow> Some b | Some _ \<Rightarrow> None)"

definition decode_sentence :: "json \<Rightarrow> segment option" where
  "decode_sentence j =
     (case j of
        JObj m \<Rightarrow>
          (case (opt_field as_u64 m ''begin_time'', opt_field as_u64 m ''end_time'', string_field m ''text'',
                 decode_final m, opt_field as_number m ''confidence'', decode_words m) of
             (Some b, Some e, Some t, Some f, Some c, Some w) \<Rightarrow>
               Some \<lparr>sg_text = t, sg_begin_ms = b, sg_end_ms = e, sg_confidence = c, sg_words = w, sg_is_final = f\<rparr>
           | _ \<Rightarrow> None)
      | _ \<Rightarrow> None)"

definition decode_result :: "json \<Rightarrow> (segment \<times> json) option" where
  "decode_result j =
     (case Option.bind (json_get ''output'' j) (json_get ''sentence'') of
        Some s \<Rightarrow> map_option (\<lambda>sg. (sg, unwrap_or JNull (json_get ''usage'' j))) (decode_sentence s)
      | None \<Rightarrow> None)"

text \<open>Seconds to milliseconds: \<open>float_ms\<close> is the arithmetic on \<open>f64\<close> (none for a negative or non-finite
  number, else the rounded product); a usage of another shape counts as none.\<close>

definition usage_duration_ms :: "(json \<Rightarrow> int option) \<Rightarrow> json \<Rightarrow> int option" where
  "usage_duration_ms float_ms usage =
     Option.bind (Option.bind (json_get ''duration'' usage) as_number) float_ms"

datatype parsed_event =
    PeStarted
  | PeResult segment "int option"
  | PeFinished "int option"
  | PeFailed string string

fun kind_name :: "parsed_event \<Rightarrow> string" where
  "kind_name PeStarted = ''task-started''"
| "kind_name (PeResult _ _) = ''result-generated''"
| "kind_name (PeFinished _) = ''task-finished''"
| "kind_name (PeFailed _ _) = ''task-failed''"

definition server_event ::
  "(json \<Rightarrow> int option) \<Rightarrow> server_header \<Rightarrow> json \<Rightarrow> stt_error + parsed_event option" where
  "server_event float_ms h payload =
     (if sh_event h = ''task-started'' then Inr (Some PeStarted)
      else if sh_event h = ''result-generated'' then
        (case decode_result payload of
           None \<Rightarrow> Inl (SttProtocol (''parse result-generated payload: '' @ redacted_json_error shape_error))
         | Some (sg, usage) \<Rightarrow> Inr (Some (PeResult sg (usage_duration_ms float_ms usage))))
      else if sh_event h = ''task-finished'' then
        Inr (Some (PeFinished (Option.bind (json_get ''usage'' payload) (usage_duration_ms float_ms))))
      else if sh_event h = ''task-failed'' then
        Inr (Some (PeFailed (unwrap_or ''UNKNOWN'' (sh_error_code h)) (unwrap_or [] (sh_error_message h))))
      else Inr None)"

definition parse_server_event ::
  "(string \<Rightarrow> json_failure + json) \<Rightarrow> (string \<Rightarrow> json_failure) \<Rightarrow> (json \<Rightarrow> int option) \<Rightarrow> frame \<Rightarrow>
     stt_error + parsed_event option" where
  "parse_server_event from_str shape_at float_ms f =
     (let failed = (\<lambda>e. Inl (SttProtocol (''parse '' @ provider_name @ '' server message failed: '' @ redacted_json_error e)))
      in case f of
           FrBinary _ \<Rightarrow> Inl (SttProtocol ''unexpected binary frame from server'')
         | FrPing _ \<Rightarrow> Inr None
         | FrPong _ \<Rightarrow> Inr None
         | FrRaw \<Rightarrow> Inr None
         | FrClose r \<Rightarrow>
             Inl (SttNetwork (''websocket closed: '' @ (case r of None \<Rightarrow> [] | Some (c, t) \<Rightarrow> c @ '' '' @ t)))
         | FrText t \<Rightarrow>
             (case from_str t of
                Inl e \<Rightarrow> failed e
              | Inr j \<Rightarrow>
                  (case decode_message j of
                     None \<Rightarrow> failed (shape_at t)
                   | Some (h, payload) \<Rightarrow> server_event float_ms h payload)))"

definition is_provider_retryable :: "string \<Rightarrow> bool" where
  "is_provider_retryable code \<longleftrightarrow>
     has_prefix code ''Throttling'' \<or> has_prefix code ''Network.'' \<or> has_prefix code ''InternalError'' \<or>
     code \<in> {''RequestTimeout'', ''ServiceUnavailable''}"

definition provider_failure :: "string \<Rightarrow> string \<Rightarrow> stt_error" where
  "provider_failure code msg = SttProvider provider_name code msg (is_provider_retryable code)"

end
