(* ===== verification/Ai_AsrSession.thy ===== *)
theory Ai_AsrSession
  imports Ai_Speech
begin

text \<open>
  A Fun-ASR session (\<open>FunAsrRealtime::transcribe_realtime\<close>): the checks, the handshake, the wait for
  \<open>task-started\<close>, the recognition loop and the uplink pump; and what a session guarantees of its
  event stream and its final transcript.
\<close>

section \<open>The session\<close>

datatype recv = RvTimeout | RvClosed | RvError string | RvFrame frame

datatype ending = Completed | Failed stt_error | Waiting

text \<open>What the rest of the world contributes to a session: the JSON parser, the renderings of the two
  timeouts, the checks of the two header values, the connection, the send of the first message.\<close>

datatype connect_result = ConnOk | ConnTimeout | ConnHttp nat string | ConnError string

record asr_env =
  ae_from_str :: "string \<Rightarrow> json_failure + json"
  ae_shape_at :: "string \<Rightarrow> json_failure"
  ae_float_ms :: "json \<Rightarrow> int option"
  ae_start_timeout_text :: string
  ae_idle_timeout_text :: string
  ae_endpoint_error :: "string option"
  ae_auth_error :: "string option"
  ae_workspace_error :: "string \<Rightarrow> string option"
  ae_connect :: connect_result
  ae_send_run_task :: "string option"
  ae_task_id :: string

definition parse_frame :: "asr_env \<Rightarrow> frame \<Rightarrow> stt_error + parsed_event option" where
  "parse_frame ae f = parse_server_event (ae_from_str ae) (ae_shape_at ae) (ae_float_ms ae) f"

text \<open>The wait for \<open>task-started\<close>: the items left for the loop, or how the session ended.\<close>

fun await_started :: "asr_env \<Rightarrow> recv list \<Rightarrow> ending + recv list" where
  "await_started ae [] = Inl Waiting"
| "await_started ae (RvTimeout # rs) =
     Inl (Failed (SttTimeout (''waiting task-started for '' @ ae_start_timeout_text ae)))"
| "await_started ae (RvClosed # rs) = Inl (Failed (SttProtocol ''websocket closed before task-started''))"
| "await_started ae (RvError e # rs) =
     Inl (Failed (SttNetwork (''websocket error before task-started: '' @ e)))"
| "await_started ae (RvFrame f # rs) =
     (case parse_frame ae f of
        Inl e \<Rightarrow> Inl (Failed e)
      | Inr None \<Rightarrow> await_started ae rs
      | Inr (Some PeStarted) \<Rightarrow> Inr rs
      | Inr (Some (PeFailed code msg)) \<Rightarrow> Inl (Failed (provider_failure code msg))
      | Inr (Some other) \<Rightarrow> Inl (Failed (SttProtocol (''expected task-started, got '' @ kind_name other))))"

text \<open>The state of the recognition loop.\<close>

record rec_state =
  rc_segments :: "segment list"
  rc_partial_idx :: "nat option"
  rc_duration_ms :: "int option"

definition rec_init :: rec_state where
  "rec_init = \<lparr>rc_segments = [], rc_partial_idx = None, rc_duration_ms = None\<rparr>"

definition max_duration :: "int option \<Rightarrow> int option \<Rightarrow> int option" where
  "max_duration cur seen =
     (case seen of None \<Rightarrow> cur | Some s \<Rightarrow> Some (case cur of None \<Rightarrow> s | Some c \<Rightarrow> max c s))"

definition on_result :: "segment \<Rightarrow> int option \<Rightarrow> rec_state \<Rightarrow> rec_state \<times> stt_event" where
  "on_result sg seen st =
     (let dur = max_duration (rc_duration_ms st) seen;
          segs = (case rc_partial_idx st of Some i \<Rightarrow> take i (rc_segments st) | None \<Rightarrow> rc_segments st)
      in if sg_is_final sg
         then (\<lparr>rc_segments = segs @ [sg], rc_partial_idx = None, rc_duration_ms = dur\<rparr>, SttSegmentFinal sg)
         else (\<lparr>rc_segments = segs @ [sg], rc_partial_idx = Some (length segs), rc_duration_ms = dur\<rparr>, SttPartial sg))"

definition finished_result :: "asr_env \<Rightarrow> string \<Rightarrow> int option \<Rightarrow> rec_state \<Rightarrow> transcription" where
  "finished_result ae model seen st =
     \<lparr>tr_text = concat (map sg_text (rc_segments st)), tr_language = None, tr_confidence = None,
      tr_segments = rc_segments st, tr_provider = provider_name, tr_model = model,
      tr_session_id = Some (ae_task_id ae),
      tr_audio_duration_ms = (if seen \<noteq> None then seen else rc_duration_ms st)\<rparr>"

fun recognize :: "asr_env \<Rightarrow> string \<Rightarrow> rec_state \<Rightarrow> recv list \<Rightarrow> stt_event list \<times> ending" where
  "recognize ae model st [] = ([], Waiting)"
| "recognize ae model st (RvTimeout # rs) =
     ([], Failed (SttTimeout (''no frame from dashscope for '' @ ae_idle_timeout_text ae)))"
| "recognize ae model st (RvClosed # rs) = ([], Failed (SttNetwork ''websocket closed before task-finished''))"
| "recognize ae model st (RvError e # rs) =
     ([], Failed (SttNetwork (''websocket error during recognition: '' @ e)))"
| "recognize ae model st (RvFrame f # rs) =
     (case parse_frame ae f of
        Inl e \<Rightarrow> ([], Failed e)
      | Inr None \<Rightarrow> recognize ae model st rs
      | Inr (Some PeStarted) \<Rightarrow> recognize ae model st rs
      | Inr (Some (PeResult sg seen)) \<Rightarrow>
          (let (st', ev) = on_result sg seen st; (evs, out) = recognize ae model st' rs in (ev # evs, out))
      | Inr (Some (PeFinished seen)) \<Rightarrow> ([SttTaskFinished (finished_result ae model seen st)], Completed)
      | Inr (Some (PeFailed code msg)) \<Rightarrow> ([], Failed (provider_failure code msg)))"

text \<open>From the first poll: the header values, the connection, the first message, the two loops.\<close>

definition handshake :: "asr_env \<Rightarrow> fun_asr \<Rightarrow> stt_error option" where
  "handshake ae fa =
     (case ae_endpoint_error ae of
        Some e \<Rightarrow> Some (SttOther (''invalid websocket endpoint '' @ websocket_endpoint (fa_region fa) @ '': '' @ e))
      | None \<Rightarrow>
     (case ae_auth_error ae of
        Some e \<Rightarrow> Some (SttAuth (''invalid api key header: '' @ e))
      | None \<Rightarrow>
     (case Option.bind (cr_workspace_id (fa_credentials fa)) (ae_workspace_error ae) of
        Some e \<Rightarrow> Some (SttConfigInvalid (''invalid workspace: '' @ e))
      | None \<Rightarrow>
     (case ae_connect ae of
        ConnTimeout \<Rightarrow> Some (SttTimeout (''dashscope websocket connect exceeded '' @ ae_start_timeout_text ae))
      | ConnHttp status text \<Rightarrow>
          (if status \<in> {401, 403} then Some (SttAuth (''dashscope handshake rejected: '' @ text))
           else Some (SttNetwork (''dashscope websocket connect failed: '' @ text)))
      | ConnError e \<Rightarrow> Some (SttNetwork (''dashscope websocket connect failed: '' @ e))
      | ConnOk \<Rightarrow> map_option (\<lambda>e. SttNetwork (''send run-task: '' @ e)) (ae_send_run_task ae)))))"

definition run_session :: "asr_env \<Rightarrow> fun_asr \<Rightarrow> recv list \<Rightarrow> stt_event list \<times> ending" where
  "run_session ae fa rs =
     (case handshake ae fa of
        Some e \<Rightarrow> ([], Failed e)
      | None \<Rightarrow>
          (case await_started ae rs of
             Inl out \<Rightarrow> ([], out)
           | Inr rest \<Rightarrow>
               (let (evs, out) = recognize ae (fa_model fa) rec_init rest
                in (SttStarted (Some (ae_task_id ae)) # evs, out))))"

text \<open>The part that runs before the stream is returned, and the audio format it yields.\<close>

definition check_config :: "fun_asr \<Rightarrow> audio_config \<Rightarrow> stt_error + string" where
  "check_config fa cfg =
     thenR (ensureR (au_channels cfg = 1)
              (SttConfigInvalid (''fun-asr-realtime accepts mono audio only, got channels='' @ show_nat (au_channels cfg))))
     (thenR (ensureR (au_sample_rate cfg \<noteq> 0) (SttConfigInvalid ''sample_rate must be non-zero''))
     (thenR (validate_model_for_region (fa_model fa) (fa_region fa))
     (thenR (validate_context_items (au_context_items cfg))
     (thenR (validate_provider_options (au_provider_options cfg))
     (provider_audio_format (au_encoding cfg))))))"

definition transcribe_realtime ::
  "asr_env \<Rightarrow> fun_asr \<Rightarrow> audio_config \<Rightarrow> recv list \<Rightarrow> stt_error + json \<times> stt_event list \<times> ending" where
  "transcribe_realtime ae fa cfg rs =
     bindR (check_config fa cfg)
       (\<lambda>format. Inr (build_run_task (ae_task_id ae) (fa_model fa) cfg format, run_session ae fa rs))"

section \<open>The uplink pump\<close>

datatype client_frame = CfBinary "nat list" | CfText json

text \<open>\<open>send n\<close> is the failure of the \<open>n\<close>-th send, if it fails. The pump returns what it has sent and how
  it ended.\<close>

fun pump :: "(nat \<Rightarrow> string option) \<Rightarrow> string \<Rightarrow> nat \<Rightarrow> uplink list \<Rightarrow> client_frame list \<times> (string + unit)" where
  "pump send task_id n [] =
     (let m = CfText (client_message ''finish-task'' task_id (JObj [(''input'', task_input [])])) in
      case send n of
        Some e \<Rightarrow> ([], Inl (''send finish-task: '' @ e))
      | None \<Rightarrow> ([m], Inr ()))"
| "pump send task_id n (UpAudio a # us) =
     (if a = [] then pump send task_id n us
      else (case send n of
              Some e \<Rightarrow> ([], Inl (''send audio frame: '' @ e))
            | None \<Rightarrow> (let (fs, r) = pump send task_id (Suc n) us in (CfBinary a # fs, r))))"
| "pump send task_id n (UpContext items # us) =
     (let context = clamp_context items in
      if context = [] then pump send task_id n us
      else (let m = CfText (client_message ''continue-task'' task_id (JObj [(''input'', task_input context)])) in
            case send n of
              Some e \<Rightarrow> ([], Inl (''send continue-task: '' @ e))
            | None \<Rightarrow> (let (fs, r) = pump send task_id (Suc n) us in (m # fs, r))))"

section \<open>The event stream\<close>

text \<open>The specification of the transcript: the final segments in order, then the last result if it was
  partial.\<close>

fun result_segment :: "stt_event \<Rightarrow> segment option" where
  "result_segment (SttPartial s) = Some s"
| "result_segment (SttSegmentFinal s) = Some s"
| "result_segment _ = None"

definition is_result :: "stt_event \<Rightarrow> bool" where
  "is_result e \<longleftrightarrow> result_segment e \<noteq> None"

fun final_segment :: "stt_event \<Rightarrow> segment option" where
  "final_segment (SttSegmentFinal s) = Some s"
| "final_segment _ = None"

definition trailing_partial :: "stt_event list \<Rightarrow> segment list" where
  "trailing_partial evs = (if evs = [] then [] else (case last evs of SttPartial s \<Rightarrow> [s] | _ \<Rightarrow> []))"

definition transcript_of :: "stt_event list \<Rightarrow> segment list" where
  "transcript_of evs = List.map_filter final_segment evs @ trailing_partial evs"

text \<open>The loop's state as a function of the results seen: the invariant of the recognition loop.\<close>

definition state_of :: "stt_event list \<Rightarrow> rec_state \<Rightarrow> bool" where
  "state_of evs st \<longleftrightarrow>
     rc_segments st = transcript_of evs \<and>
     rc_partial_idx st =
       (if trailing_partial evs = [] then None else Some (length (List.map_filter final_segment evs)))"

lemma map_filter_snoc: "List.map_filter f (xs @ [x]) = List.map_filter f xs @ (case f x of None \<Rightarrow> [] | Some y \<Rightarrow> [y])"
  by (induction xs) (auto simp: map_filter_simps split: option.split)

lemma trailing_snoc: "trailing_partial (evs @ [e]) = (case e of SttPartial s \<Rightarrow> [s] | _ \<Rightarrow> [])"
  by (simp add: trailing_partial_def split: stt_event.split)

lemma state_of_init: "state_of [] rec_init"
  by (simp add: state_of_def rec_init_def transcript_of_def trailing_partial_def map_filter_simps)

lemma state_of_segs:
  "state_of evs st \<Longrightarrow>
     (case rc_partial_idx st of Some i \<Rightarrow> take i (rc_segments st) | None \<Rightarrow> rc_segments st) = List.map_filter final_segment evs"
  by (auto simp: state_of_def transcript_of_def)

lemma on_result_event: "on_result sg seen st = (st', ev) \<Longrightarrow> is_result ev \<and> result_segment ev = Some sg"
  by (auto simp: on_result_def is_result_def Let_def split: if_splits)

text \<open>One result keeps the invariant.\<close>

lemma on_result_state:
  assumes "state_of evs st" "on_result sg seen st = (st', ev)"
  shows "state_of (evs @ [ev]) st'"
  using assms(2) state_of_segs [OF assms(1)]
  by (auto simp: on_result_def Let_def state_of_def transcript_of_def map_filter_snoc trailing_snoc split: if_splits)

text \<open>A completed stream is results and then one \<open>TaskFinished\<close> that carries their transcript; any other
  stream is results only.\<close>

definition stream_ok :: "string \<Rightarrow> stt_event list \<Rightarrow> stt_event list \<Rightarrow> ending \<Rightarrow> bool" where
  "stream_ok model seen evs out \<longleftrightarrow>
     (if out = Completed
      then evs \<noteq> [] \<and> list_all is_result (butlast evs) \<and>
        (case last evs of
           SttTaskFinished r \<Rightarrow>
             tr_segments r = transcript_of (seen @ butlast evs) \<and> tr_text r = concat (map sg_text (tr_segments r)) \<and>
             tr_model r = model
         | _ \<Rightarrow> False)
      else list_all is_result evs)"

lemma stream_ok_Cons: "is_result e \<Longrightarrow> stream_ok model (seen @ [e]) evs out \<Longrightarrow> stream_ok model seen (e # evs) out"
  by (auto simp: stream_ok_def split: if_splits stt_event.splits)

lemma recognize_shape:
  assumes "state_of seen st" "recognize ae model st rs = (evs, out)"
  shows "stream_ok model seen evs out"
  using assms
proof (induction ae model st rs arbitrary: seen evs rule: recognize.induct)
  case (5 ae model st f rs)
  show ?case
  proof (cases "parse_frame ae f")
    case (Inr p)
    show ?thesis
    proof (cases p)
      case (Some ev)
      note p = Inr [unfolded Some]
      show ?thesis
      proof (cases ev)
        case (PeResult sg d)
        obtain st' e where st': "on_result sg d st = (st', e)" by (cases "on_result sg d st")
        obtain evs' where evs': "recognize ae model st' rs = (evs', out)" "evs = e # evs'"
          using "5.prems"(2) p PeResult st' by (auto split: prod.splits)
        have e: "is_result e" using on_result_event [OF st'] by simp
        have st: "state_of (seen @ [e]) st'" using "5.prems"(1) st' by (rule on_result_state)
        have "stream_ok model (seen @ [e]) evs' out"
          using "5.IH"(3) [OF Inr Some PeResult st' [symmetric] refl st evs'(1)] .
        with e evs'(2) show ?thesis by (simp add: stream_ok_Cons)
      next
        case (PeFinished d)
        then have "evs = [SttTaskFinished (finished_result ae model d st)]" "out = Completed"
          using "5.prems"(2) p by auto
        with "5.prems"(1) show ?thesis by (simp add: stream_ok_def finished_result_def state_of_def)
      qed (use "5.prems" "5.IH" Inr Some in \<open>auto simp: stream_ok_def\<close>)
    qed (use "5.prems" "5.IH" Inr in \<open>auto simp: stream_ok_def\<close>)
  qed (use "5.prems" in \<open>auto simp: stream_ok_def\<close>)
qed (auto simp: stream_ok_def)

end
