(* ===== verification/Ai_Asr_Props.thy ===== *)
theory Ai_Asr_Props
  imports Ai_AsrSession Common_Text "HOL-Library.Sublist"
begin

text \<open>
  What a Fun-ASR session guarantees: the grammar of its event stream and the transcript, the
  invisibility of control frames, the request that is sent, the limits of the context, and the order
  of what the uplink pump sends.
\<close>

section \<open>The event stream\<close>

lemma run_session_cases:
  assumes "run_session ae fa rs = (evs, out)"
  obtains "evs = []" "out \<noteq> Completed"
  | rest evs' where "recognize ae (fa_model fa) rec_init rest = (evs', out)" "evs = SttStarted (Some (ae_task_id ae)) # evs'"
proof -
  have "out \<noteq> Completed" if "await_started ae rs = Inl out" for out
    using that by (induction ae rs rule: await_started.induct)
      (auto split: sum.splits option.splits parsed_event.splits)
  with assms that show ?thesis
    by (auto simp: run_session_def split: option.splits sum.splits prod.splits)
qed

text \<open>C24: The transcript of a completed session is what its events showed. The stream is \<open>Started\<close>, then
  partial and final segments, then exactly one \<open>TaskFinished\<close> as its last event; the result's segments
  are the final segments in the order they were shown, followed by the last segment if it was shown
  only as partial, and its text is their concatenation. A session that fails or still waits never
  shows a \<open>TaskFinished\<close>, and a completed one ends without an error.\<close>

theorem transcript_exact:
  assumes "run_session ae fa rs = (evs, out)"
  shows "if out = Completed
    then \<exists>body r. evs = SttStarted (Some (ae_task_id ae)) # body @ [SttTaskFinished r] \<and> list_all is_result body \<and>
      tr_segments r = List.map_filter final_segment body @ trailing_partial body \<and>
      tr_text r = concat (map sg_text (tr_segments r))
    else evs = [] \<or> (\<exists>body. evs = SttStarted (Some (ae_task_id ae)) # body \<and> list_all is_result body)"
  using assms
proof (cases rule: run_session_cases)
  case (2 rest evs')
  from recognize_shape [OF state_of_init "2"(1)] have ok: "stream_ok (fa_model fa) [] evs' out" .
  show ?thesis
  proof (cases "out = Completed")
    case True
    from ok True obtain r where r: "evs' \<noteq> []" "last evs' = SttTaskFinished r" "list_all is_result (butlast evs')"
      "tr_segments r = transcript_of (butlast evs')" "tr_text r = concat (map sg_text (tr_segments r))"
      by (auto simp: stream_ok_def split: stt_event.splits)
    from r(1,2) have "evs' = butlast evs' @ [SttTaskFinished r]" by (metis append_butlast_last_id)
    with "2"(2) have "evs = SttStarted (Some (ae_task_id ae)) # butlast evs' @ [SttTaskFinished r]" by simp
    with r(3-5) True show ?thesis unfolding transcript_of_def by auto
  qed (use ok "2"(2) in \<open>simp add: stream_ok_def\<close>)
qed simp

text \<open>A server whose messages are single letters.\<close>

definition toy_message :: "string \<Rightarrow> json \<Rightarrow> json" where
  "toy_message event payload = JObj [(''header'', JObj [(''event'', JStr event)]), (''payload'', payload)]"

definition toy_result :: "string \<Rightarrow> bool \<Rightarrow> json" where
  "toy_result text final =
     JObj [(''output'', JObj [(''sentence'', JObj [(''sentence_end'', JBool final), (''text'', JStr text)])])]"

definition toy_env :: asr_env where
  "toy_env =
     \<lparr>ae_from_str =
        (\<lambda>t. if t = ''s'' then Inr (toy_message ''task-started'' JNull)
             else if t = ''p'' then Inr (toy_message ''result-generated'' (toy_result ''ab'' False))
             else if t = ''r'' then Inr (toy_message ''result-generated'' (toy_result ''abc'' True))
             else if t = ''f'' then Inr (toy_message ''task-finished'' JNull)
             else Inr (toy_message ''heartbeat'' JNull)),
      ae_shape_at = (\<lambda>_. shape_error), ae_float_ms = (\<lambda>_. None), ae_start_timeout_text = ''10s'',
      ae_idle_timeout_text = ''30s'', ae_endpoint_error = None, ae_auth_error = None, ae_workspace_error = (\<lambda>_. None),
      ae_connect = ConnOk, ae_send_run_task = None, ae_task_id = ''t''\<rparr>"

definition toy_run :: "recv list" where
  "toy_run = map (\<lambda>t. RvFrame (FrText t)) [''s'', ''p'', ''x'', ''p'', ''r'', ''p'', ''f'']"

definition toy_client :: fun_asr where
  "toy_client = fun_asr_new \<lparr>cr_api_key = ''k'', cr_workspace_id = None\<rparr> Beijing"

theorem transcript_exact_witness:
  "\<exists>evs r. run_session toy_env toy_client toy_run = (evs, Completed) \<and> last evs = SttTaskFinished r \<and> tr_text r = ''abcab''"
proof -
  have out: "snd (run_session toy_env toy_client toy_run) = Completed"
    and body: "List.map_filter final_segment (butlast (tl (fst (run_session toy_env toy_client toy_run)))) @
        trailing_partial (butlast (tl (fst (run_session toy_env toy_client toy_run)))) =
      [\<lparr>sg_text = ''abc'', sg_begin_ms = None, sg_end_ms = None, sg_confidence = None, sg_words = [], sg_is_final = True\<rparr>,
       \<lparr>sg_text = ''ab'', sg_begin_ms = None, sg_end_ms = None, sg_confidence = None, sg_words = [], sg_is_final = False\<rparr>]"
    by code_simp+
  from transcript_exact [of toy_env toy_client toy_run "fst (run_session toy_env toy_client toy_run)" Completed] out
  obtain b r where "fst (run_session toy_env toy_client toy_run) = SttStarted (Some (ae_task_id toy_env)) # b @ [SttTaskFinished r]"
    "tr_segments r = List.map_filter final_segment b @ trailing_partial b" "tr_text r = concat (map sg_text (tr_segments r))"
    by (auto simp: prod_eq_iff)
  with body out show ?thesis
    by (intro exI [of _ "fst (run_session toy_env toy_client toy_run)"] exI [of _ r]) (simp add: prod_eq_iff)
qed

text \<open>Frames that carry no event of the task: ping, pong, raw frames and events the client does not
  know.\<close>

definition ignorable :: "asr_env \<Rightarrow> recv \<Rightarrow> bool" where
  "ignorable ae r \<longleftrightarrow> (case r of RvFrame f \<Rightarrow> parse_frame ae f = Inr None | _ \<Rightarrow> False)"

lemma recognize_ignores: "recognize ae model st (filter (\<lambda>r. \<not> ignorable ae r) rs) = recognize ae model st rs"
  by (induction ae model st rs rule: recognize.induct)
    (auto simp: ignorable_def split: sum.splits option.splits parsed_event.splits prod.splits)

lemma await_ignores:
  "await_started ae (filter (\<lambda>r. \<not> ignorable ae r) rs) = map_sum id (filter (\<lambda>r. \<not> ignorable ae r)) (await_started ae rs)"
  by (induction ae rs rule: await_started.induct)
    (auto simp: ignorable_def split: sum.splits option.splits parsed_event.splits)

text \<open>Control frames are invisible: with them or without them, at any place, the session shows the same
  events and ends the same way.\<close>

theorem control_frames_invisible: "run_session ae fa (filter (\<lambda>r. \<not> ignorable ae r) rs) = run_session ae fa rs"
  by (cases "handshake ae fa"; cases "await_started ae rs") (simp_all add: run_session_def await_ignores recognize_ignores)

section \<open>The request\<close>

lemma trim_is_empty_iff: "trim_is_empty s \<longleftrightarrow> trim_str s = []"
proof (cases "dropWhile is_space_char s")
  case Nil
  then have "list_all is_space_char s" by (simp add: list_all_iff)
  then show ?thesis unfolding trim_is_empty_def trim_str_def Nil by simp
next
  case (Cons c cs)
  then have c: "\<not> is_space_char c" by (metis dropWhile_eq_Cons_conv)
  from Cons have "c \<in> set s" by (metis list.set_intros(1) set_dropWhileD)
  with c have "\<not> trim_is_empty s" by (auto simp: trim_is_empty_def list_all_iff)
  moreover from Cons c have "\<not> list_all is_space_char (rev (c # cs))" by simp
  then have "trim_str s \<noteq> []" using Cons by (simp add: trim_str_def list_all_iff dropWhile_eq_Nil_conv)
  ultimately show ?thesis by simp
qed

lemma first_position_None: "first_position P xs = None \<longleftrightarrow> \<not> list_ex P xs"
  by (induction xs) auto

lemma filter_trim: "filter non_empty (map trim_str items) = map trim_str (filter (\<lambda>s. \<not> trim_is_empty s) items)"
  by (induction items) (auto simp: non_empty_def trim_is_empty_iff)

text \<open>The context of an accepted configuration is sent as it is, in order and uncut.\<close>

lemma context_not_clipped:
  assumes "validate_context_items items = okR"
  shows "clamp_context items = filter non_empty (map trim_str items)"
proof -
  from assms have "length (filter non_empty (map trim_str items)) \<le> max_context_items" "\<not> list_ex too_long items"
    by (auto simp: validate_context_items_def filter_trim okR_def first_position_None Let_def split: if_splits option.splits)
  then show ?thesis
    by (auto simp: clamp_context_def Let_def too_long_def list_ex_iff not_less intro!: map_idI)
qed

text \<open>No context that is sent, accepted or updated, is over the limits.\<close>

lemma context_limits:
  "length (clamp_context items) \<le> max_context_items \<and>
   list_all (\<lambda>t. length t \<le> max_context_item_chars \<and> t \<noteq> []) (clamp_context items)"
  by (auto simp: clamp_context_def Let_def list_all_iff non_empty_def max_context_item_chars_def dest: in_set_dropD)

lemma extra_params_distinct: "distinct (map fst (extra_params cfg))"
  by (rule sorted_keys_distinct)
    (auto simp: extra_params_def Let_def intro!: map_insert_sorted fold_map_insert_sorted split: option.split)

lemma extra_params_eq:
  "extra_params cfg =
     (let base = fold (\<lambda>(k, v). map_insert k v)
        (case au_provider_options cfg of JObj m \<Rightarrow> filter (\<lambda>(k, v). k \<notin> set reserved_option_keys) m | _ \<Rightarrow> []) []
      in case au_domain_hint cfg of Some d \<Rightarrow> map_insert ''domain_hint'' (JStr d) base | None \<Rightarrow> base)"
  by (simp only: extra_params_def Let_def)

lemma extra_params_keys: "k \<in> fst ` set (extra_params cfg) \<Longrightarrow> k \<notin> set reserved_option_keys \<or> k = ''domain_hint''"
proof -
  define kept where "kept = (case au_provider_options cfg of
      JObj m \<Rightarrow> filter (\<lambda>(k, v). k \<notin> set reserved_option_keys) m | _ \<Rightarrow> [])"
  define base where "base = fold (\<lambda>(k, v). map_insert k v) kept []"
  have "set (map fst kept) \<subseteq> - set reserved_option_keys"
    by (cases "au_provider_options cfg") (auto simp: kept_def)
  then have base: "set (map fst base) \<subseteq> - set reserved_option_keys"
    unfolding base_def fold_map_insert_keys by simp
  have "extra_params cfg = (case au_domain_hint cfg of Some d \<Rightarrow> map_insert ''domain_hint'' (JStr d) base | None \<Rightarrow> base)"
    unfolding extra_params_eq Let_def base_def kept_def ..
  then have "set (map fst (extra_params cfg)) \<subseteq> insert ''domain_hint'' (set (map fst base))"
    by (cases "au_domain_hint cfg") (simp_all only: option.case map_insert_keys subset_insertI order_refl)
  with base show "k \<in> fst ` set (extra_params cfg) \<Longrightarrow> ?thesis" unfolding set_map by blast
qed

lemma named_parameters_keys: "k \<in> fst ` set (named_parameters cfg format) \<Longrightarrow> k \<in> set reserved_option_keys \<and> k \<noteq> ''domain_hint''"
  by (auto simp: named_parameters_def list_member_def reserved_option_keys_def split: if_splits)

lemma named_parameters_distinct: "distinct (map fst (named_parameters cfg format))"
  by (cases "au_vocabulary_ids cfg = []"; cases "primary_language_subtags (au_language_hints cfg) = []")
    (simp_all add: named_parameters_def list_member_def)

lemma parameters_distinct: "distinct (map fst (run_task_parameters cfg format))"
  using named_parameters_distinct extra_params_distinct named_parameters_keys extra_params_keys
  unfolding run_task_parameters_def map_append distinct_append set_map by blast

text \<open>The request has no member twice. Whatever the options of the caller, the parameters of
  \<open>run-task\<close> are written with pairwise different names, although they are put together from named
  fields and from a free map.\<close>

theorem run_task_keys_distinct: "distinct (map fst (run_task_parameters cfg format))"
  by (rule parameters_distinct)

lemma accepted_option:
  assumes "validate_provider_options (JObj m) = Inr ()" "map_of m k = Some v" "k \<in> set reserved_option_keys"
  shows "k \<in> set bool_override_keys \<and> (\<exists>b. v = JBool b)"
proof -
  have "filter (\<lambda>k. k \<notin> set bool_override_keys \<and> map_of m k \<noteq> None) reserved_option_keys = []"
    and c: "check_all (check_override m) bool_override_keys = Inr ()"
    using assms(1) by (simp_all add: Let_def split: if_splits)
  with assms(2,3) have b: "k \<in> set bool_override_keys" by (auto simp: filter_empty_conv)
  with c have "check_override m k = Inr ()" by (simp only: check_all_eq_Inr)
  with assms(2) have "is_boolean v" by (simp add: check_override_def ensureR_eq_Inr)
  with b show ?thesis by (cases v) auto
qed

lemma map_of_filter_key: "P k \<Longrightarrow> map_of (filter (\<lambda>(k, v). P k) m) k = map_of m k"
  by (induction m) auto

lemma distinct_filter_keys: "distinct (map fst m) \<Longrightarrow> distinct (map fst (filter P m))"
  by (induction m) auto

text \<open>An option outside the reserved names is an extra parameter with its value.\<close>

lemma extra_params_lookup:
  assumes "au_provider_options cfg = JObj m" "distinct (map fst m)" "k \<notin> set reserved_option_keys" "k \<noteq> ''domain_hint''"
  shows "map_of (extra_params cfg) k = map_of m k"
proof -
  define kept where "kept = filter (\<lambda>(k, v). k \<notin> set reserved_option_keys) m"
  have d: "distinct (map fst kept)" unfolding kept_def using assms(2) by (rule distinct_filter_keys)
  have "map_of (fold (\<lambda>(k, v). map_insert k v) kept []) k = map_of kept k"
    by (simp only: map_of_fold_insert map_of_rev_keys [OF d] map_of.simps) (simp split: option.split)
  also have "\<dots> = map_of m k" unfolding kept_def by (rule map_of_filter_key [of "\<lambda>k. k \<notin> set reserved_option_keys", OF assms(3)])
  finally show ?thesis
    using assms(4) unfolding extra_params_eq Let_def assms(1) json.case kept_def [symmetric]
    by (cases "au_domain_hint cfg") (simp_all only: option.case map_of_insert_lookup if_False)
qed

lemma override_written:
  assumes "k \<in> set bool_override_keys" "json_get k (au_provider_options cfg) = Some (JBool b)"
  shows "(k, JBool b) \<in> set (named_parameters cfg format)"
proof -
  from assms(1) have "k = ''disfluency_removal_enabled'' \<or> k = ''punctuation_prediction_enabled'' \<or>
      k = ''inverse_text_normalization_enabled''"
    by (simp add: bool_override_keys_def)
  with assms(2) show ?thesis
    by (elim disjE) (simp_all only: named_parameters_def read_bool_def option.case json.case set_append set_simps insert_iff
      Un_iff prod.inject simp_thms)
qed

text \<open>Every option of an accepted configuration reaches the server. When the checks before the
  connection accept the options, each of them is a member of the parameters with the very value the
  caller gave: none is dropped and none is overridden.\<close>

theorem options_delivered:
  assumes "check_config fa cfg = Inr format" "au_provider_options cfg = JObj m" "distinct (map fst m)"
    and "map_of m k = Some v"
  shows "map_of (run_task_parameters cfg format) k = Some v"
proof -
  have ok: "validate_provider_options (JObj m) = Inr ()"
    using assms(1) unfolding check_config_def assms(2) by (simp only: thenR_eq_Inr)
  have dom: "''domain_hint'' \<in> set reserved_option_keys" "''domain_hint'' \<notin> set bool_override_keys"
    by (simp_all add: reserved_option_keys_def bool_override_keys_def)
  have "(k, v) \<in> set (run_task_parameters cfg format)"
  proof (cases "k \<in> set reserved_option_keys")
    case True
    from accepted_option [OF ok assms(4) True] obtain b where "k \<in> set bool_override_keys" "v = JBool b" by blast
    with override_written [of k cfg b format] assms(2,4) show ?thesis by (simp add: run_task_parameters_def)
  next
    case False
    then have "map_of (extra_params cfg) k = Some v"
      using extra_params_lookup [OF assms(2,3)] dom(1) assms(4) by metis
    then show ?thesis unfolding run_task_parameters_def by (auto dest: map_of_SomeD)
  qed
  with parameters_distinct show ?thesis by (rule map_of_is_SomeI)
qed

theorem options_delivered_witness:
  "map_of (run_task_parameters (pcm_s16le_16k_mono_40ms\<lparr>au_provider_options := JObj [(''heartbeat'', JBool True)]\<rparr>) ''pcm'')
     ''heartbeat'' = Some (JBool True)"
proof (rule options_delivered [where m = "[(''heartbeat'', JBool True)]" and fa = "fun_asr_new \<lparr>cr_api_key = ''k'', cr_workspace_id = None\<rparr> Beijing"])
  show "check_config (fun_asr_new \<lparr>cr_api_key = ''k'', cr_workspace_id = None\<rparr> Beijing)
      (pcm_s16le_16k_mono_40ms\<lparr>au_provider_options := JObj [(''heartbeat'', JBool True)]\<rparr>) = Inr ''pcm''"
    by code_simp
qed simp_all

section \<open>The uplink\<close>

text \<open>Everything the pump has to send: the non-empty audio frames and context updates in order, then
  \<open>finish-task\<close>.\<close>

fun uplink_frame :: "string \<Rightarrow> uplink \<Rightarrow> client_frame option" where
  "uplink_frame task_id (UpAudio a) = (if a = [] then None else Some (CfBinary a))"
| "uplink_frame task_id (UpContext items) =
     (if clamp_context items = [] then None
      else Some (CfText (client_message ''continue-task'' task_id (JObj [(''input'', task_input (clamp_context items))]))))"

definition uplink_script :: "string \<Rightarrow> uplink list \<Rightarrow> client_frame list" where
  "uplink_script task_id us =
     List.map_filter (uplink_frame task_id) us @
       [CfText (client_message ''finish-task'' task_id (JObj [(''input'', task_input [])]))]"

text \<open>The pump sends in order and finishes last. What it sends is always a prefix of the non-empty
  frames and updates in their order with \<open>finish-task\<close> at the end, and it reports success exactly when
  it has sent all of them: \<open>finish-task\<close> is never sent before or without the audio.\<close>

theorem pump_prefix:
  "prefix (fst (pump send task_id n us)) (uplink_script task_id us) \<and>
   (snd (pump send task_id n us) = Inr ()) = (fst (pump send task_id n us) = uplink_script task_id us)"
proof (induction send task_id n us rule: pump.induct)
  case (1 send task_id n)
  then show ?case by (cases "send n") (simp_all add: uplink_script_def map_filter_simps)
next
  case (2 send task_id n a us)
  then show ?case
    by (cases "send n")
      (auto simp: uplink_script_def map_filter_simps split: prod.splits)
next
  case (3 send task_id n items us)
  then show ?case
    by (cases "send n")
      (auto simp: uplink_script_def map_filter_simps Let_def split: prod.splits)
qed

end
