(* ===== verification/Ai_Completion.thy ===== *)
theory Ai_Completion
  imports Ai_OpenAi
begin

text \<open>
  Chat Completions of the OpenAI-compatible provider (\<open>completion/mod.rs\<close>, \<open>client.rs\<close>): the messages of
  the wire, their conversions from and to the message model, the request with its body, the response
  with its token counts, and one exchange with the endpoint.

  A request body that is written straight to bytes is the list of the members in the order they are
  written (a flattened object may repeat a name); a body that goes through \<open>to_value\<close> is the JSON object.
  Printing and parsing JSON text are the arguments \<open>print\<close> and \<open>parse\<close>; a floating-point number is the JSON
  number it prints as.
\<close>

section \<open>Messages of the wire\<close>

datatype wire_assistant = WaText string | WaRefusal string

datatype wire_user =
    WuText string
  | WuImage string image_detail
  | WuAudio string audio_media

record wire_tool_call =
  wt_id :: string
  wt_name :: string
  wt_arguments :: json
  wt_signature :: "string option"
  wt_params :: "json option"

datatype wire_message =
    WireSystem "string one_or_many" "string option"
  | WireUser "wire_user one_or_many" "string option"
  | WireAssistant "wire_assistant list" "string option" "string option" "string option" "wire_tool_call list"
  | WireToolResult string "string one_or_many"

definition wire_system_text :: "string \<Rightarrow> wire_message" where
  "wire_system_text s = WireSystem (om_one s) None"

definition wire_user_text :: "string \<Rightarrow> wire_message" where
  "wire_user_text s = WireUser (om_one (WuText s)) None"

definition wire_assistant_text :: "string \<Rightarrow> wire_message" where
  "wire_assistant_text s = WireAssistant [WaText s] None None None []"

datatype wire_tool_choice = WcAuto | WcNone | WcRequired

fun tool_choice_to_wire :: "core_tool_choice \<Rightarrow> openai_error + wire_tool_choice" where
  "tool_choice_to_wire (CtSpecific _) = Inl (OaRequestBuild ''Provider doesn't support only using specific tools'')"
| "tool_choice_to_wire CtAuto = Inr WcAuto"
| "tool_choice_to_wire CtNone = Inr WcNone"
| "tool_choice_to_wire CtRequired = Inr WcRequired"

section \<open>From the message model\<close>

definition wire_call_of_core :: "core_tool_call \<Rightarrow> wire_tool_call" where
  "wire_call_of_core t =
     \<lparr>wt_id = tc_id t, wt_name = fn_name (tc_function t), wt_arguments = fn_arguments (tc_function t),
      wt_signature = tc_signature t, wt_params = tc_params t\<rparr>"

definition core_call_of_wire :: "wire_tool_call \<Rightarrow> core_tool_call" where
  "core_call_of_wire t =
     \<lparr>tc_id = wt_id t, tc_call_id = None, tc_function = \<lparr>fn_name = wt_name t, fn_arguments = wt_arguments t\<rparr>,
      tc_signature = wt_signature t, tc_params = wt_params t\<rparr>"

fun tool_result_text :: "tool_result_content \<Rightarrow> conv_error + string" where
  "tool_result_text (TrText t) = Inr (tx_text t)"
| "tool_result_text (TrImage _) = Inl (Conversion ''Tool result content does not support non-text'')"

fun is_tool_result :: "user_content \<Rightarrow> bool" where
  "is_tool_result (UcToolResult _) = True"
| "is_tool_result _ = False"

text \<open>The closure over the tool results; any other content is \<open>unreachable!()\<close> there.\<close>

fun wire_of_tool_result :: "user_content \<Rightarrow> conv_error + wire_message" where
  "wire_of_tool_result (UcToolResult r) =
     bindR (collectR (map tool_result_text (om_list (res_content r)))) (\<lambda>items.
     bindR (okorR (Conversion ''Failed to create OneOrMany from mapped items'') (om_many items)) (\<lambda>c.
     Inr (WireToolResult (unwrap_or (res_id r) (res_call_id r)) c)))"
| "wire_of_tool_result _ = Inl (ConvPanic ''internal error: entered unreachable code'')"

definition wire_of_image :: "image_part \<Rightarrow> conv_error + wire_user" where
  "wire_of_image i =
     (case im_data i of
        SrcUrl url \<Rightarrow> Inr (WuImage url (unwrap_or DetailAuto (im_detail i)))
      | SrcBase64 d \<Rightarrow>
          bindR (okorR (Conversion ''OpenAI Image URI must have media type'') (im_media i)) (\<lambda>m.
          bindR (okorR (Conversion ''OpenAI image URI must have image detail'') (im_detail i)) (\<lambda>detail.
          Inr (WuImage (''data:'' @ image_mime m @ '';base64,'' @ d) detail)))
      | SrcRaw _ \<Rightarrow> Inl (Conversion ''Raw files not supported, encode as base64 first'')
      | SrcString _ \<Rightarrow> Inl (Conversion ''Document has no supported body'')
      | SrcUnknown \<Rightarrow> Inl (Conversion ''Document has no supported body''))"

fun wire_of_user :: "user_content \<Rightarrow> conv_error + wire_user" where
  "wire_of_user (UcText t) = Inr (WuText (tx_text t))"
| "wire_of_user (UcImage i) = wire_of_image i"
| "wire_of_user (UcDocument d) =
     (case do_data d of
        SrcBase64 t \<Rightarrow> Inr (WuText t)
      | SrcString t \<Rightarrow> Inr (WuText t)
      | _ \<Rightarrow> Inl (Conversion ''Documents must be base64 or a string''))"
| "wire_of_user (UcAudio a) =
     (case ad_data a of
        SrcBase64 d \<Rightarrow> Inr (WuAudio d (unwrap_or AuMP3 (ad_media a)))
      | _ \<Rightarrow> Inl (Conversion ''Tool result is in unsupported format''))"
| "wire_of_user (UcToolResult _) = Inl (Conversion ''Tool result is in unsupported format'')"

text \<open>The \<open>try_fold\<close> that separates text from tool calls.\<close>

fun split_assistant ::
  "assistant_content list \<Rightarrow> text_part list \<Rightarrow> core_tool_call list \<Rightarrow> conv_error + text_part list \<times> core_tool_call list" where
  "split_assistant [] texts tools = Inr (texts, tools)"
| "split_assistant (AcText t # xs) texts tools = split_assistant xs (texts @ [t]) tools"
| "split_assistant (AcToolCall t # xs) texts tools = split_assistant xs texts (tools @ [t])"
| "split_assistant (AcReasoning _ # xs) texts tools =
     Inl (Conversion ''OpenAI Completions API does not support reasoning content'')"
| "split_assistant (AcImage _ # xs) texts tools =
     Inl (Conversion ''OpenAI Completions API does not support image content'')"

fun wire_of_core :: "core_message \<Rightarrow> conv_error + wire_message list" where
  "wire_of_core (CoreUser content) =
     (let results = filter is_tool_result (om_list content);
          other = filter (\<lambda>c. \<not> is_tool_result c) (om_list content)
      in if results \<noteq> [] then collectR (map wire_of_tool_result results)
         else bindR (collectR (map wire_of_user other)) (\<lambda>us.
              bindR (okorR (ConvPanic ''There must be other content here if there were no tool result content'')
                (om_many us)) (\<lambda>c.
              Inr [WireUser c None])))"
| "wire_of_core (CoreSystem s) = Inr [WireSystem (om_one s) None]"
| "wire_of_core (CoreAssistant _ content) =
     bindR (split_assistant (om_list content) [] []) (\<lambda>(texts, tools).
     Inr [WireAssistant (map (\<lambda>t. WaText (tx_text t)) texts) None None None (map wire_call_of_core tools)])"

section \<open>To the message model\<close>

fun core_of_wire_user :: "wire_user \<Rightarrow> user_content" where
  "core_of_wire_user (WuText t) = uc_text t"
| "core_of_wire_user (WuImage url d) = uc_image_url url None (Some d)"
| "core_of_wire_user (WuAudio d f) = uc_audio d (Some f)"

fun core_of_wire_assistant :: "wire_assistant \<Rightarrow> assistant_content" where
  "core_of_wire_assistant (WaText t) = ac_text t"
| "core_of_wire_assistant (WaRefusal r) = ac_text r"

fun core_of_wire :: "wire_message \<Rightarrow> conv_error + core_message" where
  "core_of_wire (WireUser content _) =
     bindR (okorR (Conversion ''Failed to create OneOrMany from content'') (om_many (map core_of_wire_user (om_list content)))) (\<lambda>c.
     Inr (CoreUser c))"
| "core_of_wire (WireAssistant content _ _ _ calls) =
     bindR (okorR (Conversion ''Neither `content` nor `tool_calls` was provided to the Message'')
       (om_many (map core_of_wire_assistant content @ map (\<lambda>t. AcToolCall (core_call_of_wire t)) calls))) (\<lambda>c.
     Inr (CoreAssistant None c))"
| "core_of_wire (WireToolResult i content) =
     bindR (okorR (Conversion ''Failed to create OneOrMany from mapped items'')
       (om_many (map (\<lambda>t. TrText (text_new t)) (om_list content)))) (\<lambda>c.
     Inr (CoreUser (om_one (UcToolResult \<lparr>res_id = i, res_call_id = None, res_content = c\<rparr>))))"
| "core_of_wire (WireSystem content _) =
     bindR (okorR (Conversion ''Failed to create OneOrMany from mapped items'')
       (om_many (map uc_text (om_list content)))) (\<lambda>c.
     Inr (CoreUser c))"

section \<open>JSON of the wire\<close>

text \<open>A member that is written only when it is there (\<open>skip_serializing_if\<close>).\<close>

definition opt_member :: "string \<Rightarrow> ('a \<Rightarrow> json) \<Rightarrow> 'a option \<Rightarrow> (string \<times> json) list" where
  "opt_member k f x = (case x of None \<Rightarrow> [] | Some v \<Rightarrow> [(k, f v)])"

definition text_item :: "string \<Rightarrow> json" where
  "text_item t = obj [(''type'', JStr ''text''), (''text'', JStr t)]"

fun assistant_item :: "wire_assistant \<Rightarrow> json" where
  "assistant_item (WaText t) = text_item t"
| "assistant_item (WaRefusal r) = obj [(''type'', JStr ''refusal''), (''refusal'', JStr r)]"

fun user_item :: "wire_user \<Rightarrow> json" where
  "user_item (WuText t) = text_item t"
| "user_item (WuImage url d) =
     obj [(''type'', JStr ''image_url''), (''image_url'', obj [(''url'', JStr url), (''detail'', JStr (detail_name d))])]"
| "user_item (WuAudio d f) =
     obj [(''type'', JStr ''audio''), (''input_audio'', obj [(''data'', JStr d), (''format'', JStr (audio_name f))])]"

definition wire_call_json :: "(json \<Rightarrow> string) \<Rightarrow> wire_tool_call \<Rightarrow> json" where
  "wire_call_json print t =
     obj [(''id'', JStr (wt_id t)), (''type'', JStr ''function''),
          (''function'', obj [(''name'', JStr (wt_name t)), (''arguments'', stringified_ser print (wt_arguments t))]),
          (''signature'', opt_str (wt_signature t)),
          (''additionalParams'', unwrap_or JNull (wt_params t))]"

fun wire_message_json :: "(json \<Rightarrow> string) \<Rightarrow> wire_message \<Rightarrow> json" where
  "wire_message_json print (WireSystem c n) =
     obj ([(''role'', JStr ''system''), (''content'', om_json text_item c)] @ opt_member ''name'' JStr n)"
| "wire_message_json print (WireUser c n) =
     obj ([(''role'', JStr ''user''), (''content'', om_json user_item c)] @ opt_member ''name'' JStr n)"
| "wire_message_json print (WireAssistant c refusal audio n calls) =
     obj ([(''role'', JStr ''assistant''), (''content'', JArr (map assistant_item c))] @
          opt_member ''refusal'' JStr refusal @ opt_member ''audio'' (\<lambda>i. obj [(''id'', JStr i)]) audio @
          opt_member ''name'' JStr n @
          (if calls = [] then [] else [(''tool_calls'', JArr (map (wire_call_json print) calls))]))"
| "wire_message_json print (WireToolResult i c) =
     obj [(''role'', JStr ''tool''), (''tool_call_id'', JStr i), (''content'', om_json text_item c)]"

text \<open>Reading a message of a response. A field \<open>type\<close> with a single variant may be absent, any other
  value of it fails.\<close>

definition type_is :: "string \<Rightarrow> json_map \<Rightarrow> bool" where
  "type_is t m \<longleftrightarrow> (case map_of m ''type'' of None \<Rightarrow> True | Some v \<Rightarrow> v = JStr t)"

fun text_of_item :: "json \<Rightarrow> string option" where
  "text_of_item (JObj m) = (if type_is ''text'' m then string_field m ''text'' else None)"
| "text_of_item _ = None"

fun assistant_of_item :: "json \<Rightarrow> wire_assistant option" where
  "assistant_of_item (JObj m) =
     (if map_of m ''type'' = Some (JStr ''text'') then map_option WaText (string_field m ''text'')
      else if map_of m ''type'' = Some (JStr ''refusal'') then map_option WaRefusal (string_field m ''refusal'')
      else None)"
| "assistant_of_item _ = None"

definition detail_of_json :: "json \<Rightarrow> image_detail option" where
  "detail_of_json j =
     (if j = JStr ''low'' then Some DetailLow else if j = JStr ''high'' then Some DetailHigh
      else if j = JStr ''auto'' then Some DetailAuto else None)"

definition audio_of_json :: "json \<Rightarrow> audio_media option" where
  "audio_of_json j =
     List.find (\<lambda>a. JStr (audio_name a) = j)
       [AuWAV, AuMP3, AuAIFF, AuAAC, AuOGG, AuFLAC, AuM4A, AuWEBM, AuPCM16, AuPCM24]"

fun user_of_item :: "json \<Rightarrow> wire_user option" where
  "user_of_item (JObj m) =
     (if map_of m ''type'' = Some (JStr ''text'') then map_option WuText (string_field m ''text'')
      else if map_of m ''type'' = Some (JStr ''image_url'') then
        (case map_of m ''image_url'' of
           Some (JObj i) \<Rightarrow>
             (case (string_field i ''url'', case map_of i ''detail'' of None \<Rightarrow> Some DetailAuto | Some d \<Rightarrow> detail_of_json d) of
                (Some url, Some d) \<Rightarrow> Some (WuImage url d)
              | _ \<Rightarrow> None)
         | _ \<Rightarrow> None)
      else if map_of m ''type'' = Some (JStr ''audio'') then
        (case map_of m ''input_audio'' of
           Some (JObj i) \<Rightarrow>
             (case (string_field i ''data'', Option.bind (map_of i ''format'') audio_of_json) of
                (Some d, Some f) \<Rightarrow> Some (WuAudio d f)
              | _ \<Rightarrow> None)
         | _ \<Rightarrow> None)
      else None)"
| "user_of_item _ = None"

fun wire_call_of_json :: "(string \<Rightarrow> json option) \<Rightarrow> json \<Rightarrow> wire_tool_call option" where
  "wire_call_of_json parse (JObj m) =
     (case (string_field m ''id'', type_is ''function'' m, map_of m ''function'', opt_field as_str m ''signature'') of
        (Some i, True, Some (JObj f), Some sig) \<Rightarrow>
          (case (string_field f ''name'', Option.bind (map_of f ''arguments'') (stringified_de parse)) of
             (Some n, Some a) \<Rightarrow>
               Some \<lparr>wt_id = i, wt_name = n, wt_arguments = a, wt_signature = sig,
                     wt_params = (case map_of m ''additionalParams'' of Some JNull \<Rightarrow> None | p \<Rightarrow> p)\<rparr>
           | _ \<Rightarrow> None)
      | _ \<Rightarrow> None)"
| "wire_call_of_json parse _ = None"

definition audio_id :: "json \<Rightarrow> string option" where
  "audio_id j = Option.bind (json_get ''id'' j) as_str"

fun wire_message_of_json :: "(string \<Rightarrow> json option) \<Rightarrow> json \<Rightarrow> wire_message option" where
  "wire_message_of_json parse (JObj m) =
     (let role = Option.bind (map_of m ''role'') as_str in
      if role = Some ''system'' \<or> role = Some ''developer'' then
        (case (Option.bind (map_of m ''content'') (string_or_one_or_many id text_of_item), opt_field as_str m ''name'') of
           (Some c, Some n) \<Rightarrow> Some (WireSystem c n)
         | _ \<Rightarrow> None)
      else if role = Some ''user'' then
        (case (Option.bind (map_of m ''content'') (string_or_one_or_many WuText user_of_item), opt_field as_str m ''name'') of
           (Some c, Some n) \<Rightarrow> Some (WireUser c n)
         | _ \<Rightarrow> None)
      else if role = Some ''assistant'' then
        (case (case map_of m ''content'' of None \<Rightarrow> Some [] | Some c \<Rightarrow> string_or_vec WaText assistant_of_item c,
               opt_field as_str m ''refusal'', opt_field audio_id m ''audio'', opt_field as_str m ''name'',
               case map_of m ''tool_calls'' of None \<Rightarrow> Some [] | Some c \<Rightarrow> null_or_vec (wire_call_of_json parse) c) of
           (Some c, Some r, Some a, Some n, Some calls) \<Rightarrow> Some (WireAssistant c r a n calls)
         | _ \<Rightarrow> None)
      else if role = Some ''tool'' then
        (case (string_field m ''tool_call_id'', Option.bind (map_of m ''content'') (om_of_json text_of_item)) of
           (Some i, Some c) \<Rightarrow> Some (WireToolResult i c)
         | _ \<Rightarrow> None)
      else None)"
| "wire_message_of_json parse _ = None"

section \<open>Request\<close>

record completion_request =
  rq_model :: string
  rq_messages :: "wire_message list"
  rq_tools :: "core_tool list"
  rq_tool_choice :: "wire_tool_choice option"
  rq_temperature :: "json option"
  rq_max_tokens :: "nat option"
  rq_params :: "json option"

definition request_from_history ::
  "string \<Rightarrow> string option \<Rightarrow> core_message list \<Rightarrow> core_tool list \<Rightarrow> core_tool_choice option \<Rightarrow> json option \<Rightarrow>
   nat option \<Rightarrow> json option \<Rightarrow> openai_error + completion_request" where
  "request_from_history model preamble history tools choice temperature max_tokens params =
     bindR (map_errR openai_of_conversion (collectR (map wire_of_core history))) (\<lambda>converted.
     let full = (case preamble of None \<Rightarrow> [] | Some p \<Rightarrow> [wire_system_text p]) @ concat converted in
     if full = [] then Inl (OaRequestBuild ''Completion request contained no messages'')
     else
       bindR (case choice of None \<Rightarrow> Inr None | Some c \<Rightarrow> bindR (tool_choice_to_wire c) (\<lambda>w. Inr (Some w))) (\<lambda>wc.
       Inr \<lparr>rq_model = model, rq_messages = full, rq_tools = tools, rq_tool_choice = wc, rq_temperature = temperature,
            rq_max_tokens = max_tokens, rq_params = params\<rparr>))"

definition tool_json :: "core_tool \<Rightarrow> json" where
  "tool_json t =
     obj [(''type'', JStr ''function''),
          (''function'', obj [(''name'', JStr (ct_name t)), (''parameters'', ct_parameters t),
                              (''description'', JStr (ct_description t))])]"

fun wire_choice_name :: "wire_tool_choice \<Rightarrow> string" where
  "wire_choice_name WcAuto = ''auto''"
| "wire_choice_name WcNone = ''none''"
| "wire_choice_name WcRequired = ''required''"

text \<open>What \<open>flatten\<close> adds: the members of an object, nothing for null, a failure for any other value.\<close>

fun flatten_members :: "json option \<Rightarrow> openai_error + (string \<times> json) list" where
  "flatten_members None = Inr []"
| "flatten_members (Some JNull) = Inr []"
| "flatten_members (Some (JObj m)) = Inr m"
| "flatten_members (Some (JBool _)) = Inl (OaResponseParse ''can only flatten structs and maps (got a boolean)'')"
| "flatten_members (Some (JInt _)) = Inl (OaResponseParse ''can only flatten structs and maps (got an integer)'')"
| "flatten_members (Some (JFloat _)) = Inl (OaResponseParse ''can only flatten structs and maps (got a float)'')"
| "flatten_members (Some (JStr _)) = Inl (OaResponseParse ''can only flatten structs and maps (got a string)'')"
| "flatten_members (Some (JArr _)) = Inl (OaResponseParse ''can only flatten structs and maps (got a sequence)'')"

definition request_members :: "(json \<Rightarrow> string) \<Rightarrow> completion_request \<Rightarrow> openai_error + (string \<times> json) list" where
  "request_members print r =
     bindR (flatten_members (rq_params r)) (\<lambda>extra.
     Inr ([(''model'', JStr (rq_model r)), (''messages'', JArr (map (wire_message_json print) (rq_messages r)))] @
          (if rq_tools r = [] then [] else [(''tools'', JArr (map tool_json (rq_tools r)))]) @
          opt_member ''tool_choice'' (\<lambda>c. JStr (wire_choice_name c)) (rq_tool_choice r) @
          opt_member ''temperature'' id (rq_temperature r) @
          opt_member ''max_tokens'' (\<lambda>n. JInt (int n)) (rq_max_tokens r) @ extra))"

definition stream_options :: json where
  "stream_options = obj [(''stream'', JBool True), (''stream_options'', obj [(''include_usage'', JBool True)])]"

definition streaming_body :: "(json \<Rightarrow> string) \<Rightarrow> completion_request \<Rightarrow> openai_error + json" where
  "streaming_body print r = bindR (request_members print r) (\<lambda>ms. Inr (json_merge (obj ms) stream_options))"

section \<open>Token counts\<close>

definition as_usize :: "json \<Rightarrow> nat option" where
  "as_usize j = map_option nat (as_u64 j)"

definition u64_at :: "string \<Rightarrow> json \<Rightarrow> nat" where
  "u64_at k j = unwrap_or 0 (Option.bind (json_get k j) as_usize)"

text \<open>\<open>cache_hit_input_tokens\<close>: the flat name of DeepSeek and the nested one of OpenAI, the larger of the two.\<close>

definition cache_hit_input_tokens :: "json \<Rightarrow> nat" where
  "cache_hit_input_tokens u =
     max (u64_at ''prompt_cache_hit_tokens'' u)
         (case json_get ''prompt_tokens_details'' u of None \<Rightarrow> 0 | Some d \<Rightarrow> u64_at ''cached_tokens'' d)"

record wire_usage =
  us_prompt :: nat
  us_completion :: nat
  us_total :: nat
  us_cached :: nat

definition usage_new :: wire_usage where
  "usage_new = \<lparr>us_prompt = 0, us_completion = 0, us_total = 0, us_cached = 0\<rparr>"

definition default_usize :: "json_map \<Rightarrow> string \<Rightarrow> nat option" where
  "default_usize m k = (case map_of m k of None \<Rightarrow> Some 0 | Some v \<Rightarrow> as_usize v)"

fun usage_of_json :: "json \<Rightarrow> wire_usage option" where
  "usage_of_json (JObj m) =
     (case (default_usize m ''prompt_tokens'', default_usize m ''completion_tokens'', default_usize m ''total_tokens'') of
        (Some p, Some c, Some t) \<Rightarrow>
          Some \<lparr>us_prompt = p, us_completion = c, us_total = t, us_cached = cache_hit_input_tokens (JObj m)\<rparr>
      | _ \<Rightarrow> None)"
| "usage_of_json _ = None"

definition show_usage :: "wire_usage \<Rightarrow> string" where
  "show_usage u = ''Prompt tokens: '' @ show_nat (us_prompt u) @ '' Total tokens: '' @ show_nat (us_total u)"

definition usage_tokens :: "wire_usage option \<Rightarrow> core_usage" where
  "usage_tokens u =
     (case u of
        Some u \<Rightarrow> \<lparr>cu_input = us_prompt u, cu_output = us_total u - us_prompt u, cu_total = us_total u,
                  cu_cached = us_cached u, cu_cache_creation = 0\<rparr>
      | None \<Rightarrow> core_usage_default)"

section \<open>Response\<close>

record wire_choice =
  wc_index :: nat
  wc_message :: wire_message
  wc_logprobs :: "json option"
  wc_finish_reason :: string

record completion_response =
  rs_id :: string
  rs_object :: "string option"
  rs_created :: nat
  rs_model :: string
  rs_fingerprint :: "string option"
  rs_choices :: "wire_choice list"
  rs_usage :: "wire_usage option"

fun choice_of_json :: "(string \<Rightarrow> json option) \<Rightarrow> json \<Rightarrow> wire_choice option" where
  "choice_of_json parse (JObj m) =
     (case (Option.bind (map_of m ''index'') as_usize, Option.bind (map_of m ''message'') (wire_message_of_json parse),
            string_field m ''finish_reason'') of
        (Some i, Some w, Some f) \<Rightarrow>
          Some \<lparr>wc_index = i, wc_message = w, wc_logprobs = (case map_of m ''logprobs'' of Some JNull \<Rightarrow> None | p \<Rightarrow> p),
                wc_finish_reason = f\<rparr>
      | _ \<Rightarrow> None)"
| "choice_of_json parse _ = None"

fun response_of_json :: "(string \<Rightarrow> json option) \<Rightarrow> json \<Rightarrow> completion_response option" where
  "response_of_json parse (JObj m) =
     (case (string_field m ''id'', opt_field as_str m ''object'', Option.bind (map_of m ''created'') as_usize,
            string_field m ''model'', opt_field as_str m ''system_fingerprint'',
            Option.bind (Option.bind (map_of m ''choices'') as_array) (\<lambda>cs. all_some (map (choice_of_json parse) cs)),
            opt_field usage_of_json m ''usage'') of
        (Some i, Some ob, Some c, Some mo, Some fp, Some cs, Some u) \<Rightarrow>
          Some \<lparr>rs_id = i, rs_object = ob, rs_created = c, rs_model = mo, rs_fingerprint = fp, rs_choices = cs, rs_usage = u\<rparr>
      | _ \<Rightarrow> None)"
| "response_of_json parse _ = None"

definition assistant_message :: "completion_response \<Rightarrow> wire_message option" where
  "assistant_message r = (case rs_choices r of [] \<Rightarrow> None | c # _ \<Rightarrow> Some (wc_message c))"

fun wire_assistant_string :: "wire_assistant \<Rightarrow> string" where
  "wire_assistant_string (WaText t) = t"
| "wire_assistant_string (WaRefusal r) = r"

definition response_text :: "completion_response \<Rightarrow> string option" where
  "response_text r =
     (case assistant_message r of
        Some (WireAssistant c _ _ _ _) \<Rightarrow> Some (concat (map wire_assistant_string c))
      | _ \<Rightarrow> None)"

definition response_tool_calls :: "completion_response \<Rightarrow> wire_tool_call list" where
  "response_tool_calls r =
     (case assistant_message r of Some (WireAssistant _ _ _ _ calls) \<Rightarrow> calls | _ \<Rightarrow> [])"

section \<open>Client\<close>

definition openai_api_base_url :: string where "openai_api_base_url = ''https://api.openai.com/v1''"

record oa_client =
  oc_base_url :: string
  oc_api_key :: string

definition client_new :: "string \<Rightarrow> oa_client" where
  "client_new key = \<lparr>oc_base_url = openai_api_base_url, oc_api_key = key\<rparr>"

definition client_with_base :: "string \<Rightarrow> oa_client \<Rightarrow> oa_client" where
  "client_with_base url c = c\<lparr>oc_base_url := url\<rparr>"

text \<open>\<open>from_env\<close>: none is the panic of a missing key.\<close>

definition client_from_env :: "(string \<Rightarrow> string option) \<Rightarrow> oa_client option" where
  "client_from_env env =
     (case env ''OPENAI_API_KEY'' of
        None \<Rightarrow> None
      | Some key \<Rightarrow>
          Some (case env ''OPENAI_BASE_URL'' of Some url \<Rightarrow> client_with_base url (client_new key) | None \<Rightarrow> client_new key))"

definition client_endpoint :: "oa_client \<Rightarrow> string \<Rightarrow> string" where
  "client_endpoint c path = oc_base_url c @ ''/'' @ dropWhile (\<lambda>x. x = CHR ''/'') path"

text \<open>A request as it leaves: method, URL, bearer token and, for a POST, its body.\<close>

record 'b http_call =
  hc_method :: string
  hc_url :: string
  hc_bearer :: string
  hc_body :: "'b option"

record http_answer =
  ha_status :: nat
  ha_text :: "string + string"

definition post_json :: "oa_client \<Rightarrow> string \<Rightarrow> 'b \<Rightarrow> 'b http_call" where
  "post_json c path body =
     \<lparr>hc_method = ''POST'', hc_url = client_endpoint c path, hc_bearer = oc_api_key c, hc_body = Some body\<rparr>"

definition get_bearer :: "oa_client \<Rightarrow> string \<Rightarrow> 'b http_call" where
  "get_bearer c path =
     \<lparr>hc_method = ''GET'', hc_url = client_endpoint c path, hc_bearer = oc_api_key c, hc_body = None\<rparr>"

definition is_success :: "nat \<Rightarrow> bool" where
  "is_success s \<longleftrightarrow> 200 \<le> s \<and> s \<le> 299"

definition text_or_default :: "http_answer \<Rightarrow> string" where
  "text_or_default a = (case ha_text a of Inl _ \<Rightarrow> [] | Inr t \<Rightarrow> t)"

definition error_from_response :: "http_answer \<Rightarrow> openai_error" where
  "error_from_response a = OaHttp (ha_status a) (text_or_default a)"

definition client_verify :: "('b http_call \<Rightarrow> string + http_answer) \<Rightarrow> oa_client \<Rightarrow> openai_error + unit" where
  "client_verify send c =
     (case send (get_bearer c ''/models'') of
        Inl e \<Rightarrow> Inl (OaTransport e)
      | Inr a \<Rightarrow>
          if is_success (ha_status a) then okR
          else if ha_status a = 401 then Inl (OaHttp 401 ''Invalid authentication'')
          else if 500 \<le> ha_status a then Inl (OaHttp (ha_status a) (text_or_default a))
          else okR)"

definition embedding_ndims :: "string \<Rightarrow> nat" where
  "embedding_ndims model =
     (if model = ''text-embedding-3-large'' then 3072
      else if model = ''text-embedding-3-small'' \<or> model = ''text-embedding-ada-002'' then 1536
      else 0)"

text \<open>\<open>ApiResponse\<close>: a response, else an object with a \<open>message\<close>, else a failure (\<open>shape_error\<close> is its text).\<close>

datatype 'a api_response = ApiOk 'a | ApiErr string

definition api_response_of_json :: "(json \<Rightarrow> 'a option) \<Rightarrow> json \<Rightarrow> 'a api_response option" where
  "api_response_of_json de j =
     (case de j of
        Some r \<Rightarrow> Some (ApiOk r)
      | None \<Rightarrow> map_option ApiErr (Option.bind (json_get ''message'' j) as_str))"

definition completion ::
  "(json \<Rightarrow> string) \<Rightarrow> (string \<Rightarrow> json option) \<Rightarrow> (string \<Rightarrow> string) \<Rightarrow>
   ((string \<times> json) list http_call \<Rightarrow> string + http_answer) \<Rightarrow> oa_client \<Rightarrow> completion_request \<Rightarrow>
   openai_error + completion_response" where
  "completion print parse shape_error send c r =
     bindR (request_members print r) (\<lambda>body.
     case send (post_json c ''/chat/completions'' body) of
       Inl e \<Rightarrow> Inl (OaTransport e)
     | Inr a \<Rightarrow>
         if \<not> is_success (ha_status a) then Inl (error_from_response a)
         else
           (case ha_text a of
              Inl e \<Rightarrow> Inl (OaTransport e)
            | Inr t \<Rightarrow>
                (case Option.bind (parse t) (api_response_of_json (response_of_json parse)) of
                   None \<Rightarrow> Inl (OaResponseParse (shape_error t))
                 | Some (ApiOk resp) \<Rightarrow> Inr resp
                 | Some (ApiErr msg) \<Rightarrow> Inl (OaHttp 200 msg))))"

end
