(* ===== verification/Ai_Responses.thy ===== *)
theory Ai_Responses
  imports Ai_Completion
begin

text \<open>
  The Responses API of the OpenAI-compatible provider (\<open>responses_api/mod.rs\<close>): the items of a request and
  how a message history becomes them, the strict schemas of the tools, the extra parameters, the request
  with its body, and the response with its conversion to the message model.

  A structure decodes from a JSON object only, and a name it does not know is passed over. \<open>debug\<close> is the
  \<open>Debug\<close> text of a content. A name that an item writes twice (\<open>role\<close>) carries the same value both times,
  so the object of an item keeps it once.
\<close>

section \<open>Items\<close>

datatype tool_status = TsInProgress | TsCompleted | TsIncomplete

fun tool_status_name :: "tool_status \<Rightarrow> string" where
  "tool_status_name TsInProgress = ''in_progress''"
| "tool_status_name TsCompleted = ''completed''"
| "tool_status_name TsIncomplete = ''incomplete''"

datatype item_role = ItemUser | ItemAssistant | ItemSystem

fun item_role_name :: "item_role \<Rightarrow> string" where
  "item_role_name ItemUser = ''user''"
| "item_role_name ItemAssistant = ''assistant''"
| "item_role_name ItemSystem = ''system''"

record openai_reasoning =
  or_id :: string
  or_summary :: "string list"
  or_encrypted :: "string option"
  or_status :: "tool_status option"

record function_output =
  fo_call_id :: string
  fo_output :: string
  fo_status :: tool_status

record output_call =
  oc_id :: string
  oc_arguments :: json
  oc_call_id :: string
  oc_name :: string
  oc_status :: tool_status

datatype resp_assistant = RaText text_part | RaRefusal string

datatype resp_assistant_type =
    RtText resp_assistant
  | RtCall output_call
  | RtReasoning openai_reasoning

datatype resp_user =
    RuText string
  | RuImage string image_detail
  | RuFile "string option" "string option" "string option"
  | RuAudio string audio_media
  | RuToolResult string string

datatype resp_message =
    RmSystem "string one_or_many" "string option"
  | RmUser "resp_user one_or_many" "string option"
  | RmAssistant "resp_assistant_type one_or_many" string "string option" tool_status
  | RmToolResult string string

datatype input_content =
    IcMessage resp_message
  | IcReasoning openai_reasoning
  | IcCall output_call
  | IcOutput function_output

record input_item =
  ii_role :: "item_role option"
  ii_input :: input_content

definition function_output_item :: "string \<Rightarrow> string \<Rightarrow> input_item" where
  "function_output_item c t =
     \<lparr>ii_role = None, ii_input = IcOutput \<lparr>fo_call_id = c, fo_output = t, fo_status = TsCompleted\<rparr>\<rparr>"

fun is_reasoning_type :: "resp_assistant_type \<Rightarrow> bool" where
  "is_reasoning_type (RtReasoning _) = True"
| "is_reasoning_type _ = False"

fun item_of_message :: "resp_message \<Rightarrow> input_item" where
  "item_of_message (RmUser c n) = \<lparr>ii_role = Some ItemUser, ii_input = IcMessage (RmUser c n)\<rparr>"
| "item_of_message (RmAssistant c i n s) =
     \<lparr>ii_role = (if list_ex is_reasoning_type (om_list c) then None else Some ItemAssistant),
      ii_input = IcMessage (RmAssistant c i n s)\<rparr>"
| "item_of_message (RmSystem c n) = \<lparr>ii_role = Some ItemSystem, ii_input = IcMessage (RmSystem c n)\<rparr>"
| "item_of_message (RmToolResult i out) = function_output_item i out"

section \<open>From the message model\<close>

definition user_item_of :: "resp_user \<Rightarrow> input_item" where
  "user_item_of u = \<lparr>ii_role = Some ItemUser, ii_input = IcMessage (RmUser (om_one u) None)\<rparr>"

definition raw_file_error :: openai_error where
  "raw_file_error = OaRequestBuild ''Raw file data not supported, encode as base64 first''"

definition unsupported_document :: "source_kind \<Rightarrow> openai_error" where
  "unsupported_document d = OaRequestBuild (''Unsupported document type: '' @ show_source_kind d)"

fun output_of_result :: "string \<Rightarrow> tool_result_content \<Rightarrow> openai_error + input_item" where
  "output_of_result c (TrText t) = Inr (function_output_item c (tx_text t))"
| "output_of_result c (TrImage _) = Inl (OaRequestBuild ''Responses API only supports text tool results'')"

fun items_of_user :: "(user_content \<Rightarrow> string) \<Rightarrow> user_content \<Rightarrow> openai_error + input_item list" where
  "items_of_user debug (UcText t) = Inr [user_item_of (RuText (tx_text t))]"
| "items_of_user debug (UcToolResult r) =
     collectR (map (output_of_result (unwrap_or (res_id r) (res_call_id r))) (om_list (res_content r)))"
| "items_of_user debug (UcDocument d) =
     (if do_media d = Some PDF then
        (case do_data d of
           SrcBase64 b \<Rightarrow> Inr [user_item_of (RuFile None (Some (''data:application/pdf;base64,'' @ b)) (Some ''document.pdf''))]
         | SrcUrl url \<Rightarrow> Inr [user_item_of (RuFile (Some url) None (Some ''document.pdf''))]
         | SrcRaw _ \<Rightarrow> Inl raw_file_error
         | doc \<Rightarrow> Inl (unsupported_document doc))
      else
        (case do_data d of
           SrcBase64 t \<Rightarrow> Inr [user_item_of (RuText t)]
         | SrcString t \<Rightarrow> Inr [user_item_of (RuText t)]
         | _ \<Rightarrow> Inl (OaRequestBuild (''Unsupported message: '' @ debug (UcDocument d)))))"
| "items_of_user debug (UcImage i) =
     (let item = (\<lambda>url. [user_item_of (RuImage url (unwrap_or DetailAuto (im_detail i)))]) in
      case im_data i of
        SrcBase64 b \<Rightarrow>
          Inr (item (''data:'' @ (case im_media i of None \<Rightarrow> [] | Some m \<Rightarrow> image_mime m) @ '';base64,'' @ b))
      | SrcUrl url \<Rightarrow> Inr (item url)
      | SrcRaw _ \<Rightarrow> Inl raw_file_error
      | doc \<Rightarrow> Inl (unsupported_document doc))"
| "items_of_user debug (UcAudio a) = Inl (OaRequestBuild (''Unsupported message: '' @ debug (UcAudio a)))"

definition call_item :: "core_tool_call \<Rightarrow> input_item" where
  "call_item t =
     \<lparr>ii_role = None, ii_input = IcCall
        \<lparr>oc_id = tc_id t, oc_arguments = fn_arguments (tc_function t), oc_call_id = unwrap_or [] (tc_call_id t),
         oc_name = fn_name (tc_function t), oc_status = TsCompleted\<rparr>\<rparr>"

fun item_of_assistant :: "string option \<Rightarrow> assistant_content \<Rightarrow> openai_error + input_item" where
  "item_of_assistant i (AcText t) =
     Inr \<lparr>ii_role = Some ItemAssistant,
          ii_input = IcMessage (RmAssistant (om_one (RtText (RaText (text_new (tx_text t))))) (unwrap_or [] i) None TsCompleted)\<rparr>"
| "item_of_assistant i (AcToolCall t) = Inr (call_item t)"
| "item_of_assistant i (AcReasoning r) =
     bindR (okorR (OaRequestBuild ''An OpenAI-generated ID is required when using OpenAI reasoning items'') (re_id r)) (\<lambda>rid.
     Inr \<lparr>ii_role = None, ii_input = IcReasoning
            \<lparr>or_id = rid, or_summary = map reasoning_text (re_content r), or_encrypted = None, or_status = None\<rparr>\<rparr>)"
| "item_of_assistant i (AcImage _) =
     Inl (OaRequestBuild ''OpenAI Responses API does not support image content in assistant messages'')"

fun items_of_core :: "(user_content \<Rightarrow> string) \<Rightarrow> core_message \<Rightarrow> openai_error + input_item list" where
  "items_of_core debug (CoreSystem s) =
     Inr [\<lparr>ii_role = Some ItemSystem, ii_input = IcMessage (RmSystem (om_one s) None)\<rparr>]"
| "items_of_core debug (CoreUser c) =
     bindR (collectR (map (items_of_user debug) (om_list c))) (\<lambda>iss. Inr (concat iss))"
| "items_of_core debug (CoreAssistant i c) = collectR (map (item_of_assistant i) (om_list c))"

section \<open>Tools\<close>

definition is_object_schema :: "json_map \<Rightarrow> bool" where
  "is_object_schema m \<longleftrightarrow> map_of m ''type'' = Some (JStr ''object'') \<or> map_of m ''properties'' \<noteq> None"

text \<open>The places of a schema that hold further schemas: one step of \<open>add_props_false\<close> with the recursive call
  as an argument.\<close>

definition in_schemas :: "(json \<Rightarrow> json) \<Rightarrow> string \<Rightarrow> json \<Rightarrow> json" where
  "in_schemas f k v =
     (if k = ''$defs'' \<or> k = ''properties'' then (case v of JObj d \<Rightarrow> JObj (map (\<lambda>(k, x). (k, f x)) d) | _ \<Rightarrow> v)
      else if k = ''items'' then f v
      else if k = ''anyOf'' \<or> k = ''oneOf'' \<or> k = ''allOf'' then (case v of JArr xs \<Rightarrow> JArr (map f xs) | _ \<Rightarrow> v)
      else v)"

lemma json_size_member: "(k, v) \<in> set m \<Longrightarrow> size v < size (JObj m)"
  by (induction m) auto

lemma json_size_elem: "v \<in> set xs \<Longrightarrow> size v < size (JArr xs)"
  by (induction xs) auto

lemma in_schemas_cong [fundef_cong]:
  assumes "k = k'" "v = v'" "\<And>x. size x \<le> size v' \<Longrightarrow> f x = g x"
  shows "in_schemas f k v = in_schemas g k' v'"
proof (cases v')
  case (JObj d)
  have "map (\<lambda>(k, x). (k, f x)) d = map (\<lambda>(k, x). (k, g x)) d"
    using assms(3) less_imp_le [OF json_size_member] unfolding JObj by (intro map_cong) auto
  moreover have "f v' = g v'" by (rule assms(3)) simp
  ultimately show ?thesis by (simp add: in_schemas_def assms(1,2) JObj)
next
  case (JArr xs)
  have "map f xs = map g xs"
    using assms(3) less_imp_le [OF json_size_elem] unfolding JArr by (intro map_cong) auto
  moreover have "f v' = g v'" by (rule assms(3)) simp
  ultimately show ?thesis by (simp add: in_schemas_def assms(1,2) JArr)
qed (simp_all add: in_schemas_def assms)

function add_props_false :: "json \<Rightarrow> json" where
  "add_props_false (JObj m) =
     JObj (let m' = map (\<lambda>(k, v). (k, in_schemas add_props_false k v)) m in
           if is_object_schema m \<and> map_of m ''additionalProperties'' = None
           then map_insert ''additionalProperties'' (JBool False) m' else m')"
| "add_props_false JNull = JNull"
| "add_props_false (JBool b) = JBool b"
| "add_props_false (JInt n) = JInt n"
| "add_props_false (JFloat t) = JFloat t"
| "add_props_false (JStr t) = JStr t"
| "add_props_false (JArr xs) = JArr xs"
  by pat_completeness auto

termination
  by (relation "measure size") (auto dest!: json_size_member simp del: json.size)

record resp_tool =
  rt_name :: string
  rt_parameters :: json
  rt_strict :: bool
  rt_kind :: string
  rt_description :: string

definition resp_tool_of :: "core_tool \<Rightarrow> resp_tool" where
  "resp_tool_of t =
     \<lparr>rt_name = ct_name t, rt_parameters = add_props_false (ct_parameters t), rt_strict = True, rt_kind = ''function'',
      rt_description = ct_description t\<rparr>"

text \<open>The schemas one level below, and a schema in which every object schema that is reached says something
  about further properties.\<close>

definition sub_schemas :: "string \<Rightarrow> json \<Rightarrow> json list" where
  "sub_schemas k v =
     (if k = ''$defs'' \<or> k = ''properties'' then (case v of JObj d \<Rightarrow> map snd d | _ \<Rightarrow> [])
      else if k = ''items'' then [v]
      else if k = ''anyOf'' \<or> k = ''oneOf'' \<or> k = ''allOf'' then (case v of JArr xs \<Rightarrow> xs | _ \<Rightarrow> [])
      else [])"

lemma sub_schemas_places:
  assumes "x \<in> set (sub_schemas k v)"
  shows "x = v \<or> (\<exists>d. v = JObj d \<and> x \<in> snd ` set d) \<or> (\<exists>xs. v = JArr xs \<and> x \<in> set xs)"
  using assms unfolding sub_schemas_def
  by (cases "k = ''$defs'' \<or> k = ''properties''"; cases "k = ''items''";
    cases "k = ''anyOf'' \<or> k = ''oneOf'' \<or> k = ''allOf''"; cases v) simp_all

lemma sub_schemas_size: "x \<in> set (sub_schemas k v) \<Longrightarrow> size x \<le> size v"
  by (drule sub_schemas_places) (use less_imp_le [OF json_size_member] less_imp_le [OF json_size_elem] in \<open>fastforce simp del: json.size\<close>)

definition members_below :: "json_map \<Rightarrow> json list" where
  "members_below m = concat (map (\<lambda>(k, v). sub_schemas k v) m)"

lemma members_below_size: "x \<in> set (members_below m) \<Longrightarrow> size x < size (JObj m)"
proof -
  assume "x \<in> set (members_below m)"
  then obtain k v where "(k, v) \<in> set m" "x \<in> set (sub_schemas k v)" by (auto simp: members_below_def)
  then show ?thesis using sub_schemas_size json_size_member order.strict_trans1 by blast
qed

definition closes_members :: "json_map \<Rightarrow> bool" where
  "closes_members m \<longleftrightarrow> (is_object_schema m \<longrightarrow> map_of m ''additionalProperties'' \<noteq> None)"

function closed_schema :: "json \<Rightarrow> bool" where
  "closed_schema (JObj m) \<longleftrightarrow> closes_members m \<and> list_all closed_schema (members_below m)"
| "closed_schema JNull \<longleftrightarrow> True"
| "closed_schema (JBool b) \<longleftrightarrow> True"
| "closed_schema (JInt n) \<longleftrightarrow> True"
| "closed_schema (JFloat t) \<longleftrightarrow> True"
| "closed_schema (JStr t) \<longleftrightarrow> True"
| "closed_schema (JArr xs) \<longleftrightarrow> True"
  by pat_completeness auto

termination
  by (relation "measure size") (auto dest: members_below_size simp del: json.size)

lemma sub_schemas_in: "sub_schemas k (in_schemas f k v) = map f (sub_schemas k v)"
  unfolding sub_schemas_def in_schemas_def
  by (cases "k = ''$defs'' \<or> k = ''properties''"; cases "k = ''items''";
    cases "k = ''anyOf'' \<or> k = ''oneOf'' \<or> k = ''allOf''"; cases v) (simp_all add: split_beta comp_def)

lemma members_below_in: "members_below (map (\<lambda>(k, v). (k, in_schemas f k v)) m) = map f (members_below m)"
  by (induction m) (auto simp: members_below_def sub_schemas_in)

lemma members_below_insert:
  "set (members_below (map_insert ''additionalProperties'' (JBool False) m)) \<subseteq> set (members_below m)"
proof (induction "''additionalProperties''" "JBool False" m rule: map_insert.induct)
  case 1
  then show ?case by (simp add: members_below_def sub_schemas_def)
next
  case (2 k' v' m)
  have "sub_schemas ''additionalProperties'' (JBool False) = []" by (simp add: sub_schemas_def)
  with 2 show ?case by (auto simp: members_below_def)
qed

lemma map_of_in_schemas:
  "map_of (map (\<lambda>(k, v). (k, in_schemas f k v)) m) k = map_option (in_schemas f k) (map_of m k)"
  by (induction m) auto

lemma in_schemas_str: "k \<noteq> ''items'' \<Longrightarrow> in_schemas f k v = JStr s \<longleftrightarrow> v = JStr s"
  by (cases v) (simp_all add: in_schemas_def)

lemma in_schemas_object: "is_object_schema (map (\<lambda>(k, v). (k, in_schemas f k v)) m) = is_object_schema m"
proof -
  have "map_of (map (\<lambda>(k, v). (k, in_schemas f k v)) m) ''type'' = Some (JStr s) \<longleftrightarrow> map_of m ''type'' = Some (JStr s)" for s
    unfolding map_of_in_schemas by (cases "map_of m ''type''") (simp_all add: in_schemas_str)
  moreover have "map_of (map (\<lambda>(k, v). (k, in_schemas f k v)) m) ''properties'' \<noteq> None \<longleftrightarrow> map_of m ''properties'' \<noteq> None"
    unfolding map_of_in_schemas by (cases "map_of m ''properties''") simp_all
  ultimately show ?thesis unfolding is_object_schema_def by simp
qed

lemma closes_members_added:
  fixes m f
  defines "m' \<equiv> map (\<lambda>(k, v). (k, in_schemas f k v)) m"
  shows "closes_members (if is_object_schema m \<and> map_of m ''additionalProperties'' = None
           then map_insert ''additionalProperties'' (JBool False) m' else m')"
proof (cases "is_object_schema m \<and> map_of m ''additionalProperties'' = None")
  case True
  then show ?thesis by (simp only: if_True closes_members_def map_of_insert_lookup) simp
next
  case False
  then have "is_object_schema m' \<longrightarrow> map_of m' ''additionalProperties'' \<noteq> None"
    unfolding m'_def in_schemas_object map_of_in_schemas by (cases "map_of m ''additionalProperties''") simp_all
  with False show ?thesis by (simp only: if_False closes_members_def)
qed

lemma add_props_closed: "closed_schema (add_props_false s)"
proof (induction s rule: add_props_false.induct)
  case (1 m)
  let ?m = "map (\<lambda>(k, v). (k, in_schemas add_props_false k v)) m"
  let ?r = "if is_object_schema m \<and> map_of m ''additionalProperties'' = None
            then map_insert ''additionalProperties'' (JBool False) ?m else ?m"
  have "closed_schema x" if "x \<in> set (members_below ?m)" for x
  proof -
    from that obtain y where y: "y \<in> set (members_below m)" "x = add_props_false y"
      by (auto simp: members_below_in)
    then obtain k v where "(k, v) \<in> set m" "y \<in> set (sub_schemas k v)" by (auto simp: members_below_def)
    from 1 [OF this(1) refl sub_schemas_size [OF this(2)]] y(2) show ?thesis by simp
  qed
  then have "list_all closed_schema (members_below ?r)"
    using members_below_insert [of ?m] by (auto simp: list_all_iff split: if_splits)
  then show ?case using closes_members_added [of m add_props_false] by (simp only: add_props_false.simps closed_schema.simps Let_def)
qed simp_all

lemma map_snd_same: "\<forall>x\<in>set (map snd d). f x = x \<Longrightarrow> map (\<lambda>(k, x). (k, f x)) d = d"
  by (induction d) auto

lemma in_schemas_same:
  assumes "\<forall>x\<in>set (sub_schemas k v). f x = x"
  shows "in_schemas f k v = v"
proof -
  have "map f xs = xs" if "\<forall>x\<in>set xs. f x = x" for xs using that by (simp add: map_idI)
  then show ?thesis
    using assms map_snd_same [of _ f] unfolding sub_schemas_def in_schemas_def
    by (cases "k = ''$defs'' \<or> k = ''properties''"; cases "k = ''items''";
      cases "k = ''anyOf'' \<or> k = ''oneOf'' \<or> k = ''allOf''"; cases v) simp_all
qed

lemma closed_unchanged: "closed_schema s \<Longrightarrow> add_props_false s = s"
proof (induction s rule: closed_schema.induct)
  case (1 m)
  then have *: "add_props_false x = x" if "x \<in> set (members_below m)" for x
    using that by (auto simp: list_all_iff)
  have "in_schemas add_props_false k v = v" if "(k, v) \<in> set m" for k v
    using that * by (intro in_schemas_same) (auto simp: members_below_def)
  then have "map (\<lambda>(k, v). (k, in_schemas add_props_false k v)) m = m" by (auto intro: map_idI)
  moreover have "\<not> (is_object_schema m \<and> map_of m ''additionalProperties'' = None)"
    using 1(2) by (auto simp: closes_members_def)
  ultimately show ?case by (simp only: add_props_false.simps Let_def if_False)
qed simp_all

end
