(* ===== verification/Ai_ResponsesWire.thy ===== *)
theory Ai_ResponsesWire
  imports Ai_Responses
begin

text \<open>
  The request and the response of the Responses API: the extra parameters and what their decoder keeps,
  the request from a history with its body, the response from its JSON and back to the message model, and
  one exchange with the endpoint.
\<close>

section \<open>Extra parameters\<close>

datatype truncation = TruncAuto | TruncDisabled

datatype text_format = TfJsonSchema string json bool | TfText

datatype reasoning_effort = EffNone | EffMinimal | EffLow | EffMedium | EffHigh

datatype summary_level = SlAuto | SlConcise | SlDetailed

record reasoning_config =
  rg_effort :: "reasoning_effort option"
  rg_summary :: "summary_level option"

datatype service_tier = TierAuto | TierDefault | TierFlex

datatype include_item =
    IncFileSearch
  | IncInputImage
  | IncComputerCall
  | IncReasoning
  | IncCodeInterpreter

record request_extra =
  ep_background :: "bool option"
  ep_text :: "text_format option"
  ep_include :: "include_item list option"
  ep_top_p :: "json option"
  ep_truncation :: "truncation option"
  ep_user :: "string option"
  ep_metadata :: json_map
  ep_parallel :: "bool option"
  ep_previous :: "string option"
  ep_reasoning :: "reasoning_config option"
  ep_tier :: "service_tier option"
  ep_store :: "bool option"

definition extra_default :: request_extra where
  "extra_default =
     \<lparr>ep_background = None, ep_text = None, ep_include = None, ep_top_p = None, ep_truncation = None, ep_user = None,
      ep_metadata = [], ep_parallel = None, ep_previous = None, ep_reasoning = None, ep_tier = None, ep_store = None\<rparr>"

text \<open>The names serde reads and writes for the variants of an enumeration.\<close>

definition variant_of :: "('a \<times> string) list \<Rightarrow> json \<Rightarrow> 'a option" where
  "variant_of names j = map_option fst (List.find (\<lambda>(_, n). JStr n = j) names)"

definition name_of :: "('a \<times> string) list \<Rightarrow> 'a \<Rightarrow> json" where
  "name_of names x = JStr (unwrap_or [] (map_of names x))"

definition truncation_names :: "(truncation \<times> string) list" where
  "truncation_names = [(TruncAuto, ''auto''), (TruncDisabled, ''disabled'')]"

definition effort_names :: "(reasoning_effort \<times> string) list" where
  "effort_names = [(EffNone, ''none''), (EffMinimal, ''minimal''), (EffLow, ''low''), (EffMedium, ''medium''), (EffHigh, ''high'')]"

definition summary_names :: "(summary_level \<times> string) list" where
  "summary_names = [(SlAuto, ''auto''), (SlConcise, ''concise''), (SlDetailed, ''detailed'')]"

definition tier_names :: "(service_tier \<times> string) list" where
  "tier_names = [(TierAuto, ''auto''), (TierDefault, ''default''), (TierFlex, ''flex'')]"

definition include_names :: "(include_item \<times> string) list" where
  "include_names =
     [(IncFileSearch, ''file_search_call.results''), (IncInputImage, ''message.input_image.image_url''),
      (IncComputerCall, ''computer_call.output.image_url''), (IncReasoning, ''reasoning.encrypted_content''),
      (IncCodeInterpreter, ''code_interpreter_call.outputs'')]"

fun as_bool :: "json \<Rightarrow> bool option" where
  "as_bool (JBool b) = Some b"
| "as_bool _ = None"

fun text_of_json :: "json \<Rightarrow> text_format option" where
  "text_of_json (JObj m) =
     (case map_of m ''format'' of
        Some (JObj f) \<Rightarrow>
          (if map_of f ''type'' = Some (JStr ''text'') then Some TfText
           else if map_of f ''type'' = Some (JStr ''json_schema'') then
             (case (string_field f ''name'', map_of f ''schema'', Option.bind (map_of f ''strict'') as_bool) of
                (Some n, Some sc, Some st) \<Rightarrow> Some (TfJsonSchema n sc st)
              | _ \<Rightarrow> None)
           else None)
      | _ \<Rightarrow> None)"
| "text_of_json _ = None"

fun text_json :: "text_format \<Rightarrow> json" where
  "text_json TfText = obj [(''format'', obj [(''type'', JStr ''text'')])]"
| "text_json (TfJsonSchema n sc st) =
     obj [(''format'', obj [(''type'', JStr ''json_schema''), (''name'', JStr n), (''schema'', sc), (''strict'', JBool st)])]"

fun reasoning_of_json :: "json \<Rightarrow> reasoning_config option" where
  "reasoning_of_json (JObj m) =
     (case (opt_field (variant_of effort_names) m ''effort'', opt_field (variant_of summary_names) m ''summary'') of
        (Some e, Some l) \<Rightarrow> Some \<lparr>rg_effort = e, rg_summary = l\<rparr>
      | _ \<Rightarrow> None)"
| "reasoning_of_json _ = None"

definition reasoning_json :: "reasoning_config \<Rightarrow> json" where
  "reasoning_json r =
     obj ((''effort'', case rg_effort r of None \<Rightarrow> JNull | Some e \<Rightarrow> name_of effort_names e) #
          opt_member ''summary'' (name_of summary_names) (rg_summary r))"

definition includes_of_json :: "json \<Rightarrow> include_item list option" where
  "includes_of_json j = Option.bind (as_array j) (\<lambda>xs. all_some (map (variant_of include_names) xs))"

definition extra_of_members :: "json_map \<Rightarrow> request_extra option" where
  "extra_of_members m =
     (case (opt_field as_bool m ''background'', opt_field text_of_json m ''text'', opt_field includes_of_json m ''include'',
            opt_field as_number m ''top_p'', opt_field (variant_of truncation_names) m ''truncation'',
            opt_field as_str m ''user'',
            case map_of m ''metadata'' of None \<Rightarrow> Some [] | Some v \<Rightarrow> as_object v,
            opt_field as_bool m ''parallel_tool_calls'', opt_field as_str m ''previous_response_id'',
            opt_field reasoning_of_json m ''reasoning'', opt_field (variant_of tier_names) m ''service_tier'',
            opt_field as_bool m ''store'') of
        (Some bg, Some tx, Some inc, Some tp, Some tr, Some us, Some md, Some pa, Some pr, Some rg, Some ti, Some st) \<Rightarrow>
          Some \<lparr>ep_background = bg, ep_text = tx, ep_include = inc, ep_top_p = tp, ep_truncation = tr, ep_user = us,
                ep_metadata = md, ep_parallel = pa, ep_previous = pr, ep_reasoning = rg, ep_tier = ti, ep_store = st\<rparr>
      | _ \<Rightarrow> None)"

fun extra_of_json :: "json \<Rightarrow> request_extra option" where
  "extra_of_json (JObj m) = extra_of_members m"
| "extra_of_json _ = None"

definition extra_members :: "request_extra \<Rightarrow> (string \<times> json) list" where
  "extra_members p =
     opt_member ''background'' JBool (ep_background p) @ opt_member ''text'' text_json (ep_text p) @
     opt_member ''include'' (\<lambda>is. JArr (map (name_of include_names) is)) (ep_include p) @
     opt_member ''top_p'' id (ep_top_p p) @ opt_member ''truncation'' (name_of truncation_names) (ep_truncation p) @
     opt_member ''user'' JStr (ep_user p) @
     (if ep_metadata p = [] then [] else [(''metadata'', JObj (ep_metadata p))]) @
     opt_member ''parallel_tool_calls'' JBool (ep_parallel p) @ opt_member ''previous_response_id'' JStr (ep_previous p) @
     opt_member ''reasoning'' reasoning_json (ep_reasoning p) @ opt_member ''service_tier'' (name_of tier_names) (ep_tier p) @
     opt_member ''store'' JBool (ep_store p)"

definition extra_known :: "string list" where
  "extra_known =
     [''background'', ''text'', ''include'', ''top_p'', ''truncation'', ''user'', ''metadata'', ''parallel_tool_calls'',
      ''previous_response_id'', ''reasoning'', ''service_tier'', ''store'']"

section \<open>Request\<close>

record responses_request =
  rr_input :: "input_item one_or_many"
  rr_model :: string
  rr_instructions :: "string option"
  rr_max_output :: "nat option"
  rr_stream :: "bool option"
  rr_temperature :: "json option"
  rr_tool_choice :: "wire_tool_choice option"
  rr_tools :: "resp_tool list"
  rr_extra :: request_extra

text \<open>\<open>shape_error\<close> is the text of the failure to decode the extra parameters.\<close>

definition responses_from_history ::
  "(user_content \<Rightarrow> string) \<Rightarrow> (json \<Rightarrow> string) \<Rightarrow> string \<Rightarrow> string option \<Rightarrow> core_message list \<Rightarrow> core_tool list \<Rightarrow>
   core_tool_choice option \<Rightarrow> json option \<Rightarrow> nat option \<Rightarrow> json option \<Rightarrow> openai_error + responses_request" where
  "responses_from_history debug shape_error model preamble history tools choice temperature max_tokens params =
     bindR (collectR (map (items_of_core debug) history)) (\<lambda>iss.
     bindR (okorR (OaRequestBuild ''Completion request contained no input messages'') (om_many (concat iss))) (\<lambda>input.
     let stream = as_bool (unwrap_or JNull params) in
     bindR (case params of
              None \<Rightarrow> Inr extra_default
            | Some p \<Rightarrow> okorR (OaResponseParse (shape_error p)) (extra_of_json p)) (\<lambda>extra.
     bindR (case choice of None \<Rightarrow> Inr None | Some c \<Rightarrow> bindR (tool_choice_to_wire c) (\<lambda>w. Inr (Some w))) (\<lambda>wc.
     Inr \<lparr>rr_input = input, rr_model = model, rr_instructions = preamble, rr_max_output = max_tokens, rr_stream = stream,
          rr_temperature = temperature, rr_tool_choice = wc, rr_tools = map resp_tool_of tools, rr_extra = extra\<rparr>))))"

definition with_structured_outputs :: "string \<Rightarrow> json \<Rightarrow> responses_request \<Rightarrow> responses_request" where
  "with_structured_outputs n sc r = r\<lparr>rr_extra := (rr_extra r)\<lparr>ep_text := Some (TfJsonSchema n sc True)\<rparr>\<rparr>"

definition with_reasoning :: "reasoning_config \<Rightarrow> responses_request \<Rightarrow> responses_request" where
  "with_reasoning g r = r\<lparr>rr_extra := (rr_extra r)\<lparr>ep_reasoning := Some g\<rparr>\<rparr>"

text \<open>The body: the JSON of an item, a tool and a request.\<close>

definition text_part_members :: "text_part \<Rightarrow> (string \<times> json) list" where
  "text_part_members t = (''text'', JStr (tx_text t)) # (case tx_params t of Some (JObj m) \<Rightarrow> m | _ \<Rightarrow> [])"

fun resp_assistant_json :: "resp_assistant \<Rightarrow> json" where
  "resp_assistant_json (RaText t) = obj ((''type'', JStr ''output_text'') # text_part_members t)"
| "resp_assistant_json (RaRefusal r) = obj [(''type'', JStr ''refusal''), (''refusal'', JStr r)]"

definition call_members :: "(json \<Rightarrow> string) \<Rightarrow> output_call \<Rightarrow> (string \<times> json) list" where
  "call_members print c =
     [(''id'', JStr (oc_id c)), (''arguments'', stringified_ser print (oc_arguments c)), (''call_id'', JStr (oc_call_id c)),
      (''name'', JStr (oc_name c)), (''status'', JStr (tool_status_name (oc_status c)))]"

definition summary_json :: "string \<Rightarrow> json" where
  "summary_json t = obj [(''type'', JStr ''summary_text''), (''text'', JStr t)]"

definition reasoning_members :: "openai_reasoning \<Rightarrow> (string \<times> json) list" where
  "reasoning_members r =
     [(''id'', JStr (or_id r)), (''summary'', JArr (map summary_json (or_summary r))),
      (''encrypted_content'', opt_str (or_encrypted r))] @
     opt_member ''status'' (\<lambda>s. JStr (tool_status_name s)) (or_status r)"

fun assistant_type_json :: "(json \<Rightarrow> string) \<Rightarrow> resp_assistant_type \<Rightarrow> json" where
  "assistant_type_json print (RtText a) = resp_assistant_json a"
| "assistant_type_json print (RtCall c) = obj (call_members print c)"
| "assistant_type_json print (RtReasoning r) = obj (reasoning_members r)"

fun resp_user_json :: "resp_user \<Rightarrow> json" where
  "resp_user_json (RuText t) = obj [(''type'', JStr ''input_text''), (''text'', JStr t)]"
| "resp_user_json (RuImage url d) =
     obj [(''type'', JStr ''input_image''), (''image_url'', JStr url), (''detail'', JStr (detail_name d))]"
| "resp_user_json (RuFile url d n) =
     obj ((''type'', JStr ''input_file'') # opt_member ''file_url'' JStr url @ opt_member ''file_data'' JStr d @
          opt_member ''filename'' JStr n)"
| "resp_user_json (RuAudio d f) =
     obj [(''type'', JStr ''audio''), (''input_audio'', obj [(''data'', JStr d), (''format'', JStr (audio_name f))])]"
| "resp_user_json (RuToolResult i t) =
     obj [(''type'', JStr ''tool''), (''tool_call_id'', JStr i), (''output'', JStr t)]"

fun resp_message_members :: "(json \<Rightarrow> string) \<Rightarrow> resp_message \<Rightarrow> (string \<times> json) list" where
  "resp_message_members print (RmSystem c n) =
     [(''role'', JStr ''system''), (''content'', om_json text_item c)] @ opt_member ''name'' JStr n"
| "resp_message_members print (RmUser c n) =
     [(''role'', JStr ''user''), (''content'', om_json resp_user_json c)] @ opt_member ''name'' JStr n"
| "resp_message_members print (RmAssistant c i n s) =
     [(''role'', JStr ''assistant''), (''content'', om_json (assistant_type_json print) c)] @
     (if i = [] then [] else [(''id'', JStr i)]) @ opt_member ''name'' JStr n @ [(''status'', JStr (tool_status_name s))]"
| "resp_message_members print (RmToolResult i t) =
     [(''role'', JStr ''tool''), (''tool_call_id'', JStr i), (''output'', JStr t)]"

fun input_content_members :: "(json \<Rightarrow> string) \<Rightarrow> input_content \<Rightarrow> (string \<times> json) list" where
  "input_content_members print (IcMessage m) = (''type'', JStr ''message'') # resp_message_members print m"
| "input_content_members print (IcReasoning r) = (''type'', JStr ''reasoning'') # reasoning_members r"
| "input_content_members print (IcCall c) = (''type'', JStr ''function_call'') # call_members print c"
| "input_content_members print (IcOutput f) =
     [(''type'', JStr ''function_call_output''), (''call_id'', JStr (fo_call_id f)), (''output'', JStr (fo_output f)),
      (''status'', JStr (tool_status_name (fo_status f)))]"

definition input_item_json :: "(json \<Rightarrow> string) \<Rightarrow> input_item \<Rightarrow> json" where
  "input_item_json print i =
     obj (opt_member ''role'' (\<lambda>r. JStr (item_role_name r)) (ii_role i) @ input_content_members print (ii_input i))"

definition resp_tool_json :: "resp_tool \<Rightarrow> json" where
  "resp_tool_json t =
     obj [(''name'', JStr (rt_name t)), (''parameters'', rt_parameters t), (''strict'', JBool (rt_strict t)),
          (''type'', JStr (rt_kind t)), (''description'', JStr (rt_description t))]"

definition responses_members :: "(json \<Rightarrow> string) \<Rightarrow> responses_request \<Rightarrow> (string \<times> json) list" where
  "responses_members print r =
     [(''input'', om_json (input_item_json print) (rr_input r)), (''model'', JStr (rr_model r))] @
     opt_member ''instructions'' JStr (rr_instructions r) @
     opt_member ''max_output_tokens'' (\<lambda>n. JInt (int n)) (rr_max_output r) @ opt_member ''stream'' JBool (rr_stream r) @
     opt_member ''temperature'' id (rr_temperature r) @
     opt_member ''tool_choice'' (\<lambda>c. JStr (wire_choice_name c)) (rr_tool_choice r) @
     (if rr_tools r = [] then [] else [(''tools'', JArr (map resp_tool_json (rr_tools r)))]) @
     extra_members (rr_extra r)"

end
