(* ===== verification/Ai_CompletionStream.thy ===== *)
theory Ai_CompletionStream
  imports Ai_Completion
begin

text \<open>
  The stream of Chat Completions (\<open>completion/streaming.rs\<close>): the chunks, the tool calls that are put
  together from fragments, and the events the caller sees. A run reads a list of server-sent events, the
  end of the list is the end of the response; the calls that are still open when it ends come out in the
  order of a hash map, an argument \<open>order\<close>.
\<close>

section \<open>Chunks\<close>

record call_fragment =
  fr_index :: nat
  fr_id :: "string option"
  fr_name :: "string option"
  fr_arguments :: string

record stream_chunk =
  sk_deltas :: "(string option \<times> call_fragment list) list"
  sk_usage :: "wire_usage option"

fun fragment_of_json :: "json \<Rightarrow> call_fragment option" where
  "fragment_of_json (JObj m) =
     (case (Option.bind (map_of m ''index'') as_usize, opt_field as_str m ''id'', map_of m ''function'') of
        (Some i, Some cid, Some (JObj f)) \<Rightarrow>
          (case (opt_field as_str f ''name'', default_string f ''arguments'') of
             (Some n, Some a) \<Rightarrow> Some \<lparr>fr_index = i, fr_id = cid, fr_name = n, fr_arguments = a\<rparr>
           | _ \<Rightarrow> None)
      | _ \<Rightarrow> None)"
| "fragment_of_json _ = None"

fun delta_of_choice :: "json \<Rightarrow> (string option \<times> call_fragment list) option" where
  "delta_of_choice (JObj c) =
     (case map_of c ''delta'' of
        Some (JObj d) \<Rightarrow>
          (case (opt_field as_str d ''content'',
                 case map_of d ''tool_calls'' of None \<Rightarrow> Some [] | Some t \<Rightarrow> null_or_vec fragment_of_json t) of
             (Some t, Some fs) \<Rightarrow> Some (t, fs)
           | _ \<Rightarrow> None)
      | _ \<Rightarrow> None)"
| "delta_of_choice _ = None"

fun chunk_of_json :: "json \<Rightarrow> stream_chunk option" where
  "chunk_of_json (JObj m) =
     (case (case map_of m ''choices'' of
              None \<Rightarrow> Some []
            | Some (JArr cs) \<Rightarrow> all_some (map delta_of_choice cs)
            | Some _ \<Rightarrow> None,
            opt_field usage_of_json m ''usage'') of
        (Some ds, Some u) \<Rightarrow> Some \<lparr>sk_deltas = ds, sk_usage = u\<rparr>
      | _ \<Rightarrow> None)"
| "chunk_of_json _ = None"

section \<open>Events\<close>

datatype delta_content = DcName string | DcDelta string

datatype stream_choice =
    StText string
  | StToolCall string "string option" string json
  | StToolCallDelta string delta_content
  | StFinal wire_usage

type_synonym open_call = "string \<times> string \<times> string"
type_synonym open_calls = "(nat \<times> open_call) list"

fun put_call :: "nat \<Rightarrow> open_call \<Rightarrow> open_calls \<Rightarrow> open_calls" where
  "put_call i c [] = [(i, c)]"
| "put_call i c ((j, d) # cs) = (if i = j then (i, c) # cs else (j, d) # put_call i c cs)"

definition starts_call :: "call_fragment \<Rightarrow> bool" where
  "starts_call f \<longleftrightarrow> fr_name f \<noteq> None \<and> fr_arguments f = []"

definition continues_call :: "call_fragment \<Rightarrow> bool" where
  "continues_call f \<longleftrightarrow> (fr_name f = None \<or> fr_name f = Some []) \<and> fr_arguments f \<noteq> []"

definition on_fragment ::
  "(string \<Rightarrow> json option) \<Rightarrow> call_fragment \<Rightarrow> open_calls \<Rightarrow> open_calls \<times> stream_choice list" where
  "on_fragment parse f calls =
     (if starts_call f then
        (put_call (fr_index f) (unwrap_or [] (fr_id f), the (fr_name f), []) calls, [])
      else if continues_call f then
        (case map_of calls (fr_index f) of
           Some (cid, n, args) \<Rightarrow>
             (put_call (fr_index f) (cid, n, args @ fr_arguments f) calls, [StToolCallDelta cid (DcDelta (fr_arguments f))])
         | None \<Rightarrow> (calls, []))
      else
        (calls,
         case fr_name f of
           None \<Rightarrow> []
         | Some n \<Rightarrow>
             (case parse (fr_arguments f) of
                None \<Rightarrow> []
              | Some v \<Rightarrow> [StToolCall (unwrap_or [] (fr_id f)) None n v])))"

fun on_fragments ::
  "(string \<Rightarrow> json option) \<Rightarrow> call_fragment list \<Rightarrow> open_calls \<Rightarrow> open_calls \<times> stream_choice list" where
  "on_fragments parse [] calls = (calls, [])"
| "on_fragments parse (f # fs) calls =
     (let (calls1, out1) = on_fragment parse f calls;
          (calls2, out2) = on_fragments parse fs calls1
      in (calls2, out1 @ out2))"

record stream_state =
  ss_calls :: open_calls
  ss_usage :: wire_usage

definition stream_init :: stream_state where
  "stream_init = \<lparr>ss_calls = [], ss_usage = usage_new\<rparr>"

definition on_chunk ::
  "(string \<Rightarrow> json option) \<Rightarrow> stream_chunk \<Rightarrow> stream_state \<Rightarrow> stream_state \<times> stream_choice list" where
  "on_chunk parse k st =
     (let (calls, out) =
            (case sk_deltas k of
               [] \<Rightarrow> (ss_calls st, [])
             | (content, fs) # _ \<Rightarrow>
                 (let (calls1, out1) = on_fragments parse fs (ss_calls st)
                  in (calls1, out1 @ (case content of None \<Rightarrow> [] | Some t \<Rightarrow> [StText t]))))
      in (\<lparr>ss_calls = calls, ss_usage = unwrap_or (ss_usage st) (sk_usage k)\<rparr>, out))"

datatype sse_item = SseData string | SseFailed string

text \<open>One message: a keep-alive, the end marker and a text that is no chunk are passed over.\<close>

definition chunk_of_data :: "(string \<Rightarrow> json option) \<Rightarrow> string \<Rightarrow> stream_chunk option" where
  "chunk_of_data parse d =
     (if trim_is_empty d \<or> trim_str d = ''[DONE]'' then None else Option.bind (parse d) chunk_of_json)"

fun flush_calls :: "(string \<Rightarrow> json option) \<Rightarrow> open_calls \<Rightarrow> stream_choice list" where
  "flush_calls parse [] = []"
| "flush_calls parse ((_, cid, n, args) # cs) =
     (case parse args of None \<Rightarrow> [] | Some v \<Rightarrow> [StToolCall cid None n v]) @ flush_calls parse cs"

fun stream_run ::
  "(string \<Rightarrow> json option) \<Rightarrow> (open_calls \<Rightarrow> open_calls) \<Rightarrow> sse_item list \<Rightarrow> stream_state \<Rightarrow> (openai_error + stream_choice) list" where
  "stream_run parse order [] st = map Inr (flush_calls parse (order (ss_calls st)) @ [StFinal (ss_usage st)])"
| "stream_run parse order (SseFailed e # _) st =
     Inl (OaStream e) # map Inr (flush_calls parse (order (ss_calls st)) @ [StFinal (ss_usage st)])"
| "stream_run parse order (SseData d # es) st =
     (case chunk_of_data parse d of
        None \<Rightarrow> stream_run parse order es st
      | Some k \<Rightarrow> (let (st', out) = on_chunk parse k st in map Inr out @ stream_run parse order es st'))"

definition stream_chat_completions ::
  "(json \<Rightarrow> string) \<Rightarrow> (string \<Rightarrow> json option) \<Rightarrow> (open_calls \<Rightarrow> open_calls) \<Rightarrow>
   (json http_call \<Rightarrow> string + http_answer \<times> sse_item list) \<Rightarrow> oa_client \<Rightarrow> completion_request \<Rightarrow>
   openai_error + (openai_error + stream_choice) list" where
  "stream_chat_completions print parse order send c r =
     bindR (streaming_body print r) (\<lambda>body.
     case send (post_json c ''/chat/completions'' body) of
       Inl e \<Rightarrow> Inl (OaTransport e)
     | Inr (a, es) \<Rightarrow>
         if is_success (ha_status a) then Inr (stream_run parse order es stream_init) else Inl (error_from_response a))"

definition streaming_usage_tokens :: "wire_usage \<Rightarrow> core_usage" where
  "streaming_usage_tokens u =
     \<lparr>cu_input = us_prompt u, cu_output = us_total u - us_prompt u, cu_total = us_total u, cu_cached = us_cached u,
      cu_cache_creation = 0\<rparr>"

section \<open>What a run reads\<close>

fun chunks_read :: "(string \<Rightarrow> json option) \<Rightarrow> sse_item list \<Rightarrow> stream_chunk list" where
  "chunks_read parse [] = []"
| "chunks_read parse (SseFailed _ # _) = []"
| "chunks_read parse (SseData d # es) =
     (case chunk_of_data parse d of None \<Rightarrow> [] | Some k \<Rightarrow> [k]) @ chunks_read parse es"

definition first_delta :: "stream_chunk \<Rightarrow> string option \<times> call_fragment list" where
  "first_delta k = (case sk_deltas k of [] \<Rightarrow> (None, []) | d # _ \<Rightarrow> d)"

definition fragments_read :: "(string \<Rightarrow> json option) \<Rightarrow> sse_item list \<Rightarrow> call_fragment list" where
  "fragments_read parse es = concat (map (snd \<circ> first_delta) (chunks_read parse es))"

definition text_read :: "(string \<Rightarrow> json option) \<Rightarrow> sse_item list \<Rightarrow> string" where
  "text_read parse es = concat (map (\<lambda>k. unwrap_or [] (fst (first_delta k))) (chunks_read parse es))"

definition usage_read :: "(string \<Rightarrow> json option) \<Rightarrow> sse_item list \<Rightarrow> wire_usage" where
  "usage_read parse es =
     (case rev (List.map_filter sk_usage (chunks_read parse es)) of [] \<Rightarrow> usage_new | u # _ \<Rightarrow> u)"

fun text_of_choice :: "openai_error + stream_choice \<Rightarrow> string" where
  "text_of_choice (Inr (StText t)) = t"
| "text_of_choice _ = []"

section \<open>Facts\<close>

lemma put_call_lookup [simp]: "map_of (put_call i c cs) j = (if j = i then Some c else map_of cs j)"
  by (induction i c cs rule: put_call.induct) auto

lemma put_call_keys: "set (map fst (put_call i c cs)) = insert i (set (map fst cs))"
  by (induction i c cs rule: put_call.induct) auto

lemma put_call_distinct: "distinct (map fst cs) \<Longrightarrow> distinct (map fst (put_call i c cs))"
  by (induction i c cs rule: put_call.induct) (auto simp: put_call_keys [unfolded set_map])

lemma fragment_distinct: "distinct (map fst cs) \<Longrightarrow> distinct (map fst (fst (on_fragment parse f cs)))"
  by (auto simp: on_fragment_def put_call_distinct split: option.split)

lemma fragments_distinct: "distinct (map fst cs) \<Longrightarrow> distinct (map fst (fst (on_fragments parse fs cs)))"
  by (induction fs arbitrary: cs) (auto simp: Let_def split_beta fragment_distinct)

text \<open>A fragment of one call leaves the others alone.\<close>

lemma fragment_other: "fr_index f \<noteq> i \<Longrightarrow> map_of (fst (on_fragment parse f cs)) i = map_of cs i"
  by (auto simp: on_fragment_def split: option.split)

lemma fragment_start:
  "starts_call f \<Longrightarrow> map_of (fst (on_fragment parse f cs)) (fr_index f) = Some (unwrap_or [] (fr_id f), the (fr_name f), [])"
  by (simp add: on_fragment_def)

lemma continues_not_starts: "continues_call f \<Longrightarrow> \<not> starts_call f"
  by (simp add: continues_call_def starts_call_def)

lemma fragment_continue:
  "continues_call f \<Longrightarrow> map_of cs (fr_index f) = Some (cid, n, args) \<Longrightarrow>
     map_of (fst (on_fragment parse f cs)) (fr_index f) = Some (cid, n, args @ fr_arguments f)"
  by (simp add: on_fragment_def continues_not_starts)

lemma fragments_other:
  "\<forall>f\<in>set fs. fr_index f \<noteq> i \<Longrightarrow> map_of (fst (on_fragments parse fs cs)) i = map_of cs i"
  by (induction fs arbitrary: cs) (auto simp: split_beta fragment_other)

lemma fragments_continue:
  assumes "\<forall>f\<in>set fs. fr_index f = i \<longrightarrow> continues_call f" "map_of cs i = Some (cid, n, args)"
  shows "map_of (fst (on_fragments parse fs cs)) i =
    Some (cid, n, args @ concat (map fr_arguments (filter (\<lambda>f. fr_index f = i) fs)))"
  using assms
proof (induction fs arbitrary: cs args)
  case (Cons f fs)
  let ?cs = "fst (on_fragment parse f cs)"
  show ?case
  proof (cases "fr_index f = i")
    case True
    with Cons.prems have "map_of ?cs i = Some (cid, n, args @ fr_arguments f)"
      using fragment_continue [of f cs cid n args parse] by auto
    with Cons.IH [of ?cs] Cons.prems True show ?thesis by (simp add: split_beta)
  next
    case False
    with Cons.prems have "map_of ?cs i = Some (cid, n, args)" by (simp add: fragment_other)
    with Cons.IH [of ?cs] Cons.prems False show ?thesis by (simp add: split_beta)
  qed
qed simp

lemma fragments_append:
  "on_fragments parse (fs @ gs) cs =
     (let (c1, o1) = on_fragments parse fs cs; (c2, o2) = on_fragments parse gs c1 in (c2, o1 @ o2))"
  by (induction fs arbitrary: cs) (auto simp: Let_def split_beta)

text \<open>The fragments of one call, however the others are interleaved with them, come back as its
  arguments.\<close>

lemma fragments_reassemble:
  assumes "filter (\<lambda>f. fr_index f = i) fs = start # ds" "starts_call start" "\<forall>d\<in>set ds. continues_call d"
  shows "map_of (fst (on_fragments parse fs cs)) i =
    Some (unwrap_or [] (fr_id start), the (fr_name start), concat (map fr_arguments ds))"
proof -
  from assms(1) obtain pre post where fs: "fs = pre @ start # post" and pre: "\<forall>f\<in>set pre. fr_index f \<noteq> i"
    and i: "fr_index start = i" and ds: "filter (\<lambda>f. fr_index f = i) post = ds"
    by (auto simp: filter_eq_Cons_iff)
  let ?cs = "fst (on_fragment parse start (fst (on_fragments parse pre cs)))"
  have "\<forall>f\<in>set post. fr_index f = i \<longrightarrow> continues_call f" using assms(3) ds by auto
  moreover have "map_of ?cs i = Some (unwrap_or [] (fr_id start), the (fr_name start), [])"
    using fragment_start [OF assms(2)] i by auto
  ultimately have "map_of (fst (on_fragments parse post ?cs)) i =
      Some (unwrap_or [] (fr_id start), the (fr_name start), [] @ concat (map fr_arguments ds))"
    unfolding ds [symmetric] by (rule fragments_continue)
  then show ?thesis by (simp add: fs fragments_append split_beta)
qed

text \<open>The calls after a run depend on the fragments read only.\<close>

fun state_after :: "(string \<Rightarrow> json option) \<Rightarrow> sse_item list \<Rightarrow> stream_state \<Rightarrow> stream_state" where
  "state_after parse [] st = st"
| "state_after parse (SseFailed _ # _) st = st"
| "state_after parse (SseData d # es) st =
     state_after parse es (case chunk_of_data parse d of None \<Rightarrow> st | Some k \<Rightarrow> fst (on_chunk parse k st))"

lemma chunk_calls: "ss_calls (fst (on_chunk parse k st)) = fst (on_fragments parse (snd (first_delta k)) (ss_calls st))"
  by (auto simp: on_chunk_def first_delta_def split_beta Let_def split: list.split)

lemma state_after_calls:
  "ss_calls (state_after parse es st) = fst (on_fragments parse (fragments_read parse es) (ss_calls st))"
proof (induction parse es st rule: state_after.induct)
  case (3 parse d es st)
  then show ?case
    by (cases "chunk_of_data parse d") (simp_all add: fragments_read_def chunk_calls fragments_append split_beta)
qed (simp_all add: fragments_read_def)

lemma flush_members:
  "StToolCall cid ci n v \<in> set (flush_calls parse cs) \<longleftrightarrow> ci = None \<and> (\<exists>i args. (i, cid, n, args) \<in> set cs \<and> parse args = Some v)"
  by (induction parse cs rule: flush_calls.induct) (auto split: option.splits, metis+)

text \<open>Every run ends with the calls still open and one final event.\<close>

lemma run_ends:
  "\<exists>out. stream_run parse order es st =
     out @ map Inr (flush_calls parse (order (ss_calls (state_after parse es st))) @ [StFinal (ss_usage (state_after parse es st))]) \<and>
     (\<forall>u. Inr (StFinal u) \<notin> set out)"
proof (induction parse order es st rule: stream_run.induct)
  case (1 parse order st)
  then show ?case by (intro exI [of _ "[]"]) simp
next
  case (2 parse order e es st)
  then show ?case by (intro exI [of _ "[Inl (OaStream e)]"]) simp
next
  case (3 parse order d es st)
  have nf: "StFinal u \<notin> set (snd (on_fragment parse f cs))" for u f cs
    by (auto simp: on_fragment_def split: option.split)
  have nfs: "StFinal u \<notin> set (snd (on_fragments parse fs cs))" for u fs cs
    using nf by (induction fs arbitrary: cs) (auto simp: split_beta)
  have nc: "StFinal u \<notin> set (snd (on_chunk parse k st))" for u k
    using nfs by (auto simp: on_chunk_def split_beta Let_def split: list.split option.split)
  show ?case
  proof (cases "chunk_of_data parse d")
    case None
    with 3 show ?thesis by simp
  next
    case (Some k)
    from 3(2) [OF Some refl prod.collapse] obtain out where
      "stream_run parse order es (fst (on_chunk parse k st)) = out @ map Inr (flush_calls parse (order (ss_calls
         (state_after parse es (fst (on_chunk parse k st))))) @ [StFinal (ss_usage (state_after parse es (fst (on_chunk parse k st))))])"
      "\<forall>u. Inr (StFinal u) \<notin> set out" by blast
    with Some nc show ?thesis
      by (intro exI [of _ "map Inr (snd (on_chunk parse k st)) @ out"]) (auto simp: split_beta)
  qed
qed

text \<open>The text events are the text of the chunks.\<close>

lemma fragments_no_text: "concat (map (text_of_choice \<circ> Inr) (snd (on_fragments parse fs cs))) = []"
proof -
  have "concat (map (text_of_choice \<circ> Inr) (snd (on_fragment parse f cs))) = []" for f cs
    by (auto simp: on_fragment_def split: option.split)
  then show ?thesis by (induction fs arbitrary: cs) (simp_all add: split_beta)
qed

lemma flush_no_text: "concat (map (text_of_choice \<circ> Inr) (flush_calls parse cs)) = []"
  by (induction parse cs rule: flush_calls.induct) (auto split: option.split)

lemma chunk_text: "concat (map (text_of_choice \<circ> Inr) (snd (on_chunk parse k st))) = unwrap_or [] (fst (first_delta k))"
  by (auto simp: on_chunk_def first_delta_def split_beta Let_def fragments_no_text split: list.split option.split)

lemma run_text: "concat (map text_of_choice (stream_run parse order es st)) = text_read parse es"
proof (induction parse order es st rule: stream_run.induct)
  case (3 parse order d es st)
  show ?case
  proof (cases "chunk_of_data parse d")
    case None
    with 3 show ?thesis by (simp add: text_read_def)
  next
    case (Some k)
    with 3(2) [OF Some refl prod.collapse] show ?thesis
      by (simp add: text_read_def split_beta chunk_text)
  qed
qed (simp_all add: text_read_def flush_no_text)

end
