(* ===== verification/Ai_ResponsesAnswer.thy ===== *)
theory Ai_ResponsesAnswer
  imports Ai_ResponsesWire Ai_CompletionStream
begin

text \<open>
  The answers of the Responses API: the response from its JSON, its output as the message model, its token
  counts, one exchange with the endpoint, and the stream (\<open>responses_api/streaming.rs\<close>), whose end is a
  terminal event. \<open>shape_error\<close> is the text of a failure to decode.
\<close>

section \<open>Response\<close>

record resp_usage =
  ru_input :: nat
  ru_cached :: "nat option"
  ru_output :: nat
  ru_reasoning :: nat
  ru_total :: nat

definition resp_usage_new :: resp_usage where
  "resp_usage_new = \<lparr>ru_input = 0, ru_cached = Some 0, ru_output = 0, ru_reasoning = 0, ru_total = 0\<rparr>"

text \<open>\<open>Add\<close>: 64-bit additions, as a release build wraps them.\<close>

definition add_u64 :: "nat \<Rightarrow> nat \<Rightarrow> nat" where
  "add_u64 a b = (a + b) mod 2 ^ 64"

definition resp_usage_add :: "resp_usage \<Rightarrow> resp_usage \<Rightarrow> resp_usage" where
  "resp_usage_add a b =
     \<lparr>ru_input = add_u64 (ru_input a) (ru_input b),
      ru_cached = map_option (\<lambda>l. case ru_cached b of Some t \<Rightarrow> add_u64 l t | None \<Rightarrow> l) (ru_cached a),
      ru_output = add_u64 (ru_output a) (ru_output b),
      ru_reasoning = add_u64 (ru_reasoning a) (ru_reasoning b),
      ru_total = add_u64 (ru_total a) (ru_total b)\<rparr>"

datatype response_status =
    RsInProgress | RsCompleted | RsFailed | RsCancelled | RsQueued | RsIncomplete

definition status_names :: "(response_status \<times> string) list" where
  "status_names =
     [(RsInProgress, ''in_progress''), (RsCompleted, ''completed''), (RsFailed, ''failed''), (RsCancelled, ''cancelled''),
      (RsQueued, ''queued''), (RsIncomplete, ''incomplete'')]"

definition tool_status_names :: "(tool_status \<times> string) list" where
  "tool_status_names =
     [(TsInProgress, ''in_progress''), (TsCompleted, ''completed''), (TsIncomplete, ''incomplete'')]"

record output_message =
  omg_id :: string
  omg_status :: response_status
  omg_content :: "resp_assistant list"

datatype output_item =
    OutMessage output_message
  | OutCall output_call
  | OutReasoning string "string list"

record resp_response =
  rp_id :: string
  rp_created_at :: nat
  rp_status :: response_status
  rp_error :: "(string \<times> string) option"
  rp_incomplete :: "string option"
  rp_instructions :: "string option"
  rp_max_output :: "nat option"
  rp_model :: string
  rp_usage :: "resp_usage option"
  rp_output :: "output_item list"
  rp_tools :: "resp_tool list"
  rp_extra :: request_extra

text \<open>The members of an object that are not fields of the structure: what \<open>flatten\<close> collects.\<close>

definition other_members :: "string list \<Rightarrow> json_map \<Rightarrow> json_map" where
  "other_members known m = filter (\<lambda>(k, _). k \<notin> set known) m"

fun resp_assistant_of_json :: "json \<Rightarrow> resp_assistant option" where
  "resp_assistant_of_json (JObj m) =
     (if map_of m ''type'' = Some (JStr ''output_text'') then
        map_option (\<lambda>t. RaText \<lparr>tx_text = t, tx_params = Some (JObj (other_members [''type'', ''text''] m))\<rparr>)
          (string_field m ''text'')
      else if map_of m ''type'' = Some (JStr ''refusal'') then map_option RaRefusal (string_field m ''refusal'')
      else None)"
| "resp_assistant_of_json _ = None"

fun summary_of_json :: "json \<Rightarrow> string option" where
  "summary_of_json (JObj m) =
     (if map_of m ''type'' = Some (JStr ''summary_text'') then string_field m ''text'' else None)"
| "summary_of_json _ = None"

definition elements_of :: "(json \<Rightarrow> 'a option) \<Rightarrow> json_map \<Rightarrow> string \<Rightarrow> 'a list option" where
  "elements_of de m k = Option.bind (Option.bind (map_of m k) as_array) (\<lambda>xs. all_some (map de xs))"

definition call_of_members :: "(string \<Rightarrow> json option) \<Rightarrow> json_map \<Rightarrow> output_call option" where
  "call_of_members parse m =
     (case (string_field m ''id'', Option.bind (map_of m ''arguments'') (stringified_de parse), string_field m ''call_id'',
            string_field m ''name'', Option.bind (map_of m ''status'') (variant_of tool_status_names)) of
        (Some i, Some a, Some c, Some n, Some s) \<Rightarrow>
          Some \<lparr>oc_id = i, oc_arguments = a, oc_call_id = c, oc_name = n, oc_status = s\<rparr>
      | _ \<Rightarrow> None)"

fun output_of_json :: "(string \<Rightarrow> json option) \<Rightarrow> json \<Rightarrow> output_item option" where
  "output_of_json parse (JObj m) =
     (if map_of m ''type'' = Some (JStr ''message'') then
        (case (string_field m ''id'', map_of m ''role'' = Some (JStr ''assistant''),
               Option.bind (map_of m ''status'') (variant_of status_names), elements_of resp_assistant_of_json m ''content'') of
           (Some i, True, Some s, Some c) \<Rightarrow> Some (OutMessage \<lparr>omg_id = i, omg_status = s, omg_content = c\<rparr>)
         | _ \<Rightarrow> None)
      else if map_of m ''type'' = Some (JStr ''function_call'') then map_option OutCall (call_of_members parse m)
      else if map_of m ''type'' = Some (JStr ''reasoning'') then
        (case (string_field m ''id'', elements_of summary_of_json m ''summary'') of
           (Some i, Some ts) \<Rightarrow> Some (OutReasoning i ts)
         | _ \<Rightarrow> None)
      else None)"
| "output_of_json parse _ = None"

fun resp_usage_of_json :: "json \<Rightarrow> resp_usage option" where
  "resp_usage_of_json (JObj m) =
     (case (Option.bind (map_of m ''input_tokens'') as_usize,
            opt_field (\<lambda>j. Option.bind (json_get ''cached_tokens'' j) as_usize) m ''input_tokens_details'',
            Option.bind (map_of m ''output_tokens'') as_usize,
            Option.bind (Option.bind (map_of m ''output_tokens_details'') (json_get ''reasoning_tokens'')) as_usize,
            Option.bind (map_of m ''total_tokens'') as_usize) of
        (Some i, Some c, Some ou, Some rt, Some t) \<Rightarrow>
          Some \<lparr>ru_input = i, ru_cached = c, ru_output = ou, ru_reasoning = rt, ru_total = t\<rparr>
      | _ \<Rightarrow> None)"
| "resp_usage_of_json _ = None"

fun resp_tool_of_json :: "json \<Rightarrow> resp_tool option" where
  "resp_tool_of_json (JObj m) =
     (case (string_field m ''name'', map_of m ''parameters'', Option.bind (map_of m ''strict'') as_bool,
            string_field m ''type'', string_field m ''description'') of
        (Some n, Some p, Some s, Some k, Some d) \<Rightarrow>
          Some \<lparr>rt_name = n, rt_parameters = p, rt_strict = s, rt_kind = k, rt_description = d\<rparr>
      | _ \<Rightarrow> None)"
| "resp_tool_of_json _ = None"

fun error_of_json :: "json \<Rightarrow> (string \<times> string) option" where
  "error_of_json (JObj m) =
     (case (string_field m ''code'', string_field m ''message'') of (Some c, Some t) \<Rightarrow> Some (c, t) | _ \<Rightarrow> None)"
| "error_of_json _ = None"

definition resp_known :: "string list" where
  "resp_known =
     [''id'', ''object'', ''created_at'', ''status'', ''error'', ''incomplete_details'', ''instructions'', ''max_output_tokens'',
      ''model'', ''usage'', ''output'', ''tools'']"

definition resp_of_members :: "(string \<Rightarrow> json option) \<Rightarrow> json_map \<Rightarrow> resp_response option" where
  "resp_of_members parse m =
     (case (string_field m ''id'', map_of m ''object'' = Some (JStr ''response''),
            Option.bind (map_of m ''created_at'') as_usize, Option.bind (map_of m ''status'') (variant_of status_names),
            opt_field error_of_json m ''error'',
            opt_field (\<lambda>j. Option.bind (json_get ''reason'' j) as_str) m ''incomplete_details'',
            opt_field as_str m ''instructions'', opt_field as_usize m ''max_output_tokens'', string_field m ''model'') of
        (Some i, True, Some c, Some s, Some e, Some inc, Some ins, Some mx, Some mo) \<Rightarrow>
          (case (opt_field resp_usage_of_json m ''usage'', elements_of (output_of_json parse) m ''output'',
                 case map_of m ''tools'' of None \<Rightarrow> Some [] | Some _ \<Rightarrow> elements_of resp_tool_of_json m ''tools'',
                 extra_of_members (other_members resp_known m)) of
             (Some u, Some outs, Some ts, Some ex) \<Rightarrow>
               Some \<lparr>rp_id = i, rp_created_at = c, rp_status = s, rp_error = e, rp_incomplete = inc, rp_instructions = ins,
                     rp_max_output = mx, rp_model = mo, rp_usage = u, rp_output = outs, rp_tools = ts, rp_extra = ex\<rparr>
           | _ \<Rightarrow> None)
      | _ \<Rightarrow> None)"

fun resp_of_json :: "(string \<Rightarrow> json option) \<Rightarrow> json \<Rightarrow> resp_response option" where
  "resp_of_json parse (JObj m) = resp_of_members parse m"
| "resp_of_json parse _ = None"

section \<open>To the message model\<close>

fun core_of_resp_assistant :: "resp_assistant \<Rightarrow> assistant_content" where
  "core_of_resp_assistant (RaRefusal r) = AcText (text_new r)"
| "core_of_resp_assistant (RaText t) = AcText (text_new (tx_text t))"

fun core_of_output :: "output_item \<Rightarrow> assistant_content list" where
  "core_of_output (OutMessage m) = map core_of_resp_assistant (omg_content m)"
| "core_of_output (OutCall c) =
     [AcToolCall (with_call_id (oc_call_id c) (tool_call_new (oc_id c) \<lparr>fn_name = oc_name c, fn_arguments = oc_arguments c\<rparr>))]"
| "core_of_output (OutReasoning i ts) =
     [AcReasoning \<lparr>re_id = Some i, re_content = [RcSummary (join_with [CHR 0x0A] ts)]\<rparr>]"

definition resp_assistant_content :: "resp_response \<Rightarrow> assistant_content list" where
  "resp_assistant_content r = concat (map core_of_output (rp_output r))"

fun resp_assistant_text :: "resp_assistant \<Rightarrow> string" where
  "resp_assistant_text (RaText t) = tx_text t"
| "resp_assistant_text (RaRefusal r) = r"

fun output_text :: "output_item \<Rightarrow> string" where
  "output_text (OutMessage m) = concat (map resp_assistant_text (omg_content m))"
| "output_text _ = []"

definition resp_text :: "resp_response \<Rightarrow> string option" where
  "resp_text r = (let t = concat (map output_text (rp_output r)) in if t = [] then None else Some t)"

fun output_call_of :: "output_item \<Rightarrow> output_call option" where
  "output_call_of (OutCall c) = Some c"
| "output_call_of _ = None"

definition resp_tool_calls :: "resp_response \<Rightarrow> output_call list" where
  "resp_tool_calls r = List.map_filter output_call_of (rp_output r)"

definition resp_usage_tokens :: "resp_usage option \<Rightarrow> core_usage" where
  "resp_usage_tokens u =
     (case u of
        Some u \<Rightarrow> \<lparr>cu_input = ru_input u, cu_output = ru_output u, cu_total = ru_total u,
                  cu_cached = unwrap_or 0 (ru_cached u), cu_cache_creation = 0\<rparr>
      | None \<Rightarrow> core_usage_default)"

definition resp_completion ::
  "(json \<Rightarrow> string) \<Rightarrow> (string \<Rightarrow> json option) \<Rightarrow> (string \<Rightarrow> string) \<Rightarrow>
   ((string \<times> json) list http_call \<Rightarrow> string + http_answer) \<Rightarrow> oa_client \<Rightarrow> responses_request \<Rightarrow> openai_error + resp_response" where
  "resp_completion print parse shape_error send c r =
     (case send (post_json c ''/responses'' (responses_members print r)) of
        Inl e \<Rightarrow> Inl (OaTransport e)
      | Inr a \<Rightarrow>
          if is_success (ha_status a) then
            (case ha_text a of
               Inl e \<Rightarrow> Inl (OaTransport e)
             | Inr t \<Rightarrow> okorR (OaResponseParse (shape_error t)) (Option.bind (parse t) (resp_of_json parse)))
          else Inl (error_from_response a))"

section \<open>Stream\<close>

datatype chunk_kind = CkCreated | CkInProgress | CkCompleted | CkFailed | CkIncomplete

definition chunk_kind_names :: "(chunk_kind \<times> string) list" where
  "chunk_kind_names =
     [(CkCreated, ''response.created''), (CkInProgress, ''response.in_progress''), (CkCompleted, ''response.completed''),
      (CkFailed, ''response.failed''), (CkIncomplete, ''response.incomplete'')]"

text \<open>The chunks of an item; a kind the stream passes over keeps no content (\<open>ItPassed\<close>).\<close>

datatype item_chunk =
    ItDone output_item
  | ItTextDelta string
  | ItRefusalDelta string
  | ItArgsDelta string string
  | ItPassed

datatype resp_chunk =
    ChResponse chunk_kind resp_response
  | ChItem item_chunk

datatype resp_choice =
    ReText string
  | ReToolCall string "string option" string json
  | ReToolCallDelta string string
  | ReReasoning "string option" string
  | ReFinal resp_usage

definition reasoning_joined :: "string list \<Rightarrow> string" where
  "reasoning_joined ts = join_with [CHR 0x0A] ts"

record resp_stream =
  rz_calls :: "resp_choice list"
  rz_usage :: resp_usage
  rz_terminated :: bool

definition resp_stream_init :: resp_stream where
  "resp_stream_init = \<lparr>rz_calls = [], rz_usage = resp_usage_new, rz_terminated = False\<rparr>"

fun on_item_chunk :: "item_chunk \<Rightarrow> resp_stream \<Rightarrow> resp_stream \<times> resp_choice list" where
  "on_item_chunk (ItDone (OutCall c)) st =
     (st\<lparr>rz_calls := rz_calls st @ [ReToolCall (oc_id c) (Some (oc_call_id c)) (oc_name c) (oc_arguments c)]\<rparr>, [])"
| "on_item_chunk (ItDone (OutReasoning i ts)) st = (st, [ReReasoning (Some i) (reasoning_joined ts)])"
| "on_item_chunk (ItDone (OutMessage _)) st = (st, [])"
| "on_item_chunk (ItTextDelta d) st = (st, [ReText d])"
| "on_item_chunk (ItRefusalDelta d) st = (st, [ReText d])"
| "on_item_chunk (ItArgsDelta i d) st = (st, [ReToolCallDelta i d])"
| "on_item_chunk ItPassed st = (st, [])"

fun on_response_chunk :: "chunk_kind \<Rightarrow> resp_response \<Rightarrow> resp_stream \<Rightarrow> resp_stream" where
  "on_response_chunk CkCompleted r st = st\<lparr>rz_usage := unwrap_or (rz_usage st) (rp_usage r), rz_terminated := True\<rparr>"
| "on_response_chunk CkFailed r st = st\<lparr>rz_terminated := True\<rparr>"
| "on_response_chunk CkIncomplete r st = st\<lparr>rz_terminated := True\<rparr>"
| "on_response_chunk CkCreated r st = st"
| "on_response_chunk CkInProgress r st = st"

fun on_resp_chunk :: "resp_chunk \<Rightarrow> resp_stream \<Rightarrow> resp_stream \<times> resp_choice list" where
  "on_resp_chunk (ChItem i) st = on_item_chunk i st"
| "on_resp_chunk (ChResponse k r) st = (on_response_chunk k r st, [])"

definition resp_flush :: "resp_stream \<Rightarrow> (openai_error + resp_choice) list" where
  "resp_flush st = map Inr (rz_calls st @ [ReFinal (rz_usage st)])"

text \<open>The chunks from their JSON. The members \<open>item_id\<close> and \<open>output_index\<close> belong to the enclosing structure:
  the flattened item does not see them.\<close>

definition item_known :: "string list" where
  "item_known = [''item_id'', ''output_index'']"

definition delta_text :: "json_map \<Rightarrow> string option" where
  "delta_text m =
     (case (Option.bind (map_of m ''content_index'') as_usize, Option.bind (map_of m ''sequence_number'') as_usize,
            string_field m ''delta'') of
        (Some _, Some _, Some d) \<Rightarrow> Some d
      | _ \<Rightarrow> None)"

definition has_u64 :: "json_map \<Rightarrow> string \<Rightarrow> bool" where
  "has_u64 m k \<longleftrightarrow> Option.bind (map_of m k) as_usize \<noteq> None"

definition part_is :: "string list \<Rightarrow> json_map \<Rightarrow> bool" where
  "part_is kinds m \<longleftrightarrow>
     (case map_of m ''part'' of
        Some (JObj p) \<Rightarrow> (\<exists>k\<in>set kinds. map_of p ''type'' = Some (JStr k)) \<and> string_field p ''text'' \<noteq> None
      | _ \<Rightarrow> False)"

definition passed_if :: "bool \<Rightarrow> item_chunk option" where
  "passed_if b = (if b then Some ItPassed else None)"

definition item_of_members :: "(string \<Rightarrow> json option) \<Rightarrow> json_map \<Rightarrow> item_chunk option" where
  "item_of_members parse m =
     (case Option.bind (map_of m ''type'') as_str of
        None \<Rightarrow> None
      | Some t \<Rightarrow>
          let item = (if has_u64 m ''sequence_number'' then Option.bind (map_of m ''item'') (output_of_json parse) else None);
              content = has_u64 m ''content_index'' \<and> has_u64 m ''sequence_number'';
              summary = has_u64 m ''summary_index'' \<and> has_u64 m ''sequence_number''
          in
          if t = ''response.output_item.added'' then passed_if (item \<noteq> None)
          else if t = ''response.output_item.done'' then map_option ItDone item
          else if t = ''response.content_part.added'' \<or> t = ''response.content_part.done'' then
            passed_if (content \<and> part_is [''OutputText'', ''SummaryText''] m)
          else if t = ''response.output_text.delta'' then map_option ItTextDelta (delta_text m)
          else if t = ''response.output_text.done'' then passed_if (content \<and> string_field m ''text'' \<noteq> None)
          else if t = ''response.refusal.delta'' then map_option ItRefusalDelta (delta_text m)
          else if t = ''response.refusal.done'' then passed_if (content \<and> string_field m ''refusal'' \<noteq> None)
          else if t = ''response.function_call_arguments.delta'' then
            (case (string_field m ''item_id'', delta_text m) of (Some i, Some d) \<Rightarrow> Some (ItArgsDelta i d) | _ \<Rightarrow> None)
          else if t = ''response.function_call_arguments.done'' then
            passed_if (content \<and> map_of m ''arguments'' \<noteq> None)
          else if t = ''response.reasoning_summary_part.added'' \<or> t = ''response.reasoning_summary_part.done'' then
            passed_if (summary \<and> part_is [''SummaryText''] m)
          else if t = ''response.reasoning_summary_text.added'' \<or> t = ''response.reasoning_summary_text.done'' then
            passed_if (summary \<and> string_field m ''delta'' \<noteq> None)
          else None)"

fun resp_chunk_of_json :: "(string \<Rightarrow> json option) \<Rightarrow> json \<Rightarrow> resp_chunk option" where
  "resp_chunk_of_json parse (JObj m) =
     (case (Option.bind (map_of m ''type'') (variant_of chunk_kind_names), Option.bind (map_of m ''response'') (resp_of_json parse),
            has_u64 m ''sequence_number'') of
        (Some k, Some r, True) \<Rightarrow> Some (ChResponse k r)
      | _ \<Rightarrow>
          (case (opt_field as_str m ''item_id'', has_u64 m ''output_index'') of
             (Some _, True) \<Rightarrow> map_option ChItem (item_of_members parse (other_members item_known m))
           | _ \<Rightarrow> None))"
| "resp_chunk_of_json parse _ = None"

datatype resp_event = ReChunk resp_chunk | ReSkip | ReFail string

fun resp_stream_run :: "resp_event list \<Rightarrow> resp_stream \<Rightarrow> (openai_error + resp_choice) list" where
  "resp_stream_run [] st = resp_flush st"
| "resp_stream_run (e # es) st =
     (if rz_terminated st then resp_flush st
      else
        (case e of
           ReFail t \<Rightarrow> Inl (OaStream t) # resp_flush st
         | ReSkip \<Rightarrow> resp_stream_run es st
         | ReChunk k \<Rightarrow> (let (st', out) = on_resp_chunk k st in map Inr out @ resp_stream_run es st')))"

definition resp_event_of :: "(string \<Rightarrow> json option) \<Rightarrow> sse_item \<Rightarrow> resp_event" where
  "resp_event_of parse e =
     (case e of
        SseFailed t \<Rightarrow> ReFail t
      | SseData d \<Rightarrow>
          if trim_is_empty d then ReSkip
          else (case Option.bind (parse d) (resp_chunk_of_json parse) of None \<Rightarrow> ReSkip | Some k \<Rightarrow> ReChunk k))"

definition stream_responses ::
  "(json \<Rightarrow> string) \<Rightarrow> (string \<Rightarrow> json option) \<Rightarrow>
   ((string \<times> json) list http_call \<Rightarrow> string + http_answer \<times> sse_item list) \<Rightarrow> oa_client \<Rightarrow> responses_request \<Rightarrow>
   openai_error + (openai_error + resp_choice) list" where
  "stream_responses print parse send c r =
     (case send (post_json c ''/responses'' (responses_members print (r\<lparr>rr_stream := Some True\<rparr>))) of
        Inl e \<Rightarrow> Inl (OaTransport e)
      | Inr (a, es) \<Rightarrow>
          if is_success (ha_status a) then Inr (resp_stream_run (map (resp_event_of parse) es) resp_stream_init)
          else Inl (error_from_response a))"

section \<open>Facts\<close>

fun terminal_chunk :: "resp_chunk \<Rightarrow> bool" where
  "terminal_chunk (ChResponse k _) \<longleftrightarrow> k \<in> {CkCompleted, CkFailed, CkIncomplete}"
| "terminal_chunk (ChItem _) \<longleftrightarrow> False"

lemma item_terminated: "rz_terminated (fst (on_item_chunk i st)) = rz_terminated st"
  by (induction i st rule: on_item_chunk.induct) auto

lemma chunk_terminated: "rz_terminated (fst (on_resp_chunk k st)) \<longleftrightarrow> rz_terminated st \<or> terminal_chunk k"
proof (cases k)
  case (ChResponse c r)
  then show ?thesis by (cases c) auto
qed (simp add: item_terminated)

lemma run_terminated: "rz_terminated st \<Longrightarrow> resp_stream_run es st = resp_flush st"
  by (cases es) simp_all

text \<open>Nothing behind a terminal event is read.\<close>

lemma run_stops:
  "terminal_chunk k \<Longrightarrow> resp_stream_run (pre @ ReChunk k # post) st = resp_stream_run (pre @ [ReChunk k]) st"
proof (induction pre arbitrary: st)
  case Nil
  then show ?case using chunk_terminated [of k st] by (simp add: split_beta run_terminated)
next
  case (Cons e pre)
  then show ?case by (cases e) (simp_all add: split_beta)
qed

lemma other_members_lookup: "map_of (other_members known m) k = (if k \<in> set known then None else map_of m k)"
  by (induction m) (auto simp: other_members_def)

text \<open>The flattened item never sees \<open>item_id\<close>, so a fragment of arguments never decodes.\<close>

lemma if_neqI: "A \<noteq> X \<Longrightarrow> B \<noteq> X \<Longrightarrow> (if c then A else B) \<noteq> X"
  by simp

lemma flat_item_no_args:
  assumes "map_of m ''item_id'' = None"
  shows "item_of_members parse m \<noteq> Some (ItArgsDelta i d)"
proof (cases "Option.bind (map_of m ''type'') as_str")
  case (Some t)
  have *: "passed_if b \<noteq> Some (ItArgsDelta i d)" "map_option ItDone x \<noteq> Some (ItArgsDelta i d)"
    "map_option ItTextDelta y \<noteq> Some (ItArgsDelta i d)" "map_option ItRefusalDelta y \<noteq> Some (ItArgsDelta i d)" for b x y
    by (auto simp: passed_if_def)
  have n: "string_field m ''item_id'' = None" by (simp add: string_field_def assms)
  show ?thesis
    unfolding item_of_members_def Some Let_def option.case n prod.case by (intro if_neqI * option.distinct)
qed (simp add: item_of_members_def)

lemma no_args_delta: "resp_chunk_of_json parse j \<noteq> Some (ChItem (ItArgsDelta i d))"
proof -
  have "item_of_members parse (other_members item_known m) \<noteq> Some (ItArgsDelta i d)" for m
    by (rule flat_item_no_args) (simp add: other_members_lookup item_known_def)
  then show ?thesis by (cases j) (auto split: option.splits bool.splits)
qed

end
