(* ===== verification/Ai_Llm.thy ===== *)
theory Ai_Llm
  imports Ai_ResponsesAnswer Ai_Speech
begin

text \<open>
  The chat abstraction of fusion-ai (\<open>llm/mod.rs\<close>, \<open>llm/wire_openai_compat.rs\<close>): the provider-independent
  request and response, the errors, the shared OpenAI-compatible transport with its request body, and both
  endpoints it speaks, Chat Completions and Responses.

  Here a string is its UTF-8 bytes. A temperature is the JSON number it prints as. A body is the object of
  its members in the order they are written. The transport builds its HTTP client at the first request and
  keeps it; a client is known by the timeout it was built with. What the network and the JSON library do is
  the environment \<open>llm_env\<close>.
\<close>

section \<open>Types\<close>

datatype llm_provider = Qwen | DeepSeek | OpenAi | Anthropic | Gemini

fun provider_str :: "llm_provider \<Rightarrow> string" where
  "provider_str Qwen = ''dashscope''"
| "provider_str DeepSeek = ''deepseek''"
| "provider_str OpenAi = ''openai''"
| "provider_str Anthropic = ''anthropic''"
| "provider_str Gemini = ''gemini''"

definition provider_from_str_ci :: "string \<Rightarrow> llm_provider option" where
  "provider_from_str_ci s =
     (let l = to_ascii_lowercase s in
      if l = ''dashscope'' \<or> l = ''qwen'' then Some Qwen
      else if l = ''deepseek'' then Some DeepSeek
      else if l = ''openai'' then Some OpenAi
      else if l = ''anthropic'' then Some Anthropic
      else if l = ''gemini'' then Some Gemini
      else None)"

datatype chat_role = ChatSystem | ChatUser | ChatAssistant | ChatTool

fun chat_role_str :: "chat_role \<Rightarrow> string" where
  "chat_role_str ChatSystem = ''system''"
| "chat_role_str ChatUser = ''user''"
| "chat_role_str ChatAssistant = ''assistant''"
| "chat_role_str ChatTool = ''tool''"

record llm_call =
  lc_id :: "string option"
  lc_name :: string
  lc_arguments :: string

record chat_msg =
  cg_role :: chat_role
  cg_content :: string
  cg_tool_calls :: "llm_call list"
  cg_tool_call_id :: "string option"

definition chat_system :: "string \<Rightarrow> chat_msg" where
  "chat_system t = \<lparr>cg_role = ChatSystem, cg_content = t, cg_tool_calls = [], cg_tool_call_id = None\<rparr>"

definition chat_user :: "string \<Rightarrow> chat_msg" where
  "chat_user t = \<lparr>cg_role = ChatUser, cg_content = t, cg_tool_calls = [], cg_tool_call_id = None\<rparr>"

definition chat_tool :: "string \<Rightarrow> string \<Rightarrow> chat_msg" where
  "chat_tool i t = \<lparr>cg_role = ChatTool, cg_content = t, cg_tool_calls = [], cg_tool_call_id = Some i\<rparr>"

record llm_tool =
  ld_name :: string
  ld_description :: "string option"
  ld_parameters :: json

datatype llm_tool_choice = ChoiceAuto | ChoiceRequired | ChoiceFunction string

record chat_request =
  cq_model :: "string option"
  cq_system_prompt :: "string option"
  cq_messages :: "chat_msg list"
  cq_tools :: "llm_tool list"
  cq_tool_choice :: "llm_tool_choice option"
  cq_temperature :: "json option"
  cq_timeout :: "nat option"
  cq_max_tokens :: "nat option"

definition chat_request_default :: chat_request where
  "chat_request_default =
     \<lparr>cq_model = None, cq_system_prompt = None, cq_messages = [], cq_tools = [], cq_tool_choice = None,
      cq_temperature = None, cq_timeout = None, cq_max_tokens = None\<rparr>"

record token_usage =
  tu_prompt :: nat
  tu_completion :: nat
  tu_total :: nat
  tu_cached :: nat

record chat_response =
  cp_model :: string
  cp_message :: chat_msg
  cp_usage :: "token_usage option"
  cp_metadata :: json

datatype llm_error =
    LlmNotEnabled llm_provider
  | LlmConfigInvalid llm_provider string
  | LlmTransport llm_provider string
  | LlmHttp llm_provider nat string
  | LlmResponseParse llm_provider string
  | LlmNoChoice llm_provider

fun show_llm_error :: "llm_error \<Rightarrow> string" where
  "show_llm_error (LlmNotEnabled p) = ''provider '' @ provider_str p @ '' not enabled (stub / feature flag off)''"
| "show_llm_error (LlmConfigInvalid p m) = ''provider '' @ provider_str p @ '' config invalid: '' @ m"
| "show_llm_error (LlmTransport p m) = ''transport error talking to '' @ provider_str p @ '': '' @ m"
| "show_llm_error (LlmHttp p s m) = ''upstream '' @ provider_str p @ '' returned HTTP '' @ show_nat s @ '': '' @ m"
| "show_llm_error (LlmResponseParse p m) = ''upstream '' @ provider_str p @ '' response parse error: '' @ m"
| "show_llm_error (LlmNoChoice p) = ''upstream '' @ provider_str p @ '' returned no message in choices''"

fun llm_is_retryable :: "llm_error \<Rightarrow> bool" where
  "llm_is_retryable (LlmTransport _ _) = True"
| "llm_is_retryable (LlmHttp _ s _) = (500 \<le> s)"
| "llm_is_retryable _ = False"

section \<open>Text\<close>

text \<open>A byte that continues a character, and the first \<open>n\<close> characters of a text.\<close>

definition is_continuation :: "char \<Rightarrow> bool" where
  "is_continuation c \<longleftrightarrow> 128 \<le> (of_char c :: nat) \<and> (of_char c :: nat) < 192"

fun take_chars :: "nat \<Rightarrow> string \<Rightarrow> string" where
  "take_chars n [] = []"
| "take_chars n (c # s) =
     (if is_continuation c then c # take_chars n s
      else (case n of 0 \<Rightarrow> [] | Suc m \<Rightarrow> c # take_chars m s))"

definition ellipsis :: string where
  "ellipsis = [CHR 0xE2, CHR 0x80, CHR 0xA6]"

definition truncate_text :: "string \<Rightarrow> nat \<Rightarrow> string" where
  "truncate_text s n = (if length s \<le> n then s else take_chars n s @ ellipsis)"

section \<open>Request body\<close>

definition llm_call_json :: "llm_call \<Rightarrow> json" where
  "llm_call_json c =
     obj [(''id'', JStr (unwrap_or [] (lc_id c))), (''type'', JStr ''function''),
          (''function'', obj [(''name'', JStr (lc_name c)), (''arguments'', JStr (lc_arguments c))])]"

definition chat_msg_json :: "chat_msg \<Rightarrow> json" where
  "chat_msg_json m =
     obj ([(''role'', JStr (chat_role_str (cg_role m))), (''content'', JStr (cg_content m))] @
          (if cg_tool_calls m = [] then [] else [(''tool_calls'', JArr (map llm_call_json (cg_tool_calls m)))]) @
          (case cg_tool_call_id m of Some i \<Rightarrow> if i = [] then [] else [(''tool_call_id'', JStr i)] | None \<Rightarrow> []))"

definition llm_tool_json :: "llm_tool \<Rightarrow> json" where
  "llm_tool_json t =
     obj [(''type'', JStr ''function''),
          (''function'', obj ((''name'', JStr (ld_name t)) # opt_member ''description'' JStr (ld_description t) @
                              [(''parameters'', ld_parameters t)]))]"

fun tool_choice_json :: "llm_tool_choice \<Rightarrow> json" where
  "tool_choice_json ChoiceAuto = JStr ''auto''"
| "tool_choice_json ChoiceRequired = JStr ''required''"
| "tool_choice_json (ChoiceFunction n) =
     obj [(''type'', JStr ''function''), (''function'', obj [(''name'', JStr n)])]"

definition system_entries :: "string option \<Rightarrow> json list" where
  "system_entries p =
     (case p of
        Some s \<Rightarrow> if s = [] then [] else [obj [(''role'', JStr ''system''), (''content'', JStr s)]]
      | None \<Rightarrow> [])"

definition build_request_body :: "string \<Rightarrow> chat_request \<Rightarrow> json" where
  "build_request_body default_model r =
     obj ([(''model'', JStr (unwrap_or default_model (cq_model r))),
           (''messages'', JArr (system_entries (cq_system_prompt r) @ map chat_msg_json (cq_messages r)))] @
          opt_member ''temperature'' id (cq_temperature r) @
          opt_member ''max_tokens'' (\<lambda>n. JInt (int n)) (cq_max_tokens r) @
          (if cq_tools r = [] then [] else [(''tools'', JArr (map llm_tool_json (cq_tools r)))]) @
          opt_member ''tool_choice'' tool_choice_json (cq_tool_choice r))"

fun forces_tool :: "llm_tool_choice option \<Rightarrow> bool" where
  "forces_tool (Some (ChoiceFunction _)) = True"
| "forces_tool (Some ChoiceRequired) = True"
| "forces_tool _ = False"

fun insert_member :: "string \<Rightarrow> json \<Rightarrow> json \<Rightarrow> json" where
  "insert_member k v (JObj m) = JObj (map_insert k v m)"
| "insert_member k v j = j"

definition maybe_disable_thinking :: "llm_provider \<Rightarrow> llm_tool_choice option \<Rightarrow> json \<Rightarrow> json" where
  "maybe_disable_thinking p choice body =
     (if \<not> forces_tool choice then body
      else
        (case p of
           DeepSeek \<Rightarrow> insert_member ''thinking'' (obj [(''type'', JStr ''disabled'')]) body
         | Qwen \<Rightarrow> insert_member ''enable_thinking'' (JBool False) body
         | _ \<Rightarrow> body))"

section \<open>Chat Completions\<close>

record wire_chat_choice =
  wh_finish_reason :: "string option"
  wh_role :: "string option"
  wh_content :: "string option"
  wh_tool_calls :: "llm_call list"

record wire_chat =
  wa_id :: "string option"
  wa_model :: "string option"
  wa_choices :: "wire_chat_choice list"
  wa_usage :: "token_usage option"
  wa_extra :: json_map

definition as_u32 :: "json \<Rightarrow> nat option" where
  "as_u32 j = (case as_usize j of Some n \<Rightarrow> if n < 2 ^ 32 then Some n else None | None \<Rightarrow> None)"

definition default_u32 :: "json_map \<Rightarrow> string \<Rightarrow> nat option" where
  "default_u32 m k = (case map_of m k of None \<Rightarrow> Some 0 | Some v \<Rightarrow> as_u32 v)"

text \<open>The cached count saturates instead of failing the whole answer.\<close>

fun llm_usage_of_json :: "json \<Rightarrow> token_usage option" where
  "llm_usage_of_json (JObj m) =
     (case (default_u32 m ''prompt_tokens'', default_u32 m ''completion_tokens'', default_u32 m ''total_tokens'') of
        (Some p, Some c, Some t) \<Rightarrow>
          Some \<lparr>tu_prompt = p, tu_completion = c, tu_total = t,
                tu_cached = min (cache_hit_input_tokens (JObj m)) (2 ^ 32 - 1)\<rparr>
      | _ \<Rightarrow> None)"
| "llm_usage_of_json _ = None"

fun wire_llm_call_of_json :: "json \<Rightarrow> llm_call option" where
  "wire_llm_call_of_json (JObj m) =
     (case (opt_field as_str m ''id'', opt_field as_str m ''type'', map_of m ''function'') of
        (Some i, Some _, Some (JObj f)) \<Rightarrow>
          (case (string_field f ''name'', string_field f ''arguments'') of
             (Some n, Some a) \<Rightarrow> Some \<lparr>lc_id = i, lc_name = n, lc_arguments = a\<rparr>
           | _ \<Rightarrow> None)
      | _ \<Rightarrow> None)"
| "wire_llm_call_of_json _ = None"

definition default_elements :: "(json \<Rightarrow> 'a option) \<Rightarrow> json_map \<Rightarrow> string \<Rightarrow> 'a list option" where
  "default_elements de m k = (case map_of m k of None \<Rightarrow> Some [] | Some _ \<Rightarrow> elements_of de m k)"

fun wire_chat_choice_of_json :: "json \<Rightarrow> wire_chat_choice option" where
  "wire_chat_choice_of_json (JObj c) =
     (case (opt_field as_str c ''finish_reason'', map_of c ''message'') of
        (Some f, Some (JObj m)) \<Rightarrow>
          (case (opt_field as_str m ''role'', opt_field as_str m ''content'', default_elements wire_llm_call_of_json m ''tool_calls'') of
             (Some r, Some t, Some calls) \<Rightarrow>
               Some \<lparr>wh_finish_reason = f, wh_role = r, wh_content = t, wh_tool_calls = calls\<rparr>
           | _ \<Rightarrow> None)
      | _ \<Rightarrow> None)"
| "wire_chat_choice_of_json _ = None"

definition wire_chat_known :: "string list" where
  "wire_chat_known = [''id'', ''model'', ''choices'', ''usage'']"

fun wire_chat_of_json :: "json \<Rightarrow> wire_chat option" where
  "wire_chat_of_json (JObj m) =
     (case (opt_field as_str m ''id'', opt_field as_str m ''model'', default_elements wire_chat_choice_of_json m ''choices'',
            opt_field llm_usage_of_json m ''usage'') of
        (Some i, Some mo, Some cs, Some u) \<Rightarrow>
          Some \<lparr>wa_id = i, wa_model = mo, wa_choices = cs, wa_usage = u, wa_extra = other_members wire_chat_known m\<rparr>
      | _ \<Rightarrow> None)"
| "wire_chat_of_json _ = None"

definition llm_usage_json :: "token_usage \<Rightarrow> json" where
  "llm_usage_json u =
     obj [(''prompt_tokens'', JInt (int (tu_prompt u))), (''completion_tokens'', JInt (int (tu_completion u))),
          (''total_tokens'', JInt (int (tu_total u))), (''cached_input_tokens'', JInt (int (tu_cached u)))]"

definition wire_metadata :: "llm_provider \<Rightarrow> string \<Rightarrow> wire_chat \<Rightarrow> json" where
  "wire_metadata p model w =
     obj ([(''provider'', JStr (provider_str p)), (''model'', JStr model)] @ opt_member ''response_id'' JStr (wa_id w) @
          opt_member ''finish_reason'' JStr (case wa_choices w of [] \<Rightarrow> None | c # _ \<Rightarrow> wh_finish_reason c) @
          opt_member ''usage'' llm_usage_json (wa_usage w) @
          filter (\<lambda>(k, _). k \<noteq> ''choices'' \<and> k \<noteq> ''usage'' \<and> k \<noteq> ''model'' \<and> k \<noteq> ''id'') (wa_extra w))"

definition chat_role_of_wire :: "string option \<Rightarrow> chat_role" where
  "chat_role_of_wire r =
     (if r = Some ''system'' then ChatSystem else if r = Some ''user'' then ChatUser
      else if r = Some ''tool'' then ChatTool else ChatAssistant)"

definition into_response :: "llm_provider \<Rightarrow> string \<Rightarrow> wire_chat \<Rightarrow> chat_response option" where
  "into_response p default_model w =
     (let model = unwrap_or default_model (wa_model w) in
      case wa_choices w of
        [] \<Rightarrow> None
      | c # _ \<Rightarrow>
          Some \<lparr>cp_model = model,
                cp_message = \<lparr>cg_role = chat_role_of_wire (wh_role c), cg_content = unwrap_or [] (wh_content c),
                              cg_tool_calls = wh_tool_calls c, cg_tool_call_id = None\<rparr>,
                cp_usage = wa_usage w, cp_metadata = wire_metadata p model w\<rparr>)"

section \<open>Transport\<close>

record transport =
  tp_base_url :: string
  tp_api_key :: string
  tp_timeout :: nat
  tp_headers :: "(string \<times> string) list"
  tp_client :: "nat option"

definition default_timeout :: nat where "default_timeout = 15"

definition transport_new :: "string \<Rightarrow> string \<Rightarrow> transport" where
  "transport_new url key =
     \<lparr>tp_base_url = url, tp_api_key = key, tp_timeout = default_timeout, tp_headers = [], tp_client = None\<rparr>"

definition with_timeout :: "nat \<Rightarrow> transport \<Rightarrow> transport" where
  "with_timeout n t = t\<lparr>tp_timeout := n, tp_client := None\<rparr>"

definition with_extra_header :: "string \<Rightarrow> string \<Rightarrow> transport \<Rightarrow> transport" where
  "with_extra_header k v t = t\<lparr>tp_headers := tp_headers t @ [(k, v)]\<rparr>"

definition with_base_url :: "string \<Rightarrow> transport \<Rightarrow> transport" where
  "with_base_url url t = t\<lparr>tp_base_url := url\<rparr>"

record llm_http =
  lh_client :: nat
  lh_url :: string
  lh_bearer :: string
  lh_body :: "(string \<times> json) list"
  lh_timeout :: "nat option"
  lh_headers :: "(string \<times> string) list"

record llm_env =
  le_print :: "json \<Rightarrow> string"
  le_parse :: "string \<Rightarrow> json option"
  le_shape :: "string \<Rightarrow> string"
  le_build :: "nat \<Rightarrow> string option"
  le_send :: "llm_http \<Rightarrow> string + http_answer"

text \<open>\<open>http()\<close>: the client kept, or a new one for the current timeout; \<open>le_build\<close> is the failure to build it.\<close>

definition transport_http :: "llm_env \<Rightarrow> transport \<Rightarrow> llm_error + nat \<times> transport" where
  "transport_http env t =
     (case tp_client t of
        Some c \<Rightarrow> Inr (c, t)
      | None \<Rightarrow>
          (case le_build env (tp_timeout t) of
             Some e \<Rightarrow> Inl (LlmConfigInvalid OpenAi (''reqwest client build failed: '' @ e))
           | None \<Rightarrow> Inr (tp_timeout t, t\<lparr>tp_client := Some (tp_timeout t)\<rparr>)))"

fun members_of :: "json \<Rightarrow> json_map" where
  "members_of (JObj m) = m"
| "members_of _ = []"

definition llm_http_call :: "transport \<Rightarrow> nat \<Rightarrow> string \<Rightarrow> (string \<times> json) list \<Rightarrow> chat_request \<Rightarrow> llm_http" where
  "llm_http_call t client path body r =
     \<lparr>lh_client = client, lh_url = trim_end_slash (tp_base_url t) @ path, lh_bearer = tp_api_key t, lh_body = body,
      lh_timeout = cq_timeout r, lh_headers = tp_headers t\<rparr>"

text \<open>The answer of an endpoint: transport failure, refusal, or a text that must decode.\<close>

definition llm_answer ::
  "llm_env \<Rightarrow> llm_provider \<Rightarrow> (json \<Rightarrow> 'a option) \<Rightarrow> string + http_answer \<Rightarrow> llm_error + 'a" where
  "llm_answer env p de ans =
     (case ans of
        Inl e \<Rightarrow> Inl (LlmTransport p e)
      | Inr a \<Rightarrow>
          if \<not> is_success (ha_status a) then Inl (LlmHttp p (ha_status a) (truncate_text (text_or_default a) 1024))
          else
            (case ha_text a of
               Inl e \<Rightarrow> Inl (LlmResponseParse p e)
             | Inr t \<Rightarrow> okorR (LlmResponseParse p (le_shape env t)) (Option.bind (le_parse env t) de)))"

definition transport_chat_complete ::
  "llm_env \<Rightarrow> llm_provider \<Rightarrow> string \<Rightarrow> chat_request \<Rightarrow> transport \<Rightarrow> (llm_error + chat_response) \<times> transport" where
  "transport_chat_complete env p default_model r t =
     (case transport_http env t of
        Inl e \<Rightarrow> (Inl e, t)
      | Inr (client, t') \<Rightarrow>
          (let body = maybe_disable_thinking p (cq_tool_choice r) (build_request_body default_model r);
               ans = le_send env (llm_http_call t' client ''/chat/completions'' (members_of body) r)
           in (bindR (llm_answer env p wire_chat_of_json ans) (\<lambda>w.
               okorR (LlmNoChoice p) (into_response p default_model w)), t')))"

section \<open>Responses\<close>

definition parsed_arguments :: "llm_env \<Rightarrow> string \<Rightarrow> json" where
  "parsed_arguments env a = unwrap_or (JObj []) (le_parse env a)"

definition core_call_of_llm :: "llm_env \<Rightarrow> llm_call \<Rightarrow> core_tool_call" where
  "core_call_of_llm env c =
     (let i = unwrap_or [] (lc_id c) in
      with_call_id i (tool_call_new i \<lparr>fn_name = lc_name c, fn_arguments = parsed_arguments env (lc_arguments c)\<rparr>))"

definition core_of_chat :: "llm_env \<Rightarrow> chat_msg \<Rightarrow> string + core_message" where
  "core_of_chat env m =
     (case cg_role m of
        ChatSystem \<Rightarrow> Inr (CoreSystem (cg_content m))
      | ChatUser \<Rightarrow> Inr (core_user (cg_content m))
      | ChatAssistant \<Rightarrow>
          if cg_tool_calls m = [] then Inr (core_assistant (cg_content m))
          else
            (let content = (if cg_content m = [] then [] else [ac_text (cg_content m)]) @
                           map (\<lambda>c. AcToolCall (core_call_of_llm env c)) (cg_tool_calls m)
             in bindR (okorR ''assistant message content empty'' (om_many content)) (\<lambda>c. Inr (CoreAssistant None c)))
      | ChatTool \<Rightarrow>
          bindR (okorR ''tool message missing tool_call_id (Responses API requires call_id)'' (cg_tool_call_id m)) (\<lambda>i.
          Inr (CoreUser (om_one (UcToolResult
            \<lparr>res_id = i, res_call_id = Some i, res_content = om_one (TrText (text_new (cg_content m)))\<rparr>)))))"

definition chat_history_to_core :: "llm_env \<Rightarrow> chat_msg list \<Rightarrow> string + core_message list" where
  "chat_history_to_core env ms = collectR (map (core_of_chat env) ms)"

definition reasoning_param :: "llm_provider \<Rightarrow> json" where
  "reasoning_param p =
     (case p of
        DeepSeek \<Rightarrow> obj [(''reasoning'', obj [(''effort'', JStr ''minimal'')])]
      | Qwen \<Rightarrow> obj [(''reasoning'', obj [(''effort'', JStr ''none'')])]
      | _ \<Rightarrow> obj [])"

fun core_tool_choice_of :: "llm_tool_choice \<Rightarrow> core_tool_choice" where
  "core_tool_choice_of ChoiceAuto = CtAuto"
| "core_tool_choice_of ChoiceRequired = CtRequired"
| "core_tool_choice_of (ChoiceFunction n) = CtSpecific [n]"

definition core_tool_of :: "llm_tool \<Rightarrow> core_tool" where
  "core_tool_of t =
     \<lparr>ct_name = ld_name t, ct_parameters = ld_parameters t, ct_description = unwrap_or [] (ld_description t)\<rparr>"

text \<open>No content that the conversion above builds needs a \<open>Debug\<close> text.\<close>

definition responses_request_of ::
  "llm_env \<Rightarrow> llm_provider \<Rightarrow> string \<Rightarrow> chat_request \<Rightarrow> llm_error + responses_request" where
  "responses_request_of env p default_model r =
     bindR (map_errR (\<lambda>m. LlmConfigInvalid p (''responses request build: '' @ m)) (chat_history_to_core env (cq_messages r))) (\<lambda>history.
     map_errR (\<lambda>e. LlmConfigInvalid p (''responses request build: '' @ show_openai_error e))
       (responses_from_history (\<lambda>_. []) (\<lambda>_. []) (unwrap_or default_model (cq_model r))
         (case cq_system_prompt r of Some s \<Rightarrow> if s = [] then None else Some s | None \<Rightarrow> None)
         history (map core_tool_of (cq_tools r)) (map_option core_tool_choice_of (cq_tool_choice r)) (cq_temperature r)
         None (Some (reasoning_param p))))"

fun output_texts :: "assistant_content list \<Rightarrow> string" where
  "output_texts [] = []"
| "output_texts (AcText t # xs) = tx_text t @ output_texts xs"
| "output_texts (_ # xs) = output_texts xs"

definition llm_call_of_core :: "llm_env \<Rightarrow> core_tool_call \<Rightarrow> llm_call" where
  "llm_call_of_core env t =
     \<lparr>lc_id = Some (case tc_call_id t of Some c \<Rightarrow> if c = [] then tc_id t else c | None \<Rightarrow> tc_id t),
      lc_name = fn_name (tc_function t), lc_arguments = le_print env (fn_arguments (tc_function t))\<rparr>"

fun output_calls :: "llm_env \<Rightarrow> assistant_content list \<Rightarrow> llm_call list" where
  "output_calls env [] = []"
| "output_calls env (AcToolCall t # xs) = llm_call_of_core env t # output_calls env xs"
| "output_calls env (_ # xs) = output_calls env xs"

definition debug_status :: "response_status \<Rightarrow> string" where
  "debug_status s =
     (case s of RsInProgress \<Rightarrow> ''InProgress'' | RsCompleted \<Rightarrow> ''Completed'' | RsFailed \<Rightarrow> ''Failed''
      | RsCancelled \<Rightarrow> ''Cancelled'' | RsQueued \<Rightarrow> ''Queued'' | RsIncomplete \<Rightarrow> ''Incomplete'')"

text \<open>\<open>as u32\<close> keeps the low 32 bits.\<close>

definition usage_of_resp :: "resp_usage \<Rightarrow> token_usage" where
  "usage_of_resp u =
     \<lparr>tu_prompt = ru_input u mod 2 ^ 32, tu_completion = ru_output u mod 2 ^ 32, tu_total = ru_total u mod 2 ^ 32,
      tu_cached = (case ru_cached u of Some c \<Rightarrow> c mod 2 ^ 32 | None \<Rightarrow> 0)\<rparr>"

definition responses_to_chat ::
  "llm_env \<Rightarrow> llm_provider \<Rightarrow> string \<Rightarrow> string option \<Rightarrow> resp_response \<Rightarrow> llm_error + chat_response" where
  "responses_to_chat env p default_model requested resp =
     (let items = resp_assistant_content resp; content = output_texts items; calls = output_calls env items in
      if content = [] \<and> calls = [] then Inl (LlmNoChoice p)
      else Inr \<lparr>cp_model = unwrap_or default_model requested,
                cp_message = \<lparr>cg_role = ChatAssistant, cg_content = content, cg_tool_calls = calls, cg_tool_call_id = None\<rparr>,
                cp_usage = map_option usage_of_resp (rp_usage resp),
                cp_metadata = obj [(''object'', JStr ''chat.completion.via_responses''), (''response_id'', JStr (rp_id resp)),
                                   (''status'', JStr (debug_status (rp_status resp)))]\<rparr>)"

definition transport_responses_complete ::
  "llm_env \<Rightarrow> llm_provider \<Rightarrow> string \<Rightarrow> chat_request \<Rightarrow> transport \<Rightarrow> (llm_error + chat_response) \<times> transport" where
  "transport_responses_complete env p default_model r t =
     (case responses_request_of env p default_model r of
        Inl e \<Rightarrow> (Inl e, t)
      | Inr q \<Rightarrow>
          (case transport_http env t of
             Inl e \<Rightarrow> (Inl e, t)
           | Inr (client, t') \<Rightarrow>
               (let ans = le_send env (llm_http_call t' client ''/responses'' (responses_members (le_print env) q) r)
                in (bindR (llm_answer env p (resp_of_json (le_parse env)) ans) (responses_to_chat env p default_model (cq_model r)), t'))))"

end
