(* ===== verification/Ai_LlmFactory.thy ===== *)
theory Ai_LlmFactory
  imports Ai_Llm
begin

text \<open>
  The chat providers of fusion-ai (\<open>llm/providers\<close>) and their factory (\<open>llm/factory.rs\<close>): the endpoints and
  default models, the configuration of each vendor with its checks, and the provider a configuration builds.
  A stub has no transport. \<open>LlmChatProvider\<close> is the function of the provider that dispatches on it.
\<close>

definition default_model_qwen :: string where "default_model_qwen = ''qwen3.7-plus''"
definition default_model_deepseek :: string where "default_model_deepseek = ''deepseek-flash''"
definition default_model_openai :: string where "default_model_openai = ''gpt-4o-mini''"
definition default_model_anthropic :: string where "default_model_anthropic = ''claude-3-5-sonnet-latest''"
definition default_model_gemini :: string where "default_model_gemini = ''gemini-2.0-flash''"
definition default_endpoint_deepseek :: string where "default_endpoint_deepseek = ''https://api.deepseek.com/v1''"
definition default_endpoint_openai :: string where "default_endpoint_openai = ''https://api.openai.com/v1''"

section \<open>Providers\<close>

record chat_provider =
  pv_id :: llm_provider
  pv_default_model :: string
  pv_transport :: "transport option"

definition apply_opt :: "('a \<Rightarrow> 'b \<Rightarrow> 'b) \<Rightarrow> 'a option \<Rightarrow> 'b \<Rightarrow> 'b" where
  "apply_opt f x y = (case x of None \<Rightarrow> y | Some v \<Rightarrow> f v y)"

definition present_text :: "string option \<Rightarrow> string option" where
  "present_text x = (case x of Some s \<Rightarrow> if s = [] then None else Some s | None \<Rightarrow> None)"

fun compatible_endpoint :: "region \<Rightarrow> string" where
  "compatible_endpoint Beijing = ''https://dashscope.aliyuncs.com/compatible-mode/v1''"
| "compatible_endpoint Singapore = ''https://dashscope-intl.aliyuncs.com/compatible-mode/v1''"

definition qwen_new :: "string \<Rightarrow> string option \<Rightarrow> region \<Rightarrow> string \<Rightarrow> nat option \<Rightarrow> chat_provider" where
  "qwen_new key workspace r model timeout =
     (let t = apply_opt with_timeout timeout (transport_new (compatible_endpoint r) key) in
      \<lparr>pv_id = Qwen, pv_default_model = model,
       pv_transport = Some (apply_opt (with_extra_header ''X-DashScope-WorkSpace'') (present_text workspace) t)\<rparr>)"

definition deepseek_new :: "string \<Rightarrow> string option \<Rightarrow> string \<Rightarrow> nat option \<Rightarrow> chat_provider" where
  "deepseek_new key endpoint model timeout =
     \<lparr>pv_id = DeepSeek, pv_default_model = model,
      pv_transport = Some (apply_opt with_timeout timeout (transport_new (unwrap_or default_endpoint_deepseek endpoint) key))\<rparr>"

definition openai_new :: "string \<Rightarrow> string option \<Rightarrow> string option \<Rightarrow> string \<Rightarrow> nat option \<Rightarrow> chat_provider" where
  "openai_new key organization endpoint model timeout =
     (let t = apply_opt with_timeout timeout (transport_new (unwrap_or default_endpoint_openai endpoint) key) in
      \<lparr>pv_id = OpenAi, pv_default_model = model,
       pv_transport = Some (apply_opt (with_extra_header ''OpenAI-Organization'') (present_text organization) t)\<rparr>)"

definition anthropic_new :: "string \<Rightarrow> string \<Rightarrow> chat_provider" where
  "anthropic_new key model = \<lparr>pv_id = Anthropic, pv_default_model = model, pv_transport = None\<rparr>"

definition gemini_new :: "string \<Rightarrow> string \<Rightarrow> chat_provider" where
  "gemini_new key model = \<lparr>pv_id = Gemini, pv_default_model = model, pv_transport = None\<rparr>"

definition provider_with_base_url :: "string \<Rightarrow> chat_provider \<Rightarrow> chat_provider" where
  "provider_with_base_url url p = p\<lparr>pv_transport := map_option (with_base_url url) (pv_transport p)\<rparr>"

definition chat_complete ::
  "llm_env \<Rightarrow> chat_request \<Rightarrow> chat_provider \<Rightarrow> (llm_error + chat_response) \<times> chat_provider" where
  "chat_complete env r p =
     (case pv_transport p of
        None \<Rightarrow> (Inl (LlmNotEnabled (pv_id p)), p)
      | Some t \<Rightarrow>
          (let (res, t') = transport_chat_complete env (pv_id p) (pv_default_model p) r t in
           (res, p\<lparr>pv_transport := Some t'\<rparr>)))"

text \<open>Qwen and DeepSeek have a Responses endpoint, every other provider keeps the default of the trait.\<close>

definition responses_complete ::
  "llm_env \<Rightarrow> chat_request \<Rightarrow> chat_provider \<Rightarrow> (llm_error + chat_response) \<times> chat_provider" where
  "responses_complete env r p =
     (if pv_id p = Qwen \<or> pv_id p = DeepSeek then
        (case pv_transport p of
           None \<Rightarrow> (Inl (LlmNotEnabled (pv_id p)), p)
         | Some t \<Rightarrow>
             (let (res, t') = transport_responses_complete env (pv_id p) (pv_default_model p) r t in
              (res, p\<lparr>pv_transport := Some t'\<rparr>)))
      else chat_complete env r p)"

section \<open>Factory\<close>

datatype provider_config =
    CfgQwen string "string option" region string "nat option" "string option"
  | CfgDeepSeek string "string option" string "nat option"
  | CfgOpenAi string "string option" "string option" string "nat option"
  | CfgAnthropic string string
  | CfgGemini string string

fun config_provider_id :: "provider_config \<Rightarrow> llm_provider" where
  "config_provider_id (CfgQwen _ _ _ _ _ _) = Qwen"
| "config_provider_id (CfgDeepSeek _ _ _ _) = DeepSeek"
| "config_provider_id (CfgOpenAi _ _ _ _ _) = OpenAi"
| "config_provider_id (CfgAnthropic _ _) = Anthropic"
| "config_provider_id (CfgGemini _ _) = Gemini"

fun provider_default_model :: "llm_provider \<Rightarrow> string" where
  "provider_default_model Qwen = default_model_qwen"
| "provider_default_model DeepSeek = default_model_deepseek"
| "provider_default_model OpenAi = default_model_openai"
| "provider_default_model Anthropic = default_model_anthropic"
| "provider_default_model Gemini = default_model_gemini"

fun provider_default_endpoint :: "llm_provider \<Rightarrow> string option" where
  "provider_default_endpoint DeepSeek = Some default_endpoint_deepseek"
| "provider_default_endpoint OpenAi = Some default_endpoint_openai"
| "provider_default_endpoint _ = None"

definition require_api_key :: "llm_provider \<Rightarrow> string \<Rightarrow> llm_error + unit" where
  "require_api_key p key =
     (if trim_is_empty key then Inl (LlmConfigInvalid p ''api_key required'') else okR)"

definition model_or :: "string \<Rightarrow> string option \<Rightarrow> string" where
  "model_or d m = (case m of Some s \<Rightarrow> if trim_is_empty s then d else s | None \<Rightarrow> d)"

definition qwen_from_parts ::
  "string \<Rightarrow> string option \<Rightarrow> string option \<Rightarrow> string option \<Rightarrow> nat option \<Rightarrow> string option \<Rightarrow> llm_error + provider_config" where
  "qwen_from_parts key workspace r model timeout override =
     thenR (require_api_key Qwen key)
       (Inr (CfgQwen key workspace (parse_dashscope_region r) (model_or default_model_qwen model) timeout override))"

definition deepseek_from_parts ::
  "string \<Rightarrow> string option \<Rightarrow> string option \<Rightarrow> nat option \<Rightarrow> llm_error + provider_config" where
  "deepseek_from_parts key endpoint model timeout =
     thenR (require_api_key DeepSeek key) (Inr (CfgDeepSeek key endpoint (model_or default_model_deepseek model) timeout))"

definition openai_from_parts ::
  "string \<Rightarrow> string option \<Rightarrow> string option \<Rightarrow> string option \<Rightarrow> nat option \<Rightarrow> llm_error + provider_config" where
  "openai_from_parts key organization endpoint model timeout =
     thenR (require_api_key OpenAi key)
       (Inr (CfgOpenAi key organization endpoint (model_or default_model_openai model) timeout))"

definition anthropic_from_parts :: "string \<Rightarrow> string option \<Rightarrow> llm_error + provider_config" where
  "anthropic_from_parts key model =
     thenR (require_api_key Anthropic key) (Inr (CfgAnthropic key (model_or default_model_anthropic model)))"

definition gemini_from_parts :: "string \<Rightarrow> string option \<Rightarrow> llm_error + provider_config" where
  "gemini_from_parts key model =
     thenR (require_api_key Gemini key) (Inr (CfgGemini key (model_or default_model_gemini model)))"

fun build_provider :: "provider_config \<Rightarrow> chat_provider" where
  "build_provider (CfgQwen key workspace r model timeout override) =
     (let p = qwen_new key workspace r model timeout in
      case override of
        Some url \<Rightarrow> if trim_is_empty url then p else provider_with_base_url url p
      | None \<Rightarrow> p)"
| "build_provider (CfgDeepSeek key endpoint model timeout) = deepseek_new key endpoint model timeout"
| "build_provider (CfgOpenAi key organization endpoint model timeout) = openai_new key organization endpoint model timeout"
| "build_provider (CfgAnthropic key model) = anthropic_new key model"
| "build_provider (CfgGemini key model) = gemini_new key model"

end
