(* ===== verification/Ai_Llm_Props.thy ===== *)
theory Ai_Llm_Props
  imports Ai_LlmFactory Ai_ResponsesAnswer
begin

text \<open>
  What the OpenAI-compatible providers keep: a message that is replayed is the message that was received,
  tool calls and their results stay paired, a stream gives back the text and the calls it was cut into, the
  schema of a tool is closed, and a request body holds what the request says.
\<close>

section \<open>Lists of optional results\<close>

lemma map_filter_append: "List.map_filter f (xs @ ys) = List.map_filter f xs @ List.map_filter f ys"
  by (induction xs) (auto simp: map_filter_simps split: option.split)

lemma map_filter_concat: "List.map_filter f (concat xss) = concat (map (List.map_filter f) xss)"
  by (induction xss) (auto simp: map_filter_append map_filter_simps)

lemma list_all2_concat_map:
  "list_all2 (\<lambda>x y. g y = h x) xs ys \<Longrightarrow> concat (map g ys) = concat (map h xs)"
  by (induction rule: list_all2_induct) auto

lemma collectR_Inr: "collectR (map Inr xs) = Inr xs"
  by (induction xs) auto

section \<open>Messages\<close>

text \<open>A message as the conversion writes it: no name, refusal or audio, text parts only, and something to say.\<close>

fun is_wa_text :: "wire_assistant \<Rightarrow> bool" where
  "is_wa_text (WaText _) = True"
| "is_wa_text (WaRefusal _) = False"

fun plain_message :: "wire_message \<Rightarrow> bool" where
  "plain_message (WireSystem _ _) = False"
| "plain_message (WireUser _ n) = (n = None)"
| "plain_message (WireAssistant c r a n calls) =
     (r = None \<and> a = None \<and> n = None \<and> list_all is_wa_text c \<and> (c \<noteq> [] \<or> calls \<noteq> []))"
| "plain_message (WireToolResult _ _) = True"

lemma split_texts:
  "split_assistant (map AcText ts @ xs) texts tools = split_assistant xs (texts @ ts) tools"
  by (induction ts arbitrary: texts) auto

lemma split_calls: "split_assistant (map AcToolCall cs) texts tools = Inr (texts, tools @ cs)"
  by (induction cs arbitrary: tools) auto

lemma wire_call_roundtrip: "wire_call_of_core (core_call_of_wire t) = t"
  by (simp add: wire_call_of_core_def core_call_of_wire_def)

lemma assistant_texts:
  "list_all is_wa_text c \<Longrightarrow>
     \<exists>ts. map core_of_wire_assistant c = map AcText ts \<and> map (\<lambda>t. WaText (tx_text t)) ts = c"
proof (induction c)
  case (Cons a c)
  then obtain ts where ts: "map core_of_wire_assistant c = map AcText ts" "map (\<lambda>t. WaText (tx_text t)) ts = c" by auto
  from Cons.prems obtain s where "a = WaText s" by (cases a) auto
  with ts show ?case by (intro exI [of _ "text_new s # ts"]) (simp add: ac_text_def text_new_def)
qed simp

lemma wire_user_roundtrip: "wire_of_user (core_of_wire_user u) = Inr u"
  by (cases u) (simp_all add: uc_text_def text_new_def uc_image_url_def wire_of_image_def uc_audio_def)

lemma user_not_result: "\<not> is_tool_result (core_of_wire_user u)"
  by (cases u) (simp_all add: uc_text_def uc_image_url_def uc_audio_def)

lemma om_many_map: "om_many (map f (om_list c)) = Some (OneOrMany (f (om_first c)) (map f (om_rest c)))"
  by (simp add: om_list_def)

lemma replay_user: "core_of_wire (WireUser c None) = Inr m \<Longrightarrow> wire_of_core m = Inr [WireUser c None]"
proof -
  assume "core_of_wire (WireUser c None) = Inr m"
  then have m: "m = CoreUser (OneOrMany (core_of_wire_user (om_first c)) (map core_of_wire_user (om_rest c)))" (is "m = CoreUser ?c")
    by (simp add: om_many_map okorR_def)
  have l: "om_list ?c = map core_of_wire_user (om_list c)" by (simp add: om_list_def)
  have "filter is_tool_result (om_list ?c) = []" "filter (\<lambda>x. \<not> is_tool_result x) (om_list ?c) = om_list ?c"
    by (auto simp: l user_not_result filter_empty_conv filter_id_conv)
  moreover have "collectR (map wire_of_user (om_list ?c)) = Inr (om_list c)"
    unfolding l map_map comp_def wire_user_roundtrip by (rule collectR_Inr)
  ultimately show ?thesis by (simp add: m okorR_def)
qed

lemma replay_assistant:
  assumes "core_of_wire (WireAssistant c None None None calls) = Inr m" "list_all is_wa_text c"
  shows "wire_of_core m = Inr [WireAssistant c None None None calls]"
proof -
  obtain ts where ts: "map core_of_wire_assistant c = map AcText ts" "map (\<lambda>t. WaText (tx_text t)) ts = c"
    using assistant_texts [OF assms(2)] by blast
  from assms(1) obtain o1 where "om_list o1 = map AcText ts @ map AcToolCall (map core_call_of_wire calls)" "m = CoreAssistant None o1"
    by (auto simp: bindR_eq_Inr okorR_eq_Inr om_many_Some_iff ts(1) comp_def)
  then show ?thesis
    using ts(2) by (simp only: wire_of_core.simps split_texts split_calls)
      (simp add: comp_def wire_call_roundtrip)
qed

lemma replay_result: "core_of_wire (WireToolResult i c) = Inr m \<Longrightarrow> wire_of_core m = Inr [WireToolResult i c]"
proof -
  assume "core_of_wire (WireToolResult i c) = Inr m"
  then obtain o1 where o1: "om_list o1 = map (\<lambda>t. TrText (text_new t)) (om_list c)"
    and m: "m = CoreUser (om_one (UcToolResult \<lparr>res_id = i, res_call_id = None, res_content = o1\<rparr>))"
    by (auto simp: bindR_eq_Inr okorR_eq_Inr om_many_Some_iff)
  have "collectR (map tool_result_text (om_list o1)) = Inr (om_list c)"
    unfolding o1 map_map comp_def by (simp add: text_new_def collectR_Inr)
  then show ?thesis by (simp add: m okorR_def)
qed

lemma core_of_plain: "plain_message w \<Longrightarrow> \<exists>m. core_of_wire w = Inr m"
  by (cases w) (auto simp: okorR_def om_many_map split: option.split)

text \<open>A Chat Completions message that the provider sent, put into the message model and sent back, is the
  same message: text parts and tool calls with their ids and arguments, tool results, user parts.\<close>

theorem replayed_message_same:
  assumes "plain_message w"
  shows "\<exists>m. core_of_wire w = Inr m \<and> wire_of_core m = Inr [w]"
proof -
  obtain m where m: "core_of_wire w = Inr m" using core_of_plain [OF assms] by blast
  have "wire_of_core m = Inr [w]"
    using assms m replay_user replay_assistant replay_result by (cases w) (auto simp del: core_of_wire.simps wire_of_core.simps)
  with m show ?thesis by blast
qed

theorem replayed_message_same_witness:
  defines "call \<equiv> \<lparr>wt_id = ''call_1'', wt_name = ''get'', wt_arguments = JObj [(''x'', JInt 1)], wt_signature = None, wt_params = None\<rparr>"
  shows "\<exists>m. core_of_wire (WireAssistant [WaText ''hm''] None None None [call]) = Inr m \<and>
    wire_of_core m = Inr [WireAssistant [WaText ''hm''] None None None [call]]"
  by (rule replayed_message_same) simp

section \<open>JSON of a message\<close>

lemma text_item_back: "text_of_item (text_item t) = Some t"
  by (simp add: text_item_def obj_def type_is_def string_field_def)

lemma assistant_item_back: "assistant_of_item (assistant_item a) = Some a"
  by (cases a) (simp_all add: text_item_def obj_def string_field_def)

lemma detail_back: "detail_of_json (JStr (detail_name d)) = Some d"
  by (cases d) (simp_all add: detail_of_json_def)

lemma audio_back: "audio_of_json (JStr (audio_name a)) = Some a"
  by (cases a) (simp_all add: audio_of_json_def)

lemma user_item_back: "user_of_item (user_item u) = Some u"
  by (cases u) (simp_all add: text_item_def obj_def string_field_def detail_back audio_back)

text \<open>The arguments of a call survive their text; extra parameters are not the JSON null.\<close>

definition sound_call :: "(json \<Rightarrow> string) \<Rightarrow> (string \<Rightarrow> json option) \<Rightarrow> wire_tool_call \<Rightarrow> bool" where
  "sound_call print parse t \<longleftrightarrow> parse (print (wt_arguments t)) = Some (wt_arguments t) \<and> wt_params t \<noteq> Some JNull"

lemma wire_call_back:
  assumes "sound_call print parse t"
  shows "wire_call_of_json parse (wire_call_json print t) = Some t"
  using assms by (cases t)
    (auto simp: sound_call_def wire_call_json_def obj_def string_field_def opt_field_def type_is_def stringified_ser_def stringified_de_def
      opt_str_def unwrap_or_def split: option.split json.split)

lemma all_some_back: "(\<And>x. x \<in> set xs \<Longrightarrow> de (ser x) = Some x) \<Longrightarrow> all_some (map de (map ser xs)) = Some xs"
  using all_some_map [of xs "de \<circ> ser" id] by simp

lemma om_back: "(\<And>x. de (ser x) = Some x) \<Longrightarrow> om_of_json de (om_json ser c) = Some c"
  using all_some_back [of "om_list c" de ser] by (simp add: om_json_def)

lemma wire_json_read: "wire_message_json print w = obj ms \<Longrightarrow> distinct (map fst ms) \<Longrightarrow>
  \<exists>m. wire_message_json print w = JObj m \<and> map_of m = map_of ms"
  using map_of_rev_keys [of ms] by (intro exI [of _ "fold (\<lambda>(k, v). map_insert k v) ms []"])
    (simp add: obj_def fun_eq_iff map_of_fold_insert split: option.split)

lemma opt_member_lookup: "map_of (opt_member k f x @ ms) k' = (if k' = k \<and> x \<noteq> None then map_option f x else map_of ms k')"
  by (cases x) (simp_all add: opt_member_def)

lemma opt_member_lookup': "map_of (opt_member k f x) k' = (if k' = k then map_option f x else None)"
  by (cases x) (simp_all add: opt_member_def)

lemma opt_member_keys: "map fst (opt_member k f x) = (if x = None then [] else [k])"
  by (cases x) (simp_all add: opt_member_def)

lemma opt_field_str: "opt_field as_str m k = Some x \<longleftrightarrow>
    (case map_of m k of None \<Rightarrow> x = None | Some JNull \<Rightarrow> x = None | Some v \<Rightarrow> map_option Some (as_str v) = Some x)"
  by (auto simp: opt_field_def split: option.split json.split)

fun sound_calls :: "(json \<Rightarrow> string) \<Rightarrow> (string \<Rightarrow> json option) \<Rightarrow> wire_message \<Rightarrow> bool" where
  "sound_calls print parse (WireAssistant _ _ _ _ calls) = list_all (sound_call print parse) calls"
| "sound_calls _ _ _ = True"

lemma name_back: "opt_field as_str m k = Some x" if "map_of m k = map_option JStr x"
  using that by (cases x) (simp_all add: opt_field_def)

lemma audio_id_back: "opt_field audio_id m k = Some x" if "map_of m k = map_option (\<lambda>i. obj [(''id'', JStr i)]) x"
  using that by (cases x) (simp_all add: opt_field_def obj_def audio_id_def)

lemma system_back: "wire_message_of_json parse (wire_message_json print (WireSystem c n)) = Some (WireSystem c n)"
proof -
  let ?ms = "[(''role'', JStr ''system''), (''content'', om_json text_item c)] @ opt_member ''name'' JStr n"
  have "wire_message_json print (WireSystem c n) = obj ?ms" by simp
  moreover have "distinct (map fst ?ms)" by (simp add: opt_member_keys)
  ultimately obtain m where m: "wire_message_json print (WireSystem c n) = JObj m" "map_of m = map_of ?ms"
    using wire_json_read by blast
  have "opt_field as_str m ''name'' = Some n" by (rule name_back) (simp add: m(2) opt_member_lookup')
  moreover have "string_or_one_or_many id text_of_item (om_json text_item c) = Some c"
    using om_back [of text_of_item text_item c, OF text_item_back] by (simp add: om_json_def)
  ultimately show ?thesis by (simp add: m del: wire_message_json.simps)
qed

lemma user_back: "wire_message_of_json parse (wire_message_json print (WireUser c n)) = Some (WireUser c n)"
proof -
  let ?ms = "[(''role'', JStr ''user''), (''content'', om_json user_item c)] @ opt_member ''name'' JStr n"
  have "wire_message_json print (WireUser c n) = obj ?ms" by simp
  moreover have "distinct (map fst ?ms)" by (simp add: opt_member_keys)
  ultimately obtain m where m: "wire_message_json print (WireUser c n) = JObj m" "map_of m = map_of ?ms"
    using wire_json_read by blast
  have "opt_field as_str m ''name'' = Some n" by (rule name_back) (simp add: m(2) opt_member_lookup')
  moreover have "string_or_one_or_many WuText user_of_item (om_json user_item c) = Some c"
    using om_back [of user_of_item user_item c, OF user_item_back] by (simp add: om_json_def)
  ultimately show ?thesis by (simp add: m del: wire_message_json.simps)
qed

lemma result_back: "wire_message_of_json parse (wire_message_json print (WireToolResult i c)) = Some (WireToolResult i c)"
proof -
  let ?ms = "[(''role'', JStr ''tool''), (''tool_call_id'', JStr i), (''content'', om_json text_item c)]"
  have "wire_message_json print (WireToolResult i c) = obj ?ms" by simp
  moreover have "distinct (map fst ?ms)" by simp
  ultimately obtain m where m: "wire_message_json print (WireToolResult i c) = JObj m" "map_of m = map_of ?ms"
    using wire_json_read by blast
  have "om_of_json text_of_item (om_json text_item c) = Some c" by (rule om_back) (rule text_item_back)
  then show ?thesis by (simp add: m string_field_def del: wire_message_json.simps)
qed

lemma assistant_back:
  assumes "list_all (sound_call print parse) calls"
  shows "wire_message_of_json parse (wire_message_json print (WireAssistant c r a n calls)) = Some (WireAssistant c r a n calls)"
proof -
  let ?ms = "[(''role'', JStr ''assistant''), (''content'', JArr (map assistant_item c))] @
    opt_member ''refusal'' JStr r @ opt_member ''audio'' (\<lambda>i. obj [(''id'', JStr i)]) a @ opt_member ''name'' JStr n @
    (if calls = [] then [] else [(''tool_calls'', JArr (map (wire_call_json print) calls))])"
  have "wire_message_json print (WireAssistant c r a n calls) = obj ?ms" by simp
  moreover have "distinct (map fst ?ms)" by (simp add: opt_member_keys)
  ultimately obtain m where m: "wire_message_json print (WireAssistant c r a n calls) = JObj m" "map_of m = map_of ?ms"
    using wire_json_read by blast
  have role: "map_of m ''role'' = Some (JStr ''assistant'')" "map_of m ''content'' = Some (JArr (map assistant_item c))"
    by (simp_all add: m(2))
  have "opt_field as_str m ''refusal'' = Some r" "opt_field as_str m ''name'' = Some n" "opt_field audio_id m ''audio'' = Some a"
    by (rule name_back audio_id_back; cases r; cases a; cases n; simp add: m(2) opt_member_def)+
  moreover have "string_or_vec WaText assistant_of_item (JArr (map assistant_item c)) = Some c"
    by (simp add: all_some_back assistant_item_back del: map_map)
  moreover have "(case map_of m ''tool_calls'' of None \<Rightarrow> Some [] | Some v \<Rightarrow> null_or_vec (wire_call_of_json parse) v) = Some calls"
  proof -
    have "all_some (map (wire_call_of_json parse) (map (wire_call_json print) calls)) = Some calls"
      using assms by (intro all_some_back wire_call_back) (auto simp: list_all_iff)
    then show ?thesis by (cases r; cases a; cases n) (simp_all add: m(2) opt_member_def del: map_map)
  qed
  ultimately show ?thesis unfolding m(1) wire_message_of_json.simps Let_def role by simp
qed

text \<open>C31: A message of the wire is read back from the JSON it is written as, when every tool call of an assistant
  message is sound: its arguments parse back from their printed text, and its \<open>additional_params\<close> are not
  \<open>Some(null)\<close>, which is read back as absent (\<open>null_params_lost\<close>).\<close>

theorem wire_json_roundtrip:
  assumes "sound_calls print parse w"
  shows "wire_message_of_json parse (wire_message_json print w) = Some w"
  using assms system_back user_back result_back assistant_back by (cases w) (auto simp del: wire_message_json.simps)

theorem wire_json_roundtrip_witness:
  defines "print \<equiv> \<lambda>v. if v = JObj [(''x'', JInt 1)] then ''{x:1}'' else []"
  defines "parse \<equiv> \<lambda>s. if s = ''{x:1}'' then Some (JObj [(''x'', JInt 1)]) else None"
  defines "call \<equiv> \<lparr>wt_id = ''call_1'', wt_name = ''get'', wt_arguments = JObj [(''x'', JInt 1)], wt_signature = None, wt_params = None\<rparr>"
  shows "wire_message_of_json parse (wire_message_json print (WireAssistant [WaRefusal ''no''] None (Some ''a'') None [call])) =
    Some (WireAssistant [WaRefusal ''no''] None (Some ''a'') None [call])"
  by (rule wire_json_roundtrip) (simp add: sound_call_def call_def print_def parse_def)

lemma null_params_lost:
  assumes "sound_call print parse t" "wt_params t = None"
  shows "wire_call_of_json parse (wire_call_json print (t\<lparr>wt_params := Some JNull\<rparr>)) = Some t"
  using assms by (cases t)
    (auto simp: sound_call_def wire_call_json_def obj_def string_field_def opt_field_def type_is_def stringified_ser_def stringified_de_def
      opt_str_def unwrap_or_def split: option.split json.split)

section \<open>Tools\<close>

text \<open>The schema sent for a tool closes every object schema that is reached through definitions, properties,
  items and alternatives, and closing it again changes nothing.\<close>

theorem tool_schema_closed:
  "closed_schema (rt_parameters (resp_tool_of t)) \<and>
   add_props_false (rt_parameters (resp_tool_of t)) = rt_parameters (resp_tool_of t)"
  by (simp add: resp_tool_of_def add_props_closed closed_unchanged)

section \<open>Chat Completions requests\<close>

definition body_members :: "string \<Rightarrow> chat_request \<Rightarrow> (string \<times> json) list" where
  "body_members default_model r =
     [(''model'', JStr (unwrap_or default_model (cq_model r))),
      (''messages'', JArr (system_entries (cq_system_prompt r) @ map chat_msg_json (cq_messages r)))] @
     opt_member ''temperature'' id (cq_temperature r) @
     opt_member ''max_tokens'' (\<lambda>n. JInt (int n)) (cq_max_tokens r) @
     (if cq_tools r = [] then [] else [(''tools'', JArr (map llm_tool_json (cq_tools r)))]) @
     opt_member ''tool_choice'' tool_choice_json (cq_tool_choice r)"

lemma body_get: "json_get k (build_request_body d r) = map_of (body_members d r) k"
proof -
  have "distinct (map fst (body_members d r))" by (simp add: body_members_def opt_member_keys)
  moreover have "build_request_body d r = obj (body_members d r)" by (simp add: build_request_body_def body_members_def)
  ultimately show ?thesis by (simp only: json_get_obj_distinct)
qed

lemma body_object: "\<exists>m. build_request_body d r = JObj m"
  by (simp add: build_request_body_def obj_def)

lemma body_no_thinking: "json_get ''thinking'' (build_request_body d r) = None" "json_get ''enable_thinking'' (build_request_body d r) = None"
  by (simp_all add: body_get body_members_def opt_member_lookup opt_member_lookup')

lemma json_get_insert: "json_get k (insert_member k' v (JObj m)) = (if k = k' then Some v else json_get k (JObj m))"
  by simp

text \<open>A Chat Completions body names the model, carries the system prompt and the messages in order, and holds a
  temperature, a token cap, tools and a tool choice exactly when the request has them; thinking is switched off
  exactly when the request forces a tool and the vendor is DeepSeek or Qwen, each in its own words.\<close>

theorem chat_body_exact:
  "let body = maybe_disable_thinking p (cq_tool_choice r) (build_request_body d r); forced = forces_tool (cq_tool_choice r) in
   json_get ''model'' body = Some (JStr (unwrap_or d (cq_model r))) \<and>
   json_get ''messages'' body = Some (JArr (system_entries (cq_system_prompt r) @ map chat_msg_json (cq_messages r))) \<and>
   json_get ''temperature'' body = cq_temperature r \<and>
   json_get ''max_tokens'' body = map_option (\<lambda>n. JInt (int n)) (cq_max_tokens r) \<and>
   json_get ''tools'' body = (if cq_tools r = [] then None else Some (JArr (map llm_tool_json (cq_tools r)))) \<and>
   json_get ''tool_choice'' body = map_option tool_choice_json (cq_tool_choice r) \<and>
   json_get ''thinking'' body = (if forced \<and> p = DeepSeek then Some (obj [(''type'', JStr ''disabled'')]) else None) \<and>
   json_get ''enable_thinking'' body = (if forced \<and> p = Qwen then Some (JBool False) else None)"
proof -
  let ?body = "maybe_disable_thinking p (cq_tool_choice r) (build_request_body d r)"
  obtain m where m: "build_request_body d r = JObj m" using body_object by blast
  have get: "json_get k ?body =
      (if forces_tool (cq_tool_choice r) \<and> p = DeepSeek \<and> k = ''thinking'' then Some (obj [(''type'', JStr ''disabled'')])
       else if forces_tool (cq_tool_choice r) \<and> p = Qwen \<and> k = ''enable_thinking'' then Some (JBool False)
       else json_get k (build_request_body d r))" for k
    unfolding m maybe_disable_thinking_def by (cases p) simp_all
  show ?thesis
    unfolding Let_def get
    by (cases "cq_temperature r"; cases "cq_max_tokens r"; cases "cq_tool_choice r")
      (simp_all add: body_no_thinking body_get body_members_def opt_member_def)
qed

section \<open>Responses requests\<close>

fun item_call_id :: "input_item \<Rightarrow> string option" where
  "item_call_id i = (case ii_input i of IcCall c \<Rightarrow> Some (oc_call_id c) | _ \<Rightarrow> None)"

fun item_output_id :: "input_item \<Rightarrow> string option" where
  "item_output_id i = (case ii_input i of IcOutput f \<Rightarrow> Some (fo_call_id f) | _ \<Rightarrow> None)"

definition called_ids :: "chat_msg \<Rightarrow> string list" where
  "called_ids m = (if cg_role m = ChatAssistant then map (\<lambda>c. unwrap_or [] (lc_id c)) (cg_tool_calls m) else [])"

definition answered_ids :: "chat_msg \<Rightarrow> string list" where
  "answered_ids m =
     (if cg_role m = ChatTool then (case cg_tool_call_id m of Some i \<Rightarrow> [i] | None \<Rightarrow> []) else [])"

lemma collectR_append: "collectR (xs @ ys) = bindR (collectR xs) (\<lambda>a. bindR (collectR ys) (\<lambda>b. Inr (a @ b)))"
proof (induction xs)
  case Nil
  then show ?case by (cases "collectR ys") simp_all
next
  case (Cons r xs)
  then show ?case by (cases r; cases "collectR xs"; cases "collectR ys") simp_all
qed

lemma calls_collected:
  "collectR (map (item_of_assistant i) (map (\<lambda>c. AcToolCall (core_call_of_llm env c)) cs)) =
     Inr (map (\<lambda>c. call_item (core_call_of_llm env c)) cs)"
  by (induction cs) auto

lemma map_filter_map: "List.map_filter f (map g xs) = List.map_filter (f \<circ> g) xs"
  by (induction xs) (auto simp: map_filter_simps split: option.split)

lemma map_filter_some: "List.map_filter (\<lambda>x. Some (g x)) xs = map g xs"
  by (induction xs) (auto simp: map_filter_simps)

lemma map_filter_none: "List.map_filter (\<lambda>x. None) xs = []"
  by (induction xs) (auto simp: map_filter_simps)

lemma call_item_ids:
  "item_call_id (call_item (core_call_of_llm env c)) = Some (unwrap_or [] (lc_id c))"
  "item_output_id (call_item (core_call_of_llm env c)) = None"
  by (simp_all add: call_item_def core_call_of_llm_def with_call_id_def tool_call_new_def Let_def)

lemma text_item_ids:
  assumes "item_of_assistant i (ac_text t) = Inr x"
  shows "item_call_id x = None" "item_output_id x = None"
  using assms by (auto simp: ac_text_def)

text \<open>The items of one message: its calls, and the call it answers.\<close>

lemma message_items_ids:
  assumes "core_of_chat env m = Inr c" "items_of_core dbg c = Inr is"
  shows "List.map_filter item_call_id is = called_ids m \<and> List.map_filter item_output_id is = answered_ids m"
proof (cases "cg_role m")
  case ChatSystem
  with assms show ?thesis by (auto simp: core_of_chat_def map_filter_simps called_ids_def answered_ids_def)
next
  case ChatUser
  with assms show ?thesis
    by (auto simp: core_of_chat_def core_user_def uc_text_def user_item_of_def map_filter_simps called_ids_def answered_ids_def)
next
  case ChatTool
  with assms show ?thesis
    by (auto simp: core_of_chat_def bindR_eq_Inr okorR_eq_Inr function_output_item_def map_filter_simps
      called_ids_def answered_ids_def)
next
  case ChatAssistant
  show ?thesis
  proof (cases "cg_tool_calls m = []")
    case True
    with ChatAssistant assms show ?thesis
      by (auto simp: core_of_chat_def core_assistant_def ac_text_def map_filter_simps called_ids_def answered_ids_def)
  next
    case False
    let ?calls = "map (\<lambda>c. AcToolCall (core_call_of_llm env c)) (cg_tool_calls m)"
    let ?text = "if cg_content m = [] then [] else [ac_text (cg_content m)]"
    from False ChatAssistant assms(1) obtain o1 where o1: "om_list o1 = ?text @ ?calls" and c: "c = CoreAssistant None o1"
      by (auto simp: core_of_chat_def Let_def bindR_eq_Inr okorR_eq_Inr om_many_Some_iff simp del: map_map)
    obtain pre where pre: "collectR (map (item_of_assistant None) ?text) = Inr pre"
      and ids: "List.map_filter item_call_id pre = []" "List.map_filter item_output_id pre = []"
      by (cases "cg_content m = []") (auto simp: ac_text_def map_filter_simps)
    have "is = pre @ map (\<lambda>c. call_item (core_call_of_llm env c)) (cg_tool_calls m)"
      using assms(2) unfolding c items_of_core.simps o1 map_append collectR_append pre calls_collected by simp
    then show ?thesis
      using ChatAssistant ids by (simp add: map_filter_append map_filter_map comp_def call_item_ids map_filter_some map_filter_none
        called_ids_def answered_ids_def del: item_call_id.simps item_output_id.simps)
  qed
qed

lemma request_items:
  assumes "responses_request_of env p d r = Inr q"
  obtains cs iss where "list_all2 (\<lambda>m c. core_of_chat env m = Inr c) (cq_messages r) cs"
    "list_all2 (\<lambda>c is. items_of_core (\<lambda>_. []) c = Inr is) cs iss" "om_list (rr_input q) = concat iss"
  using assms
  by (auto simp: responses_request_of_def bindR_eq_Inr map_errR_eq_Inr chat_history_to_core_def collectR_map_eq_Inr
    responses_from_history_def Let_def okorR_eq_Inr om_many_Some_iff)

text \<open>C28: In a Responses request every tool call and every tool result of the chat history appears once, in order,
  under the id it has in the history, so a result stays paired with its call.\<close>

theorem calls_stay_paired:
  assumes "responses_request_of env p d r = Inr q"
  shows "List.map_filter item_call_id (om_list (rr_input q)) = concat (map called_ids (cq_messages r)) \<and>
    List.map_filter item_output_id (om_list (rr_input q)) = concat (map answered_ids (cq_messages r))"
proof -
  from assms obtain cs iss where cs: "list_all2 (\<lambda>m c. core_of_chat env m = Inr c) (cq_messages r) cs"
    and iss: "list_all2 (\<lambda>c is. items_of_core (\<lambda>_. []) c = Inr is) cs iss" and q: "om_list (rr_input q) = concat iss"
    by (rule request_items)
  have both: "list_all2 (\<lambda>m is. List.map_filter item_call_id is = called_ids m \<and> List.map_filter item_output_id is = answered_ids m)
      (cq_messages r) iss"
    by (rule list_all2_trans [OF message_items_ids cs iss])
  have "concat (map (List.map_filter item_call_id) iss) = concat (map called_ids (cq_messages r))"
    by (rule list_all2_concat_map) (use both in \<open>simp add: list_all2_conv_all_nth\<close>)
  moreover have "concat (map (List.map_filter item_output_id) iss) = concat (map answered_ids (cq_messages r))"
    by (rule list_all2_concat_map) (use both in \<open>simp add: list_all2_conv_all_nth\<close>)
  ultimately show ?thesis by (simp only: q map_filter_concat)
qed

text \<open>A history with one call and its result.\<close>

definition demo_env :: llm_env where
  "demo_env =
     \<lparr>le_print = (\<lambda>_. ''{}''), le_parse = (\<lambda>s. if s = ''{}'' then Some (JObj []) else None), le_shape = (\<lambda>_. ''bad''),
      le_build = (\<lambda>_. None), le_send = (\<lambda>_. Inl ''down'')\<rparr>"

definition demo_request :: chat_request where
  "demo_request =
     chat_request_default\<lparr>cq_messages :=
       [chat_user ''hi'',
        \<lparr>cg_role = ChatAssistant, cg_content = [],
         cg_tool_calls = [\<lparr>lc_id = Some ''call_1'', lc_name = ''get'', lc_arguments = ''{}''\<rparr>], cg_tool_call_id = None\<rparr>,
        chat_tool ''call_1'' ''42'']\<rparr>"

theorem calls_stay_paired_witness:
  "case responses_request_of demo_env Qwen ''m'' demo_request of
     Inl _ \<Rightarrow> False
   | Inr q \<Rightarrow> List.map_filter item_call_id (om_list (rr_input q)) = [''call_1''] \<and>
       List.map_filter item_output_id (om_list (rr_input q)) = [''call_1'']"
proof -
  have "is_ok (responses_request_of demo_env Qwen ''m'' demo_request)" by code_simp
  then obtain q where q: "responses_request_of demo_env Qwen ''m'' demo_request = Inr q"
    by (cases "responses_request_of demo_env Qwen ''m'' demo_request") auto
  have "concat (map called_ids (cq_messages demo_request)) = [''call_1'']"
    "concat (map answered_ids (cq_messages demo_request)) = [''call_1'']" by code_simp+
  with calls_stay_paired [OF q] q show ?thesis by (simp del: item_call_id.simps item_output_id.simps)
qed

text \<open>A chat request that asks for one named function never reaches a Responses endpoint: building the request
  fails as an invalid configuration and nothing is sent.\<close>

theorem named_function_refused:
  assumes "cq_tool_choice r = Some (ChoiceFunction f)"
  shows "\<exists>m. transport_responses_complete env p d r t = (Inl (LlmConfigInvalid p m), t)"
proof -
  have "responses_from_history dbg shape model pre h tools (Some (CtSpecific fs)) temp mx params \<noteq> Inr q"
    for dbg shape model pre h tools fs temp mx params q
    by (auto simp: responses_from_history_def bindR_eq_Inr Let_def)
  then have "\<exists>m. responses_request_of env p d r = Inl (LlmConfigInvalid p m)"
    unfolding responses_request_of_def assms option.map core_tool_choice_of.simps
    by (cases "chat_history_to_core env (cq_messages r)") (auto simp: map_errR_def split: sum.split)
  then show ?thesis by (auto simp: transport_responses_complete_def)
qed

theorem named_function_refused_witness:
  "\<exists>m. transport_responses_complete demo_env DeepSeek ''m'' (demo_request\<lparr>cq_tool_choice := Some (ChoiceFunction ''get'')\<rparr>)
     (transport_new ''https://x'' ''k'') = (Inl (LlmConfigInvalid DeepSeek m), transport_new ''https://x'' ''k'')"
  by (rule named_function_refused) simp

section \<open>Where a request goes\<close>

lemma qwen_transport: "\<exists>t. pv_transport (qwen_new key ws r m to) = Some t \<and> tp_base_url t = compatible_endpoint r"
  by (simp add: qwen_new_def Let_def apply_opt_def with_extra_header_def with_timeout_def transport_new_def split: option.split)

text \<open>A DashScope provider sends to the endpoint of its region, the one in Singapore exactly for the two names of
  that region in any case, unless a base URL that is not blank replaces it; and only with a key that is not blank.\<close>

theorem endpoint_follows_region:
  assumes "qwen_from_parts key workspace r model timeout override = Inr c"
  shows "\<not> trim_is_empty key \<and> (\<exists>t. pv_transport (build_provider c) = Some t \<and>
    tp_base_url t =
      (case override of
         Some url \<Rightarrow> if trim_is_empty url then compatible_endpoint (parse_dashscope_region r) else url
       | None \<Rightarrow> compatible_endpoint (parse_dashscope_region r)))"
proof -
  from assms have key: "\<not> trim_is_empty key"
    and c: "c = CfgQwen key workspace (parse_dashscope_region r) (model_or default_model_qwen model) timeout override"
    by (auto simp: qwen_from_parts_def thenR_eq_Inr require_api_key_def split: if_splits)
  obtain t where "pv_transport (qwen_new key workspace (parse_dashscope_region r) (model_or default_model_qwen model) timeout) = Some t"
    "tp_base_url t = compatible_endpoint (parse_dashscope_region r)" using qwen_transport by blast
  then show ?thesis
    using key by (auto simp: c Let_def provider_with_base_url_def with_base_url_def split: option.split)
qed

theorem endpoint_follows_region_witness:
  "\<exists>c t. qwen_from_parts ''key'' None (Some ''INTL'') None (Some 30) (Some '' '') = Inr c \<and>
     pv_transport (build_provider c) = Some t \<and> tp_base_url t = ''https://dashscope-intl.aliyuncs.com/compatible-mode/v1''"
proof -
  have "is_ok (qwen_from_parts ''key'' None (Some ''INTL'') None (Some 30) (Some '' ''))" by code_simp
  then obtain c where c: "qwen_from_parts ''key'' None (Some ''INTL'') None (Some 30) (Some '' '') = Inr c"
    by (cases "qwen_from_parts ''key'' None (Some ''INTL'') None (Some 30) (Some '' '')") auto
  moreover have "trim_is_empty '' ''" "parse_dashscope_region (Some ''INTL'') = Singapore" by code_simp+
  ultimately show ?thesis using endpoint_follows_region [OF c] by auto
qed

section \<open>Errors\<close>

lemma take_chars_prefix: "\<exists>r. s = take_chars n s @ r"
  by (induction n s rule: take_chars.induct) (auto split: nat.split)

definition characters :: "string \<Rightarrow> nat" where
  "characters s = length (filter (\<lambda>c. \<not> is_continuation c) s)"

lemma take_chars_count: "characters (take_chars n s) = min n (characters s)"
  by (induction n s rule: take_chars.induct) (auto simp: characters_def split: nat.split)

lemma take_chars_all: "characters s \<le> n \<Longrightarrow> take_chars n s = s"
  by (induction n s rule: take_chars.induct) (auto simp: characters_def split: nat.split if_split_asm)

text \<open>The message of an HTTP failure keeps a short body whole; of a longer one it keeps the characters that fit,
  never a part of a character, and an ellipsis, also when every character fits.\<close>

theorem failure_body_cut:
  "truncate_text s n = (if length s \<le> n then s else take_chars n s @ ellipsis) \<and>
   characters (take_chars n s) = min n (characters s) \<and> (\<exists>r. s = take_chars n s @ r \<and> (r = [] \<or> \<not> is_continuation (hd r)))"
proof -
  have "\<exists>r. s = take_chars n s @ r \<and> (r = [] \<or> \<not> is_continuation (hd r))"
    by (induction n s rule: take_chars.induct) (auto split: nat.split)
  then show ?thesis by (simp add: truncate_text_def take_chars_count)
qed

text \<open>
  What the two streams of the OpenAI-compatible provider give back: the text and the last token counts of
  the chunks that were read, every tool call that arrived in fragments, and no event behind the terminal one.
\<close>

section \<open>Chat Completions\<close>

lemma usage_after:
  "ss_usage (state_after parse es st) =
     (case rev (List.map_filter sk_usage (chunks_read parse es)) of [] \<Rightarrow> ss_usage st | u # _ \<Rightarrow> u)"
proof (induction parse es st rule: state_after.induct)
  case (3 parse d es st)
  have "ss_usage (fst (on_chunk parse k st)) = unwrap_or (ss_usage st) (sk_usage k)" for k
    by (simp add: on_chunk_def split_beta Let_def)
  with 3 show ?case
    by (cases "chunk_of_data parse d")
      (auto simp: map_filter_simps unwrap_or_def split: option.split list.split)
qed (simp_all add: map_filter_simps)

text \<open>C30: The text events of a stream are the text of the chunks read, in order, and the stream ends with
  exactly one final event, the token counts that came last.\<close>

theorem stream_text_and_usage:
  "concat (map text_of_choice (stream_run parse order es stream_init)) = text_read parse es \<and>
   last (stream_run parse order es stream_init) = Inr (StFinal (usage_read parse es)) \<and>
   (\<forall>u. Inr (StFinal u) \<notin> set (butlast (stream_run parse order es stream_init)))"
proof -
  obtain out where run: "stream_run parse order es stream_init =
      out @ map Inr (flush_calls parse (order (ss_calls (state_after parse es stream_init))) @ [StFinal (ss_usage (state_after parse es stream_init))])"
    and out: "\<forall>u. Inr (StFinal u) \<notin> set out" using run_ends by blast
  have flush: "StFinal u \<notin> set (flush_calls parse cs)" for u cs
    by (induction parse cs rule: flush_calls.induct) (auto split: option.split)
  have "ss_usage (state_after parse es stream_init) = usage_read parse es"
    by (simp add: usage_after usage_read_def stream_init_def split: list.split)
  then show ?thesis using run_text [of parse order es stream_init] out flush by (auto simp: run butlast_append)
qed

text \<open>C29: A tool call that arrives in fragments comes out whole: if the fragments of an index, among those of
  any other calls, are a start and continuations whose concatenation is JSON, the stream emits the call with
  the id and the name of the start and the arguments put together.\<close>

theorem tool_call_reassembled:
  assumes "filter (\<lambda>f. fr_index f = i) (fragments_read parse es) = start # ds" "starts_call start"
    and "list_all continues_call ds" "parse (concat (map fr_arguments ds)) = Some v"
    and "set (order (ss_calls (state_after parse es stream_init))) = set (ss_calls (state_after parse es stream_init))"
  shows "Inr (StToolCall (unwrap_or [] (fr_id start)) None (the (fr_name start)) v) \<in> set (stream_run parse order es stream_init)"
proof -
  let ?calls = "ss_calls (state_after parse es stream_init)"
  have "map_of ?calls i = Some (unwrap_or [] (fr_id start), the (fr_name start), concat (map fr_arguments ds))"
    unfolding state_after_calls using assms(1-3) by (intro fragments_reassemble) (auto simp: list_all_iff)
  then have "(i, unwrap_or [] (fr_id start), the (fr_name start), concat (map fr_arguments ds)) \<in> set (order ?calls)"
    by (simp add: assms(5) map_of_SomeD)
  then have "StToolCall (unwrap_or [] (fr_id start)) None (the (fr_name start)) v \<in> set (flush_calls parse (order ?calls))"
    using assms(4) by (auto simp: flush_members)
  then show ?thesis using run_ends [of parse order es stream_init] by auto
qed

text \<open>Two calls whose fragments are interleaved, in a stream of three messages.\<close>

definition demo_fragment :: "int \<Rightarrow> string \<Rightarrow> json \<Rightarrow> string \<Rightarrow> json" where
  "demo_fragment i cid n a =
     JObj [(''function'', JObj [(''arguments'', JStr a), (''name'', n)]), (''id'', JStr cid), (''index'', JInt i)]"

definition demo_chunk :: "json list \<Rightarrow> json" where
  "demo_chunk fs = JObj [(''choices'', JArr [JObj [(''delta'', JObj [(''tool_calls'', JArr fs)])]])]"

definition demo_parse :: "string \<Rightarrow> json option" where
  "demo_parse s =
     (if s = ''1'' then Some (demo_chunk [demo_fragment 0 ''a'' (JStr ''f'') [], demo_fragment 1 ''b'' (JStr ''g'') []])
      else if s = ''2'' then Some (demo_chunk [demo_fragment 0 [] JNull ''{'', demo_fragment 1 [] JNull ''{}''])
      else if s = ''3'' then Some (demo_chunk [demo_fragment 0 [] JNull ''}''])
      else if s = ''{}'' then Some (JObj []) else None)"

definition demo_stream :: "sse_item list" where
  "demo_stream = [SseData ''1'', SseData ''2'', SseData ''3'', SseData ''[DONE]'']"

definition start_fragment :: call_fragment where
  "start_fragment = \<lparr>fr_index = 0, fr_id = Some ''a'', fr_name = Some ''f'', fr_arguments = []\<rparr>"

lemma demo_fragments:
  "filter (\<lambda>f. fr_index f = 0) (fragments_read demo_parse demo_stream) =
     [start_fragment, \<lparr>fr_index = 0, fr_id = Some [], fr_name = None, fr_arguments = ''{''\<rparr>,
      \<lparr>fr_index = 0, fr_id = Some [], fr_name = None, fr_arguments = ''}''\<rparr>]"
  by code_simp

theorem tool_call_reassembled_witness:
  "Inr (StToolCall ''a'' None ''f'' (JObj [])) \<in> set (stream_run demo_parse rev demo_stream stream_init)"
  using tool_call_reassembled [OF demo_fragments, of "JObj []" rev]
  by (simp add: starts_call_def continues_call_def start_fragment_def demo_parse_def)

text \<open>A tool call whose arguments stay empty is lost: the start alone opens it, the empty text is no JSON,
  and the stream ends without the call.\<close>

theorem call_without_arguments_lost:
  assumes "fragments_read parse es = [start]" "starts_call start" "parse [] = None"
    and "order (ss_calls (state_after parse es stream_init)) = ss_calls (state_after parse es stream_init)"
  shows "Inr (StToolCall cid ci n v) \<notin> set (stream_run parse order es stream_init)"
proof -
  have parts: "StToolCall cid ci n v \<notin> set (snd (on_chunk parse k st))" if "list_all starts_call (snd (first_delta k))" for k st
  proof -
    have "snd (on_fragments parse fs cs) = []" if "list_all starts_call fs" for fs cs
      using that by (induction fs arbitrary: cs) (auto simp: on_fragment_def split_beta)
    with that show ?thesis
      by (auto simp: on_chunk_def first_delta_def split_beta Let_def split: list.splits option.splits)
  qed
  have run: "Inr (StToolCall cid ci n v) \<in> set (stream_run parse order es st) \<Longrightarrow>
      StToolCall cid ci n v \<in> set (flush_calls parse (order (ss_calls (state_after parse es st))))"
    if "list_all starts_call (fragments_read parse es)" for es st
    using that
  proof (induction es arbitrary: st)
    case (Cons e es)
    show ?case
    proof (cases e)
      case (SseData d)
      with Cons parts show ?thesis
        by (cases "chunk_of_data parse d") (auto simp: fragments_read_def split_beta)
    next
      case (SseFailed t)
      with Cons.prems show ?thesis by auto
    qed
  qed auto
  have "ss_calls (state_after parse es stream_init) = [(fr_index start, unwrap_or [] (fr_id start), the (fr_name start), [])]"
    unfolding state_after_calls assms(1) using assms(2) by (simp add: on_fragment_def stream_init_def split_beta)
  then show ?thesis using run [of es stream_init] assms(1-4) by auto
qed

theorem call_without_arguments_lost_witness:
  defines "data \<equiv> demo_chunk [demo_fragment 0 ''a'' (JStr ''f'') []]"
  defines "parse \<equiv> \<lambda>s. if s = ''1'' then Some data else None"
  shows "Inr (StToolCall ''a'' None ''f'' (JObj [])) \<notin> set (stream_run parse id [SseData ''1''] stream_init)"
proof (rule call_without_arguments_lost)
  show "fragments_read parse [SseData ''1''] = [start_fragment]"
    unfolding parse_def data_def by code_simp
qed (simp_all add: parse_def starts_call_def start_fragment_def)

section \<open>Responses\<close>

text \<open>A terminal event ends a Responses stream: whatever follows it is not read.\<close>

theorem terminal_event_ends_stream:
  assumes "resp_event_of parse e = ReChunk k" "terminal_chunk k"
  shows "resp_stream_run (map (resp_event_of parse) (pre @ e # post)) st = resp_stream_run (map (resp_event_of parse) (pre @ [e])) st"
  using run_stops [OF assms(2)] by (simp add: assms(1))

definition demo_terminal :: json where
  "demo_terminal =
     JObj [(''response'', JObj [(''created_at'', JInt 1), (''id'', JStr ''r1''), (''model'', JStr ''m''),
              (''object'', JStr ''response''), (''output'', JArr []), (''status'', JStr ''failed'')]),
           (''sequence_number'', JInt 7), (''type'', JStr ''response.failed'')]"

theorem terminal_event_ends_stream_witness:
  defines "parse \<equiv> \<lambda>s. if s = ''end'' then Some demo_terminal else None"
  shows "resp_stream_run (map (resp_event_of parse) ([SseData ''x''] @ SseData ''end'' # [SseFailed ''late''])) resp_stream_init =
    resp_stream_run (map (resp_event_of parse) ([SseData ''x''] @ [SseData ''end''])) resp_stream_init"
proof -
  have "case resp_event_of parse (SseData ''end'') of ReChunk k \<Rightarrow> terminal_chunk k | _ \<Rightarrow> False"
    unfolding parse_def by code_simp
  then obtain k where "resp_event_of parse (SseData ''end'') = ReChunk k" "terminal_chunk k"
    by (auto split: resp_event.splits)
  then show ?thesis by (rule terminal_event_ends_stream)
qed

text \<open>A Responses stream never emits a fragment of the arguments of a tool call: the event is flattened
  into a structure that has taken its \<open>item_id\<close> already, so it does not decode and is passed over.\<close>

theorem argument_fragments_never_emitted:
  "Inr (ReToolCallDelta i d) \<notin> set (resp_stream_run (map (resp_event_of parse) es) resp_stream_init)"
proof -
  have chunk: "ReToolCallDelta i d \<notin> set (snd (on_resp_chunk k st))" if "resp_event_of parse e = ReChunk k" for e k st
  proof -
    have "k \<noteq> ChItem (ItArgsDelta j x)" for j x
      using that no_args_delta [of parse] by (auto simp: resp_event_of_def Option.bind_eq_Some_conv split: sse_item.splits if_splits option.splits)
    then show ?thesis
    proof (cases k)
      case (ChItem it)
      with \<open>\<And>x j. k \<noteq> ChItem (ItArgsDelta j x)\<close> show ?thesis
        by (induction it st rule: on_item_chunk.induct) auto
    qed simp
  qed
  have calls: "ReToolCallDelta i d \<notin> set (rz_calls st) \<Longrightarrow> ReToolCallDelta i d \<notin> set (rz_calls (fst (on_resp_chunk k st)))" for k st
  proof (cases k)
    case (ChResponse c r)
    then show "ReToolCallDelta i d \<notin> set (rz_calls st) \<Longrightarrow> ?thesis" by (cases c) auto
  next
    case (ChItem it)
    then show "ReToolCallDelta i d \<notin> set (rz_calls st) \<Longrightarrow> ?thesis" by (induction it st rule: on_item_chunk.induct) auto
  qed
  have run: "Inr (ReToolCallDelta i d) \<notin> set (resp_stream_run (map (resp_event_of parse) es) st)"
    if "ReToolCallDelta i d \<notin> set (rz_calls st)" for es st
    using that
  proof (induction es arbitrary: st)
    case (Cons e es)
    then show ?case
      using chunk [of e] calls by (cases "resp_event_of parse e") (auto simp: split_beta resp_flush_def)
  qed (auto simp: resp_flush_def)
  show ?thesis by (rule run) (simp add: resp_stream_init_def)
qed

end
