(* ===== verification/Ai_Usage.thy ===== *)
theory Ai_Usage
  imports Ai_LlmFactory "HOL-Library.Word"
begin

text \<open>
  The accounting of model calls in fusion-ai: the metering decorator (\<open>llm/metered.rs\<close>) and the pipeline that
  writes its events in batches (\<open>llm/usage_batch.rs\<close>). The bounded channel, its senders and the phase of the
  writer are the state of the pipeline; \<open>usage_step\<close> interleaves the callers with the writer, one \<open>await\<close> or
  channel operation at a time. What \<open>write_batch\<close> answers is chosen at each attempt. The fields
  \<open>pi_log\<close>, \<open>pi_accepted\<close>, \<open>pi_refused\<close> and \<open>pi_slept\<close> are a history that the code does not keep.
\<close>

section \<open>Events\<close>

datatype outcome = Success | Ambiguous | OcError

fun outcome_str :: "outcome \<Rightarrow> string" where
  "outcome_str Success = ''success''"
| "outcome_str Ambiguous = ''ambiguous''"
| "outcome_str OcError = ''error''"

fun outcome_as_i16 :: "outcome \<Rightarrow> int" where
  "outcome_as_i16 Success = 1"
| "outcome_as_i16 Ambiguous = 2"
| "outcome_as_i16 OcError = 3"

definition outcome_from_i16 :: "int \<Rightarrow> outcome" where
  "outcome_from_i16 n = (if n = 1 then Success else if n = 2 then Ambiguous else OcError)"

datatype matched_scope = Dimension | Tenant | Platform | SystemDefault

fun scope_str :: "matched_scope \<Rightarrow> string" where
  "scope_str Dimension = ''dimension''"
| "scope_str Tenant = ''tenant''"
| "scope_str Platform = ''platform''"
| "scope_str SystemDefault = ''system_default''"

fun scope_as_i16 :: "matched_scope \<Rightarrow> int" where
  "scope_as_i16 Dimension = 1"
| "scope_as_i16 Tenant = 2"
| "scope_as_i16 Platform = 3"
| "scope_as_i16 SystemDefault = 4"

definition scope_from_i16 :: "int \<Rightarrow> matched_scope" where
  "scope_from_i16 n = (if n = 1 then Dimension else if n = 2 then Tenant else if n = 3 then Platform else SystemDefault)"

definition scope_from_route_str :: "string \<Rightarrow> matched_scope" where
  "scope_from_route_str s =
     (if s = ''dimension'' then Dimension else if s = ''tenant'' then Tenant
      else if s = ''platform'' then Platform else SystemDefault)"

interpretation outcome_i16: codec outcome_as_i16 outcome_from_i16
proof unfold_locales
  show "outcome_from_i16 (outcome_as_i16 x) = x" for x by (cases x) (simp_all add: outcome_from_i16_def)
qed

interpretation scope_i16: codec scope_as_i16 scope_from_i16
proof unfold_locales
  show "scope_from_i16 (scope_as_i16 x) = x" for x by (cases x) (simp_all add: scope_from_i16_def)
qed

interpretation scope_route: codec scope_str scope_from_route_str
proof unfold_locales
  show "scope_from_route_str (scope_str x) = x" for x by (cases x) (simp_all add: scope_from_route_str_def)
qed

record usage_ctx =
  uc_tenant_id :: int
  uc_dimensions :: "(string \<times> string) list"
  uc_feature_code :: string
  uc_matched_scope :: matched_scope
  uc_provider :: string
  uc_model :: string
  uc_credential_id :: "string option"
  uc_session_id :: "string option"
  uc_request_kind :: string
  uc_resolved_region :: "string option"

record usage_event =
  ue_occurred_at :: int
  ue_tenant_id :: int
  ue_dimensions :: "(string \<times> string) list"
  ue_feature_code :: string
  ue_provider :: string
  ue_model :: string
  ue_matched_scope :: matched_scope
  ue_outcome :: outcome
  ue_credential_id :: "string option"
  ue_prompt_tokens :: int
  ue_completion_tokens :: int
  ue_total_tokens :: int
  ue_cached_input_tokens :: "int option"
  ue_session_id :: "string option"
  ue_request_kind :: string
  ue_latency_ms :: "int option"
  ue_audio_duration_ms :: "int option"
  ue_resolved_region :: "string option"

definition from_ctx_tokens :: "usage_ctx \<Rightarrow> token_usage \<Rightarrow> outcome \<Rightarrow> int \<Rightarrow> int option \<Rightarrow> usage_event" where
  "from_ctx_tokens c u oc at latency =
     \<lparr>ue_occurred_at = at, ue_tenant_id = uc_tenant_id c, ue_dimensions = uc_dimensions c,
      ue_feature_code = uc_feature_code c, ue_provider = uc_provider c, ue_model = uc_model c,
      ue_matched_scope = uc_matched_scope c, ue_outcome = oc, ue_credential_id = uc_credential_id c,
      ue_prompt_tokens = int (tu_prompt u), ue_completion_tokens = int (tu_completion u), ue_total_tokens = int (tu_total u),
      ue_cached_input_tokens = Some (int (tu_cached u)), ue_session_id = uc_session_id c,
      ue_request_kind = uc_request_kind c, ue_latency_ms = latency, ue_audio_duration_ms = None,
      ue_resolved_region = uc_resolved_region c\<rparr>"

definition from_ctx_audio :: "usage_ctx \<Rightarrow> int \<Rightarrow> outcome \<Rightarrow> int \<Rightarrow> int option \<Rightarrow> usage_event" where
  "from_ctx_audio c duration oc at latency =
     \<lparr>ue_occurred_at = at, ue_tenant_id = uc_tenant_id c, ue_dimensions = uc_dimensions c,
      ue_feature_code = uc_feature_code c, ue_provider = uc_provider c, ue_model = uc_model c,
      ue_matched_scope = uc_matched_scope c, ue_outcome = oc, ue_credential_id = uc_credential_id c,
      ue_prompt_tokens = 0, ue_completion_tokens = 0, ue_total_tokens = 0,
      ue_cached_input_tokens = None, ue_session_id = uc_session_id c,
      ue_request_kind = uc_request_kind c, ue_latency_ms = latency, ue_audio_duration_ms = Some duration,
      ue_resolved_region = uc_resolved_region c\<rparr>"

section \<open>Channel and writer\<close>

definition max_batch :: nat where "max_batch = 64"
definition max_write_attempts :: nat where "max_write_attempts = 3"
definition retry_backoff_initial :: nat where "retry_backoff_initial = 50"
definition retry_backoff_subsequent :: nat where "retry_backoff_subsequent = 200"
definition drop_warn_interval :: nat where "drop_warn_interval = 1000"

record usage_metrics =
  me_dropped :: "64 word"
  me_write_failed :: "64 word"
  me_worker_restart :: "64 word"

definition metrics_default :: usage_metrics where
  "metrics_default = \<lparr>me_dropped = 0, me_write_failed = 0, me_worker_restart = 0\<rparr>"

definition inc_dropped :: "usage_metrics \<Rightarrow> 64 word \<times> usage_metrics" where
  "inc_dropped m = (me_dropped m + 1, m\<lparr>me_dropped := me_dropped m + 1\<rparr>)"

definition inc_write_failed :: "64 word \<Rightarrow> usage_metrics \<Rightarrow> usage_metrics" where
  "inc_write_failed n m = m\<lparr>me_write_failed := me_write_failed m + n\<rparr>"

definition inc_worker_restart :: "usage_metrics \<Rightarrow> usage_metrics" where
  "inc_worker_restart m = m\<lparr>me_worker_restart := me_worker_restart m + 1\<rparr>"

datatype write_result = WroteOk | WroteErr string | WritePanicked

datatype batch_end = Written | GaveUp | PanicDropped

datatype 'e writer_phase =
    Idle
  | Filling "'e list"
  | Writing "'e list" nat
  | Exited

record 'e pipe =
  pi_capacity :: nat
  pi_queue :: "'e list"
  pi_senders :: nat
  pi_phase :: "'e writer_phase"
  pi_metrics :: usage_metrics
  pi_log :: "('e list \<times> batch_end \<times> nat) list"
  pi_accepted :: "'e list"
  pi_refused :: "'e list"
  pi_slept :: "nat list"

definition spawn_usage_batch_writer :: "nat \<Rightarrow> 'e pipe" where
  "spawn_usage_batch_writer capacity =
     \<lparr>pi_capacity = max capacity 1, pi_queue = [], pi_senders = 1, pi_phase = Idle, pi_metrics = metrics_default,
      pi_log = [], pi_accepted = [], pi_refused = [], pi_slept = []\<rparr>"

text \<open>\<open>BatchSink::record\<close>: \<open>try_send\<close> fails when the channel is full or its receiver is gone. The second
  component is the reason of the warning, when one is written.\<close>

definition warns_at :: "64 word \<Rightarrow> bool" where
  "warns_at n \<longleftrightarrow> n = 1 \<or> unat n mod drop_warn_interval = 0"

definition sink_record :: "'e \<Rightarrow> 'e pipe \<Rightarrow> 'e pipe \<times> string option" where
  "sink_record ev s =
     (if pi_phase s \<noteq> Exited \<and> length (pi_queue s) < pi_capacity s then
        (s\<lparr>pi_queue := pi_queue s @ [ev], pi_accepted := pi_accepted s @ [ev]\<rparr>, None)
      else
        (let (total, m) = inc_dropped (pi_metrics s) in
         (s\<lparr>pi_metrics := m, pi_refused := pi_refused s @ [ev]\<rparr>,
          if warns_at total then Some (if pi_phase s = Exited then ''closed'' else ''full'') else None)))"

definition backoff :: "nat \<Rightarrow> nat" where
  "backoff attempt = (if attempt = 1 then retry_backoff_initial else retry_backoff_subsequent)"

text \<open>The end of a batch: its attempts are recorded and the writer is back in its loop.\<close>

definition batch_done :: "'e list \<Rightarrow> batch_end \<Rightarrow> nat \<Rightarrow> 'e pipe \<Rightarrow> 'e pipe" where
  "batch_done b e n s = s\<lparr>pi_phase := Idle, pi_log := pi_log s @ [(b, e, n)]\<rparr>"

text \<open>One answer of \<open>write_batch\<close> inside \<open>write_with_retry\<close>. \<open>WritePanicked\<close> is a panic of the future, which
  \<open>catch_unwind\<close> covers; the closure that builds the future is taken to return, since a panic of it ends the writer.\<close>

fun write_attempt :: "write_result \<Rightarrow> 'e list \<Rightarrow> nat \<Rightarrow> 'e pipe \<Rightarrow> 'e pipe" where
  "write_attempt WroteOk b n s = batch_done b Written n s"
| "write_attempt (WroteErr _) b n s =
     (if n < max_write_attempts then s\<lparr>pi_phase := Writing b (n + 1), pi_slept := pi_slept s @ [backoff n]\<rparr>
      else batch_done b GaveUp n (s\<lparr>pi_metrics := inc_write_failed (of_nat (length b)) (pi_metrics s)\<rparr>))"
| "write_attempt WritePanicked b n s =
     batch_done b PanicDropped n (s\<lparr>pi_metrics := inc_worker_restart (pi_metrics s)\<rparr>)"

text \<open>One move of \<open>run_usage_writer\<close>; \<open>None\<close> is a writer that waits for an event, or has returned.\<close>

definition writer_move :: "write_result \<Rightarrow> 'e pipe \<Rightarrow> 'e pipe option" where
  "writer_move r s =
     (case pi_phase s of
        Exited \<Rightarrow> None
      | Idle \<Rightarrow>
          (case pi_queue s of
             ev # q \<Rightarrow> Some (s\<lparr>pi_queue := q, pi_phase := Filling [ev]\<rparr>)
           | [] \<Rightarrow> if pi_senders s = 0 then Some (s\<lparr>pi_phase := Exited\<rparr>) else None)
      | Filling b \<Rightarrow>
          (if length b < max_batch then
             (case pi_queue s of
                ev # q \<Rightarrow> Some (s\<lparr>pi_queue := q, pi_phase := Filling (b @ [ev])\<rparr>)
              | [] \<Rightarrow> Some (s\<lparr>pi_phase := Writing b 1\<rparr>))
           else Some (s\<lparr>pi_phase := Writing b 1\<rparr>))
      | Writing b n \<Rightarrow> Some (write_attempt r b n s))"

text \<open>The callers hold clones of the sink; the writer runs beside them.\<close>

inductive usage_step :: "'e pipe \<Rightarrow> 'e pipe \<Rightarrow> bool" where
  Record: "0 < pi_senders s \<Longrightarrow> usage_step s (fst (sink_record ev s))"
| CloneSink: "0 < pi_senders s \<Longrightarrow> usage_step s (s\<lparr>pi_senders := pi_senders s + 1\<rparr>)"
| DropSink: "0 < pi_senders s \<Longrightarrow> usage_step s (s\<lparr>pi_senders := pi_senders s - 1\<rparr>)"
| Write: "writer_move r s = Some s' \<Longrightarrow> usage_step s s'"

inductive_cases usage_stepE: "usage_step s s'"

definition usage_reachable :: "nat \<Rightarrow> 'e pipe \<Rightarrow> bool" where
  "usage_reachable capacity s \<longleftrightarrow> usage_step\<^sup>*\<^sup>* (spawn_usage_batch_writer capacity) s"

section \<open>The decorator\<close>

text \<open>\<open>NoopUsageSink\<close> or the sink of a pipeline.\<close>

datatype usage_sink = NoopSink | BatchSink "usage_event pipe"

fun sink_accept :: "usage_event \<Rightarrow> usage_sink \<Rightarrow> usage_sink" where
  "sink_accept ev NoopSink = NoopSink"
| "sink_accept ev (BatchSink s) = BatchSink (fst (sink_record ev s))"

record metered_provider =
  mp_inner :: chat_provider
  mp_ctx :: usage_ctx
  mp_sink :: usage_sink

definition latency_of :: "nat \<Rightarrow> int option" where
  "latency_of elapsed_ms = (if in_i64 (int elapsed_ms) then Some (int elapsed_ms) else None)"

definition metered_event :: "usage_ctx \<Rightarrow> int \<Rightarrow> nat \<Rightarrow> llm_error + chat_response \<Rightarrow> usage_event option" where
  "metered_event c now elapsed_ms resp =
     (case resp of
        Inl _ \<Rightarrow> None
      | Inr r \<Rightarrow> map_option (\<lambda>u. from_ctx_tokens c u Success now (latency_of elapsed_ms)) (cp_usage r))"

definition metered_call ::
  "(chat_provider \<Rightarrow> (llm_error + chat_response) \<times> chat_provider) \<Rightarrow> int \<Rightarrow> nat \<Rightarrow> metered_provider \<Rightarrow>
   (llm_error + chat_response) \<times> metered_provider" where
  "metered_call call now elapsed_ms m =
     (let (resp, inner) = call (mp_inner m);
          sink = (case metered_event (mp_ctx m) now elapsed_ms resp of Some ev \<Rightarrow> sink_accept ev (mp_sink m) | None \<Rightarrow> mp_sink m)
      in (resp, m\<lparr>mp_inner := inner, mp_sink := sink\<rparr>))"

definition metered_chat_complete ::
  "llm_env \<Rightarrow> chat_request \<Rightarrow> int \<Rightarrow> nat \<Rightarrow> metered_provider \<Rightarrow> (llm_error + chat_response) \<times> metered_provider" where
  "metered_chat_complete env r = metered_call (chat_complete env r)"

definition metered_responses_complete ::
  "llm_env \<Rightarrow> chat_request \<Rightarrow> int \<Rightarrow> nat \<Rightarrow> metered_provider \<Rightarrow> (llm_error + chat_response) \<times> metered_provider" where
  "metered_responses_complete env r = metered_call (responses_complete env r)"

end
