(* ===== verification/Ai_Usage_Props.thy ===== *)
theory Ai_Usage_Props
  imports Ai_Usage
begin

text \<open>
  The accounting pipeline loses nothing silently: in every interleaving of callers and writer each accepted
  event is in exactly one batch, in order, every loss is counted, and a pipeline whose sinks are gone drains.
\<close>

section \<open>Invariant\<close>

fun in_flight :: "'e writer_phase \<Rightarrow> 'e list" where
  "in_flight (Filling b) = b"
| "in_flight (Writing b _) = b"
| "in_flight _ = []"

definition waits :: "nat \<Rightarrow> nat list" where
  "waits n = map backoff [1..<n]"

fun phase_waits :: "'e writer_phase \<Rightarrow> nat list" where
  "phase_waits (Writing _ n) = waits n"
| "phase_waits _ = []"

definition batch_sound :: "'e list \<times> batch_end \<times> nat \<Rightarrow> bool" where
  "batch_sound x = (case x of (b, e, n) \<Rightarrow>
     1 \<le> length b \<and> length b \<le> max_batch \<and> 1 \<le> n \<and> n \<le> max_write_attempts \<and> (e = GaveUp \<longrightarrow> n = max_write_attempts))"

fun phase_sound :: "'e writer_phase \<Rightarrow> bool" where
  "phase_sound (Filling b) = (1 \<le> length b \<and> length b \<le> max_batch)"
| "phase_sound (Writing b n) = (1 \<le> length b \<and> length b \<le> max_batch \<and> 1 \<le> n \<and> n \<le> max_write_attempts)"
| "phase_sound _ = True"

definition ended :: "batch_end \<Rightarrow> ('e list \<times> batch_end \<times> nat) list \<Rightarrow> 'e list list" where
  "ended e log = map fst (filter (\<lambda>(_, e', _). e' = e) log)"

definition logged :: "('e list \<times> batch_end \<times> nat) list \<Rightarrow> 'e list" where
  "logged log = concat (map fst log)"

definition log_waits :: "('e list \<times> batch_end \<times> nat) list \<Rightarrow> nat list" where
  "log_waits log = concat (map (\<lambda>(_, _, n). waits n) log)"

lemma log_append [simp]:
  "ended e (l @ l') = ended e l @ ended e l'" "logged (l @ l') = logged l @ logged l'"
  "log_waits (l @ l') = log_waits l @ log_waits l'"
  by (simp_all add: ended_def logged_def log_waits_def)

lemma log_one [simp]:
  "ended e [(b, e', n)] = (if e' = e then [b] else [])" "logged [(b, e', n)] = b" "log_waits [(b, e', n)] = waits n"
  by (simp_all add: ended_def logged_def log_waits_def)

lemma log_empty [simp]: "ended e [] = []" "logged [] = []" "log_waits [] = []"
  by (simp_all add: ended_def logged_def log_waits_def)

lemma waits_Suc: "1 \<le> n \<Longrightarrow> waits (Suc n) = waits n @ [backoff n]"
  by (simp add: waits_def)

lemma waits_1 [simp]: "waits (Suc 0) = []"
  by (simp add: waits_def)

definition events_sound :: "'e pipe \<Rightarrow> bool" where
  "events_sound s \<longleftrightarrow> pi_accepted s = logged (pi_log s) @ in_flight (pi_phase s) @ pi_queue s"

definition batches_sound :: "'e pipe \<Rightarrow> bool" where
  "batches_sound s \<longleftrightarrow> list_all batch_sound (pi_log s) \<and> phase_sound (pi_phase s) \<and>
     pi_slept s = log_waits (pi_log s) @ phase_waits (pi_phase s)"

definition counters_sound :: "'e pipe \<Rightarrow> bool" where
  "counters_sound s \<longleftrightarrow>
     me_dropped (pi_metrics s) = of_nat (length (pi_refused s)) \<and>
     me_write_failed (pi_metrics s) = of_nat (length (concat (ended GaveUp (pi_log s)))) \<and>
     me_worker_restart (pi_metrics s) = of_nat (length (ended PanicDropped (pi_log s)))"

definition channel_sound :: "nat \<Rightarrow> 'e pipe \<Rightarrow> bool" where
  "channel_sound c s \<longleftrightarrow> pi_capacity s = max c 1 \<and> length (pi_queue s) \<le> pi_capacity s \<and>
     (pi_phase s = Exited \<longrightarrow> pi_senders s = 0 \<and> pi_queue s = [])"

named_theorems usage_sound
lemmas [usage_sound] = events_sound_def batches_sound_def counters_sound_def channel_sound_def

definition usage_inv :: "nat \<Rightarrow> 'e pipe \<Rightarrow> bool" where
  "usage_inv c s \<longleftrightarrow> events_sound s \<and> batches_sound s \<and> counters_sound s \<and> channel_sound c s"

lemma inv_spawn: "usage_inv c (spawn_usage_batch_writer c)"
  by (simp add: usage_inv_def usage_sound spawn_usage_batch_writer_def metrics_default_def)

lemma inv_record:
  assumes "usage_inv c s" "0 < pi_senders s"
  shows "usage_inv c (fst (sink_record ev s))"
  using assms by (auto simp: usage_inv_def usage_sound sink_record_def inc_dropped_def)

lemma inv_senders: "usage_inv c s \<Longrightarrow> 0 < pi_senders s \<Longrightarrow> usage_inv c (s\<lparr>pi_senders := n\<rparr>)"
  by (auto simp: usage_inv_def usage_sound)

lemma inv_attempt:
  assumes "usage_inv c s" "pi_phase s = Writing b n"
  shows "usage_inv c (write_attempt r b n s)"
proof -
  have w: "1 \<le> n" "n \<le> max_write_attempts" using assms by (auto simp: usage_inv_def batches_sound_def)
  show ?thesis
    using assms w
    by (cases r) (auto simp: usage_inv_def usage_sound batch_done_def batch_sound_def inc_write_failed_def
      inc_worker_restart_def waits_Suc max_write_attempts_def)
qed

lemma inv_move:
  assumes "usage_inv c s" "writer_move r s = Some s'"
  shows "usage_inv c s'"
proof (cases "pi_phase s")
  case (Writing b n)
  with assms inv_attempt show ?thesis by (auto simp: writer_move_def)
next
  case Idle
  with assms show ?thesis
    by (auto simp: writer_move_def usage_inv_def usage_sound max_batch_def split: list.splits if_splits)
next
  case (Filling b)
  with assms show ?thesis
    by (auto simp: writer_move_def usage_inv_def usage_sound max_write_attempts_def split: list.splits if_splits)
next
  case Exited
  with assms show ?thesis by (simp add: writer_move_def)
qed

lemma inv_step: "usage_step s s' \<Longrightarrow> usage_inv c s \<Longrightarrow> usage_inv c s'"
  by (erule usage_stepE) (simp_all add: inv_record inv_senders inv_move)

lemma usage_reachable_inv: "usage_reachable c s \<Longrightarrow> usage_inv c s"
  unfolding usage_reachable_def
  by (induction rule: rtranclp_induct) (simp_all add: inv_spawn inv_step)

section \<open>Running a pipeline\<close>

datatype 'e pipe_act = ActRecord 'e | ActClone | ActDrop | ActWrite write_result

fun usage_act :: "'e pipe_act \<Rightarrow> 'e pipe \<Rightarrow> 'e pipe option" where
  "usage_act (ActRecord ev) s = (if 0 < pi_senders s then Some (fst (sink_record ev s)) else None)"
| "usage_act ActClone s = (if 0 < pi_senders s then Some (s\<lparr>pi_senders := pi_senders s + 1\<rparr>) else None)"
| "usage_act ActDrop s = (if 0 < pi_senders s then Some (s\<lparr>pi_senders := pi_senders s - 1\<rparr>) else None)"
| "usage_act (ActWrite r) s = writer_move r s"

fun usage_run :: "'e pipe_act list \<Rightarrow> 'e pipe \<Rightarrow> 'e pipe option" where
  "usage_run [] s = Some s"
| "usage_run (a # as) s = Option.bind (usage_act a s) (usage_run as)"

lemma act_step: "usage_act a s = Some s' \<Longrightarrow> usage_step s s'"
  using usage_step.intros(1-3) [of s] by (cases a) (auto intro: Write split: if_splits)

lemma run_reaches: "usage_run as s = Some s' \<Longrightarrow> usage_step\<^sup>*\<^sup>* s s'"
  by (induction as arbitrary: s) (auto simp: Option.bind_eq_Some_conv intro: act_step converse_rtranclp_into_rtranclp)

section \<open>Nothing is lost silently\<close>

text \<open>C32: In every interleaving of callers and writer the accepted events are, in order, those of the batches that
  ended, those of the batch in hand and those of the queue; a batch holds 1 to 64 events and has had 1 to 3
  attempts, all 3 when it was given up; the counters count exactly the refused events, the events of the batches given
  up and the batches that panicked; and the waits between attempts are those of the back-off.\<close>

theorem usage_events_accounted:
  assumes "usage_reachable c s"
  shows "pi_accepted s = logged (pi_log s) @ in_flight (pi_phase s) @ pi_queue s \<and>
    list_all batch_sound (pi_log s) \<and> length (pi_queue s) \<le> max c 1 \<and>
    me_dropped (pi_metrics s) = of_nat (length (pi_refused s)) \<and>
    me_write_failed (pi_metrics s) = of_nat (length (concat (ended GaveUp (pi_log s)))) \<and>
    me_worker_restart (pi_metrics s) = of_nat (length (ended PanicDropped (pi_log s))) \<and>
    pi_slept s = log_waits (pi_log s) @ phase_waits (pi_phase s)"
  using usage_reachable_inv [OF assms] by (auto simp: usage_inv_def usage_sound)

definition demo_acts :: "nat pipe_act list" where
  "demo_acts =
     [ActRecord 1, ActRecord 2, ActRecord 3, ActWrite WroteOk, ActWrite WroteOk, ActWrite WroteOk,
      ActWrite (WroteErr ''down''), ActRecord 4, ActWrite (WroteErr ''down''), ActWrite (WroteErr ''down'')]"

definition demo_pipe :: "nat pipe" where
  "demo_pipe = the (usage_run demo_acts (spawn_usage_batch_writer 2))"

lemma demo_pipe_reachable: "usage_reachable 2 demo_pipe"
proof -
  have "usage_run demo_acts (spawn_usage_batch_writer 2) \<noteq> None" by code_simp
  then have "usage_run demo_acts (spawn_usage_batch_writer 2) = Some demo_pipe" by (auto simp: demo_pipe_def)
  then show ?thesis unfolding usage_reachable_def by (rule run_reaches)
qed

theorem usage_events_accounted_witness:
  "[1, 2, 4] = logged (pi_log demo_pipe) @ in_flight (pi_phase demo_pipe) @ pi_queue demo_pipe \<and>
   me_dropped (pi_metrics demo_pipe) = 1 \<and> me_write_failed (pi_metrics demo_pipe) = 2 \<and> pi_slept demo_pipe = [50, 200]"
proof -
  have "pi_accepted demo_pipe = [1, 2, 4]" "pi_refused demo_pipe = [3]" by code_simp+
  moreover have "concat (ended GaveUp (pi_log demo_pipe)) = [1, 2]" by code_simp
  moreover have "log_waits (pi_log demo_pipe) @ phase_waits (pi_phase demo_pipe) = [50, 200]" by code_simp
  ultimately show ?thesis using usage_events_accounted [OF demo_pipe_reachable] by simp
qed

section \<open>The pipeline drains\<close>

definition work :: "'e pipe \<Rightarrow> nat" where
  "work s = 5 * length (pi_queue s) +
     (case pi_phase s of Idle \<Rightarrow> 1 | Filling _ \<Rightarrow> 5 | Writing _ n \<Rightarrow> 5 - n | Exited \<Rightarrow> 0)"

fun drain :: "write_result list \<Rightarrow> 'e pipe \<Rightarrow> 'e pipe" where
  "drain [] s = s"
| "drain (r # rs) s = (case writer_move r s of Some s' \<Rightarrow> drain rs s' | None \<Rightarrow> s)"

lemma move_keeps: "writer_move r s = Some s' \<Longrightarrow> pi_senders s' = pi_senders s \<and> pi_accepted s' = pi_accepted s"
  by (cases r) (auto simp: writer_move_def batch_done_def split: writer_phase.splits list.splits if_splits)

lemma move_work:
  assumes "usage_inv c s" "writer_move r s = Some s'"
  shows "work s' < work s"
proof (cases "pi_phase s")
  case (Writing b n)
  with assms(1) have "n \<le> 3" by (simp add: usage_inv_def batches_sound_def max_write_attempts_def)
  with Writing assms(2) show ?thesis
    by (cases r) (auto simp: work_def writer_move_def batch_done_def max_write_attempts_def split: if_splits)
qed (use assms(2) in \<open>auto simp: work_def writer_move_def split: list.splits if_splits\<close>)

lemma move_stuck: "writer_move r s = None \<Longrightarrow> pi_senders s = 0 \<Longrightarrow> pi_phase s = Exited"
  by (auto simp: writer_move_def split: writer_phase.splits list.splits if_splits)

lemma drain_exits:
  assumes "usage_inv c s" "pi_senders s = 0" "work s \<le> length rs"
  shows "pi_phase (drain rs s) = Exited \<and> usage_inv c (drain rs s) \<and> pi_accepted (drain rs s) = pi_accepted s"
  using assms
proof (induction rs arbitrary: s)
  case Nil
  then have "pi_phase s = Exited" by (auto simp: work_def usage_inv_def batches_sound_def max_write_attempts_def split: writer_phase.splits)
  with Nil show ?case by simp
next
  case (Cons r rs)
  show ?case
  proof (cases "writer_move r s")
    case None
    with Cons.prems move_stuck show ?thesis by auto
  next
    case (Some s')
    with Cons.prems have "usage_inv c s'" "pi_senders s' = 0" "work s' \<le> length rs" "pi_accepted s' = pi_accepted s"
      using inv_move move_keeps [OF Some] move_work [OF Cons.prems(1) Some] by auto
    with Cons.IH Some show ?thesis by simp
  qed
qed

text \<open>C33: The shutdown protocol: once every sink is dropped the writer returns, whatever the writes answer, after at most five moves per
  queued event and five more, and by then every accepted event has been in exactly one batch, in order.\<close>

theorem usage_writer_drains:
  assumes "usage_reachable c s" "pi_senders s = 0" "5 * length (pi_queue s) + 5 \<le> length rs"
  shows "pi_phase (drain rs s) = Exited \<and> pi_queue (drain rs s) = [] \<and> logged (pi_log (drain rs s)) = pi_accepted s"
proof -
  have "work s \<le> length rs" using assms(3) by (auto simp: work_def split: writer_phase.split)
  with drain_exits [OF usage_reachable_inv [OF assms(1)] assms(2)] have d: "pi_phase (drain rs s) = Exited"
    "usage_inv c (drain rs s)" "pi_accepted (drain rs s) = pi_accepted s" by auto
  then show ?thesis by (auto simp: usage_inv_def usage_sound)
qed

definition demo_closed :: "nat pipe" where
  "demo_closed = the (usage_run (demo_acts @ [ActDrop]) (spawn_usage_batch_writer 2))"

theorem usage_writer_drains_witness:
  "pi_phase (drain (replicate 10 WritePanicked) demo_closed) = Exited \<and> pi_queue (drain (replicate 10 WritePanicked) demo_closed) = [] \<and>
   logged (pi_log (drain (replicate 10 WritePanicked) demo_closed)) = [1, 2, 4]"
proof -
  have "usage_run (demo_acts @ [ActDrop]) (spawn_usage_batch_writer 2) \<noteq> None" by code_simp
  then have "usage_run (demo_acts @ [ActDrop]) (spawn_usage_batch_writer 2) = Some demo_closed" by (auto simp: demo_closed_def)
  then have "usage_reachable 2 demo_closed" unfolding usage_reachable_def by (rule run_reaches)
  moreover have "pi_senders demo_closed = 0" "pi_accepted demo_closed = [1, 2, 4]" "length (pi_queue demo_closed) = 1" by code_simp+
  ultimately show ?thesis using usage_writer_drains [of 2 demo_closed "replicate 10 WritePanicked"] by simp
qed

end
