(* ===== verification/Mq_Queue.thy ===== *)
theory Mq_Queue
  imports Flow_Json
begin

text \<open>
  The message queue of fusion-mq: the event types (\<open>types.rs\<close>), its errors and configuration, and the PostgreSQL
  provider (\<open>postgres/mod.rs\<close>) as operations on the table \<open>event_queue\<close>, a list of rows. A statement that fails
  at the server is the argument \<open>fault\<close>; \<open>locked\<close> are the rows that another transaction holds when
  \<open>FOR UPDATE SKIP LOCKED\<close> looks at them. Rows of the same \<open>created_at\<close> are taken in table order.
\<close>

section \<open>Types\<close>

datatype event_status = EsPending | EsProcessing | EsCompleted | EsFailed

fun event_status_str :: "event_status \<Rightarrow> string" where
  "event_status_str EsPending = ''pending''"
| "event_status_str EsProcessing = ''processing''"
| "event_status_str EsCompleted = ''completed''"
| "event_status_str EsFailed = ''failed''"

definition event_status_from_str :: "string \<Rightarrow> string + event_status" where
  "event_status_from_str s =
     (if s = ''pending'' then Inr EsPending else if s = ''processing'' then Inr EsProcessing
      else if s = ''completed'' then Inr EsCompleted else if s = ''failed'' then Inr EsFailed
      else Inl (''invalid EventStatus: `'' @ s @ ''`''))"

interpretation event_status: partial_codec event_status_str "\<lambda>s. case event_status_from_str s of Inr x \<Rightarrow> Some x | Inl _ \<Rightarrow> None"
proof unfold_locales
  show "(case event_status_from_str (event_status_str x) of Inr x \<Rightarrow> Some x | Inl _ \<Rightarrow> None) = Some x" for x
    by (cases x) (simp_all add: event_status_from_str_def)
  show "(case event_status_from_str w of Inr x \<Rightarrow> Some x | Inl _ \<Rightarrow> None) = Some x \<Longrightarrow> w = event_status_str x" for w x
    by (auto simp: event_status_from_str_def split: if_splits)
qed

record publish_event =
  pe_event_type :: string
  pe_source_service :: string
  pe_target_service :: string
  pe_payload :: json
  pe_max_retries :: "nat option"

definition publish_event_new :: "string \<Rightarrow> string \<Rightarrow> string \<Rightarrow> json \<Rightarrow> publish_event" where
  "publish_event_new ty src tgt payload =
     \<lparr>pe_event_type = ty, pe_source_service = src, pe_target_service = tgt, pe_payload = payload, pe_max_retries = None\<rparr>"

definition with_max_retries :: "nat \<Rightarrow> publish_event \<Rightarrow> publish_event" where
  "with_max_retries n e = e\<lparr>pe_max_retries := Some n\<rparr>"

record claimed_event =
  ce_id :: nat
  ce_event_type :: string
  ce_payload :: json
  ce_retry_count :: nat
  ce_max_retries :: nat
  ce_created_at :: int

datatype retry_decision = Retry | Dead

datatype mq_error =
    MqConfigInvalid string
  | MqConnectionFailed string
  | MqPublishFailed string
  | MqClaimFailed string
  | MqAckFailed string
  | MqSerialization string
  | MqTimeout nat
  | MqNotFound string
  | MqSqlx string
  | MqJson string

text \<open>The error texts; the text of a duration and of the two wrapped errors is an argument.\<close>

fun show_mq_error :: "(nat \<Rightarrow> string) \<Rightarrow> mq_error \<Rightarrow> string" where
  "show_mq_error dur (MqConfigInvalid m) = ''mq config invalid: '' @ m"
| "show_mq_error dur (MqConnectionFailed m) = ''mq connection failed: '' @ m"
| "show_mq_error dur (MqPublishFailed m) = ''mq publish failed: '' @ m"
| "show_mq_error dur (MqClaimFailed m) = ''mq claim failed: '' @ m"
| "show_mq_error dur (MqAckFailed m) = ''mq ack failed: '' @ m"
| "show_mq_error dur (MqSerialization m) = ''mq serialization failed: '' @ m"
| "show_mq_error dur (MqTimeout d) = ''mq operation timed out after '' @ dur d"
| "show_mq_error dur (MqNotFound m) = ''mq event not found: '' @ m"
| "show_mq_error dur (MqSqlx m) = m"
| "show_mq_error dur (MqJson m) = m"

record mq_pg_config =
  mc_url :: "string option"
  mc_max_connections :: nat
  mc_min_connections :: nat
  mc_acquire_timeout_seconds :: nat
  mc_idle_timeout_seconds :: nat
  mc_table_name :: string

definition mq_pg_config_default :: mq_pg_config where
  "mq_pg_config_default =
     \<lparr>mc_url = None, mc_max_connections = 10, mc_min_connections = 1, mc_acquire_timeout_seconds = 10,
      mc_idle_timeout_seconds = 600, mc_table_name = ''event_queue''\<rparr>"

datatype mq_provider_kind = MqPostgres

record mq_config =
  mc_enable :: bool
  mc_provider :: mq_provider_kind
  mc_postgres :: mq_pg_config

definition mq_config_default :: mq_config where
  "mq_config_default = \<lparr>mc_enable = False, mc_provider = MqPostgres, mc_postgres = mq_pg_config_default\<rparr>"

definition ascii_alnum :: "char \<Rightarrow> bool" where
  "ascii_alnum c \<longleftrightarrow>
     (let n = of_char c :: nat in 48 \<le> n \<and> n \<le> 57 \<or> 65 \<le> n \<and> n \<le> 90 \<or> 97 \<le> n \<and> n \<le> 122)"

definition validate_table_ident :: "string \<Rightarrow> mq_error + unit" where
  "validate_table_ident name =
     (if name = [] then Inl (MqConfigInvalid ''table name must not be empty'')
      else if \<not> list_all (\<lambda>c. ascii_alnum c \<or> c = CHR ''_'') name then
        Inl (MqConfigInvalid (''invalid table name: '' @ name @ '' (only [a-zA-Z0-9_] allowed)''))
      else Inr ())"

text \<open>\<open>connect\<close>: the pool is an argument, the provider is the name of its table.\<close>

definition mq_connect :: "(string \<Rightarrow> string option) \<Rightarrow> mq_pg_config \<Rightarrow> mq_error + string" where
  "mq_connect pool cfg =
     (case mc_url cfg of
        None \<Rightarrow> Inl (MqConfigInvalid ''fusion.mq.postgres.url is required'')
      | Some url \<Rightarrow>
          (case pool url of
             Some e \<Rightarrow> Inl (MqConnectionFailed e)
           | None \<Rightarrow> thenR (validate_table_ident (mc_table_name cfg)) (Inr (mc_table_name cfg))))"

text \<open>
  The plugin: \<open>Inl\<close> is a panic, \<open>None\<close> a queue that is switched off, \<open>Some\<close> the table of the provider that is
  registered as producer and as consumer.
\<close>

definition mq_plugin_build ::
  "(nat \<Rightarrow> string) \<Rightarrow> (string \<Rightarrow> string option) \<Rightarrow> string + mq_config \<Rightarrow> string + string option" where
  "mq_plugin_build dur pool loaded =
     (case loaded of
        Inl e \<Rightarrow> Inl (''MessageQueuePlugin: load [fusion.mq] failed: '' @ e)
      | Inr cfg \<Rightarrow>
          if \<not> mc_enable cfg then Inr None
          else (case mc_provider cfg of
                  MqPostgres \<Rightarrow>
                    (case mq_connect pool (mc_postgres cfg) of
                       Inl e \<Rightarrow> Inl (''MessageQueuePlugin: postgres connect failed: '' @ show_mq_error dur e)
                     | Inr t \<Rightarrow> Inr (Some t))))"

section \<open>Table\<close>

record mq_row =
  mq_id :: nat
  mq_event_type :: string
  mq_source :: string
  mq_target :: string
  mq_payload :: json
  mq_status :: int
  mq_retry_count :: int
  mq_max_retries :: int
  mq_error_message :: "string option"
  mq_created_at :: int
  mq_updated_at :: int
  mq_processed_at :: "int option"

text \<open>\<open>publish\<close>: the server chooses the id; a taken id violates the primary key.\<close>

definition publish :: "string option \<Rightarrow> nat \<Rightarrow> int \<Rightarrow> publish_event \<Rightarrow> mq_row list \<Rightarrow> (mq_error + nat) \<times> mq_row list" where
  "publish fault i now e db =
     (case fault of
        Some m \<Rightarrow> (Inl (MqPublishFailed m), db)
      | None \<Rightarrow>
          if i \<in> mq_id ` set db then (Inl (MqPublishFailed ''duplicate key''), db)
          else (Inr i, db @
            [\<lparr>mq_id = i, mq_event_type = pe_event_type e, mq_source = pe_source_service e, mq_target = pe_target_service e,
              mq_payload = pe_payload e, mq_status = 1, mq_retry_count = 0,
              mq_max_retries = as_i32 (int (unwrap_or 3 (pe_max_retries e))), mq_error_message = None,
              mq_created_at = now, mq_updated_at = now, mq_processed_at = None\<rparr>]))"

definition i32_as_u32 :: "int \<Rightarrow> nat" where
  "i32_as_u32 n = nat (n mod 2 ^ 32)"

definition claimed_of :: "mq_row \<Rightarrow> claimed_event" where
  "claimed_of r =
     \<lparr>ce_id = mq_id r, ce_event_type = mq_event_type r, ce_payload = mq_payload r, ce_retry_count = i32_as_u32 (mq_retry_count r),
      ce_max_retries = i32_as_u32 (mq_max_retries r), ce_created_at = mq_created_at r\<rparr>"

definition claimable :: "string \<Rightarrow> mq_row \<Rightarrow> bool" where
  "claimable service r \<longleftrightarrow> mq_target r = service \<and> mq_status r = 1 \<and> mq_retry_count r < mq_max_retries r"

definition claim_rows :: "(nat \<Rightarrow> bool) \<Rightarrow> string \<Rightarrow> nat \<Rightarrow> mq_row list \<Rightarrow> mq_row list" where
  "claim_rows locked service batch_size db =
     take batch_size (sort_key mq_created_at (filter (\<lambda>r. claimable service r \<and> \<not> locked (mq_id r)) db))"

definition claim_pending ::
  "string option \<Rightarrow> (nat \<Rightarrow> bool) \<Rightarrow> int \<Rightarrow> string \<Rightarrow> nat \<Rightarrow> mq_row list \<Rightarrow> (mq_error + claimed_event list) \<times> mq_row list" where
  "claim_pending fault locked now service batch_size db =
     (case fault of
        Some m \<Rightarrow> (Inl (MqClaimFailed m), db)
      | None \<Rightarrow>
          (let rows = claim_rows locked service batch_size db in
           if rows = [] then (Inr [], db)
           else (Inr (map claimed_of rows),
                 update_where (\<lambda>r. mq_id r \<in> mq_id ` set rows) (\<lambda>r. r\<lparr>mq_status := 2, mq_updated_at := now\<rparr>) db)))"

text \<open>An update of one event that must find it.\<close>

definition ack_event :: "string option \<Rightarrow> nat \<Rightarrow> (mq_row \<Rightarrow> mq_row) \<Rightarrow> mq_row list \<Rightarrow> (mq_error + unit) \<times> mq_row list" where
  "ack_event fault i f db =
     (case fault of
        Some m \<Rightarrow> (Inl (MqAckFailed m), db)
      | None \<Rightarrow>
          if count_where (\<lambda>r. mq_id r = i) db = 0 then (Inl (MqNotFound (show_nat i)), db)
          else (Inr (), update_where (\<lambda>r. mq_id r = i) f db))"

definition mark_processed :: "string option \<Rightarrow> int \<Rightarrow> nat \<Rightarrow> mq_row list \<Rightarrow> (mq_error + unit) \<times> mq_row list" where
  "mark_processed fault now i db =
     ack_event fault i (\<lambda>r. r\<lparr>mq_status := 3, mq_processed_at := Some now, mq_updated_at := now\<rparr>) db"

fun next_status :: "retry_decision \<Rightarrow> int" where
  "next_status Retry = 1"
| "next_status Dead = 4"

definition failed_status :: "retry_decision \<Rightarrow> mq_row \<Rightarrow> int" where
  "failed_status d r = (if mq_max_retries r \<le> mq_retry_count r + 1 then 4 else next_status d)"

text \<open>The column is a 32-bit integer: a count that leaves it fails the statement.\<close>

definition mark_failed :: "string option \<Rightarrow> int \<Rightarrow> nat \<Rightarrow> string \<Rightarrow> retry_decision \<Rightarrow> mq_row list \<Rightarrow> (mq_error + unit) \<times> mq_row list" where
  "mark_failed fault now i err d db =
     (if fault = None \<and> list_ex (\<lambda>r. mq_id r = i \<and> \<not> in_i32 (mq_retry_count r + 1)) db then
        (Inl (MqAckFailed ''integer out of range''), db)
      else
        ack_event fault i
          (\<lambda>r. r\<lparr>mq_status := failed_status d r, mq_error_message := Some err, mq_retry_count := mq_retry_count r + 1,
                mq_updated_at := now\<rparr>) db)"

definition stuck_event :: "string \<Rightarrow> nat \<Rightarrow> int \<Rightarrow> mq_row \<Rightarrow> bool" where
  "stuck_event service stuck_after_secs now r \<longleftrightarrow>
     mq_target r = service \<and> mq_status r = 2 \<and> mq_updated_at r < now - 1000000 * as_i32 (int stuck_after_secs)"

definition reaped :: "int \<Rightarrow> mq_row \<Rightarrow> mq_row" where
  "reaped now r = r\<lparr>mq_status := if mq_max_retries r \<le> mq_retry_count r then 4 else 1, mq_updated_at := now\<rparr>"

definition reap_zombie :: "string option \<Rightarrow> int \<Rightarrow> string \<Rightarrow> nat \<Rightarrow> mq_row list \<Rightarrow> (mq_error + nat) \<times> mq_row list" where
  "reap_zombie fault now service stuck_after_secs db =
     (case fault of
        Some m \<Rightarrow> (Inl (MqAckFailed m), db)
      | None \<Rightarrow>
          (Inr (count_where (stuck_event service stuck_after_secs now) db),
           update_where (stuck_event service stuck_after_secs now) (reaped now) db))"

end
