(* ===== verification/Mq_Props.thy ===== *)
theory Mq_Props
  imports Mq_Queue
begin

text \<open>
  What the queue promises over any sequence of calls by producers, consumers and the reaper, from an empty table. A run
  collects what the callers saw; the invariant \<open>queue_ok\<close> ties every row to what was seen of its event.
\<close>

section \<open>Runs\<close>

datatype mq_call =
    CallPublish "string option" nat int publish_event
  | CallClaim "string option" "nat \<Rightarrow> bool" int string nat
  | CallProcessed "string option" int nat
  | CallFailed "string option" int nat string retry_decision
  | CallReap "string option" int string nat

datatype mq_seen =
    SeenPublished nat publish_event
  | SeenClaimed string claimed_event
  | SeenDone nat
  | SeenFailed nat
  | SeenReaped nat

fun mq_do :: "mq_call \<Rightarrow> mq_row list \<Rightarrow> mq_seen list \<times> mq_row list" where
  "mq_do (CallPublish fault i now e) db =
     (case publish fault i now e db of (res, db') \<Rightarrow> (case res of Inr j \<Rightarrow> [SeenPublished j e] | Inl _ \<Rightarrow> [], db'))"
| "mq_do (CallClaim fault locked now service n) db =
     (case claim_pending fault locked now service n db of
        (res, db') \<Rightarrow> (case res of Inr es \<Rightarrow> map (SeenClaimed service) es | Inl _ \<Rightarrow> [], db'))"
| "mq_do (CallProcessed fault now i) db =
     (case mark_processed fault now i db of (res, db') \<Rightarrow> (case res of Inr _ \<Rightarrow> [SeenDone i] | Inl _ \<Rightarrow> [], db'))"
| "mq_do (CallFailed fault now i err d) db =
     (case mark_failed fault now i err d db of (res, db') \<Rightarrow> (case res of Inr _ \<Rightarrow> [SeenFailed i] | Inl _ \<Rightarrow> [], db'))"
| "mq_do (CallReap fault now service secs) db =
     (case reap_zombie fault now service secs db of
        (res, db') \<Rightarrow>
          (case res of Inr _ \<Rightarrow> map (\<lambda>r. SeenReaped (mq_id r)) (filter (stuck_event service secs now) db) | Inl _ \<Rightarrow> [], db'))"

fun mq_run :: "mq_call list \<Rightarrow> mq_seen list \<Rightarrow> mq_row list \<Rightarrow> mq_seen list \<times> mq_row list" where
  "mq_run [] seen db = (seen, db)"
| "mq_run (c # cs) seen db = (case mq_do c db of (new, db') \<Rightarrow> mq_run cs (seen @ new) db')"

fun seen_id :: "mq_seen \<Rightarrow> nat" where
  "seen_id (SeenPublished i p) = i"
| "seen_id (SeenClaimed s e) = ce_id e"
| "seen_id (SeenDone i) = i"
| "seen_id (SeenFailed i) = i"
| "seen_id (SeenReaped i) = i"

definition view :: "nat \<Rightarrow> mq_seen list \<Rightarrow> mq_seen list" where
  "view i seen = filter (\<lambda>x. seen_id x = i) seen"

definition is_claim_of :: "nat \<Rightarrow> mq_seen \<Rightarrow> bool" where
  "is_claim_of i x \<longleftrightarrow> (case x of SeenClaimed s e \<Rightarrow> ce_id e = i | _ \<Rightarrow> False)"

definition claims :: "nat \<Rightarrow> mq_seen list \<Rightarrow> nat" where
  "claims i seen = length (filter (is_claim_of i) seen)"

definition failures :: "nat \<Rightarrow> mq_seen list \<Rightarrow> nat" where
  "failures i seen = count_list seen (SeenFailed i)"

definition reaps :: "nat \<Rightarrow> mq_seen list \<Rightarrow> nat" where
  "reaps i seen = count_list seen (SeenReaped i)"

text \<open>The event is in the hands of its last claimer: neither reported as failed nor reaped since.\<close>

definition held :: "nat \<Rightarrow> mq_seen list \<Rightarrow> bool" where
  "held i seen = fold (\<lambda>x h. is_claim_of i x \<or> h \<and> x \<noteq> SeenFailed i \<and> x \<noteq> SeenReaped i) seen False"

named_theorems seen_simps

lemma counts_append [seen_simps]:
  "view i (xs @ ys) = view i xs @ view i ys"
  "claims i (xs @ ys) = claims i xs + claims i ys"
  "failures i (xs @ ys) = failures i xs + failures i ys"
  "reaps i (xs @ ys) = reaps i xs + reaps i ys"
  "held i (xs @ [x]) \<longleftrightarrow> is_claim_of i x \<or> held i xs \<and> x \<noteq> SeenFailed i \<and> x \<noteq> SeenReaped i"
  by (simp_all add: view_def claims_def failures_def reaps_def held_def)

lemma counts_one [seen_simps]:
  "view i [] = []" "claims i [] = 0" "failures i [] = 0" "reaps i [] = 0" "\<not> held i []"
  "view i (x # xs) = (if seen_id x = i then x # view i xs else view i xs)"
  "claims i (x # xs) = (if is_claim_of i x then Suc (claims i xs) else claims i xs)"
  "failures i (x # xs) = (if x = SeenFailed i then Suc (failures i xs) else failures i xs)"
  "reaps i (x # xs) = (if x = SeenReaped i then Suc (reaps i xs) else reaps i xs)"
  "is_claim_of i (SeenClaimed s e) \<longleftrightarrow> ce_id e = i" "\<not> is_claim_of i (SeenPublished j p)" "\<not> is_claim_of i (SeenDone j)"
  "\<not> is_claim_of i (SeenFailed j)" "\<not> is_claim_of i (SeenReaped j)"
  by (auto simp: view_def claims_def failures_def reaps_def held_def is_claim_of_def)

lemma other_event: "seen_id x \<noteq> i \<Longrightarrow> \<not> is_claim_of i x \<and> x \<noteq> SeenFailed i \<and> x \<noteq> SeenReaped i"
  by (cases x) (auto simp: is_claim_of_def)

lemma counts_view:
  "claims i (view i seen) = claims i seen" "failures i (view i seen) = failures i seen"
  "reaps i (view i seen) = reaps i seen" "held i (view i seen) = held i seen"
proof (induction seen rule: rev_induct)
  case (snoc x xs)
  { case 1 show ?case using snoc other_event [of x i] by (cases "seen_id x = i") (simp_all add: seen_simps) next
    case 2 show ?case using snoc other_event [of x i] by (cases "seen_id x = i") (simp_all add: seen_simps) next
    case 3 show ?case using snoc other_event [of x i] by (cases "seen_id x = i") (simp_all add: seen_simps) next
    case 4 show ?case using snoc other_event [of x i] by (cases "seen_id x = i") (simp_all add: seen_simps) }
qed (simp_all add: seen_simps)

lemma held_until_released:
  "held i (xs @ ys) \<or> SeenFailed i \<in> set ys \<or> SeenReaped i \<in> set ys" if "held i xs"
  using that by (induction ys rule: rev_induct) (auto simp: seen_simps simp flip: append_assoc)

section \<open>The invariant\<close>

definition as_published :: "publish_event \<Rightarrow> mq_row \<Rightarrow> bool" where
  "as_published p r \<longleftrightarrow>
     mq_event_type r = pe_event_type p \<and> mq_payload r = pe_payload p \<and> mq_target r = pe_target_service p \<and>
     mq_max_retries r = as_i32 (int (unwrap_or 3 (pe_max_retries p)))"

definition claim_ok :: "mq_seen list \<Rightarrow> string \<Rightarrow> claimed_event \<Rightarrow> bool" where
  "claim_ok before service e \<longleftrightarrow>
     \<not> held (ce_id e) before \<and> ce_retry_count e = failures (ce_id e) before \<and> ce_retry_count e < ce_max_retries e \<and>
     (\<exists>p. SeenPublished (ce_id e) p \<in> set before \<and> pe_target_service p = service \<and> ce_event_type e = pe_event_type p \<and>
          ce_payload e = pe_payload p \<and> ce_max_retries e \<le> unwrap_or 3 (pe_max_retries p))"

definition log_ok :: "mq_seen list \<Rightarrow> bool" where
  "log_ok v \<longleftrightarrow> (\<forall>xs s e ys. v = xs @ SeenClaimed s e # ys \<longrightarrow> claim_ok xs s e)"

definition published_as :: "mq_seen list \<Rightarrow> mq_row \<Rightarrow> publish_event \<Rightarrow> bool" where
  "published_as v r p \<longleftrightarrow>
     as_published p r \<and> {q. SeenPublished (mq_id r) q \<in> set v} = {p} \<and>
     claims (mq_id r) v \<le> unwrap_or 3 (pe_max_retries p) + reaps (mq_id r) v"

definition row_ok :: "mq_seen list \<Rightarrow> mq_row \<Rightarrow> bool" where
  "row_ok v r \<longleftrightarrow>
     mq_retry_count r = int (failures (mq_id r) v) \<and> (held (mq_id r) v \<longrightarrow> mq_status r \<in> {2, 3}) \<and>
     claims (mq_id r) v \<le> failures (mq_id r) v + reaps (mq_id r) v + (if held (mq_id r) v then 1 else 0) \<and>
     (\<exists>p. published_as v r p) \<and> log_ok v"

definition queue_ok :: "mq_seen list \<Rightarrow> mq_row list \<Rightarrow> bool" where
  "queue_ok seen db \<longleftrightarrow>
     distinct (map mq_id db) \<and> seen_id ` set seen \<subseteq> mq_id ` set db \<and> (\<forall>r\<in>set db. row_ok (view (mq_id r) seen) r)"

lemma log_ok_Nil [seen_simps]: "log_ok []"
  by (simp add: log_ok_def)

lemma log_ok_snoc [seen_simps]:
  "log_ok (v @ [x]) \<longleftrightarrow> log_ok v \<and> (case x of SeenClaimed s e \<Rightarrow> claim_ok v s e | _ \<Rightarrow> True)" (is "?l \<longleftrightarrow> ?r")
proof
  assume ?l
  then show ?r by (fastforce simp: log_ok_def split: mq_seen.split)
next
  assume r: ?r
  show ?l unfolding log_ok_def
  proof (intro allI impI)
    fix xs s e ys
    assume "v @ [x] = xs @ SeenClaimed s e # ys"
    then show "claim_ok xs s e" using r by (cases ys rule: rev_cases) (auto simp: log_ok_def)
  qed
qed

lemma as_i32_le: "0 \<le> n \<Longrightarrow> as_i32 n \<le> n"
  unfolding as_i32_def using zmod_le_nonneg_dividend [of "n + 2 ^ 31" "2 ^ 32"] by simp

lemma i32_as_u32_nat: "0 \<le> n \<Longrightarrow> in_i32 n \<Longrightarrow> int (i32_as_u32 n) = n"
  by (simp add: i32_as_u32_def in_i32_def)

text \<open>One event, one step.\<close>

lemma row_claimed:
  assumes row: "row_ok v r" and claim: "claimable s r"
  shows "row_ok (v @ [SeenClaimed s (claimed_of r)]) (r\<lparr>mq_status := 2, mq_updated_at := now\<rparr>)"
proof -
  let ?i = "mq_id r"
  obtain p where p: "published_as v r p" using row by (auto simp: row_ok_def)
  let ?m = "unwrap_or 3 (pe_max_retries p)"
  have free: "\<not> held ?i v" using row claim by (auto simp: row_ok_def claimable_def)
  have max: "mq_max_retries r = as_i32 (int ?m)" using p by (simp add: published_as_def as_published_def)
  have count: "mq_retry_count r = int (failures ?i v)" using row by (simp add: row_ok_def)
  have less: "int (failures ?i v) < as_i32 (int ?m)" using claim count max by (simp add: claimable_def)
  have range: "in_i32 (as_i32 (int ?m))" by (rule as_i32_range)
  have u: "i32_as_u32 (mq_retry_count r) = failures ?i v" "int (i32_as_u32 (mq_max_retries r)) = as_i32 (int ?m)"
    using less range i32_as_u32_nat [of "int (failures ?i v)"] i32_as_u32_nat [of "as_i32 (int ?m)"] count max
    by (auto simp: in_i32_def)
  have le: "as_i32 (int ?m) \<le> int ?m" by (rule as_i32_le) simp
  have bound: "Suc (claims ?i v) \<le> ?m + reaps ?i v"
    using row free less le by (simp add: row_ok_def)
  have ok: "claim_ok v s (claimed_of r)"
    using free u less le p claim
    by (auto simp: claim_ok_def claimed_of_def published_as_def as_published_def claimable_def intro!: exI [of _ p])
  have "published_as (v @ [SeenClaimed s (claimed_of r)]) (r\<lparr>mq_status := 2, mq_updated_at := now\<rparr>) p"
    using p bound by (simp add: published_as_def as_published_def seen_simps claimed_of_def)
  then show ?thesis
    using row free ok by (auto simp: row_ok_def seen_simps claimed_of_def)
qed

lemma row_done:
  "mq_id r = i \<Longrightarrow> row_ok v r \<Longrightarrow> row_ok (v @ [SeenDone i]) (r\<lparr>mq_status := 3, mq_processed_at := t, mq_updated_at := now\<rparr>)"
  by (auto simp: row_ok_def published_as_def as_published_def seen_simps)

lemma row_failed:
  "mq_id r = i \<Longrightarrow> row_ok v r \<Longrightarrow>
   row_ok (v @ [SeenFailed i])
     (r\<lparr>mq_status := st, mq_error_message := m, mq_retry_count := mq_retry_count r + 1, mq_updated_at := now\<rparr>)"
  by (auto simp: row_ok_def published_as_def as_published_def seen_simps split: if_splits)

lemma row_reaped: "row_ok v r \<Longrightarrow> row_ok (v @ [SeenReaped (mq_id r)]) (reaped now r)"
  by (auto simp: row_ok_def published_as_def as_published_def reaped_def seen_simps split: if_splits)

lemma reaped_id [simp]: "mq_id (reaped now r) = mq_id r"
  by (simp add: reaped_def)

lemma row_new: "as_published p r \<Longrightarrow> mq_retry_count r = 0 \<Longrightarrow> row_ok [SeenPublished (mq_id r) p] r"
  using log_ok_snoc [of "[]" "SeenPublished (mq_id r) p"] held_def
  by (auto simp: row_ok_def published_as_def seen_simps held_def)

text \<open>The whole table.\<close>

lemma queue_update:
  assumes q: "queue_ok seen db"
    and ids: "\<And>r. mq_id (f r) = mq_id r"
    and new: "\<And>r. r \<in> set db \<Longrightarrow> view (mq_id r) new = (if P r then [g r] else [])"
    and ok: "\<And>v r. r \<in> set db \<Longrightarrow> P r \<Longrightarrow> row_ok v r \<Longrightarrow> row_ok (v @ [g r]) (f r)"
    and sub: "seen_id ` set new \<subseteq> mq_id ` set db"
  shows "queue_ok (seen @ new) (update_where P f db)"
proof -
  have m: "map mq_id (update_where P f db) = map mq_id db" by (rule map_key_update_where) (rule ids)
  then have i: "mq_id ` set (update_where P f db) = mq_id ` set db" by (metis list.set_map)
  have "row_ok (view (mq_id r') (seen @ new)) r'" if r': "r' \<in> set (update_where P f db)" for r'
  proof -
    obtain r where r: "r \<in> set db" "r' = (if P r then f r else r)"
      using r' unfolding update_where_def set_map by blast
    then have "row_ok (view (mq_id r) seen) r" using q by (simp add: queue_ok_def)
    then show ?thesis using r new [of r] ok [of r] ids by (auto simp: seen_simps)
  qed
  then show ?thesis using q sub unfolding queue_ok_def m i by auto
qed

lemma queue_idle: "queue_ok seen db \<Longrightarrow> queue_ok (seen @ []) db"
  by simp

lemma filter_key_eq: "distinct (map k xs) \<Longrightarrow> x \<in> set xs \<Longrightarrow> filter (\<lambda>y. k y = k x) xs = [x]"
  by (induction xs) (auto simp: filter_empty_conv image_iff)

lemma view_map: "(\<And>x. seen_id (h x) = k x) \<Longrightarrow> view i (map h xs) = map h (filter (\<lambda>x. k x = i) xs)"
  by (simp add: view_def filter_map o_def)

lemma distinct_claim_rows:
  assumes "distinct (map mq_id db)"
  shows "distinct (map mq_id (claim_rows locked s n db))"
proof -
  have "distinct (map mq_id (sort_key mq_created_at (filter P db)))" for P
    using assms by (auto simp: distinct_map intro: inj_on_subset)
  then show ?thesis unfolding claim_rows_def by (simp add: take_map [symmetric] distinct_take)
qed

lemma claim_rows_sub: "r \<in> set (claim_rows locked s n db) \<Longrightarrow> r \<in> set db \<and> claimable s r \<and> \<not> locked (mq_id r)"
  unfolding claim_rows_def by (auto dest: in_set_takeD)

lemma same_row: "distinct (map mq_id db) \<Longrightarrow> r \<in> set db \<Longrightarrow> r' \<in> set db \<Longrightarrow> mq_id r = mq_id r' \<Longrightarrow> r = r'"
  by (metis eq_key_imp_eq_value inj_onD distinct_map)

lemma queue_claim:
  assumes q: "queue_ok seen db"
  shows "queue_ok (seen @ map (\<lambda>r. SeenClaimed s (claimed_of r)) (claim_rows locked s n db))
           (update_where (\<lambda>r. mq_id r \<in> mq_id ` set (claim_rows locked s n db)) (\<lambda>r. r\<lparr>mq_status := 2, mq_updated_at := now\<rparr>) db)"
proof (rule queue_update [OF q, where g = "\<lambda>r. SeenClaimed s (claimed_of r)"])
  let ?rows = "claim_rows locked s n db"
  have d: "distinct (map mq_id db)" using q by (simp add: queue_ok_def)
  have mem: "r \<in> set ?rows" if "r \<in> set db" "mq_id r \<in> mq_id ` set ?rows" for r
  proof -
    obtain r' where r': "r' \<in> set ?rows" "mq_id r = mq_id r'" using \<open>mq_id r \<in> _\<close> by auto
    then show ?thesis using same_row [OF d \<open>r \<in> set db\<close>] claim_rows_sub by blast
  qed
  show "view (mq_id r) (map (\<lambda>r. SeenClaimed s (claimed_of r)) ?rows) =
          (if mq_id r \<in> mq_id ` set ?rows then [SeenClaimed s (claimed_of r)] else [])" if "r \<in> set db" for r
    using mem [OF that] filter_key_eq [OF distinct_claim_rows [OF d], of r]
    by (subst view_map [where k = mq_id]) (auto simp: claimed_of_def filter_empty_conv image_iff)
  show "row_ok (v @ [SeenClaimed s (claimed_of r)]) (r\<lparr>mq_status := 2, mq_updated_at := now\<rparr>)"
    if "r \<in> set db" "mq_id r \<in> mq_id ` set ?rows" "row_ok v r" for v r
    using that mem claim_rows_sub row_claimed by blast
  show "seen_id ` set (map (\<lambda>r. SeenClaimed s (claimed_of r)) ?rows) \<subseteq> mq_id ` set db"
    using claim_rows_sub by (force simp: claimed_of_def)
qed simp

lemma queue_ack:
  assumes q: "queue_ok seen db" and i: "i \<in> mq_id ` set db" and x: "seen_id x = i"
    and ids: "\<And>r. mq_id (f r) = mq_id r" and ok: "\<And>v r. mq_id r = i \<Longrightarrow> row_ok v r \<Longrightarrow> row_ok (v @ [x]) (f r)"
  shows "queue_ok (seen @ [x]) (update_where (\<lambda>r. mq_id r = i) f db)"
  by (rule queue_update [OF q ids, where g = "\<lambda>_. x"]) (use i x ok in \<open>auto simp: seen_simps\<close>)

lemma queue_reap:
  assumes q: "queue_ok seen db"
  shows "queue_ok (seen @ map (\<lambda>r. SeenReaped (mq_id r)) (filter P db)) (update_where P (reaped now) db)"
proof (rule queue_update [OF q, where g = "\<lambda>r. SeenReaped (mq_id r)"])
  have d: "distinct (map mq_id db)" using q by (simp add: queue_ok_def)
  show "view (mq_id r) (map (\<lambda>r. SeenReaped (mq_id r)) (filter P db)) = (if P r then [SeenReaped (mq_id r)] else [])"
    if "r \<in> set db" for r
  proof -
    have "filter (\<lambda>x. mq_id x = mq_id r) (filter P db) = filter P (filter (\<lambda>x. mq_id x = mq_id r) db)"
      by (simp add: conj_commute)
    also have "\<dots> = (if P r then [r] else [])"
      unfolding filter_key_eq [OF d that] by simp
    finally show ?thesis by (subst view_map [where k = mq_id]) simp_all
  qed
qed (auto intro: row_reaped)

lemma queue_publish:
  assumes q: "queue_ok seen db" and i: "i \<notin> mq_id ` set db" and r: "mq_id r = i" and p: "as_published p r" "mq_retry_count r = 0"
  shows "queue_ok (seen @ [SeenPublished i p]) (db @ [r])"
proof -
  have none: "view i seen = []" using q i by (force simp: queue_ok_def view_def filter_empty_conv)
  show ?thesis using q i r none row_new [OF p] by (auto simp: queue_ok_def seen_simps)
qed

lemma queue_step: "queue_ok seen db \<Longrightarrow> mq_do c db = (new, db') \<Longrightarrow> queue_ok (seen @ new) db'"
proof (induction c db rule: mq_do.induct)
  case (1 fault i now e db)
  then show ?case
    by (auto simp: publish_def as_published_def split: option.splits if_splits intro!: queue_publish)
next
  case (2 fault locked now service n db)
  then show ?case
    using queue_claim [of seen db service locked n now]
    by (auto simp: claim_pending_def Let_def o_def split: option.splits if_splits)
next
  case (3 fault now i db)
  then show ?case
    by (auto simp: mark_processed_def ack_event_def count_where_0 split: option.splits if_splits
        intro!: queue_ack row_done)
next
  case (4 fault now i err d db)
  then show ?case
    by (auto simp: mark_failed_def ack_event_def count_where_0 split: option.splits if_splits
        intro!: queue_ack row_failed)
next
  case (5 fault now service secs db)
  then show ?case
    by (auto simp: reap_zombie_def split: option.splits intro!: queue_reap)
qed

lemma queue_run: "queue_ok seen db \<Longrightarrow> mq_run calls seen db = (seen', db') \<Longrightarrow> queue_ok seen' db'"
  by (induction calls seen db rule: mq_run.induct) (auto split: prod.splits dest: queue_step)

lemma queue_start: "queue_ok [] []"
  by (simp add: queue_ok_def)

lemma claim_ok_view: "ce_id e = i \<Longrightarrow> claim_ok (view i xs) s e \<Longrightarrow> claim_ok xs s e"
  by (auto simp: claim_ok_def counts_view) (auto simp: view_def)

lemma run_claim_ok:
  assumes "mq_run calls [] [] = (xs @ SeenClaimed s e # ys, db)"
  shows "claim_ok xs s e"
proof -
  let ?i = "ce_id e"
  have q: "queue_ok (xs @ SeenClaimed s e # ys) db" by (rule queue_run [OF queue_start assms])
  then obtain r where r: "r \<in> set db" "mq_id r = ?i" by (auto simp: queue_ok_def)
  then have "log_ok (view ?i xs @ SeenClaimed s e # view ?i ys)"
    using q by (auto simp: queue_ok_def row_ok_def seen_simps)
  then show ?thesis unfolding log_ok_def using claim_ok_view [of e ?i xs s] by blast
qed

lemma run_published:
  assumes "mq_run calls [] [] = (seen, db)" "SeenPublished i p \<in> set seen"
  obtains r where "r \<in> set db" "mq_id r = i" "row_ok (view i seen) r" "published_as (view i seen) r p"
proof -
  have q: "queue_ok seen db" by (rule queue_run [OF queue_start assms(1)])
  then have "i \<in> mq_id ` set db" using assms(2) by (force simp: queue_ok_def)
  then obtain r where r: "r \<in> set db" "mq_id r = i" by auto
  then have ok: "row_ok (view i seen) r" using q by (auto simp: queue_ok_def)
  then obtain p' where p': "published_as (view i seen) r p'" by (auto simp: row_ok_def)
  have "SeenPublished i p \<in> set (view i seen)" using assms(2) by (simp add: view_def)
  then have "p' = p" using p' r by (auto simp: published_as_def)
  then show ?thesis using that r ok p' by blast
qed

section \<open>A concrete run\<close>

text \<open>An event that is claimed, reported failed, claimed again, reaped and claimed a third time.\<close>

definition mq_demo_event :: publish_event where
  "mq_demo_event = with_max_retries 2 (publish_event_new ''sms.send'' ''identity-svc'' ''infra-svc'' JNull)"

definition mq_demo_claim :: "nat \<Rightarrow> claimed_event" where
  "mq_demo_claim n =
     \<lparr>ce_id = 7, ce_event_type = ''sms.send'', ce_payload = JNull, ce_retry_count = n, ce_max_retries = 2, ce_created_at = 0\<rparr>"

definition mq_demo_calls :: "mq_call list" where
  "mq_demo_calls =
     [CallPublish None 7 0 mq_demo_event, CallClaim None (\<lambda>_. False) 5 ''infra-svc'' 10, CallFailed None 6 7 ''busy'' Retry,
      CallClaim None (\<lambda>_. False) 8 ''infra-svc'' 10, CallReap None 9 ''infra-svc'' 0, CallClaim None (\<lambda>_. False) 9 ''infra-svc'' 10]"

definition mq_demo_row :: mq_row where
  "mq_demo_row =
     \<lparr>mq_id = 7, mq_event_type = ''sms.send'', mq_source = ''identity-svc'', mq_target = ''infra-svc'', mq_payload = JNull,
      mq_status = 2, mq_retry_count = 1, mq_max_retries = 2, mq_error_message = Some ''busy'', mq_created_at = 0,
      mq_updated_at = 9, mq_processed_at = None\<rparr>"

definition mq_demo_seen :: "mq_seen list" where
  "mq_demo_seen =
     [SeenPublished 7 mq_demo_event, SeenClaimed ''infra-svc'' (mq_demo_claim 0), SeenFailed 7, SeenClaimed ''infra-svc'' (mq_demo_claim 1),
      SeenReaped 7, SeenClaimed ''infra-svc'' (mq_demo_claim 1)]"

lemmas mq_demo_simps = publish_def claim_pending_def claim_rows_def claimable_def claimed_of_def mark_failed_def ack_event_def
  failed_status_def reap_zombie_def reaped_def stuck_event_def i32_as_u32_def as_i32_id in_i32_def count_where_def unwrap_or_def

lemma mq_demo_run: "mq_run mq_demo_calls [] [] = (mq_demo_seen, [mq_demo_row])"
  by (simp add: mq_demo_calls_def mq_demo_seen_def mq_demo_row_def mq_demo_claim_def mq_demo_event_def publish_event_new_def with_max_retries_def
      mq_demo_simps)

section \<open>What the queue promises\<close>

text \<open>C34: claims are exclusive, whatever producers, consumers and reapers do in between: of two claims of the same event
  the later one comes after a report of its failure or after a reap.\<close>

theorem claims_exclusive:
  assumes "mq_run calls [] [] = (xs @ SeenClaimed s a # ys @ SeenClaimed t b # zs, db)" and "ce_id a = ce_id b"
  shows "SeenFailed (ce_id b) \<in> set ys \<or> SeenReaped (ce_id b) \<in> set ys"
proof -
  have "claim_ok (xs @ SeenClaimed s a # ys) t b"
    using run_claim_ok [of calls "xs @ SeenClaimed s a # ys" t b zs db] assms(1) by simp
  then have "\<not> held (ce_id b) ((xs @ [SeenClaimed s a]) @ ys)" by (simp add: claim_ok_def)
  moreover have "held (ce_id b) (xs @ [SeenClaimed s a])" using assms(2) by (simp add: seen_simps)
  ultimately show ?thesis using held_until_released by blast
qed

lemma claims_exclusive_witness:
  "mq_run mq_demo_calls [] [] =
     ([SeenPublished 7 mq_demo_event] @ SeenClaimed ''infra-svc'' (mq_demo_claim 0) # [SeenFailed 7] @
        SeenClaimed ''infra-svc'' (mq_demo_claim 1) # [SeenReaped 7, SeenClaimed ''infra-svc'' (mq_demo_claim 1)], [mq_demo_row]) \<and>
   (SeenFailed 7 \<in> set [SeenFailed 7] \<or> SeenReaped 7 \<in> set [SeenFailed 7])"
proof
  show run: "mq_run mq_demo_calls [] [] =
     ([SeenPublished 7 mq_demo_event] @ SeenClaimed ''infra-svc'' (mq_demo_claim 0) # [SeenFailed 7] @
        SeenClaimed ''infra-svc'' (mq_demo_claim 1) # [SeenReaped 7, SeenClaimed ''infra-svc'' (mq_demo_claim 1)], [mq_demo_row])"
    by (simp add: mq_demo_run mq_demo_seen_def)
  show "SeenFailed 7 \<in> set [SeenFailed 7] \<or> SeenReaped 7 \<in> set [SeenFailed 7]"
    using claims_exclusive [OF run] by (simp add: mq_demo_claim_def)
qed

text \<open>An event is only ever handed to the service it was published for, with the type and payload it was published
  with; the retry count it carries is the number of failures reported before, and it is below the retry limit it carries,
  which is at most the published one.\<close>

theorem delivered_as_published:
  assumes "mq_run calls [] [] = (xs @ SeenClaimed s e # ys, db)"
  shows "\<exists>p. SeenPublished (ce_id e) p \<in> set xs \<and> s = pe_target_service p \<and> ce_event_type e = pe_event_type p \<and>
             ce_payload e = pe_payload p \<and> ce_retry_count e = failures (ce_id e) xs \<and>
             ce_retry_count e < ce_max_retries e \<and> ce_max_retries e \<le> unwrap_or 3 (pe_max_retries p)"
  using run_claim_ok [OF assms] unfolding claim_ok_def by blast

lemma delivered_as_published_witness:
  "\<exists>p. SeenPublished 7 p \<in> set (take 3 mq_demo_seen) \<and> ''infra-svc'' = pe_target_service p \<and>
       ce_event_type (mq_demo_claim 1) = pe_event_type p \<and> ce_payload (mq_demo_claim 1) = pe_payload p \<and>
       ce_retry_count (mq_demo_claim 1) = failures 7 (take 3 mq_demo_seen) \<and>
       ce_retry_count (mq_demo_claim 1) < ce_max_retries (mq_demo_claim 1) \<and> ce_max_retries (mq_demo_claim 1) \<le> unwrap_or 3 (pe_max_retries p)"
proof -
  have "mq_run mq_demo_calls [] [] =
    (take 3 mq_demo_seen @ SeenClaimed ''infra-svc'' (mq_demo_claim 1) # [SeenReaped 7, SeenClaimed ''infra-svc'' (mq_demo_claim 1)], [mq_demo_row])"
    by (simp add: mq_demo_run mq_demo_seen_def)
  from delivered_as_published [OF this] show ?thesis by (simp add: mq_demo_claim_def)
qed

text \<open>C35: an event is claimed at most as often as its retry limit says plus once for each time the reaper took it back,
  and at most once more than it was reported failed or reaped.\<close>

theorem deliveries_bounded:
  assumes "mq_run calls [] [] = (seen, db)" and "SeenPublished i p \<in> set seen"
  shows "claims i seen \<le> unwrap_or 3 (pe_max_retries p) + reaps i seen \<and>
         claims i seen \<le> failures i seen + reaps i seen + 1"
proof -
  obtain r where "mq_id r = i" "row_ok (view i seen) r" "published_as (view i seen) r p"
    using run_published [OF assms] by metis
  then show ?thesis by (auto simp: row_ok_def published_as_def counts_view split: if_splits)
qed

lemma deliveries_bounded_witness:
  "claims 7 mq_demo_seen \<le> unwrap_or 3 (pe_max_retries mq_demo_event) + reaps 7 mq_demo_seen \<and>
   claims 7 mq_demo_seen \<le> failures 7 mq_demo_seen + reaps 7 mq_demo_seen + 1"
  by (rule deliveries_bounded [OF mq_demo_run]) (simp add: mq_demo_seen_def)

section \<open>Crashes and late reports\<close>

text \<open>One round of a consumer that claims the event, crashes, and is reaped.\<close>

definition crash_round :: "string \<Rightarrow> mq_call list" where
  "crash_round service = [CallClaim None (\<lambda>_. False) 0 service 1, CallReap None 1 service 0]"

definition fresh_row :: "int \<Rightarrow> nat \<Rightarrow> int \<Rightarrow> publish_event \<Rightarrow> mq_row" where
  "fresh_row updated i now e =
     \<lparr>mq_id = i, mq_event_type = pe_event_type e, mq_source = pe_source_service e, mq_target = pe_target_service e,
      mq_payload = pe_payload e, mq_status = 1, mq_retry_count = 0,
      mq_max_retries = as_i32 (int (unwrap_or 3 (pe_max_retries e))), mq_error_message = None,
      mq_created_at = now, mq_updated_at = updated, mq_processed_at = None\<rparr>"

lemma crash_round_run:
  assumes "0 < as_i32 (int (unwrap_or 3 (pe_max_retries p)))"
  shows "mq_run (crash_round (pe_target_service p) @ cs) seen [fresh_row u i 0 p] =
           mq_run cs (seen @ [SeenClaimed (pe_target_service p) (claimed_of (fresh_row u i 0 p)), SeenReaped i]) [fresh_row 1 i 0 p]"
  using assms
  by (simp add: crash_round_def claim_pending_def claim_rows_def claimable_def fresh_row_def reap_zombie_def stuck_event_def
      reaped_def as_i32_id in_i32_def claimed_of_def)

lemma fresh_id: "ce_id (claimed_of (fresh_row u i now p)) = i"
  by (simp add: claimed_of_def fresh_row_def)

lemma crash_rounds_run:
  assumes "0 < as_i32 (int (unwrap_or 3 (pe_max_retries p)))"
  shows "\<exists>new. mq_run (concat (replicate k (crash_round (pe_target_service p)))) seen [fresh_row u i 0 p] = (seen @ new, [fresh_row (if k = 0 then u else 1) i 0 p]) \<and>
               claims i new = k \<and> failures i new = 0"
proof (induction k arbitrary: seen u)
  case 0
  then show ?case by (simp add: seen_simps)
next
  case (Suc k)
  let ?x = "[SeenClaimed (pe_target_service p) (claimed_of (fresh_row u i 0 p)), SeenReaped i]"
  obtain new where "mq_run (concat (replicate k (crash_round (pe_target_service p)))) (seen @ ?x) [fresh_row 1 i 0 p] =
      ((seen @ ?x) @ new, [fresh_row (if k = 0 then 1 else 1) i 0 p])" "claims i new = k" "failures i new = 0"
    using Suc [of "seen @ ?x" 1] by blast
  then show ?case
    by (intro exI [of _ "?x @ new"]) (simp add: crash_round_run [OF assms] seen_simps fresh_id)
qed

text \<open>C36: a crash is never counted: an event whose consumer crashes before it reports anything is handed out any number
  of times, whatever its positive retry limit, and still has no failure on its count.\<close>

theorem crashes_never_counted:
  assumes "0 < as_i32 (int (unwrap_or 3 (pe_max_retries p)))"
  shows "\<exists>calls seen. fst (mq_run (CallPublish None i 0 p # calls) [] []) = seen \<and>
           claims i seen = k \<and> failures i seen = 0 \<and>
           set calls \<subseteq> {CallClaim None (\<lambda>_. False) 0 (pe_target_service p) 1, CallReap None 1 (pe_target_service p) 0}"
proof -
  let ?calls = "concat (replicate k (crash_round (pe_target_service p)))"
  have start: "mq_run (CallPublish None i 0 p # ?calls) [] [] = mq_run ?calls [SeenPublished i p] [fresh_row 0 i 0 p]"
    by (simp add: publish_def fresh_row_def)
  obtain new where "mq_run ?calls [SeenPublished i p] [fresh_row 0 i 0 p] = ([SeenPublished i p] @ new, [fresh_row (if k = 0 then 0 else 1) i 0 p])"
    and n: "claims i new = k" "failures i new = 0"
    using crash_rounds_run [OF assms] by blast
  then have "fst (mq_run (CallPublish None i 0 p # ?calls) [] []) = SeenPublished i p # new" unfolding start by simp
  moreover have "set ?calls \<subseteq> {CallClaim None (\<lambda>_. False) 0 (pe_target_service p) 1, CallReap None 1 (pe_target_service p) 0}"
    by (auto simp: crash_round_def)
  ultimately show ?thesis using n by (intro exI [of _ ?calls]) (auto simp: seen_simps)
qed

lemma crashes_never_counted_witness:
  "\<exists>calls seen. fst (mq_run (CallPublish None 7 0 mq_demo_event # calls) [] []) = seen \<and> claims 7 seen = 100 \<and> failures 7 seen = 0 \<and>
     set calls \<subseteq> {CallClaim None (\<lambda>_. False) 0 (pe_target_service mq_demo_event) 1, CallReap None 1 (pe_target_service mq_demo_event) 0}"
  by (rule crashes_never_counted)
    (simp add: mq_demo_event_def publish_event_new_def with_max_retries_def as_i32_id in_i32_def unwrap_or_def)

text \<open>A report of failure has no guard on the state: one that comes after the event was completed puts it back, and it is
  processed again.\<close>

theorem late_failure_redelivers:
  assumes d: "distinct (map mq_id db)" and r: "r \<in> set db" "mq_status r = 3" "mq_retry_count r + 1 < mq_max_retries r"
    and range: "in_i32 (mq_max_retries r)" "0 \<le> mq_retry_count r"
  shows "\<exists>es. fst (claim_pending None (\<lambda>_. False) t (mq_target r) (length db) (snd (mark_failed None now (mq_id r) err Retry db))) =
                Inr es \<and> mq_id r \<in> ce_id ` set es"
proof -
  let ?f = "\<lambda>r. r\<lparr>mq_status := failed_status Retry r, mq_error_message := Some err, mq_retry_count := mq_retry_count r + 1,
                 mq_updated_at := now\<rparr>"
  have one: "x = r" if "x \<in> set db" "mq_id x = mq_id r" for x using same_row [OF d] that r(1) by blast
  have no: "\<not> list_ex (\<lambda>x. mq_id x = mq_id r \<and> \<not> in_i32 (mq_retry_count x + 1)) db"
  proof -
    have "in_i32 (mq_retry_count r + 1)" using range r(3) by (simp add: in_i32_def)
    then show ?thesis unfolding list_ex_iff using one by metis
  qed
  have n0: "count_where (\<lambda>x. mq_id x = mq_id r) db \<noteq> 0" using r(1) by (auto simp: count_where_0)
  have db: "snd (mark_failed None now (mq_id r) err Retry db) = update_where (\<lambda>x. mq_id x = mq_id r) ?f db"
    using no n0 by (simp add: mark_failed_def ack_event_def)
  let ?db = "update_where (\<lambda>x. mq_id x = mq_id r) ?f db"
  have mem: "?f r \<in> set ?db" using r(1) by (force simp: update_where_def)
  have c: "claimable (mq_target r) (?f r)" using r by (simp add: claimable_def failed_status_def)
  have "claim_rows (\<lambda>_. False) (mq_target r) (length db) ?db = sort_key mq_created_at (filter (claimable (mq_target r)) ?db)"
    unfolding claim_rows_def using length_filter_le [of "claimable (mq_target r)" ?db] by (simp add: take_all)
  then have "?f r \<in> set (claim_rows (\<lambda>_. False) (mq_target r) (length db) ?db)" using mem c by simp
  moreover have "ce_id (claimed_of (?f r)) = mq_id r" by (simp add: claimed_of_def)
  ultimately show ?thesis unfolding db claim_pending_def by (force simp: Let_def)
qed

end
