(* ===== verification/Sec_Captcha.thy ===== *)
theory Sec_Captcha
  imports Fusions_Error "HOL-Library.AList"
begin

text \<open>
  fusion-security: passwords (\<open>pwd.rs\<close>) and the one-shot captcha (\<open>captcha.rs\<close>). The password hash and the version
  pattern come from other crates and are arguments with the laws \<open>argon_ok\<close> and \<open>version_pattern_ok\<close>; random numbers
  and clock readings are arguments.
\<close>

section \<open>Passwords\<close>

definition cur_pwd_version :: nat where
  "cur_pwd_version = 1"

datatype pwd_verdict = VerdictOk | VerdictPassword | VerdictOther

record 'h argon_api =
  ar_hash :: "string \<Rightarrow> string \<Rightarrow> string option"
  ar_parse :: "string \<Rightarrow> 'h option"
  ar_verify :: "string \<Rightarrow> 'h \<Rightarrow> pwd_verdict"

text \<open>Hashing and verifying run on a worker; \<open>join\<close> is the text of the error when the worker is lost.\<close>

definition try_to_hash :: "'h argon_api \<Rightarrow> string option \<Rightarrow> string \<Rightarrow> string \<Rightarrow> security_error + string" where
  "try_to_hash api join plain_pwd salt =
     (case join of
        Some e \<Rightarrow> Inl (PasswordWorkerJoinFailed e)
      | None \<Rightarrow> (case ar_hash api plain_pwd salt of None \<Rightarrow> Inl FailedToHashPassword | Some h \<Rightarrow> Inr h))"

definition pwd_verify :: "'h argon_api \<Rightarrow> string option \<Rightarrow> string \<Rightarrow> string \<Rightarrow> security_error + bool" where
  "pwd_verify api join plain_pwd hashed_pwd =
     (case join of
        Some e \<Rightarrow> Inl (PasswordWorkerJoinFailed e)
      | None \<Rightarrow>
          (case ar_parse api hashed_pwd of
             None \<Rightarrow> Inl InvalidHashFormat
           | Some h \<Rightarrow>
               (case ar_verify api plain_pwd h of
                  VerdictOk \<Rightarrow> Inr True
                | VerdictPassword \<Rightarrow> Inr False
                | VerdictOther \<Rightarrow> Inl FailedToVerifyPassword)))"

definition generate_pwd :: "'h argon_api \<Rightarrow> string option \<Rightarrow> string \<Rightarrow> string \<Rightarrow> security_error + string" where
  "generate_pwd api join password salt =
     bindR (try_to_hash api join password salt) (\<lambda>hash. Inr (''#'' @ show_nat cur_pwd_version @ ''#'' @ hash))"

definition parse_u16 :: "string \<Rightarrow> nat option" where
  "parse_u16 s =
     (case s of
        CHR ''-'' # _ \<Rightarrow> None
      | _ \<Rightarrow> (case parse_int s of Some n \<Rightarrow> if n < 2 ^ 16 then Some (nat n) else None | None \<Rightarrow> None))"

text \<open>\<open>version_of\<close> is the text that the pattern \<open>^#(\d+)#\<close> captures.\<close>

definition split_pwd_version :: "(string \<Rightarrow> string option) \<Rightarrow> string \<Rightarrow> nat \<times> string" where
  "split_pwd_version version_of pwd =
     (case version_of pwd of
        Some version \<Rightarrow> (unwrap_or 0 (parse_u16 version), drop (length version + 2) pwd)
      | None \<Rightarrow> (0, pwd))"

definition verify_pwd :: "(string \<Rightarrow> string option) \<Rightarrow> 'h argon_api \<Rightarrow> string option \<Rightarrow> string \<Rightarrow> string \<Rightarrow> security_error + nat" where
  "verify_pwd version_of api join password hashed_pwd =
     (case split_pwd_version version_of hashed_pwd of
        (version, hash) \<Rightarrow>
          bindR (pwd_verify api join password hash) (\<lambda>ok. if ok then Inr version else Inl InvalidPassword))"

definition is_alpha_char :: "char \<Rightarrow> bool" where
  "is_alpha_char c \<longleftrightarrow> (let n = of_char c :: nat in 65 \<le> n \<and> n \<le> 90 \<or> 97 \<le> n \<and> n \<le> 122)"

definition allowed_special :: string where
  "allowed_special = ''-_+=/@#$%^&*(),./?[]''"

definition is_strong_password :: "string \<Rightarrow> bool" where
  "is_strong_password password \<longleftrightarrow>
     (if length password < 8 then False
      else
        (let has_letter = list_ex is_alpha_char password; has_digit = list_ex is_digit_char password;
             all_allowed = list_all (\<lambda>b. is_alpha_char b \<or> is_digit_char b \<or> b \<in> set allowed_special) password
         in has_letter \<and> has_digit \<and> all_allowed))"

section \<open>Captcha\<close>

record captcha_challenge =
  cc_id :: string
  cc_svg :: string

record inflight_answer =
  ia_answer :: string
  ia_expires_at :: int

record captcha_store =
  cs_inner :: "(string \<times> inflight_answer) list"
  cs_ttl :: int

definition captcha_ttl :: int where
  "captcha_ttl = 120 * 10 ^ 9"

definition max_inflight :: nat where
  "max_inflight = 65536"

definition captcha_with_ttl :: "int \<Rightarrow> captcha_store" where
  "captcha_with_ttl ttl = \<lparr>cs_inner = [], cs_ttl = ttl\<rparr>"

definition captcha_new :: captcha_store where
  "captcha_new = captcha_with_ttl captcha_ttl"

definition purge_expired :: "int \<Rightarrow> (string \<times> inflight_answer) list \<Rightarrow> (string \<times> inflight_answer) list" where
  "purge_expired now store = filter (\<lambda>(_, v). ia_expires_at v > now) store"

definition svg_attr :: "string \<Rightarrow> string \<Rightarrow> string" where
  "svg_attr k v = '' '' @ k @ ''='' @ [CHR 0x22] @ v @ [CHR 0x22]"

text \<open>The picture; the four coordinates of each of the three lines are random.\<close>

definition render_svg :: "(nat \<times> nat \<times> nat \<times> nat) list \<Rightarrow> string \<Rightarrow> string" where
  "render_svg coords text =
     (let lines = concat (map (\<lambda>(x1, y1, x2, y2).
            ''<line'' @ svg_attr ''x1'' (show_nat x1) @ svg_attr ''y1'' (show_nat y1) @ svg_attr ''x2'' (show_nat x2) @
            svg_attr ''y2'' (show_nat y2) @ svg_attr ''stroke'' ''#c8d0dc'' @ svg_attr ''stroke-width'' ''1'' @ ''/>'') coords)
      in ''<svg'' @ svg_attr ''xmlns'' ''http://www.w3.org/2000/svg'' @ svg_attr ''width'' ''120'' @ svg_attr ''height'' ''40'' @
         svg_attr ''viewBox'' ''0 0 120 40'' @ svg_attr ''role'' ''img'' @ svg_attr ''aria-label'' ''captcha'' @ ''>'' @ lines @
         ''<text'' @ svg_attr ''x'' ''60'' @ svg_attr ''y'' ''27'' @ svg_attr ''text-anchor'' ''middle'' @
         svg_attr ''font-family'' ''ui-monospace, Menlo, monospace'' @ svg_attr ''font-size'' ''20'' @
         svg_attr ''fill'' ''#16294d'' @ svg_attr ''letter-spacing'' ''2'' @ ''>'' @ text @ ''</text></svg>'')"

definition captcha_generate ::
  "nat \<Rightarrow> nat \<Rightarrow> string \<Rightarrow> (nat \<times> nat \<times> nat \<times> nat) list \<Rightarrow> int \<Rightarrow> int \<Rightarrow> captcha_store \<Rightarrow> captcha_challenge \<times> captcha_store" where
  "captcha_generate a b i coords now now' store =
     (let answer = show_nat (a + b);
          text = show_nat a @ '' + '' @ show_nat b @ '' = ?'';
          guard1 = purge_expired now (cs_inner store);
          guard2 = if max_inflight \<le> length guard1 then [] else guard1
      in (\<lparr>cc_id = i, cc_svg = render_svg coords text\<rparr>,
          store\<lparr>cs_inner := AList.update i \<lparr>ia_answer = answer, ia_expires_at = now' + cs_ttl store\<rparr> guard2\<rparr>))"

definition captcha_verify :: "int \<Rightarrow> string \<Rightarrow> string \<Rightarrow> captcha_store \<Rightarrow> bool \<times> captcha_store" where
  "captcha_verify now i answer store =
     (case map_of (cs_inner store) i of
        None \<Rightarrow> (False, store)
      | Some stored \<Rightarrow>
          (if now \<ge> ia_expires_at stored then False else ia_answer stored = trim_str answer,
           store\<lparr>cs_inner := AList.delete i (cs_inner store)\<rparr>))"

end
