(* ===== verification/Sec_OAuth.thy ===== *)
theory Sec_OAuth
  imports Flow_Json Common_Text "HOL-Library.AList" "HOL-Library.Word"
begin

text \<open>
  fusion-security: the OAuth client (\<open>oauth/mod.rs\<close>). The oauth2 crate, the HTTP exchange and the parsing of URLs are
  arguments; so are the readings of the clock. The client works on any token store (\<open>oauth_store\<close>, the trait
  \<open>TokenStore\<close>); \<open>memory_store\<close> is the one of the crate. A lock is never poisoned for the caller: every access recovers.
\<close>

unbundle bit_operations_syntax

section \<open>Types\<close>

datatype oauth_error =
    ConfigurationError string
  | TokenExchangeError string
  | UserInfoError string
  | RequestError string
  | UnsupportedProvider string
  | StateMismatch

fun show_oauth_error :: "string \<Rightarrow> oauth_error \<Rightarrow> string" where
  "show_oauth_error dash (ConfigurationError s) = ''OAuth configuration error: '' @ s"
| "show_oauth_error dash (TokenExchangeError s) = ''Token exchange error: '' @ s"
| "show_oauth_error dash (UserInfoError s) = ''User info error: '' @ s"
| "show_oauth_error dash (RequestError s) = ''HTTP request error: '' @ s"
| "show_oauth_error dash (UnsupportedProvider s) = ''Unsupported OAuth provider: '' @ s"
| "show_oauth_error dash StateMismatch = ''OAuth state mismatch '' @ dash @ '' possible CSRF attack''"

record oauth_config =
  oc_client_id :: string
  oc_client_secret :: string
  oc_redirect_url :: string
  oc_scopes :: "string list"

record user_info =
  ui_id :: string
  ui_username :: string
  ui_name :: "string option"
  ui_email :: "string option"
  ui_avatar_url :: "string option"
  ui_provider :: string

record oauth_token =
  ot_access_token :: string
  ot_token_type :: string
  ot_expires_in :: "nat option"
  ot_refresh_token :: "string option"
  ot_scope :: "string option"

record oauth_provider =
  op_name :: string
  op_auth_url :: string
  op_token_url :: string
  op_user_info_url :: string
  op_scopes :: "string list"

definition constant_time_eq :: "8 word list \<Rightarrow> 8 word list \<Rightarrow> bool" where
  "constant_time_eq a b \<longleftrightarrow>
     (if length a \<noteq> length b then False
      else fold (\<lambda>(x, y) diff. diff OR (x XOR y)) (zip a b) 0 = 0)"

definition as_bytes :: "string \<Rightarrow> 8 word list" where
  "as_bytes s = map of_char s"

section \<open>Expiry\<close>

definition sat_add_u64 :: "nat \<Rightarrow> nat \<Rightarrow> nat" where
  "sat_add_u64 a b = min (2 ^ 64 - 1) (a + b)"

text \<open>A clock before the epoch reads as zero.\<close>

definition now_unix_secs :: "int \<Rightarrow> nat" where
  "now_unix_secs clock = (if clock < 0 then 0 else nat clock)"

definition oauth_expires_at :: "int \<Rightarrow> oauth_token \<Rightarrow> nat option" where
  "oauth_expires_at clock t = map_option (\<lambda>duration. sat_add_u64 (now_unix_secs clock) duration) (ot_expires_in t)"

definition is_expired_or_expiring_soon :: "int \<Rightarrow> int \<Rightarrow> oauth_token \<Rightarrow> bool" where
  "is_expired_or_expiring_soon clock clock' t =
     (case oauth_expires_at clock t of
        Some expires_at \<Rightarrow> expires_at \<le> sat_add_u64 (now_unix_secs clock') 30
      | None \<Rightarrow> False)"

section \<open>Token stores\<close>

record 's oauth_store =
  tk_store :: "string \<Rightarrow> oauth_token \<Rightarrow> 's \<Rightarrow> (oauth_error + unit) \<times> 's"
  tk_get :: "string \<Rightarrow> 's \<Rightarrow> oauth_error + oauth_token option"
  tk_remove :: "string \<Rightarrow> 's \<Rightarrow> (oauth_error + unit) \<times> 's"
  tk_list :: "'s \<Rightarrow> oauth_error + (string \<times> oauth_token) list"

type_synonym memory_tokens = "(string \<times> oauth_token \<times> int) list"

definition mem_store_token :: "int \<Rightarrow> string \<Rightarrow> oauth_token \<Rightarrow> memory_tokens \<Rightarrow> (oauth_error + unit) \<times> memory_tokens" where
  "mem_store_token now user_id token tokens = (Inr (), AList.update user_id (token, now) tokens)"

definition mem_get_token :: "string \<Rightarrow> memory_tokens \<Rightarrow> oauth_error + oauth_token option" where
  "mem_get_token user_id tokens = Inr (map_option fst (map_of tokens user_id))"

definition mem_remove_token :: "string \<Rightarrow> memory_tokens \<Rightarrow> (oauth_error + unit) \<times> memory_tokens" where
  "mem_remove_token user_id tokens = (Inr (), AList.delete user_id tokens)"

definition mem_list_tokens :: "memory_tokens \<Rightarrow> oauth_error + (string \<times> oauth_token) list" where
  "mem_list_tokens tokens = Inr (map (\<lambda>(i, token, _). (i, token)) tokens)"

definition memory_store :: "int \<Rightarrow> memory_tokens oauth_store" where
  "memory_store now =
     \<lparr>tk_store = mem_store_token now, tk_get = mem_get_token, tk_remove = mem_remove_token, tk_list = mem_list_tokens\<rparr>"

definition cleanup_expired :: "int \<Rightarrow> int \<Rightarrow> memory_tokens \<Rightarrow> (oauth_error + nat) \<times> memory_tokens" where
  "cleanup_expired clock clock' tokens =
     (let tokens' = filter (\<lambda>(_, token, _). \<not> is_expired_or_expiring_soon clock clock' token) tokens
      in (Inr (length tokens - length tokens'), tokens'))"

section \<open>Providers\<close>

definition auth_scheme :: "string \<Rightarrow> string" where
  "auth_scheme provider_name = (if provider_name = ''github'' \<or> provider_name = ''gitee'' then ''token'' else ''Bearer'')"

definition provider_gitee :: oauth_provider where
  "provider_gitee =
     \<lparr>op_name = ''gitee'', op_auth_url = ''https://gitee.com/oauth/authorize'', op_token_url = ''https://gitee.com/oauth/token'',
      op_user_info_url = ''https://gitee.com/api/v5/user'', op_scopes = [''user_info'']\<rparr>"

definition provider_github :: oauth_provider where
  "provider_github =
     \<lparr>op_name = ''github'', op_auth_url = ''https://github.com/login/oauth/authorize'',
      op_token_url = ''https://github.com/login/oauth/access_token'', op_user_info_url = ''https://api.github.com/user'',
      op_scopes = [''user:email'']\<rparr>"

text \<open>The client of the oauth2 crate as the parts it is built from; \<open>bad_url\<close> is what its URL types say of a text.\<close>

record basic_client =
  bc_client_id :: string
  bc_client_secret :: string
  bc_auth_uri :: string
  bc_token_uri :: string
  bc_redirect_uri :: string

definition oauth_url :: "(string \<Rightarrow> string option) \<Rightarrow> string \<Rightarrow> oauth_error + string" where
  "oauth_url bad_url url = (case bad_url url of Some e \<Rightarrow> Inl (ConfigurationError e) | None \<Rightarrow> Inr url)"

definition build_client :: "(string \<Rightarrow> string option) \<Rightarrow> oauth_provider \<Rightarrow> oauth_config \<Rightarrow> oauth_error + basic_client" where
  "build_client bad_url p config =
     bindR (oauth_url bad_url (op_auth_url p)) (\<lambda>auth_url.
     bindR (oauth_url bad_url (op_token_url p)) (\<lambda>token_url.
     bindR (oauth_url bad_url (oc_redirect_url config)) (\<lambda>redirect_url.
       Inr \<lparr>bc_client_id = oc_client_id config, bc_client_secret = oc_client_secret config, bc_auth_uri = auth_url,
            bc_token_uri = token_url, bc_redirect_uri = redirect_url\<rparr>)))"

text \<open>What the server of a provider answers to a grant; the type of a token as its \<open>Debug\<close> text.\<close>

datatype oauth_grant = GrantCode string | GrantRefresh string

record token_reply =
  tr_access_token :: string
  tr_token_type :: string
  tr_expires_in :: "nat option"
  tr_refresh_token :: "string option"
  tr_scopes :: "string list option"

fun join_space :: "string list \<Rightarrow> string" where
  "join_space [] = []"
| "join_space [s] = s"
| "join_space (s # t # ss) = s @ '' '' @ join_space (t # ss)"

definition token_of_reply :: "token_reply \<Rightarrow> oauth_token" where
  "token_of_reply r =
     \<lparr>ot_access_token = tr_access_token r, ot_token_type = tr_token_type r, ot_expires_in = tr_expires_in r,
      ot_refresh_token = tr_refresh_token r, ot_scope = map_option join_space (tr_scopes r)\<rparr>"

definition request_token ::
  "(basic_client \<Rightarrow> oauth_grant \<Rightarrow> string + token_reply) \<Rightarrow> basic_client \<Rightarrow> oauth_grant \<Rightarrow> oauth_error + oauth_token" where
  "request_token request client grant =
     (case request client grant of Inl e \<Rightarrow> Inl (TokenExchangeError e) | Inr r \<Rightarrow> Inr (token_of_reply r))"

definition refresh_access_token ::
  "(string \<Rightarrow> string option) \<Rightarrow> (basic_client \<Rightarrow> oauth_grant \<Rightarrow> string + token_reply) \<Rightarrow> oauth_provider \<Rightarrow> string \<Rightarrow> oauth_config \<Rightarrow>
   oauth_error + oauth_token" where
  "refresh_access_token bad_url request p refresh_token config =
     bindR (build_client bad_url p config) (\<lambda>client. request_token request client (GrantRefresh refresh_token))"

definition data_str :: "string \<Rightarrow> json \<Rightarrow> string option" where
  "data_str k data = Option.bind (json_get k data) as_str"

definition parse_named_user_info :: "string \<Rightarrow> json \<Rightarrow> oauth_error + user_info" where
  "parse_named_user_info provider data =
     (case Option.bind (json_get ''id'' data) as_i64 of
        None \<Rightarrow> Inl (UserInfoError ''Missing id field'')
      | Some i \<Rightarrow>
          Inr \<lparr>ui_id = show_int i, ui_username = unwrap_or [] (data_str ''login'' data), ui_name = data_str ''name'' data,
               ui_email = data_str ''email'' data, ui_avatar_url = data_str ''avatar_url'' data, ui_provider = provider\<rparr>)"

definition parse_gitee_user_info :: "json \<Rightarrow> oauth_error + user_info" where
  "parse_gitee_user_info = parse_named_user_info ''gitee''"

definition parse_github_user_info :: "json \<Rightarrow> oauth_error + user_info" where
  "parse_github_user_info = parse_named_user_info ''github''"

definition parse_user_info :: "oauth_provider \<Rightarrow> json \<Rightarrow> oauth_error + user_info" where
  "parse_user_info p data =
     (if op_name p = ''gitee'' then parse_gitee_user_info data
      else if op_name p = ''github'' then parse_github_user_info data
      else Inl (UnsupportedProvider (op_name p)))"

text \<open>A user-info answer: its status (and its text with the reason), the map its body holds or the error of reading it.\<close>

record info_reply =
  ir_ok :: bool
  ir_status_text :: string
  ir_body_text :: string
  ir_json :: "string + json_map"

definition provider_get_user_info ::
  "(string \<Rightarrow> (string \<times> string) list \<Rightarrow> string + info_reply) \<Rightarrow> oauth_provider \<Rightarrow> string \<Rightarrow> oauth_error + user_info" where
  "provider_get_user_info send p access_token =
     (case send (op_user_info_url p)
            [(''Authorization'', auth_scheme (op_name p) @ '' '' @ access_token),
             (''User-Agent'', ''fusion-security-oauth/0.1.0''), (''Accept'', ''application/vnd.github.v3+json'')] of
        Inl e \<Rightarrow> Inl (RequestError e)
      | Inr r \<Rightarrow>
          if \<not> ir_ok r then Inl (UserInfoError (''HTTP '' @ ir_status_text r @ '': '' @ ir_body_text r))
          else (case ir_json r of
                  Inr members \<Rightarrow> parse_user_info p (JObj members)
                | Inl e \<Rightarrow> Inl (UserInfoError e)))"

section \<open>Client\<close>

record oauth_client =
  cl_provider :: oauth_provider
  cl_client :: basic_client
  cl_config :: oauth_config

definition oauth_client_new :: "(string \<Rightarrow> string option) \<Rightarrow> oauth_provider \<Rightarrow> oauth_config \<Rightarrow> oauth_error + oauth_client" where
  "oauth_client_new bad_url p config =
     bindR (build_client bad_url p config) (\<lambda>client. Inr \<lparr>cl_provider = p, cl_client = client, cl_config = config\<rparr>)"

definition exchange_code ::
  "(basic_client \<Rightarrow> oauth_grant \<Rightarrow> string + token_reply) \<Rightarrow> 's oauth_store \<Rightarrow> oauth_client \<Rightarrow> string \<Rightarrow> string \<Rightarrow> string \<Rightarrow> string \<Rightarrow> 's \<Rightarrow>
   (oauth_error + oauth_token) \<times> 's" where
  "exchange_code request st c code received_state expected_state user_id s =
     (if \<not> constant_time_eq (as_bytes received_state) (as_bytes expected_state) then (Inl StateMismatch, s)
      else
        (case request_token request (cl_client c) (GrantCode code) of
           Inl e \<Rightarrow> (Inl e, s)
         | Inr token \<Rightarrow> (case tk_store st user_id token s of (Inl e, s') \<Rightarrow> (Inl e, s') | (Inr _, s') \<Rightarrow> (Inr token, s'))))"

definition removed_with ::
  "'s oauth_store \<Rightarrow> string \<Rightarrow> string \<Rightarrow> 's \<Rightarrow> (oauth_error + string) \<times> 's" where
  "removed_with st user_id message s =
     (case tk_remove st user_id s of (Inl e, s') \<Rightarrow> (Inl e, s') | (Inr _, s') \<Rightarrow> (Inl (TokenExchangeError message), s'))"

definition get_valid_access_token ::
  "(string \<Rightarrow> string option) \<Rightarrow> (basic_client \<Rightarrow> oauth_grant \<Rightarrow> string + token_reply) \<Rightarrow> 's oauth_store \<Rightarrow> oauth_client \<Rightarrow> int \<Rightarrow> int \<Rightarrow>
   string \<Rightarrow> 's \<Rightarrow> (oauth_error + string) \<times> 's" where
  "get_valid_access_token bad_url request st c clock clock' user_id s =
     (case tk_get st user_id s of
        Inl e \<Rightarrow> (Inl e, s)
      | Inr None \<Rightarrow>
          (Inl (TokenExchangeError ''No valid token found in storage. Please exchange authorization code first.''), s)
      | Inr (Some token) \<Rightarrow>
          if is_expired_or_expiring_soon clock clock' token then
            (case ot_refresh_token token of
               Some refresh_token \<Rightarrow>
                 (case refresh_access_token bad_url request (cl_provider c) refresh_token (cl_config c) of
                    Inr new_token \<Rightarrow>
                      (case tk_store st user_id new_token s of
                         (Inl e, s') \<Rightarrow> (Inl e, s')
                       | (Inr _, s') \<Rightarrow> (Inr (ot_access_token new_token), s'))
                  | Inl _ \<Rightarrow> removed_with st user_id ''Token refresh failed and token was removed'' s)
             | None \<Rightarrow> removed_with st user_id ''Token expired and no refresh token available'' s)
          else (Inr (ot_access_token token), s))"

definition client_get_user_info ::
  "(string \<Rightarrow> string option) \<Rightarrow> (basic_client \<Rightarrow> oauth_grant \<Rightarrow> string + token_reply) \<Rightarrow>
   (string \<Rightarrow> (string \<times> string) list \<Rightarrow> string + info_reply) \<Rightarrow> 's oauth_store \<Rightarrow> oauth_client \<Rightarrow> int \<Rightarrow> int \<Rightarrow>
   string \<Rightarrow> 's \<Rightarrow> (oauth_error + user_info) \<times> 's" where
  "client_get_user_info bad_url request send st c clock clock' user_id s =
     (case get_valid_access_token bad_url request st c clock clock' user_id s of
        (Inl e, s') \<Rightarrow> (Inl e, s')
      | (Inr access_token, s') \<Rightarrow> (provider_get_user_info send (cl_provider c) access_token, s'))"

definition get_authorize_url ::
  "(basic_client \<Rightarrow> string \<Rightarrow> string list \<Rightarrow> string) \<Rightarrow> oauth_client \<Rightarrow> string \<Rightarrow> string" where
  "get_authorize_url authorize_url c state = authorize_url (cl_client c) state (op_scopes (cl_provider c))"

section \<open>HTTP\<close>

text \<open>The request as the oauth2 crate hands it over; a header value that is no text is the error of reading it.\<close>

record oauth_http_request =
  hq_method :: string
  hq_uri :: string
  hq_headers :: "(string \<times> (string + string)) list"
  hq_body :: string

record oauth_http_response =
  hr_status :: nat
  hr_body :: string

fun copy_headers :: "(string \<times> (string + string)) list \<Rightarrow> oauth_error + (string \<times> string) list" where
  "copy_headers [] = Inr []"
| "copy_headers ((name, value) # hs) =
     (case value of
        Inl e \<Rightarrow> Inl (RequestError (''header '' @ name @ '' not ASCII: '' @ e))
      | Inr v \<Rightarrow> bindR (copy_headers hs) (\<lambda>hs'. Inr ((name, v) # hs')))"

definition oauth_http_client ::
  "(string \<Rightarrow> string \<Rightarrow> (string \<times> string) list \<Rightarrow> string option \<Rightarrow> string + nat \<times> (string + string)) \<Rightarrow>
   oauth_http_request \<Rightarrow> oauth_error + oauth_http_response" where
  "oauth_http_client send req =
     (if hq_method req \<notin> {''GET'', ''POST'', ''PUT'', ''DELETE''} then
        Inl (RequestError (''Unsupported method: '' @ hq_method req))
      else
        bindR (copy_headers (hq_headers req)) (\<lambda>headers.
          (let has_user_agent = list_ex (\<lambda>(name, _). to_ascii_lowercase name = ''user-agent'') (hq_headers req);
               headers' = (if has_user_agent then headers else headers @ [(''User-Agent'', ''fusion-security-oauth/0.1.0'')]);
               body = (if hq_body req = [] then None else Some (hq_body req))
           in case send (hq_method req) (hq_uri req) headers' body of
                Inl e \<Rightarrow> Inl (RequestError e)
              | Inr (status, Inl e) \<Rightarrow> Inl (RequestError e)
              | Inr (status, Inr bytes) \<Rightarrow>
                  Inr \<lparr>hr_status = (if 100 \<le> status \<and> status < 1000 then status else 200), hr_body = bytes\<rparr>)))"

end
