(* ===== verification/Sec_Props.thy ===== *)
theory Sec_Props
  imports Sec_Captcha Sec_OAuth
begin

text \<open>
  What the credentials code guarantees: the password round trip, the captcha over any sequence of challenges and answers,
  the state check of an OAuth callback, and the token store as an interface with the lemmas of its client.
\<close>

section \<open>Passwords\<close>

text \<open>Laws of the hash and of the version pattern.\<close>

definition argon_ok :: "'h argon_api \<Rightarrow> bool" where
  "argon_ok api \<longleftrightarrow>
     (\<forall>p salt h. ar_hash api p salt = Some h \<longrightarrow>
        (\<exists>x. ar_parse api h = Some x \<and> (\<forall>q. ar_verify api q x = (if q = p then VerdictOk else VerdictPassword))))"

definition version_pattern_ok :: "(string \<Rightarrow> string option) \<Rightarrow> bool" where
  "version_pattern_ok version_of \<longleftrightarrow>
     (\<forall>ds rest. ds \<noteq> [] \<and> list_all is_digit_char ds \<longrightarrow> version_of (''#'' @ ds @ ''#'' @ rest) = Some ds)"

lemma show_version: "show_nat cur_pwd_version = ''1''"
  by code_simp

lemma generate_pwd_Inr:
  assumes "generate_pwd api None p salt = Inr s"
  obtains h where "ar_hash api p salt = Some h" "s = ''#1#'' @ h"
  using assms by (auto simp: generate_pwd_def try_to_hash_def show_version split: option.splits)

lemma split_generated:
  assumes "version_pattern_ok version_of"
  shows "split_pwd_version version_of (''#1#'' @ h) = (1, h)"
proof -
  have "list_all is_digit_char ''1''" by (simp add: is_digit_char_def)
  then have "version_of (''#'' @ ''1'' @ ''#'' @ h) = Some ''1''"
    using assms unfolding version_pattern_ok_def by blast
  moreover have "parse_u16 ''1'' = Some 1" by code_simp
  ultimately show ?thesis by (simp add: split_pwd_version_def unwrap_or_def)
qed

text \<open>A stored password is accepted for exactly the password it was made from, as version 1; every other one is invalid.\<close>

theorem password_roundtrip:
  assumes "argon_ok api" "version_pattern_ok version_of" "generate_pwd api None p salt = Inr stored"
  shows "verify_pwd version_of api None q stored = (if q = p then Inr 1 else Inl InvalidPassword)"
proof -
  obtain h where h: "ar_hash api p salt = Some h" "stored = ''#1#'' @ h" using generate_pwd_Inr [OF assms(3)] .
  then obtain x where "ar_parse api h = Some x" "ar_verify api q x = (if q = p then VerdictOk else VerdictPassword)"
    using assms(1) unfolding argon_ok_def by metis
  then show ?thesis
    using h split_generated [OF assms(2)] by (simp add: verify_pwd_def pwd_verify_def)
qed

section \<open>Captcha\<close>

datatype captcha_act =
    CapGenerate nat nat string "(nat \<times> nat \<times> nat \<times> nat) list" int int
  | CapVerify int string string

fun captcha_do :: "captcha_act \<Rightarrow> captcha_store \<Rightarrow> captcha_store" where
  "captcha_do (CapGenerate a b i coords now now') s = snd (captcha_generate a b i coords now now' s)"
| "captcha_do (CapVerify now i answer) s = snd (captcha_verify now i answer s)"

definition captcha_after :: "int \<Rightarrow> captcha_act list \<Rightarrow> captcha_store" where
  "captcha_after ttl acts = fold captcha_do acts (captcha_with_ttl ttl)"

fun touches :: "string \<Rightarrow> captcha_act \<Rightarrow> bool" where
  "touches i (CapGenerate a b j coords now now') \<longleftrightarrow> j = i"
| "touches i (CapVerify now j answer) \<longleftrightarrow> j = i"

definition issued :: "int \<Rightarrow> captcha_act list \<Rightarrow> string \<Rightarrow> inflight_answer \<Rightarrow> bool" where
  "issued ttl acts i v \<longleftrightarrow>
     (\<exists>before a b coords t t' after. acts = before @ CapGenerate a b i coords t t' # after \<and>
        v = \<lparr>ia_answer = show_nat (a + b), ia_expires_at = t' + ttl\<rparr> \<and> list_all (\<lambda>x. \<not> touches i x) after)"

lemma issued_snoc: "issued ttl acts i v \<Longrightarrow> \<not> touches i x \<Longrightarrow> issued ttl (acts @ [x]) i v"
  unfolding issued_def by fastforce

definition captcha_ok :: "int \<Rightarrow> captcha_act list \<Rightarrow> captcha_store \<Rightarrow> bool" where
  "captcha_ok ttl acts s \<longleftrightarrow>
     cs_ttl s = ttl \<and> distinct (map fst (cs_inner s)) \<and> length (cs_inner s) \<le> max_inflight \<and>
     (\<forall>i v. map_of (cs_inner s) i = Some v \<longrightarrow> issued ttl acts i v)"

lemma map_of_filter_SomeD: "distinct (map fst xs) \<Longrightarrow> map_of (filter P xs) k = Some v \<Longrightarrow> map_of xs k = Some v"
proof -
  assume d: "distinct (map fst xs)" and "map_of (filter P xs) k = Some v"
  then have "(k, v) \<in> set xs" by (auto dest: map_of_SomeD)
  then show ?thesis using d by (rule map_of_is_SomeI [rotated])
qed

lemma captcha_ok_generate:
  assumes "captcha_ok ttl acts s"
  shows "captcha_ok ttl (acts @ [CapGenerate a b i coords now now']) (snd (captcha_generate a b i coords now now' s))"
proof -
  define g1 where "g1 = purge_expired now (cs_inner s)"
  define g2 where "g2 = (if max_inflight \<le> length g1 then [] else g1)"
  let ?v = "\<lparr>ia_answer = show_nat (a + b), ia_expires_at = now' + ttl\<rparr>"
  have d1: "distinct (map fst g1)" using assms by (auto simp: g1_def purge_expired_def captcha_ok_def distinct_map_filter)
  then have d: "distinct (map fst g2)" by (simp add: g2_def)
  have l: "length g2 < max_inflight" by (auto simp: g2_def max_inflight_def)
  have old: "issued ttl acts j v" if "map_of g2 j = Some v" for j v
    using that assms map_of_filter_SomeD [of "cs_inner s" _ j v]
    by (auto simp: g2_def g1_def purge_expired_def captcha_ok_def split: if_splits)
  have new: "snd (captcha_generate a b i coords now now' s) = s\<lparr>cs_inner := AList.update i ?v g2\<rparr>"
    using assms by (simp add: captcha_generate_def g1_def g2_def captcha_ok_def Let_def)
  have "length (AList.update i ?v g2) \<le> Suc (length g2)" by (induction g2) auto
  moreover have "issued ttl (acts @ [CapGenerate a b i coords now now']) j v" if "map_of (AList.update i ?v g2) j = Some v" for j v
  proof (cases "j = i")
    case True
    then have "v = ?v" using that by (simp add: update_conv)
    then show ?thesis using True unfolding issued_def by fastforce
  next
    case False
    then show ?thesis using that old issued_snoc by (simp add: update_conv)
  qed
  ultimately show ?thesis
    unfolding new captcha_ok_def using assms d l distinct_update [OF d] by (simp add: captcha_ok_def)
qed

lemma captcha_ok_verify:
  assumes "captcha_ok ttl acts s"
  shows "captcha_ok ttl (acts @ [CapVerify now i answer]) (snd (captcha_verify now i answer s))"
proof -
  have len: "length (AList.delete i xs) \<le> length xs" for xs :: "(string \<times> inflight_answer) list"
    by (simp add: AList.delete_eq)
  have del: "map_of (AList.delete i xs) j = (if j = i then None else map_of xs j)" for xs :: "(string \<times> inflight_answer) list" and j
    by (simp add: delete_conv)
  show ?thesis
  proof (cases "map_of (cs_inner s) i")
    case None
    have "issued ttl (acts @ [CapVerify now i answer]) j w" if "map_of (cs_inner s) j = Some w" for j w
      using assms that None issued_snoc by (cases "j = i") (auto simp: captcha_ok_def)
    then show ?thesis using assms None by (simp add: captcha_verify_def captcha_ok_def)
  next
    case (Some v)
    then show ?thesis
      using assms issued_snoc [of ttl acts _ _ "CapVerify now i answer"] len [of "cs_inner s"]
      by (auto simp: captcha_verify_def captcha_ok_def del distinct_delete intro: order_trans split: if_splits)
  qed
qed

lemma captcha_after_ok: "captcha_ok ttl acts (captcha_after ttl acts)"
proof (induction acts rule: rev_induct)
  case Nil
  then show ?case by (simp add: captcha_after_def captcha_with_ttl_def captcha_ok_def)
next
  case (snoc x acts)
  then show ?case
    using captcha_ok_generate captcha_ok_verify by (cases x) (simp_all add: captcha_after_def)
qed

text \<open>The store never holds more than its limit.\<close>

lemma captcha_bounded: "length (cs_inner (captcha_after ttl acts)) \<le> max_inflight"
  using captcha_after_ok [of ttl acts] by (simp add: captcha_ok_def)

text \<open>C39: whatever challenges and answers came before, an answer is accepted only for a challenge that was issued, with
  its sum, before its lifetime is over, and only if no answer to it was tried since it was issued, right or wrong.\<close>

theorem captcha_one_shot:
  assumes "fst (captcha_verify now i answer (captcha_after ttl acts))"
  shows "\<exists>before a b coords t t' after. acts = before @ CapGenerate a b i coords t t' # after \<and>
           trim_str answer = show_nat (a + b) \<and> now < t' + ttl \<and> list_all (\<lambda>x. \<not> touches i x) after"
proof -
  obtain v where v: "map_of (cs_inner (captcha_after ttl acts)) i = Some v" "now < ia_expires_at v" "ia_answer v = trim_str answer"
    using assms by (auto simp: captcha_verify_def split: option.splits if_splits)
  then have "issued ttl acts i v" using captcha_after_ok [of ttl acts] by (simp add: captcha_ok_def)
  then obtain before a b coords t t' after where
    "acts = before @ CapGenerate a b i coords t t' # after" "v = \<lparr>ia_answer = show_nat (a + b), ia_expires_at = t' + ttl\<rparr>"
    "list_all (\<lambda>x. \<not> touches i x) after"
    unfolding issued_def by blast
  then show ?thesis using v(2,3) by fastforce
qed

section \<open>OAuth\<close>

lemma fold_or_zero: "fold (\<lambda>(x, y) diff. diff OR (x XOR y)) xs (d :: 8 word) = 0 \<longleftrightarrow> d = 0 \<and> list_all (\<lambda>(x, y). x = y) xs"
proof (induction xs arbitrary: d)
  case (Cons p xs)
  obtain x y where p: "p = (x, y)" by fastforce
  have "x XOR y = 0 \<longleftrightarrow> x = y" by (metis xor_self_eq xor.assoc xor.right_neutral xor.left_neutral)
  then show ?case using Cons by (simp add: p or_eq_0_iff)
qed simp

text \<open>The comparison that looks at every byte is equality.\<close>

lemma constant_time_eq_iff: "constant_time_eq a b \<longleftrightarrow> a = b"
proof (cases "length a = length b")
  case True
  then have "list_all (\<lambda>(x, y). x = y) (zip a b) \<longleftrightarrow> a = b" by (induction a b rule: list_induct2) auto
  then show ?thesis using True by (simp add: constant_time_eq_def fold_or_zero)
qed (auto simp: constant_time_eq_def)

lemma as_bytes_inject: "as_bytes s = as_bytes t \<longleftrightarrow> s = t"
proof -
  have "unat (of_char c :: 8 word) = of_char c" for c
  proof -
    have "unat (of_nat (of_char c) :: 8 word) = of_char c"
      using nat_of_char_less_256 [of c] by (simp add: unat_of_nat)
    then show ?thesis by (simp only: of_nat_of_char)
  qed
  then have "inj (of_char :: char \<Rightarrow> 8 word)" by (metis injI of_char_eq_iff)
  then show ?thesis by (simp add: as_bytes_def inj_map_eq_map)
qed

text \<open>The interface of a token store that never fails, and what its client may then rely on.\<close>

locale token_store =
  fixes st :: "'s oauth_store"
  assumes store_ok: "fst (tk_store st u t s) = Inr ()"
    and remove_ok: "fst (tk_remove st u s) = Inr ()"
    and get_ok: "\<exists>x. tk_get st u s = Inr x"
    and get_store: "tk_get st v (snd (tk_store st u t s)) = (if v = u then Inr (Some t) else tk_get st v s)"
    and get_remove: "tk_get st v (snd (tk_remove st u s)) = (if v = u then Inr None else tk_get st v s)"
begin

lemma exchange_cases:
  "exchange_code request st c code received expected u s =
     (if received \<noteq> expected then (Inl StateMismatch, s)
      else case request (cl_client c) (GrantCode code) of
             Inl e \<Rightarrow> (Inl (TokenExchangeError e), s)
           | Inr r \<Rightarrow> (Inr (token_of_reply r), snd (tk_store st u (token_of_reply r) s)))"
  using store_ok [of u]
  by (auto simp: exchange_code_def constant_time_eq_iff as_bytes_inject request_token_def split: sum.splits prod.splits)
    (metis Inl_Inr_False fst_conv)+

lemma removed_with_eq: "removed_with st u m s = (Inl (TokenExchangeError m), snd (tk_remove st u s))"
  using remove_ok [of u s] by (auto simp: removed_with_def split: prod.splits sum.splits)

lemma other_users: "v \<noteq> u \<Longrightarrow> tk_get st v (snd (get_valid_access_token bad_url request st c clock clock' u s)) = tk_get st v s"
  by (auto simp: get_valid_access_token_def removed_with_eq get_store get_remove split: sum.splits option.splits prod.splits
      dest!: arg_cong [of _ _ "\<lambda>p. tk_get st v (snd p)"])

lemma served_token:
  assumes "fst (get_valid_access_token bad_url request st c clock clock' u s) = Inr a"
  shows "\<exists>t. tk_get st u (snd (get_valid_access_token bad_url request st c clock clock' u s)) = Inr (Some t) \<and> ot_access_token t = a"
  using assms get_store [of u u] 
  by (auto simp: get_valid_access_token_def removed_with_eq split: sum.splits option.splits prod.splits if_splits)
    (metis snd_conv)+

lemma refused_leaves_none:
  assumes "fst (get_valid_access_token bad_url request st c clock clock' u s) = Inl e"
  shows "tk_get st u (snd (get_valid_access_token bad_url request st c clock clock' u s)) = Inr None"
  using assms get_remove [of u u] get_ok [of u s] store_ok [of u]
  by (auto simp: get_valid_access_token_def removed_with_eq split: sum.splits option.splits prod.splits if_splits)
    (metis Inl_Inr_False fst_conv)+

end

interpretation memory: token_store "memory_store now"
  by unfold_locales
    (auto simp: memory_store_def mem_store_token_def mem_remove_token_def mem_get_token_def update_conv delete_conv)

text \<open>An authorisation code is exchanged exactly when the state of the callback is the issued one, byte by byte; otherwise
  nothing is stored, whatever the provider would have answered. A granted token is stored for the user.\<close>

theorem callback_state_checked:
  "exchange_code request (memory_store now) c code received expected u s =
     (if received \<noteq> expected then (Inl StateMismatch, s)
      else case request (cl_client c) (GrantCode code) of
             Inl e \<Rightarrow> (Inl (TokenExchangeError e), s)
           | Inr r \<Rightarrow> (Inr (token_of_reply r), AList.update u (token_of_reply r, now) s))"
  using memory.exchange_cases [of request now c code received expected u s]
  by (simp add: memory_store_def mem_store_token_def split: sum.splits)

text \<open>Asking for the access token of a user leaves the tokens of all other users alone; a token that is served is the one
  the store holds afterwards, and after a refusal the store holds none for the user.\<close>

theorem access_token_outcome:
  "let (res, s') = get_valid_access_token bad_url request (memory_store now) c clock clock' u s in
     (v = u \<or> mem_get_token v s' = mem_get_token v s) \<and>
     (case res of
        Inr a \<Rightarrow> \<exists>t. mem_get_token u s' = Inr (Some t) \<and> ot_access_token t = a
      | Inl e \<Rightarrow> mem_get_token u s' = Inr None)"
proof -
  obtain res s' where r: "get_valid_access_token bad_url request (memory_store now) c clock clock' u s = (res, s')" by fastforce
  have get: "tk_get (memory_store now) = mem_get_token" by (simp add: memory_store_def)
  show ?thesis
    using memory.other_users [of v u now bad_url request c clock clock' s]
      memory.served_token [of bad_url request now c clock clock' u s]
      memory.refused_leaves_none [of bad_url request now c clock clock' u s]
    unfolding r get by (auto split: sum.splits)
qed

lemma expired_iff:
  assumes "ot_expires_in t = Some e" "clock + int e < 2 ^ 64" "0 \<le> clock" "clock \<le> clock'" "clock' + 30 < 2 ^ 64"
  shows "is_expired_or_expiring_soon clock clock' t \<longleftrightarrow> int e \<le> clock' - clock + 30"
proof -
  obtain m n where c: "clock = int m" "clock' = int n" using assms(3,4) by (metis nonneg_int_cases order_trans)
  have "sat_add_u64 m e = m + e" "sat_add_u64 n 30 = n + 30" using assms(2,5) by (simp_all add: sat_add_u64_def c)
  then show ?thesis
    using assms(1,4) by (auto simp: is_expired_or_expiring_soon_def oauth_expires_at_def now_unix_secs_def c)
qed

text \<open>C40: the age of a stored token is not looked at: whatever store it is in and whatever the time is, a token whose
  lifetime is more than thirty seconds and the time between the two readings of the clock inside one check is served
  as it is, without a refresh.\<close>

theorem stored_token_never_expires:
  assumes "tk_get st u s = Inr (Some t)" "ot_expires_in t = Some e"
    and "0 \<le> clock" "clock \<le> clock'" "clock' - clock + 30 < int e" "clock + int e < 2 ^ 64"
  shows "get_valid_access_token bad_url request st c clock clock' u s = (Inr (ot_access_token t), s)"
  using assms expired_iff [OF assms(2,6,3,4)] by (simp add: get_valid_access_token_def)

section \<open>Concrete inputs\<close>

definition demo_argon :: "string argon_api" where
  "demo_argon = \<lparr>ar_hash = (\<lambda>p salt. Some (''$argon2$'' @ p)), ar_parse = (\<lambda>h. Some (drop 8 h)),
     ar_verify = (\<lambda>p h. if p = h then VerdictOk else VerdictPassword)\<rparr>"

text \<open>The pattern on ASCII digits.\<close>

definition demo_version_of :: "string \<Rightarrow> string option" where
  "demo_version_of s =
     (case s of
        CHR ''#'' # rest \<Rightarrow>
          (let ds = takeWhile is_digit_char rest in
           if ds \<noteq> [] \<and> take 1 (drop (length ds) rest) = ''#'' then Some ds else None)
      | _ \<Rightarrow> None)"

lemma demo_argon_ok: "argon_ok demo_argon"
  by (simp add: argon_ok_def demo_argon_def)

lemma demo_version_ok: "version_pattern_ok demo_version_of"
  unfolding version_pattern_ok_def
proof (intro allI impI)
  fix ds rest :: string
  assume ds: "ds \<noteq> [] \<and> list_all is_digit_char ds"
  then have "takeWhile is_digit_char (ds @ CHR ''#'' # rest) = ds"
    by (auto simp: list_all_iff is_digit_char_def takeWhile_append)
  then show "demo_version_of (''#'' @ ds @ ''#'' @ rest) = Some ds" using ds by (simp add: demo_version_of_def)
qed

lemma password_roundtrip_witness:
  "generate_pwd demo_argon None ''secret'' ''salt'' = Inr ''#1#$argon2$secret'' \<and>
   verify_pwd demo_version_of demo_argon None ''secret'' ''#1#$argon2$secret'' = Inr 1 \<and>
   verify_pwd demo_version_of demo_argon None ''other'' ''#1#$argon2$secret'' = Inl InvalidPassword"
proof -
  have g: "generate_pwd demo_argon None ''secret'' ''salt'' = Inr ''#1#$argon2$secret''"
    by (simp add: generate_pwd_def try_to_hash_def show_version demo_argon_def)
  show ?thesis
    using g password_roundtrip [OF demo_argon_ok demo_version_ok g, of "''secret''"]
      password_roundtrip [OF demo_argon_ok demo_version_ok g, of "''other''"] by simp
qed

lemma captcha_one_shot_witness:
  "\<exists>before a b coords t t' after.
     [CapGenerate 3 9 ''id1'' [] 0 0, CapVerify 1 ''id2'' ''12''] = before @ CapGenerate a b ''id1'' coords t t' # after \<and>
     trim_str '' 12 '' = show_nat (a + b) \<and> 5 < t' + 10 \<and> list_all (\<lambda>x. \<not> touches ''id1'' x) after"
proof (rule captcha_one_shot)
  have "show_nat 12 = ''12''" by code_simp
  moreover have "trim_str '' 12 '' = ''12''" by code_simp
  ultimately show "fst (captcha_verify 5 ''id1'' '' 12 '' (captcha_after 10 [CapGenerate 3 9 ''id1'' [] 0 0, CapVerify 1 ''id2'' ''12'']))"
    by (simp add: captcha_after_def captcha_with_ttl_def captcha_generate_def captcha_verify_def purge_expired_def max_inflight_def)
qed

definition demo_oauth_token :: oauth_token where
  "demo_oauth_token = \<lparr>ot_access_token = ''at'', ot_token_type = ''Bearer'', ot_expires_in = Some 7200, ot_refresh_token = None, ot_scope = None\<rparr>"

text \<open>A token of two hours that was stored in the epoch is served half a century later, with a tick of the clock between
  the two readings.\<close>

lemma stored_token_never_expires_witness:
  "get_valid_access_token (\<lambda>_. None) (\<lambda>_ _. Inl ''down'') (memory_store 0)
     \<lparr>cl_provider = provider_github,
      cl_client = \<lparr>bc_client_id = ''i'', bc_client_secret = ''s'', bc_auth_uri = ''a'', bc_token_uri = ''t'', bc_redirect_uri = ''r''\<rparr>,
      cl_config = \<lparr>oc_client_id = ''i'', oc_client_secret = ''s'', oc_redirect_url = ''r'', oc_scopes = []\<rparr>\<rparr>
     1600000000 1600000001 ''u'' [(''u'', demo_oauth_token, 0)] = (Inr ''at'', [(''u'', demo_oauth_token, 0)])"
  by (subst stored_token_never_expires [where t = demo_oauth_token and e = 7200])
    (simp_all add: demo_oauth_token_def memory_store_def mem_get_token_def)

end
