(* ===== verification/Storage_Presign.thy ===== *)
theory Storage_Presign
  imports Common_Text "HOL-Library.AList" "HOL-Library.Signed_Division"
begin

text \<open>
  fusion-storage: the configuration and the choice of the backend (\<open>config.rs\<close>, \<open>operator.rs\<close>), the signatures of
  local URLs (\<open>hmac.rs\<close>) and the presigned URLs with their cache (\<open>presign.rs\<close>). The HMAC, the hexadecimal text and
  the percent encoding come from other crates and are arguments, as are the native signatures of a cloud backend and
  every reading of the clock. \<open>None\<close> is a panic.
\<close>

section \<open>Signatures\<close>

record hmac_api =
  hm_mac :: "string \<Rightarrow> string \<Rightarrow> string"
  hm_hex :: "string \<Rightarrow> string"
  hm_unhex :: "string \<Rightarrow> string option"

definition hmac_sign :: "hmac_api \<Rightarrow> string \<Rightarrow> string \<Rightarrow> string" where
  "hmac_sign api message secret = hm_hex api (hm_mac api secret message)"

definition hmac_verify :: "hmac_api \<Rightarrow> string \<Rightarrow> string \<Rightarrow> string \<Rightarrow> bool" where
  "hmac_verify api message token secret =
     (case hm_unhex api token of Some bytes \<Rightarrow> hm_mac api secret message = bytes | None \<Rightarrow> False)"

definition read_message :: "string \<Rightarrow> string \<Rightarrow> int \<Rightarrow> string" where
  "read_message creator_id key expires = creator_id @ '':'' @ key @ '':'' @ show_int expires"

definition upload_message :: "string \<Rightarrow> string \<Rightarrow> int \<Rightarrow> string" where
  "upload_message creator_id key expires = ''PUT:'' @ creator_id @ '':'' @ key @ '':'' @ show_int expires"

definition verify_hmac :: "hmac_api \<Rightarrow> int \<Rightarrow> string \<Rightarrow> int \<Rightarrow> string \<Rightarrow> string \<Rightarrow> string \<Rightarrow> bool" where
  "verify_hmac api now key expires token creator_id secret =
     (if now > expires then False else hmac_verify api (read_message creator_id key expires) token secret)"

definition verify_upload_hmac :: "hmac_api \<Rightarrow> int \<Rightarrow> string \<Rightarrow> int \<Rightarrow> string \<Rightarrow> string \<Rightarrow> string \<Rightarrow> bool" where
  "verify_upload_hmac api now key expires token creator_id secret =
     (if now > expires then False else hmac_verify api (upload_message creator_id key expires) token secret)"

definition sign_read :: "hmac_api \<Rightarrow> string \<Rightarrow> int \<Rightarrow> string \<Rightarrow> string \<Rightarrow> string" where
  "sign_read api key expires creator_id secret = hmac_sign api (read_message creator_id key expires) secret"

definition sign_upload :: "hmac_api \<Rightarrow> string \<Rightarrow> int \<Rightarrow> string \<Rightarrow> string \<Rightarrow> string" where
  "sign_upload api key expires creator_id secret = hmac_sign api (upload_message creator_id key expires) secret"

section \<open>Presigned URLs\<close>

record presign_routes =
  pr_authority :: string
  pr_scheme :: string
  pr_read :: string
  pr_write :: string

definition bucket_of :: "int \<Rightarrow> nat \<Rightarrow> int option" where
  "bucket_of now ttl_secs =
     (let ttl = wrap_i64 (int ttl_secs) in if ttl = 0 then None else Some (now sdiv ttl))"

definition bucketed_expires :: "int \<Rightarrow> nat \<Rightarrow> int option" where
  "bucketed_expires now_secs ttl_secs =
     map_option (\<lambda>b. wrap_i64 (wrap_i64 (b + 2) * wrap_i64 (int ttl_secs))) (bucket_of now_secs ttl_secs)"

record presign_key =
  pk_write :: bool
  pk_key :: string
  pk_creator_id :: string
  pk_ttl_secs :: nat
  pk_download_filename :: "string option"
  pk_fs_authority :: string
  pk_fs_scheme :: string
  pk_fs_read_route :: string
  pk_fs_write_route :: string

type_synonym presign_cache = "(presign_key \<times> string \<times> int) list"

definition presign_max_entries :: nat where
  "presign_max_entries = 4096"

definition presign_cache_hit :: "presign_key \<Rightarrow> int \<Rightarrow> presign_cache \<Rightarrow> string option" where
  "presign_cache_hit k now_bucket cache =
     (case map_of cache k of
        Some (url, b) \<Rightarrow> if b = now_bucket then Some url else None
      | None \<Rightarrow> None)"

definition presign_cache_store :: "presign_key \<Rightarrow> string \<Rightarrow> int \<Rightarrow> presign_cache \<Rightarrow> presign_cache" where
  "presign_cache_store k url now_bucket cache =
     (let cache1 = if presign_max_entries \<le> length cache then filter (\<lambda>(_, _, b). now_bucket \<le> b) cache else cache;
          cache2 = if presign_max_entries \<le> length cache1 then [] else cache1
      in AList.update k (url, now_bucket) cache2)"

definition fs_signed_url ::
  "(string \<Rightarrow> string) \<Rightarrow> string \<Rightarrow> string \<Rightarrow> string \<Rightarrow> string \<Rightarrow> string \<Rightarrow> int \<Rightarrow> string \<Rightarrow> string option \<Rightarrow> string" where
  "fs_signed_url pct scheme authority route key token expires creator_id download_filename =
     scheme @ ''://'' @ authority @ route @ ''/'' @ key @ ''?token='' @ token @ ''&expires='' @ show_int expires @
     ''&creator_id='' @ creator_id @
     (case download_filename of Some name \<Rightarrow> ''&download_filename='' @ pct name | None \<Rightarrow> [])"

definition sanitize_filename :: "string \<Rightarrow> string" where
  "sanitize_filename name = filter (\<lambda>c. c \<noteq> CHR 0x22 \<and> c \<noteq> CHR 0x5C) name"

definition ascii_text :: "string \<Rightarrow> bool" where
  "ascii_text s = list_all (\<lambda>c. (of_char c :: nat) < 128) s"

definition content_disposition_attachment :: "(string \<Rightarrow> string) \<Rightarrow> string \<Rightarrow> string" where
  "content_disposition_attachment pct filename =
     (let clean = sanitize_filename filename in
      if ascii_text clean then ''attachment; filename='' @ [CHR 0x22] @ clean @ [CHR 0x22]
      else ''attachment; filename='' @ [CHR 0x22] @ ''download'' @ [CHR 0x22] @ ''; filename*=UTF-8'' @ [CHR 0x27, CHR 0x27] @ pct clean)"

text \<open>The backend: what it can sign itself, and what it answers when asked; \<open>Inl\<close> is the text of its error.\<close>

record storage_op =
  so_presign :: bool
  so_presign_read :: bool
  so_presign_write :: bool
  so_native_read :: "string \<Rightarrow> nat \<Rightarrow> string option \<Rightarrow> string + string"
  so_native_write :: "string \<Rightarrow> nat \<Rightarrow> string + string"

definition presign_download_uncached ::
  "hmac_api \<Rightarrow> (string \<Rightarrow> string) \<Rightarrow> storage_op \<Rightarrow> int \<Rightarrow> string \<Rightarrow> string \<Rightarrow> nat \<Rightarrow> string option \<Rightarrow> presign_routes \<Rightarrow> string \<Rightarrow>
   (string + string) option" where
  "presign_download_uncached api pct opr now key creator_id ttl_secs download_filename routes secret =
     (if so_presign opr \<or> so_presign_read opr then
        Some (case so_native_read opr key ttl_secs (map_option (content_disposition_attachment pct) download_filename) of
                Inl e \<Rightarrow> Inl (''presign_read failed: '' @ e)
              | Inr uri \<Rightarrow> Inr uri)
      else
        (case bucketed_expires now ttl_secs of
           None \<Rightarrow> None
         | Some expires \<Rightarrow>
             Some (Inr (fs_signed_url pct (pr_scheme routes) (pr_authority routes) (pr_read routes) key
               (sign_read api key expires creator_id secret) expires creator_id download_filename))))"

definition presign_upload_uncached ::
  "hmac_api \<Rightarrow> (string \<Rightarrow> string) \<Rightarrow> storage_op \<Rightarrow> int \<Rightarrow> string \<Rightarrow> string \<Rightarrow> nat \<Rightarrow> presign_routes \<Rightarrow> string \<Rightarrow> (string + string) option" where
  "presign_upload_uncached api pct opr now key creator_id ttl_secs routes secret =
     (if so_presign_write opr then
        Some (case so_native_write opr key ttl_secs of
                Inl e \<Rightarrow> Inl (''presign_write failed: '' @ e)
              | Inr uri \<Rightarrow> Inr uri)
      else
        (case bucketed_expires now ttl_secs of
           None \<Rightarrow> None
         | Some expires \<Rightarrow>
             Some (Inr (fs_signed_url pct (pr_scheme routes) (pr_authority routes) (pr_write routes) key
               (sign_upload api key expires creator_id secret) expires creator_id None))))"

definition download_key :: "string \<Rightarrow> string \<Rightarrow> nat \<Rightarrow> string option \<Rightarrow> presign_routes \<Rightarrow> presign_key" where
  "download_key key creator_id ttl_secs download_filename routes =
     \<lparr>pk_write = False, pk_key = key, pk_creator_id = creator_id, pk_ttl_secs = ttl_secs,
      pk_download_filename = download_filename, pk_fs_authority = pr_authority routes, pk_fs_scheme = pr_scheme routes,
      pk_fs_read_route = pr_read routes, pk_fs_write_route = pr_write routes\<rparr>"

definition upload_key :: "string \<Rightarrow> string \<Rightarrow> nat \<Rightarrow> presign_routes \<Rightarrow> presign_key" where
  "upload_key key creator_id ttl_secs routes =
     \<lparr>pk_write = True, pk_key = key, pk_creator_id = creator_id, pk_ttl_secs = ttl_secs, pk_download_filename = None,
      pk_fs_authority = pr_authority routes, pk_fs_scheme = pr_scheme routes,
      pk_fs_read_route = pr_read routes, pk_fs_write_route = pr_write routes\<rparr>"

text \<open>What both public functions do around the signature: bucket, look-up, signature at a later clock reading, store.\<close>

definition presign_cached ::
  "presign_key \<Rightarrow> int \<Rightarrow> nat \<Rightarrow> (string + string) option \<Rightarrow> presign_cache \<Rightarrow> (string + string) option \<times> presign_cache" where
  "presign_cached k now ttl_secs uncached cache =
     (case bucket_of now ttl_secs of
        None \<Rightarrow> (None, cache)
      | Some b \<Rightarrow>
          (case presign_cache_hit k b cache of
             Some url \<Rightarrow> (Some (Inr url), cache)
           | None \<Rightarrow>
               (case uncached of
                  Some (Inr url) \<Rightarrow> (Some (Inr url), presign_cache_store k url b cache)
                | res \<Rightarrow> (res, cache))))"

definition generate_signed_download_url ::
  "hmac_api \<Rightarrow> (string \<Rightarrow> string) \<Rightarrow> storage_op \<Rightarrow> int \<Rightarrow> int \<Rightarrow> string \<Rightarrow> string \<Rightarrow> nat \<Rightarrow> string option \<Rightarrow> presign_routes \<Rightarrow> string \<Rightarrow>
   presign_cache \<Rightarrow> (string + string) option \<times> presign_cache" where
  "generate_signed_download_url api pct opr now now' key creator_id ttl_secs download_filename routes secret cache =
     presign_cached (download_key key creator_id ttl_secs download_filename routes) now ttl_secs
       (presign_download_uncached api pct opr now' key creator_id ttl_secs download_filename routes secret) cache"

definition generate_signed_upload_url ::
  "hmac_api \<Rightarrow> (string \<Rightarrow> string) \<Rightarrow> storage_op \<Rightarrow> int \<Rightarrow> int \<Rightarrow> string \<Rightarrow> string \<Rightarrow> nat \<Rightarrow> presign_routes \<Rightarrow> string \<Rightarrow>
   presign_cache \<Rightarrow> (string + string) option \<times> presign_cache" where
  "generate_signed_upload_url api pct opr now now' key creator_id ttl_secs routes secret cache =
     presign_cached (upload_key key creator_id ttl_secs routes) now ttl_secs
       (presign_upload_uncached api pct opr now' key creator_id ttl_secs routes secret) cache"

section \<open>Backends\<close>

record storage_config =
  sg_backend :: string
  sg_root :: "string option"
  sg_endpoint :: "string option"
  sg_bucket :: "string option"
  sg_region :: "string option"
  sg_presign_endpoint :: "string option"
  sg_access_key :: "string option"
  sg_secret_key :: "string option"

definition storage_config_new :: "string \<Rightarrow> storage_config" where
  "storage_config_new backend =
     \<lparr>sg_backend = backend, sg_root = None, sg_endpoint = None, sg_bucket = None, sg_region = None,
      sg_presign_endpoint = None, sg_access_key = None, sg_secret_key = None\<rparr>"

text \<open>The text of \<open>Debug\<close> as the list of its fields; the texts of a string and of an optional string are arguments.\<close>

definition storage_config_debug ::
  "(string \<Rightarrow> string) \<Rightarrow> (string option \<Rightarrow> string) \<Rightarrow> storage_config \<Rightarrow> (string \<times> string) list" where
  "storage_config_debug dbg dbgo c =
     [(''backend'', dbg (sg_backend c)), (''root'', dbgo (sg_root c)), (''endpoint'', dbgo (sg_endpoint c)),
      (''bucket'', dbgo (sg_bucket c)), (''region'', dbgo (sg_region c)),
      (''presign_endpoint'', dbgo (sg_presign_endpoint c)), (''access_key'', dbg ''<REDACTED>''),
      (''secret_key'', dbg ''<REDACTED>'')]"

datatype storage_builder =
    FsBuilder string string
  | OssBuilder string string string string string "string option"
  | S3Builder string string string string string "string option"
  | ObsBuilder string string string string string

definition backend_feature_disabled :: "string \<Rightarrow> string" where
  "backend_feature_disabled name =
     ''storage backend '' @ [CHR 0x27] @ name @ [CHR 0x27] @ '' is not compiled in: enable the fusion-storage cargo feature '' @
     [CHR 0x27] @ name @ [CHR 0x27]"

text \<open>\<open>mkdir\<close> creates a directory with its parents, \<open>new\<close> makes the operator; both may fail with a text.\<close>

definition build_fs :: "(string \<Rightarrow> string option) \<Rightarrow> (storage_builder \<Rightarrow> string + 'op) \<Rightarrow> storage_config \<Rightarrow> string + 'op" where
  "build_fs mkdir new c =
     (case sg_root c of
        None \<Rightarrow> Inl ''fs backend requires 'root' to be set: fusion-storage sets no default; inject it during config assembly''
      | Some root \<Rightarrow>
          (case mkdir root of
             Some e \<Rightarrow> Inl (''Failed to create fs storage root '' @ root @ '': '' @ e)
           | None \<Rightarrow>
               (let atomic_dir = root @ ''/.fusion-tmp'' in
                case mkdir atomic_dir of
                  Some e \<Rightarrow> Inl (''Failed to create fs atomic write dir '' @ atomic_dir @ '': '' @ e)
                | None \<Rightarrow>
                    (case new (FsBuilder root atomic_dir) of
                       Inl e \<Rightarrow> Inl (''Failed to create fs operator: '' @ e)
                     | Inr opr \<Rightarrow> Inr opr))))"

definition build_oss :: "(storage_builder \<Rightarrow> string + 'op) \<Rightarrow> storage_config \<Rightarrow> string + 'op" where
  "build_oss new c =
     (case new (OssBuilder (unwrap_or ''/'' (sg_root c)) (unwrap_or [] (sg_bucket c)) (unwrap_or [] (sg_endpoint c))
              (unwrap_or [] (sg_access_key c)) (unwrap_or [] (sg_secret_key c)) (sg_presign_endpoint c)) of
        Inl e \<Rightarrow> Inl (''Failed to create OSS operator: '' @ e)
      | Inr opr \<Rightarrow> Inr opr)"

definition build_s3 :: "(storage_builder \<Rightarrow> string + 'op) \<Rightarrow> storage_config \<Rightarrow> string + 'op" where
  "build_s3 new c =
     (case new (S3Builder (unwrap_or ''/'' (sg_root c)) (unwrap_or [] (sg_bucket c)) (unwrap_or [] (sg_region c))
              (unwrap_or [] (sg_access_key c)) (unwrap_or [] (sg_secret_key c)) (sg_endpoint c)) of
        Inl e \<Rightarrow> Inl (''Failed to create S3 operator: '' @ e)
      | Inr opr \<Rightarrow> Inr opr)"

definition build_obs :: "(storage_builder \<Rightarrow> string + 'op) \<Rightarrow> storage_config \<Rightarrow> string + 'op" where
  "build_obs new c =
     (case new (ObsBuilder (unwrap_or ''/'' (sg_root c)) (unwrap_or [] (sg_bucket c)) (unwrap_or [] (sg_endpoint c))
              (unwrap_or [] (sg_access_key c)) (unwrap_or [] (sg_secret_key c))) of
        Inl e \<Rightarrow> Inl (''Failed to create OBS operator: '' @ e)
      | Inr opr \<Rightarrow> Inr opr)"

text \<open>\<open>features\<close> are the cargo features the crate is compiled with.\<close>

definition build_operator ::
  "string list \<Rightarrow> (string \<Rightarrow> string option) \<Rightarrow> (storage_builder \<Rightarrow> string + 'op) \<Rightarrow> storage_config \<Rightarrow> string + 'op" where
  "build_operator features mkdir new c =
     (let b = sg_backend c; gate = (\<lambda>r. if b \<in> set features then r else Inl (backend_feature_disabled b)) in
      if b = ''fs'' then gate (build_fs mkdir new c)
      else if b = ''oss'' then gate (build_oss new c)
      else if b = ''s3'' then gate (build_s3 new c)
      else if b = ''obs'' then gate (build_obs new c)
      else Inl (''Unsupported storage backend: '' @ [CHR 0x27] @ b @ [CHR 0x27] @ ''. Use fs, oss, s3, or obs.''))"

end
