(* ===== verification/Storage_Props.thy ===== *)
theory Storage_Props
  imports Storage_Presign
begin

text \<open>
  Signed URLs of the local backend over any sequence of calls that share the cache: how long they are accepted, that the
  cache does not change them, and what a token is bound to.
\<close>

section \<open>Runs over the cache\<close>

datatype presign_call =
    DownloadCall int int string string nat "string option" presign_routes
  | UploadCall int int string string nat presign_routes

fun call_key :: "presign_call \<Rightarrow> presign_key" where
  "call_key (DownloadCall now now' key creator ttl fname routes) = download_key key creator ttl fname routes"
| "call_key (UploadCall now now' key creator ttl routes) = upload_key key creator ttl routes"

fun call_now :: "presign_call \<Rightarrow> int" where
  "call_now (DownloadCall now now' key creator ttl fname routes) = now"
| "call_now (UploadCall now now' key creator ttl routes) = now"

fun call_signed_at :: "presign_call \<Rightarrow> int" where
  "call_signed_at (DownloadCall now now' key creator ttl fname routes) = now'"
| "call_signed_at (UploadCall now now' key creator ttl routes) = now'"

definition call_ttl :: "presign_call \<Rightarrow> nat" where
  "call_ttl c = pk_ttl_secs (call_key c)"

fun presign_do ::
  "hmac_api \<Rightarrow> (string \<Rightarrow> string) \<Rightarrow> storage_op \<Rightarrow> string \<Rightarrow> presign_call \<Rightarrow> presign_cache \<Rightarrow> (string + string) option \<times> presign_cache" where
  "presign_do api pct opr secret (DownloadCall now now' key creator ttl fname routes) cache =
     generate_signed_download_url api pct opr now now' key creator ttl fname routes secret cache"
| "presign_do api pct opr secret (UploadCall now now' key creator ttl routes) cache =
     generate_signed_upload_url api pct opr now now' key creator ttl routes secret cache"

fun presign_uncached :: "hmac_api \<Rightarrow> (string \<Rightarrow> string) \<Rightarrow> storage_op \<Rightarrow> string \<Rightarrow> presign_call \<Rightarrow> (string + string) option" where
  "presign_uncached api pct opr secret (DownloadCall now now' key creator ttl fname routes) =
     presign_download_uncached api pct opr now' key creator ttl fname routes secret"
| "presign_uncached api pct opr secret (UploadCall now now' key creator ttl routes) =
     presign_upload_uncached api pct opr now' key creator ttl routes secret"

fun presign_run ::
  "hmac_api \<Rightarrow> (string \<Rightarrow> string) \<Rightarrow> storage_op \<Rightarrow> string \<Rightarrow> presign_call list \<Rightarrow> presign_cache \<Rightarrow>
   (string + string) option list \<times> presign_cache" where
  "presign_run api pct opr secret [] cache = ([], cache)"
| "presign_run api pct opr secret (c # cs) cache =
     (case presign_do api pct opr secret c cache of
        (r, cache1) \<Rightarrow> (case presign_run api pct opr secret cs cache1 of (rs, cache2) \<Rightarrow> (r # rs, cache2)))"

definition local_backend :: "storage_op \<Rightarrow> bool" where
  "local_backend opr \<longleftrightarrow> \<not> so_presign opr \<and> \<not> so_presign_read opr \<and> \<not> so_presign_write opr"

text \<open>A call with a positive lifetime, at times that do not reach the end of the 64-bit range.\<close>

definition call_in_range :: "presign_call \<Rightarrow> bool" where
  "call_in_range c \<longleftrightarrow>
     0 < call_ttl c \<and> 0 \<le> call_now c \<and> call_now c \<le> call_signed_at c \<and> call_signed_at c + 2 * int (call_ttl c) < 2 ^ 63"

lemma presign_do_cached:
  "presign_do api pct opr secret c cache =
     presign_cached (call_key c) (call_now c) (call_ttl c) (presign_uncached api pct opr secret c) cache"
  by (cases c) (simp_all add: generate_signed_download_url_def generate_signed_upload_url_def call_ttl_def
      download_key_def upload_key_def)

section \<open>Buckets\<close>

lemma bucket_of_div:
  assumes "0 < ttl" "int ttl < 2 ^ 63" "0 \<le> now"
  shows "bucket_of now ttl = Some (now div int ttl)"
  using assms by (simp add: bucket_of_def wrap_i64_id signed_divide_int_def sgn_if Let_def)

lemma bucketed_expires_div:
  assumes "0 < ttl" "0 \<le> now" "now + 2 * int ttl < 2 ^ 63"
  shows "bucketed_expires now ttl = Some ((now div int ttl + 2) * int ttl)"
proof -
  let ?b = "now div int ttl"
  have t: "0 < int ttl" using assms(1) by simp
  have le: "?b * int ttl \<le> now"
    using pos_mod_sign [OF t, of now] div_mult_mod_eq [of now "int ttl"] by linarith
  have b0: "0 \<le> ?b" using assms t by (simp add: pos_imp_zdiv_nonneg_iff)
  have "?b \<le> now" using le b0 t by (metis mult.right_neutral mult_left_mono order_trans zero_less_imp_eq_int
        int_one_le_iff_zero_less)
  then have s: "wrap_i64 (?b + 2) = ?b + 2" using b0 assms t by (intro wrap_i64_id) linarith+
  have "(?b + 2) * int ttl = ?b * int ttl + 2 * int ttl" by (simp add: algebra_simps)
  then have p: "wrap_i64 ((?b + 2) * int ttl) = (?b + 2) * int ttl"
    using le b0 t assms by (intro wrap_i64_id) (auto simp: add_nonneg_nonneg intro: order_trans [of _ 0])
  show ?thesis
    using bucket_of_div [of ttl now] assms t s p by (simp add: bucketed_expires_def wrap_i64_id)
qed

lemma bucket_window:
  assumes "0 < ttl"
  shows "now + int ttl < (now div int ttl + 2) * int ttl" "(now div int ttl + 2) * int ttl \<le> now + 2 * int ttl"
proof -
  have t: "0 < int ttl" using assms by simp
  have "(now div int ttl + 2) * int ttl = now - now mod int ttl + 2 * int ttl"
    using div_mult_mod_eq [of now "int ttl"] by (simp add: algebra_simps)
  then show "now + int ttl < (now div int ttl + 2) * int ttl" "(now div int ttl + 2) * int ttl \<le> now + 2 * int ttl"
    using pos_mod_sign [OF t, of now] pos_mod_bound [OF t, of now] by linarith+
qed

section \<open>The cache\<close>

text \<open>The URL that belongs to a cache key and an expiry time.\<close>

definition url_of :: "hmac_api \<Rightarrow> (string \<Rightarrow> string) \<Rightarrow> string \<Rightarrow> presign_key \<Rightarrow> int \<Rightarrow> string" where
  "url_of api pct secret k expires =
     fs_signed_url pct (pk_fs_scheme k) (pk_fs_authority k) (if pk_write k then pk_fs_write_route k else pk_fs_read_route k)
       (pk_key k)
       ((if pk_write k then sign_upload else sign_read) api (pk_key k) expires (pk_creator_id k) secret) expires (pk_creator_id k)
       (pk_download_filename k)"

definition expiry_at :: "nat \<Rightarrow> int \<Rightarrow> int" where
  "expiry_at ttl t = (t div int ttl + 2) * int ttl"

lemma uncached_url:
  assumes "local_backend opr" "call_in_range c"
  shows "presign_uncached api pct opr secret c =
           Some (Inr (url_of api pct secret (call_key c) (expiry_at (call_ttl c) (call_signed_at c))))"
  using assms
  by (cases c) (simp_all add: local_backend_def call_in_range_def call_ttl_def download_key_def upload_key_def
      presign_download_uncached_def presign_upload_uncached_def bucketed_expires_div url_of_def expiry_at_def)

text \<open>\<open>R b s\<close> relates the bucket of an entry to the time of its signature.\<close>

definition entry_ok :: "hmac_api \<Rightarrow> (string \<Rightarrow> string) \<Rightarrow> string \<Rightarrow> (nat \<Rightarrow> int \<Rightarrow> int \<Rightarrow> bool) \<Rightarrow> presign_key \<Rightarrow> string \<Rightarrow> int \<Rightarrow> bool" where
  "entry_ok api pct secret R k url b \<longleftrightarrow>
     (\<exists>s. R (pk_ttl_secs k) b s \<and> url = url_of api pct secret k (expiry_at (pk_ttl_secs k) s))"

definition cache_ok :: "hmac_api \<Rightarrow> (string \<Rightarrow> string) \<Rightarrow> string \<Rightarrow> (nat \<Rightarrow> int \<Rightarrow> int \<Rightarrow> bool) \<Rightarrow> presign_cache \<Rightarrow> bool" where
  "cache_ok api pct secret R cache \<longleftrightarrow>
     distinct (map fst cache) \<and> length cache \<le> presign_max_entries \<and>
     (\<forall>(k, url, b)\<in>set cache. entry_ok api pct secret R k url b)"

lemma length_cache_update: "length (AList.update k v xs) \<le> Suc (length xs)"
  by (induction xs) auto

lemma cache_ok_filter: "cache_ok api pct secret R cache \<Longrightarrow> cache_ok api pct secret R (filter P cache)"
  by (auto simp: cache_ok_def distinct_map_filter intro: order_trans [OF length_filter_le])

lemma cache_ok_store:
  assumes "cache_ok api pct secret R cache" "entry_ok api pct secret R k url b"
  shows "cache_ok api pct secret R (presign_cache_store k url b cache)"
proof -
  define c1 where "c1 = (if presign_max_entries \<le> length cache then filter (\<lambda>(_, _, b'). b \<le> b') cache else cache)"
  define c2 where "c2 = (if presign_max_entries \<le> length c1 then [] else c1)"
  have "cache_ok api pct secret R c1" using assms(1) cache_ok_filter by (auto simp: c1_def)
  then have ok: "cache_ok api pct secret R c2" "length c2 < presign_max_entries"
    by (auto simp: c2_def cache_ok_def presign_max_entries_def)
  have s: "presign_cache_store k url b cache = AList.update k (url, b) c2"
    by (simp add: presign_cache_store_def c2_def c1_def Let_def)
  have sub: "x \<in> set (AList.update k (url, b) c2) \<Longrightarrow> x = (k, url, b) \<or> x \<in> set c2" for x
    by (induction c2) (auto split: if_splits)
  have "distinct (map fst (AList.update k (url, b) c2))"
    using ok by (intro distinct_update) (simp add: cache_ok_def)
  moreover have "length (AList.update k (url, b) c2) \<le> presign_max_entries"
    using ok length_cache_update [of k "(url, b)" c2] by simp
  ultimately show ?thesis unfolding s cache_ok_def
    using sub ok assms(2) by (fastforce simp: cache_ok_def)
qed

lemma presign_step:
  assumes ok: "cache_ok api pct secret R cache" and local: "local_backend opr" and range: "call_in_range c"
    and new: "R (call_ttl c) (call_now c div int (call_ttl c)) (call_signed_at c)"
    and step: "presign_do api pct opr secret c cache = (r, cache')"
  shows "cache_ok api pct secret R cache' \<and>
         (\<exists>s. R (call_ttl c) (call_now c div int (call_ttl c)) s \<and>
              r = Some (Inr (url_of api pct secret (call_key c) (expiry_at (call_ttl c) s))))"
proof -
  let ?k = "call_key c" and ?b = "call_now c div int (call_ttl c)"
  let ?url = "url_of api pct secret ?k (expiry_at (call_ttl c) (call_signed_at c))"
  have b: "bucket_of (call_now c) (call_ttl c) = Some ?b"
    using range by (intro bucket_of_div) (auto simp: call_in_range_def)
  have e: "entry_ok api pct secret R ?k ?url ?b" using new by (auto simp: entry_ok_def call_ttl_def)
  show ?thesis
  proof (cases "presign_cache_hit ?k ?b cache")
    case None
    then have "r = Some (Inr ?url)" "cache' = presign_cache_store ?k ?url ?b cache"
      using step b uncached_url [OF local range] by (simp_all add: presign_do_cached presign_cached_def)
    then show ?thesis using cache_ok_store [OF ok e] new by blast
  next
    case (Some url)
    then have r: "r = Some (Inr url)" "cache' = cache" using step b by (simp_all add: presign_do_cached presign_cached_def)
    have "map_of cache ?k = Some (url, ?b)" using Some by (auto simp: presign_cache_hit_def split: option.splits if_splits)
    then have "entry_ok api pct secret R ?k url ?b" using ok map_of_SomeD by (fastforce simp: cache_ok_def)
    then show ?thesis using r ok by (auto simp: entry_ok_def call_ttl_def)
  qed
qed

lemma presign_run_ok:
  assumes "local_backend opr"
  shows "cache_ok api pct secret R cache \<Longrightarrow>
         (\<And>c. c \<in> set cs \<Longrightarrow> call_in_range c \<and> R (call_ttl c) (call_now c div int (call_ttl c)) (call_signed_at c)) \<Longrightarrow>
         presign_run api pct opr secret cs cache = (rs, cache') \<Longrightarrow>
         cache_ok api pct secret R cache' \<and>
         list_all2 (\<lambda>c r. \<exists>s. R (call_ttl c) (call_now c div int (call_ttl c)) s \<and>
              r = Some (Inr (url_of api pct secret (call_key c) (expiry_at (call_ttl c) s)))) cs rs"
proof (induction cs arbitrary: cache rs)
  case (Cons c cs)
  obtain r cache1 where d: "presign_do api pct opr secret c cache = (r, cache1)" by fastforce
  obtain rs1 where t: "presign_run api pct opr secret cs cache1 = (rs1, cache')" "rs = r # rs1"
    using Cons.prems(3) d by (auto split: prod.splits)
  note step = presign_step [OF Cons.prems(1) assms _ _ d]
  have "call_in_range c" "R (call_ttl c) (call_now c div int (call_ttl c)) (call_signed_at c)"
    using Cons.prems(2) [of c] by simp_all
  note s = step [OF this]
  have "cache_ok api pct secret R cache' \<and> list_all2 (\<lambda>c r. \<exists>s. R (call_ttl c) (call_now c div int (call_ttl c)) s \<and>
              r = Some (Inr (url_of api pct secret (call_key c) (expiry_at (call_ttl c) s)))) cs rs1"
    using Cons.IH [of cache1 rs1] s Cons.prems(2) t(1) by simp
  then show ?case using s t(2) by simp
qed simp

lemma cache_ok_empty: "cache_ok api pct secret R []"
  by (simp add: cache_ok_def)

section \<open>A concrete backend\<close>

definition demo_hmac :: hmac_api where
  "demo_hmac = \<lparr>hm_mac = (\<lambda>secret m. secret @ m), hm_hex = (\<lambda>b. b), hm_unhex = Some\<rparr>"

definition demo_fs :: storage_op where
  "demo_fs = \<lparr>so_presign = False, so_presign_read = False, so_presign_write = False,
     so_native_read = (\<lambda>_ _ _. Inl ''unsupported''), so_native_write = (\<lambda>_ _. Inl ''unsupported'')\<rparr>"

definition demo_routes :: presign_routes where
  "demo_routes = \<lparr>pr_authority = ''files.example.test'', pr_scheme = ''http'', pr_read = ''/storage'', pr_write = ''/storage-upload''\<rparr>"

definition demo_presign_calls :: "presign_call list" where
  "demo_presign_calls =
     [DownloadCall 1000 1000 ''k.mp4'' ''u1'' 900 None demo_routes, UploadCall 1001 1001 ''k.mp4'' ''u1'' 900 demo_routes,
      DownloadCall 1700 1701 ''k.mp4'' ''u1'' 900 None demo_routes]"

lemma demo_presign:
  "local_backend demo_fs" "\<forall>c\<in>set demo_presign_calls. call_in_range c"
  "\<forall>c\<in>set demo_presign_calls. call_now c div int (call_ttl c) = call_signed_at c div int (call_ttl c)"
  "hm_unhex demo_hmac (hm_hex demo_hmac b) = Some b"
  by (simp_all add: local_backend_def demo_fs_def demo_presign_calls_def call_in_range_def call_ttl_def download_key_def
      upload_key_def demo_hmac_def)

text \<open>The cache changes no URL: on the local backend every call of a run answers what it would have answered without
  the cache, whatever is found, stored or dropped, as long as its two clock readings fall into one bucket. So calls with
  the same arguments in the same bucket get the same URL.\<close>

theorem cache_changes_no_url:
  assumes local: "local_backend opr" and range: "\<forall>c\<in>set calls. call_in_range c"
    and bucket: "\<forall>c\<in>set calls. call_now c div int (call_ttl c) = call_signed_at c div int (call_ttl c)"
  shows "fst (presign_run api pct opr secret calls []) = map (presign_uncached api pct opr secret) calls"
proof -
  let ?R = "\<lambda>ttl b s. s div int ttl = b"
  obtain rs cache where run: "presign_run api pct opr secret calls [] = (rs, cache)" by fastforce
  have all: "list_all2 (\<lambda>c r. \<exists>s. ?R (call_ttl c) (call_now c div int (call_ttl c)) s \<and>
              r = Some (Inr (url_of api pct secret (call_key c) (expiry_at (call_ttl c) s)))) calls rs"
    using presign_run_ok [OF local cache_ok_empty [where R = ?R] _ run] range bucket by simp
  have "list_all2 (\<lambda>c r. presign_uncached api pct opr secret c = r) calls rs"
    by (rule list.rel_mono_strong [OF all]) (use range bucket uncached_url [OF local] in \<open>auto simp: expiry_at_def\<close>)
  then show ?thesis using run by (simp add: list_all2_map1 [symmetric] list.rel_eq)
qed

lemma cache_changes_no_url_witness:
  "fst (presign_run demo_hmac (\<lambda>s. s) demo_fs ''key'' demo_presign_calls []) =
     map (presign_uncached demo_hmac (\<lambda>s. s) demo_fs ''key'') demo_presign_calls"
  by (rule cache_changes_no_url [OF demo_presign(1,2,3)])

lemma verify_own_read:
  "(\<And>b. hm_unhex api (hm_hex api b) = Some b) \<Longrightarrow> verify_hmac api t key e (sign_read api key e creator secret) creator secret \<longleftrightarrow> t \<le> e"
  by (simp add: verify_hmac_def sign_read_def hmac_sign_def hmac_verify_def not_less)

text \<open>C37: a download URL of the local backend, fresh or from the cache, carries a token that the verifying route accepts
  until its expiry time, which is more than the lifetime after the call.\<close>

theorem signed_url_window:
  assumes local: "local_backend opr" and range: "\<forall>c\<in>set calls. call_in_range c"
    and hex: "\<And>b. hm_unhex api (hm_hex api b) = Some b"
    and call: "i < length calls" "calls ! i = DownloadCall now now' key creator ttl fname routes"
  shows "\<exists>expires. fst (presign_run api pct opr secret calls []) ! i =
             Some (Inr (fs_signed_url pct (pr_scheme routes) (pr_authority routes) (pr_read routes) key
               (sign_read api key expires creator secret) expires creator fname)) \<and>
           now + int ttl < expires \<and>
           (\<forall>t. verify_hmac api t key expires (sign_read api key expires creator secret) creator secret \<longleftrightarrow> t \<le> expires)"
proof -
  let ?R = "\<lambda>ttl b s. b \<le> s div int ttl" and ?c = "calls ! i"
  obtain rs cache where run: "presign_run api pct opr secret calls [] = (rs, cache)" by fastforce
  have later: "call_now c div int (call_ttl c) \<le> call_signed_at c div int (call_ttl c)" if "call_in_range c" for c
    using that by (intro zdiv_mono1) (auto simp: call_in_range_def)
  have "list_all2 (\<lambda>c r. \<exists>s. ?R (call_ttl c) (call_now c div int (call_ttl c)) s \<and>
              r = Some (Inr (url_of api pct secret (call_key c) (expiry_at (call_ttl c) s)))) calls rs"
    using presign_run_ok [OF local cache_ok_empty [where R = ?R] _ run] range later by simp
  then obtain s where s: "call_now ?c div int (call_ttl ?c) \<le> s div int (call_ttl ?c)"
      "rs ! i = Some (Inr (url_of api pct secret (call_key ?c) (expiry_at (call_ttl ?c) s)))"
    using call(1) list_all2_nthD by blast
  have ttl: "0 < ttl" using range call nth_mem by (fastforce simp: call_in_range_def call_ttl_def download_key_def)
  have "now + int ttl < (now div int ttl + 2) * int ttl" by (rule bucket_window(1)) (rule ttl)
  also have "\<dots> \<le> expiry_at ttl s"
    using s(1) call(2) by (simp add: expiry_at_def call_ttl_def download_key_def mult_right_mono)
  finally show ?thesis
    using s(2) call(2) run verify_own_read [OF hex]
    by (intro exI [of _ "expiry_at ttl s"]) (simp add: url_of_def call_ttl_def download_key_def)
qed

lemma signed_url_window_witness:
  "\<exists>expires. fst (presign_run demo_hmac (\<lambda>s. s) demo_fs ''key'' demo_presign_calls []) ! 2 =
       Some (Inr (fs_signed_url (\<lambda>s. s) (pr_scheme demo_routes) (pr_authority demo_routes) (pr_read demo_routes) ''k.mp4''
         (sign_read demo_hmac ''k.mp4'' expires ''u1'' ''key'') expires ''u1'' None)) \<and>
     1700 + int 900 < expires \<and>
     (\<forall>t. verify_hmac demo_hmac t ''k.mp4'' expires (sign_read demo_hmac ''k.mp4'' expires ''u1'' ''key'') ''u1'' ''key'' \<longleftrightarrow> t \<le> expires)"
  by (rule signed_url_window [OF demo_presign(1,2,4), where now' = 1701]) (simp_all add: demo_presign_calls_def)

section \<open>What a token is bound to\<close>

lemma no_colon_show_int: "CHR '':'' \<notin> set (show_int e)"
proof -
  have "\<not> is_digit_char (CHR '':'')" by (simp add: is_digit_char_def)
  then have "CHR '':'' \<notin> set (show_nat n)" for n using show_nat_rev_digits by (auto simp: show_nat_def)
  then show ?thesis by (simp add: show_int_def)
qed

lemma colon_first:
  assumes "CHR '':'' \<notin> set a" "CHR '':'' \<notin> set a'"
  shows "a @ CHR '':'' # b = a' @ CHR '':'' # b' \<longleftrightarrow> a = a' \<and> b = b'"
proof
  assume eq: "a @ CHR '':'' # b = a' @ CHR '':'' # b'"
  have "split_once CHR '':'' (a @ CHR '':'' # b) = Some (a, b)" using assms(1) by (subst split_once_Some_iff) simp
  moreover have "split_once CHR '':'' (a @ CHR '':'' # b) = Some (a', b')"
    unfolding eq using assms(2) by (subst split_once_Some_iff) simp
  ultimately show "a = a' \<and> b = b'" by simp
qed simp

lemma colon_last:
  assumes "CHR '':'' \<notin> set b" "CHR '':'' \<notin> set b'"
  shows "a @ CHR '':'' # b = a' @ CHR '':'' # b' \<longleftrightarrow> a = a' \<and> b = b'"
proof -
  have "a @ CHR '':'' # b = a' @ CHR '':'' # b' \<longleftrightarrow> rev b @ CHR '':'' # rev a = rev b' @ CHR '':'' # rev a'"
    by (metis append.assoc append_Cons append_Nil rev.simps(2) rev_append rev_rev_ident)
  then show ?thesis using colon_first [of "rev b" "rev b'" "rev a" "rev a'"] assms by auto
qed

lemma read_message_inj:
  "CHR '':'' \<notin> set c \<Longrightarrow> CHR '':'' \<notin> set c' \<Longrightarrow>
   read_message c k e = read_message c' k' e' \<longleftrightarrow> c = c' \<and> k = k' \<and> e = e'"
  unfolding read_message_def
  using colon_first [of c c' "k @ CHR '':'' # show_int e" "k' @ CHR '':'' # show_int e'"]
    colon_last [of "show_int e" "show_int e'" k k'] no_colon_show_int
  by simp

lemma upload_message_read: "upload_message c k e = read_message ''PUT'' (c @ '':'' @ k) e"
  by (simp add: upload_message_def read_message_def)

text \<open>Two different messages that have one tag under the secret: what an attacker has to find.\<close>

definition mac_collision :: "hmac_api \<Rightarrow> string \<Rightarrow> string \<Rightarrow> string \<Rightarrow> bool" where
  "mac_collision api secret m m' \<longleftrightarrow> m \<noteq> m' \<and> hm_mac api secret m = hm_mac api secret m'"

datatype access = ReadAccess | UploadAccess

fun access_message :: "access \<Rightarrow> string \<Rightarrow> string \<Rightarrow> int \<Rightarrow> string" where
  "access_message ReadAccess = read_message"
| "access_message UploadAccess = upload_message"

fun sign_access :: "access \<Rightarrow> hmac_api \<Rightarrow> string \<Rightarrow> int \<Rightarrow> string \<Rightarrow> string \<Rightarrow> string" where
  "sign_access ReadAccess = sign_read"
| "sign_access UploadAccess = sign_upload"

fun verify_access :: "access \<Rightarrow> hmac_api \<Rightarrow> int \<Rightarrow> string \<Rightarrow> int \<Rightarrow> string \<Rightarrow> string \<Rightarrow> string \<Rightarrow> bool" where
  "verify_access ReadAccess = verify_hmac"
| "verify_access UploadAccess = verify_upload_hmac"

lemma verify_access_message:
  assumes "\<And>b. hm_unhex api (hm_hex api b) = Some b"
  shows "verify_access acc' api t key' expires' (sign_access acc api key expires creator secret) creator' secret \<longleftrightarrow>
    t \<le> expires' \<and> hm_mac api secret (access_message acc' creator' key' expires') = hm_mac api secret (access_message acc creator key expires)"
  by (cases acc; cases acc')
    (simp_all add: verify_hmac_def verify_upload_hmac_def sign_read_def sign_upload_def hmac_verify_def hmac_sign_def assms not_less)

text \<open>A creator that is no part of the format of a message.\<close>

definition plain_creator :: "string \<Rightarrow> bool" where
  "plain_creator c \<longleftrightarrow> CHR '':'' \<notin> set c \<and> c \<noteq> ''PUT''"

lemma access_message_inj:
  assumes "plain_creator c" "plain_creator c'"
  shows "access_message acc c k e = access_message acc' c' k' e' \<longleftrightarrow> acc = acc' \<and> c = c' \<and> k = k' \<and> e = e'"
proof -
  have p: "CHR '':'' \<notin> set ''PUT''" by simp
  have c: "CHR '':'' \<notin> set c" "CHR '':'' \<notin> set c'" "c \<noteq> ''PUT''" "c' \<noteq> ''PUT''" using assms by (simp_all add: plain_creator_def)
  have cc: "c @ '':'' @ k = c' @ '':'' @ k' \<longleftrightarrow> c = c' \<and> k = k'" using colon_first [OF c(1,2), of k k'] by simp
  show ?thesis
  proof (cases acc; cases acc')
    assume "acc = ReadAccess" "acc' = ReadAccess"
    then show ?thesis using read_message_inj [OF c(1,2), of k e k' e'] by simp
  next
    assume "acc = ReadAccess" "acc' = UploadAccess"
    then show ?thesis using read_message_inj [OF c(1) p] c(3) by (simp add: upload_message_read)
  next
    assume "acc = UploadAccess" "acc' = ReadAccess"
    then show ?thesis using read_message_inj [OF p c(2)] c(4) by (simp add: upload_message_read)
  next
    assume "acc = UploadAccess" "acc' = UploadAccess"
    then show ?thesis using read_message_inj [OF p p, of "c @ '':'' @ k" e "c' @ '':'' @ k'" e'] cc by (simp add: upload_message_read)
  qed
qed

text \<open>C38: a token is accepted until its expiry for the kind, key, expiry and creator it was signed for, and whenever it is
  accepted for anything else, the two signed messages are different and have one tag: a collision of the HMAC
  under the secret. The creators of both are without a colon and not PUT.\<close>

theorem token_binds_access:
  assumes hex: "\<And>b. hm_unhex api (hm_hex api b) = Some b" and plain: "plain_creator creator" "plain_creator creator'"
  shows "(verify_access acc api t key expires (sign_access acc api key expires creator secret) creator secret \<longleftrightarrow> t \<le> expires) \<and>
    (verify_access acc' api t key' expires' (sign_access acc api key expires creator secret) creator' secret \<longrightarrow>
       t \<le> expires' \<and>
       (acc' = acc \<and> key' = key \<and> expires' = expires \<and> creator' = creator \<or>
        mac_collision api secret (access_message acc creator key expires) (access_message acc' creator' key' expires')))"
  unfolding verify_access_message [OF hex] mac_collision_def access_message_inj [OF plain] by auto

text \<open>The demonstration's tag is the secret with the message, so it has no collisions.\<close>

lemma demo_no_collision: "\<not> mac_collision demo_hmac secret m m'"
  by (simp add: mac_collision_def demo_hmac_def)

lemma token_binds_access_witness:
  "verify_hmac demo_hmac 5 ''k'' 9 (sign_read demo_hmac ''k'' 9 ''u1'' ''s'') ''u1'' ''s'' \<and>
   \<not> verify_hmac demo_hmac 5 ''k'' 9 (sign_read demo_hmac ''k'' 9 ''u1'' ''s'') ''u2'' ''s'' \<and>
   \<not> verify_upload_hmac demo_hmac 5 ''k'' 9 (sign_read demo_hmac ''k'' 9 ''u1'' ''s'') ''u1'' ''s''"
proof -
  have p: "plain_creator ''u1''" "plain_creator ''u2''" by (simp_all add: plain_creator_def)
  note binds = token_binds_access [where api = demo_hmac and secret = "''s''" and acc = ReadAccess and key = "''k''" and key' = "''k''"
      and expires = 9 and expires' = 9 and t = 5, OF demo_presign(4) p(1)]
  from binds [OF p(1), of ReadAccess] binds [OF p(2), of ReadAccess] binds [OF p(1), of UploadAccess]
  show ?thesis by (simp add: demo_no_collision)
qed

text \<open>Without these limits the message is ambiguous: a creator with a colon shares tokens with another, and a download token
  of the creator PUT is an upload token.\<close>

lemma download_token_uploads:
  "sign_read api (creator @ '':'' @ key) expires ''PUT'' secret = sign_upload api key expires creator secret"
  by (simp add: sign_read_def sign_upload_def upload_message_read)

lemma colon_creator_shares_token:
  "sign_read api key expires (a @ '':'' @ b) secret = sign_read api (b @ '':'' @ key) expires a secret"
  by (simp add: sign_read_def read_message_def)

text \<open>The cache is bounded for every backend.\<close>

lemma length_cache_store:
  assumes "length cache \<le> presign_max_entries"
  shows "length (presign_cache_store k url b cache) \<le> presign_max_entries"
proof -
  define c1 where "c1 = (if presign_max_entries \<le> length cache then filter (\<lambda>(_, _, b'). b \<le> b') cache else cache)"
  define c2 where "c2 = (if presign_max_entries \<le> length c1 then [] else c1)"
  have "length c2 < presign_max_entries" by (auto simp: c2_def presign_max_entries_def)
  then have "length (AList.update k (url, b) c2) \<le> presign_max_entries"
    using length_cache_update [of k "(url, b)" c2] by simp
  moreover have "presign_cache_store k url b cache = AList.update k (url, b) c2"
    by (simp add: presign_cache_store_def c2_def c1_def Let_def)
  ultimately show ?thesis by simp
qed

lemma presign_cache_bounded:
  "length cache \<le> presign_max_entries \<Longrightarrow> length (snd (presign_run api pct opr secret calls cache)) \<le> presign_max_entries"
proof (induction calls arbitrary: cache)
  case (Cons c cs)
  have "length (snd (presign_do api pct opr secret c cache)) \<le> presign_max_entries"
    using Cons.prems length_cache_store
    by (auto simp: presign_do_cached presign_cached_def split: option.splits sum.splits)
  then show ?case
    using Cons.IH [of "snd (presign_do api pct opr secret c cache)"] by (simp add: case_prod_beta)
qed simp

end
