(* ===== verification/Spec2Isabelle.thy ===== *)
theory Spec2Isabelle
  imports Flow_Core_Props Flow_Graph_Props Flow_Lint_Props Flow_Findings Flow_Worker Ai_Props Sql_Props Core_Props Rpc_Props Fusions_Data Web_Auth Web_Rate Ai_Asr_Props Ai_LlmFactory Ai_Llm_Props Ai_Usage_Props Mq_Props Sec_Props Storage_Props
begin

text \<open>
  Verification development of the fusions repository: the workflow engine hetuflow, the graph
  executor of fusion-ai, and the framework parts below them. Every definition that models code is
  translated from the Rust source under src/crates, its name is the name of the function or type it
  models (with a prefix per struct for record fields, and a suffix where HOL has the name already).

  \<^bold>\<open>Conventions\<close> (Flow_Prelude). \<open>Result<T, E>\<close> is \<open>'e + 'a\<close>, \<open>Option\<close> is \<open>option\<close>, a \<open>String\<close> is its
  list of bytes, integers are \<open>int\<close> or \<open>nat\<close> with casts, saturation and range checks written out where
  the source has them. What is not in the repository is a parameter: the CEL evaluator, the uuid, serde
  and chrono crates, SHA-256, the SQL server behind a driver, the adapter's ports. The facts relied on
  are named predicates (\<open>uuid_text_ok\<close>, \<open>snapshot_codec_ok\<close>, \<open>env_ok\<close>, \<open>server_laws\<close>, \<open>failure_laws\<close>,
  \<open>rounds_up_by\<close>).

  \<^bold>\<open>hetuflow\<close>. A definition is a graph of nodes and transitions; an instance of it is a row with its
  activities, timers, outbox records and an append-only event log; commands and workers change them, each
  in one transaction.

  Transactions are serial: a handler runs from its first read to its commit on one database. \<open>signal\<close> and
  \<open>resubmit\<close> lock the row of their instance, which gives them that; \<open>fire_timer\<close> and
  \<open>on_notification_delivered\<close> read it without a lock, rest on the row locks of their timer and outbox record, and do
  not look at the answer of their update of the activity. What may interleave with them inside one
  transaction is not modelled.

    \<^item> Flow_Json, Flow_Core, Flow_Model: crates/hetuflow-core/src/lib.rs. JSON values and their canonical
      text, the enums with their database codes, the graph model, rows, event types, the back-off.
    \<^item> Flow_Runtime, Flow_Validate, Flow_Lint: crates/hetuflow-runtime/src/{guard_eval,lib}.rs. Which node
      an instance advances to (\<open>decide_start\<close>, \<open>decide_advance\<close>, \<open>resolve_target\<close>), which definitions are
      accepted (\<open>validate_definition\<close>), which warnings they get (\<open>lint_definition\<close>).
    \<^item> Flow_Replay: crates/hetuflow-runtime/src/replay.rs. The reducer of the event log and the drift check.
    \<^item> Flow_Db, Flow_Store: crates/hetuflow-sqlx/src/lib.rs. The five tables as lists of rows and one
      operation per method, with its \<open>WHERE\<close> guards and the unique index on the business key.
    \<^item> Flow_Ports, Flow_Service, Flow_Engine, Flow_Handlers: crates/hetuflow-service/src/{ports,command,
      service}.rs. The transaction monad, the outcome recursion and the handlers \<open>start\<close>, \<open>signal\<close>,
      \<open>resubmit\<close>, \<open>cancel\<close>, \<open>fire_timer\<close>, the deliveries and \<open>verify_projection\<close>.
    \<^item> Flow_Worker: crates/hetuflow-service/src/worker.rs. One pass of the outbox dispatcher and of the
      timer poller.

  Lemma groups. Flow_Runtime_Facts and Flow_Graph_Facts relate the decision to paths of the graph.
  Flow_Sync to Flow_Sync_Handlers are a triple for transaction bodies and the proof that every handler
  keeps the rows equal to the fold of the log. Flow_Isolation and Flow_Isolation_Handlers show that a
  handler leaves other instances alone and the tables sound. Flow_Run composes them: a step of the engine
  is one committed transaction, \<open>reachable\<close> is its closure, \<open>engine_inv\<close> its invariant. Flow_Contracts states
  what the engine needs of its store as locales (\<open>guarded_update\<close>, \<open>one_shot\<close>, \<open>event_log\<close>,
  \<open>dictionary\<close>) and interprets them on Flow_Store and Flow_Ports. Flow_Returns bounds the recursion.
  Flow_Core_Props, Flow_Graph_Props, Flow_Lint_Props, Flow_Run_Props, Flow_Engine_Props and
  Flow_Findings hold the properties; Flow_Demo and Flow_Run_Demo the concrete definitions, environment
  and runs of the witnesses.

  Fuel. \<open>apply_outcome\<close> recurs through fan-out and joins; the source has no bound. The model returns \<open>None\<close>
  when its fuel ends. \<open>apply_outcome_mono\<close> shows that more fuel never changes a result and
  \<open>signal_terminates\<close> that the rank of the joins plus a constant is enough when satisfied joins advance into
  joins of lower rank; on a join that advances into itself no fuel is enough and the engine never
  returns. \<open>resolve_target\<close> needs none: the source bounds its depth by eight.

  \<^bold>\<open>fusion-ai graph_flow\<close> (crates/fusion-ai/src/graph_flow). Ai_Context: contexts as cells of a heap,
  because a clone shares them, the bounded chat history and the JSON form. Ai_Graph: tasks (parameters
  that may change every context), the builder, \<open>find_next_task\<close>, and the executor as a partial function
  whose \<open>None\<close> is a step that never returns. Ai_Runner: the in-memory and the PostgreSQL session stores
  (what \<open>JSONB\<close> refuses and makes of a fraction is an argument) and the runner, and the joins of concurrent children. Ai_Graph_Facts holds the facts of the executor,
  Ai_Contracts the locale of a session store with its two interpretations, Ai_Props the properties.

  \<^bold>\<open>fusion-sql\<close> (crates/fusion-sql/src). Sql_Dbx: the database handle with its counter of nested begins
  and its savepoint names, the model manager's closures in a transaction, the choice of the provider.
  Sql_Txn: the refinement of the abstract nested transactions, over any server with the documented laws of
  savepoints. Sql_Props: closures as trees of statements and inner transactions, what the server does on
  failures (\<open>failure_laws\<close>), and atomicity at every depth.

  \<^bold>\<open>fusion-core\<close> (crates/fusion-core/src/{application.rs, plugin, component}). Core_App: the registry of
  components, the builder, the rounds that build the plugins and install the components, the application
  and its shutdown hooks (a build that panics, as the message queue's does on a bad configuration, ends the
  process and has no value here). Core_Order: the rounds find an order of the plugins whenever there is one.
  Core_Props: the properties.


  \<^bold>\<open>Request path\<close> (crates/fusion-common/src/ctx, crates/fusion-core/src/security, crates/fusion-rpc/src,
  crates/fusion-web/src). Common_Ctx: the session context and the token functions. Rpc_Auth: the layers
  AuthLayer and ContextValidationLayer, with Rpc_Auth_Facts (the header map as the interface
  \<open>header_store\<close>) and Rpc_Props. Web_Auth: extractors and the layer WebAuth. Web_Rate: the token-bucket
  limiter; a floating-point operation is the exact one followed by a rounding parameter, of which the bound on
  admitted requests assumes the standard model of rounding errors.

  \<^bold>\<open>Errors\<close> (crates/fusions/src/error.rs and the error.rs of each crate). Fusions_Error: the codes,
  WebError and the error enums. Fusions_Data: DataError, its conversions, and how HTTP, RPC and the
  database error model agree.

  \<^bold>\<open>Speech\<close> (crates/fusion-ai/src/{speech_to_text/mod.rs, providers/dashscope/fun_asr.rs}). Ai_Speech: the
  types, the checks and messages of the Fun-ASR client and the decoding of the server's frames.
  Ai_AsrSession: a session as a run over what the socket delivers, and the uplink pump. Ai_Asr_Props: the
  transcript, the request and the pump. Common_Text holds the text functions and the facts
  about sorted objects that the framework theories share.

  \<^bold>\<open>Language models\<close> (crates/fusion-ai/src/{providers/openai_compatible, llm, json_utils.rs}). Ai_OpenAi: the
  message model that no provider owns. Ai_Completion: Chat Completions, its wire messages with their JSON
  in both directions, the request and one exchange. Ai_CompletionStream: the stream as a fold over the
  events of the transport, with the tool calls that are still open. Ai_Responses, Ai_ResponsesWire,
  Ai_ResponsesAnswer: the Responses form of the same, with the closing of tool schemas and a stream that
  ends at a terminal event. Ai_Llm: the chat abstraction and its transport over both forms, with the client
  that is built once. Ai_LlmFactory: the providers and the factory. Ai_Llm_Props: the
  properties. The HTTP exchange, the cutting of bytes into events, and the text of a JSON value are
  arguments (\<open>send\<close>, \<open>print\<close>, \<open>parse\<close>); the iteration order of the hash map of open calls is one too
  (\<open>order\<close>).
  Ai_Usage: the metering decorator and the pipeline that writes its events in batches, callers and writer
  interleaved by \<open>usage_step\<close>; Ai_Usage_Props: what it accounts for and that it drains.

  \<^bold>\<open>Message queue\<close> (crates/fusion-mq/src). Mq_Queue: events, errors, configuration and the provider, each
  operation one statement or transaction on the table \<open>event_queue\<close>. Mq_Props: runs of any calls by producers,
  consumers and reapers, the invariant \<open>queue_ok\<close> that ties each row to what was seen of its event, and
  what follows for claims, deliveries and crashes.

  \<^bold>\<open>Credentials\<close> (crates/fusion-security/src/{pwd, captcha, oauth/mod}.rs). Sec_Captcha: passwords and the one-shot
  captcha. Sec_OAuth: the OAuth client over any token store. Sec_Props: the captcha over any sequence of
  challenges and answers, the token store as the interface \<open>token_store\<close> with the in-memory store as its
  interpretation, and what the client keeps.

  \<^bold>\<open>Storage\<close> (crates/fusion-storage/src). Storage_Presign: signatures, presigned URLs with their cache, the choice of
  the backend. Storage_Props: runs over the shared cache, the lifetime of a URL, what a token is bound to (a foreign
  use of a token is reduced to a collision of the HMAC, of which nothing is assumed).

  \<^bold>\<open>Properties\<close>. They are numbered C1 to C40 in the order of importance and stand in the theories named
  above, each behind a text that states it and, when it has hypotheses, before a theorem that applies it to
  concrete data.

  \<^bold>\<open>Not modelled\<close>. Network clients and servers (mail, object storage, HTTP handlers, the
  embedding, image, audio and transcription endpoints), procedural macros, logging and tracing: they call third-party crates and
  compute nothing that a definition could state. The loops that sleep between the passes of the workers;
  crashes between a side effect and its commit, beyond the leases that cover them; the migrations.
\<close>

end
